(* ===== verification/Prelude.thy ===== *)
theory Prelude
  imports Main "HOL-Library.AList" "HOL-Library.List_Lexorder" "HOL-Library.Char_ord"
    "HOL-Library.Product_Lexorder"
begin

section \<open>Prelude: computations, ordered dictionaries, Python lists\<close>

text \<open>
  What every component shares. A method that reads and writes state and may raise is a
  computation \<open>('s, 'a) comp\<close>: it takes the state and returns either the exception it raised or
  its value, together with the state it leaves behind. A raise does not roll the state back:
  assignments made before it stay, as they do in Python. A Python \<open>dict\<close> is an association list
  in insertion order, written with \<^const>\<open>AList.update\<close> (which overwrites in place and appends a
  new key at the end) and \<^const>\<open>AList.delete\<close>.
\<close>

named_theorems comp_simps \<open>unfolding rules of the computation combinators\<close>
named_theorems keeps_intros \<open>rules that reduce preservation of a state predicate\<close>

subsection \<open>Exceptions and computations\<close>

text \<open>
  The exceptions the modelled code raises or lets through, with their message; the last one is an
  exception of another class (a timeout, an error of a transport), with the name of its class.
\<close>

datatype exn =
    ValueError string
  | KeyError string
  | TypeError string
  | RuntimeError string
  | OverflowError string
  | OtherError string string

type_synonym ('s, 'a) comp = "'s \<Rightarrow> (exn + 'a) \<times> 's"

definition retM :: "'a \<Rightarrow> ('s, 'a) comp" where
  "retM x = (\<lambda>s. (Inr x, s))"

definition raiseM :: "exn \<Rightarrow> ('s, 'a) comp" where
  "raiseM e = (\<lambda>s. (Inl e, s))"

definition bindM :: "('s, 'a) comp \<Rightarrow> ('a \<Rightarrow> ('s, 'b) comp) \<Rightarrow> ('s, 'b) comp" where
  "bindM m f = (\<lambda>s. case m s of (Inl e, t) \<Rightarrow> (Inl e, t) | (Inr x, t) \<Rightarrow> f x t)"

text \<open>Run one computation and then another, dropping the first one's value.\<close>

definition seqM :: "('s, 'a) comp \<Rightarrow> ('s, 'b) comp \<Rightarrow> ('s, 'b) comp" where
  "seqM m n = bindM m (\<lambda>_. n)"

definition getM :: "('s \<Rightarrow> 'a) \<Rightarrow> ('s, 'a) comp" where
  "getM f = (\<lambda>s. (Inr (f s), s))"

definition modM :: "('s \<Rightarrow> 's) \<Rightarrow> ('s, unit) comp" where
  "modM f = (\<lambda>s. (Inr (), f s))"

definition liftM :: "exn + 'a \<Rightarrow> ('s, 'a) comp" where
  "liftM r = (\<lambda>s. (r, s))"

text \<open>\<open>if c: raise e\<close>\<close>

definition raise_if :: "bool \<Rightarrow> exn \<Rightarrow> ('s, unit) comp" where
  "raise_if c e = (if c then raiseM e else retM ())"

text \<open>\<open>if c: m\<close>\<close>

definition whenM :: "bool \<Rightarrow> ('s, unit) comp \<Rightarrow> ('s, unit) comp" where
  "whenM c m = (if c then m else retM ())"

text \<open>\<open>[f(x) for x in xs]\<close>, left to right, stopping at the first exception.\<close>

primrec mapM :: "('a \<Rightarrow> ('s, 'b) comp) \<Rightarrow> 'a list \<Rightarrow> ('s, 'b list) comp" where
  "mapM f [] = retM []"
| "mapM f (x # xs) = bindM (f x) (\<lambda>y. bindM (mapM f xs) (\<lambda>ys. retM (y # ys)))"

text \<open>\<open>for x in xs: body(x)\<close> with an accumulator for the local variables the body assigns.\<close>

primrec foldM :: "('a \<Rightarrow> 'acc \<Rightarrow> ('s, 'acc) comp) \<Rightarrow> 'a list \<Rightarrow> 'acc \<Rightarrow> ('s, 'acc) comp" where
  "foldM f [] acc = retM acc"
| "foldM f (x # xs) acc = bindM (f x acc) (foldM f xs)"

text \<open>\<open>try: m except Exception as e: h(e)\<close>: the handler starts in the state the failure left.\<close>

definition catchM :: "('s, 'a) comp \<Rightarrow> (exn \<Rightarrow> ('s, 'a) comp) \<Rightarrow> ('s, 'a) comp" where
  "catchM m h = (\<lambda>s. case m s of (Inl e, t) \<Rightarrow> h e t | (Inr x, t) \<Rightarrow> (Inr x, t))"

text \<open>Run a computation of a part of the state inside the whole.\<close>

definition zoomM :: "('w \<Rightarrow> 's) \<Rightarrow> ('s \<Rightarrow> 'w \<Rightarrow> 'w) \<Rightarrow> ('s, 'a) comp \<Rightarrow> ('w, 'a) comp" where
  "zoomM get put m = (\<lambda>w. case m (get w) of (r, s) \<Rightarrow> (r, put s w))"

lemma retM_app [simp, comp_simps]: "retM x s = (Inr x, s)"
  by (simp add: retM_def)

lemma raiseM_app [simp, comp_simps]: "raiseM e s = (Inl e, s)"
  by (simp add: raiseM_def)

lemma getM_app [simp, comp_simps]: "getM f s = (Inr (f s), s)"
  by (simp add: getM_def)

lemma modM_app [simp, comp_simps]: "modM f s = (Inr (), f s)"
  by (simp add: modM_def)

lemma liftM_app [simp, comp_simps]: "liftM r s = (r, s)"
  by (simp add: liftM_def)

lemma raise_if_app [simp, comp_simps]:
  "raise_if c e s = (if c then (Inl e, s) else (Inr (), s))"
  by (simp add: raise_if_def)

lemma whenM_app [simp, comp_simps]: "whenM c m s = (if c then m s else (Inr (), s))"
  by (simp add: whenM_def)

lemma bindM_app [comp_simps]:
  "bindM m f s = (case m s of (Inl e, t) \<Rightarrow> (Inl e, t) | (Inr x, t) \<Rightarrow> f x t)"
  by (simp add: bindM_def)

lemma seqM_app [comp_simps]:
  "seqM m n s = (case m s of (Inl e, t) \<Rightarrow> (Inl e, t) | (Inr x, t) \<Rightarrow> n t)"
  by (simp add: seqM_def bindM_def)

lemma bindM_Inr: "m s = (Inr x, t) \<Longrightarrow> bindM m f s = f x t"
  by (simp add: bindM_def)

lemma bindM_Inl: "m s = (Inl e, t) \<Longrightarrow> bindM m f s = (Inl e, t)"
  by (simp add: bindM_def)

lemma bindM_retM [simp]: "bindM (retM x) f = f x"
  by (simp add: bindM_def retM_def)

lemma bindM_assoc: "bindM (bindM m f) g = bindM m (\<lambda>x. bindM (f x) g)"
  by (auto simp: bindM_def fun_eq_iff split: prod.splits sum.splits)

lemma bindM_success:
  assumes "bindM m f s = (Inr y, t)"
  obtains x u where "m s = (Inr x, u)" and "f x u = (Inr y, t)"
  using assms by (auto simp: bindM_def split: prod.splits sum.splits)

subsection \<open>Preservation of a state predicate\<close>

text \<open>
  \<open>keeps P m\<close>: from a state where \<open>P\<close> holds, \<open>m\<close> leaves a state where it holds, whether it returns
  or raises. The introduction rules follow the combinators, so that an invariant of an operation
  reduces to its primitive writes.
\<close>

definition keeps :: "('s \<Rightarrow> bool) \<Rightarrow> ('s, 'a) comp \<Rightarrow> bool" where
  "keeps P m \<longleftrightarrow> (\<forall>s. P s \<longrightarrow> P (snd (m s)))"

lemma keepsI: "(\<And>s. P s \<Longrightarrow> P (snd (m s))) \<Longrightarrow> keeps P m"
  by (simp add: keeps_def)

lemma keepsD: "keeps P m \<Longrightarrow> P s \<Longrightarrow> P (snd (m s))"
  by (simp add: keeps_def)

lemma keepsD_eq: "keeps P m \<Longrightarrow> P s \<Longrightarrow> m s = (r, t) \<Longrightarrow> P t"
  by (metis keepsD snd_conv)

lemma keeps_Pair [keeps_intros, simp]: "keeps P (Pair r)"
  by (simp add: keeps_def)

lemma keeps_ret [keeps_intros]: "keeps P (retM x)"
  by (simp add: keeps_def)

lemma keeps_raise [keeps_intros]: "keeps P (raiseM e)"
  by (simp add: keeps_def)

lemma keeps_get [keeps_intros]: "keeps P (getM f)"
  by (simp add: keeps_def)

lemma keeps_lift [keeps_intros]: "keeps P (liftM r)"
  by (simp add: keeps_def)

lemma keeps_raise_if [keeps_intros]: "keeps P (raise_if c e)"
  by (simp add: keeps_def)

lemma keeps_when [keeps_intros]: "keeps P m \<Longrightarrow> keeps P (whenM c m)"
  by (simp add: keeps_def)

lemma keeps_bind [keeps_intros]:
  "keeps P m \<Longrightarrow> (\<And>x. keeps P (f x)) \<Longrightarrow> keeps P (bindM m f)"
  unfolding keeps_def bindM_def
  by (fastforce split: prod.splits sum.splits dest: spec)

lemma keeps_seq [keeps_intros]: "keeps P m \<Longrightarrow> keeps P n \<Longrightarrow> keeps P (seqM m n)"
  unfolding seqM_def by (rule keeps_bind)

lemma keeps_catch [keeps_intros]:
  "keeps P m \<Longrightarrow> (\<And>e. keeps P (h e)) \<Longrightarrow> keeps P (catchM m h)"
  unfolding keeps_def catchM_def
  by (fastforce split: prod.splits sum.splits dest: spec)

lemma keeps_if [keeps_intros]: "keeps P m \<Longrightarrow> keeps P n \<Longrightarrow> keeps P (if c then m else n)"
  by simp

lemma keeps_Let [keeps_intros]: "(\<And>x. keeps P (f x)) \<Longrightarrow> keeps P (Let v f)"
  by simp

lemma keeps_case_option [keeps_intros]:
  "keeps P m \<Longrightarrow> (\<And>x. keeps P (f x)) \<Longrightarrow> keeps P (case y of None \<Rightarrow> m | Some x \<Rightarrow> f x)"
  by (cases y) simp_all

lemma keeps_case_prod [keeps_intros]:
  "(\<And>x y. keeps P (f x y)) \<Longrightarrow> keeps P (case p of (x, y) \<Rightarrow> f x y)"
  by (cases p) simp

lemma keeps_mapM [keeps_intros]: "(\<And>x. keeps P (f x)) \<Longrightarrow> keeps P (mapM f xs)"
  by (induction xs) (auto intro!: keeps_intros)

lemma keeps_mapM_in: "(\<And>x. x \<in> set xs \<Longrightarrow> keeps P (f x)) \<Longrightarrow> keeps P (mapM f xs)"
  by (induction xs) (auto intro!: keeps_intros)

lemma keeps_foldM [keeps_intros]:
  "(\<And>x a. keeps P (f x a)) \<Longrightarrow> keeps P (foldM f xs acc)"
proof (induction xs arbitrary: acc)
  case Nil
  then show ?case by simp
next
  case (Cons x xs)
  then show ?case by (auto intro: keeps_bind)
qed

lemma keeps_zoom:
  "(\<And>w s. P w \<Longrightarrow> Q (get w)) \<Longrightarrow> (\<And>w s. P w \<Longrightarrow> Q s \<Longrightarrow> P (put s w)) \<Longrightarrow> keeps Q m
    \<Longrightarrow> keeps P (zoomM get put m)"
  unfolding keeps_def zoomM_def by (fastforce split: prod.splits dest: spec)

text \<open>A computation that writes nothing.\<close>

definition reads_only :: "('s, 'a) comp \<Rightarrow> bool" where
  "reads_only m \<longleftrightarrow> (\<forall>s. snd (m s) = s)"

lemma reads_only_keeps: "reads_only m \<Longrightarrow> keeps P m"
  by (simp add: reads_only_def keeps_def)

subsection \<open>Ordered dictionaries\<close>

text \<open>\<open>d.get(k)\<close>, \<open>d[k] = v\<close>, \<open>d.pop(k, None)\<close> and \<open>d.values()\<close>.\<close>

type_synonym ('k, 'v) dict = "('k \<times> 'v) list"

abbreviation dict_get :: "('k, 'v) dict \<Rightarrow> 'k \<Rightarrow> 'v option" where
  "dict_get \<equiv> map_of"

abbreviation dict_set :: "'k \<Rightarrow> 'v \<Rightarrow> ('k, 'v) dict \<Rightarrow> ('k, 'v) dict" where
  "dict_set \<equiv> AList.update"

abbreviation dict_pop :: "'k \<Rightarrow> ('k, 'v) dict \<Rightarrow> ('k, 'v) dict" where
  "dict_pop \<equiv> AList.delete"

abbreviation dict_values :: "('k, 'v) dict \<Rightarrow> 'v list" where
  "dict_values d \<equiv> map snd d"

abbreviation dict_keys :: "('k, 'v) dict \<Rightarrow> 'k list" where
  "dict_keys d \<equiv> map fst d"

text \<open>\<open>d.update(e)\<close> and \<open>{**d, **e}\<close>: the keys of \<open>e\<close> win.\<close>

definition dict_update :: "('k, 'v) dict \<Rightarrow> ('k, 'v) dict \<Rightarrow> ('k, 'v) dict" where
  "dict_update d e = foldl (\<lambda>acc kv. dict_set (fst kv) (snd kv) acc) d e"

text \<open>\<open>dict(pairs)\<close>, and a dictionary display: a later pair with the same key wins.\<close>

definition dict_of :: "('k \<times> 'v) list \<Rightarrow> ('k, 'v) dict" where
  "dict_of kvs = dict_update [] kvs"

lemma dict_get_set [simp]: "dict_get (dict_set k v d) = (dict_get d)(k \<mapsto> v)"
  by (simp add: update_conv')

lemma dict_get_pop [simp]: "dict_get (dict_pop k d) = (dict_get d)(k := None)"
  by (simp add: delete_conv')

lemma dict_get_update:
  "dict_get (dict_update d e) k = (case dict_get (rev e) k of Some v \<Rightarrow> Some v | None \<Rightarrow> dict_get d k)"
  unfolding dict_update_def
  by (induction e rule: rev_induct) (auto split: option.splits)

lemma distinct_dict_set [intro]: "distinct (dict_keys d) \<Longrightarrow> distinct (dict_keys (dict_set k v d))"
  by (rule distinct_update)

lemma distinct_dict_pop [intro]: "distinct (dict_keys d) \<Longrightarrow> distinct (dict_keys (dict_pop k d))"
  by (rule distinct_delete)

lemma dict_values_get:
  "distinct (dict_keys d) \<Longrightarrow> v \<in> set (dict_values d) \<longleftrightarrow> (\<exists>k. dict_get d k = Some v)"
  by (induction d) (auto simp: image_iff split: if_splits, force+)

lemma dict_get_values: "dict_get d k = Some v \<Longrightarrow> v \<in> set (dict_values d)"
  by (force dest: map_of_SomeD simp: image_iff)

subsection \<open>Python lists\<close>

text \<open>\<open>xs[:max(0, n)]\<close>; \<open>nat\<close> of a negative number is 0.\<close>

definition slice_to :: "int \<Rightarrow> 'a list \<Rightarrow> 'a list" where
  "slice_to n xs = take (nat n) xs"

text \<open>
  \<open>xs.sort(key=f, reverse=r)\<close>. Python's sort is stable, and with \<open>reverse=True\<close> elements of equal
  key keep their order too: it sorts the reversed list and reverses the result.
\<close>

definition py_sort :: "bool \<Rightarrow> ('a \<Rightarrow> 'k::linorder) \<Rightarrow> 'a list \<Rightarrow> 'a list" where
  "py_sort reverse f xs = (if reverse then rev (sort_key f (rev xs)) else sort_key f xs)"

text \<open>\<open>max(xs, key=f, default=None)\<close>: the first element with the largest key.\<close>

fun max_by :: "('a \<Rightarrow> 'k::linorder) \<Rightarrow> 'a list \<Rightarrow> 'a option" where
  "max_by f [] = None"
| "max_by f (x # xs) = Some (foldl (\<lambda>m y. if f m < f y then y else m) x xs)"

text \<open>\<open>next((x for x in xs if p(x)), None)\<close> is \<^const>\<open>List.find\<close>; \<open>if x not in xs: xs.append(x)\<close>:\<close>

definition add_new :: "'a \<Rightarrow> 'a list \<Rightarrow> 'a list" where
  "add_new x xs = (if x \<in> set xs then xs else xs @ [x])"

text \<open>\<open>a or b\<close> on strings.\<close>

definition or_str :: "string \<Rightarrow> string \<Rightarrow> string" where
  "or_str a b = (if a = [] then b else a)"

lemma set_py_sort [simp]: "set (py_sort r f xs) = set xs"
  by (simp add: py_sort_def)

lemma length_py_sort [simp]: "length (py_sort r f xs) = length xs"
  by (simp add: py_sort_def)

lemma sorted_py_sort: "sorted (map f (py_sort False f xs))"
  by (simp add: py_sort_def)

lemma sorted_py_sort_rev: "sorted (map f (rev (py_sort True f xs)))"
  by (simp add: py_sort_def)

lemma set_slice_to: "set (slice_to n xs) \<subseteq> set xs"
  unfolding slice_to_def by (rule set_take_subset)

lemma length_slice_to: "length (slice_to n xs) = min (nat n) (length xs)"
  by (simp add: slice_to_def min.commute)

lemma or_str_simps [simp]: "or_str [] b = b" "or_str (c # a) b = c # a"
  by (simp_all add: or_str_def)

lemma set_add_new [simp]: "set (add_new x xs) = insert x (set xs)"
  by (auto simp: add_new_def)

lemma max_by_foldl:
  fixes f :: "'a \<Rightarrow> 'k::linorder"
  shows "foldl (\<lambda>m y. if f m < f y then y else m) x xs \<in> insert x (set xs) \<and>
   (\<forall>y \<in> insert x (set xs). f y \<le> f (foldl (\<lambda>m y. if f m < f y then y else m) x xs))"
proof (induction xs arbitrary: x)
  case Nil
  then show ?case by simp
next
  case (Cons z zs)
  from Cons.IH [of "if f x < f z then z else x"] show ?case
    by (auto split: if_splits intro: order.trans [of "f x" "f z"] order.trans [of "f z" "f x"])
qed

lemma max_by_Some: "max_by f xs = Some m \<Longrightarrow> m \<in> set xs \<and> (\<forall>y \<in> set xs. f y \<le> f m)"
  using max_by_foldl [of f "hd xs" "tl xs"] by (cases xs) auto

lemma max_by_None [simp]: "max_by f xs = None \<longleftrightarrow> xs = []"
  by (cases xs) auto

end
