(* ===== verification/Py_Text.thy ===== *)
theory Py_Text
  imports Prelude
begin

section \<open>Text: the string methods the program uses\<close>

text \<open>
  A Python \<open>str\<close> is a list of characters. The model's alphabet is ASCII, and the em dash the
  program writes as a placeholder, which takes the place of the control character of code 151.
  \<open>isalnum\<close>, \<open>lower\<close>, \<open>upper\<close>, \<open>split\<close> and \<open>strip\<close> are Python's on that alphabet.
\<close>

definition code :: "char \<Rightarrow> nat" where
  "code c = of_char c"

definition em_dash :: char where
  "em_dash = char_of (151 :: nat)"

definition is_digit :: "char \<Rightarrow> bool" where
  "is_digit c \<longleftrightarrow> 48 \<le> code c \<and> code c \<le> 57"

definition is_upper :: "char \<Rightarrow> bool" where
  "is_upper c \<longleftrightarrow> 65 \<le> code c \<and> code c \<le> 90"

definition is_lower :: "char \<Rightarrow> bool" where
  "is_lower c \<longleftrightarrow> 97 \<le> code c \<and> code c \<le> 122"

definition is_alnum :: "char \<Rightarrow> bool" where
  "is_alnum c \<longleftrightarrow> is_digit c \<or> is_upper c \<or> is_lower c"

text \<open>The characters \<open>str.split()\<close> and \<open>str.strip()\<close> drop: tab to carriage return, the four
  separators from 28 to 31, and the space.\<close>

definition is_space :: "char \<Rightarrow> bool" where
  "is_space c \<longleftrightarrow> (9 \<le> code c \<and> code c \<le> 13) \<or> (28 \<le> code c \<and> code c \<le> 32)"

definition lower_char :: "char \<Rightarrow> char" where
  "lower_char c = (if is_upper c then char_of (code c + 32) else c)"

definition upper_char :: "char \<Rightarrow> char" where
  "upper_char c = (if is_lower c then char_of (code c - 32) else c)"

definition py_lower :: "string \<Rightarrow> string" where
  "py_lower = map lower_char"

definition py_upper :: "string \<Rightarrow> string" where
  "py_upper = map upper_char"

subsection \<open>Splitting and joining\<close>

text \<open>\<open>s.split()\<close>: the maximal runs of characters that are not white space.\<close>

fun split_acc :: "string \<Rightarrow> string \<Rightarrow> string list" where
  "split_acc acc [] = (if acc = [] then [] else [rev acc])"
| "split_acc acc (c # s) =
     (if is_space c then (if acc = [] then split_acc [] s else rev acc # split_acc [] s)
      else split_acc (c # acc) s)"

definition py_split :: "string \<Rightarrow> string list" where
  "py_split s = split_acc [] s"

fun py_join :: "string \<Rightarrow> string list \<Rightarrow> string" where
  "py_join sep [] = []"
| "py_join sep [x] = x"
| "py_join sep (x # y # ys) = x @ sep @ py_join sep (y # ys)"

definition py_strip :: "string \<Rightarrow> string" where
  "py_strip s = rev (dropWhile is_space (rev (dropWhile is_space s)))"

text \<open>\<open>s.replace(c, r)\<close> for a single character \<open>c\<close>.\<close>

definition replace_char :: "char \<Rightarrow> string \<Rightarrow> string \<Rightarrow> string" where
  "replace_char c r s = concat (map (\<lambda>x. if x = c then r else [x]) s)"

text \<open>\<open>sub in s\<close>\<close>

fun str_in :: "string \<Rightarrow> string \<Rightarrow> bool" where
  "str_in sub [] \<longleftrightarrow> sub = []"
| "str_in sub (c # s) \<longleftrightarrow> take (length sub) (c # s) = sub \<or> str_in sub s"

text \<open>\<open>s.find(c)\<close> for a single character, as an option.\<close>

fun find_char :: "char \<Rightarrow> string \<Rightarrow> nat option" where
  "find_char c [] = None"
| "find_char c (x # s) = (if x = c then Some 0 else map_option Suc (find_char c s))"

subsection \<open>Numbers as text\<close>

definition digit_char :: "nat \<Rightarrow> char" where
  "digit_char d = char_of (48 + d mod 10)"

definition digit_val :: "char \<Rightarrow> nat" where
  "digit_val c = code c - 48"

fun nat_str :: "nat \<Rightarrow> string" where
  "nat_str n = (if n < 10 then [digit_char n] else nat_str (n div 10) @ [digit_char n])"

declare nat_str.simps [simp del]

definition int_str :: "int \<Rightarrow> string" where
  "int_str i = (if i < 0 then CHR ''-'' # nat_str (nat (- i)) else nat_str (nat i))"

text \<open>\<open>f"{n:0wd}"\<close>: exactly \<open>w\<close> digits of a number below \<open>10 ^ w\<close>.\<close>

fun pad_str :: "nat \<Rightarrow> nat \<Rightarrow> string" where
  "pad_str 0 n = []"
| "pad_str (Suc w) n = pad_str w (n div 10) @ [digit_char n]"

text \<open>The value of a string of digits; \<open>None\<close> when a character is no digit.\<close>

definition parse_digits :: "string \<Rightarrow> nat option" where
  "parse_digits s =
     (if list_all is_digit s then Some (foldl (\<lambda>v c. 10 * v + digit_val c) 0 s) else None)"

definition hex_char :: "nat \<Rightarrow> char" where
  "hex_char d = (let e = d mod 16 in if e < 10 then char_of (48 + e) else char_of (87 + e))"

subsection \<open>Facts\<close>

lemma code_char_of [simp]: "n < 256 \<Longrightarrow> code (char_of n) = n"
  by (simp add: code_def)

lemma char_of_code [simp]: "char_of (code c) = c"
  by (simp add: code_def)

lemma code_less [simp]: "code c < 256"
  by (simp add: code_def)

lemma lower_char_idem [simp]: "lower_char (lower_char c) = lower_char c"
  by (auto simp: lower_char_def is_upper_def)

lemma py_lower_idem [simp]: "py_lower (py_lower s) = py_lower s"
  by (simp add: py_lower_def)

lemma length_py_lower [simp]: "length (py_lower s) = length s"
  by (simp add: py_lower_def)

lemma is_alnum_not_space: "is_alnum c \<Longrightarrow> \<not> is_space c"
  by (auto simp: is_alnum_def is_space_def is_digit_def is_upper_def is_lower_def)

lemma split_acc_words:
  "list_all (\<lambda>c. \<not> is_space c) acc \<Longrightarrow> w \<in> set (split_acc acc s)
    \<Longrightarrow> w \<noteq> [] \<and> (\<forall>c \<in> set w. \<not> is_space c)"
proof (induction acc s rule: split_acc.induct)
  case (1 acc)
  then show ?case by (auto simp: list_all_iff split: if_splits)
next
  case (2 acc c s)
  then show ?case by (fastforce simp: list_all_iff split: if_splits)
qed

lemma split_acc_set:
  "w \<in> set (split_acc acc s) \<Longrightarrow> set w \<subseteq> set acc \<union> set s"
  by (induction acc s rule: split_acc.induct) (auto split: if_splits)

lemma py_split_word: "w \<in> set (py_split s) \<Longrightarrow> w \<noteq> []"
  "w \<in> set (py_split s) \<Longrightarrow> c \<in> set w \<Longrightarrow> \<not> is_space c"
  "w \<in> set (py_split s) \<Longrightarrow> set w \<subseteq> set s"
  using split_acc_words [of "[]" w s] split_acc_set [of w "[]" s] by (auto simp: py_split_def)

lemma set_py_join: "c \<in> set (py_join sep ws) \<Longrightarrow> c \<in> set sep \<or> (\<exists>w \<in> set ws. c \<in> set w)"
  by (induction sep ws rule: py_join.induct) auto

lemma digit_char_code: "code (digit_char d) = 48 + d mod 10"
proof -
  have "d mod 10 < 10" by simp
  then show ?thesis unfolding digit_char_def by (subst code_char_of) auto
qed

lemma is_digit_digit_char [simp]: "is_digit (digit_char d)"
proof -
  have "d mod 10 < 10" by simp
  then show ?thesis unfolding is_digit_def digit_char_code by linarith
qed

lemma digit_val_digit_char [simp]: "digit_val (digit_char d) = d mod 10"
  by (simp add: digit_val_def digit_char_code)

lemma length_pad_str [simp]: "length (pad_str w n) = w"
  by (induction w arbitrary: n) auto

lemma pad_str_digits [simp]: "list_all is_digit (pad_str w n)"
  by (induction w arbitrary: n) auto

lemma set_pad_str: "c \<in> set (pad_str w n) \<Longrightarrow> is_digit c"
  using pad_str_digits by (auto simp: list_all_iff)

lemma foldl_pad_str:
  "foldl (\<lambda>v c. 10 * v + digit_val c) 0 (pad_str w n) = n mod 10 ^ w"
proof (induction w arbitrary: n)
  case 0
  then show ?case by simp
next
  case (Suc w)
  have "n mod (10 * 10 ^ w) = 10 * (n div 10 mod 10 ^ w) + n mod 10"
    by (simp add: mod_mult2_eq add.commute)
  then show ?case by (simp add: Suc.IH)
qed

lemma parse_pad_str [simp]: "n < 10 ^ w \<Longrightarrow> parse_digits (pad_str w n) = Some n"
  by (simp add: parse_digits_def foldl_pad_str)

lemma nat_str_digits: "list_all is_digit (nat_str n)"
proof (induction n rule: nat_str.induct)
  case (1 n)
  then show ?case by (subst nat_str.simps) auto
qed

lemma nat_str_nonempty [simp]: "nat_str n \<noteq> []"
  by (subst nat_str.simps) simp

lemma foldl_nat_str: "foldl (\<lambda>v c. 10 * v + digit_val c) 0 (nat_str n) = n"
proof (induction n rule: nat_str.induct)
  case (1 n)
  then show ?case by (subst nat_str.simps) auto
qed

lemma parse_nat_str [simp]: "parse_digits (nat_str n) = Some n"
  by (simp add: parse_digits_def nat_str_digits foldl_nat_str)

lemma nat_str_inj: "nat_str m = nat_str n \<longleftrightarrow> m = n"
  by (metis foldl_nat_str)

lemma find_char_None: "find_char c s = None \<longleftrightarrow> c \<notin> set s"
  by (induction s) auto

lemma find_char_append:
  "c \<notin> set p \<Longrightarrow> find_char c (p @ c # q) = Some (length p)"
  by (induction p) auto

lemma replace_char_none [simp]: "c \<notin> set s \<Longrightarrow> replace_char c r s = s"
  by (induction s) (auto simp: replace_char_def)

end
