(* ===== verification/Py_Json.thy ===== *)
theory Py_Json
  imports Py_Text "HOL-Library.Multiset"
begin

section \<open>JSON values\<close>

text \<open>
  The values of the \<open>dict[str, Any]\<close> fields, the monitoring payloads and the stored snapshots: JSON
  values. A dictionary keeps its insertion order. A float is carried as its \<open>repr\<close>, the only
  thing the modelled code uses of the floats inside payloads. The section also models the
  standard library's \<open>str\<close>, \<open>repr\<close>, \<open>bool\<close> and \<open>json.dumps\<close> on these values.
\<close>

datatype json =
    JNull
  | JBool bool
  | JInt int
  | JFloat string
  | JStr string
  | JList "json list"
  | JDict "(string \<times> json) list"

type_synonym jdict = "(string, json) dict"

text \<open>\<open>bool(v)\<close>\<close>

fun truthy :: "json \<Rightarrow> bool" where
  "truthy JNull = False"
| "truthy (JBool b) = b"
| "truthy (JInt i) = (i \<noteq> 0)"
| "truthy (JFloat r) = (r \<noteq> ''0.0'' \<and> r \<noteq> ''-0.0'')"
| "truthy (JStr s) = (s \<noteq> [])"
| "truthy (JList vs) = (vs \<noteq> [])"
| "truthy (JDict d) = (d \<noteq> [])"

text \<open>\<open>a or b\<close>\<close>

definition or_json :: "json \<Rightarrow> json \<Rightarrow> json" where
  "or_json a b = (if truthy a then a else b)"

text \<open>\<open>d.get(k)\<close> and \<open>d.get(k, default)\<close>\<close>

definition jget :: "jdict \<Rightarrow> string \<Rightarrow> json" where
  "jget d k = (case dict_get d k of None \<Rightarrow> JNull | Some v \<Rightarrow> v)"

subsection \<open>str and repr\<close>

definition repr_char :: "char \<Rightarrow> char \<Rightarrow> string" where
  "repr_char q c =
     (if c = q \<or> c = CHR 0x5C then [CHR 0x5C, c]
      else if code c = 9 then [CHR 0x5C, CHR ''t'']
      else if code c = 10 then [CHR 0x5C, CHR ''n'']
      else if code c = 13 then [CHR 0x5C, CHR ''r'']
      else if code c < 32 \<or> code c = 127 then
        [CHR 0x5C, CHR ''x'', hex_char (code c div 16), hex_char (code c)]
      else [c])"

definition repr_str :: "string \<Rightarrow> string" where
  "repr_str s =
     (let q = (if CHR 0x27 \<in> set s \<and> CHR 0x22 \<notin> set s then CHR 0x22 else CHR 0x27)
      in [q] @ concat (map (repr_char q) s) @ [q])"

fun py_repr :: "json \<Rightarrow> string" where
  "py_repr JNull = ''None''"
| "py_repr (JBool b) = (if b then ''True'' else ''False'')"
| "py_repr (JInt i) = int_str i"
| "py_repr (JFloat r) = r"
| "py_repr (JStr s) = repr_str s"
| "py_repr (JList vs) = ''['' @ py_join '', '' (map py_repr vs) @ '']''"
| "py_repr (JDict d) =
     ''{'' @ py_join '', '' (map (\<lambda>(k, v). repr_str k @ '': '' @ py_repr v) d) @ ''}''"

fun py_str :: "json \<Rightarrow> string" where
  "py_str (JStr s) = s"
| "py_str v = py_repr v"

text \<open>\<open>str(v or "")\<close>\<close>

definition str_or_empty :: "json \<Rightarrow> string" where
  "str_or_empty v = (if truthy v then py_str v else [])"

subsection \<open>json.dumps\<close>

text \<open>The escapes of \<open>ensure_ascii=False\<close>.\<close>

definition json_char :: "char \<Rightarrow> string" where
  "json_char c =
     (if c = CHR 0x22 \<or> c = CHR 0x5C then [CHR 0x5C, c]
      else if code c = 8 then [CHR 0x5C, CHR ''b'']
      else if code c = 9 then [CHR 0x5C, CHR ''t'']
      else if code c = 10 then [CHR 0x5C, CHR ''n'']
      else if code c = 12 then [CHR 0x5C, CHR ''f'']
      else if code c = 13 then [CHR 0x5C, CHR ''r'']
      else if code c < 32 then
        [CHR 0x5C, CHR ''u'', CHR ''0'', CHR ''0'', hex_char (code c div 16), hex_char (code c)]
      else [c])"

definition json_str :: "string \<Rightarrow> string" where
  "json_str s = [CHR 0x22] @ concat (map json_char s) @ [CHR 0x22]"

definition json_float :: "string \<Rightarrow> string" where
  "json_float r =
     (if r = ''nan'' then ''NaN'' else if r = ''inf'' then ''Infinity''
      else if r = ''-inf'' then ''-Infinity'' else r)"

text \<open>\<open>sort_keys=True\<close> sorts the items of every dictionary by key, at every depth.\<close>

fun sort_keys :: "json \<Rightarrow> json" where
  "sort_keys (JList vs) = JList (map sort_keys vs)"
| "sort_keys (JDict d) = JDict (sort_key fst (map (\<lambda>(k, v). (k, sort_keys v)) d))"
| "sort_keys v = v"

text \<open>The compact rendering, separators \<open>","\<close> and \<open>":"\<close>.\<close>

fun json_render :: "json \<Rightarrow> string" where
  "json_render JNull = ''null''"
| "json_render (JBool b) = (if b then ''true'' else ''false'')"
| "json_render (JInt i) = int_str i"
| "json_render (JFloat r) = json_float r"
| "json_render (JStr s) = json_str s"
| "json_render (JList vs) = ''['' @ py_join '','' (map json_render vs) @ '']''"
| "json_render (JDict d) =
     ''{'' @ py_join '','' (map (\<lambda>(k, v). json_str k @ '':'' @ json_render v) d) @ ''}''"

definition json_dumps_sorted :: "json \<Rightarrow> string" where
  "json_dumps_sorted v = json_render (sort_keys v)"

text \<open>
  With the default \<open>ensure_ascii=True\<close>, what is not printable ASCII is escaped; outside of texts there is none.
\<close>

definition ascii_char :: "char \<Rightarrow> string" where
  "ascii_char c =
     (if code c < 127 then [c]
      else if c = em_dash then [CHR 0x5C] @ ''u2014''
      else [CHR 0x5C] @ ''u00'' @ [hex_char (code c div 16), hex_char (code c)])"

definition json_dumps_ascii :: "json \<Rightarrow> string" where
  "json_dumps_ascii v = concat (map ascii_char (json_dumps_sorted v))"

text \<open>UTF-8, as lists of byte values. The em dash is U+2014.\<close>

definition utf8_char :: "char \<Rightarrow> nat list" where
  "utf8_char c =
     (if c = em_dash then [226, 128, 148]
      else if code c < 128 then [code c]
      else [192 + code c div 64, 128 + code c mod 64])"

definition utf8 :: "string \<Rightarrow> nat list" where
  "utf8 s = concat (map utf8_char s)"

subsection \<open>Facts\<close>

lemma sort_key_permute:
  fixes f :: "'a \<Rightarrow> 'k::linorder"
  assumes "distinct (map f xs)" and "mset xs = mset ys"
  shows "sort_key f xs = sort_key f ys"
proof (rule sort_key_inj_key_eq)
  show "mset xs = mset (sort_key f ys)" using assms(2) by simp
  show "inj_on f (set xs)" using assms(1) by (simp add: distinct_map)
  show "sorted (map f (sort_key f ys))" by simp
qed

text \<open>A dictionary serialises to the same text whatever order its items were inserted in.\<close>

lemma json_dumps_order_insensitive:
  assumes "distinct (dict_keys d)" and "mset d = mset d'"
  shows "json_dumps_sorted (JDict d) = json_dumps_sorted (JDict d')"
proof -
  let ?g = "\<lambda>(k, v). (k, sort_keys v)"
  have "map fst (map ?g d) = dict_keys d" by (induction d) auto
  with assms(1) have "distinct (map fst (map ?g d))" by (simp only:)
  then have "sort_key fst (map ?g d) = sort_key fst (map ?g d')"
    using assms(2) by (intro sort_key_permute) simp_all
  then show ?thesis by (simp add: json_dumps_sorted_def)
qed

lemma jget_simps [simp]: "jget [] k = JNull"
  "jget ((k', v) # d) k = (if k' = k then v else jget d k)"
  by (simp_all add: jget_def)

lemma jget_set [simp]: "jget (dict_set k v d) k' = (if k' = k then v else jget d k')"
  by (simp add: jget_def)

lemma str_or_empty_JStr [simp]: "str_or_empty (JStr s) = s"
  by (simp add: str_or_empty_def)

lemma str_or_empty_JNull [simp]: "str_or_empty JNull = []"
  by (simp add: str_or_empty_def)

end
