(* ===== verification/Py_Time.thy ===== *)
theory Py_Time
  imports Py_Text
begin

section \<open>Dates and times\<close>

text \<open>
  The standard library's \<open>datetime\<close> as the program uses it. An aware moment is an \<open>instant\<close>: the
  microseconds since 0001-01-01T00:00:00 UTC, within \<open>[0, max_instant)\<close>. \<open>isoformat\<close> writes an
  instant of \<open>datetime.now(timezone.utc)\<close>; \<open>fromisoformat\<close> reads the calendar, basic and week
  forms of Python 3.14. What is proved: reading what \<open>isoformat\<close> wrote gives the instant back.
\<close>

type_synonym instant = int

definition second_us :: int where
  "second_us = 1000000"

definition day_us :: int where
  "day_us = 86400000000"

definition max_ordinal :: nat where
  "max_ordinal = 3652059"

definition max_instant :: int where
  "max_instant = 315537897600000000"

definition valid_instant :: "instant \<Rightarrow> bool" where
  "valid_instant t \<longleftrightarrow> 0 \<le> t \<and> t < max_instant"

subsection \<open>The proleptic Gregorian calendar\<close>

definition leap_year :: "nat \<Rightarrow> bool" where
  "leap_year y \<longleftrightarrow> y mod 4 = 0 \<and> (y mod 100 \<noteq> 0 \<or> y mod 400 = 0)"

definition month_lengths :: "nat \<Rightarrow> nat list" where
  "month_lengths y = [31, if leap_year y then 29 else 28, 31, 30, 31, 30, 31, 31, 30, 31, 30, 31]"

definition days_in_month :: "nat \<Rightarrow> nat \<Rightarrow> nat" where
  "days_in_month y m = month_lengths y ! (m - 1)"

definition days_before_year :: "nat \<Rightarrow> nat" where
  "days_before_year y =
     (let q = y - 1 in 365 * q + q div 4 + q div 400 - q div 100)"

definition ymd_ord :: "nat \<times> nat \<times> nat \<Rightarrow> nat" where
  "ymd_ord = (\<lambda>(y, m, d). days_before_year y + sum_list (take (m - 1) (month_lengths y)) + d)"

definition valid_ymd :: "nat \<times> nat \<times> nat \<Rightarrow> bool" where
  "valid_ymd = (\<lambda>(y, m, d). 1 \<le> y \<and> y \<le> 9999 \<and> 1 \<le> m \<and> m \<le> 12 \<and> 1 \<le> d \<and> d \<le> days_in_month y m)"

fun split_month :: "nat list \<Rightarrow> nat \<Rightarrow> nat \<Rightarrow> nat \<times> nat" where
  "split_month [] m r = (m, r)"
| "split_month (l # ls) m r = (if r < l then (m, r) else split_month ls (Suc m) (r - l))"

text \<open>The date of a day number: 400-year, 100-year, 4-year and 1-year cycles, then the month.\<close>

definition ord_ymd :: "nat \<Rightarrow> nat \<times> nat \<times> nat" where
  "ord_ymd n =
     (let n0 = n - 1;
          n400 = n0 div 146097; r400 = n0 mod 146097;
          n100 = r400 div 36524; r100 = r400 mod 36524;
          n4 = r100 div 1461; r4 = r100 mod 1461;
          n1 = r4 div 365; r1 = r4 mod 365;
          y = 400 * n400 + 100 * n100 + 4 * n4 + n1 + 1
      in if n1 = 4 \<or> n100 = 4 then (y - 1, 12, 31)
         else (case split_month (month_lengths y) 1 r1 of (m, d) \<Rightarrow> (y, m, Suc d)))"

subsection \<open>isoformat\<close>

text \<open>\<open>t.isoformat()\<close> for an aware UTC moment: microseconds are written when they are not 0.\<close>

definition iso_date :: "nat \<times> nat \<times> nat \<Rightarrow> string" where
  "iso_date = (\<lambda>(y, m, d). pad_str 4 y @ ''-'' @ pad_str 2 m @ ''-'' @ pad_str 2 d)"

definition iso_clock :: "nat \<Rightarrow> string" where
  "iso_clock us =
     (let s = us div 1000000
      in pad_str 2 (s div 3600) @ '':'' @ pad_str 2 (s div 60 mod 60) @ '':'' @ pad_str 2 (s mod 60)
         @ (if us mod 1000000 = 0 then [] else ''.'' @ pad_str 6 (us mod 1000000)))"

definition isoformat :: "instant \<Rightarrow> string" where
  "isoformat t =
     iso_date (ord_ymd (nat (t div day_us) + 1)) @ ''T'' @ iso_clock (nat (t mod day_us)) @ ''+00:00''"

subsection \<open>fromisoformat\<close>

text \<open>What \<open>fromisoformat\<close> returns: the wall-clock microseconds, and the offset when aware.\<close>

record pydt =
  dt_local :: int
  dt_offset :: "int option"

text \<open>The first \<open>n\<close> characters as a number, and the rest.\<close>

definition take_digits :: "nat \<Rightarrow> string \<Rightarrow> (nat \<times> string) option" where
  "take_digits n s =
     (if length s < n then None
      else map_option (\<lambda>v. (v, drop n s)) (parse_digits (take n s)))"

text \<open>Where the date ends: the year's separator and the week indicator decide its form.\<close>

definition find_separator :: "string \<Rightarrow> nat option" where
  "find_separator s =
     (if length s = 7 then Some 7
      else if s ! 4 = CHR ''-'' then
        (if s ! 5 = CHR ''W'' then
           (if 8 < length s \<and> s ! 8 = CHR ''-'' then
              (if length s = 9 then None
               else if 10 < length s \<and> is_digit (s ! 10) then Some 8 else Some 10)
            else Some 8)
         else Some 10)
      else if s ! 4 = CHR ''W'' then
        (let i = 7 + length (takeWhile is_digit (drop 7 s))
         in if i < 9 then Some i else if even i then Some 7 else Some 8)
      else Some 8)"

text \<open>The Gregorian date of an ISO week date.\<close>

definition iso_week_ymd :: "nat \<Rightarrow> nat \<Rightarrow> nat \<Rightarrow> (nat \<times> nat \<times> nat) option" where
  "iso_week_ymd y w d =
     (let first = ymd_ord (y, 1, 1); wd = (first + 6) mod 7;
          long = (wd = 3 \<or> (wd = 2 \<and> leap_year y));
          day = int first - int wd + (if 3 < wd then 7 else 0) + (int w - 1) * 7 + int d - 1
      in if 1 \<le> y \<and> y \<le> 9999 \<and> 1 \<le> w \<and> (w < 53 \<or> (w = 53 \<and> long)) \<and> 1 \<le> d \<and> d \<le> 7
            \<and> 1 \<le> day \<and> day \<le> int max_ordinal
         then Some (ord_ymd (nat day)) else None)"

definition parse_week_day :: "bool \<Rightarrow> string \<Rightarrow> nat option" where
  "parse_week_day sep r =
     (if r = [] then Some 1
      else if (hd r = CHR ''-'') \<noteq> sep then None
      else case take_digits 1 (if sep then tl r else r) of
             Some (d, []) \<Rightarrow> Some d | _ \<Rightarrow> None)"

definition parse_iso_date :: "string \<Rightarrow> (nat \<times> nat \<times> nat) option" where
  "parse_iso_date s =
     (case take_digits 4 s of None \<Rightarrow> None
      | Some (y, r0) \<Rightarrow>
          (let sep = (take 1 r0 = ''-''); r = (if sep then tl r0 else r0)
           in if take 1 r = ''W'' then
                (case take_digits 2 (tl r) of None \<Rightarrow> None
                 | Some (w, r) \<Rightarrow>
                     (case parse_week_day sep r of None \<Rightarrow> None | Some d \<Rightarrow> iso_week_ymd y w d))
              else
                (case take_digits 2 r of None \<Rightarrow> None
                 | Some (m, r) \<Rightarrow>
                     if sep \<and> take 1 r \<noteq> ''-'' then None
                     else (case take_digits 2 (if sep then tl r else r) of
                             Some (d, []) \<Rightarrow> Some (y, m, d) | _ \<Rightarrow> None))))"

text \<open>The fraction of a second, cut at the sixth digit.\<close>

definition parse_fraction :: "string \<Rightarrow> nat option" where
  "parse_fraction r =
     (if list_all is_digit r
      then map_option (\<lambda>v. v * 10 ^ (6 - length (take 6 r))) (parse_digits (take 6 r))
      else None)"

text \<open>\<open>HH[:?MM[:?SS[{.,}f+]]]\<close>\<close>

definition parse_clock :: "string \<Rightarrow> (nat \<times> nat \<times> nat \<times> nat) option" where
  "parse_clock s =
     (case take_digits 2 s of None \<Rightarrow> None
      | Some (h, r0) \<Rightarrow>
          if r0 = [] then Some (h, 0, 0, 0)
          else let sep = (hd r0 = CHR '':'')
            in (case take_digits 2 (if sep then tl r0 else r0) of None \<Rightarrow> None
                | Some (m, r1) \<Rightarrow>
                    if r1 = [] then Some (h, m, 0, 0)
                    else if sep \<and> hd r1 \<noteq> CHR '':'' then None
                    else (case take_digits 2 (if sep then tl r1 else r1) of None \<Rightarrow> None
                          | Some (s, r2) \<Rightarrow>
                              if r2 = [] then Some (h, m, s, 0)
                              else if hd r2 \<noteq> CHR ''.'' \<and> hd r2 \<noteq> CHR '','' then None
                              else map_option (\<lambda>f. (h, m, s, f)) (parse_fraction (tl r2)))))"

definition clock_us :: "nat \<times> nat \<times> nat \<times> nat \<Rightarrow> int" where
  "clock_us = (\<lambda>(h, m, s, f). int ((h * 3600 + m * 60 + s) * 1000000 + f))"

definition valid_clock :: "nat \<times> nat \<times> nat \<times> nat \<Rightarrow> bool" where
  "valid_clock = (\<lambda>(h, m, s, f). h < 24 \<and> m < 60 \<and> s < 60)"

text \<open>The offset after the sign, or \<open>Z\<close> at the very end.\<close>

definition parse_offset :: "char \<Rightarrow> string \<Rightarrow> int option" where
  "parse_offset c z =
     (if c = CHR ''Z'' then (if z = [] then Some 0 else None)
      else case parse_clock z of None \<Rightarrow> None
           | Some k \<Rightarrow> if valid_clock k then Some (if c = CHR ''-'' then - clock_us k else clock_us k)
                      else None)"

definition is_zone_mark :: "char \<Rightarrow> bool" where
  "is_zone_mark c \<longleftrightarrow> c = CHR ''+'' \<or> c = CHR ''-'' \<or> c = CHR ''Z''"

definition parse_iso_time_part ::
    "string \<Rightarrow> ((nat \<times> nat \<times> nat \<times> nat) \<times> int option) option" where
  "parse_iso_time_part t =
     (let c = takeWhile (\<lambda>x. \<not> is_zone_mark x) t; z = dropWhile (\<lambda>x. \<not> is_zone_mark x) t
      in case parse_clock c of None \<Rightarrow> None
         | Some k \<Rightarrow>
             if z = [] then Some (k, None)
             else map_option (\<lambda>off. (k, Some off)) (parse_offset (hd z) (tl z)))"

text \<open>Midnight written as 24:00 is the next day's 00:00 where the date is valid.\<close>

definition build_pydt :: "nat \<times> nat \<times> nat \<Rightarrow> nat \<times> nat \<times> nat \<times> nat \<Rightarrow> int option \<Rightarrow> pydt option" where
  "build_pydt ymd k off =
     (let wrap = (k = (24, 0, 0, 0)); k' = (if wrap then (0, 0, 0, 0) else k);
          ord = (if wrap then ymd_ord ymd + 1 else ymd_ord ymd)
      in if valid_ymd ymd \<and> valid_clock k' \<and> ord \<le> max_ordinal
         then Some \<lparr>dt_local = (int ord - 1) * day_us + clock_us k', dt_offset = off\<rparr> else None)"

text \<open>\<open>datetime.fromisoformat(s)\<close>; \<open>None\<close> is its ValueError.\<close>

definition fromisoformat :: "string \<Rightarrow> pydt option" where
  "fromisoformat s =
     (if length s < 7 then None
      else case find_separator s of None \<Rightarrow> None
        | Some p \<Rightarrow>
            (case parse_iso_date (take p s) of None \<Rightarrow> None
             | Some ymd \<Rightarrow>
                 if length s \<le> p then build_pydt ymd (0, 0, 0, 0) None
                 else (case parse_iso_time_part (drop (Suc p) s) of None \<Rightarrow> None
                       | Some (k, off) \<Rightarrow> build_pydt ymd k off)))"

text \<open>The moment a \<open>datetime\<close> stands for once a naive one is taken as UTC.\<close>

definition pydt_instant :: "pydt \<Rightarrow> instant" where
  "pydt_instant d = dt_local d - (case dt_offset d of None \<Rightarrow> 0 | Some off \<Rightarrow> off)"

text \<open>\<open>t + timedelta(...)\<close> on an aware UTC moment raises outside the calendar's range.\<close>

definition instant_plus :: "instant \<Rightarrow> int \<Rightarrow> exn + instant" where
  "instant_plus t us =
     (if valid_instant (t + us) then Inr (t + us) else Inl (OverflowError ''date value out of range''))"

text \<open>\<open>timedelta(seconds=n)\<close>, whose days are bounded.\<close>

definition timedelta_seconds :: "int \<Rightarrow> exn + int" where
  "timedelta_seconds n =
     (if \<bar>n div 86400\<bar> \<le> 999999999 then Inr (n * second_us)
      else Inl (OverflowError ''days out of range''))"

text \<open>\<open>d.astimezone(timezone.utc)\<close>\<close>

definition astimezone_utc :: "pydt \<Rightarrow> exn + instant" where
  "astimezone_utc d =
     (if valid_instant (pydt_instant d) then Inr (pydt_instant d)
      else Inl (OverflowError ''date value out of range''))"

text \<open>\<open>value.replace("Z", "+00:00")\<close>\<close>

definition zulu :: "string \<Rightarrow> string" where
  "zulu s = replace_char CHR ''Z'' ''+00:00'' s"

subsection \<open>The calendar conversions are inverse\<close>

lemma split_month_spec:
  "r < sum_list ls \<Longrightarrow> split_month ls m r = (m', d) \<Longrightarrow>
     m \<le> m' \<and> m' < m + length ls \<and> d < ls ! (m' - m) \<and> sum_list (take (m' - m) ls) + d = r"
proof (induction ls m r rule: split_month.induct)
  case (1 m r)
  then show ?case by simp
next
  case (2 l ls m r)
  show ?case
  proof (cases "r < l")
    case True
    with 2 show ?thesis by simp
  next
    case False
    with 2 have "Suc m \<le> m' \<and> m' < Suc m + length ls \<and> d < ls ! (m' - Suc m)
        \<and> sum_list (take (m' - Suc m) ls) + d = r - l" by simp
    moreover from this have "m' - m = Suc (m' - Suc m)" by linarith
    ultimately show ?thesis using False by auto
  qed
qed

lemma sum_month_lengths: "sum_list (month_lengths y) = (if leap_year y then 366 else 365)"
  by (simp add: month_lengths_def)

lemma days_before_year_cycles:
  assumes "b \<le> 3" "c \<le> 24" "d \<le> 3"
  shows "days_before_year (400 * a + 100 * b + 4 * c + d + 1) = 146097 * a + 36524 * b + 1461 * c + 365 * d"
proof -
  let ?q = "400 * a + 100 * b + 4 * c + d"
  have "?q div 4 = 100 * a + 25 * b + c" using assms by linarith
  moreover have "?q div 100 = 4 * a + b" using assms by linarith
  moreover have "?q div 400 = a" using assms by linarith
  ultimately show ?thesis by (simp add: days_before_year_def Let_def)
qed

lemma year_cycles:
  fixes n0 :: nat
  defines "r400 \<equiv> n0 mod 146097" defines "r100 \<equiv> r400 mod 36524" defines "r4 \<equiv> r100 mod 1461"
  shows "n0 = 146097 * (n0 div 146097) + 36524 * (r400 div 36524) + 1461 * (r100 div 1461) + 365 * (r4 div 365) + r4 mod 365"
    "r400 div 36524 \<le> 4" "r100 div 1461 \<le> 24" "r4 div 365 \<le> 4"
    "r400 div 36524 = 4 \<Longrightarrow> r100 = 0" 
    "r4 div 365 = 4 \<Longrightarrow> r4 = 1460 \<and> r100 div 1461 \<le> 23"
proof -
  have a: "r400 < 146097" "r100 < 36524" "r4 < 1461" by (simp_all add: r400_def r100_def r4_def)
  have e1: "n0 = 146097 * (n0 div 146097) + r400" by (simp add: r400_def)
  have e2: "r400 = 36524 * (r400 div 36524) + r100" by (simp add: r100_def)
  have e3: "r100 = 1461 * (r100 div 1461) + r4" by (simp add: r4_def)
  have e4: "r4 = 365 * (r4 div 365) + r4 mod 365" by simp
  show "n0 = 146097 * (n0 div 146097) + 36524 * (r400 div 36524) + 1461 * (r100 div 1461) + 365 * (r4 div 365) + r4 mod 365"
    using e1 e2 e3 e4 by linarith
  show "r400 div 36524 \<le> 4" "r100 div 1461 \<le> 24" "r4 div 365 \<le> 4" using a by linarith+
  show "r400 div 36524 = 4 \<Longrightarrow> r100 = 0" using a e2 by linarith
  show "r4 div 365 = 4 \<Longrightarrow> r4 = 1460 \<and> r100 div 1461 \<le> 23" using a e3 e4 by linarith
qed

lemma ord_ymd_month:
  assumes "r < 365" and "split_month (month_lengths y) 1 r = (m, d)" and "1 \<le> y" "y \<le> 9999"
  shows "valid_ymd (y, m, Suc d) \<and> ymd_ord (y, m, Suc d) = days_before_year y + r + 1"
proof -
  have "r < sum_list (month_lengths y)" using assms(1) by (simp add: sum_month_lengths)
  from split_month_spec [OF this assms(2)]
  show ?thesis using assms(3,4)
    by (auto simp: valid_ymd_def ymd_ord_def days_in_month_def month_lengths_def)
qed

lemma ord_ymd_dec31:
  assumes "leap_year y" "1 \<le> y" "y \<le> 9999"
  shows "valid_ymd (y, 12, 31) \<and> ymd_ord (y, 12, 31) = days_before_year y + 366"
  using assms by (simp add: valid_ymd_def ymd_ord_def days_in_month_def month_lengths_def)

lemma ord_ymd_correct:
  assumes "1 \<le> n" "n \<le> max_ordinal"
  shows "valid_ymd (ord_ymd n) \<and> ymd_ord (ord_ymd n) = n"
proof -
  define n0 where "n0 = n - 1"
  define a where "a = n0 div 146097"
  define r400 where "r400 = n0 mod 146097"
  define b where "b = r400 div 36524"
  define r100 where "r100 = r400 mod 36524"
  define c where "c = r100 div 1461"
  define r4 where "r4 = r100 mod 1461"
  define e where "e = r4 div 365"
  define r where "r = r4 mod 365"
  note yc = year_cycles [of n0, folded r400_def, folded r100_def, folded r4_def, folded a_def b_def c_def e_def r_def]
  have n: "n = n0 + 1" "n0 < 3652059" using assms by (simp_all add: n0_def max_ordinal_def)
  have unf: "ord_ymd n = (let y = 400 * a + 100 * b + 4 * c + e + 1
      in if e = 4 \<or> b = 4 then (y - 1, 12, 31)
         else (case split_month (month_lengths y) 1 r of (m, d) \<Rightarrow> (y, m, Suc d)))"
    by (simp add: ord_ymd_def Let_def n0_def a_def r400_def b_def r100_def c_def r4_def e_def r_def)
  have r: "r < 365" by (simp add: r_def)
  have bound: "146097 * a + 36524 * b + 1461 * c + 365 * e < 3652059" using n yc(1) by linarith
  consider "b = 4" | "b \<le> 3" "e = 4" | "b \<le> 3" "e \<le> 3" using yc(2,4) by linarith
  then show ?thesis
  proof cases
    case 1
    then have r100: "r100 = 0" using yc(5) by blast
    then have z: "c = 0" "e = 0" "r = 0" by (simp_all add: c_def e_def r_def r4_def)
    define y where "y = 400 * a + 400"
    have "y = (100 * (a + 1)) * 4" "y = (a + 1) * 400" by (simp_all add: y_def)
    then have "leap_year y" unfolding leap_year_def by (metis mod_mult_self2_is_0)
    moreover have "days_before_year y = 146097 * a + 36524 * 3 + 1461 * 24 + 365 * 3"
      using days_before_year_cycles [of 3 24 3 a] by (simp add: y_def algebra_simps)
    moreover have "1 \<le> y" by (simp add: y_def)
    moreover have "y \<le> 9999"
    proof -
      have "146097 * a + 146096 < 3652059" using n yc(1) 1 by linarith
      then show ?thesis unfolding y_def by linarith
    qed
    ultimately have "valid_ymd (y, 12, 31) \<and> ymd_ord (y, 12, 31) = n"
      using ord_ymd_dec31 [of y] 1 z n yc(1) by simp
    moreover have "ord_ymd n = (y, 12, 31)" using unf 1 z by (simp add: y_def)
    ultimately show ?thesis by simp
  next
    case 2
    have c: "c \<le> 23" and r40: "r = 0" using 2 yc(6) by (auto simp: r_def)
    let ?y = "400 * a + 100 * b + 4 * c + 3 + 1"
    have "?y = (100 * a + 25 * b + c + 1) * 4" by simp
    then have "?y mod 4 = 0" by (metis mod_mult_self2_is_0)
    moreover have "?y mod 100 = 4 * c + 4"
    proof -
      have "?y = 4 * c + 4 + (4 * a + b) * 100" by simp
      also have "\<dots> mod 100 = (4 * c + 4) mod 100" by (rule mod_mult_self1)
      finally show ?thesis using c by simp
    qed
    ultimately have "leap_year ?y" by (simp add: leap_year_def)
    moreover have "days_before_year ?y = 146097 * a + 36524 * b + 1461 * c + 365 * 3"
      using 2 c by (intro days_before_year_cycles) auto
    moreover have "?y \<le> 9999" using bound 2 c by linarith
    ultimately show ?thesis
      using ord_ymd_dec31 [of ?y] 2 r40 n yc(1) unf by (simp add: algebra_simps)
  next
    case 3
    let ?y = "400 * a + 100 * b + 4 * c + e + 1"
    have dby: "days_before_year ?y = 146097 * a + 36524 * b + 1461 * c + 365 * e"
      using 3 yc(3) by (intro days_before_year_cycles) auto
    have y: "?y \<le> 9999" using bound 3 yc(3) by linarith
    obtain m d where md: "split_month (month_lengths ?y) 1 r = (m, d)" by fastforce
    from ord_ymd_month [OF r md] y have
      "valid_ymd (?y, m, Suc d) \<and> ymd_ord (?y, m, Suc d) = days_before_year ?y + r + 1" by simp
    then show ?thesis using unf md 3 dby n yc(1) by (simp add: Let_def)
  qed
qed

subsection \<open>Reading back what isoformat wrote\<close>

lemma take_digits_pad [simp]: "n < 10 ^ w \<Longrightarrow> take_digits w (pad_str w n @ rest) = Some (n, rest)"
  by (simp add: take_digits_def)

lemma take_digits_pad_end [simp]: "n < 10 ^ w \<Longrightarrow> take_digits w (pad_str w n) = Some (n, [])"
  using take_digits_pad [of n w "[]"] by simp

lemma days_in_month_le: "1 \<le> m \<Longrightarrow> m \<le> 12 \<Longrightarrow> days_in_month y m \<le> 31"
proof -
  assume "1 \<le> m" "m \<le> 12"
  then have "m - 1 < length (month_lengths y)" by (simp add: month_lengths_def)
  then have "month_lengths y ! (m - 1) \<in> set (month_lengths y)" by (rule nth_mem)
  then show ?thesis by (auto simp: days_in_month_def month_lengths_def)
qed

lemma valid_ymd_bounds: "valid_ymd (y, m, d) \<Longrightarrow> y < 10 ^ 4 \<and> m < 10 ^ 2 \<and> d < 10 ^ 2"
  using days_in_month_le [of m y] by (simp add: valid_ymd_def)

lemma parse_iso_date_iso: "valid_ymd ymd \<Longrightarrow> parse_iso_date (iso_date ymd) = Some ymd"
proof -
  assume v: "valid_ymd ymd"
  obtain y m d where [simp]: "ymd = (y, m, d)" by (cases ymd)
  have b: "y < 10000" "m < 100" "d < 100" using valid_ymd_bounds v by auto
  have nW: "take 1 (pad_str 2 m @ ''-'' @ pad_str 2 d) \<noteq> ''W''"
  proof -
    have "is_digit (hd (pad_str 2 m))" by (rule set_pad_str [of _ 2 m]) (simp add: numeral_2_eq_2)
    moreover have "\<not> is_digit CHR ''W''" by (simp add: is_digit_def code_def)
    moreover have "pad_str 2 m \<noteq> []" using length_pad_str [of 2 m] by force
    ultimately show ?thesis by (cases "pad_str 2 m") auto
  qed
  have t4: "take_digits 4 (pad_str 4 y @ r) = Some (y, r)" for r using b by simp
  have t2: "take_digits 2 (pad_str 2 m @ r) = Some (m, r)" for r using b by simp
  have t2': "take_digits 2 (pad_str 2 d) = Some (d, [])" using b by simp
  show ?thesis
    using nW by (simp add: parse_iso_date_def iso_date_def t4 t2 t2' Let_def del: pad_str.simps)
qed

lemma parse_fraction_pad: "f < 1000000 \<Longrightarrow> parse_fraction (pad_str 6 f) = Some f"
  by (simp add: parse_fraction_def)

lemma parse_clock_iso:
  assumes "us < 86400000000"
  shows "\<exists>k. parse_clock (iso_clock us) = Some k \<and> valid_clock k \<and> clock_us k = int us"
proof -
  define s where "s = us div 1000000"
  define f where "f = us mod 1000000"
  have us: "us = s * 1000000 + f" by (simp add: s_def f_def)
  have s: "s < 86400" using assms by (simp add: s_def less_mult_imp_div_less)
  have f: "f < 1000000" by (simp add: f_def)
  define h where "h = s div 3600"
  define m where "m = s div 60 mod 60"
  define c where "c = s mod 60"
  have hmc: "s = h * 3600 + m * 60 + c"
  proof -
    have "s = 60 * (s div 60) + c" by (simp add: c_def)
    moreover have "s div 60 = 60 * (s div 60 div 60) + m" by (simp add: m_def)
    moreover have "s div 60 div 60 = h" by (simp add: h_def div_mult2_eq [symmetric])
    ultimately show ?thesis by linarith
  qed
  have "h < 24" using s hmc by linarith
  moreover have "m < 60" "c < 60" by (simp_all add: m_def c_def)
  ultimately have b: "h < 24" "m < 60" "c < 60" by simp_all
  have t: "take_digits 2 (pad_str 2 h @ r) = Some (h, r)" "take_digits 2 (pad_str 2 m @ r) = Some (m, r)"
     "take_digits 2 (pad_str 2 c @ r) = Some (c, r)" for r using b by simp_all
  have t': "take_digits 2 (pad_str 2 c) = Some (c, [])" using b by simp
  have "parse_clock (iso_clock us) = Some (h, m, c, f)"
    using f parse_fraction_pad [OF f]
    by (simp add: parse_clock_def iso_clock_def Let_def t t' s_def [symmetric] f_def [symmetric]
        h_def [symmetric] m_def [symmetric] c_def [symmetric] del: pad_str.simps)
  moreover have "valid_clock (h, m, c, f)" using b by (simp add: valid_clock_def)
  moreover have "clock_us (h, m, c, f) = int us" unfolding clock_us_def using us hmc by simp
  ultimately show ?thesis by blast
qed

lemma iso_clock_no_zone: "list_all (\<lambda>x. \<not> is_zone_mark x) (iso_clock us)"
proof -
  have d: "is_digit c \<Longrightarrow> \<not> is_zone_mark c" for c
    by (auto simp: is_digit_def is_zone_mark_def code_def)
  have p: "list_all (\<lambda>x. \<not> is_zone_mark x) (pad_str w n)" for w n
    using pad_str_digits [of w n] by (rule list.pred_mono_strong) (rule d)
  have "\<not> is_zone_mark CHR '':''" "\<not> is_zone_mark CHR ''.''" by (simp_all add: is_zone_mark_def)
  with p show ?thesis by (simp add: iso_clock_def Let_def del: pad_str.simps)
qed

lemma parse_offset_zero: "parse_offset CHR ''+'' ''00:00'' = Some 0"
proof -
  have "digit_char 0 = CHR ''0''" by code_simp
  then have p: "pad_str 2 0 = ''00''" by (simp add: numeral_2_eq_2)
  have "take_digits 2 (''00'' @ '':00'') = Some (0, '':00'')" "take_digits 2 ''00'' = Some (0, [])"
    using take_digits_pad [of 0 2 "'':00''"] take_digits_pad_end [of 0 2] unfolding p by simp_all
  then have "parse_clock ''00:00'' = Some (0, 0, 0, 0)" by (simp add: parse_clock_def)
  then show ?thesis by (simp add: parse_offset_def valid_clock_def clock_us_def)
qed

lemma parse_iso_time_part_iso:
  assumes "us < 86400000000"
  shows "\<exists>k. parse_iso_time_part (iso_clock us @ ''+00:00'') = Some (k, Some 0)
    \<and> valid_clock k \<and> clock_us k = int us"
proof -
  obtain k where k: "parse_clock (iso_clock us) = Some k" "valid_clock k" "clock_us k = int us"
    using parse_clock_iso [OF assms] by blast
  have z: "is_zone_mark CHR ''+''" by (simp add: is_zone_mark_def)
  have tw: "takeWhile (\<lambda>x. \<not> is_zone_mark x) (iso_clock us @ ''+00:00'') = iso_clock us"
    "dropWhile (\<lambda>x. \<not> is_zone_mark x) (iso_clock us @ ''+00:00'') = ''+00:00''"
    using iso_clock_no_zone [of us] z by (simp_all add: list_all_iff)
  have "parse_offset CHR ''+'' ''00:00'' = Some 0" by (rule parse_offset_zero)
  with tw k show ?thesis by (simp add: parse_iso_time_part_def Let_def)
qed

lemma length_iso_date: "length (iso_date ymd) = 10"
  by (cases ymd) (simp add: iso_date_def)

lemma find_separator_iso: "find_separator (iso_date ymd @ CHR ''T'' # r) = Some 10"
proof -
  obtain y m d where [simp]: "ymd = (y, m, d)" by (cases ymd)
  have a4: "(iso_date ymd @ CHR ''T'' # r) ! 4 = CHR ''-''"
    using nth_append_length [of "pad_str 4 y" "CHR ''-''"] by (simp add: iso_date_def)
  have "(iso_date ymd @ CHR ''T'' # r) ! 5 = hd (pad_str 2 m)"
    by (simp add: iso_date_def nth_append numeral_2_eq_2)
  then have "is_digit ((iso_date ymd @ CHR ''T'' # r) ! 5)"
    using set_pad_str [of _ 2 m] by (simp add: numeral_2_eq_2)
  then have a5: "(iso_date ymd @ CHR ''T'' # r) ! 5 \<noteq> CHR ''W''"
    by (auto simp: is_digit_def code_def)
  show ?thesis
    using a4 a5 length_iso_date [of ymd] by (simp add: find_separator_def)
qed

theorem fromisoformat_isoformat:
  assumes "valid_instant t"
  shows "fromisoformat (isoformat t) = Some \<lparr>dt_local = t, dt_offset = Some 0\<rparr>"
proof -
  let ?n = "nat (t div day_us) + 1" and ?us = "nat (t mod day_us)"
  have d: "day_us = 86400000000" by (simp add: day_us_def)
  have t0: "0 \<le> t" "t < 315537897600000000" using assms by (simp_all add: valid_instant_def max_instant_def)
  have n: "1 \<le> ?n" "?n \<le> max_ordinal" using t0 unfolding d max_ordinal_def by linarith+
  have us: "?us < 86400000000" using pos_mod_bound [of day_us t] unfolding d by simp
  note ord = ord_ymd_correct [OF n]
  obtain k where k: "parse_iso_time_part (iso_clock ?us @ ''+00:00'') = Some (k, Some 0)"
      "valid_clock k" "clock_us k = int ?us"
    using parse_iso_time_part_iso [OF us] by blast
  have k24: "k \<noteq> (24, 0, 0, 0)" using k(2) by (auto simp: valid_clock_def)
  let ?s = "isoformat t"
  have s: "?s = iso_date (ord_ymd ?n) @ CHR ''T'' # (iso_clock ?us @ ''+00:00'')"
    by (simp add: isoformat_def)
  have len: "17 \<le> length ?s" using length_iso_date [of "ord_ymd ?n"] unfolding s by simp
  have tk: "take 10 ?s = iso_date (ord_ymd ?n)" "drop (Suc 10) ?s = iso_clock ?us @ ''+00:00''"
    using length_iso_date [of "ord_ymd ?n"] unfolding s by simp_all
  have "0 \<le> t div day_us" "0 \<le> t mod day_us" using t0 unfolding d by simp_all
  then have "(int ?n - 1) * day_us + int ?us = t" by simp
  then have b: "build_pydt (ord_ymd ?n) k (Some 0) = Some \<lparr>dt_local = t, dt_offset = Some 0\<rparr>"
    using ord k k24 n(2) by (simp add: build_pydt_def)
  have fs: "find_separator ?s = Some 10" unfolding s by (rule find_separator_iso)
  have pd: "parse_iso_date (iso_date (ord_ymd ?n)) = Some (ord_ymd ?n)"
    using ord by (intro parse_iso_date_iso) blast
  show ?thesis using len b fs pd tk k(1) by (simp add: fromisoformat_def)
qed

lemma isoformat_inj: "valid_instant s \<Longrightarrow> valid_instant t \<Longrightarrow> isoformat s = isoformat t \<longleftrightarrow> s = t"
  by (metis fromisoformat_isoformat option.inject pydt.ext_inject)

lemma isoformat_nonempty [simp]: "isoformat t \<noteq> []"
  by (simp add: isoformat_def)

lemma isoformat_no_Z: "CHR ''Z'' \<notin> set (isoformat t)"
proof -
  have d: "CHR ''Z'' \<notin> set (pad_str w n)" for w n
    using set_pad_str [of "CHR ''Z''" w n] by (auto simp: is_digit_def code_def)
  have "CHR ''Z'' \<notin> set (iso_clock us)" for us
    using iso_clock_no_zone [of us] by (auto simp: list_all_iff is_zone_mark_def)
  then show ?thesis using d by (auto simp: isoformat_def iso_date_def split: prod.splits)
qed

lemma zulu_isoformat [simp]: "zulu (isoformat t) = isoformat t"
  by (simp add: zulu_def isoformat_no_Z)

end
