(* ===== verification/Models.thy ===== *)
theory Models
  imports Py_Hash Py_Time Complex_Main
begin

section \<open>Typed records of the case state machine (app/cases/models.py)\<close>

text \<open>
  The enumerations and records of \<open>app/cases/models.py\<close>, one datatype per \<open>Literal\<close> and one record
  per pydantic class. A field keeps its name behind a prefix for its class (\<open>ac_status\<close> is the
  \<open>status\<close> of an \<open>AtomicCaseProjection\<close>). The constant \<open>kind\<close> and \<open>schema_version\<close> fields are
  left out; the two case classes are the constructors \<open>Atomic\<close> and \<open>Meta\<close>. Identifiers and
  times are drawn from sequences in the state, as \<open>uuid4\<close> and the clock give them.
\<close>

subsection \<open>Enumerations\<close>

datatype severity = HIGH | MEDIUM | LOW | UNKNOWN

datatype observation_status = Obs_firing | Obs_clean | Obs_resolved | Obs_unknown

datatype source_health = SH_healthy | SH_degraded | SH_unknown | SH_failed

datatype case_status =
    CS_open | CS_triaged | CS_context_requested | CS_handoff_requested | CS_handoff_in_progress
  | CS_verification_pending | CS_blocked | CS_failed | CS_needs_human
  | CS_investigating | CS_waiting_approval | CS_recovered_pending | CS_resolved | CS_expired
  | CS_linked | CS_closed
  | CS_candidate_event | CS_active_event | CS_investigating_event | CS_monitoring_recovery
  | CS_stabilized | CS_split | CS_merged

datatype actor_type =
  Act_system | Act_operator | Act_monitor | Act_graph | Act_migration | Act_replay

datatype alias_type =
    AT_hotspot_fp | AT_alert_fp | AT_source_fp | AT_source_event_id | AT_rule_entity
  | AT_issue_marker | AT_external_issue_id

datatype outbox_intent_type =
    OI_report | OI_meta_report | OI_handoff | OI_knowledge_candidate | OI_issue_comment
  | OI_discord_update | OI_engineering_handoff_requested | OI_engineering_handoff_updated
  | OI_engineering_handoff_verified | OI_engineering_handoff_resolved
  | OI_knowledge_context_requested | OI_knowledge_artifact_proposed
  | OI_verification_objective_created | OI_verification_objective_updated
  | OI_verification_passed | OI_verification_failed

datatype outbox_status = OS_pending | OS_in_progress | OS_succeeded | OS_failed | OS_abandoned

datatype trace_type =
    TT_cycle_snapshot | TT_gate_decision | TT_investigation | TT_report | TT_handoff
  | TT_knowledge_retrieval | TT_cycle_plan | TT_validated_intent | TT_replay

datatype feedback_type =
    FT_operator_note | FT_operator_confirmed_diagnosis | FT_operator_rejected_diagnosis
  | FT_operator_confirmed_grouping | FT_operator_rejected_grouping | FT_operator_split
  | FT_operator_merge | FT_operator_resolution_label

datatype confidence = Conf_high | Conf_medium | Conf_low

datatype case_origin = Origin_reactive | Origin_proactive | Origin_unknown

datatype suppression_source = Sup_operator | Sup_agent | Sup_none

datatype meta_event_type =
    ME_router_down | ME_link_failure | ME_routing_reconvergence | ME_monitoring_failure
  | ME_power_event | ME_unknown

text \<open>The literals themselves.\<close>

fun severity_str :: "severity \<Rightarrow> string" where
  "severity_str HIGH = ''HIGH''"
| "severity_str MEDIUM = ''MEDIUM''"
| "severity_str LOW = ''LOW''"
| "severity_str UNKNOWN = ''UNKNOWN''"

fun observation_status_str :: "observation_status \<Rightarrow> string" where
  "observation_status_str Obs_firing = ''firing''"
| "observation_status_str Obs_clean = ''clean''"
| "observation_status_str Obs_resolved = ''resolved''"
| "observation_status_str Obs_unknown = ''unknown''"

fun source_health_str :: "source_health \<Rightarrow> string" where
  "source_health_str SH_healthy = ''healthy''"
| "source_health_str SH_degraded = ''degraded''"
| "source_health_str SH_unknown = ''unknown''"
| "source_health_str SH_failed = ''failed''"

fun case_status_str :: "case_status \<Rightarrow> string" where
  "case_status_str CS_open = ''open''"
| "case_status_str CS_triaged = ''triaged''"
| "case_status_str CS_context_requested = ''context_requested''"
| "case_status_str CS_handoff_requested = ''handoff_requested''"
| "case_status_str CS_handoff_in_progress = ''handoff_in_progress''"
| "case_status_str CS_verification_pending = ''verification_pending''"
| "case_status_str CS_blocked = ''blocked''"
| "case_status_str CS_failed = ''failed''"
| "case_status_str CS_needs_human = ''needs_human''"
| "case_status_str CS_investigating = ''investigating''"
| "case_status_str CS_waiting_approval = ''waiting_approval''"
| "case_status_str CS_recovered_pending = ''recovered_pending''"
| "case_status_str CS_resolved = ''resolved''"
| "case_status_str CS_expired = ''expired''"
| "case_status_str CS_linked = ''linked''"
| "case_status_str CS_closed = ''closed''"
| "case_status_str CS_candidate_event = ''candidate_event''"
| "case_status_str CS_active_event = ''active_event''"
| "case_status_str CS_investigating_event = ''investigating_event''"
| "case_status_str CS_monitoring_recovery = ''monitoring_recovery''"
| "case_status_str CS_stabilized = ''stabilized''"
| "case_status_str CS_split = ''split''"
| "case_status_str CS_merged = ''merged''"

fun alias_type_str :: "alias_type \<Rightarrow> string" where
  "alias_type_str AT_hotspot_fp = ''hotspot_fp''"
| "alias_type_str AT_alert_fp = ''alert_fp''"
| "alias_type_str AT_source_fp = ''source_fp''"
| "alias_type_str AT_source_event_id = ''source_event_id''"
| "alias_type_str AT_rule_entity = ''rule_entity''"
| "alias_type_str AT_issue_marker = ''issue_marker''"
| "alias_type_str AT_external_issue_id = ''external_issue_id''"

fun outbox_status_str :: "outbox_status \<Rightarrow> string" where
  "outbox_status_str OS_pending = ''pending''"
| "outbox_status_str OS_in_progress = ''in_progress''"
| "outbox_status_str OS_succeeded = ''succeeded''"
| "outbox_status_str OS_failed = ''failed''"
| "outbox_status_str OS_abandoned = ''abandoned''"

fun feedback_type_str :: "feedback_type \<Rightarrow> string" where
  "feedback_type_str FT_operator_note = ''operator_note''"
| "feedback_type_str FT_operator_confirmed_diagnosis = ''operator_confirmed_diagnosis''"
| "feedback_type_str FT_operator_rejected_diagnosis = ''operator_rejected_diagnosis''"
| "feedback_type_str FT_operator_confirmed_grouping = ''operator_confirmed_grouping''"
| "feedback_type_str FT_operator_rejected_grouping = ''operator_rejected_grouping''"
| "feedback_type_str FT_operator_split = ''operator_split''"
| "feedback_type_str FT_operator_merge = ''operator_merge''"
| "feedback_type_str FT_operator_resolution_label = ''operator_resolution_label''"

fun suppression_source_str :: "suppression_source \<Rightarrow> string" where
  "suppression_source_str Sup_operator = ''operator''"
| "suppression_source_str Sup_agent = ''agent''"
| "suppression_source_str Sup_none = []"

subsection \<open>Identifiers and times\<close>

text \<open>
  \<open>uuid4().hex\<close> and \<open>datetime.now(timezone.utc)\<close> are inputs of a run: two sequences of values and
  how many of each have been drawn. The state of the store extends this record.
\<close>

record draws =
  uuid_hex :: "nat \<Rightarrow> string"
  uuids_drawn :: nat
  clock :: "nat \<Rightarrow> instant"
  ticks :: nat

definition uuid4_hex :: "('z draws_scheme, string) comp" where
  "uuid4_hex = (\<lambda>s. (Inr (uuid_hex s (uuids_drawn s)), s\<lparr>uuids_drawn := Suc (uuids_drawn s)\<rparr>))"

definition dt_now :: "('z draws_scheme, instant) comp" where
  "dt_now = (\<lambda>s. (Inr (clock s (ticks s)), s\<lparr>ticks := Suc (ticks s)\<rparr>))"

definition utc_now :: "('z draws_scheme, string) comp" where
  "utc_now = bindM dt_now (\<lambda>t. retM (isoformat t))"

text \<open>\<open>f"prefix_{uuid4().hex[:12]}"\<close>\<close>

definition new_id :: "string \<Rightarrow> ('z draws_scheme, string) comp" where
  "new_id prefix = bindM uuid4_hex (\<lambda>h. retM (prefix @ ''_'' @ take 12 h))"

text \<open>A field with a default factory: the value given, or the factory's.\<close>

definition given_or :: "'a option \<Rightarrow> ('s, 'a) comp \<Rightarrow> ('s, 'a) comp" where
  "given_or v m = (case v of Some x \<Rightarrow> retM x | None \<Rightarrow> m)"

subsection \<open>Signatures\<close>

text \<open>On JSON values \<open>_json_safe\<close> is the identity, and what is left is the sorted rendering.\<close>

definition stable_json :: "json \<Rightarrow> string" where
  "stable_json v = json_dumps_sorted v"

definition stable_signal_signature :: "jdict \<Rightarrow> string" where
  "stable_signal_signature snapshot =
     (if snapshot = [] then [] else take 16 (sha256_hex (stable_json (JDict snapshot))))"

subsection \<open>Records\<close>

record observation =
  obs_observation_id :: string
  obs_source :: string
  obs_source_event_id :: string
  obs_source_fingerprint :: string
  obs_dedup_key :: string
  obs_detector :: string
  obs_rule_id :: string
  obs_entity :: string
  obs_resource :: string
  obs_interface :: string
  obs_service :: string
  obs_site :: string
  obs_customer :: string
  obs_severity :: severity
  obs_status :: observation_status
  obs_observed_at :: string
  obs_received_at :: string
  obs_scan_cycle_id :: string
  obs_labels :: jdict
  obs_annotations :: jdict
  obs_signal_snapshot :: jdict
  obs_signal_signature :: string
  obs_source_health :: source_health
  obs_observation_confidence :: confidence
  obs_payload_ref :: string

record case_event =
  ev_event_id :: string
  ev_case_id :: "string option"
  ev_meta_case_id :: "string option"
  ev_event_type :: string
  ev_actor_type :: actor_type
  ev_actor_id :: string
  ev_source :: string
  ev_occurred_at :: string
  ev_observed_at :: string
  ev_correlation_id :: string
  ev_causation_id :: string
  ev_policy_version :: string
  ev_payload :: jdict

text \<open>A float of a typed field: its value and its \<open>repr\<close>.\<close>

record pyfloat =
  pf_value :: rat
  pf_repr :: string

record case_alias =
  al_alias_id :: string
  al_case_id :: string
  al_alias_type :: alias_type
  al_alias_value :: string
  al_source :: string
  al_confidence :: pyfloat
  al_created_at :: string
  al_retired_at :: "string option"

record atomic_case =
  ac_case_id :: string
  ac_case_number :: string
  ac_fingerprint :: string
  ac_identity :: jdict
  ac_resource_id :: string
  ac_title :: string
  ac_summary :: string
  ac_origin :: case_origin
  ac_rule_id :: string
  ac_detector :: string
  ac_site :: string
  ac_customer :: string
  ac_service :: string
  ac_severity :: severity
  ac_status :: case_status
  ac_opened_at :: string
  ac_updated_at :: string
  ac_resolved_at :: "string option"
  ac_closed_at :: "string option"
  ac_resolution_reason :: string
  ac_last_seen :: string
  ac_last_observed_unhealthy :: string
  ac_last_observed_clean :: string
  ac_last_evaluated_at :: string
  ac_last_scan_cycle_id :: string
  ac_signal_snapshot :: jdict
  ac_signal_signature :: string
  ac_previous_signal_signature :: string
  ac_last_reported_at :: string
  ac_report_generation :: int
  ac_last_reported_signature :: string
  ac_last_reasserted_at :: string
  ac_last_investigated_at :: string
  ac_diagnosis_signature :: string
  ac_last_diagnosis :: jdict
  ac_recommendations :: "string list"
  ac_investigation_status :: string
  ac_investigation_error :: string
  ac_issue_url :: string
  ac_issue_id :: string
  ac_handoff_status :: string
  ac_last_handoff_at :: string
  ac_acknowledged_by :: string
  ac_acknowledged_at :: string
  ac_snoozed_until :: string
  ac_suppressed_until :: string
  ac_suppression_reason :: string
  ac_suppression_source :: suppression_source
  ac_meta_case_id :: string
  ac_covered_by_meta_case :: bool
  ac_independent_action_required :: bool
  ac_trace_ids :: "string list"
  ac_feedback_ids :: "string list"
  ac_knowledge_citations :: "json list"
  ac_candidate_knowledge_update_ids :: "string list"
  ac_policy_version :: string

record meta_case =
  mc_case_id :: string
  mc_event_fingerprint :: string
  mc_title :: string
  mc_summary :: string
  mc_event_type :: meta_event_type
  mc_status :: case_status
  mc_suspected_primary_entity :: string
  mc_suspected_site :: string
  mc_suspected_customer :: string
  mc_suspected_service :: string
  mc_child_case_ids :: "string list"
  mc_notification_ids :: "string list"
  mc_observation_ids :: "string list"
  mc_affected_entities :: "string list"
  mc_affected_sites :: "string list"
  mc_affected_customers :: "string list"
  mc_affected_services :: "string list"
  mc_affected_interfaces :: "string list"
  mc_blast_radius_summary :: string
  mc_correlation_reason :: string
  mc_correlation_confidence :: pyfloat
  mc_correlation_features :: "json list"
  mc_root_cause_hypothesis :: string
  mc_supporting_evidence :: "string list"
  mc_disconfirming_evidence :: "string list"
  mc_opened_at :: string
  mc_updated_at :: string
  mc_first_notification_at :: string
  mc_last_notification_at :: string
  mc_last_child_update_at :: string
  mc_stabilized_at :: "string option"
  mc_resolved_at :: "string option"
  mc_closed_at :: "string option"
  mc_resolution_reason :: string
  mc_notification_count :: int
  mc_child_case_count :: int
  mc_peak_rate :: pyfloat
  mc_storm_started_at :: string
  mc_storm_last_seen_at :: string
  mc_storm_quiet_since :: string
  mc_stabilization_window_until :: string
  mc_event_level_diagnosis :: jdict
  mc_recommended_event_level_action :: string
  mc_issue_url :: string
  mc_issue_id :: string
  mc_handoff_status :: string
  mc_child_issue_urls :: "string list"
  mc_trace_ids :: "string list"
  mc_feedback_ids :: "string list"
  mc_knowledge_citations :: "json list"
  mc_candidate_knowledge_update_ids :: "string list"
  mc_final_root_cause_label :: string
  mc_final_correlation_quality_label :: string
  mc_policy_version :: string

datatype case_projection = Atomic atomic_case | Meta meta_case

record trace_record =
  tr_trace_id :: string
  tr_cycle_id :: string
  tr_case_id :: "string option"
  tr_meta_case_id :: "string option"
  tr_trace_type :: trace_type
  tr_policy_version :: string
  tr_model_chain :: "string list"
  tr_prompt_version :: string
  tr_knowledge_export_version :: string
  tr_payload :: jdict
  tr_created_at :: string

record operator_feedback =
  fb_feedback_id :: string
  fb_case_id :: "string option"
  fb_meta_case_id :: "string option"
  fb_trace_id :: "string option"
  fb_actor_id :: string
  fb_actor_role :: string
  fb_feedback_type :: feedback_type
  fb_payload :: jdict
  fb_created_at :: string

record outbox_intent =
  ob_outbox_id :: string
  ob_intent_type :: outbox_intent_type
  ob_case_id :: "string option"
  ob_meta_case_id :: "string option"
  ob_idempotency_key :: string
  ob_state_signature :: string
  ob_payload :: jdict
  ob_status :: outbox_status
  ob_attempts :: int
  ob_claim_token :: string
  ob_claim_expires_at :: "string option"
  ob_next_attempt_at :: string
  ob_created_at :: string
  ob_completed_at :: "string option"
  ob_external_id :: string
  ob_external_url :: string
  ob_error :: string


text \<open>Literals the event payloads and idempotency keys render.\<close>

fun outbox_intent_type_str :: "outbox_intent_type \<Rightarrow> string" where
  "outbox_intent_type_str OI_report = ''report''"
| "outbox_intent_type_str OI_meta_report = ''meta_report''"
| "outbox_intent_type_str OI_handoff = ''handoff''"
| "outbox_intent_type_str OI_knowledge_candidate = ''knowledge_candidate''"
| "outbox_intent_type_str OI_issue_comment = ''issue_comment''"
| "outbox_intent_type_str OI_discord_update = ''discord_update''"
| "outbox_intent_type_str OI_engineering_handoff_requested = ''engineering_handoff_requested''"
| "outbox_intent_type_str OI_engineering_handoff_updated = ''engineering_handoff_updated''"
| "outbox_intent_type_str OI_engineering_handoff_verified = ''engineering_handoff_verified''"
| "outbox_intent_type_str OI_engineering_handoff_resolved = ''engineering_handoff_resolved''"
| "outbox_intent_type_str OI_knowledge_context_requested = ''knowledge_context_requested''"
| "outbox_intent_type_str OI_knowledge_artifact_proposed = ''knowledge_artifact_proposed''"
| "outbox_intent_type_str OI_verification_objective_created = ''verification_objective_created''"
| "outbox_intent_type_str OI_verification_objective_updated = ''verification_objective_updated''"
| "outbox_intent_type_str OI_verification_passed = ''verification_passed''"
| "outbox_intent_type_str OI_verification_failed = ''verification_failed''"

subsection \<open>Construction\<close>

text \<open>
  A constructor takes the fields with a default factory as options (None where the caller leaves
  them to the factory), the other fields as an update of the record of defaults, and ends with the
  class's validators. Factories run in the order of the fields.
\<close>

definition is_positive_clean :: "observation \<Rightarrow> bool" where
  "is_positive_clean ob \<longleftrightarrow>
     (obs_status ob = Obs_clean \<or> obs_status ob = Obs_resolved) \<and>
     \<not> (obs_source_health ob = SH_degraded \<or> obs_source_health ob = SH_failed)"

definition blank_observation :: observation where
  "blank_observation = \<lparr>
     obs_observation_id = [], obs_source = [], obs_source_event_id = [],
     obs_source_fingerprint = [], obs_dedup_key = [], obs_detector = [], obs_rule_id = [],
     obs_entity = [], obs_resource = [], obs_interface = [], obs_service = [], obs_site = [],
     obs_customer = [], obs_severity = UNKNOWN, obs_status = Obs_unknown, obs_observed_at = [],
     obs_received_at = [], obs_scan_cycle_id = [], obs_labels = [], obs_annotations = [],
     obs_signal_snapshot = [], obs_signal_signature = [], obs_source_health = SH_unknown,
     obs_observation_confidence = Conf_medium, obs_payload_ref = []\<rparr>"

definition observation_fill_signature :: "observation \<Rightarrow> observation" where
  "observation_fill_signature ob =
     (if obs_signal_signature ob = []
      then ob\<lparr>obs_signal_signature := stable_signal_signature (obs_signal_snapshot ob)\<rparr> else ob)"

definition new_observation ::
  "string option \<Rightarrow> string option \<Rightarrow> string option \<Rightarrow> (observation \<Rightarrow> observation)
    \<Rightarrow> ('z draws_scheme, observation) comp" where
  "new_observation oid observed received given =
     bindM (given_or oid (new_id ''obs'')) (\<lambda>i.
     bindM (given_or observed utc_now) (\<lambda>o_at.
     bindM (given_or received utc_now) (\<lambda>r_at.
       retM (observation_fill_signature (given (blank_observation\<lparr>
         obs_observation_id := i, obs_observed_at := o_at, obs_received_at := r_at\<rparr>))))))"

definition blank_event :: case_event where
  "blank_event = \<lparr>
     ev_event_id = [], ev_case_id = None, ev_meta_case_id = None, ev_event_type = [],
     ev_actor_type = Act_system, ev_actor_id = [], ev_source = [], ev_occurred_at = [],
     ev_observed_at = [], ev_correlation_id = [], ev_causation_id = [], ev_policy_version = [],
     ev_payload = []\<rparr>"

definition new_event ::
  "string option \<Rightarrow> string option \<Rightarrow> (case_event \<Rightarrow> case_event)
    \<Rightarrow> ('z draws_scheme, case_event) comp" where
  "new_event eid occurred given =
     bindM (given_or eid (new_id ''evt'')) (\<lambda>i.
     bindM (given_or occurred utc_now) (\<lambda>t.
       retM (given (blank_event\<lparr>ev_event_id := i, ev_occurred_at := t\<rparr>))))"

definition pyfloat_one :: pyfloat where
  "pyfloat_one = \<lparr>pf_value = 1, pf_repr = ''1.0''\<rparr>"

definition pyfloat_zero :: pyfloat where
  "pyfloat_zero = \<lparr>pf_value = 0, pf_repr = ''0.0''\<rparr>"

text \<open>\<open>CaseIdentityAlias\<close>: \<open>created\<close> is None where the factory runs; the value is stripped.\<close>

definition new_alias ::
  "string option \<Rightarrow> string \<Rightarrow> alias_type \<Rightarrow> string \<Rightarrow> string \<Rightarrow> pyfloat \<Rightarrow> string option
    \<Rightarrow> ('z draws_scheme, case_alias) comp" where
  "new_alias aid cid ty val src conf created =
     bindM (given_or aid (new_id ''alias'')) (\<lambda>i.
     bindM (if pf_value conf < 0 \<or> 1 < pf_value conf
            then raiseM (ValueError ''confidence'') else retM ()) (\<lambda>_.
     bindM (given_or created utc_now) (\<lambda>t.
       retM \<lparr>al_alias_id = i, al_case_id = cid, al_alias_type = ty,
             al_alias_value = py_strip val, al_source = src, al_confidence = conf,
             al_created_at = t, al_retired_at = None\<rparr>)))"

definition blank_case :: atomic_case where
  "blank_case = \<lparr>
     ac_case_id = [], ac_case_number = [], ac_fingerprint = [], ac_identity = [],
     ac_resource_id = [], ac_title = [], ac_summary = [], ac_origin = Origin_unknown,
     ac_rule_id = [], ac_detector = [], ac_site = [], ac_customer = [], ac_service = [],
     ac_severity = UNKNOWN, ac_status = CS_investigating, ac_opened_at = [], ac_updated_at = [],
     ac_resolved_at = None, ac_closed_at = None, ac_resolution_reason = [], ac_last_seen = [],
     ac_last_observed_unhealthy = [], ac_last_observed_clean = [], ac_last_evaluated_at = [],
     ac_last_scan_cycle_id = [], ac_signal_snapshot = [], ac_signal_signature = [],
     ac_previous_signal_signature = [], ac_last_reported_at = [], ac_report_generation = 0,
     ac_last_reported_signature = [], ac_last_reasserted_at = [], ac_last_investigated_at = [],
     ac_diagnosis_signature = [], ac_last_diagnosis = [], ac_recommendations = [],
     ac_investigation_status = [], ac_investigation_error = [], ac_issue_url = [],
     ac_issue_id = [], ac_handoff_status = [], ac_last_handoff_at = [], ac_acknowledged_by = [],
     ac_acknowledged_at = [], ac_snoozed_until = [], ac_suppressed_until = [],
     ac_suppression_reason = [], ac_suppression_source = Sup_none, ac_meta_case_id = [],
     ac_covered_by_meta_case = False, ac_independent_action_required = False, ac_trace_ids = [],
     ac_feedback_ids = [], ac_knowledge_citations = [], ac_candidate_knowledge_update_ids = [],
     ac_policy_version = []\<rparr>"

definition fill_atomic_signature :: "atomic_case \<Rightarrow> atomic_case" where
  "fill_atomic_signature c =
     (if ac_signal_signature c = []
      then c\<lparr>ac_signal_signature := stable_signal_signature (ac_signal_snapshot c)\<rparr> else c)"

definition new_atomic_case ::
  "string option \<Rightarrow> string option \<Rightarrow> string option \<Rightarrow> (atomic_case \<Rightarrow> atomic_case)
    \<Rightarrow> ('z draws_scheme, atomic_case) comp" where
  "new_atomic_case cid opened updated given =
     bindM (given_or cid (new_id ''case'')) (\<lambda>i.
     bindM (given_or opened utc_now) (\<lambda>o_at.
     bindM (given_or updated utc_now) (\<lambda>u_at.
       retM (fill_atomic_signature (given (blank_case\<lparr>
         ac_case_id := i, ac_opened_at := o_at, ac_updated_at := u_at\<rparr>))))))"

definition meta_fill_counts :: "meta_case \<Rightarrow> meta_case" where
  "meta_fill_counts m = m\<lparr>
     mc_child_case_count := int (length (mc_child_case_ids m)),
     mc_notification_count := max (mc_notification_count m) (int (length (mc_notification_ids m)))\<rparr>"

definition proj_case_id :: "case_projection \<Rightarrow> string" where
  "proj_case_id p = (case p of Atomic c \<Rightarrow> ac_case_id c | Meta m \<Rightarrow> mc_case_id m)"

definition proj_status :: "case_projection \<Rightarrow> case_status" where
  "proj_status p = (case p of Atomic c \<Rightarrow> ac_status c | Meta m \<Rightarrow> mc_status m)"

definition proj_updated_at :: "case_projection \<Rightarrow> string" where
  "proj_updated_at p = (case p of Atomic c \<Rightarrow> ac_updated_at c | Meta m \<Rightarrow> mc_updated_at m)"

definition proj_kind :: "case_projection \<Rightarrow> string" where
  "proj_kind p = (case p of Atomic c \<Rightarrow> ''atomic'' | Meta m \<Rightarrow> ''meta'')"

text \<open>\<open>case if isinstance(case, AtomicCaseProjection) else None\<close>\<close>

fun as_atomic :: "case_projection option \<Rightarrow> atomic_case option" where
  "as_atomic (Some (Atomic c)) = Some c"
| "as_atomic _ = None"

text \<open>\<open>if x:\<close> on an optional string.\<close>

definition opt_truthy :: "string option \<Rightarrow> bool" where
  "opt_truthy v \<longleftrightarrow> v \<noteq> None \<and> v \<noteq> Some []"

definition new_trace ::
  "string option \<Rightarrow> string option \<Rightarrow> (trace_record \<Rightarrow> trace_record)
    \<Rightarrow> trace_type \<Rightarrow> ('z draws_scheme, trace_record) comp" where
  "new_trace tid created given ty =
     bindM (given_or tid (new_id ''trace'')) (\<lambda>i.
     bindM (given_or created utc_now) (\<lambda>t.
       retM (given \<lparr>tr_trace_id = i, tr_cycle_id = [], tr_case_id = None,
         tr_meta_case_id = None, tr_trace_type = ty, tr_policy_version = [], tr_model_chain = [],
         tr_prompt_version = [], tr_knowledge_export_version = [], tr_payload = [],
         tr_created_at = t\<rparr>)))"

definition feedback_require_target :: "operator_feedback \<Rightarrow> exn + operator_feedback" where
  "feedback_require_target f =
     (if opt_truthy (fb_case_id f) \<or> opt_truthy (fb_meta_case_id f) \<or> opt_truthy (fb_trace_id f)
      then Inr f
      else Inl (ValueError
        ''operator feedback requires a case_id, meta_case_id, or trace_id''))"

definition new_feedback ::
  "string option \<Rightarrow> string option \<Rightarrow> (operator_feedback \<Rightarrow> operator_feedback)
    \<Rightarrow> feedback_type \<Rightarrow> ('z draws_scheme, operator_feedback) comp" where
  "new_feedback fid created given ty =
     bindM (given_or fid (new_id ''fb'')) (\<lambda>i.
     bindM (given_or created utc_now) (\<lambda>t.
       liftM (feedback_require_target (given \<lparr>fb_feedback_id = i, fb_case_id = None,
         fb_meta_case_id = None, fb_trace_id = None, fb_actor_id = [], fb_actor_role = ''operator'',
         fb_feedback_type = ty, fb_payload = [], fb_created_at = t\<rparr>))))"

definition outbox_require_target :: "outbox_intent \<Rightarrow> exn + outbox_intent" where
  "outbox_require_target i =
     (if \<not> (opt_truthy (ob_case_id i) \<or> opt_truthy (ob_meta_case_id i))
      then Inl (ValueError ''outbox intent must target a case_id or meta_case_id'')
      else let j = i\<lparr>ob_idempotency_key := py_strip (ob_idempotency_key i)\<rparr>
           in if ob_idempotency_key j = []
              then Inl (ValueError ''outbox intent requires an idempotency_key'') else Inr j)"

definition blank_intent :: "outbox_intent_type \<Rightarrow> outbox_intent" where
  "blank_intent ty = \<lparr>
     ob_outbox_id = [], ob_intent_type = ty, ob_case_id = None, ob_meta_case_id = None,
     ob_idempotency_key = [], ob_state_signature = [], ob_payload = [], ob_status = OS_pending,
     ob_attempts = 0, ob_claim_token = [], ob_claim_expires_at = None, ob_next_attempt_at = [],
     ob_created_at = [], ob_completed_at = None, ob_external_id = [], ob_external_url = [],
     ob_error = []\<rparr>"

definition new_intent ::
  "string option \<Rightarrow> string option \<Rightarrow> string option \<Rightarrow> (outbox_intent \<Rightarrow> outbox_intent)
    \<Rightarrow> outbox_intent_type \<Rightarrow> ('z draws_scheme, outbox_intent) comp" where
  "new_intent oid next_at created given ty =
     bindM (given_or oid (new_id ''out'')) (\<lambda>i.
     bindM (given_or next_at utc_now) (\<lambda>n_at.
     bindM (given_or created utc_now) (\<lambda>c_at.
       liftM (outbox_require_target (given ((blank_intent ty)\<lparr>ob_outbox_id := i,
         ob_next_attempt_at := n_at, ob_created_at := c_at\<rparr>))))))"

subsection \<open>Facts about construction\<close>

lemma new_id_app [comp_simps]:
  "new_id p s = (Inr (p @ ''_'' @ take 12 (uuid_hex s (uuids_drawn s))),
     s\<lparr>uuids_drawn := Suc (uuids_drawn s)\<rparr>)"
  by (simp add: new_id_def uuid4_hex_def bindM_def)

lemma dt_now_app [comp_simps]: "dt_now s = (Inr (clock s (ticks s)), s\<lparr>ticks := Suc (ticks s)\<rparr>)"
  by (simp add: dt_now_def)

lemma utc_now_app [comp_simps]:
  "utc_now s = (Inr (isoformat (clock s (ticks s))), s\<lparr>ticks := Suc (ticks s)\<rparr>)"
  by (simp add: utc_now_def dt_now_def bindM_def)

lemma given_or_simps [simp]: "given_or (Some x) m = retM x" "given_or None m = m"
  by (simp_all add: given_or_def)

lemma opt_truthy_simps [simp]:
  "\<not> opt_truthy None" "opt_truthy (Some v) \<longleftrightarrow> v \<noteq> []"
  by (simp_all add: opt_truthy_def)

lemma as_atomic_Some: "as_atomic p = Some c \<longleftrightarrow> p = Some (Atomic c)"
  by (cases p rule: as_atomic.cases) auto

lemma stable_signal_signature_length: "length (stable_signal_signature s) \<le> 16"
  by (simp add: stable_signal_signature_def)

lemma observation_fill_signature_idem [simp]:
  "observation_fill_signature (observation_fill_signature ob) = observation_fill_signature ob"
  by (simp add: observation_fill_signature_def)

lemma outbox_require_target_key:
  "outbox_require_target i = Inr j \<Longrightarrow>
     j = i\<lparr>ob_idempotency_key := py_strip (ob_idempotency_key i)\<rparr> \<and> ob_idempotency_key j \<noteq> []
     \<and> (opt_truthy (ob_case_id j) \<or> opt_truthy (ob_meta_case_id j))"
  by (auto simp: outbox_require_target_def Let_def split: if_splits)

end
