(* ===== verification/Py_Regex.thy ===== *)
theory Py_Regex
  imports Py_Text
begin

section \<open>The regular expressions of the redaction patterns\<close>

text \<open>
  The fragment of \<open>re\<close> the LHP redaction patterns use: character classes, \<open>\b\<close>, concatenation,
  alternation, a greedy star over a class and a greedy option. \<open>rx_match\<close> lists the ends of the
  matches that start at a position in the order the backtracking matcher tries them, so its head
  is the match \<open>re\<close> reports; \<open>rx_sub\<close> is \<open>pattern.sub(repl, text)\<close> for a pattern that never matches
  the empty string. A position is the character before it and the text after it.
\<close>

datatype rx =
    Rx_Eps
  | Rx_Class "char \<Rightarrow> bool"
  | Rx_WordBoundary
  | Rx_Seq rx rx
  | Rx_Alt rx rx
  | Rx_Star "char \<Rightarrow> bool"
  | Rx_Opt rx

text \<open>\<open>\w\<close>\<close>

definition is_word_char :: "char \<Rightarrow> bool" where
  "is_word_char c \<longleftrightarrow> is_alnum c \<or> c = CHR ''_''"

definition at_word_boundary :: "char option \<Rightarrow> string \<Rightarrow> bool" where
  "at_word_boundary prev s \<longleftrightarrow>
     (case prev of None \<Rightarrow> False | Some c \<Rightarrow> is_word_char c) \<noteq>
     (case s of [] \<Rightarrow> False | c # _ \<Rightarrow> is_word_char c)"

type_synonym rx_pos = "char option \<times> string"

fun star_match :: "(char \<Rightarrow> bool) \<Rightarrow> char option \<Rightarrow> string \<Rightarrow> rx_pos list" where
  "star_match p prev [] = [(prev, [])]"
| "star_match p prev (c # s) =
     (if p c then star_match p (Some c) s @ [(prev, c # s)] else [(prev, c # s)])"

fun rx_match :: "rx \<Rightarrow> rx_pos \<Rightarrow> rx_pos list" where
  "rx_match Rx_Eps pos = [pos]"
| "rx_match (Rx_Class p) pos =
     (case snd pos of [] \<Rightarrow> [] | c # s \<Rightarrow> if p c then [(Some c, s)] else [])"
| "rx_match Rx_WordBoundary pos = (if at_word_boundary (fst pos) (snd pos) then [pos] else [])"
| "rx_match (Rx_Seq r q) pos = concat (map (rx_match q) (rx_match r pos))"
| "rx_match (Rx_Alt r q) pos = rx_match r pos @ rx_match q pos"
| "rx_match (Rx_Star p) pos = star_match p (fst pos) (snd pos)"
| "rx_match (Rx_Opt r) pos = rx_match r pos @ [pos]"

text \<open>One or more, a literal under \<open>re.I\<close>, and a sequence.\<close>

definition rx_plus :: "(char \<Rightarrow> bool) \<Rightarrow> rx" where
  "rx_plus p = Rx_Seq (Rx_Class p) (Rx_Star p)"

definition rx_lit :: "string \<Rightarrow> rx" where
  "rx_lit w = foldr (\<lambda>c r. Rx_Seq (Rx_Class (\<lambda>d. lower_char d = lower_char c)) r) w Rx_Eps"

definition rx_seq :: "rx list \<Rightarrow> rx" where
  "rx_seq rs = foldr Rx_Seq rs Rx_Eps"

definition rx_alts :: "rx \<Rightarrow> rx list \<Rightarrow> rx" where
  "rx_alts r rs = foldl Rx_Alt r rs"

text \<open>No match reads past the end of what is left.\<close>

lemma star_match_length: "(p', t) \<in> set (star_match p prev s) \<Longrightarrow> length t \<le> length s"
  by (induction p prev s rule: star_match.induct) (auto split: if_splits)

lemma rx_match_length: "pos' \<in> set (rx_match r pos) \<Longrightarrow> length (snd pos') \<le> length (snd pos)"
proof (induction r arbitrary: pos pos')
  case (Rx_Seq r q)
  then obtain m where "m \<in> set (rx_match r pos)" "pos' \<in> set (rx_match q m)" by auto
  with Rx_Seq.IH show ?case by (meson order_trans)
next
  case (Rx_Star p)
  then show ?case using star_match_length [of "fst pos'" "snd pos'"] by simp
next
  case (Rx_Class p)
  then show ?case by (cases "snd pos") (auto split: if_splits)
qed (auto split: if_splits)

function rx_sub_from :: "rx \<Rightarrow> string \<Rightarrow> char option \<Rightarrow> string \<Rightarrow> string" where
  "rx_sub_from r repl prev [] = []"
| "rx_sub_from r repl prev (c # s) =
     (case rx_match r (prev, c # s) of
        [] \<Rightarrow> c # rx_sub_from r repl (Some c) s
      | (p', t) # _ \<Rightarrow>
          (if length t < length (c # s) then repl @ rx_sub_from r repl p' t
           else c # rx_sub_from r repl (Some c) s))"
  by pat_completeness auto
termination by (relation "measure (\<lambda>(r, repl, prev, s). length s)") auto

definition rx_sub :: "rx \<Rightarrow> string \<Rightarrow> string \<Rightarrow> string" where
  "rx_sub r repl s = rx_sub_from r repl None s"

text \<open>Substitution only writes characters of the text and of the replacement.\<close>

lemma star_match_suffix: "(p', t) \<in> set (star_match p prev s) \<Longrightarrow> \<exists>u. s = u @ t"
  by (induction p prev s rule: star_match.induct) (auto split: if_splits intro: exI [of _ "_ # _"])

lemma rx_match_suffix: "pos' \<in> set (rx_match r pos) \<Longrightarrow> \<exists>u. snd pos = u @ snd pos'"
proof (induction r arbitrary: pos pos')
  case (Rx_Seq r q)
  then obtain m where m: "m \<in> set (rx_match r pos)" "pos' \<in> set (rx_match q m)" by auto
  obtain u where "snd pos = u @ snd m" using Rx_Seq.IH(1) [OF m(1)] by blast
  moreover obtain v where "snd m = v @ snd pos'" using Rx_Seq.IH(2) [OF m(2)] by blast
  ultimately show ?case by simp
next
  case (Rx_Star p)
  then show ?case using star_match_suffix [of "fst pos'" "snd pos'"] by simp
next
  case (Rx_Class p)
  then show ?case by (cases "snd pos") (auto split: if_splits)
qed (auto split: if_splits)

lemma set_rx_sub_from: "set (rx_sub_from r repl prev s) \<subseteq> set s \<union> set repl"
proof (induction r repl prev s rule: rx_sub_from.induct)
  case (2 r repl prev c s)
  show ?case
  proof (cases "rx_match r (prev, c # s)")
    case Nil
    with 2 show ?thesis by auto
  next
    case (Cons pt ms)
    obtain p' t where pt: "pt = (p', t)" by force
    have "\<exists>u. c # s = u @ t" using rx_match_suffix [of pt r "(prev, c # s)"] Cons pt by simp
    then have "set t \<subseteq> set (c # s)" by (metis Un_upper2 set_append)
    moreover have "length t < length (c # s) \<Longrightarrow> set (rx_sub_from r repl p' t) \<subseteq> set t \<union> set repl"
      using 2(2) [OF Cons] pt by auto
    moreover have "\<not> length t < length (c # s) \<Longrightarrow>
        set (rx_sub_from r repl (Some c) s) \<subseteq> set s \<union> set repl"
      using 2(3) [OF Cons] pt by auto
    ultimately show ?thesis using Cons pt by (auto split: if_splits)
  qed
qed simp

lemma set_rx_sub: "set (rx_sub r repl s) \<subseteq> set s \<union> set repl"
  unfolding rx_sub_def by (rule set_rx_sub_from)

end
