(* ===== verification/Lhp_Sanitize.thy ===== *)
theory Lhp_Sanitize
  imports Models Py_Regex
begin

section \<open>Sanitizers, hashing and signing (app/cases/lhp.py)\<close>

text \<open>
  The safety helpers of the Loop Handoff Protocol: the token, text and payload sanitizers that
  bound and redact what another loop sends, the canonical JSON, its hash and its size bound, and the
  signature of loop-to-loop traffic. An argument typed \<open>Any\<close> is a JSON value here.
\<close>

subsection \<open>Canonical JSON\<close>

definition canonical_lhp_json :: "json \<Rightarrow> string" where
  "canonical_lhp_json v = json_dumps_sorted v"

definition lhp_payload_hash :: "json \<Rightarrow> string" where
  "lhp_payload_hash v = sha256_hex (canonical_lhp_json v)"

definition lhp_payload_size :: "json \<Rightarrow> nat" where
  "lhp_payload_size v = length (utf8 (canonical_lhp_json v))"

definition DEFAULT_LHP_CALLBACK_MAX_BYTES :: int where
  "DEFAULT_LHP_CALLBACK_MAX_BYTES = 65536"

definition assert_lhp_payload_size :: "json \<Rightarrow> int \<Rightarrow> exn + unit" where
  "assert_lhp_payload_size v max_bytes =
     (if int (lhp_payload_size v) > max 0 max_bytes
      then Inl (ValueError (''LHP payload exceeds max size: '' @ nat_str (lhp_payload_size v) @
        '' > '' @ int_str max_bytes))
      else Inr ())"

subsection \<open>Tokens and text\<close>

definition token_allowed :: "char \<Rightarrow> bool" where
  "token_allowed c \<longleftrightarrow> is_alnum c \<or> c \<in> set ''_-:./''"

definition sanitize_lhp_token :: "json \<Rightarrow> int \<Rightarrow> string" where
  "sanitize_lhp_token v limit =
     slice_to (max 1 limit) (or_str (filter token_allowed (str_or_empty v)) ''unknown'')"

definition blocked_char :: "char \<Rightarrow> bool" where
  "blocked_char c \<longleftrightarrow> c \<in> set ''`<>[]{}'' \<or> code c < 32"

text \<open>\<open>_SECRET_TEXT_PATTERNS\<close>\<close>

definition rx_private_key :: rx where
  "rx_private_key = rx_seq [rx_lit ''-----BEGIN '',
     Rx_Star (\<lambda>c. is_alnum c \<or> c = CHR '' ''), rx_lit ''PRIVATE KEY-----'']"

definition rx_bearer :: rx where
  "rx_bearer = rx_seq [Rx_WordBoundary, rx_lit ''Bearer'', rx_plus is_space,
     rx_plus (\<lambda>c. is_alnum c \<or> c \<in> set ''._~+/=-'')]"

definition rx_authorization :: rx where
  "rx_authorization = rx_seq [Rx_WordBoundary, rx_lit ''Authorization'', Rx_Star is_space,
     rx_lit '':'', Rx_Star is_space, rx_plus (\<lambda>c. \<not> is_space c),
     Rx_Opt (rx_seq [rx_plus is_space, rx_plus (\<lambda>c. \<not> is_space c)])]"

definition rx_assignment :: rx where
  "rx_assignment = rx_seq [Rx_WordBoundary,
     rx_alts (rx_lit ''password'')
       [rx_lit ''passwd'', rx_lit ''secret'', rx_lit ''token'', rx_lit ''credential''],
     Rx_Star is_space, Rx_Class (\<lambda>c. c = CHR '':'' \<or> c = CHR ''=''), Rx_Star is_space,
     rx_plus (\<lambda>c. \<not> is_space c \<and> c \<noteq> CHR '','' \<and> c \<noteq> CHR '';'')]"

definition secret_text_patterns :: "rx list" where
  "secret_text_patterns = [rx_private_key, rx_bearer, rx_authorization, rx_assignment]"

definition redact_secrets :: "string \<Rightarrow> string" where
  "redact_secrets text = foldl (\<lambda>t p. rx_sub p ''[redacted]'' t) text secret_text_patterns"

definition DEFAULT_TEXT_LIMIT :: int where
  "DEFAULT_TEXT_LIMIT = 1000"

definition sanitize_lhp_text :: "json \<Rightarrow> int \<Rightarrow> string" where
  "sanitize_lhp_text v limit =
     (let text = redact_secrets (str_or_empty v);
          cleaned = map (\<lambda>c. if blocked_char c then CHR '' '' else c) text;
          rendered = py_join '' '' (py_split cleaned)
      in slice_to (max 1 limit) (or_str rendered [em_dash]))"

text \<open>\<open>not str(value or "").strip()\<close>\<close>

definition lhp_blank :: "json \<Rightarrow> bool" where
  "lhp_blank v \<longleftrightarrow> py_strip (str_or_empty v) = []"

definition require_lhp_token :: "json \<Rightarrow> string \<Rightarrow> int \<Rightarrow> exn + string" where
  "require_lhp_token v field_name limit =
     (if lhp_blank v then Inl (ValueError (field_name @ '' is required''))
      else Inr (sanitize_lhp_token v limit))"

definition require_lhp_text :: "json \<Rightarrow> string \<Rightarrow> int \<Rightarrow> exn + string" where
  "require_lhp_text v field_name limit =
     (if lhp_blank v then Inl (ValueError (field_name @ '' is required''))
      else Inr (sanitize_lhp_text v limit))"

subsection \<open>Payloads\<close>

definition MAX_COLLECTION_ITEMS :: nat where "MAX_COLLECTION_ITEMS = 50"
definition MAX_MAPPING_ITEMS :: nat where "MAX_MAPPING_ITEMS = 100"
definition MAX_PAYLOAD_DEPTH :: nat where "MAX_PAYLOAD_DEPTH = 6"
definition MAX_VERIFICATION_OBJECTIVES_PER_HANDOFF :: nat where
  "MAX_VERIFICATION_OBJECTIVES_PER_HANDOFF = 20"

definition forbidden_text_markers :: "string list" where
  "forbidden_text_markers =
     [''raw_log'', ''packet_capture'', ''transcript'', ''authorization'', ''credential'', ''secret'']"

definition has_forbidden_marker :: "string \<Rightarrow> bool" where
  "has_forbidden_marker s \<longleftrightarrow> (\<exists>m \<in> set forbidden_text_markers. str_in m s)"

definition safe_key :: "string \<Rightarrow> string" where
  "safe_key k =
     (let t = sanitize_lhp_token (JStr k) 80
      in if has_forbidden_marker (py_lower t) then ''redacted_key'' else t)"

primrec sanitize_lhp_payload :: "int \<Rightarrow> nat \<Rightarrow> json \<Rightarrow> json" where
  "sanitize_lhp_payload string_limit 0 v = JStr (sanitize_lhp_text v string_limit)"
| "sanitize_lhp_payload string_limit (Suc max_depth) v =
     (case v of
        JStr s \<Rightarrow> JStr (sanitize_lhp_text (JStr s) string_limit)
      | JList xs \<Rightarrow>
          JList (map (sanitize_lhp_payload string_limit max_depth) (take MAX_COLLECTION_ITEMS xs))
      | JDict kvs \<Rightarrow>
          JDict (foldl (\<lambda>rendered kv. dict_set (safe_key (fst kv))
            (sanitize_lhp_payload string_limit max_depth (snd kv)) rendered)
            [] (take MAX_MAPPING_ITEMS kvs))
      | _ \<Rightarrow> v)"

text \<open>The field validators: \<open>sanitize_lhp_payload(value or {})\<close>, a dictionary again.\<close>

definition sanitize_field_dict :: "jdict \<Rightarrow> jdict" where
  "sanitize_field_dict d =
     (case sanitize_lhp_payload 2000 MAX_PAYLOAD_DEPTH (JDict d) of
        JDict e \<Rightarrow> e | v \<Rightarrow> [(''value'', v)])"

definition sanitize_field_list :: "int \<Rightarrow> string list \<Rightarrow> string list" where
  "sanitize_field_list limit xs =
     map (\<lambda>x. sanitize_lhp_text (JStr x) limit) (take MAX_COLLECTION_ITEMS xs)"

subsection \<open>Signatures of loop-to-loop traffic\<close>

definition loop_message :: "string \<Rightarrow> string \<Rightarrow> string \<Rightarrow> json \<Rightarrow> string" where
  "loop_message verb path timestamp body = py_join [char_of (10 :: nat)]
     [sanitize_lhp_token (JStr (py_upper verb)) 16, path,
      sanitize_lhp_token (JStr timestamp) 80, canonical_lhp_json body]"

definition build_loop_signature ::
  "string \<Rightarrow> string \<Rightarrow> string \<Rightarrow> string \<Rightarrow> json \<Rightarrow> exn + string" where
  "build_loop_signature secret verb path timestamp body =
     (if secret = [] then Inl (ValueError ''loop signature secret is required'')
      else Inr (hmac_sha256_hex secret (loop_message verb path timestamp body)))"

text \<open>\<open>hmac.compare_digest\<close> refuses strings outside ASCII.\<close>

definition compare_digest :: "string \<Rightarrow> string \<Rightarrow> exn + bool" where
  "compare_digest a b =
     (if list_all (\<lambda>c. code c < 128) (a @ b) then Inr (a = b)
      else Inl (TypeError
        ''comparing strings with non-ASCII characters is not supported''))"

definition verify_loop_signature ::
  "string \<Rightarrow> string \<Rightarrow> string \<Rightarrow> string \<Rightarrow> json \<Rightarrow> string option \<Rightarrow> exn + bool" where
  "verify_loop_signature secret verb path timestamp body signature =
     (case signature of
        None \<Rightarrow> Inr False
      | Some sig \<Rightarrow>
          if sig = [] then Inr False
          else (case build_loop_signature secret verb path timestamp body of
                  Inl e \<Rightarrow> Inl e
                | Inr expected \<Rightarrow> compare_digest sig expected))"


subsection \<open>What the sanitizers guarantee\<close>

lemma slice_to_max: "slice_to (max 1 n) (c # cs) = c # take (nat (max 1 n) - 1) cs"
  by (simp add: slice_to_def take_Cons' max_def)

lemma slice_to_max_nonempty: "xs \<noteq> [] \<Longrightarrow> slice_to (max 1 n) xs \<noteq> []"
  by (cases xs) (simp_all add: slice_to_max)

lemma slice_to_idem: "slice_to n (slice_to n xs) = slice_to n xs"
  by (simp add: slice_to_def)

definition clean_token :: "int \<Rightarrow> string \<Rightarrow> bool" where
  "clean_token limit t \<longleftrightarrow>
     t \<noteq> [] \<and> int (length t) \<le> max 1 limit \<and> list_all token_allowed t"

definition clean_text :: "int \<Rightarrow> string \<Rightarrow> bool" where
  "clean_text limit t \<longleftrightarrow>
     t \<noteq> [] \<and> int (length t) \<le> max 1 limit \<and>
     list_all (\<lambda>c. \<not> blocked_char c \<and> (is_space c \<longrightarrow> c = CHR '' '')) t"

lemma unknown_token_allowed: "list_all token_allowed ''unknown''"
  by code_simp

lemma token_is_clean: "clean_token limit (sanitize_lhp_token v limit)"
proof -
  define kept where "kept = or_str (filter token_allowed (str_or_empty v)) ''unknown''"
  have ne: "kept \<noteq> []" by (simp add: kept_def or_str_def)
  have "list_all token_allowed (filter token_allowed (str_or_empty v))"
    by (simp add: list_all_iff)
  then have "list_all token_allowed kept"
    unfolding kept_def or_str_def using unknown_token_allowed by (simp only: if_split simp_thms)
  then have "list_all token_allowed (slice_to (max 1 limit) kept)"
    using set_slice_to [of "max 1 limit" kept] by (auto simp: list_all_iff)
  then show ?thesis
    using slice_to_max_nonempty [OF ne, of limit]
    by (simp add: clean_token_def sanitize_lhp_token_def length_slice_to flip: kept_def)
qed

lemma sanitize_lhp_token_fixed:
  assumes "clean_token limit t" shows "sanitize_lhp_token (JStr t) limit = t"
proof -
  have "filter token_allowed t = t"
    using assms by (auto simp: clean_token_def list_all_iff filter_id_conv)
  then show ?thesis
    using assms by (auto simp: sanitize_lhp_token_def clean_token_def or_str_def slice_to_def)
qed

lemma sanitize_lhp_token_idem [simp]:
  "sanitize_lhp_token (JStr (sanitize_lhp_token v limit)) limit = sanitize_lhp_token v limit"
  by (rule sanitize_lhp_token_fixed) (rule token_is_clean)

lemma sanitize_lhp_token_nonempty [simp]: "sanitize_lhp_token v limit \<noteq> []"
  using token_is_clean [of limit v] by (simp add: clean_token_def)

text \<open>
  A sanitized token is never empty, is at most the limit long and consists of letters, digits
  and the five separators, whatever JSON value it was made from, and sanitizing it again changes
  nothing, so an identifier survives every further model it is put into.
\<close>

lemma sanitize_lhp_token_clean:
  "clean_token limit (sanitize_lhp_token v limit) \<and>
   sanitize_lhp_token (JStr (sanitize_lhp_token v limit)) limit = sanitize_lhp_token v limit"
  by (simp add: token_is_clean)

lemma em_dash_clean: "\<not> blocked_char em_dash" "\<not> is_space em_dash"
  by code_simp+

lemma space_clean: "\<not> blocked_char CHR '' ''" "is_space CHR '' ''"
  by (simp_all add: blocked_char_def is_space_def code_def)

lemma set_py_split_clean:
  assumes "c \<in> set (py_join '' '' (py_split (map (\<lambda>c. if blocked_char c then CHR '' '' else c) s)))"
  shows "\<not> blocked_char c \<and> (is_space c \<longrightarrow> c = CHR '' '')"
proof -
  let ?cleaned = "map (\<lambda>c. if blocked_char c then CHR '' '' else c) s"
  from set_py_join [OF assms] consider "c = CHR '' ''"
    | w where "w \<in> set (py_split ?cleaned)" "c \<in> set w" by auto
  then show ?thesis
  proof cases
    case 1
    then show ?thesis using space_clean by simp
  next
    case (2 w)
    then have "c \<in> set ?cleaned" "\<not> is_space c"
      using py_split_word(2,3) [of w ?cleaned] by blast+
    then show ?thesis using space_clean by (auto split: if_splits)
  qed
qed

lemma text_is_clean: "clean_text limit (sanitize_lhp_text v limit)"
proof -
  let ?r = "py_join '' '' (py_split
    (map (\<lambda>c. if blocked_char c then CHR '' '' else c) (redact_secrets (str_or_empty v))))"
  let ?t = "or_str ?r [em_dash]"
  have ne: "?t \<noteq> []" by (simp add: or_str_def)
  have "\<forall>c \<in> set ?t. \<not> blocked_char c \<and> (is_space c \<longrightarrow> c = CHR '' '')"
    using set_py_split_clean em_dash_clean by (auto simp: or_str_def)
  then have "\<forall>c \<in> set (slice_to (max 1 limit) ?t).
      \<not> blocked_char c \<and> (is_space c \<longrightarrow> c = CHR '' '')"
    using set_slice_to [of "max 1 limit" ?t] by blast
  then show ?thesis
    using slice_to_max_nonempty [OF ne, of limit]
    by (simp add: clean_text_def sanitize_lhp_text_def Let_def length_slice_to list_all_iff)
qed

text \<open>
  Sanitized text is never empty, is at most the limit long, is a single line, and contains
  none of the blocked characters: no control character, backtick, bracket, brace or angle bracket.
\<close>

lemma sanitize_lhp_text_clean: "clean_text limit (sanitize_lhp_text v limit)"
  by (rule text_is_clean)

text \<open>The shape of a sanitized payload of a given depth.\<close>

primrec bounded_payload :: "int \<Rightarrow> nat \<Rightarrow> json \<Rightarrow> bool" where
  "bounded_payload limit 0 v \<longleftrightarrow> (case v of JStr s \<Rightarrow> clean_text limit s | _ \<Rightarrow> False)"
| "bounded_payload limit (Suc d) v \<longleftrightarrow>
     (case v of
        JStr s \<Rightarrow> clean_text limit s
      | JList xs \<Rightarrow> length xs \<le> MAX_COLLECTION_ITEMS \<and> list_all (bounded_payload limit d) xs
      | JDict kvs \<Rightarrow> length kvs \<le> MAX_MAPPING_ITEMS \<and> distinct (dict_keys kvs) \<and>
          list_all (\<lambda>kv. clean_token 80 (fst kv) \<and> \<not> has_forbidden_marker (py_lower (fst kv)) \<and>
            bounded_payload limit d (snd kv)) kvs
      | _ \<Rightarrow> True)"

lemma safe_key_clean: "clean_token 80 (safe_key k) \<and> \<not> has_forbidden_marker (py_lower (safe_key k))"
proof -
  have "clean_token 80 ''redacted_key''" by code_simp
  moreover have "\<not> has_forbidden_marker (py_lower ''redacted_key'')" by code_simp
  ultimately show ?thesis
    using token_is_clean [of 80 "JStr k"] by (simp add: safe_key_def Let_def)
qed

lemma length_dict_set: "length (dict_set k v d) \<le> Suc (length d)"
  by (induction d) auto

lemma set_dict_set: "set (dict_set k v d) \<subseteq> insert (k, v) (set d)"
  by (induction d) auto

lemma sanitized_items:
  assumes "\<And>v. P (f v)" and "\<And>k. Q (g k)"
  shows "list_all (\<lambda>kv. Q (fst kv) \<and> P (snd kv)) d \<Longrightarrow> distinct (dict_keys d) \<Longrightarrow>
    (let r = foldl (\<lambda>acc kv. dict_set (g (fst kv)) (f (snd kv)) acc) d kvs
     in list_all (\<lambda>kv. Q (fst kv) \<and> P (snd kv)) r \<and> distinct (dict_keys r) \<and>
        length r \<le> length d + length kvs)"
proof (induction kvs arbitrary: d)
  case Nil
  then show ?case by simp
next
  case (Cons kv kvs)
  let ?d = "dict_set (g (fst kv)) (f (snd kv)) d"
  have "list_all (\<lambda>kv. Q (fst kv) \<and> P (snd kv)) ?d"
    using set_dict_set [of "g (fst kv)" "f (snd kv)" d] Cons.prems(1) assms
    by (auto simp: list_all_iff)
  moreover have "distinct (dict_keys ?d)" using Cons.prems(2) by (rule distinct_dict_set)
  ultimately show ?case
    using Cons.IH [of ?d] length_dict_set [of "g (fst kv)" "f (snd kv)" d] by (simp add: Let_def)
qed

lemma payload_is_bounded: "bounded_payload limit d (sanitize_lhp_payload limit d v)"
proof (induction d arbitrary: v)
  case 0
  then show ?case by (simp add: text_is_clean)
next
  case (Suc d)
  show ?case
  proof (cases v)
    case (JDict kvs)
    let ?Q = "\<lambda>k. clean_token 80 k \<and> \<not> has_forbidden_marker (py_lower k)"
    have "let r = foldl (\<lambda>acc kv. dict_set (safe_key (fst kv))
            (sanitize_lhp_payload limit d (snd kv)) acc) [] (take MAX_MAPPING_ITEMS kvs)
      in list_all (\<lambda>kv. ?Q (fst kv) \<and> bounded_payload limit d (snd kv)) r \<and>
         distinct (dict_keys r) \<and> length r \<le> length ([] :: jdict) + length (take MAX_MAPPING_ITEMS kvs)"
      by (rule sanitized_items [where Q = ?Q]) (use Suc.IH safe_key_clean in auto)
    then show ?thesis using JDict by (simp add: Let_def)
  qed (auto simp: text_is_clean list_all_iff Suc.IH)
qed

text \<open>
  C35: A sanitized payload is bounded at every level: at most 50 list items and 100 keys, keys that
  are clean tokens without a forbidden marker, strings that are clean text, and nothing but a clean
  string at the depth limit.
\<close>

theorem sanitize_lhp_payload_bounded: "bounded_payload limit d (sanitize_lhp_payload limit d v)"
  by (rule payload_is_bounded)

lemma sanitize_field_dict_payload:
  "JDict (sanitize_field_dict d) = sanitize_lhp_payload 2000 MAX_PAYLOAD_DEPTH (JDict d)"
  by (simp add: sanitize_field_dict_def MAX_PAYLOAD_DEPTH_def numeral_eq_Suc)

lemma sanitize_field_dict_bounded:
  "bounded_payload 2000 MAX_PAYLOAD_DEPTH (JDict (sanitize_field_dict d))"
  unfolding sanitize_field_dict_payload by (rule payload_is_bounded)

text \<open>
  Redaction runs before the blocked characters become spaces, so an assignment whose keyword is
  quoted with a backtick passes the redactor and comes out as an assignment it would have redacted.
\<close>

lemma sanitize_lhp_text_quoted_secret:
  "sanitize_lhp_text (JStr ''`token`:x'') DEFAULT_TEXT_LIMIT = ''token :x'' \<and>
   sanitize_lhp_text (JStr ''token :x'') DEFAULT_TEXT_LIMIT = ''redacted''"
  by (intro conjI) code_simp+

text \<open>
  The value of a key with a forbidden marker is kept: only the key is replaced, and two such keys
  of one mapping collapse into one entry that holds the later value.
\<close>

lemma sanitize_lhp_payload_keeps_marked_values:
  assumes "has_forbidden_marker (py_lower (sanitize_lhp_token (JStr k) 80))"
    and "has_forbidden_marker (py_lower (sanitize_lhp_token (JStr k') 80))"
  shows "sanitize_field_dict [(k, v)] = [(''redacted_key'', sanitize_lhp_payload 2000 5 v)] \<and>
    sanitize_field_dict [(k, v), (k', w)] = [(''redacted_key'', sanitize_lhp_payload 2000 5 w)]"
proof -
  have "safe_key k = ''redacted_key''" "safe_key k' = ''redacted_key''"
    using assms by (simp_all add: safe_key_def Let_def)
  moreover have depth: "MAX_PAYLOAD_DEPTH = Suc 5" by (simp add: MAX_PAYLOAD_DEPTH_def)
  ultimately show ?thesis
    unfolding sanitize_field_dict_def depth sanitize_lhp_payload.simps(2)
    by (simp add: MAX_MAPPING_ITEMS_def)
qed

lemma secret_is_marked: "has_forbidden_marker (py_lower (sanitize_lhp_token (JStr ''secret'') 80))"
  by code_simp

lemma sanitize_lhp_payload_keeps_marked_values_witness:
  "sanitize_field_dict [(''secret'', JInt 7)] = [(''redacted_key'', JInt 7)]"
proof -
  have "sanitize_lhp_payload 2000 5 (JInt 7) = JInt 7"
    using sanitize_lhp_payload.simps(2) [of 2000 4 "JInt 7"] by simp
  then show ?thesis
    using sanitize_lhp_payload_keeps_marked_values [OF secret_is_marked secret_is_marked, of "JInt 7"]
    by simp
qed

lemma lhp_payload_hash_clean: "clean_token 180 (lhp_payload_hash v)"
  unfolding clean_token_def lhp_payload_hash_def list_all_iff token_allowed_def
  by (auto dest: set_sha256_hex)

lemma lhp_payload_hash_order_insensitive:
  "distinct (dict_keys d) \<Longrightarrow> mset d = mset d' \<Longrightarrow>
     lhp_payload_hash (JDict d) = lhp_payload_hash (JDict d')"
  by (simp add: lhp_payload_hash_def canonical_lhp_json_def json_dumps_order_insensitive)

lemma set_hmac_ascii: "c \<in> set (hmac_sha256_hex k m) \<Longrightarrow> code c < 128"
  unfolding hmac_sha256_hex_def Let_def
  by (drule set_hex_of) (auto simp: is_alnum_def is_digit_def is_lower_def is_upper_def)

lemma hmac_nonempty: "hmac_sha256_hex k m \<noteq> []"
  using length_hmac_sha256_hex [of k m] by (metis list.size(3) zero_neq_numeral)

text \<open>
  The signature a loop builds with a secret verifies with that secret for the same method, path,
  time and body, also when the body's items arrive in another order; an ASCII signature other than the one built
  is refused, and without a secret nothing is signed.
\<close>

theorem loop_signature_roundtrip:
  assumes "secret \<noteq> []" and "distinct (dict_keys body)" and "mset body = mset body'"
    and "list_all (\<lambda>c. code c < 128) sig" and "sig \<noteq> []"
  shows "\<exists>built. build_loop_signature secret verb path ts (JDict body) = Inr built \<and>
    verify_loop_signature secret verb path ts (JDict body') (Some built) = Inr True \<and>
    (verify_loop_signature secret verb path ts (JDict body') (Some sig) = Inr (sig = built)) \<and>
    build_loop_signature [] verb path ts (JDict body)
      = Inl (ValueError ''loop signature secret is required'')"
proof -
  let ?b = "hmac_sha256_hex secret (loop_message verb path ts (JDict body))"
  have same: "loop_message verb path ts (JDict body') = loop_message verb path ts (JDict body)"
    using json_dumps_order_insensitive [OF assms(2,3)]
    by (simp add: loop_message_def canonical_lhp_json_def)
  have "list_all (\<lambda>c. code c < 128) ?b" by (simp add: list_all_iff set_hmac_ascii)
  then show ?thesis
    using assms(1,4,5) hmac_nonempty
    by (intro exI [of _ ?b])
      (simp add: build_loop_signature_def verify_loop_signature_def compare_digest_def same)
qed

theorem loop_signature_roundtrip_witness:
  "\<exists>built. build_loop_signature ''k'' ''POST'' ''/lhp'' ''t''
       (JDict [(''a'', JInt 1), (''b'', JNull)]) = Inr built \<and>
    verify_loop_signature ''k'' ''POST'' ''/lhp'' ''t''
       (JDict [(''b'', JNull), (''a'', JInt 1)]) (Some built) = Inr True"
proof -
  have "mset [(''a'', JInt 1), (''b'', JNull)] = mset [(''b'', JNull), (''a'', JInt 1)]" by simp
  from loop_signature_roundtrip [OF _ _ this, of "''k''" "''x''" "''POST''" "''/lhp''" "''t''"]
  show ?thesis by (auto simp: code_def)
qed

end
