(* ===== verification/Lhp.thy ===== *)
theory Lhp
  imports Lhp_Sanitize
begin

section \<open>Loop Handoff Protocol contracts (app/cases/lhp.py)\<close>

text \<open>
  The handoff state machine and the records of the protocol. A constructor takes the raw record, in
  which every field the caller left out holds its default, and the names of the fields the caller
  gave: pydantic runs a \<open>before\<close> validator on a given field only, so a default stays as it is.
  The factories of missing identifiers and times run first; then the fields are checked in order.
  Fields of type \<open>dict\<close> and \<open>list\<close> are given as such, so the branches of the validators that wrap
  another value are not taken.
\<close>

subsection \<open>Literals\<close>

datatype loop_name = Loop_noc | Loop_engineering | Loop_knowledge | Loop_soc

datatype handoff_status =
    HS_requested | HS_accepted | HS_in_progress | HS_change_planned | HS_implemented
  | HS_blocked | HS_failed | HS_needs_human | HS_verified | HS_resolved | HS_cancelled | HS_expired

datatype handoff_update_type =
    UT_accepted | UT_investigating | UT_blocked | UT_change_planned | UT_change_applied
  | UT_implemented | UT_failed | UT_needs_human | UT_cancelled

datatype verification_status = VS_pending | VS_pass | VS_fail | VS_unknown | VS_skipped

datatype artifact_status =
    KS_proposed | KS_approved | KS_rejected | KS_superseded | KS_deprecated | KS_published

datatype review_status =
    KR_pending | KR_approved | KR_rejected | KR_superseded | KR_deprecated | KR_published

datatype handoff_transport = HT_github_issue | HT_http | HT_queue

datatype delivery_status = DS_pending | DS_in_progress | DS_succeeded | DS_failed | DS_abandoned

datatype callback_status = CB_accepted | CB_duplicate | CB_rejected

datatype update_confidence = UC_low | UC_medium | UC_high | UC_unknown

fun loop_name_str :: "loop_name \<Rightarrow> string" where
  "loop_name_str Loop_noc = ''noc''"
| "loop_name_str Loop_engineering = ''engineering''"
| "loop_name_str Loop_knowledge = ''knowledge''"
| "loop_name_str Loop_soc = ''soc''"

fun handoff_status_str :: "handoff_status \<Rightarrow> string" where
  "handoff_status_str HS_requested = ''requested''"
| "handoff_status_str HS_accepted = ''accepted''"
| "handoff_status_str HS_in_progress = ''in_progress''"
| "handoff_status_str HS_change_planned = ''change_planned''"
| "handoff_status_str HS_implemented = ''implemented''"
| "handoff_status_str HS_blocked = ''blocked''"
| "handoff_status_str HS_failed = ''failed''"
| "handoff_status_str HS_needs_human = ''needs_human''"
| "handoff_status_str HS_verified = ''verified''"
| "handoff_status_str HS_resolved = ''resolved''"
| "handoff_status_str HS_cancelled = ''cancelled''"
| "handoff_status_str HS_expired = ''expired''"

fun update_type_str :: "handoff_update_type \<Rightarrow> string" where
  "update_type_str UT_accepted = ''accepted''"
| "update_type_str UT_investigating = ''investigating''"
| "update_type_str UT_blocked = ''blocked''"
| "update_type_str UT_change_planned = ''change_planned''"
| "update_type_str UT_change_applied = ''change_applied''"
| "update_type_str UT_implemented = ''implemented''"
| "update_type_str UT_failed = ''failed''"
| "update_type_str UT_needs_human = ''needs_human''"
| "update_type_str UT_cancelled = ''cancelled''"

fun verification_status_str :: "verification_status \<Rightarrow> string" where
  "verification_status_str VS_pending = ''pending''"
| "verification_status_str VS_pass = ''pass''"
| "verification_status_str VS_fail = ''fail''"
| "verification_status_str VS_unknown = ''unknown''"
| "verification_status_str VS_skipped = ''skipped''"

fun review_status_str :: "review_status \<Rightarrow> string" where
  "review_status_str KR_pending = ''pending''"
| "review_status_str KR_approved = ''approved''"
| "review_status_str KR_rejected = ''rejected''"
| "review_status_str KR_superseded = ''superseded''"
| "review_status_str KR_deprecated = ''deprecated''"
| "review_status_str KR_published = ''published''"

subsection \<open>The handoff state machine\<close>

definition terminal_handoff_status :: "handoff_status \<Rightarrow> bool" where
  "terminal_handoff_status h \<longleftrightarrow> h \<in> {HS_resolved, HS_cancelled, HS_expired}"

definition verifier_only_status :: "handoff_status \<Rightarrow> bool" where
  "verifier_only_status h \<longleftrightarrow> h \<in> {HS_verified, HS_resolved}"

text \<open>\<open>_ALLOWED_HANDOFF_TRANSITIONS\<close>\<close>

fun handoff_targets :: "handoff_status \<Rightarrow> handoff_status list" where
  "handoff_targets HS_requested =
     [HS_accepted, HS_blocked, HS_failed, HS_needs_human, HS_cancelled, HS_expired]"
| "handoff_targets HS_accepted =
     [HS_in_progress, HS_blocked, HS_failed, HS_needs_human, HS_cancelled, HS_expired]"
| "handoff_targets HS_in_progress =
     [HS_blocked, HS_failed, HS_needs_human, HS_change_planned, HS_implemented, HS_cancelled,
      HS_expired]"
| "handoff_targets HS_change_planned =
     [HS_blocked, HS_failed, HS_needs_human, HS_implemented, HS_cancelled, HS_expired]"
| "handoff_targets HS_implemented =
     [HS_failed, HS_needs_human, HS_verified, HS_cancelled, HS_expired]"
| "handoff_targets HS_verified = [HS_resolved, HS_failed, HS_needs_human]"
| "handoff_targets HS_blocked =
     [HS_accepted, HS_needs_human, HS_failed, HS_cancelled, HS_expired]"
| "handoff_targets HS_failed = [HS_accepted, HS_needs_human, HS_cancelled, HS_expired]"
| "handoff_targets HS_needs_human = [HS_accepted, HS_in_progress, HS_cancelled, HS_expired]"
| "handoff_targets HS_resolved = []"
| "handoff_targets HS_cancelled = []"
| "handoff_targets HS_expired = []"

definition allowed_handoff_transition ::
  "handoff_status \<Rightarrow> handoff_status \<Rightarrow> loop_name \<Rightarrow> bool" where
  "allowed_handoff_transition current target actor_loop =
     (if verifier_only_status target \<and> actor_loop \<noteq> Loop_noc then False
      else if current = target then True
      else target \<in> set (handoff_targets current))"

definition require_handoff_transition ::
  "handoff_status \<Rightarrow> handoff_status \<Rightarrow> loop_name \<Rightarrow> ('s, unit) comp" where
  "require_handoff_transition current target actor_loop =
     raise_if (\<not> allowed_handoff_transition current target actor_loop)
       (ValueError (''invalid LHP handoff transition '' @ repr_str (handoff_status_str current) @
          '' -> '' @ repr_str (handoff_status_str target) @ '' for '' @
          repr_str (loop_name_str actor_loop)))"

subsection \<open>Records\<close>

record evidence_ref =
  er_type :: string
  er_ref :: string
  er_summary :: string
  er_payload :: jdict

record case_handoff =
  ho_handoff_id :: string
  ho_case_id :: string
  ho_source_loop :: loop_name
  ho_target_loop :: loop_name
  ho_objective :: string
  ho_objective_key :: string
  ho_knowledge_scope :: string
  ho_status :: handoff_status
  ho_owner :: string
  ho_verifier :: loop_name
  ho_idempotency_key :: string
  ho_fingerprint :: string
  ho_resource :: jdict
  ho_case_type :: string
  ho_constraints :: "string list"
  ho_acceptance_criteria :: "string list"
  ho_knowledge_context_refs :: "string list"
  ho_payload :: jdict
  ho_correlation_id :: string
  ho_trace_id :: string
  ho_created_by :: string
  ho_created_at :: string
  ho_updated_at :: string
  ho_expires_at :: string
  ho_schema_version :: string

record handoff_update =
  hu_update_id :: string
  hu_handoff_id :: string
  hu_case_id :: string
  hu_source_loop :: loop_name
  hu_update_type :: handoff_update_type
  hu_status :: handoff_status
  hu_summary :: string
  hu_evidence :: "evidence_ref list"
  hu_confidence :: update_confidence
  hu_external_event_id :: string
  hu_correlation_id :: string
  hu_trace_id :: string
  hu_payload_hash :: string
  hu_payload :: jdict
  hu_created_at :: string
  hu_schema_version :: string

record verification_objective =
  vo_objective_id :: string
  vo_case_id :: string
  vo_handoff_id :: string
  vo_objective_key :: string
  vo_objective_type :: string
  vo_name :: string
  vo_description :: string
  vo_required_status :: verification_status
  vo_status :: verification_status
  vo_required :: bool
  vo_required_consecutive_passes :: int
  vo_consecutive_pass_count :: int
  vo_last_checked_at :: string
  vo_next_check_at :: string
  vo_evidence_ref :: string
  vo_failure_reason :: string
  vo_payload :: jdict
  vo_result_payload :: jdict
  vo_created_at :: string
  vo_updated_at :: string
  vo_schema_version :: string

record knowledge_artifact =
  ka_artifact_id :: string
  ka_case_id :: string
  ka_handoff_id :: string
  ka_artifact_type :: string
  ka_scope :: string
  ka_status :: artifact_status
  ka_review_status :: review_status
  ka_version :: int
  ka_content_hash :: string
  ka_summary :: string
  ka_source_refs :: "string list"
  ka_payload :: jdict
  ka_created_by :: loop_name
  ka_created_at :: string
  ka_schema_version :: string

record callback_record =
  cb_callback_id :: string
  cb_source_loop :: loop_name
  cb_external_event_id :: string
  cb_payload_hash :: string
  cb_handoff_id :: string
  cb_case_id :: string
  cb_status :: callback_status
  cb_result_payload :: jdict
  cb_received_at :: string
  cb_schema_version :: string

record transport_delivery =
  td_delivery_id :: string
  td_handoff_id :: string
  td_case_id :: string
  td_transport :: handoff_transport
  td_status :: delivery_status
  td_idempotency_key :: string
  td_external_id :: string
  td_external_url :: string
  td_attempts :: int
  td_max_attempts :: int
  td_next_attempt_at :: string
  td_last_error :: string
  td_payload_hash :: string
  td_payload :: jdict
  td_created_at :: string
  td_updated_at :: string
  td_schema_version :: string

record outcome_record =
  oc_outcome_id :: string
  oc_work_item_id :: string
  oc_case_type :: string
  oc_fingerprint :: string
  oc_agent_roles :: "loop_name list"
  oc_proposed_action :: string
  oc_action_taken :: string
  oc_human_review :: jdict
  oc_validation :: jdict
  oc_safety :: jdict
  oc_evidence_quality :: jdict
  oc_learning :: jdict
  oc_final_score :: "(string \<times> pyfloat) list"
  oc_evidence_refs :: "string list"
  oc_payload :: jdict
  oc_created_at :: string
  oc_schema_version :: string

subsection \<open>Field validators\<close>

definition LHP_SCHEMA_VERSION :: string where
  "LHP_SCHEMA_VERSION = ''lhp.v1''"

definition LHP_APPROVAL_SCOPE_SCHEMA_VERSION :: string where
  "LHP_APPROVAL_SCOPE_SCHEMA_VERSION = ''lhp.v1.approval-scope.v1''"

text \<open>The value of a field: the caller's, or what the factory draws.\<close>

definition draw_field :: "string list \<Rightarrow> string \<Rightarrow> 'a \<Rightarrow> ('s, 'a) comp \<Rightarrow> ('s, 'a) comp" where
  "draw_field given name v m = (if name \<in> set given then retM v else m)"

text \<open>A validator applied to a field when the caller gave it.\<close>

definition if_given :: "string list \<Rightarrow> string \<Rightarrow> ('a \<Rightarrow> 'a) \<Rightarrow> 'a \<Rightarrow> 'a" where
  "if_given given name f v = (if name \<in> set given then f v else v)"

definition tok :: "string \<Rightarrow> string" where
  "tok v = sanitize_lhp_token (JStr v) 180"

definition txt_of :: "int \<Rightarrow> string \<Rightarrow> string" where
  "txt_of limit v = sanitize_lhp_text (JStr v) limit"

text \<open>The first required field that is blank, as the error its validator raises.\<close>

fun require_fields :: "(string \<times> string) list \<Rightarrow> exn + unit" where
  "require_fields [] = Inr ()"
| "require_fields ((name, v) # rest) =
     (if lhp_blank (JStr v) then Inl (ValueError (name @ '' is required''))
      else require_fields rest)"

definition checked :: "exn + unit \<Rightarrow> 'a \<Rightarrow> exn + 'a" where
  "checked r x = (case r of Inl e \<Rightarrow> Inl e | Inr _ \<Rightarrow> Inr x)"

definition evidence_ref_clean :: "string list \<Rightarrow> evidence_ref \<Rightarrow> evidence_ref" where
  "evidence_ref_clean given e = e\<lparr>
     er_type := sanitize_lhp_token (JStr (er_type e)) 160,
     er_ref := sanitize_lhp_token (JStr (er_ref e)) 160,
     er_summary := if_given given ''summary'' (txt_of 700) (er_summary e),
     er_payload := if_given given ''payload'' sanitize_field_dict (er_payload e)\<rparr>"

definition evidence_ref_json :: "evidence_ref \<Rightarrow> json" where
  "evidence_ref_json e = JDict [(''type'', JStr (er_type e)), (''ref'', JStr (er_ref e)),
     (''summary'', JStr (er_summary e)), (''payload'', JDict (er_payload e))]"

subsection \<open>CaseHandoff\<close>

definition blank_handoff :: case_handoff where
  "blank_handoff = \<lparr>
     ho_handoff_id = [], ho_case_id = [], ho_source_loop = Loop_noc, ho_target_loop = Loop_noc,
     ho_objective = [], ho_objective_key = [], ho_knowledge_scope = [], ho_status = HS_requested,
     ho_owner = [], ho_verifier = Loop_noc, ho_idempotency_key = [], ho_fingerprint = [],
     ho_resource = [], ho_case_type = [], ho_constraints = [], ho_acceptance_criteria = [],
     ho_knowledge_context_refs = [], ho_payload = [], ho_correlation_id = [], ho_trace_id = [],
     ho_created_by = ''noc_agent_loop'', ho_created_at = [], ho_updated_at = [],
     ho_expires_at = [], ho_schema_version = LHP_SCHEMA_VERSION\<rparr>"

definition check_handoff :: "string list \<Rightarrow> case_handoff \<Rightarrow> exn + case_handoff" where
  "check_handoff given h = checked
     (require_fields [(''case_id'', ho_case_id h), (''objective'', ho_objective h),
        (''objective_key'', ho_objective_key h), (''idempotency_key'', ho_idempotency_key h)])
     (h\<lparr>ho_handoff_id := if_given given ''handoff_id'' tok (ho_handoff_id h),
        ho_case_id := tok (ho_case_id h),
        ho_objective := txt_of 500 (ho_objective h),
        ho_objective_key := tok (ho_objective_key h),
        ho_knowledge_scope := if_given given ''knowledge_scope'' (txt_of 500) (ho_knowledge_scope h),
        ho_owner := if_given given ''owner'' (txt_of 500) (ho_owner h),
        ho_idempotency_key := tok (ho_idempotency_key h),
        ho_fingerprint := if_given given ''fingerprint'' tok (ho_fingerprint h),
        ho_resource := if_given given ''resource'' sanitize_field_dict (ho_resource h),
        ho_case_type := if_given given ''case_type'' tok (ho_case_type h),
        ho_constraints := if_given given ''constraints'' (sanitize_field_list 500) (ho_constraints h),
        ho_acceptance_criteria :=
          if_given given ''acceptance_criteria'' (sanitize_field_list 500) (ho_acceptance_criteria h),
        ho_knowledge_context_refs := if_given given ''knowledge_context_refs''
          (sanitize_field_list 500) (ho_knowledge_context_refs h),
        ho_payload := if_given given ''payload'' sanitize_field_dict (ho_payload h),
        ho_correlation_id := if_given given ''correlation_id'' tok (ho_correlation_id h),
        ho_trace_id := if_given given ''trace_id'' tok (ho_trace_id h),
        ho_created_by := if_given given ''created_by'' (txt_of 500) (ho_created_by h)\<rparr>)"

definition new_handoff :: "string list \<Rightarrow> case_handoff \<Rightarrow> ('z draws_scheme, case_handoff) comp" where
  "new_handoff given h =
     bindM (draw_field given ''handoff_id'' (ho_handoff_id h) (new_id ''handoff'')) (\<lambda>hid.
     bindM (draw_field given ''correlation_id'' (ho_correlation_id h) (new_id ''corr'')) (\<lambda>corr.
     bindM (draw_field given ''created_at'' (ho_created_at h) utc_now) (\<lambda>c_at.
     bindM (draw_field given ''updated_at'' (ho_updated_at h) utc_now) (\<lambda>u_at.
       liftM (check_handoff given (h\<lparr>ho_handoff_id := hid, ho_correlation_id := corr,
         ho_created_at := c_at, ho_updated_at := u_at\<rparr>))))))"

subsection \<open>HandoffUpdate\<close>

definition blank_handoff_update :: handoff_update where
  "blank_handoff_update = \<lparr>
     hu_update_id = [], hu_handoff_id = [], hu_case_id = [], hu_source_loop = Loop_noc,
     hu_update_type = UT_accepted, hu_status = HS_requested, hu_summary = [], hu_evidence = [],
     hu_confidence = UC_unknown, hu_external_event_id = [], hu_correlation_id = [],
     hu_trace_id = [], hu_payload_hash = [], hu_payload = [], hu_created_at = [],
     hu_schema_version = LHP_SCHEMA_VERSION\<rparr>"

definition update_hash_input :: "handoff_update \<Rightarrow> json" where
  "update_hash_input u = JDict [
     (''case_id'', JStr (hu_case_id u)), (''handoff_id'', JStr (hu_handoff_id u)),
     (''source_loop'', JStr (loop_name_str (hu_source_loop u))),
     (''update_type'', JStr (update_type_str (hu_update_type u))),
     (''status'', JStr (handoff_status_str (hu_status u))),
     (''summary'', JStr (hu_summary u)),
     (''evidence'', JList (map evidence_ref_json (hu_evidence u))),
     (''payload'', JDict (hu_payload u))]"

definition check_handoff_update :: "string list \<Rightarrow> handoff_update \<Rightarrow> exn + handoff_update" where
  "check_handoff_update given u =
     (case checked
        (require_fields [(''handoff_id'', hu_handoff_id u), (''case_id'', hu_case_id u),
           (''external_event_id'', hu_external_event_id u),
           (''correlation_id'', hu_correlation_id u)])
        (u\<lparr>hu_update_id := if_given given ''update_id'' tok (hu_update_id u),
           hu_handoff_id := tok (hu_handoff_id u),
           hu_case_id := tok (hu_case_id u),
           hu_summary := if_given given ''summary'' (txt_of 1200) (hu_summary u),
           hu_external_event_id := tok (hu_external_event_id u),
           hu_correlation_id := tok (hu_correlation_id u),
           hu_trace_id := if_given given ''trace_id'' tok (hu_trace_id u),
           hu_payload := if_given given ''payload'' sanitize_field_dict (hu_payload u)\<rparr>) of
        Inl e \<Rightarrow> Inl e
      | Inr v \<Rightarrow>
          if hu_source_loop v \<noteq> Loop_noc \<and> verifier_only_status (hu_status v) then
            Inl (ValueError ''non-NOC loops cannot set verified/resolved handoff status'')
          else if hu_payload_hash v = [] then
            Inr (v\<lparr>hu_payload_hash := lhp_payload_hash (update_hash_input v)\<rparr>)
          else Inr v)"

definition new_handoff_update ::
  "string list \<Rightarrow> handoff_update \<Rightarrow> ('z draws_scheme, handoff_update) comp" where
  "new_handoff_update given u =
     bindM (draw_field given ''update_id'' (hu_update_id u) (new_id ''hu'')) (\<lambda>uid.
     bindM (draw_field given ''created_at'' (hu_created_at u) utc_now) (\<lambda>c_at.
       liftM (check_handoff_update given (u\<lparr>hu_update_id := uid, hu_created_at := c_at\<rparr>))))"

subsection \<open>VerificationObjective\<close>

definition blank_objective :: verification_objective where
  "blank_objective = \<lparr>
     vo_objective_id = [], vo_case_id = [], vo_handoff_id = [], vo_objective_key = [],
     vo_objective_type = [], vo_name = [], vo_description = [], vo_required_status = VS_pass,
     vo_status = VS_pending, vo_required = True, vo_required_consecutive_passes = 3,
     vo_consecutive_pass_count = 0, vo_last_checked_at = [], vo_next_check_at = [],
     vo_evidence_ref = [], vo_failure_reason = [], vo_payload = [], vo_result_payload = [],
     vo_created_at = [], vo_updated_at = [], vo_schema_version = LHP_SCHEMA_VERSION\<rparr>"

definition check_objective ::
  "string list \<Rightarrow> verification_objective \<Rightarrow> exn + verification_objective" where
  "check_objective given v =
     (if vo_required_consecutive_passes v < 1 then
        Inl (ValueError ''required_consecutive_passes'')
      else if vo_consecutive_pass_count v < 0 then Inl (ValueError ''consecutive_pass_count'')
      else checked
        (require_fields [(''case_id'', vo_case_id v), (''objective_key'', vo_objective_key v),
           (''objective_type'', vo_objective_type v), (''name'', vo_name v)])
        (v\<lparr>vo_objective_id := if_given given ''objective_id'' tok (vo_objective_id v),
           vo_case_id := tok (vo_case_id v),
           vo_handoff_id := if_given given ''handoff_id'' tok (vo_handoff_id v),
           vo_objective_key := tok (vo_objective_key v),
           vo_objective_type := tok (vo_objective_type v),
           vo_name := txt_of 800 (vo_name v),
           vo_description := if_given given ''description'' (txt_of 800) (vo_description v),
           vo_evidence_ref := if_given given ''evidence_ref'' tok (vo_evidence_ref v),
           vo_failure_reason := if_given given ''failure_reason'' (txt_of 800) (vo_failure_reason v),
           vo_payload := if_given given ''payload'' sanitize_field_dict (vo_payload v),
           vo_result_payload :=
             if_given given ''result_payload'' sanitize_field_dict (vo_result_payload v)\<rparr>))"

definition new_objective ::
  "string list \<Rightarrow> verification_objective \<Rightarrow> ('z draws_scheme, verification_objective) comp" where
  "new_objective given v =
     bindM (draw_field given ''objective_id'' (vo_objective_id v) (new_id ''vo'')) (\<lambda>i.
     bindM (draw_field given ''created_at'' (vo_created_at v) utc_now) (\<lambda>c_at.
     bindM (draw_field given ''updated_at'' (vo_updated_at v) utc_now) (\<lambda>u_at.
       liftM (check_objective given (v\<lparr>vo_objective_id := i, vo_created_at := c_at,
         vo_updated_at := u_at\<rparr>)))))"

subsection \<open>KnowledgeArtifact\<close>

definition blank_artifact :: knowledge_artifact where
  "blank_artifact = \<lparr>
     ka_artifact_id = [], ka_case_id = [], ka_handoff_id = [], ka_artifact_type = [],
     ka_scope = [], ka_status = KS_proposed, ka_review_status = KR_pending, ka_version = 1,
     ka_content_hash = [], ka_summary = [], ka_source_refs = [], ka_payload = [],
     ka_created_by = Loop_knowledge, ka_created_at = [], ka_schema_version = LHP_SCHEMA_VERSION\<rparr>"

definition artifact_hash_input :: "knowledge_artifact \<Rightarrow> json" where
  "artifact_hash_input k = JDict [(''summary'', JStr (ka_summary k)),
     (''payload'', JDict (ka_payload k)), (''source_refs'', JList (map JStr (ka_source_refs k)))]"

definition check_artifact :: "string list \<Rightarrow> knowledge_artifact \<Rightarrow> exn + knowledge_artifact" where
  "check_artifact given k =
     (if ka_version k < 1 then Inl (ValueError ''version'')
      else
        (case checked
           (require_fields [(''case_id'', ka_case_id k), (''artifact_type'', ka_artifact_type k)])
           (k\<lparr>ka_artifact_id := if_given given ''artifact_id'' tok (ka_artifact_id k),
              ka_case_id := tok (ka_case_id k),
              ka_handoff_id := if_given given ''handoff_id'' tok (ka_handoff_id k),
              ka_artifact_type := tok (ka_artifact_type k),
              ka_scope := if_given given ''scope'' (txt_of 1200) (ka_scope k),
              ka_content_hash := if_given given ''content_hash'' tok (ka_content_hash k),
              ka_summary := if_given given ''summary'' (txt_of 1200) (ka_summary k),
              ka_source_refs :=
                if_given given ''source_refs'' (sanitize_field_list 300) (ka_source_refs k),
              ka_payload := if_given given ''payload'' sanitize_field_dict (ka_payload k)\<rparr>) of
           Inl e \<Rightarrow> Inl e
         | Inr v \<Rightarrow>
             if ka_content_hash v = []
             then Inr (v\<lparr>ka_content_hash := lhp_payload_hash (artifact_hash_input v)\<rparr>)
             else Inr v))"

definition new_artifact ::
  "string list \<Rightarrow> knowledge_artifact \<Rightarrow> ('z draws_scheme, knowledge_artifact) comp" where
  "new_artifact given k =
     bindM (draw_field given ''artifact_id'' (ka_artifact_id k) (new_id ''ka'')) (\<lambda>i.
     bindM (draw_field given ''created_at'' (ka_created_at k) utc_now) (\<lambda>c_at.
       liftM (check_artifact given (k\<lparr>ka_artifact_id := i, ka_created_at := c_at\<rparr>))))"

text \<open>\<open>KnowledgeArtifact.model_validate(artifact_data)\<close> on a dumped record: every field is given.\<close>

definition artifact_fields :: "string list" where
  "artifact_fields = [''artifact_id'', ''case_id'', ''handoff_id'', ''artifact_type'', ''scope'',
     ''status'', ''review_status'', ''version'', ''content_hash'', ''summary'', ''source_refs'',
     ''payload'', ''created_by'', ''created_at'', ''schema_version'']"

subsection \<open>CallbackInboxRecord\<close>

definition blank_callback :: callback_record where
  "blank_callback = \<lparr>
     cb_callback_id = [], cb_source_loop = Loop_noc, cb_external_event_id = [],
     cb_payload_hash = [], cb_handoff_id = [], cb_case_id = [], cb_status = CB_accepted,
     cb_result_payload = [], cb_received_at = [], cb_schema_version = LHP_SCHEMA_VERSION\<rparr>"

definition check_callback :: "string list \<Rightarrow> callback_record \<Rightarrow> exn + callback_record" where
  "check_callback given c = checked
     (require_fields [(''external_event_id'', cb_external_event_id c),
        (''payload_hash'', cb_payload_hash c)])
     (c\<lparr>cb_callback_id := if_given given ''callback_id'' tok (cb_callback_id c),
        cb_external_event_id := tok (cb_external_event_id c),
        cb_payload_hash := tok (cb_payload_hash c),
        cb_handoff_id := if_given given ''handoff_id'' tok (cb_handoff_id c),
        cb_case_id := if_given given ''case_id'' tok (cb_case_id c),
        cb_result_payload :=
          if_given given ''result_payload'' sanitize_field_dict (cb_result_payload c)\<rparr>)"

definition new_callback :: "string list \<Rightarrow> callback_record \<Rightarrow> ('z draws_scheme, callback_record) comp" where
  "new_callback given c =
     bindM (draw_field given ''callback_id'' (cb_callback_id c) (new_id ''cb'')) (\<lambda>i.
     bindM (draw_field given ''received_at'' (cb_received_at c) utc_now) (\<lambda>r_at.
       liftM (check_callback given (c\<lparr>cb_callback_id := i, cb_received_at := r_at\<rparr>))))"

subsection \<open>HandoffTransportDelivery\<close>

definition blank_delivery :: transport_delivery where
  "blank_delivery = \<lparr>
     td_delivery_id = [], td_handoff_id = [], td_case_id = [], td_transport = HT_github_issue,
     td_status = DS_pending, td_idempotency_key = [], td_external_id = [], td_external_url = [],
     td_attempts = 0, td_max_attempts = 10, td_next_attempt_at = [], td_last_error = [],
     td_payload_hash = [], td_payload = [], td_created_at = [], td_updated_at = [],
     td_schema_version = LHP_SCHEMA_VERSION\<rparr>"

definition check_delivery :: "string list \<Rightarrow> transport_delivery \<Rightarrow> exn + transport_delivery" where
  "check_delivery given d =
     (if td_attempts d < 0 then Inl (ValueError ''attempts'')
      else if td_max_attempts d < 1 \<or> 100 < td_max_attempts d then Inl (ValueError ''max_attempts'')
      else
        (case checked
           (require_fields [(''handoff_id'', td_handoff_id d), (''case_id'', td_case_id d),
              (''idempotency_key'', td_idempotency_key d)])
           (d\<lparr>td_delivery_id := if_given given ''delivery_id'' tok (td_delivery_id d),
              td_handoff_id := tok (td_handoff_id d),
              td_case_id := tok (td_case_id d),
              td_idempotency_key := tok (td_idempotency_key d),
              td_external_id := if_given given ''external_id'' tok (td_external_id d),
              td_external_url := if_given given ''external_url'' (txt_of 800) (td_external_url d),
              td_last_error := if_given given ''last_error'' (txt_of 800) (td_last_error d),
              td_payload_hash := if_given given ''payload_hash'' tok (td_payload_hash d),
              td_payload := if_given given ''payload'' sanitize_field_dict (td_payload d)\<rparr>) of
           Inl e \<Rightarrow> Inl e
         | Inr v \<Rightarrow>
             if td_payload_hash v = []
             then Inr (v\<lparr>td_payload_hash := lhp_payload_hash (JDict (td_payload v))\<rparr>)
             else Inr v))"

definition new_delivery ::
  "string list \<Rightarrow> transport_delivery \<Rightarrow> ('z draws_scheme, transport_delivery) comp" where
  "new_delivery given d =
     bindM (draw_field given ''delivery_id'' (td_delivery_id d) (new_id ''deliv'')) (\<lambda>i.
     bindM (draw_field given ''next_attempt_at'' (td_next_attempt_at d) utc_now) (\<lambda>n_at.
     bindM (draw_field given ''created_at'' (td_created_at d) utc_now) (\<lambda>c_at.
     bindM (draw_field given ''updated_at'' (td_updated_at d) utc_now) (\<lambda>u_at.
       liftM (check_delivery given (d\<lparr>td_delivery_id := i, td_next_attempt_at := n_at,
         td_created_at := c_at, td_updated_at := u_at\<rparr>))))))"

subsection \<open>OutcomeRecord\<close>

text \<open>\<open>min(1.0, max(0.0, score))\<close> on the scores, which are floats here.\<close>

definition clamp_score :: "pyfloat \<Rightarrow> pyfloat" where
  "clamp_score x = (let y = (if pf_value x > 0 then x else pyfloat_zero)
     in if pf_value y < 1 then y else pyfloat_one)"

definition clean_scores :: "(string \<times> pyfloat) list \<Rightarrow> (string \<times> pyfloat) list" where
  "clean_scores scores = foldl (\<lambda>acc kv.
     dict_set (sanitize_lhp_token (JStr (fst kv)) 64) (clamp_score (snd kv)) acc) [] scores"

definition blank_outcome :: outcome_record where
  "blank_outcome = \<lparr>
     oc_outcome_id = [], oc_work_item_id = [], oc_case_type = [], oc_fingerprint = [],
     oc_agent_roles = [], oc_proposed_action = [], oc_action_taken = [], oc_human_review = [],
     oc_validation = [], oc_safety = [], oc_evidence_quality = [], oc_learning = [],
     oc_final_score = [], oc_evidence_refs = [], oc_payload = [], oc_created_at = [],
     oc_schema_version = LHP_SCHEMA_VERSION\<rparr>"

definition check_outcome :: "string list \<Rightarrow> outcome_record \<Rightarrow> exn + outcome_record" where
  "check_outcome given oc = checked
     (require_fields [(''work_item_id'', oc_work_item_id oc)])
     (oc\<lparr>oc_outcome_id := if_given given ''outcome_id'' tok (oc_outcome_id oc),
         oc_work_item_id := tok (oc_work_item_id oc),
         oc_case_type := if_given given ''case_type'' tok (oc_case_type oc),
         oc_fingerprint := if_given given ''fingerprint'' tok (oc_fingerprint oc),
         oc_proposed_action := if_given given ''proposed_action'' (txt_of 1200) (oc_proposed_action oc),
         oc_action_taken := if_given given ''action_taken'' (txt_of 1200) (oc_action_taken oc),
         oc_human_review := if_given given ''human_review'' sanitize_field_dict (oc_human_review oc),
         oc_validation := if_given given ''validation'' sanitize_field_dict (oc_validation oc),
         oc_safety := if_given given ''safety'' sanitize_field_dict (oc_safety oc),
         oc_evidence_quality :=
           if_given given ''evidence_quality'' sanitize_field_dict (oc_evidence_quality oc),
         oc_learning := if_given given ''learning'' sanitize_field_dict (oc_learning oc),
         oc_final_score := if_given given ''final_score'' clean_scores (oc_final_score oc),
         oc_evidence_refs :=
           if_given given ''evidence_refs'' (sanitize_field_list 300) (oc_evidence_refs oc),
         oc_payload := if_given given ''payload'' sanitize_field_dict (oc_payload oc)\<rparr>)"

definition new_outcome :: "string list \<Rightarrow> outcome_record \<Rightarrow> ('z draws_scheme, outcome_record) comp" where
  "new_outcome given oc =
     bindM (draw_field given ''outcome_id'' (oc_outcome_id oc) (new_id ''outcome'')) (\<lambda>i.
     bindM (draw_field given ''created_at'' (oc_created_at oc) utc_now) (\<lambda>c_at.
       liftM (check_outcome given (oc\<lparr>oc_outcome_id := i, oc_created_at := c_at\<rparr>))))"

subsection \<open>The approval scope\<close>

definition select_keys :: "string list \<Rightarrow> jdict \<Rightarrow> jdict" where
  "select_keys ks d = concat (map (\<lambda>k. case dict_get d k of None \<Rightarrow> [] | Some v \<Rightarrow> [(k, v)]) ks)"

definition approval_payload_projection :: "jdict \<Rightarrow> jdict" where
  "approval_payload_projection payload =
     (let selected =
        select_keys [''schema'', ''occurrence_id'', ''change_domain'', ''expected_path_classes'']
          payload
      in (case jget payload ''hotspot'' of
            JDict hotspot \<Rightarrow> dict_set ''hotspot'' (JDict (select_keys
              [''rule_id'', ''key'', ''severity'', ''warrants_change'', ''change_rationale'',
               ''recommended_checks''] hotspot)) selected
          | _ \<Rightarrow> selected))"

text \<open>\<open>handoff.model_dump(mode="json", include=handoff_fields)\<close>, in the order of the fields.\<close>

definition handoff_projection :: "case_handoff \<Rightarrow> jdict" where
  "handoff_projection h = [
     (''handoff_id'', JStr (ho_handoff_id h)), (''case_id'', JStr (ho_case_id h)),
     (''source_loop'', JStr (loop_name_str (ho_source_loop h))),
     (''target_loop'', JStr (loop_name_str (ho_target_loop h))),
     (''objective'', JStr (ho_objective h)), (''objective_key'', JStr (ho_objective_key h)),
     (''knowledge_scope'', JStr (ho_knowledge_scope h)),
     (''idempotency_key'', JStr (ho_idempotency_key h)),
     (''fingerprint'', JStr (ho_fingerprint h)), (''resource'', JDict (ho_resource h)),
     (''case_type'', JStr (ho_case_type h)),
     (''constraints'', JList (map JStr (ho_constraints h))),
     (''acceptance_criteria'', JList (map JStr (ho_acceptance_criteria h))),
     (''knowledge_context_refs'', JList (map JStr (ho_knowledge_context_refs h))),
     (''payload'', JDict (ho_payload h)), (''correlation_id'', JStr (ho_correlation_id h)),
     (''trace_id'', JStr (ho_trace_id h)), (''created_by'', JStr (ho_created_by h)),
     (''expires_at'', JStr (ho_expires_at h)), (''schema_version'', JStr (ho_schema_version h))]"

definition objective_projection :: "verification_objective \<Rightarrow> jdict" where
  "objective_projection v = [
     (''objective_id'', JStr (vo_objective_id v)), (''case_id'', JStr (vo_case_id v)),
     (''handoff_id'', JStr (vo_handoff_id v)), (''objective_key'', JStr (vo_objective_key v)),
     (''objective_type'', JStr (vo_objective_type v)), (''name'', JStr (vo_name v)),
     (''description'', JStr (vo_description v)),
     (''required_status'', JStr (verification_status_str (vo_required_status v))),
     (''required'', JBool (vo_required v)),
     (''required_consecutive_passes'', JInt (vo_required_consecutive_passes v)),
     (''schema_version'', JStr (vo_schema_version v))]"

definition handoff_occurrence_id :: "case_handoff \<Rightarrow> string" where
  "handoff_occurrence_id h =
     (let given = str_or_empty (jget (ho_payload h) ''occurrence_id'')
      in if given = [] then take 16 (lhp_payload_hash (JDict
           [(''handoff_id'', JStr (ho_handoff_id h)), (''created_at'', JStr (ho_created_at h))]))
         else given)"

definition objective_definitions :: "verification_objective list \<Rightarrow> jdict list" where
  "objective_definitions objectives =
     py_sort False
       (\<lambda>d. (py_str (jget d ''objective_key''), py_str (jget d ''objective_id'')))
       (map (\<lambda>v. dict_set ''payload_hash'' (JStr (lhp_payload_hash (JDict (vo_payload v))))
          (objective_projection v)) objectives)"

definition build_lhp_approval_scope :: "case_handoff \<Rightarrow> verification_objective list \<Rightarrow> jdict" where
  "build_lhp_approval_scope h objectives =
     (let projection = dict_set ''payload_hash'' (JStr (lhp_payload_hash (JDict (ho_payload h))))
        (dict_set ''payload'' (JDict (approval_payload_projection (ho_payload h)))
          (handoff_projection h));
          definitions = objective_definitions objectives
      in [(''schema_version'', JStr LHP_APPROVAL_SCOPE_SCHEMA_VERSION),
          (''case'', JDict [(''case_id'', JStr (ho_case_id h)),
             (''fingerprint'', JStr (ho_fingerprint h)),
             (''occurrence_id'', JStr (handoff_occurrence_id h))]),
          (''handoff'', JDict projection),
          (''verification_objectives'',
             JList (map JDict (take MAX_VERIFICATION_OBJECTIVES_PER_HANDOFF definitions))),
          (''verification_objective_count'', JInt (int (length definitions))),
          (''verification_objectives_hash'',
             JStr (lhp_payload_hash (JList (map JDict definitions))))])"

subsection \<open>Properties of the state machine\<close>

text \<open>A run of the handoff: the moves made, each with the loop that made it.\<close>

inductive handoff_path ::
  "handoff_status \<Rightarrow> (loop_name \<times> handoff_status) list \<Rightarrow> handoff_status \<Rightarrow> bool" where
  path_here: "handoff_path h [] h"
| path_move: "handoff_path h moves m \<Longrightarrow> allowed_handoff_transition m t actor
    \<Longrightarrow> handoff_path h (moves @ [(actor, t)]) t"

inductive_cases path_snoc: "handoff_path h moves t"

lemma allowed_cases:
  "allowed_handoff_transition m t actor \<Longrightarrow>
     (m = t \<or> t \<in> set (handoff_targets m)) \<and> (verifier_only_status t \<longrightarrow> actor = Loop_noc)"
  by (auto simp: allowed_handoff_transition_def split: if_splits)

lemma terminal_absorbs:
  "terminal_handoff_status h \<longleftrightarrow>
     (\<forall>t actor. allowed_handoff_transition h t actor \<longrightarrow> t = h)"
proof (cases h)
  case HS_verified
  then show ?thesis
    by (auto simp: terminal_handoff_status_def allowed_handoff_transition_def
        verifier_only_status_def intro!: exI [of _ HS_failed])
qed (auto simp: terminal_handoff_status_def allowed_handoff_transition_def verifier_only_status_def
    intro!: exI [of _ HS_needs_human] exI [of _ HS_cancelled])

lemma path_visits:
  "handoff_path h moves t \<Longrightarrow> h = HS_requested \<Longrightarrow>
    (t \<in> {HS_in_progress, HS_change_planned, HS_implemented, HS_verified, HS_resolved} \<longrightarrow>
       HS_in_progress \<in> set (map snd moves)) \<and>
    (t \<in> {HS_implemented, HS_verified, HS_resolved} \<longrightarrow> HS_implemented \<in> set (map snd moves)) \<and>
    (t \<in> {HS_verified, HS_resolved} \<longrightarrow> (Loop_noc, HS_verified) \<in> set moves) \<and>
    (t = HS_resolved \<longrightarrow> (Loop_noc, HS_resolved) \<in> set moves)"
proof (induction rule: handoff_path.induct)
  case (path_here h)
  then show ?case by simp
next
  case (path_move h moves m t actor)
  show ?case
    using path_move.IH [OF path_move.prems] allowed_cases [OF path_move.hyps(2)]
    by (cases m) (auto simp: verifier_only_status_def)
qed

text \<open>
  A requested handoff is resolved only after it was in progress, was implemented and was verified,
  and both the verification and the resolution are moves of the NOC loop, whatever the loops do.
\<close>

lemma handoff_resolved_only_through_verifier:
  assumes "handoff_path HS_requested moves HS_resolved"
  shows "HS_in_progress \<in> set (map snd moves) \<and> HS_implemented \<in> set (map snd moves) \<and>
    (Loop_noc, HS_verified) \<in> set moves \<and> (Loop_noc, HS_resolved) \<in> set moves"
  using path_visits [OF assms] by simp

definition example_moves :: "(loop_name \<times> handoff_status) list" where
  "example_moves = [(Loop_engineering, HS_accepted), (Loop_engineering, HS_in_progress),
     (Loop_engineering, HS_implemented), (Loop_noc, HS_verified), (Loop_noc, HS_resolved)]"

lemma example_path: "handoff_path HS_requested example_moves HS_resolved"
proof -
  have step: "\<And>moves m t actor. handoff_path HS_requested moves m \<Longrightarrow>
      allowed_handoff_transition m t actor \<Longrightarrow> handoff_path HS_requested (moves @ [(actor, t)]) t"
    by (rule path_move)
  have "handoff_path HS_requested ((((([] @ [(Loop_engineering, HS_accepted)]) @
      [(Loop_engineering, HS_in_progress)]) @ [(Loop_engineering, HS_implemented)]) @
      [(Loop_noc, HS_verified)]) @ [(Loop_noc, HS_resolved)]) HS_resolved"
    by (rule step, rule step, rule step, rule step, rule step, rule path_here)
      (simp_all add: allowed_handoff_transition_def verifier_only_status_def)
  then show ?thesis by (simp add: example_moves_def)
qed

lemma handoff_resolved_only_through_verifier_witness:
  "handoff_path HS_requested example_moves HS_resolved \<and>
   (Loop_noc, HS_verified) \<in> set example_moves"
  using example_path handoff_resolved_only_through_verifier [OF example_path] by simp

subsection \<open>What a validated record satisfies\<close>

lemma clean_tok [simp]: "clean_token 180 (tok v)"
  unfolding tok_def by (rule token_is_clean)

lemma tok_nonempty [simp]: "tok v \<noteq> []"
  by (simp add: tok_def)

lemma tok_idem [simp]: "tok (tok v) = tok v"
  by (simp add: tok_def)

lemma clean_txt_of: "clean_text n (txt_of n v)"
  unfolding txt_of_def by (rule text_is_clean)

lemma checked_Inr: "checked r x = Inr y \<longleftrightarrow> r = Inr () \<and> y = x"
  by (auto simp: checked_def split: sum.splits)

lemma require_fields_Inr:
  "require_fields fs = Inr () \<longleftrightarrow> (\<forall>(name, v) \<in> set fs. \<not> lhp_blank (JStr v))"
  by (induction fs rule: require_fields.induct) auto

text \<open>
  An update a peer loop sends is accepted only when it does not claim verified or resolved; its
  identifiers come out as clean tokens, its payload and summary bounded when it gave them, and it always carries
  a payload hash, the given one or the hash of its content.
\<close>

theorem handoff_update_validated:
  assumes "check_handoff_update given u = Inr v"
  shows "(hu_source_loop v \<noteq> Loop_noc \<longrightarrow> hu_status v \<noteq> HS_verified \<and> hu_status v \<noteq> HS_resolved) \<and>
    clean_token 180 (hu_handoff_id v) \<and> clean_token 180 (hu_case_id v) \<and>
    clean_token 180 (hu_external_event_id v) \<and> clean_token 180 (hu_correlation_id v) \<and>
    (''payload'' \<in> set given \<longrightarrow> bounded_payload 2000 MAX_PAYLOAD_DEPTH (JDict (hu_payload v))) \<and>
    (''summary'' \<in> set given \<longrightarrow> clean_text 1200 (hu_summary v)) \<and>
    hu_payload_hash v \<noteq> [] \<and> hu_status v = hu_status u \<and> hu_source_loop v = hu_source_loop u"
proof -
  define w where "w = u\<lparr>hu_update_id := if_given given ''update_id'' tok (hu_update_id u),
    hu_handoff_id := tok (hu_handoff_id u), hu_case_id := tok (hu_case_id u),
    hu_summary := if_given given ''summary'' (txt_of 1200) (hu_summary u),
    hu_external_event_id := tok (hu_external_event_id u),
    hu_correlation_id := tok (hu_correlation_id u),
    hu_trace_id := if_given given ''trace_id'' tok (hu_trace_id u),
    hu_payload := if_given given ''payload'' sanitize_field_dict (hu_payload u)\<rparr>"
  have v: "\<not> (hu_source_loop w \<noteq> Loop_noc \<and> verifier_only_status (hu_status w))"
    "v = (if hu_payload_hash w = []
       then w\<lparr>hu_payload_hash := lhp_payload_hash (update_hash_input w)\<rparr> else w)"
    using assms by (simp_all add: check_handoff_update_def checked_def flip: w_def
        split: sum.splits if_splits)
  have "lhp_payload_hash (update_hash_input w) \<noteq> []"
    using lhp_payload_hash_clean by (simp add: clean_token_def)
  then have "hu_payload_hash v \<noteq> []" using v(2) by simp
  moreover have "hu_source_loop v = hu_source_loop u" "hu_status v = hu_status u"
    "hu_handoff_id v = tok (hu_handoff_id u)" "hu_case_id v = tok (hu_case_id u)"
    "hu_external_event_id v = tok (hu_external_event_id u)"
    "hu_correlation_id v = tok (hu_correlation_id u)"
    "hu_payload v = if_given given ''payload'' sanitize_field_dict (hu_payload u)"
    "hu_summary v = if_given given ''summary'' (txt_of 1200) (hu_summary u)"
    using v(2) by (simp_all add: w_def)
  moreover have "hu_source_loop u \<noteq> Loop_noc \<longrightarrow> hu_status u \<noteq> HS_verified \<and> hu_status u \<noteq> HS_resolved"
    using v(1) by (auto simp: w_def verifier_only_status_def)
  ultimately show ?thesis
    using clean_txt_of sanitize_field_dict_bounded by (simp add: if_given_def)
qed

definition sample_update :: handoff_update where
  "sample_update = blank_handoff_update\<lparr>hu_handoff_id := ''handoff_1'', hu_case_id := ''case_1'',
     hu_source_loop := Loop_engineering, hu_status := HS_accepted,
     hu_external_event_id := ''evt-1'', hu_correlation_id := ''corr_1'',
     hu_payload_hash := ''abc''\<rparr>"

lemma lhp_blank_JStr: "lhp_blank (JStr s) \<longleftrightarrow> py_strip s = []"
  by (simp add: lhp_blank_def)

lemma py_strip_Nil_iff: "py_strip s = [] \<longleftrightarrow> list_all is_space s"
proof (cases "dropWhile is_space s")
  case Nil
  have "list_all is_space s" using Nil by (simp add: dropWhile_eq_Nil_conv list_all_iff)
  moreover have "py_strip s = []" unfolding py_strip_def Nil by simp
  ultimately show ?thesis by simp
next
  case (Cons c t)
  then have "\<not> is_space c" using hd_dropWhile [of is_space s] by simp
  moreover from Cons have "c \<in> set s" by (metis list.set_intros(1) set_dropWhileD)
  ultimately show ?thesis using Cons by (auto simp: py_strip_def list_all_iff dropWhile_eq_Nil_conv)
qed

lemma is_space_simps [simp]:
  "\<not> is_space CHR ''h''" "\<not> is_space CHR ''c''" "\<not> is_space CHR ''e''" "\<not> is_space CHR ''n''"
  by code_simp+

theorem handoff_update_validated_witness:
  "\<exists>v. check_handoff_update [] sample_update = Inr v \<and> clean_token 180 (hu_handoff_id v)"
proof -
  have "check_handoff_update [] sample_update = Inr (sample_update\<lparr>
      hu_handoff_id := tok ''handoff_1'', hu_case_id := tok ''case_1'',
      hu_external_event_id := tok ''evt-1'', hu_correlation_id := tok ''corr_1''\<rparr>)"
    by (simp add: check_handoff_update_def checked_def sample_update_def blank_handoff_update_def
        lhp_blank_JStr py_strip_Nil_iff if_given_def verifier_only_status_def)
  from this handoff_update_validated [OF this] show ?thesis by auto
qed

text \<open>
  A verification objective built with an explicit empty handoff_id does not keep it: the token
  sanitizer turns the empty string into "unknown", while the default empty string stays.
\<close>

lemma objective_empty_handoff_id_becomes_unknown:
  assumes "check_objective given v = Inr w" and "vo_handoff_id v = []"
  shows "vo_handoff_id w = (if ''handoff_id'' \<in> set given then ''unknown'' else [])"
proof -
  have "tok [] = ''unknown''" by (simp add: tok_def sanitize_lhp_token_def slice_to_def)
  then show ?thesis
    using assms by (auto simp: check_objective_def checked_Inr if_given_def split: if_splits)
qed

definition sample_objective :: verification_objective where
  "sample_objective = blank_objective\<lparr>vo_objective_id := ''vo_1'', vo_case_id := ''case_1'',
     vo_objective_key := ''e'', vo_objective_type := ''h'', vo_name := ''n''\<rparr>"

lemma objective_empty_handoff_id_becomes_unknown_witness:
  "\<exists>w. check_objective [''handoff_id''] sample_objective = Inr w \<and> vo_handoff_id w = ''unknown''"
proof -
  obtain w where w: "check_objective [''handoff_id''] sample_objective = Inr w"
    by (simp add: check_objective_def checked_def sample_objective_def blank_objective_def
        lhp_blank_JStr py_strip_Nil_iff)
  have "vo_handoff_id sample_objective = []"
    by (simp add: sample_objective_def blank_objective_def)
  from objective_empty_handoff_id_becomes_unknown [OF w this] w show ?thesis by simp
qed

subsection \<open>The approval scope\<close>

text \<open>What the verifier and the transport change while a handoff is executed.\<close>

definition execution_state_of ::
  "handoff_status \<Rightarrow> string \<Rightarrow> loop_name \<Rightarrow> string \<Rightarrow> case_handoff \<Rightarrow> case_handoff" where
  "execution_state_of st owner verifier t h =
     h\<lparr>ho_status := st, ho_owner := owner, ho_verifier := verifier, ho_updated_at := t\<rparr>"

lemma objective_key_of_definition:
  "(\<lambda>d. (py_str (jget d ''objective_key''), py_str (jget d ''objective_id'')))
     (dict_set ''payload_hash'' x (objective_projection v)) = (vo_objective_key v, vo_objective_id v)"
  by (simp add: objective_projection_def)

text \<open>
  The approval scope does not change while the request is executed: neither the status, owner,
  verifier and update time of the handoff, nor the verification state of its objectives, nor the
  order they are listed in are part of what Engineering approves.
\<close>

lemma approval_scope_ignores_execution_state:
  assumes "distinct (map (\<lambda>v. (vo_objective_key v, vo_objective_id v)) objectives)"
    and "mset objectives = mset reordered"
    and "\<And>v. vo_objective_key (progress v) = vo_objective_key v \<and>
      objective_projection (progress v) = objective_projection v \<and>
      vo_payload (progress v) = vo_payload v"
  shows "build_lhp_approval_scope (execution_state_of st owner verifier t h) (map progress reordered)
    = build_lhp_approval_scope h objectives"
proof -
  let ?d = "\<lambda>v. dict_set ''payload_hash'' (JStr (lhp_payload_hash (JDict (vo_payload v))))
    (objective_projection v)"
  let ?k = "\<lambda>d. (py_str (jget d ''objective_key''), py_str (jget d ''objective_id''))"
  have keys: "?k (?d v) = (vo_objective_key v, vo_objective_id v)" for v
    using objective_key_of_definition by simp
  have dist: "distinct (map ?k (map ?d objectives))"
    using assms(1) by (simp only: map_map comp_def keys)
  have ms: "mset (map ?d objectives) = mset (map ?d reordered)"
    using assms(2) by simp
  have "sort_key ?k (map ?d objectives) = sort_key ?k (map ?d reordered)"
    by (rule sort_key_permute [OF dist ms])
  moreover have "map ?d (map progress reordered) = map ?d reordered"
    using assms(3) by simp
  ultimately have "objective_definitions (map progress reordered) = objective_definitions objectives"
    by (simp only: objective_definitions_def py_sort_def if_False)
  then show ?thesis
    by (simp add: build_lhp_approval_scope_def execution_state_of_def handoff_projection_def
        handoff_occurrence_id_def Let_def)
qed

lemma approval_scope_ignores_execution_state_witness:
  "build_lhp_approval_scope
     (execution_state_of HS_implemented ''eng'' Loop_noc ''t2'' blank_handoff)
     (map (\<lambda>v. v\<lparr>vo_status := VS_pass, vo_consecutive_pass_count := 3\<rparr>)
       [blank_objective\<lparr>vo_objective_id := ''b''\<rparr>, blank_objective\<lparr>vo_objective_id := ''a''\<rparr>])
   = build_lhp_approval_scope blank_handoff
       [blank_objective\<lparr>vo_objective_id := ''a''\<rparr>, blank_objective\<lparr>vo_objective_id := ''b''\<rparr>]"
  by (rule approval_scope_ignores_execution_state)
    (simp_all add: blank_objective_def objective_projection_def)

end
