(* ===== verification/Attention.thy ===== *)
theory Attention
  imports Models
begin

section \<open>Attention policy (app/cases/attention.py)\<close>

text \<open>
  When a case is due for an active notification. The projection of the last delivery is kept apart
  from the case; \<open>attention_due\<close> recomputes eligibility from both and names the request with an
  identity the outbox deduplicates on. The environment is a parameter: \<open>os.getenv(name, "")\<close>. The
  \<open>source\<close> of a case's identity is a string, as \<open>_case_identity\<close> writes it.
\<close>

fun severity_rank :: "severity \<Rightarrow> nat" where
  "severity_rank UNKNOWN = 0"
| "severity_rank LOW = 1"
| "severity_rank MEDIUM = 2"
| "severity_rank HIGH = 3"

definition attention_enabled :: "(string \<Rightarrow> string) \<Rightarrow> bool" where
  "attention_enabled getenv \<longleftrightarrow> list_all
     (\<lambda>name. py_lower (py_strip (getenv name)) \<in> {''1'', ''true'', ''yes'', ''on''})
     [''NOC_CASE_ATTENTION_ENABLED'', ''NOC_CASESERVICE_REACTIVE_REPORT'',
      ''NOC_CASE_OUTBOX_ENABLED'']"

datatype attention_phase = Ph_firing | Ph_recovered

datatype attention_kind = AK_new | AK_recurrence | AK_escalation | AK_recovery | AK_reminder

fun phase_str :: "attention_phase \<Rightarrow> string" where
  "phase_str Ph_firing = ''firing''"
| "phase_str Ph_recovered = ''recovered''"

fun kind_str :: "attention_kind \<Rightarrow> string" where
  "kind_str AK_new = ''new''"
| "kind_str AK_recurrence = ''recurrence''"
| "kind_str AK_escalation = ''escalation''"
| "kind_str AK_recovery = ''recovery''"
| "kind_str AK_reminder = ''reminder''"

record attention_delivery =
  ad_case_id :: string
  ad_generation :: int
  ad_phase :: attention_phase
  ad_severity :: severity
  ad_delivered_at :: instant
  ad_sequence :: int

record attention_request =
  ar_kind :: attention_kind
  ar_generation :: int
  ar_phase :: attention_phase
  ar_severity :: severity
  ar_expected_sequence :: int
  ar_idempotency_key :: string

definition watched_sources :: "string list" where
  "watched_sources = [''alertmanager'', ''icinga2'']"

text \<open>\<open>case.identity.get("source") in {"alertmanager", "icinga2"}\<close>\<close>

definition source_watched :: "atomic_case \<Rightarrow> bool" where
  "source_watched c \<longleftrightarrow> (\<exists>s \<in> set watched_sources. jget (ac_identity c) ''source'' = JStr s)"

text \<open>\<open>_future\<close>: an unreadable time is not in the future.\<close>

definition in_future :: "string \<Rightarrow> instant \<Rightarrow> bool" where
  "in_future v now \<longleftrightarrow> v \<noteq> [] \<and>
     (case fromisoformat (zulu v) of None \<Rightarrow> False | Some d \<Rightarrow> now < pydt_instant d)"

definition case_phase :: "atomic_case \<Rightarrow> attention_phase" where
  "case_phase c = (if ac_status c = CS_resolved then Ph_recovered else Ph_firing)"

definition acknowledged :: "atomic_case \<Rightarrow> bool" where
  "acknowledged c \<longleftrightarrow> ac_acknowledged_at c \<noteq> [] \<or> ac_acknowledged_by c \<noteq> []"

text \<open>The statuses, the coverage and the deadlines that silence a case before its kind is decided.\<close>

definition attention_silenced :: "atomic_case \<Rightarrow> instant \<Rightarrow> bool" where
  "attention_silenced c now \<longleftrightarrow>
     ac_status c \<in> {CS_closed, CS_expired, CS_linked, CS_recovered_pending} \<or>
     (ac_covered_by_meta_case c \<and> \<not> ac_independent_action_required c) \<or>
     in_future (ac_suppressed_until c) now \<or> in_future (ac_snoozed_until c) now"

definition attention_kind_of ::
  "atomic_case \<Rightarrow> attention_delivery option \<Rightarrow> instant \<Rightarrow> int \<Rightarrow> exn + attention_kind option" where
  "attention_kind_of c previous now reminder_seconds =
     (if case_phase c = Ph_recovered then
        (if ac_resolution_reason c \<noteq> ''positive_clean_observation'' then Inr None
         else case previous of
           None \<Rightarrow> Inr None
         | Some p \<Rightarrow> Inr (if ad_phase p = Ph_firing then Some AK_recovery else None))
      else if acknowledged c then Inr None
      else case previous of
        None \<Rightarrow> Inr (Some AK_new)
      | Some p \<Rightarrow>
          if ad_phase p = Ph_recovered then Inr (Some AK_recurrence)
          else if severity_rank (ad_severity p) < severity_rank (ac_severity c)
          then Inr (Some AK_escalation)
          else if ac_report_generation c \<noteq> ad_generation p then Inr (Some AK_recurrence)
          else if ac_severity c = HIGH then
            (case timedelta_seconds (max 21600 reminder_seconds) of
               Inl e \<Rightarrow> Inl e
             | Inr us \<Rightarrow> Inr (if us \<le> now - ad_delivered_at p then Some AK_reminder else None))
          else Inr None)"

definition previous_sequence :: "attention_delivery option \<Rightarrow> int" where
  "previous_sequence previous = (case previous of None \<Rightarrow> 0 | Some p \<Rightarrow> ad_sequence p)"

definition attention_key ::
  "string \<Rightarrow> int \<Rightarrow> attention_phase \<Rightarrow> severity \<Rightarrow> int \<Rightarrow> attention_kind \<Rightarrow> string" where
  "attention_key case_id generation phase sev sequence kind =
     ''attention:'' @ case_id @ '':'' @ int_str generation @ '':'' @ phase_str phase @ '':'' @
     severity_str sev @ '':'' @ int_str sequence @ '':'' @ kind_str kind"

definition request_severity :: "atomic_case \<Rightarrow> attention_delivery option \<Rightarrow> attention_kind \<Rightarrow> severity" where
  "request_severity c previous kind =
     (case previous of
        Some p \<Rightarrow> if kind = AK_recovery then ad_severity p else ac_severity c
      | None \<Rightarrow> ac_severity c)"

definition attention_request_of ::
  "atomic_case \<Rightarrow> attention_delivery option \<Rightarrow> attention_kind \<Rightarrow> attention_request" where
  "attention_request_of c previous kind =
     (let sev = request_severity c previous kind; sequence = previous_sequence previous
      in \<lparr>ar_kind = kind, ar_generation = ac_report_generation c, ar_phase = case_phase c,
          ar_severity = sev, ar_expected_sequence = sequence,
          ar_idempotency_key = attention_key (ac_case_id c) (ac_report_generation c)
            (case_phase c) sev sequence kind\<rparr>)"

definition attention_due ::
  "atomic_case \<Rightarrow> attention_delivery option \<Rightarrow> instant \<Rightarrow> int
    \<Rightarrow> exn + attention_request option" where
  "attention_due c previous now reminder_seconds =
     (if (case previous of None \<Rightarrow> False | Some p \<Rightarrow> ad_case_id p \<noteq> ac_case_id c) then
        Inl (ValueError ''attention projection belongs to another case'')
      else if attention_silenced c now then Inr None
      else case attention_kind_of c previous now reminder_seconds of
        Inl e \<Rightarrow> Inl e
      | Inr None \<Rightarrow> Inr None
      | Inr (Some kind) \<Rightarrow> Inr (Some (attention_request_of c previous kind)))"

subsection \<open>Facts\<close>

lemma attention_due_SomeD:
  assumes "attention_due c previous now r = Inr (Some req)"
  shows "\<not> attention_silenced c now \<and>
    attention_kind_of c previous now r = Inr (Some (ar_kind req)) \<and>
    req = attention_request_of c previous (ar_kind req)"
  using assms
  by (auto simp: attention_due_def attention_request_of_def Let_def
      split: if_splits sum.splits option.splits)

lemma attention_due_cases:
  assumes "attention_due c previous now r = Inr (Some req)"
  shows "\<not> attention_silenced c now \<and> (acknowledged c \<longrightarrow> ac_status c = CS_resolved) \<and>
    (ar_kind req = AK_new \<longleftrightarrow> previous = None) \<and>
    (ar_kind req = AK_recovery \<longleftrightarrow> ar_phase req = Ph_recovered) \<and>
    (ar_kind req = AK_recovery \<longrightarrow> ac_resolution_reason c = ''positive_clean_observation'' \<and>
       (\<exists>p. previous = Some p \<and> ad_phase p = Ph_firing \<and> ar_severity req = ad_severity p)) \<and>
    (\<forall>p. previous = Some p \<and> ad_phase p = Ph_recovered \<longrightarrow> ar_kind req = AK_recurrence) \<and>
    (ar_kind req = AK_escalation \<longrightarrow>
       (\<exists>p. previous = Some p \<and> severity_rank (ad_severity p) < severity_rank (ac_severity c))) \<and>
    ar_expected_sequence req = previous_sequence previous"
proof -
  note d = attention_due_SomeD [OF assms]
  from d have req: "ar_phase req = case_phase c"
    "ar_severity req = request_severity c previous (ar_kind req)"
    "ar_expected_sequence req = previous_sequence previous"
    by (metis attention_request.select_convs attention_request_of_def)+
  from d have k: "attention_kind_of c previous now r = Inr (Some (ar_kind req))" by simp
  show ?thesis
    using d k req
    by (auto simp: attention_kind_of_def case_phase_def request_severity_def
        split: if_splits option.splits sum.splits)
qed

text \<open>
  The life cycle of attention: nothing is due for a case that is silenced, or firing and acknowledged;
  the first notification of a firing case is "new"; a recovery is announced only for a case closed by
  positive clean evidence whose firing was announced, at the severity it was announced with; a firing
  case whose recovery was announced is a recurrence; and an escalation needs a higher severity than
  the one announced.
\<close>

theorem attention_due_lifecycle:
  assumes "attention_due c previous now r = Inr (Some req)"
  shows "\<not> attention_silenced c now \<and> (acknowledged c \<longrightarrow> ac_status c = CS_resolved) \<and>
    (ar_kind req = AK_new \<longleftrightarrow> previous = None) \<and>
    (ar_kind req = AK_recovery \<longleftrightarrow> ar_phase req = Ph_recovered) \<and>
    (ar_kind req = AK_recovery \<longrightarrow> ac_resolution_reason c = ''positive_clean_observation'' \<and>
       (\<exists>p. previous = Some p \<and> ad_phase p = Ph_firing \<and> ar_severity req = ad_severity p)) \<and>
    (\<forall>p. previous = Some p \<and> ad_phase p = Ph_recovered \<longrightarrow> ar_kind req = AK_recurrence) \<and>
    (ar_kind req = AK_escalation \<longrightarrow>
       (\<exists>p. previous = Some p \<and> severity_rank (ad_severity p) < severity_rank (ac_severity c))) \<and>
    ar_expected_sequence req = previous_sequence previous"
  using assms by (rule attention_due_cases)

text \<open>A case that was never announced, and its announcement.\<close>

definition sample_case :: atomic_case where
  "sample_case = blank_case\<lparr>ac_case_id := ''case_1'', ac_severity := HIGH,
     ac_identity := [(''source'', JStr ''icinga2'')]\<rparr>"

lemma sample_case_due:
  "attention_due sample_case None 0 21600 =
     Inr (Some (attention_request_of sample_case None AK_new))"
  by (simp add: attention_due_def attention_silenced_def attention_kind_of_def case_phase_def
      acknowledged_def in_future_def sample_case_def blank_case_def)

theorem attention_due_lifecycle_witness:
  "ar_kind (attention_request_of sample_case None AK_new) = AK_new \<and>
   ar_expected_sequence (attention_request_of sample_case None AK_new) = 0"
  using attention_due_lifecycle [OF sample_case_due] by (simp add: previous_sequence_def)

text \<open>The projection a delivered request leaves, as the outbox handler writes it.\<close>

definition delivered :: "atomic_case \<Rightarrow> attention_request \<Rightarrow> instant \<Rightarrow> attention_delivery" where
  "delivered c req t = \<lparr>ad_case_id = ac_case_id c, ad_generation = ar_generation req,
     ad_phase = ar_phase req, ad_severity = ar_severity req, ad_delivered_at = t,
     ad_sequence = ar_expected_sequence req + 1\<rparr>"

definition six_hours :: int where
  "six_hours = 21600 * second_us"

lemma timedelta_reminder:
  assumes "timedelta_seconds (max 21600 r) = Inr us" shows "six_hours \<le> us"
  using assms by (auto simp: timedelta_seconds_def six_hours_def second_us_def split: if_splits)

text \<open>
  A delivered notification is not due again: for the same case, against the projection the
  delivery wrote, nothing is due within six hours, whatever the reminder setting, and later on
  only a reminder of an unacknowledged HIGH case is.
\<close>

lemma attention_not_due_after_delivery:
  assumes "attention_due c previous now r = Inr (Some req)"
    and "attention_due c (Some (delivered c req t)) now' r = Inr (Some again)"
  shows "ar_kind again = AK_reminder \<and> ac_severity c = HIGH \<and> \<not> acknowledged c \<and>
    six_hours \<le> now' - t \<and> ar_expected_sequence again = ar_expected_sequence req + 1"
proof -
  note d1 = attention_due_SomeD [OF assms(1)] and d2 = attention_due_SomeD [OF assms(2)]
  have req: "ar_phase req = case_phase c" "ar_generation req = ac_report_generation c"
    "ar_severity req = request_severity c previous (ar_kind req)"
    using d1 by (metis attention_request.select_convs attention_request_of_def)+
  have again: "ar_expected_sequence again = ar_expected_sequence req + 1"
    using d2 by (metis attention_request.select_convs(5) attention_request_of_def previous_sequence_def
        option.simps(5) attention_delivery.select_convs(6) delivered_def)
  have "ar_kind req = AK_recovery \<longleftrightarrow> case_phase c = Ph_recovered"
    using attention_due_cases [OF assms(1)] req(1) by simp
  moreover have "attention_kind_of c (Some (delivered c req t)) now' r = Inr (Some (ar_kind again))"
    using d2 by simp
  ultimately show ?thesis
    using again req timedelta_reminder [of r]
    by (auto simp: attention_kind_of_def delivered_def request_severity_def case_phase_def
        split: if_splits sum.splits option.splits)
qed

lemma attention_not_due_after_delivery_witness:
  "six_hours \<le> six_hours - 0 \<and>
   attention_due sample_case (Some (delivered sample_case
     (attention_request_of sample_case None AK_new) 0)) six_hours 21600 =
     Inr (Some (attention_request_of sample_case (Some (delivered sample_case
       (attention_request_of sample_case None AK_new) 0)) AK_reminder))"
proof -
  have again: "attention_due sample_case (Some (delivered sample_case
     (attention_request_of sample_case None AK_new) 0)) six_hours 21600 =
     Inr (Some (attention_request_of sample_case (Some (delivered sample_case
       (attention_request_of sample_case None AK_new) 0)) AK_reminder))"
    by (simp add: attention_due_def attention_silenced_def attention_kind_of_def case_phase_def
        acknowledged_def in_future_def sample_case_def blank_case_def delivered_def
        attention_request_of_def request_severity_def six_hours_def timedelta_seconds_def Let_def
        second_us_def)
  show ?thesis
    using attention_not_due_after_delivery [OF sample_case_due again] again by simp
qed

subsection \<open>Identities\<close>

lemma digits_no_colon: "list_all is_digit s \<Longrightarrow> CHR '':'' \<notin> set s"
  by (auto simp: list_all_iff is_digit_def code_def)

lemma int_str_no_colon: "CHR '':'' \<notin> set (int_str i)"
  using digits_no_colon [OF nat_str_digits] by (simp add: int_str_def)

lemma int_str_inj: "int_str i = int_str j \<longleftrightarrow> i = j"
proof
  assume e: "int_str i = int_str j"
  have dash: "CHR ''-'' \<notin> set (nat_str n)" for n
    using nat_str_digits [of n] by (auto simp: list_all_iff is_digit_def code_def)
  have "hd (int_str k) = CHR ''-'' \<longleftrightarrow> k < 0" for k
    using dash [of "nat k"] by (cases "nat_str (nat k)") (auto simp: int_str_def)
  with e have "(i < 0) = (j < 0)" by metis
  with e show "i = j" by (auto simp: int_str_def nat_str_inj split: if_splits)
qed simp

lemma split_at_colon:
  "CHR '':'' \<notin> set a \<Longrightarrow> CHR '':'' \<notin> set b \<Longrightarrow> a @ CHR '':'' # x = b @ CHR '':'' # y
    \<Longrightarrow> a = b \<and> x = y"
proof (induction a arbitrary: b)
  case Nil
  then show ?case by (cases b) auto
next
  case (Cons c a)
  then show ?case by (cases b) auto
qed

lemma phase_str_inj: "phase_str p = phase_str q \<longleftrightarrow> p = q"
  by (cases p; cases q; simp)

lemma phase_str_no_colon: "CHR '':'' \<notin> set (phase_str p)"
  by (cases p) simp_all

lemma severity_str_inj: "severity_str p = severity_str q \<longleftrightarrow> p = q"
  by (cases p; cases q; simp)

lemma severity_str_no_colon: "CHR '':'' \<notin> set (severity_str p)"
  by (cases p) simp_all

lemma kind_str_inj: "kind_str p = kind_str q \<longleftrightarrow> p = q"
  by (cases p; cases q; simp)

text \<open>
  Two requests for one case have the same identity only if they agree in generation, phase,
  severity, sequence and kind, so a request issued after a delivery, whose sequence is higher, never
  collides with one the outbox already holds.
\<close>

lemma attention_key_injective:
  "attention_key cid g p s n k = attention_key cid g' p' s' n' k' \<longleftrightarrow>
     g = g' \<and> p = p' \<and> s = s' \<and> n = n' \<and> k = k'"
proof
  assume e: "attention_key cid g p s n k = attention_key cid g' p' s' n' k'"
  then have "int_str g @ CHR '':'' # (phase_str p @ CHR '':'' # (severity_str s @ CHR '':'' #
      (int_str n @ CHR '':'' # kind_str k))) = int_str g' @ CHR '':'' # (phase_str p' @ CHR '':'' #
      (severity_str s' @ CHR '':'' # (int_str n' @ CHR '':'' # kind_str k')))"
    by (simp add: attention_key_def)
  note 1 = split_at_colon [OF int_str_no_colon int_str_no_colon this]
  note 2 = split_at_colon [OF phase_str_no_colon phase_str_no_colon conjunct2 [OF 1]]
  note 3 = split_at_colon [OF severity_str_no_colon severity_str_no_colon conjunct2 [OF 2]]
  note 4 = split_at_colon [OF int_str_no_colon int_str_no_colon conjunct2 [OF 3]]
  show "g = g' \<and> p = p' \<and> s = s' \<and> n = n' \<and> k = k'"
    using 1 2 3 4 by (simp add: int_str_inj phase_str_inj severity_str_inj kind_str_inj)
qed simp

end
