(* ===== verification/Store_State.thy ===== *)
theory Store_State
  imports Lhp Attention
begin

section \<open>The state of the case store (app/cases/store.py)\<close>

text \<open>
  The dictionaries of \<open>InMemoryCaseStore\<close>, its result classes and its primitive writes. Every
  method body runs under the store's lock (theory \<open>Task_Lock\<close>), so an operation is one computation
  on this state. Copies (\<open>model_copy(deep=True)\<close>) are values. The per-handoff delivery guards are
  locks without data and are not part of the state.
\<close>

type_synonym lease = "string \<times> string \<times> string \<times> instant"

record store = draws +
  st_observations :: "(string, observation) dict"
  st_cases :: "(string, case_projection) dict"
  st_events :: "(string, case_event) dict"
  st_case_events :: "(string, string list) dict"
  st_aliases :: "(string, case_alias) dict"
  st_alias_index :: "(alias_type \<times> string, string) dict"
  st_outbox :: "(string, outbox_intent) dict"
  st_outbox_index :: "(string, string) dict"
  st_attention :: "(string, attention_delivery) dict"
  st_ack_scopes :: "(string, string \<times> severity) dict"
  st_attention_leases :: "(string, lease) dict"
  st_handoffs :: "(string, case_handoff) dict"
  st_handoff_keys :: "(string, string) dict"
  st_active_handoffs :: "(string \<times> loop_name \<times> string, string) dict"
  st_handoff_updates :: "(string, handoff_update) dict"
  st_update_index :: "(loop_name \<times> string, string) dict"
  st_objectives :: "(string, verification_objective) dict"
  st_objective_index :: "(string \<times> string, string) dict"
  st_artifacts :: "(string, knowledge_artifact) dict"
  st_artifact_index :: "(string \<times> string \<times> int, string) dict"
  st_outcomes :: "(string, outcome_record) dict"
  st_callbacks :: "(string, callback_record) dict"
  st_callback_index :: "(loop_name \<times> string, string) dict"
  st_deliveries :: "(string, transport_delivery) dict"
  st_delivery_index :: "(string, string) dict"
  st_feedback :: "(string, operator_feedback) dict"
  st_traces :: "(string, trace_record) dict"

type_synonym 'a st = "(store, 'a) comp"

text \<open>\<open>InMemoryCaseStore()\<close> before its first operation, with a supply of identifiers and times.\<close>

definition empty_store :: "(nat \<Rightarrow> string) \<Rightarrow> (nat \<Rightarrow> instant) \<Rightarrow> store" where
  "empty_store ids instants = \<lparr>uuid_hex = ids, uuids_drawn = 0, clock = instants, ticks = 0,
     st_observations = [], st_cases = [], st_events = [], st_case_events = [], st_aliases = [],
     st_alias_index = [], st_outbox = [], st_outbox_index = [], st_attention = [],
     st_ack_scopes = [], st_attention_leases = [], st_handoffs = [], st_handoff_keys = [],
     st_active_handoffs = [], st_handoff_updates = [], st_update_index = [], st_objectives = [],
     st_objective_index = [], st_artifacts = [], st_artifact_index = [], st_outcomes = [],
     st_callbacks = [], st_callback_index = [], st_deliveries = [], st_delivery_index = [],
     st_feedback = [], st_traces = []\<rparr>"

subsection \<open>Result classes\<close>

record outbox_health =
  oh_pending :: nat
  oh_failed :: nat
  oh_in_progress :: nat
  oh_outstanding_reports :: nat
  oh_oldest_report :: "instant option"
  oh_invalid_report_timestamps :: nat

record case_link_result =
  cl_child_case :: atomic_case
  cl_parent_case :: atomic_case
  cl_moved_aliases :: "case_alias list"
  cl_events :: "case_event list"

record handoff_create_result =
  hc_handoff :: case_handoff
  hc_objectives :: "verification_objective list"
  hc_case :: atomic_case
  hc_event :: "case_event option"
  hc_outbox_intent :: "outbox_intent option"
  hc_created :: bool

record handoff_update_result =
  hr_update :: handoff_update
  hr_handoff :: case_handoff
  hr_case :: atomic_case
  hr_event :: "case_event option"
  hr_created :: bool

subsection \<open>Lookups\<close>

text \<open>An index lookup whose result the code tests for truth: the empty identifier counts as absent.\<close>

definition idx_get :: "('k, string) dict \<Rightarrow> 'k \<Rightarrow> string option" where
  "idx_get d k = (case dict_get d k of Some i \<Rightarrow> (if i = [] then None else Some i) | None \<Rightarrow> None)"

text \<open>\<open>d[k]\<close>\<close>

definition item_of :: "(store \<Rightarrow> (string, 'v) dict) \<Rightarrow> string \<Rightarrow> 'v st" where
  "item_of f k = bindM (getM (\<lambda>s. dict_get (f s) k))
     (\<lambda>v. case v of Some x \<Rightarrow> retM x | None \<Rightarrow> raiseM (KeyError k))"

definition bounded_limit :: "int \<Rightarrow> int" where
  "bounded_limit limit = (if limit \<le> 0 then 100 else min limit 500)"

text \<open>The shape every list method has: filter, sort by a key, cut at the bounded limit.\<close>

definition list_rows ::
  "('v \<Rightarrow> bool) \<Rightarrow> ('v \<Rightarrow> 'k::linorder) \<Rightarrow> bool \<Rightarrow> int option \<Rightarrow> 'v list \<Rightarrow> 'v list" where
  "list_rows p key newest_first limit rows =
     (let sorted = py_sort newest_first key (filter p rows)
      in case limit of None \<Rightarrow> sorted | Some n \<Rightarrow> slice_to (bounded_limit n) sorted)"

text \<open>\<open>x is None or row.field == x\<close>\<close>

definition matches :: "'a option \<Rightarrow> 'a \<Rightarrow> bool" where
  "matches want v \<longleftrightarrow> (case want of None \<Rightarrow> True | Some w \<Rightarrow> v = w)"

definition case_by_id :: "store \<Rightarrow> string \<Rightarrow> case_projection option" where
  "case_by_id s cid = dict_get (st_cases s) cid"

definition atomic_by_id :: "store \<Rightarrow> string \<Rightarrow> atomic_case option" where
  "atomic_by_id s cid = as_atomic (case_by_id s cid)"

definition require_atomic_case_locked :: "string \<Rightarrow> atomic_case st" where
  "require_atomic_case_locked cid = bindM (getM (\<lambda>s. atomic_by_id s cid))
     (\<lambda>c. case c of Some x \<Rightarrow> retM x
        | None \<Rightarrow> raiseM (KeyError (''atomic case not found: '' @ cid)))"

definition require_handoff_locked :: "string \<Rightarrow> case_handoff st" where
  "require_handoff_locked hid = bindM (getM (\<lambda>s. dict_get (st_handoffs s) hid))
     (\<lambda>h. case h of Some x \<Rightarrow> retM x | None \<Rightarrow> raiseM (KeyError (''handoff not found: '' @ hid)))"

subsection \<open>Primitive writes\<close>

text \<open>\<open>self._cases[case.case_id] = case\<close>\<close>

definition put_case :: "case_projection \<Rightarrow> unit st" where
  "put_case p = modM (\<lambda>s. s\<lparr>st_cases := dict_set (proj_case_id p) p (st_cases s)\<rparr>)"

definition put_atomic :: "atomic_case \<Rightarrow> unit st" where
  "put_atomic c = put_case (Atomic c)"

definition index_event :: "string option \<Rightarrow> string \<Rightarrow> (string, string list) dict \<Rightarrow> (string, string list) dict" where
  "index_event target eid d =
     (case target of
        None \<Rightarrow> d
      | Some t \<Rightarrow> if t = [] then d
          else dict_set t ((case dict_get d t of None \<Rightarrow> [] | Some ids \<Rightarrow> ids) @ [eid]) d)"

definition write_event :: "case_event \<Rightarrow> store \<Rightarrow> store" where
  "write_event e s = s\<lparr>
     st_events := dict_set (ev_event_id e) e (st_events s),
     st_case_events := index_event (ev_meta_case_id e) (ev_event_id e)
       (index_event (ev_case_id e) (ev_event_id e) (st_case_events s))\<rparr>"

definition store_event_locked :: "case_event \<Rightarrow> case_event st" where
  "store_event_locked e = bindM (getM (\<lambda>s. dict_get (st_events s) (ev_event_id e)))
     (\<lambda>found. case found of
        Some existing \<Rightarrow> retM existing
      | None \<Rightarrow> seqM (modM (write_event e)) (retM e))"

text \<open>\<open>self._store_event_locked(event) if event is not None else None\<close>\<close>

definition store_event_opt :: "case_event option \<Rightarrow> case_event option st" where
  "store_event_opt e = (case e of None \<Rightarrow> retM None
     | Some x \<Rightarrow> bindM (store_event_locked x) (\<lambda>y. retM (Some y)))"

definition put_alias :: "case_alias \<Rightarrow> unit st" where
  "put_alias a = modM (\<lambda>s. s\<lparr>st_aliases := dict_set (al_alias_id a) a (st_aliases s)\<rparr>)"

definition alias_key :: "alias_type \<Rightarrow> string \<Rightarrow> alias_type \<times> string" where
  "alias_key ty v = (ty, py_strip v)"

definition key_of_alias :: "case_alias \<Rightarrow> alias_type \<times> string" where
  "key_of_alias a = alias_key (al_alias_type a) (al_alias_value a)"

definition put_active_alias :: "case_alias \<Rightarrow> unit st" where
  "put_active_alias a = modM (\<lambda>s. s\<lparr>
     st_aliases := dict_set (al_alias_id a) a (st_aliases s),
     st_alias_index := dict_set (key_of_alias a) (al_alias_id a) (st_alias_index s)\<rparr>)"

definition put_intent :: "outbox_intent \<Rightarrow> unit st" where
  "put_intent i = modM (\<lambda>s. s\<lparr>
     st_outbox := dict_set (ob_outbox_id i) i (st_outbox s),
     st_outbox_index := dict_set (ob_idempotency_key i) (ob_outbox_id i) (st_outbox_index s)\<rparr>)"

definition handoff_key :: "case_handoff \<Rightarrow> string \<times> loop_name \<times> string" where
  "handoff_key h = (ho_case_id h, ho_target_loop h, ho_objective_key h)"

definition handoff_active :: "handoff_status \<Rightarrow> bool" where
  "handoff_active h \<longleftrightarrow> \<not> terminal_handoff_status h"

text \<open>Store a handoff under its id; the active index follows its status.\<close>

definition put_handoff :: "case_handoff \<Rightarrow> unit st" where
  "put_handoff h = modM (\<lambda>s. s\<lparr>
     st_handoffs := dict_set (ho_handoff_id h) h (st_handoffs s),
     st_active_handoffs :=
       (if handoff_active (ho_status h) then dict_set (handoff_key h) (ho_handoff_id h) else id)
         (st_active_handoffs s)\<rparr>)"

definition drop_active_handoff :: "case_handoff \<Rightarrow> unit st" where
  "drop_active_handoff h = modM (\<lambda>s. s\<lparr>
     st_active_handoffs := dict_pop (handoff_key h) (st_active_handoffs s)\<rparr>)"

definition put_objective :: "verification_objective \<Rightarrow> unit st" where
  "put_objective v = modM (\<lambda>s. s\<lparr>
     st_objectives := dict_set (vo_objective_id v) v (st_objectives s),
     st_objective_index :=
       dict_set (vo_case_id v, vo_objective_key v) (vo_objective_id v) (st_objective_index s)\<rparr>)"

definition put_artifact :: "knowledge_artifact \<Rightarrow> unit st" where
  "put_artifact k = modM (\<lambda>s. s\<lparr>
     st_artifacts := dict_set (ka_artifact_id k) k (st_artifacts s),
     st_artifact_index := dict_set (ka_case_id k, ka_artifact_type k, ka_version k)
       (ka_artifact_id k) (st_artifact_index s)\<rparr>)"

definition put_delivery :: "transport_delivery \<Rightarrow> unit st" where
  "put_delivery d = modM (\<lambda>s. s\<lparr>
     st_deliveries := dict_set (td_delivery_id d) d (st_deliveries s),
     st_delivery_index := dict_set (td_idempotency_key d) (td_delivery_id d) (st_delivery_index s)\<rparr>)"

end
