(* ===== verification/Store_Cases.thy ===== *)
theory Store_Cases
  imports Store_State
begin

section \<open>Cases, observations, events and aliases of the store\<close>

text \<open>
  The operations of \<open>InMemoryCaseStore\<close> on observations, case projections, acknowledgement scopes,
  events, identity aliases, feedback and traces, in the order of the class.
\<close>

subsection \<open>Observations and projections\<close>

definition put_observation :: "observation \<Rightarrow> observation st" where
  "put_observation ob = bindM (getM (\<lambda>s. dict_get (st_observations s) (obs_observation_id ob)))
     (\<lambda>found. case found of
        Some existing \<Rightarrow> retM existing
      | None \<Rightarrow> seqM (modM (\<lambda>s. s\<lparr>st_observations :=
          dict_set (obs_observation_id ob) ob (st_observations s)\<rparr>)) (retM ob))"

definition get_observation :: "string \<Rightarrow> observation option st" where
  "get_observation oid = getM (\<lambda>s. dict_get (st_observations s) oid)"

definition upsert_case :: "case_projection \<Rightarrow> case_projection st" where
  "upsert_case p = seqM (put_case p) (retM p)"

text \<open>\<open>async with store.case_write_guard(case_id): body\<close>\<close>

definition case_write_guard :: "string \<Rightarrow> 'a st \<Rightarrow> 'a st" where
  "case_write_guard cid body = bindM (getM (\<lambda>s. case_by_id s cid))
     (\<lambda>c. if c = None then raiseM (KeyError ''case not found'') else body)"

definition record_acknowledgement_scope :: "string \<Rightarrow> string \<Rightarrow> severity \<Rightarrow> unit st" where
  "record_acknowledgement_scope cid acknowledged_at sev =
     seqM (require_atomic_case_locked cid)
       (modM (\<lambda>s. s\<lparr>st_ack_scopes := dict_set cid (acknowledged_at, sev) (st_ack_scopes s)\<rparr>))"

definition acknowledgement_scope :: "string \<Rightarrow> string \<Rightarrow> severity option st" where
  "acknowledgement_scope cid acknowledged_at = getM (\<lambda>s.
     case dict_get (st_ack_scopes s) cid of
       Some (t, sev) \<Rightarrow> if t = acknowledged_at then Some sev else None
     | None \<Rightarrow> None)"

subsection \<open>Creating an atomic case\<close>

text \<open>The first alias of the new case that is taken decides: its case, or an error.\<close>

primrec existing_by_alias :: "case_alias list \<Rightarrow> atomic_case option st" where
  "existing_by_alias [] = retM None"
| "existing_by_alias (a # aliases) =
     (if al_alias_value a = [] then raiseM (ValueError ''alias_value is required'')
      else bindM (getM (\<lambda>s. idx_get (st_alias_index s) (key_of_alias a)))
        (\<lambda>existing_id. case existing_id of
           None \<Rightarrow> existing_by_alias aliases
         | Some eid \<Rightarrow> bindM (item_of st_aliases eid)
             (\<lambda>existing_alias. bindM (getM (\<lambda>s. atomic_by_id s (al_case_id existing_alias)))
               (\<lambda>c. case c of
                  Some existing_case \<Rightarrow> retM (Some existing_case)
                | None \<Rightarrow> raiseM (ValueError (''active alias '' @ alias_type_str (al_alias_type a) @
                    '':'' @ al_alias_value a @ '' points to missing case''))))))"

definition terminal_case_status :: "case_status \<Rightarrow> bool" where
  "terminal_case_status c \<longleftrightarrow> c \<in> {CS_resolved, CS_closed, CS_expired, CS_linked}"

definition open_with_fingerprint :: "string \<Rightarrow> case_projection \<Rightarrow> bool" where
  "open_with_fingerprint fp p \<longleftrightarrow>
     (case p of
        Atomic c \<Rightarrow> ac_fingerprint c \<noteq> [] \<and> ac_fingerprint c = fp \<and>
          \<not> terminal_case_status (ac_status c)
      | Meta _ \<Rightarrow> False)"

definition existing_by_fingerprint :: "string \<Rightarrow> store \<Rightarrow> atomic_case option" where
  "existing_by_fingerprint fp s =
     as_atomic (List.find (open_with_fingerprint fp) (dict_values (st_cases s)))"

definition create_atomic_case ::
  "atomic_case \<Rightarrow> case_alias list \<Rightarrow> case_event list
    \<Rightarrow> (atomic_case \<times> case_event list \<times> bool) st" where
  "create_atomic_case c aliases events =
     bindM (existing_by_alias aliases) (\<lambda>by_alias.
     case by_alias of
       Some existing_case \<Rightarrow> retM (existing_case, [], False)
     | None \<Rightarrow> bindM (getM (existing_by_fingerprint (ac_fingerprint c))) (\<lambda>by_fingerprint.
         case by_fingerprint of
           Some existing_case \<Rightarrow> retM (existing_case, [], False)
         | None \<Rightarrow>
             seqM (put_atomic c)
             (seqM (mapM put_active_alias aliases)
             (bindM (mapM store_event_locked events)
               (\<lambda>stored_events. retM (c, stored_events, True))))))"

subsection \<open>Claiming an investigation\<close>

definition claim_investigation_store ::
  "string \<Rightarrow> string \<Rightarrow> string \<Rightarrow> string \<Rightarrow> string \<Rightarrow> string \<Rightarrow> string \<Rightarrow> case_event
    \<Rightarrow> atomic_case option st" where
  "claim_investigation_store cid expected_signal_signature expected_diagnosis_signature
       expected_last_investigated_at status policy_version now event =
     bindM (getM (\<lambda>s. atomic_by_id s cid)) (\<lambda>found.
     case found of
       None \<Rightarrow> retM None
     | Some c \<Rightarrow>
         if terminal_case_status (ac_status c) then retM None
         else if ac_signal_signature c \<noteq> expected_signal_signature
           \<or> ac_diagnosis_signature c \<noteq> expected_diagnosis_signature
           \<or> ac_last_investigated_at c \<noteq> expected_last_investigated_at then retM None
         else
           (let claimed = c\<lparr>
              ac_last_investigated_at := now,
              ac_diagnosis_signature :=
                or_str (ac_signal_signature c) (or_str (ac_fingerprint c) (ac_case_id c)),
              ac_investigation_status := status, ac_investigation_error := [],
              ac_updated_at := now, ac_policy_version := policy_version\<rparr>
            in seqM (put_atomic claimed) (seqM (store_event_locked event) (retM (Some claimed)))))"

subsection \<open>Reading cases\<close>

definition get_case :: "string \<Rightarrow> case_projection option st" where
  "get_case cid = getM (\<lambda>s. case_by_id s cid)"

definition list_cases ::
  "string option \<Rightarrow> string option \<Rightarrow> int \<Rightarrow> case_projection list st" where
  "list_cases kind status limit = getM (\<lambda>s.
     let cases = dict_values (st_cases s);
         cases = (case kind of Some k \<Rightarrow>
           (if k = [] then cases else filter (\<lambda>c. proj_kind c = k) cases) | None \<Rightarrow> cases);
         cases = (case status of Some w \<Rightarrow>
           (if w = [] then cases else filter (\<lambda>c. case_status_str (proj_status c) = w) cases)
           | None \<Rightarrow> cases)
     in slice_to (max 0 limit) (py_sort True proj_updated_at cases))"

definition atomic_cases :: "store \<Rightarrow> atomic_case list" where
  "atomic_cases s = List.map_filter (\<lambda>p. as_atomic (Some p)) (dict_values (st_cases s))"

definition list_reminder_candidates :: "string \<Rightarrow> int \<Rightarrow> atomic_case list st" where
  "list_reminder_candidates after_case_id limit = getM (\<lambda>s.
     slice_to (max 0 (min limit 1000)) (py_sort False ac_case_id
       (filter (\<lambda>c. after_case_id < ac_case_id c \<and> ac_severity c = HIGH \<and>
           ac_last_reported_at c \<noteq> []) (atomic_cases s))))"

text \<open>Filter by a test that may raise, from left to right.\<close>

primrec filterM :: "('a \<Rightarrow> 's \<Rightarrow> exn + bool) \<Rightarrow> 'a list \<Rightarrow> ('s, 'a list) comp" where
  "filterM p [] = retM []"
| "filterM p (x # xs) = bindM (\<lambda>s. (p x s, s)) (\<lambda>keep.
     bindM (filterM p xs) (\<lambda>ys. retM (if keep then x # ys else ys)))"

definition attention_candidate ::
  "string \<Rightarrow> instant \<Rightarrow> int \<Rightarrow> atomic_case \<Rightarrow> store \<Rightarrow> exn + bool" where
  "attention_candidate after_case_id now reminder_seconds c s =
     (if \<not> (after_case_id < ac_case_id c \<and> source_watched c) then Inr False
      else case attention_due c (dict_get (st_attention s) (ac_case_id c)) now reminder_seconds of
        Inl e \<Rightarrow> Inl e
      | Inr req \<Rightarrow> Inr (req \<noteq> None))"

definition list_attention_candidates ::
  "string \<Rightarrow> int \<Rightarrow> instant option \<Rightarrow> int \<Rightarrow> atomic_case list st" where
  "list_attention_candidates after_case_id limit now reminder_seconds =
     bindM (given_or now dt_now) (\<lambda>t.
     bindM (getM atomic_cases) (\<lambda>cases.
     bindM (filterM (attention_candidate after_case_id t reminder_seconds) cases) (\<lambda>due.
       retM (slice_to (max 0 (min limit 1000)) (py_sort False ac_case_id due)))))"

subsection \<open>Events\<close>

definition append_event :: "case_event \<Rightarrow> case_event st" where
  "append_event e = store_event_locked e"

definition events_of :: "store \<Rightarrow> string \<Rightarrow> case_event list" where
  "events_of s cid = List.map_filter (dict_get (st_events s))
     (case dict_get (st_case_events s) cid of None \<Rightarrow> [] | Some ids \<Rightarrow> ids)"

definition case_events :: "string \<Rightarrow> int option \<Rightarrow> bool \<Rightarrow> case_event list st" where
  "case_events cid limit newest_first = getM (\<lambda>s.
     list_rows (\<lambda>_. True) (\<lambda>e. (ev_occurred_at e, ev_event_id e)) newest_first limit
       (events_of s cid))"

definition count_case_events :: "string \<Rightarrow> nat st" where
  "count_case_events cid = getM (\<lambda>s. length (events_of s cid))"

subsection \<open>Aliases\<close>

definition record_alias :: "case_alias \<Rightarrow> case_alias st" where
  "record_alias a =
     (if al_alias_value a = [] then raiseM (ValueError ''alias_value is required'')
      else
        bindM (getM (\<lambda>s. idx_get (st_alias_index s) (key_of_alias a))) (\<lambda>existing_id.
        bindM (case existing_id of None \<Rightarrow> retM None
          | Some eid \<Rightarrow> bindM (item_of st_aliases eid) (\<lambda>x. retM (Some x))) (\<lambda>found.
        let store_it = seqM (if al_retired_at a = None then put_active_alias a else put_alias a)
          (retM a)
        in case found of
             None \<Rightarrow> store_it
           | Some existing \<Rightarrow>
               if al_retired_at existing = None \<and> al_case_id existing \<noteq> al_case_id a then
                 raiseM (ValueError (''active alias '' @ alias_type_str (al_alias_type a) @ '':'' @
                   al_alias_value a @ '' already points to '' @ al_case_id existing))
               else if al_retired_at existing = None then retM existing
               else store_it)))"

definition alias_target :: "store \<Rightarrow> alias_type \<times> string \<Rightarrow> string option" where
  "alias_target s key =
     (case idx_get (st_alias_index s) key of
        None \<Rightarrow> None
      | Some aid \<Rightarrow> (case dict_get (st_aliases s) aid of
          None \<Rightarrow> None
        | Some a \<Rightarrow> if al_retired_at a = None then Some (al_case_id a) else None))"

definition resolve_alias :: "alias_type \<Rightarrow> string \<Rightarrow> string option st" where
  "resolve_alias ty v = getM (\<lambda>s. alias_target s (alias_key ty v))"

subsection \<open>Linking a child case to its parent\<close>

text \<open>One alias of the child: retire it and, unless the parent has it, give the parent a copy.\<close>

definition retire_alias :: "case_alias \<Rightarrow> string \<Rightarrow> unit st" where
  "retire_alias a now = modM (\<lambda>s.
     let key = key_of_alias a in s\<lparr>
       st_alias_index := (if dict_get (st_alias_index s) key = Some (al_alias_id a)
         then dict_pop key (st_alias_index s) else st_alias_index s),
       st_aliases := (if dict_get (st_aliases s) (al_alias_id a) = Some a
         then dict_set (al_alias_id a) (a\<lparr>al_retired_at := Some now\<rparr>) (st_aliases s)
         else st_aliases s)\<rparr>)"

definition reassign_alias ::
  "string \<Rightarrow> string \<Rightarrow> case_alias \<Rightarrow> case_alias list \<Rightarrow> case_alias list st" where
  "reassign_alias to_case_id now a moved =
     bindM (getM (\<lambda>s. alias_target s (key_of_alias a) = Some to_case_id)) (\<lambda>target_has_it.
     seqM (retire_alias a now)
     (bindM (getM (\<lambda>s. dict_get (st_alias_index s) (key_of_alias a) \<noteq> None)) (\<lambda>indexed.
       if target_has_it \<or> indexed then retM moved
       else bindM (new_alias None to_case_id (al_alias_type a) (al_alias_value a)
           (or_str (al_source a) ''case_link'') (al_confidence a) (Some now))
         (\<lambda>replacement. seqM (put_active_alias replacement) (retM (moved @ [replacement]))))))"

definition active_aliases_of :: "store \<Rightarrow> string \<Rightarrow> case_alias list" where
  "active_aliases_of s cid =
     filter (\<lambda>a. al_case_id a = cid \<and> al_retired_at a = None) (dict_values (st_aliases s))"

definition reassign_aliases_locked :: "string \<Rightarrow> string \<Rightarrow> string \<Rightarrow> case_alias list st" where
  "reassign_aliases_locked from_case_id to_case_id now =
     bindM (getM (\<lambda>s. active_aliases_of s from_case_id))
       (\<lambda>active. foldM (reassign_alias to_case_id now) active [])"

definition linked_diagnosis :: "atomic_case \<Rightarrow> string \<Rightarrow> string \<Rightarrow> string list \<Rightarrow> jdict" where
  "linked_diagnosis child parent_id reason evidence_refs =
     dict_set ''link_evidence_refs'' (JList (map JStr evidence_refs))
       (dict_set ''link_reason'' (JStr reason)
         (dict_set ''linked_parent_case'' (JStr parent_id) (ac_last_diagnosis child)))"

definition link_child_case ::
  "string \<Rightarrow> string \<Rightarrow> string \<Rightarrow> string list \<Rightarrow> string \<Rightarrow> case_link_result option st" where
  "link_child_case child_id parent_id reason evidence_refs now =
     (if child_id = parent_id then retM None
      else
        bindM (getM (\<lambda>s. (atomic_by_id s child_id, atomic_by_id s parent_id))) (\<lambda>found.
        case found of
          (Some child, Some parent) \<Rightarrow>
            if ac_status child = CS_linked then
              (if jget (ac_last_diagnosis child) ''linked_parent_case'' = JStr (ac_case_id parent)
               then retM (Some \<lparr>cl_child_case = child, cl_parent_case = parent,
                 cl_moved_aliases = [], cl_events = []\<rparr>)
               else retM None)
            else
              (let linked_child = child\<lparr>
                   ac_status := CS_linked, ac_resolution_reason := ''linked_parent'',
                   ac_resolved_at := Some now,
                   ac_last_diagnosis :=
                     linked_diagnosis child (ac_case_id parent) reason evidence_refs,
                   ac_updated_at := now\<rparr>;
                 linked_parent = parent\<lparr>ac_updated_at := now\<rparr>
               in
                 seqM (put_atomic linked_child)
                 (seqM (put_atomic linked_parent)
                 (bindM (reassign_aliases_locked (ac_case_id linked_child)
                    (ac_case_id linked_parent) now) (\<lambda>moved.
                 bindM (new_event None (Some now) (\<lambda>e. e\<lparr>
                    ev_case_id := Some (ac_case_id linked_child),
                    ev_event_type := ''case_linked_to_parent'', ev_actor_type := Act_graph,
                    ev_payload := [(''parent_case_id'', JStr (ac_case_id linked_parent)),
                      (''reason'', JStr reason),
                      (''evidence_refs'', JList (map JStr evidence_refs)),
                      (''moved_alias_count'', JInt (int (length moved)))]\<rparr>)) (\<lambda>child_event.
                 bindM (new_event None (Some now) (\<lambda>e. e\<lparr>
                    ev_case_id := Some (ac_case_id linked_parent),
                    ev_event_type := ''linked_child_case'', ev_actor_type := Act_graph,
                    ev_payload := [(''child_case_id'', JStr (ac_case_id linked_child)),
                      (''resource_key'', JStr (ac_resource_id linked_child)),
                      (''summary'', JStr reason),
                      (''evidence_refs'', JList (map JStr evidence_refs)),
                      (''moved_alias_count'', JInt (int (length moved)))]\<rparr>)) (\<lambda>parent_event.
                 bindM (store_event_locked child_event) (\<lambda>e1.
                 bindM (store_event_locked parent_event) (\<lambda>e2.
                   retM (Some \<lparr>cl_child_case = linked_child, cl_parent_case = linked_parent,
                     cl_moved_aliases = moved, cl_events = [e1, e2]\<rparr>)))))))))
        | _ \<Rightarrow> retM None))"

subsection \<open>Feedback and traces\<close>

definition record_feedback :: "operator_feedback \<Rightarrow> operator_feedback st" where
  "record_feedback f = bindM (getM (\<lambda>s. dict_get (st_feedback s) (fb_feedback_id f)))
     (\<lambda>found. case found of
        Some existing \<Rightarrow> retM existing
      | None \<Rightarrow> seqM (modM (\<lambda>s. s\<lparr>st_feedback := dict_set (fb_feedback_id f) f (st_feedback s)\<rparr>))
          (retM f))"

definition feedback_matches :: "string option \<Rightarrow> string option \<Rightarrow> operator_feedback \<Rightarrow> bool" where
  "feedback_matches cid mid f \<longleftrightarrow>
     (cid \<noteq> None \<longrightarrow> fb_case_id f = cid) \<and> (mid \<noteq> None \<longrightarrow> fb_meta_case_id f = mid)"

definition list_feedback ::
  "string option \<Rightarrow> string option \<Rightarrow> int option \<Rightarrow> bool \<Rightarrow> operator_feedback list st" where
  "list_feedback cid mid limit newest_first = getM (\<lambda>s.
     list_rows (feedback_matches cid mid) fb_created_at newest_first limit
       (dict_values (st_feedback s)))"

definition count_feedback :: "string option \<Rightarrow> string option \<Rightarrow> nat st" where
  "count_feedback cid mid = getM (\<lambda>s.
     length (filter (feedback_matches cid mid) (dict_values (st_feedback s))))"

definition record_trace_store :: "trace_record \<Rightarrow> trace_record st" where
  "record_trace_store t = bindM (getM (\<lambda>s. dict_get (st_traces s) (tr_trace_id t)))
     (\<lambda>found. case found of
        Some existing \<Rightarrow> retM existing
      | None \<Rightarrow> seqM (modM (\<lambda>s. s\<lparr>st_traces := dict_set (tr_trace_id t) t (st_traces s)\<rparr>))
          (retM t))"

definition trace_matches :: "string option \<Rightarrow> string option \<Rightarrow> trace_record \<Rightarrow> bool" where
  "trace_matches cid mid t \<longleftrightarrow>
     (cid \<noteq> None \<longrightarrow> tr_case_id t = cid) \<and> (mid \<noteq> None \<longrightarrow> tr_meta_case_id t = mid)"

definition list_traces ::
  "string option \<Rightarrow> string option \<Rightarrow> int option \<Rightarrow> bool \<Rightarrow> trace_record list st" where
  "list_traces cid mid limit newest_first = getM (\<lambda>s.
     list_rows (trace_matches cid mid) tr_created_at newest_first limit
       (dict_values (st_traces s)))"

definition count_traces :: "string option \<Rightarrow> string option \<Rightarrow> nat st" where
  "count_traces cid mid = getM (\<lambda>s.
     length (filter (trace_matches cid mid) (dict_values (st_traces s))))"

end
