(* ===== verification/Store_Outbox.thy ===== *)
theory Store_Outbox
  imports Store_State
begin

section \<open>The outbox and the attention ledger of the store\<close>

text \<open>
  The operations of \<open>InMemoryCaseStore\<close> on outbox intents, their compare-and-set updates, the
  per-case attention leases and the delivery projections they protect, and the outbox health.
\<close>

subsection \<open>Enqueueing\<close>

definition enqueue_outbox :: "outbox_intent \<Rightarrow> outbox_intent st" where
  "enqueue_outbox i = bindM (getM (\<lambda>s. idx_get (st_outbox_index s) (ob_idempotency_key i)))
     (\<lambda>existing_id. case existing_id of
        Some eid \<Rightarrow> item_of st_outbox eid
      | None \<Rightarrow> seqM (put_intent i) (retM i))"

definition enqueue_outbox_opt :: "outbox_intent option \<Rightarrow> outbox_intent option st" where
  "enqueue_outbox_opt i = (case i of None \<Rightarrow> retM None
     | Some x \<Rightarrow> bindM (enqueue_outbox x) (\<lambda>y. retM (Some y)))"

definition get_outbox_by_key :: "string \<Rightarrow> outbox_intent option st" where
  "get_outbox_by_key key = bindM (getM (\<lambda>s. idx_get (st_outbox_index s) key))
     (\<lambda>oid. case oid of None \<Rightarrow> retM None
        | Some i \<Rightarrow> bindM (item_of st_outbox i) (\<lambda>x. retM (Some x)))"

definition list_outbox :: "string option \<Rightarrow> outbox_intent list st" where
  "list_outbox status = getM (\<lambda>s.
     py_sort False ob_created_at
       (case status of None \<Rightarrow> dict_values (st_outbox s)
        | Some w \<Rightarrow> if w = [] then dict_values (st_outbox s)
            else filter (\<lambda>i. outbox_status_str (ob_status i) = w) (dict_values (st_outbox s))))"

definition update_outbox :: "outbox_intent \<Rightarrow> outbox_intent st" where
  "update_outbox i = bindM (getM (\<lambda>s. dict_get (st_outbox s) (ob_outbox_id i)))
     (\<lambda>current. if current = None
        then raiseM (KeyError (''outbox intent not found: '' @ ob_outbox_id i))
        else seqM (put_intent i) (retM i))"

text \<open>Compare and set: the stored status, and the claim token when one is expected, must agree.\<close>

definition update_outbox_if_status ::
  "outbox_intent \<Rightarrow> outbox_status \<Rightarrow> string option \<Rightarrow> outbox_intent option st" where
  "update_outbox_if_status i expected_status expected_claim_token =
     bindM (getM (\<lambda>s. dict_get (st_outbox s) (ob_outbox_id i))) (\<lambda>found.
     case found of
       None \<Rightarrow> retM None
     | Some current \<Rightarrow>
         if ob_status current \<noteq> expected_status then retM None
         else if \<not> matches expected_claim_token (ob_claim_token current) then retM None
         else seqM (put_intent i) (retM (Some i)))"

subsection \<open>Attention leases\<close>

definition get_attention :: "string \<Rightarrow> attention_delivery option st" where
  "get_attention cid = getM (\<lambda>s. dict_get (st_attention s) cid)"

definition has_pending_attention :: "string \<Rightarrow> bool st" where
  "has_pending_attention cid = getM (\<lambda>s.
     list_ex (\<lambda>i. ob_case_id i = Some cid \<and> ob_intent_type i = OI_report \<and>
         ob_status i \<in> {OS_pending, OS_failed, OS_in_progress} \<and>
         dict_get (ob_payload i) ''attention_request'' \<noteq> None)
       (dict_values (st_outbox s)))"

text \<open>The claim of an intent that is still the caller's, for the delivery that comes next.\<close>

definition owns_intent ::
  "store \<Rightarrow> string \<Rightarrow> string \<Rightarrow> string \<Rightarrow> int \<Rightarrow> bool" where
  "owns_intent s outbox_id cid claim_token expected_sequence \<longleftrightarrow>
     (case dict_get (st_outbox s) outbox_id of
        None \<Rightarrow> False
      | Some current \<Rightarrow> ob_status current = OS_in_progress \<and>
          ob_claim_token current = claim_token \<and> ob_case_id current = Some cid \<and>
          previous_sequence (dict_get (st_attention s) cid) = expected_sequence)"

definition lease_expires :: "lease \<Rightarrow> instant" where
  "lease_expires l = snd (snd (snd l))"

definition claim_attention :: "outbox_intent \<Rightarrow> int \<Rightarrow> int \<Rightarrow> string option st" where
  "claim_attention i expected_sequence lease_seconds =
     (case ob_case_id i of
        None \<Rightarrow> raiseM (ValueError ''invalid attention lease'')
      | Some cid \<Rightarrow>
          if cid = [] \<or> ob_claim_token i = [] \<or> \<not> (1 \<le> lease_seconds \<and> lease_seconds \<le> 300)
          then raiseM (ValueError ''invalid attention lease'')
          else
            bindM dt_now (\<lambda>now.
            bindM (getM (\<lambda>s. owns_intent s (ob_outbox_id i) cid (ob_claim_token i) expected_sequence
               \<and> (case dict_get (st_attention_leases s) cid of
                    None \<Rightarrow> True | Some l \<Rightarrow> \<not> now < lease_expires l))) (\<lambda>free.
            if \<not> free then retM None
            else
              seqM (require_atomic_case_locked cid)
              (bindM uuid4_hex (\<lambda>token.
               bindM (liftM (instant_plus now (lease_seconds * second_us))) (\<lambda>expires.
               seqM (modM (\<lambda>s. s\<lparr>st_attention_leases :=
                   dict_set cid (token, ob_outbox_id i, ob_claim_token i, expires)
                     (st_attention_leases s)\<rparr>))
                 (retM (Some token))))))))"

definition release_attention :: "string \<Rightarrow> string \<Rightarrow> unit st" where
  "release_attention cid lease_token = modM (\<lambda>s.
     case dict_get (st_attention_leases s) cid of
       None \<Rightarrow> s
     | Some l \<Rightarrow> if fst l = lease_token
         then s\<lparr>st_attention_leases := dict_pop cid (st_attention_leases s)\<rparr> else s)"

subsection \<open>Completing a delivery\<close>

definition apply_report_completion :: "atomic_case \<Rightarrow> case_event \<Rightarrow> exn + atomic_case" where
  "apply_report_completion c e =
     (if ev_case_id e \<noteq> Some (ac_case_id c) \<or>
         ev_event_type e \<notin> {''case_reported'', ''case_reasserted''}
      then Inl (ValueError ''invalid report completion event'')
      else case dict_get (ev_payload e) ''state_signature'' of
        None \<Rightarrow> Inl (KeyError ''state_signature'')
      | Some sig \<Rightarrow> Inr (c\<lparr>
          ac_last_reported_at := ev_occurred_at e,
          ac_last_reported_signature := py_str sig,
          ac_last_reasserted_at := (if ev_event_type e = ''case_reasserted''
            then ev_occurred_at e else ac_last_reasserted_at c),
          ac_updated_at := ev_occurred_at e,
          ac_policy_version := ev_policy_version e\<rparr>))"

text \<open>The lease is held by exactly this attempt.\<close>

definition holds_lease :: "store \<Rightarrow> string \<Rightarrow> string \<Rightarrow> string \<Rightarrow> string \<Rightarrow> bool" where
  "holds_lease s cid lease_token outbox_id claim_token \<longleftrightarrow>
     (case dict_get (st_attention_leases s) cid of
        None \<Rightarrow> False
      | Some (token, oid, claim, _) \<Rightarrow> (token, oid, claim) = (lease_token, outbox_id, claim_token))"

definition write_attention :: "attention_delivery \<Rightarrow> outbox_intent \<Rightarrow> store \<Rightarrow> store" where
  "write_attention d i s = s\<lparr>
     st_attention := dict_set (ad_case_id d) d (st_attention s),
     st_outbox := dict_set (ob_outbox_id i) i (st_outbox s),
     st_attention_leases := dict_pop (ad_case_id d) (st_attention_leases s)\<rparr>"

definition complete_attention ::
  "outbox_intent \<Rightarrow> attention_delivery \<Rightarrow> int \<Rightarrow> string \<Rightarrow> string \<Rightarrow> case_event option
    \<Rightarrow> outbox_intent option st" where
  "complete_attention i d expected_sequence expected_claim_token lease_token report_event =
     (if ob_status i \<noteq> OS_succeeded \<or> ob_case_id i \<noteq> Some (ad_case_id d) \<or>
         ad_sequence d \<noteq> expected_sequence + 1
      then raiseM (ValueError ''invalid attention completion'')
      else
        bindM (getM (\<lambda>s.
          owns_intent s (ob_outbox_id i) (ad_case_id d) expected_claim_token expected_sequence \<and>
          holds_lease s (ad_case_id d) lease_token (ob_outbox_id i) expected_claim_token)) (\<lambda>owned.
        if \<not> owned then retM None
        else
          bindM (getM (\<lambda>s. dict_get (st_attention_leases s) (ad_case_id d))) (\<lambda>lease.
          bindM dt_now (\<lambda>now.
          if (case lease of None \<Rightarrow> True | Some l \<Rightarrow> lease_expires l \<le> now) then retM None
          else
            bindM (require_atomic_case_locked (ad_case_id d)) (\<lambda>c.
            seqM (case report_event of
                None \<Rightarrow> retM ()
              | Some e \<Rightarrow> bindM (liftM (apply_report_completion c e)) (\<lambda>c'.
                  seqM (put_atomic c') (seqM (store_event_locked e) (retM ()))))
            (seqM (modM (write_attention d i)) (retM (Some i))))))))"

subsection \<open>Health\<close>

definition report_timestamp :: "outbox_intent \<Rightarrow> instant option" where
  "report_timestamp i = map_option pydt_instant (fromisoformat (zulu (ob_created_at i)))"

definition min_opt :: "instant option \<Rightarrow> instant \<Rightarrow> instant option" where
  "min_opt oldest t = (case oldest of None \<Rightarrow> Some t | Some u \<Rightarrow> Some (min u t))"

definition count_status :: "outbox_status \<Rightarrow> outbox_intent list \<Rightarrow> nat" where
  "count_status w rows = length (filter (\<lambda>i. ob_status i = w) rows)"

definition outbox_health_of :: "outbox_intent list \<Rightarrow> outbox_health" where
  "outbox_health_of rows =
     (let reports = filter (\<lambda>i. ob_status i \<in> {OS_pending, OS_failed, OS_in_progress} \<and>
            ob_intent_type i = OI_report) rows
      in \<lparr>oh_pending = count_status OS_pending rows, oh_failed = count_status OS_failed rows,
          oh_in_progress = count_status OS_in_progress rows,
          oh_outstanding_reports = length reports,
          oh_oldest_report =
            foldl min_opt None (List.map_filter report_timestamp reports),
          oh_invalid_report_timestamps =
            length (filter (\<lambda>i. report_timestamp i = None) reports)\<rparr>)"

definition outbox_health :: "outbox_health st" where
  "outbox_health = getM (\<lambda>s. outbox_health_of (dict_values (st_outbox s)))"

end
