(* ===== verification/Store_Handoffs.thy ===== *)
theory Store_Handoffs
  imports Store_Cases Store_Outbox
begin

section \<open>The handoff ledger of the store\<close>

text \<open>
  The LHP operations of \<open>InMemoryCaseStore\<close>: handoffs with their objectives, updates, transport
  deliveries, callbacks, the verifier's path to verified and resolved, knowledge artifacts and
  outcomes. What an operation wrote before it raises stays written.
\<close>

subsection \<open>From handoff status to case status\<close>

fun case_status_for_handoff :: "handoff_status \<Rightarrow> case_status" where
  "case_status_for_handoff HS_accepted = CS_handoff_in_progress"
| "case_status_for_handoff HS_in_progress = CS_handoff_in_progress"
| "case_status_for_handoff HS_change_planned = CS_handoff_in_progress"
| "case_status_for_handoff HS_implemented = CS_verification_pending"
| "case_status_for_handoff HS_blocked = CS_blocked"
| "case_status_for_handoff HS_failed = CS_failed"
| "case_status_for_handoff HS_needs_human = CS_needs_human"
| "case_status_for_handoff HS_verified = CS_verification_pending"
| "case_status_for_handoff HS_resolved = CS_verification_pending"
| "case_status_for_handoff HS_cancelled = CS_investigating"
| "case_status_for_handoff HS_expired = CS_investigating"
| "case_status_for_handoff HS_requested = CS_handoff_requested"

subsection \<open>Creating a handoff\<close>

definition existing_handoff_locked :: "case_handoff \<Rightarrow> case_handoff option st" where
  "existing_handoff_locked h =
     bindM (getM (\<lambda>s. idx_get (st_handoff_keys s) (ho_idempotency_key h))) (\<lambda>existing_id.
     case existing_id of
       Some hid \<Rightarrow> bindM (item_of st_handoffs hid) (\<lambda>x. retM (Some x))
     | None \<Rightarrow> bindM (getM (\<lambda>s. idx_get (st_active_handoffs s) (handoff_key h))) (\<lambda>active_id.
         case active_id of
           Some hid \<Rightarrow> bindM (item_of st_handoffs hid) (\<lambda>x. retM (Some x))
         | None \<Rightarrow> retM None))"

definition upsert_objective_locked :: "verification_objective \<Rightarrow> verification_objective st" where
  "upsert_objective_locked v =
     bindM (getM (\<lambda>s. idx_get (st_objective_index s) (vo_case_id v, vo_objective_key v)))
       (\<lambda>existing_id.
          let stored = (case existing_id of None \<Rightarrow> v | Some i \<Rightarrow> v\<lparr>vo_objective_id := i\<rparr>)
          in seqM (put_objective stored) (retM stored))"

definition objectives_for_handoff :: "store \<Rightarrow> string \<Rightarrow> verification_objective list" where
  "objectives_for_handoff s hid =
     py_sort False (\<lambda>v. (vo_created_at v, vo_objective_id v))
       (filter (\<lambda>v. vo_handoff_id v = hid) (dict_values (st_objectives s)))"

text \<open>One objective of a new handoff: checked against it, bound to it and stored.\<close>

definition store_handoff_objective ::
  "case_handoff \<Rightarrow> verification_objective \<Rightarrow> verification_objective st" where
  "store_handoff_objective h v =
     (if vo_case_id v \<noteq> ho_case_id h
      then raiseM (ValueError ''verification objective case_id must match handoff case_id'')
      else if vo_handoff_id v \<noteq> [] \<and> vo_handoff_id v \<noteq> ho_handoff_id h
      then raiseM (ValueError ''verification objective handoff_id must match handoff_id'')
      else upsert_objective_locked
        (if vo_handoff_id v = [] then v\<lparr>vo_handoff_id := ho_handoff_id h\<rparr> else v))"

definition put_new_handoff :: "case_handoff \<Rightarrow> unit st" where
  "put_new_handoff h = seqM (put_handoff h)
     (modM (\<lambda>s. s\<lparr>st_handoff_keys :=
        dict_set (ho_idempotency_key h) (ho_handoff_id h) (st_handoff_keys s)\<rparr>))"

text \<open>The part of \<open>create_handoff_with_objectives\<close> after the handoff itself is stored.\<close>

definition finish_create ::
  "case_handoff \<Rightarrow> atomic_case \<Rightarrow> verification_objective list \<Rightarrow> case_status option
    \<Rightarrow> case_event option \<Rightarrow> outbox_intent option \<Rightarrow> handoff_create_result st" where
  "finish_create h c objectives case_status event outbox_intent =
     bindM (mapM (store_handoff_objective h) objectives) (\<lambda>stored_objectives.
     let t = or_str (ho_updated_at h) (ho_created_at h);
         updated_case = c\<lparr>
           ac_status := (case case_status of None \<Rightarrow> ac_status c | Some w \<Rightarrow> w),
           ac_handoff_status := handoff_status_str (ho_status h),
           ac_last_handoff_at := t, ac_updated_at := t\<rparr>
     in
       seqM (put_atomic updated_case)
       (bindM (store_event_opt event) (\<lambda>stored_event.
        bindM (enqueue_outbox_opt outbox_intent) (\<lambda>stored_outbox.
          retM \<lparr>hc_handoff = h, hc_objectives = stored_objectives,
            hc_case = updated_case, hc_event = stored_event,
            hc_outbox_intent = stored_outbox, hc_created = True\<rparr>))))"

definition create_handoff_with_objectives ::
  "case_handoff \<Rightarrow> verification_objective list \<Rightarrow> case_status option \<Rightarrow> case_event option
    \<Rightarrow> outbox_intent option \<Rightarrow> handoff_create_result st" where
  "create_handoff_with_objectives h objectives case_status event outbox_intent =
     (if MAX_VERIFICATION_OBJECTIVES_PER_HANDOFF < length objectives
      then raiseM (ValueError (''handoff cannot define more than '' @
        nat_str MAX_VERIFICATION_OBJECTIVES_PER_HANDOFF @ '' verification objectives''))
      else
        bindM (require_atomic_case_locked (ho_case_id h)) (\<lambda>c.
        bindM (existing_handoff_locked h) (\<lambda>existing_handoff.
        case existing_handoff of
          Some x \<Rightarrow> getM (\<lambda>s. \<lparr>hc_handoff = x,
            hc_objectives = objectives_for_handoff s (ho_handoff_id x), hc_case = c,
            hc_event = None, hc_outbox_intent = None, hc_created = False\<rparr>)
        | None \<Rightarrow>
            seqM (put_new_handoff h)
              (finish_create h c objectives case_status event outbox_intent))))"

definition get_handoff :: "string \<Rightarrow> case_handoff option st" where
  "get_handoff hid = getM (\<lambda>s. dict_get (st_handoffs s) hid)"

definition handoff_matches :: "string option \<Rightarrow> string option \<Rightarrow> case_handoff \<Rightarrow> bool" where
  "handoff_matches cid status h \<longleftrightarrow>
     matches cid (ho_case_id h) \<and> matches status (handoff_status_str (ho_status h))"

definition list_handoffs ::
  "string option \<Rightarrow> string option \<Rightarrow> int option \<Rightarrow> case_handoff list st" where
  "list_handoffs cid status limit = getM (\<lambda>s.
     list_rows (handoff_matches cid status) ho_updated_at True limit (dict_values (st_handoffs s)))"

definition count_handoffs :: "string option \<Rightarrow> string option \<Rightarrow> nat st" where
  "count_handoffs cid status = getM (\<lambda>s.
     length (filter (handoff_matches cid status) (dict_values (st_handoffs s))))"

subsection \<open>Transport deliveries\<close>

definition record_handoff_delivery :: "transport_delivery \<Rightarrow> transport_delivery st" where
  "record_handoff_delivery d =
     seqM (require_handoff_locked (td_handoff_id d))
     (bindM (getM (\<lambda>s. idx_get (st_delivery_index s) (td_idempotency_key d))) (\<lambda>existing_id.
      case existing_id of
        Some did \<Rightarrow> item_of st_deliveries did
      | None \<Rightarrow> seqM (put_delivery d) (retM d)))"

definition update_handoff_delivery :: "transport_delivery \<Rightarrow> transport_delivery st" where
  "update_handoff_delivery d =
     bindM (getM (\<lambda>s. dict_get (st_deliveries s) (td_delivery_id d))) (\<lambda>current.
     if current = None
     then raiseM (KeyError (''handoff delivery not found: '' @ td_delivery_id d))
     else seqM (put_delivery d) (retM d))"

subsection \<open>Updates\<close>

definition surviving_handoff :: "store \<Rightarrow> case_handoff \<Rightarrow> case_handoff option" where
  "surviving_handoff s h =
     max_by (\<lambda>x. (ho_updated_at x, ho_created_at x, ho_handoff_id x))
       (filter (\<lambda>x. ho_case_id x = ho_case_id h \<and> ho_handoff_id x \<noteq> ho_handoff_id h \<and>
           \<not> terminal_handoff_status (ho_status x))
         (dict_values (st_handoffs s)))"

text \<open>What a status change of one handoff does to its case.\<close>

definition case_after_update ::
  "atomic_case \<Rightarrow> case_handoff \<Rightarrow> case_handoff option \<Rightarrow> case_status option \<Rightarrow> string option
    \<Rightarrow> string \<Rightarrow> atomic_case" where
  "case_after_update c h surviving case_status shown_status now =
     (let status =
        (if terminal_handoff_status (ho_status h) then
           (if terminal_case_status (ac_status c) then ac_status c
            else case surviving of
                None \<Rightarrow> CS_investigating
              | Some x \<Rightarrow> case_status_for_handoff (ho_status x))
         else (case case_status of None \<Rightarrow> ac_status c | Some w \<Rightarrow> w));
        shown =
        (if terminal_handoff_status (ho_status h) then
           (case surviving of
              None \<Rightarrow> handoff_status_str (ho_status h)
            | Some x \<Rightarrow> handoff_status_str (ho_status x))
         else if opt_truthy shown_status then the shown_status
         else handoff_status_str (ho_status h))
      in c\<lparr>ac_status := status, ac_handoff_status := shown, ac_last_handoff_at := now,
           ac_updated_at := now\<rparr>)"

definition put_update :: "handoff_update \<Rightarrow> unit st" where
  "put_update u = modM (\<lambda>s. s\<lparr>
     st_handoff_updates := dict_set (hu_update_id u) u (st_handoff_updates s),
     st_update_index :=
       dict_set (hu_source_loop u, hu_external_event_id u) (hu_update_id u) (st_update_index s)\<rparr>)"

definition finish_update ::
  "handoff_update \<Rightarrow> case_handoff \<Rightarrow> atomic_case \<Rightarrow> case_status option \<Rightarrow> string option
    \<Rightarrow> case_event option \<Rightarrow> handoff_update_result st" where
  "finish_update u updated c case_status shown_status event =
     bindM (getM (\<lambda>s. case_after_update c updated (surviving_handoff s updated)
         case_status shown_status (hu_created_at u))) (\<lambda>updated_case.
     seqM (put_atomic updated_case)
     (bindM (store_event_opt event) (\<lambda>stored_event.
       retM \<lparr>hr_update = u, hr_handoff = updated, hr_case = updated_case,
         hr_event = stored_event, hr_created = True\<rparr>)))"

text \<open>Move the stored handoff: the active index drops its old key and follows its new status.\<close>

definition move_handoff :: "case_handoff \<Rightarrow> case_handoff \<Rightarrow> unit st" where
  "move_handoff old updated = seqM (drop_active_handoff old) (put_handoff updated)"

definition append_handoff_update ::
  "handoff_update \<Rightarrow> handoff_status option \<Rightarrow> case_status option \<Rightarrow> string option
    \<Rightarrow> case_event option \<Rightarrow> handoff_update_result st" where
  "append_handoff_update u handoff_status case_status shown_status event =
     bindM (getM (\<lambda>s. idx_get (st_update_index s) (hu_source_loop u, hu_external_event_id u)))
     (\<lambda>existing_id. case existing_id of
        Some uid \<Rightarrow>
          bindM (item_of st_handoff_updates uid) (\<lambda>existing_update.
          bindM (require_handoff_locked (hu_handoff_id existing_update)) (\<lambda>h.
          bindM (require_atomic_case_locked (ho_case_id h)) (\<lambda>c.
            retM \<lparr>hr_update = existing_update, hr_handoff = h, hr_case = c, hr_event = None,
              hr_created = False\<rparr>)))
      | None \<Rightarrow>
          bindM (require_handoff_locked (hu_handoff_id u)) (\<lambda>h.
          bindM (require_atomic_case_locked (ho_case_id h)) (\<lambda>c.
          let target = (case handoff_status of Some w \<Rightarrow> w | None \<Rightarrow> hu_status u);
              updated = h\<lparr>ho_status := target, ho_updated_at := hu_created_at u\<rparr>
          in
            seqM (raise_if (verifier_only_status target)
              (ValueError ''verified/resolved require the dedicated NOC verifier path''))
            (seqM (require_handoff_transition (ho_status h) target (hu_source_loop u))
            (seqM (put_update u)
            (seqM (move_handoff h updated)
              (finish_update u updated c case_status shown_status event)))))))"

definition claim_callback_event :: "callback_record \<Rightarrow> (callback_record \<times> bool) st" where
  "claim_callback_event cb =
     bindM (getM (\<lambda>s. idx_get (st_callback_index s) (cb_source_loop cb, cb_external_event_id cb)))
     (\<lambda>existing_id. case existing_id of
        Some i \<Rightarrow> bindM (item_of st_callbacks i) (\<lambda>x. retM (x, False))
      | None \<Rightarrow>
          seqM (modM (\<lambda>s. s\<lparr>
              st_callbacks := dict_set (cb_callback_id cb) cb (st_callbacks s),
              st_callback_index := dict_set (cb_source_loop cb, cb_external_event_id cb)
                (cb_callback_id cb) (st_callback_index s)\<rparr>))
            (retM (cb, True)))"

subsection \<open>Verification objectives\<close>

definition upsert_verification_objective ::
  "verification_objective \<Rightarrow> case_event option \<Rightarrow> verification_objective st" where
  "upsert_verification_objective v event =
     seqM (require_atomic_case_locked (vo_case_id v))
     (bindM (upsert_objective_locked v) (\<lambda>stored.
      seqM (store_event_opt event) (retM stored)))"

definition update_verification_objective_result ::
  "verification_objective \<Rightarrow> case_event option \<Rightarrow> verification_objective st" where
  "update_verification_objective_result v event =
     bindM (getM (\<lambda>s. dict_get (st_objectives s) (vo_objective_id v))) (\<lambda>current.
     if current = None
     then raiseM (KeyError (''verification objective not found: '' @ vo_objective_id v))
     else seqM (put_objective v) (seqM (store_event_opt event) (retM v)))"

definition objective_due :: "store \<Rightarrow> string \<Rightarrow> verification_objective \<Rightarrow> bool" where
  "objective_due s now v \<longleftrightarrow>
     vo_status v \<notin> {VS_pass, VS_skipped} \<and>
     (vo_next_check_at v = [] \<or> vo_next_check_at v \<le> now) \<and>
     (vo_handoff_id v = [] \<or>
      (case dict_get (st_handoffs s) (vo_handoff_id v) of
         None \<Rightarrow> True | Some h \<Rightarrow> \<not> terminal_handoff_status (ho_status h)))"

definition list_due_verification_objectives ::
  "string \<Rightarrow> int \<Rightarrow> verification_objective list st" where
  "list_due_verification_objectives now limit = getM (\<lambda>s.
     slice_to (bounded_limit limit)
       (py_sort False (\<lambda>v. (vo_next_check_at v, vo_created_at v, vo_objective_id v))
         (filter (objective_due s now) (dict_values (st_objectives s)))))"

definition list_verification_objectives ::
  "string option \<Rightarrow> int option \<Rightarrow> bool \<Rightarrow> verification_objective list st" where
  "list_verification_objectives cid limit newest_first = getM (\<lambda>s.
     list_rows (\<lambda>v. matches cid (vo_case_id v))
       (\<lambda>v. (vo_updated_at v, vo_created_at v, vo_objective_id v)) newest_first limit
       (dict_values (st_objectives s)))"

definition count_verification_objectives :: "string option \<Rightarrow> nat st" where
  "count_verification_objectives cid = getM (\<lambda>s.
     length (filter (\<lambda>v. matches cid (vo_case_id v)) (dict_values (st_objectives s))))"

subsection \<open>The verifier's path\<close>

definition finish_verified :: "case_handoff \<Rightarrow> string \<Rightarrow> case_event option \<Rightarrow> case_handoff st" where
  "finish_verified stored now event =
     bindM (require_atomic_case_locked (ho_case_id stored)) (\<lambda>c.
     seqM (put_atomic (c\<lparr>ac_status := CS_verification_pending,
         ac_handoff_status := handoff_status_str (ho_status stored),
         ac_last_handoff_at := now, ac_updated_at := now\<rparr>))
     (seqM (store_event_opt event) (retM stored)))"

definition mark_handoff_verified :: "string \<Rightarrow> string \<Rightarrow> case_event option \<Rightarrow> case_handoff st" where
  "mark_handoff_verified hid now event =
     bindM (require_handoff_locked hid) (\<lambda>h.
     seqM (require_handoff_transition (ho_status h) HS_verified Loop_noc)
     (let stored = h\<lparr>ho_status := HS_verified, ho_updated_at := now\<rparr> in
      seqM (move_handoff h stored) (finish_verified stored now event)))"

definition resolve_handoff :: "string \<Rightarrow> string \<Rightarrow> unit st" where
  "resolve_handoff hid now =
     bindM (require_handoff_locked hid) (\<lambda>h.
     seqM (require_handoff_transition (ho_status h) HS_resolved Loop_noc)
       (move_handoff h (h\<lparr>ho_status := HS_resolved, ho_updated_at := now\<rparr>)))"

definition finish_resolution ::
  "atomic_case \<Rightarrow> outcome_record \<Rightarrow> string \<Rightarrow> case_event option \<Rightarrow> atomic_case st" where
  "finish_resolution c outcome now event =
     seqM (modM (\<lambda>s. s\<lparr>st_outcomes := dict_set (oc_outcome_id outcome) outcome (st_outcomes s)\<rparr>))
     (let updated_case = c\<lparr>ac_status := CS_resolved, ac_resolved_at := Some now,
        ac_resolution_reason := ''lhp_outcome_verified'', ac_updated_at := now\<rparr>
      in seqM (put_atomic updated_case) (seqM (store_event_opt event) (retM updated_case)))"

definition resolve_case_with_outcome ::
  "string \<Rightarrow> string \<Rightarrow> outcome_record \<Rightarrow> string \<Rightarrow> case_event option \<Rightarrow> atomic_case st" where
  "resolve_case_with_outcome cid hid outcome now event =
     bindM (require_atomic_case_locked cid) (\<lambda>c.
     seqM (raise_if (oc_work_item_id outcome \<noteq> ac_case_id c)
       (ValueError ''outcome work_item_id must match case_id''))
     (seqM (if hid = [] then retM () else resolve_handoff hid now)
       (finish_resolution c outcome now event)))"

subsection \<open>Knowledge artifacts and outcomes\<close>

definition record_knowledge_artifact ::
  "knowledge_artifact \<Rightarrow> case_event option \<Rightarrow> knowledge_artifact st" where
  "record_knowledge_artifact k event =
     seqM (require_atomic_case_locked (ka_case_id k))
     (bindM (getM (\<lambda>s. idx_get (st_artifact_index s) (ka_case_id k, ka_artifact_type k, ka_version k)))
      (\<lambda>existing_id. case existing_id of
         Some i \<Rightarrow> item_of st_artifacts i
       | None \<Rightarrow> seqM (put_artifact k) (seqM (store_event_opt event) (retM k))))"

definition update_knowledge_artifact ::
  "knowledge_artifact \<Rightarrow> case_event option \<Rightarrow> knowledge_artifact st" where
  "update_knowledge_artifact k event =
     bindM (getM (\<lambda>s. dict_get (st_artifacts s) (ka_artifact_id k))) (\<lambda>current.
     if current = None
     then raiseM (KeyError (''knowledge artifact not found: '' @ ka_artifact_id k))
     else seqM (require_atomic_case_locked (ka_case_id k))
       (seqM (put_artifact k) (seqM (store_event_opt event) (retM k))))"

definition list_knowledge_artifacts ::
  "string option \<Rightarrow> int option \<Rightarrow> bool \<Rightarrow> knowledge_artifact list st" where
  "list_knowledge_artifacts cid limit newest_first = getM (\<lambda>s.
     list_rows (\<lambda>k. matches cid (ka_case_id k)) (\<lambda>k. (ka_created_at k, ka_artifact_id k))
       newest_first limit (dict_values (st_artifacts s)))"

definition count_knowledge_artifacts :: "string option \<Rightarrow> nat st" where
  "count_knowledge_artifacts cid = getM (\<lambda>s.
     length (filter (\<lambda>k. matches cid (ka_case_id k)) (dict_values (st_artifacts s))))"

definition record_outcome :: "outcome_record \<Rightarrow> case_event option \<Rightarrow> outcome_record st" where
  "record_outcome outcome event =
     seqM (require_atomic_case_locked (oc_work_item_id outcome))
     (bindM (getM (\<lambda>s. dict_get (st_outcomes s) (oc_outcome_id outcome))) (\<lambda>existing.
      case existing of
        Some x \<Rightarrow> retM x
      | None \<Rightarrow>
          seqM (modM (\<lambda>s. s\<lparr>st_outcomes := dict_set (oc_outcome_id outcome) outcome (st_outcomes s)\<rparr>))
          (seqM (store_event_opt event) (retM outcome))))"

definition list_outcomes :: "string option \<Rightarrow> int option \<Rightarrow> bool \<Rightarrow> outcome_record list st" where
  "list_outcomes cid limit newest_first = getM (\<lambda>s.
     list_rows (\<lambda>x. matches cid (oc_work_item_id x)) (\<lambda>x. (oc_created_at x, oc_outcome_id x))
       newest_first limit (dict_values (st_outcomes s)))"

definition count_outcomes :: "string option \<Rightarrow> nat st" where
  "count_outcomes cid = getM (\<lambda>s.
     length (filter (\<lambda>x. matches cid (oc_work_item_id x)) (dict_values (st_outcomes s))))"

end
