(* ===== verification/Store_Invariant.thy ===== *)
theory Store_Invariant
  imports Store_Handoffs
begin

section \<open>The invariants of the store\<close>

text \<open>
  \<open>store_ok\<close> is what every operation keeps, for every argument: each dictionary holds every object
  once, under the object's own identifier; no index names an object that is not there; and the event
  log of a case holds exactly the stored events that name it. \<open>store_extends\<close> is what never gets
  lost: stored observations, events, feedback and traces stay as they are, logs only grow at
  their end, and no case, handoff, intent or alias disappears.
\<close>

subsection \<open>Tables and indices\<close>

definition keyed :: "('v \<Rightarrow> string) \<Rightarrow> (string, 'v) dict \<Rightarrow> bool" where
  "keyed ident d \<longleftrightarrow> distinct (dict_keys d) \<and> (\<forall>k v. dict_get d k = Some v \<longrightarrow> ident v = k)"

definition indexed :: "('k, string) dict \<Rightarrow> (string, 'v) dict \<Rightarrow> bool" where
  "indexed idx d \<longleftrightarrow> (\<forall>k i. dict_get idx k = Some i \<longrightarrow> dict_get d i \<noteq> None)"

lemma keyed_Nil [simp]: "keyed ident []"
  by (simp add: keyed_def)

lemma indexed_Nil [simp]: "indexed [] d"
  by (simp add: indexed_def)

lemma keyed_set [simp]: "keyed ident d \<Longrightarrow> ident v = k \<Longrightarrow> keyed ident (dict_set k v d)"
  by (auto simp: keyed_def distinct_dict_set)

lemma keyed_get: "keyed ident d \<Longrightarrow> dict_get d k = Some v \<Longrightarrow> ident v = k"
  by (simp add: keyed_def)

lemma indexed_set_table [simp]: "indexed idx d \<Longrightarrow> indexed idx (dict_set k v d)"
  by (simp add: indexed_def)

lemma indexed_set_both [simp]: "indexed idx d \<Longrightarrow> indexed (dict_set x k idx) (dict_set k v d)"
  by (auto simp: indexed_def)

lemma indexed_pop [simp]: "indexed idx d \<Longrightarrow> indexed (dict_pop x idx) d"
  by (auto simp: indexed_def split: if_splits)

lemma indexed_get: "indexed idx d \<Longrightarrow> dict_get idx k = Some i \<Longrightarrow> \<exists>v. dict_get d i = Some v"
  by (auto simp: indexed_def)

lemma idx_get_Some: "idx_get d k = Some i \<Longrightarrow> dict_get d k = Some i \<and> i \<noteq> []"
  by (auto simp: idx_get_def split: option.splits if_splits)

subsection \<open>The event log\<close>

definition logged :: "store \<Rightarrow> string \<Rightarrow> string list" where
  "logged s t = (case dict_get (st_case_events s) t of None \<Rightarrow> [] | Some ids \<Rightarrow> ids)"

definition names_target :: "case_event \<Rightarrow> string \<Rightarrow> bool" where
  "names_target e t \<longleftrightarrow> t \<noteq> [] \<and> (ev_case_id e = Some t \<or> ev_meta_case_id e = Some t)"

definition log_ok :: "store \<Rightarrow> bool" where
  "log_ok s \<longleftrightarrow> (\<forall>t i. i \<in> set (logged s t) \<longleftrightarrow>
     (\<exists>e. dict_get (st_events s) i = Some e \<and> names_target e t))"

lemma index_event_get:
  "dict_get (index_event target i d) t =
     (if t \<noteq> [] \<and> target = Some t
      then Some ((case dict_get d t of None \<Rightarrow> [] | Some ids \<Rightarrow> ids) @ [i]) else dict_get d t)"
  by (auto simp: index_event_def split: option.splits)

lemma logged_write_event:
  "logged (write_event e s) t = logged s t @
     (if t \<noteq> [] \<and> ev_case_id e = Some t then [ev_event_id e] else []) @
     (if t \<noteq> [] \<and> ev_meta_case_id e = Some t then [ev_event_id e] else [])"
  by (auto simp: logged_def write_event_def index_event_get split: option.splits)

lemma log_ok_write_event:
  assumes "log_ok s" and "dict_get (st_events s) (ev_event_id e) = None"
  shows "log_ok (write_event e s)"
proof -
  have "st_events (write_event e s) = dict_set (ev_event_id e) e (st_events s)"
    by (simp add: write_event_def)
  then show ?thesis
    using assms by (auto simp: log_ok_def logged_write_event names_target_def)
qed

lemma log_ok_cong:
  "st_events s = st_events t \<Longrightarrow> st_case_events s = st_case_events t \<Longrightarrow> log_ok s = log_ok t"
  by (simp add: log_ok_def logged_def)

subsection \<open>The invariant\<close>

definition tables_ok :: "store \<Rightarrow> bool" where
  "tables_ok s \<longleftrightarrow>
     keyed obs_observation_id (st_observations s) \<and> keyed proj_case_id (st_cases s) \<and>
     keyed ev_event_id (st_events s) \<and> keyed al_alias_id (st_aliases s) \<and>
     keyed ob_outbox_id (st_outbox s) \<and> keyed ad_case_id (st_attention s) \<and>
     keyed ho_handoff_id (st_handoffs s) \<and> keyed hu_update_id (st_handoff_updates s) \<and>
     keyed vo_objective_id (st_objectives s) \<and> keyed ka_artifact_id (st_artifacts s) \<and>
     keyed oc_outcome_id (st_outcomes s) \<and> keyed cb_callback_id (st_callbacks s) \<and>
     keyed td_delivery_id (st_deliveries s) \<and> keyed fb_feedback_id (st_feedback s) \<and>
     keyed tr_trace_id (st_traces s)"

definition indices_ok :: "store \<Rightarrow> bool" where
  "indices_ok s \<longleftrightarrow>
     indexed (st_alias_index s) (st_aliases s) \<and> indexed (st_outbox_index s) (st_outbox s) \<and>
     indexed (st_handoff_keys s) (st_handoffs s) \<and> indexed (st_active_handoffs s) (st_handoffs s) \<and>
     indexed (st_update_index s) (st_handoff_updates s) \<and>
     indexed (st_objective_index s) (st_objectives s) \<and>
     indexed (st_artifact_index s) (st_artifacts s) \<and>
     indexed (st_callback_index s) (st_callbacks s) \<and>
     indexed (st_delivery_index s) (st_deliveries s)"

definition store_ok :: "store \<Rightarrow> bool" where
  "store_ok s \<longleftrightarrow> tables_ok s \<and> indices_ok s \<and> log_ok s"

lemma store_ok_empty: "store_ok (empty_store ids instants)"
  by (simp add: store_ok_def tables_ok_def indices_ok_def log_ok_def logged_def empty_store_def)

lemma store_ok_keyed:
  assumes "store_ok s"
  shows "keyed proj_case_id (st_cases s)" "keyed ob_outbox_id (st_outbox s)"
    "keyed ho_handoff_id (st_handoffs s)" "keyed al_alias_id (st_aliases s)"
    "keyed ev_event_id (st_events s)" "keyed vo_objective_id (st_objectives s)"
    "keyed ka_artifact_id (st_artifacts s)" "keyed hu_update_id (st_handoff_updates s)"
    "keyed ad_case_id (st_attention s)"
  using assms by (simp_all add: store_ok_def tables_ok_def)

lemma atomic_by_id_key: "store_ok s \<Longrightarrow> atomic_by_id s k = Some c \<Longrightarrow> ac_case_id c = k"
  using keyed_get [OF store_ok_keyed(1), of s k "Atomic c"]
  by (simp add: atomic_by_id_def case_by_id_def as_atomic_Some proj_case_id_def)

lemma handoff_key_id: "store_ok s \<Longrightarrow> dict_get (st_handoffs s) k = Some h \<Longrightarrow> ho_handoff_id h = k"
  by (rule keyed_get [OF store_ok_keyed(3)])

subsection \<open>What is never lost\<close>

definition same_records :: "('k, 'v) dict \<Rightarrow> ('k, 'v) dict \<Rightarrow> bool" where
  "same_records d e \<longleftrightarrow> dict_get d \<subseteq>\<^sub>m dict_get e"

definition same_ids :: "('k, 'v) dict \<Rightarrow> ('k, 'v) dict \<Rightarrow> bool" where
  "same_ids d e \<longleftrightarrow> dom (dict_get d) \<subseteq> dom (dict_get e)"

definition store_extends :: "store \<Rightarrow> store \<Rightarrow> bool" where
  "store_extends s t \<longleftrightarrow>
     same_records (st_observations s) (st_observations t) \<and>
     same_records (st_events s) (st_events t) \<and> same_records (st_feedback s) (st_feedback t) \<and>
     same_records (st_traces s) (st_traces t) \<and>
     same_ids (st_cases s) (st_cases t) \<and> same_ids (st_aliases s) (st_aliases t) \<and>
     same_ids (st_outbox s) (st_outbox t) \<and> same_ids (st_handoffs s) (st_handoffs t) \<and>
     same_ids (st_objectives s) (st_objectives t) \<and> same_ids (st_outbox_index s) (st_outbox_index t) \<and>
     (\<forall>x. \<exists>more. logged t x = logged s x @ more) \<and>
     uuid_hex t = uuid_hex s \<and> clock t = clock s \<and> uuids_drawn s \<le> uuids_drawn t \<and>
     ticks s \<le> ticks t"

lemma same_records_simps [simp]:
  "same_records d d" "dict_get d k = None \<Longrightarrow> same_records d (dict_set k v d)"
  by (auto simp: same_records_def map_le_def)

lemma same_ids_simps [simp]: "same_ids d d" "same_ids d (dict_set k v d)"
  by (auto simp: same_ids_def)

lemma same_records_trans: "same_records d e \<Longrightarrow> same_records e f \<Longrightarrow> same_records d f"
  unfolding same_records_def by (rule map_le_trans)

lemma same_ids_trans: "same_ids d e \<Longrightarrow> same_ids e f \<Longrightarrow> same_ids d f"
  unfolding same_ids_def by (rule subset_trans)

lemma store_extends_refl [simp]: "store_extends s s"
  by (simp add: store_extends_def)

lemma store_extends_trans:
  assumes "store_extends s t" and "store_extends t u" shows "store_extends s u"
proof -
  have "\<exists>more. logged u x = logged s x @ more" for x
  proof -
    from assms obtain m n where "logged t x = logged s x @ m" "logged u x = logged t x @ n"
      unfolding store_extends_def by blast
    then show ?thesis by simp
  qed
  then show ?thesis
    using assms unfolding store_extends_def
    by (simp, intro conjI) (blast intro: same_records_trans same_ids_trans)+
qed

text \<open>A computation that extends every state, as a preserved predicate.\<close>

definition grows :: "'a st \<Rightarrow> bool" where
  "grows m \<longleftrightarrow> (\<forall>s. store_extends s (snd (m s)))"

lemma growsD: "grows m \<Longrightarrow> m s = (r, t) \<Longrightarrow> store_extends s t"
  unfolding grows_def by (metis snd_conv)

lemma keeps_from_grows: "grows m \<Longrightarrow> keeps (store_extends s0) m"
  unfolding grows_def keeps_def by (blast intro: store_extends_trans)

lemma grows_from_keeps: "(\<And>s0. keeps (store_extends s0) m) \<Longrightarrow> grows m"
  unfolding grows_def keeps_def by simp

subsection \<open>Every primitive write keeps the invariant\<close>

lemma modM_keeps: "(\<And>s. P s \<Longrightarrow> P (f s)) \<Longrightarrow> keeps P (modM f)"
  by (simp add: keeps_def)

text \<open>Drawing an identifier or a time touches no table.\<close>

lemma store_ok_draws:
  "store_ok (s\<lparr>uuids_drawn := n\<rparr>) = store_ok s" "store_ok (s\<lparr>ticks := n\<rparr>) = store_ok s"
  by (simp_all add: store_ok_def tables_ok_def indices_ok_def log_ok_def logged_def)

lemma ok_uuid [keeps_intros]: "keeps store_ok uuid4_hex"
  by (simp add: keeps_def uuid4_hex_def store_ok_draws)

lemma ok_now [keeps_intros]: "keeps store_ok dt_now"
  by (simp add: keeps_def dt_now_def store_ok_draws)

lemma ok_put_case [keeps_intros]: "keeps store_ok (put_case p)"
  unfolding put_case_def
  by (rule modM_keeps) (simp add: store_ok_def tables_ok_def indices_ok_def log_ok_def logged_def)

lemma ok_put_atomic [keeps_intros]: "keeps store_ok (put_atomic c)"
  unfolding put_atomic_def by (rule ok_put_case)

lemma ok_put_alias [keeps_intros]: "keeps store_ok (put_alias a)"
  unfolding put_alias_def
  by (rule modM_keeps) (simp add: store_ok_def tables_ok_def indices_ok_def log_ok_def logged_def)

lemma ok_put_active_alias [keeps_intros]: "keeps store_ok (put_active_alias a)"
  unfolding put_active_alias_def
  by (rule modM_keeps) (simp add: store_ok_def tables_ok_def indices_ok_def log_ok_def logged_def)

lemma ok_put_intent [keeps_intros]: "keeps store_ok (put_intent i)"
  unfolding put_intent_def
  by (rule modM_keeps) (simp add: store_ok_def tables_ok_def indices_ok_def log_ok_def logged_def)

lemma ok_put_handoff [keeps_intros]: "keeps store_ok (put_handoff h)"
  unfolding put_handoff_def
  by (rule modM_keeps) (simp add: store_ok_def tables_ok_def indices_ok_def log_ok_def logged_def)

lemma ok_put_new_handoff [keeps_intros]: "keeps store_ok (put_new_handoff h)"
  unfolding put_new_handoff_def put_handoff_def
  by (rule keepsI) (simp add: seqM_app store_ok_def tables_ok_def indices_ok_def log_ok_def logged_def)

lemma ok_drop_active_handoff [keeps_intros]: "keeps store_ok (drop_active_handoff h)"
  unfolding drop_active_handoff_def
  by (rule modM_keeps) (simp add: store_ok_def tables_ok_def indices_ok_def log_ok_def logged_def)

lemma ok_put_objective [keeps_intros]: "keeps store_ok (put_objective v)"
  unfolding put_objective_def
  by (rule modM_keeps) (simp add: store_ok_def tables_ok_def indices_ok_def log_ok_def logged_def)

lemma ok_put_artifact [keeps_intros]: "keeps store_ok (put_artifact k)"
  unfolding put_artifact_def
  by (rule modM_keeps) (simp add: store_ok_def tables_ok_def indices_ok_def log_ok_def logged_def)

lemma ok_put_delivery [keeps_intros]: "keeps store_ok (put_delivery d)"
  unfolding put_delivery_def
  by (rule modM_keeps) (simp add: store_ok_def tables_ok_def indices_ok_def log_ok_def logged_def)

lemma ok_put_update [keeps_intros]: "keeps store_ok (put_update u)"
  unfolding put_update_def
  by (rule modM_keeps) (simp add: store_ok_def tables_ok_def indices_ok_def log_ok_def logged_def)

lemma store_ok_write_event:
  assumes "store_ok s" and "dict_get (st_events s) (ev_event_id e) = None"
  shows "store_ok (write_event e s)"
proof -
  have "tables_ok (write_event e s)" "indices_ok (write_event e s)"
    using assms(1)
    by (simp_all add: store_ok_def tables_ok_def indices_ok_def write_event_def)
  then show ?thesis
    using assms log_ok_write_event by (simp add: store_ok_def)
qed

lemma ok_store_event [keeps_intros]: "keeps store_ok (store_event_locked e)"
  by (rule keepsI)
    (simp add: store_event_locked_def bindM_app seqM_app store_ok_write_event split: option.split)

lemma ok_store_event_opt [keeps_intros]: "keeps store_ok (store_event_opt e)"
  unfolding store_event_opt_def by (intro keeps_intros)

lemma ok_item_of [keeps_intros]: "keeps P (item_of f k)"
  unfolding item_of_def by (intro keeps_intros)

lemma ok_require_case [keeps_intros]: "keeps P (require_atomic_case_locked cid)"
  unfolding require_atomic_case_locked_def by (intro keeps_intros)

lemma ok_require_handoff [keeps_intros]: "keeps P (require_handoff_locked hid)"
  unfolding require_handoff_locked_def by (intro keeps_intros)

lemma ok_require_transition [keeps_intros]: "keeps P (require_handoff_transition a b l)"
  unfolding require_handoff_transition_def by (intro keeps_intros)

lemma ok_given_or [keeps_intros]: "keeps P m \<Longrightarrow> keeps P (given_or v m)"
  by (cases v) (simp_all add: keeps_ret)

lemma ok_utc_now [keeps_intros]: "keeps store_ok utc_now"
  unfolding utc_now_def by (intro keeps_intros)

lemma ok_new_id [keeps_intros]: "keeps store_ok (new_id p)"
  unfolding new_id_def by (intro keeps_intros)

lemma ok_new_event [keeps_intros]: "keeps store_ok (new_event i t f)"
  unfolding new_event_def by (intro keeps_intros)

lemma ok_new_alias [keeps_intros]: "keeps store_ok (new_alias i c ty v src conf t)"
  unfolding new_alias_def by (intro keeps_intros)

lemma ok_new_intent [keeps_intros]: "keeps store_ok (new_intent i n c f ty)"
  unfolding new_intent_def by (intro keeps_intros)

subsection \<open>Every operation keeps the invariant\<close>

lemma store_ok_simps:
  "store_ok s \<Longrightarrow> obs_observation_id ob = k \<Longrightarrow>
     store_ok (s\<lparr>st_observations := dict_set k ob (st_observations s)\<rparr>)"
  "store_ok s \<Longrightarrow> store_ok (s\<lparr>st_ack_scopes := x\<rparr>)"
  "store_ok s \<Longrightarrow> store_ok (s\<lparr>st_attention_leases := y\<rparr>)"
  "store_ok s \<Longrightarrow> fb_feedback_id fb = k \<Longrightarrow>
     store_ok (s\<lparr>st_feedback := dict_set k fb (st_feedback s)\<rparr>)"
  "store_ok s \<Longrightarrow> tr_trace_id tr = k \<Longrightarrow>
     store_ok (s\<lparr>st_traces := dict_set k tr (st_traces s)\<rparr>)"
  "store_ok s \<Longrightarrow> oc_outcome_id oc = k \<Longrightarrow>
     store_ok (s\<lparr>st_outcomes := dict_set k oc (st_outcomes s)\<rparr>)"
  "store_ok s \<Longrightarrow> cb_callback_id cb = k \<Longrightarrow>
     store_ok (s\<lparr>st_callbacks := dict_set k cb (st_callbacks s),
       st_callback_index := dict_set x' k (st_callback_index s)\<rparr>)"
  by (simp_all add: store_ok_def tables_ok_def indices_ok_def log_ok_def logged_def)

lemma store_ok_write_attention: "store_ok s \<Longrightarrow> store_ok (write_attention d i s)"
  by (simp add: write_attention_def store_ok_def tables_ok_def indices_ok_def log_ok_def logged_def)

lemma store_ok_retire:
  "store_ok s \<Longrightarrow> store_ok (s\<lparr>st_alias_index := (if b then dict_pop k (st_alias_index s) else st_alias_index s),
     st_aliases := (if c then dict_set (al_alias_id a) (a\<lparr>al_retired_at := t\<rparr>) (st_aliases s)
       else st_aliases s)\<rparr>)"
  by (simp add: store_ok_def tables_ok_def indices_ok_def log_ok_def logged_def)

lemma ok_modM [keeps_intros]: "(\<And>s. P s \<longrightarrow> P (f s)) \<Longrightarrow> keeps P (modM f)"
  by (simp add: keeps_def)

lemma ok_put_observation [keeps_intros]: "keeps store_ok (put_observation ob)"
  unfolding put_observation_def
  by (intro keeps_intros) (simp_all add: store_ok_simps store_ok_write_attention)

lemma ok_existing_by_alias [keeps_intros]: "keeps P (existing_by_alias as)"
  by (induction as) (auto intro!: keeps_intros)

lemma ok_create_atomic_case [keeps_intros]: "keeps store_ok (create_atomic_case c as es)"
  unfolding create_atomic_case_def by (intro keeps_intros)

lemma ok_claim_investigation_store [keeps_intros]: "keeps store_ok (claim_investigation_store cid a b c d p n e)"
  unfolding claim_investigation_store_def by (intro keeps_intros)

lemma ok_record_acknowledgement_scope [keeps_intros]: "keeps store_ok (record_acknowledgement_scope cid t sev)"
  unfolding record_acknowledgement_scope_def
  by (intro keeps_intros) (simp_all add: store_ok_simps store_ok_write_attention)

lemma ok_upsert_case [keeps_intros]: "keeps store_ok (upsert_case p)"
  unfolding upsert_case_def by (intro keeps_intros)

lemma ok_append_event [keeps_intros]: "keeps store_ok (append_event e)"
  unfolding append_event_def by (intro keeps_intros)

lemma ok_record_alias [keeps_intros]: "keeps store_ok (record_alias a)"
  unfolding record_alias_def Let_def by (intro keeps_intros)

lemma ok_retire_alias [keeps_intros]: "keeps store_ok (retire_alias a now)"
  unfolding retire_alias_def Let_def by (rule modM_keeps) (rule store_ok_retire)

lemma ok_reassign_alias [keeps_intros]: "keeps store_ok (reassign_alias to now a moved)"
  unfolding reassign_alias_def by (intro keeps_intros)

lemma ok_reassign_aliases_locked [keeps_intros]: "keeps store_ok (reassign_aliases_locked f to now)"
  unfolding reassign_aliases_locked_def by (intro keeps_intros)

lemma ok_link_child_case [keeps_intros]: "keeps store_ok (link_child_case cid pid r refs now)"
  unfolding link_child_case_def by (intro keeps_intros)

lemma ok_record_feedback [keeps_intros]: "keeps store_ok (record_feedback f)"
  unfolding record_feedback_def
  by (intro keeps_intros) (simp_all add: store_ok_simps store_ok_write_attention)

lemma ok_record_trace_store [keeps_intros]: "keeps store_ok (record_trace_store t)"
  unfolding record_trace_store_def
  by (intro keeps_intros) (simp_all add: store_ok_simps store_ok_write_attention)

lemma ok_enqueue_outbox [keeps_intros]: "keeps store_ok (enqueue_outbox i)"
  unfolding enqueue_outbox_def by (intro keeps_intros)

lemma ok_enqueue_outbox_opt [keeps_intros]: "keeps store_ok (enqueue_outbox_opt i)"
  unfolding enqueue_outbox_opt_def by (intro keeps_intros)

lemma ok_update_outbox [keeps_intros]: "keeps store_ok (update_outbox i)"
  unfolding update_outbox_def by (intro keeps_intros)

lemma ok_update_outbox_if_status [keeps_intros]: "keeps store_ok (update_outbox_if_status i w tk)"
  unfolding update_outbox_if_status_def by (intro keeps_intros)

lemma ok_claim_attention [keeps_intros]: "keeps store_ok (claim_attention i n l)"
  unfolding claim_attention_def
  by (intro keeps_intros) (simp_all add: store_ok_simps store_ok_write_attention)

lemma ok_release_attention [keeps_intros]: "keeps store_ok (release_attention cid tk)"
  unfolding release_attention_def
  by (rule modM_keeps) (simp add: store_ok_simps split: option.split)

lemma ok_complete_attention [keeps_intros]: "keeps store_ok (complete_attention i d n c l e)"
  unfolding complete_attention_def
  by (intro keeps_intros) (simp_all add: store_ok_simps store_ok_write_attention)

lemma ok_existing_handoff_locked [keeps_intros]: "keeps store_ok (existing_handoff_locked h)"
  unfolding existing_handoff_locked_def by (intro keeps_intros)

lemma ok_upsert_objective_locked [keeps_intros]: "keeps store_ok (upsert_objective_locked v)"
  unfolding upsert_objective_locked_def by (intro keeps_intros)

lemma ok_store_handoff_objective [keeps_intros]: "keeps store_ok (store_handoff_objective h v)"
  unfolding store_handoff_objective_def by (intro keeps_intros)

lemma ok_finish_create [keeps_intros]: "keeps store_ok (finish_create h c vs w e i)"
  unfolding finish_create_def by (intro keeps_intros)

lemma ok_create_handoff_with_objectives [keeps_intros]: "keeps store_ok (create_handoff_with_objectives h vs w e i)"
  unfolding create_handoff_with_objectives_def by (intro keeps_intros)

lemma ok_record_handoff_delivery [keeps_intros]: "keeps store_ok (record_handoff_delivery d)"
  unfolding record_handoff_delivery_def by (intro keeps_intros)

lemma ok_update_handoff_delivery [keeps_intros]: "keeps store_ok (update_handoff_delivery d)"
  unfolding update_handoff_delivery_def by (intro keeps_intros)

lemma ok_move_handoff [keeps_intros]: "keeps store_ok (move_handoff h h')"
  unfolding move_handoff_def by (intro keeps_intros)

lemma ok_finish_update [keeps_intros]: "keeps store_ok (finish_update u h c w sh e)"
  unfolding finish_update_def by (intro keeps_intros)

lemma ok_append_handoff_update [keeps_intros]: "keeps store_ok (append_handoff_update u w c h e)"
  unfolding append_handoff_update_def by (intro keeps_intros)

lemma ok_claim_callback_event [keeps_intros]: "keeps store_ok (claim_callback_event cb)"
  unfolding claim_callback_event_def
  by (intro keeps_intros) (simp_all add: store_ok_simps store_ok_write_attention)

lemma ok_upsert_verification_objective [keeps_intros]: "keeps store_ok (upsert_verification_objective v e)"
  unfolding upsert_verification_objective_def by (intro keeps_intros)

lemma ok_update_verification_objective_result [keeps_intros]: "keeps store_ok (update_verification_objective_result v e)"
  unfolding update_verification_objective_result_def by (intro keeps_intros)

lemma ok_finish_verified [keeps_intros]: "keeps store_ok (finish_verified h now e)"
  unfolding finish_verified_def by (intro keeps_intros)

lemma ok_mark_handoff_verified [keeps_intros]: "keeps store_ok (mark_handoff_verified hid now e)"
  unfolding mark_handoff_verified_def by (intro keeps_intros)

lemma ok_resolve_handoff [keeps_intros]: "keeps store_ok (resolve_handoff hid now)"
  unfolding resolve_handoff_def by (intro keeps_intros)

lemma ok_finish_resolution [keeps_intros]: "keeps store_ok (finish_resolution c oc now e)"
  unfolding finish_resolution_def by (intro keeps_intros) (simp add: store_ok_simps)

lemma ok_resolve_case_with_outcome [keeps_intros]: "keeps store_ok (resolve_case_with_outcome cid hid oc now e)"
  unfolding resolve_case_with_outcome_def by (intro keeps_intros)

lemma ok_record_knowledge_artifact [keeps_intros]: "keeps store_ok (record_knowledge_artifact k e)"
  unfolding record_knowledge_artifact_def by (intro keeps_intros)

lemma ok_update_knowledge_artifact [keeps_intros]: "keeps store_ok (update_knowledge_artifact k e)"
  unfolding update_knowledge_artifact_def by (intro keeps_intros)

lemma ok_record_outcome [keeps_intros]: "keeps store_ok (record_outcome oc e)"
  unfolding record_outcome_def
  by (intro keeps_intros) (simp_all add: store_ok_simps store_ok_write_attention)

lemma ok_case_write_guard [keeps_intros]: "keeps P body \<Longrightarrow> keeps P (case_write_guard cid body)"
  unfolding case_write_guard_def by (intro keeps_intros)

text \<open>Read operations leave every state as it is.\<close>

lemma keeps_reads [keeps_intros]:
  "keeps P (get_observation oid)" "keeps P (acknowledgement_scope cid t)" "keeps P (get_case cid)"
  "keeps P (list_cases k w n)" "keeps P (list_reminder_candidates a n)"
  "keeps P (case_events cid lm b)" "keeps P (count_case_events cid)" "keeps P (resolve_alias ty v)"
  "keeps P (list_feedback x y lm b)" "keeps P (count_feedback x y)"
  "keeps P (list_traces x y lm b)" "keeps P (count_traces x y)"
  "keeps P (list_outbox st)" "keeps P (get_attention cid)" "keeps P (has_pending_attention cid)"
  "keeps P outbox_health" "keeps P (get_handoff hid)" "keeps P (list_handoffs x st' lm)"
  "keeps P (count_handoffs x st')" "keeps P (list_due_verification_objectives now n)"
  "keeps P (list_verification_objectives x lm b)" "keeps P (count_verification_objectives x)"
  "keeps P (list_knowledge_artifacts x lm b)" "keeps P (count_knowledge_artifacts x)"
  "keeps P (list_outcomes x lm b)" "keeps P (count_outcomes x)"
  by (simp_all add: keeps_get get_observation_def acknowledgement_scope_def get_case_def
      list_cases_def list_reminder_candidates_def case_events_def count_case_events_def
      resolve_alias_def list_feedback_def count_feedback_def list_traces_def count_traces_def
      list_outbox_def get_attention_def has_pending_attention_def outbox_health_def
      get_handoff_def list_handoffs_def count_handoffs_def list_due_verification_objectives_def
      list_verification_objectives_def count_verification_objectives_def
      list_knowledge_artifacts_def count_knowledge_artifacts_def list_outcomes_def
      count_outcomes_def)

lemma keeps_get_outbox_by_key [keeps_intros]: "keeps P (get_outbox_by_key k)"
  unfolding get_outbox_by_key_def by (intro keeps_intros)

end
