(* ===== verification/Store_Growth.thy ===== *)
theory Store_Growth
  imports Store_Invariant
begin

section \<open>What the store never loses\<close>

text \<open>
  Every operation extends the store: observations, events, feedback and traces are written once and
  never changed or removed, the event log of a case only grows at its end, and no case, alias, intent,
  handoff or objective disappears.
\<close>

subsection \<open>Primitive writes\<close>

lemma modM_grows: "(\<And>s. store_extends s (f s)) \<Longrightarrow> keeps (store_extends s0) (modM f)"
  unfolding keeps_def by (auto intro: store_extends_trans)

lemma same_records_new:
  "dict_get d k = None \<Longrightarrow> same_records d (dict_set k v d)"
  by simp

lemma extends_pure:
  "store_extends s (s\<lparr>uuids_drawn := Suc (uuids_drawn s)\<rparr>)"
  "store_extends s (s\<lparr>ticks := Suc (ticks s)\<rparr>)"
  "store_extends s (s\<lparr>st_ack_scopes := x\<rparr>)"
  "store_extends s (s\<lparr>st_attention_leases := y\<rparr>)"
  "store_extends s (s\<lparr>st_outcomes := z\<rparr>)"
  "store_extends s (s\<lparr>st_callbacks := u, st_callback_index := v\<rparr>)"
  "store_extends s (s\<lparr>st_handoff_updates := a, st_update_index := b\<rparr>)"
  "store_extends s (s\<lparr>st_artifacts := c, st_artifact_index := d\<rparr>)"
  "store_extends s (s\<lparr>st_deliveries := e, st_delivery_index := f\<rparr>)"
  "store_extends s (s\<lparr>st_active_handoffs := g\<rparr>)"
  "store_extends s (s\<lparr>st_handoff_keys := h\<rparr>)"
  by (simp_all add: store_extends_def logged_def)

lemma extends_write_event:
  assumes "dict_get (st_events s) (ev_event_id e) = None"
  shows "store_extends s (write_event e s)"
proof -
  have "\<exists>more. logged (write_event e s) x = logged s x @ more" for x
    by (simp add: logged_write_event)
  then show ?thesis using assms by (simp add: store_extends_def write_event_def)
qed

lemma gr_put_case [keeps_intros]: "keeps (store_extends s0) (put_case p)"
  unfolding put_case_def by (rule modM_grows) (simp add: store_extends_def logged_def Let_def)

lemma gr_put_alias [keeps_intros]: "keeps (store_extends s0) (put_alias a)"
  unfolding put_alias_def by (rule modM_grows) (simp add: store_extends_def logged_def Let_def)

lemma gr_put_active_alias [keeps_intros]: "keeps (store_extends s0) (put_active_alias a)"
  unfolding put_active_alias_def by (rule modM_grows) (simp add: store_extends_def logged_def Let_def)

lemma gr_put_intent [keeps_intros]: "keeps (store_extends s0) (put_intent i)"
  unfolding put_intent_def by (rule modM_grows) (simp add: store_extends_def logged_def Let_def)

lemma gr_put_objective [keeps_intros]: "keeps (store_extends s0) (put_objective v)"
  unfolding put_objective_def by (rule modM_grows) (simp add: store_extends_def logged_def Let_def)

lemma gr_put_artifact [keeps_intros]: "keeps (store_extends s0) (put_artifact k)"
  unfolding put_artifact_def by (rule modM_grows) (simp add: store_extends_def logged_def Let_def)

lemma gr_put_delivery [keeps_intros]: "keeps (store_extends s0) (put_delivery d)"
  unfolding put_delivery_def by (rule modM_grows) (simp add: store_extends_def logged_def Let_def)

lemma gr_put_update [keeps_intros]: "keeps (store_extends s0) (put_update u)"
  unfolding put_update_def by (rule modM_grows) (simp add: store_extends_def logged_def Let_def)

lemma gr_put_handoff [keeps_intros]: "keeps (store_extends s0) (put_handoff h)"
  unfolding put_handoff_def by (rule modM_grows) (simp add: store_extends_def logged_def Let_def)

lemma gr_drop_active_handoff [keeps_intros]: "keeps (store_extends s0) (drop_active_handoff h)"
  unfolding drop_active_handoff_def by (rule modM_grows) (simp add: store_extends_def logged_def Let_def)

lemma gr_retire_alias [keeps_intros]: "keeps (store_extends s0) (retire_alias a now)"
  unfolding retire_alias_def by (rule modM_grows) (simp add: store_extends_def logged_def Let_def)

lemma gr_put_atomic [keeps_intros]: "keeps (store_extends s0) (put_atomic c)"
  unfolding put_atomic_def by (rule gr_put_case)

lemma gr_put_new_handoff [keeps_intros]: "keeps (store_extends s0) (put_new_handoff h)"
  unfolding put_new_handoff_def
  by (intro keeps_seq gr_put_handoff modM_grows extends_pure)

lemma gr_uuid [keeps_intros]: "keeps (store_extends s0) uuid4_hex"
  unfolding keeps_def uuid4_hex_def by (auto intro: store_extends_trans extends_pure)

lemma gr_now [keeps_intros]: "keeps (store_extends s0) dt_now"
  unfolding keeps_def dt_now_def by (auto intro: store_extends_trans extends_pure)

lemma gr_store_event [keeps_intros]: "keeps (store_extends s0) (store_event_locked e)"
  unfolding keeps_def store_event_locked_def
  by (auto simp: bindM_app seqM_app intro: store_extends_trans extends_write_event
      split: option.split)

lemma gr_store_event_opt [keeps_intros]: "keeps (store_extends s0) (store_event_opt e)"
  unfolding store_event_opt_def by (intro keeps_intros)

lemma gr_utc_now [keeps_intros]: "keeps (store_extends s0) utc_now"
  unfolding utc_now_def by (intro keeps_intros)

lemma gr_new_id [keeps_intros]: "keeps (store_extends s0) (new_id p)"
  unfolding new_id_def by (intro keeps_intros)

lemma gr_new_event [keeps_intros]: "keeps (store_extends s0) (new_event i t f)"
  unfolding new_event_def by (intro keeps_intros)

lemma gr_new_alias [keeps_intros]: "keeps (store_extends s0) (new_alias i c ty v src conf t)"
  unfolding new_alias_def by (intro keeps_intros)

lemma gr_new_intent [keeps_intros]: "keeps (store_extends s0) (new_intent i n c f ty)"
  unfolding new_intent_def by (intro keeps_intros)

lemma gr_existing_handoff [keeps_intros]: "keeps P (existing_handoff_locked h)"
  unfolding existing_handoff_locked_def by (intro keeps_intros)

lemma gr_pure_writes [keeps_intros]:
  "keeps (store_extends s0) (modM (\<lambda>s. s\<lparr>st_ack_scopes := x s\<rparr>))"
  "keeps (store_extends s0) (modM (\<lambda>s. s\<lparr>st_attention_leases := y s\<rparr>))"
  "keeps (store_extends s0) (modM (\<lambda>s. s\<lparr>st_outcomes := z s\<rparr>))"
  "keeps (store_extends s0) (modM (\<lambda>s. s\<lparr>st_callbacks := u s, st_callback_index := v s\<rparr>))"
  by (intro modM_grows extends_pure)+

lemma gr_write_attention [keeps_intros]: "keeps (store_extends s0) (modM (write_attention d i))"
  by (rule modM_grows) (simp add: write_attention_def store_extends_def logged_def)

lemma gr_release_attention [keeps_intros]: "keeps (store_extends s0) (release_attention cid tk)"
  unfolding release_attention_def
  by (rule modM_grows) (simp add: extends_pure split: option.split)

lemma gr_write_once [keeps_intros]:
  "keeps (store_extends s0) (put_observation ob)"
  "keeps (store_extends s0) (record_feedback f)"
  "keeps (store_extends s0) (record_trace_store t)"
  unfolding keeps_def put_observation_def record_feedback_def record_trace_store_def
  by (auto simp: bindM_app seqM_app store_extends_def logged_def split: option.split
      intro: same_records_trans)

subsection \<open>Operations\<close>

lemma gr_create_atomic_case [keeps_intros]: "keeps (store_extends s0) (create_atomic_case c as es)"
  unfolding create_atomic_case_def by (intro keeps_intros)

lemma gr_claim_investigation_store [keeps_intros]: "keeps (store_extends s0) (claim_investigation_store cid a b c d p n e)"
  unfolding claim_investigation_store_def by (intro keeps_intros)

lemma gr_record_acknowledgement_scope [keeps_intros]: "keeps (store_extends s0) (record_acknowledgement_scope cid t sev)"
  unfolding record_acknowledgement_scope_def by (intro keeps_intros)

lemma gr_upsert_case [keeps_intros]: "keeps (store_extends s0) (upsert_case p)"
  unfolding upsert_case_def by (intro keeps_intros)

lemma gr_append_event [keeps_intros]: "keeps (store_extends s0) (append_event e)"
  unfolding append_event_def by (intro keeps_intros)

lemma gr_record_alias [keeps_intros]: "keeps (store_extends s0) (record_alias a)"
  unfolding record_alias_def Let_def by (intro keeps_intros)

lemma gr_reassign_alias [keeps_intros]: "keeps (store_extends s0) (reassign_alias to now a moved)"
  unfolding reassign_alias_def by (intro keeps_intros)

lemma gr_reassign_aliases_locked [keeps_intros]: "keeps (store_extends s0) (reassign_aliases_locked f to now)"
  unfolding reassign_aliases_locked_def by (intro keeps_intros)

lemma gr_link_child_case [keeps_intros]: "keeps (store_extends s0) (link_child_case cid pid r refs now)"
  unfolding link_child_case_def by (intro keeps_intros)

lemma gr_enqueue_outbox [keeps_intros]: "keeps (store_extends s0) (enqueue_outbox i)"
  unfolding enqueue_outbox_def by (intro keeps_intros)

lemma gr_enqueue_outbox_opt [keeps_intros]: "keeps (store_extends s0) (enqueue_outbox_opt i)"
  unfolding enqueue_outbox_opt_def by (intro keeps_intros)

lemma gr_update_outbox [keeps_intros]: "keeps (store_extends s0) (update_outbox i)"
  unfolding update_outbox_def by (intro keeps_intros)

lemma gr_update_outbox_if_status [keeps_intros]: "keeps (store_extends s0) (update_outbox_if_status i w tk)"
  unfolding update_outbox_if_status_def by (intro keeps_intros)

lemma gr_claim_attention [keeps_intros]: "keeps (store_extends s0) (claim_attention i n l)"
  unfolding claim_attention_def by (intro keeps_intros)

lemma gr_complete_attention [keeps_intros]: "keeps (store_extends s0) (complete_attention i d n c l e)"
  unfolding complete_attention_def by (intro keeps_intros)

lemma gr_upsert_objective_locked [keeps_intros]: "keeps (store_extends s0) (upsert_objective_locked v)"
  unfolding upsert_objective_locked_def by (intro keeps_intros)

lemma gr_store_handoff_objective [keeps_intros]: "keeps (store_extends s0) (store_handoff_objective h v)"
  unfolding store_handoff_objective_def by (intro keeps_intros)

lemma gr_finish_create [keeps_intros]: "keeps (store_extends s0) (finish_create h c vs w e i)"
  unfolding finish_create_def by (intro keeps_intros)

lemma gr_create_handoff_with_objectives [keeps_intros]: "keeps (store_extends s0) (create_handoff_with_objectives h vs w e i)"
  unfolding create_handoff_with_objectives_def by (intro keeps_intros)

lemma gr_record_handoff_delivery [keeps_intros]: "keeps (store_extends s0) (record_handoff_delivery d)"
  unfolding record_handoff_delivery_def by (intro keeps_intros)

lemma gr_update_handoff_delivery [keeps_intros]: "keeps (store_extends s0) (update_handoff_delivery d)"
  unfolding update_handoff_delivery_def by (intro keeps_intros)

lemma gr_move_handoff [keeps_intros]: "keeps (store_extends s0) (move_handoff h h')"
  unfolding move_handoff_def by (intro keeps_intros)

lemma gr_finish_update [keeps_intros]: "keeps (store_extends s0) (finish_update u h c w sh e)"
  unfolding finish_update_def by (intro keeps_intros)

lemma gr_append_handoff_update [keeps_intros]: "keeps (store_extends s0) (append_handoff_update u w c h e)"
  unfolding append_handoff_update_def by (intro keeps_intros)

lemma gr_claim_callback_event [keeps_intros]: "keeps (store_extends s0) (claim_callback_event cb)"
  unfolding claim_callback_event_def by (intro keeps_intros)

lemma gr_upsert_verification_objective [keeps_intros]: "keeps (store_extends s0) (upsert_verification_objective v e)"
  unfolding upsert_verification_objective_def by (intro keeps_intros)

lemma gr_update_verification_objective_result [keeps_intros]: "keeps (store_extends s0) (update_verification_objective_result v e)"
  unfolding update_verification_objective_result_def by (intro keeps_intros)

lemma gr_finish_verified [keeps_intros]: "keeps (store_extends s0) (finish_verified h now e)"
  unfolding finish_verified_def by (intro keeps_intros)

lemma gr_mark_handoff_verified [keeps_intros]: "keeps (store_extends s0) (mark_handoff_verified hid now e)"
  unfolding mark_handoff_verified_def by (intro keeps_intros)

lemma gr_resolve_handoff [keeps_intros]: "keeps (store_extends s0) (resolve_handoff hid now)"
  unfolding resolve_handoff_def by (intro keeps_intros)

lemma gr_finish_resolution [keeps_intros]: "keeps (store_extends s0) (finish_resolution c oc now e)"
  unfolding finish_resolution_def by (intro keeps_intros)

lemma gr_resolve_case_with_outcome [keeps_intros]: "keeps (store_extends s0) (resolve_case_with_outcome cid hid oc now e)"
  unfolding resolve_case_with_outcome_def by (intro keeps_intros)

lemma gr_record_knowledge_artifact [keeps_intros]: "keeps (store_extends s0) (record_knowledge_artifact k e)"
  unfolding record_knowledge_artifact_def by (intro keeps_intros)

lemma gr_update_knowledge_artifact [keeps_intros]: "keeps (store_extends s0) (update_knowledge_artifact k e)"
  unfolding update_knowledge_artifact_def by (intro keeps_intros)

lemma gr_record_outcome [keeps_intros]: "keeps (store_extends s0) (record_outcome oc e)"
  unfolding record_outcome_def by (intro keeps_intros)

lemma extends_run: "(\<And>s0. keeps (store_extends s0) m) \<Longrightarrow> store_extends s (snd (m s))"
  unfolding keeps_def by simp

end
