(* ===== verification/Write_Once.thy ===== *)
theory Write_Once
  imports Prelude
begin

section \<open>Interfaces: put-once tables and claims\<close>

text \<open>
  Two contracts several components of the program rely on. A \<open>write_once\<close> table records a value
  under its key and answers a later record under the same key with the value it has: the
  idempotent inserts of the store. A \<open>claims\<close> resource is won by at most one of the workers that
  saw it free: the compare-and-set updates of the store.
\<close>

locale write_once =
  fixes lookup :: "'s \<Rightarrow> 'k \<Rightarrow> 'v option"
    and key :: "'v \<Rightarrow> 'k"
    and put :: "'v \<Rightarrow> ('s, 'v) comp"
    and ok :: "'s \<Rightarrow> bool"
    and good :: "'v \<Rightarrow> bool"
  assumes put_new: "ok s \<Longrightarrow> good v \<Longrightarrow> lookup s (key v) = None
      \<Longrightarrow> \<exists>t. put v s = (Inr v, t) \<and> ok t \<and> lookup t (key v) = Some v"
    and put_old: "ok s \<Longrightarrow> lookup s (key v) = Some w \<Longrightarrow> put v s = (Inr w, s)"
begin

lemma put_returns:
  assumes "ok s" and "good v"
  shows "\<exists>w t. put v s = (Inr w, t) \<and> ok t \<and> lookup t (key v) = Some w \<and>
    (lookup s (key v) = None \<longrightarrow> w = v) \<and> (\<forall>x. lookup s (key v) = Some x \<longrightarrow> w = x \<and> t = s)"
proof (cases "lookup s (key v)")
  case None
  with put_new [OF assms] show ?thesis by auto
next
  case (Some x)
  with put_old [OF assms(1)] assms(1) show ?thesis by auto
qed

lemma put_again:
  assumes "ok s" and "good v" and "put v s = (r, t)" and "key v' = key v"
  shows "put v' t = (r, t)"
proof -
  obtain w where w: "r = Inr w" "ok t" "lookup t (key v) = Some w"
    using put_returns [OF assms(1,2)] assms(3) by auto
  with put_old [of t v' w] assms(4) show ?thesis by simp
qed

end

locale write_once_stable = write_once lookup key put ok good
  for lookup :: "'s \<Rightarrow> 'k \<Rightarrow> 'v option" and key put ok good +
  assumes put_frame: "ok s \<Longrightarrow> lookup s k = Some w \<Longrightarrow> lookup (snd (put v s)) k = Some w"
begin

lemma writes_return:
  assumes "ok s" and "list_all good vs"
  shows "\<exists>ws t. mapM put vs s = (Inr ws, t) \<and> ok t \<and>
    list_all2 (\<lambda>v w. lookup t (key v) = Some w) vs ws \<and>
    (\<forall>k w. lookup s k = Some w \<longrightarrow> lookup t k = Some w)"
  using assms
proof (induction vs arbitrary: s)
  case Nil
  then show ?case by simp
next
  case (Cons v vs)
  obtain w u where u: "put v s = (Inr w, u)" "ok u" "lookup u (key v) = Some w"
    using put_returns [of s v] Cons.prems by auto
  obtain ws t where t: "mapM put vs u = (Inr ws, t)" "ok t"
      "list_all2 (\<lambda>v w. lookup t (key v) = Some w) vs ws"
      "\<forall>k w. lookup u k = Some w \<longrightarrow> lookup t k = Some w"
    using Cons.IH [of u] u(2) Cons.prems by auto
  have "\<forall>k w. lookup s k = Some w \<longrightarrow> lookup t k = Some w"
    using put_frame [of s] Cons.prems(1) u(1) t(4) by (metis snd_conv)
  then show ?case using u t by (auto simp: bindM_app)
qed

text \<open>Recording a batch again, as after a crash or a redelivery, changes nothing.\<close>

lemma replay:
  assumes "ok s" and "list_all good vs" and "mapM put vs s = (r, t)"
  shows "mapM put vs t = (r, t)"
proof -
  obtain ws where ws: "r = Inr ws" "ok t" "list_all2 (\<lambda>v w. lookup t (key v) = Some w) vs ws"
    using writes_return [OF assms(1,2)] assms(3) by auto
  have "list_all2 (\<lambda>v w. lookup t (key v) = Some w) vs ws \<Longrightarrow> mapM put vs t = (Inr ws, t)"
  proof (induction vs arbitrary: ws)
    case Nil
    then show ?case by simp
  next
    case (Cons v vs)
    then obtain w ws' where "ws = w # ws'" "lookup t (key v) = Some w"
        "list_all2 (\<lambda>v w. lookup t (key v) = Some w) vs ws'"
      by (auto simp: list_all2_Cons1)
    then show ?case using Cons.IH put_old [OF ws(2)] by (simp add: bindM_app)
  qed
  with ws show ?thesis by simp
qed

end

text \<open>
  A worker that attempts a claim wins only when the resource is free for it, and from then on it is
  free for no one who has not looked again; an attempt that fails frees nothing.
\<close>

locale claims =
  fixes attempt :: "'w \<Rightarrow> 's \<Rightarrow> bool \<times> 's"
    and free :: "'w \<Rightarrow> 's \<Rightarrow> bool"
  assumes won_when_free: "fst (attempt w s) \<Longrightarrow> free w s"
    and won_excludes: "fst (attempt w s) \<Longrightarrow> \<not> free v (snd (attempt w s))"
    and lost_frees_nothing: "\<not> fst (attempt w s) \<Longrightarrow> free v (snd (attempt w s)) \<Longrightarrow> free v s"
begin

fun contend :: "'w list \<Rightarrow> 's \<Rightarrow> 'w list" where
  "contend [] s = []"
| "contend (w # ws) s =
     (if fst (attempt w s) then w # contend ws (snd (attempt w s))
      else contend ws (snd (attempt w s)))"

lemma contend_taken: "(\<And>w. \<not> free w s) \<Longrightarrow> contend ws s = []"
proof (induction ws arbitrary: s)
  case Nil
  then show ?case by simp
next
  case (Cons w ws)
  then have "\<not> fst (attempt w s)" using won_when_free by blast
  moreover have "\<And>v. \<not> free v (snd (attempt w s))"
    using calculation Cons.prems lost_frees_nothing by blast
  ultimately show ?case using Cons.IH by simp
qed

lemma at_most_one_winner: "length (contend ws s) \<le> 1"
proof (induction ws arbitrary: s)
  case Nil
  then show ?case by simp
next
  case (Cons w ws)
  show ?case
  proof (cases "fst (attempt w s)")
    case True
    then have "contend ws (snd (attempt w s)) = []"
      by (intro contend_taken) (rule won_excludes)
    with True show ?thesis by simp
  next
    case False
    with Cons.IH show ?thesis by simp
  qed
qed

end

end
