(* ===== verification/Store_Spec.thy ===== *)
theory Store_Spec
  imports Store_Growth Write_Once
begin

section \<open>What the store promises\<close>

text \<open>
  The store as a state machine: one step per operation that writes, with any arguments, and the
  states reachable from the empty store. On it stand the invariant, the growth of the history, the
  interpretations of the write-once interface and the life cycle of handoffs.
\<close>

inductive store_step :: "store \<Rightarrow> store \<Rightarrow> bool" where
  step_uuid: "store_step s (snd (uuid4_hex s))"
| step_now: "store_step s (snd (dt_now s))"
| step_observation: "store_step s (snd (put_observation ob s))"
| step_upsert_case: "store_step s (snd (upsert_case p s))"
| step_ack_scope: "store_step s (snd (record_acknowledgement_scope cid t sev s))"
| step_create_case: "store_step s (snd (create_atomic_case c aliases events s))"
| step_claim_investigation: "store_step s (snd (claim_investigation_store cid a b l w p n e s))"
| step_event: "store_step s (snd (append_event e s))"
| step_alias: "store_step s (snd (record_alias a s))"
| step_link: "store_step s (snd (link_child_case child parent reason refs now s))"
| step_enqueue: "store_step s (snd (enqueue_outbox i s))"
| step_update_outbox: "store_step s (snd (update_outbox i s))"
| step_cas_outbox: "store_step s (snd (update_outbox_if_status i w tk s))"
| step_claim_attention: "store_step s (snd (claim_attention i n secs s))"
| step_release_attention: "store_step s (snd (release_attention cid tk s))"
| step_complete_attention: "store_step s (snd (complete_attention i d n c tk e s))"
| step_create_handoff: "store_step s (snd (create_handoff_with_objectives h vs cs eo io s))"
| step_record_delivery: "store_step s (snd (record_handoff_delivery dl s))"
| step_update_delivery: "store_step s (snd (update_handoff_delivery dl s))"
| step_handoff_update: "store_step s (snd (append_handoff_update u hs cs shown eo s))"
| step_callback: "store_step s (snd (claim_callback_event cb s))"
| step_upsert_objective: "store_step s (snd (upsert_verification_objective v eo s))"
| step_objective_result: "store_step s (snd (update_verification_objective_result v eo s))"
| step_verified: "store_step s (snd (mark_handoff_verified hid now eo s))"
| step_outcome: "store_step s (snd (resolve_case_with_outcome cid hid oc now eo s))"
| step_artifact: "store_step s (snd (record_knowledge_artifact k eo s))"
| step_update_artifact: "store_step s (snd (update_knowledge_artifact k eo s))"
| step_record_outcome: "store_step s (snd (record_outcome oc eo s))"
| step_feedback: "store_step s (snd (record_feedback f s))"
| step_trace: "store_step s (snd (record_trace_store tr s))"

inductive_cases store_stepE: "store_step s t"

inductive reachable_store :: "(nat \<Rightarrow> string) \<Rightarrow> (nat \<Rightarrow> instant) \<Rightarrow> store \<Rightarrow> bool"
  for ids instants where
  reach_empty: "reachable_store ids instants (empty_store ids instants)"
| reach_step: "reachable_store ids instants s \<Longrightarrow> store_step s t \<Longrightarrow> reachable_store ids instants t"

lemma store_step_keeps:
  assumes "store_step s t" and "store_ok s" shows "store_ok t"
  using assms by (induction rule: store_step.induct) (erule keepsD [rotated], intro keeps_intros)+

lemma reachable_ok: "reachable_store ids instants s \<Longrightarrow> store_ok s"
  by (induction rule: reachable_store.induct) (simp_all add: store_ok_empty store_step_keeps)

text \<open>
  C1: In every state the store can reach, whatever operations ran with whatever arguments and
  whether they raised or not, every object is stored once under its own identifier, no index names
  an object that is not stored, and the log of each case holds exactly the stored events that name it.
\<close>

theorem reachable_store_ok: "reachable_store ids instants s \<Longrightarrow> store_ok s"
  by (rule reachable_ok)

theorem reachable_store_ok_witness:
  "store_ok (snd (put_observation blank_observation (empty_store (\<lambda>_. ''id'') (\<lambda>_. 0))))"
  by (rule reachable_store_ok, rule reach_step, rule reach_empty, rule step_observation)

text \<open>History is append-only, step by step.\<close>

lemma store_step_extends: "store_step s t \<Longrightarrow> store_extends s t"
  by (induction rule: store_step.induct) (rule extends_run, intro keeps_intros)+

subsection \<open>Write-once tables\<close>

definition outbox_lookup :: "store \<Rightarrow> string \<Rightarrow> outbox_intent option" where
  "outbox_lookup s k = (case idx_get (st_outbox_index s) k of
     None \<Rightarrow> None | Some i \<Rightarrow> dict_get (st_outbox s) i)"

definition callback_key :: "callback_record \<Rightarrow> loop_name \<times> string" where
  "callback_key cb = (cb_source_loop cb, cb_external_event_id cb)"

definition callback_lookup :: "store \<Rightarrow> loop_name \<times> string \<Rightarrow> callback_record option" where
  "callback_lookup s k = (case idx_get (st_callback_index s) k of
     None \<Rightarrow> None | Some i \<Rightarrow> dict_get (st_callbacks s) i)"

definition claim_callback_value :: "callback_record \<Rightarrow> callback_record st" where
  "claim_callback_value cb = bindM (claim_callback_event cb) (\<lambda>r. retM (fst r))"

lemma idx_get_set: "idx_get (dict_set k i d) k = (if i = [] then None else Some i)"
  by (simp add: idx_get_def)

lemma indexed_idx_get: "indexed idx d \<Longrightarrow> idx_get idx k = Some i \<Longrightarrow> \<exists>x. dict_get d i = Some x"
  by (blast dest: idx_get_Some indexed_get)

lemma store_ok_indexD:
  "store_ok s \<Longrightarrow> idx_get (st_outbox_index s) k = Some i \<Longrightarrow> \<exists>x. dict_get (st_outbox s) i = Some x"
  "store_ok s \<Longrightarrow> idx_get (st_callback_index s) k' = Some i \<Longrightarrow> \<exists>x. dict_get (st_callbacks s) i = Some x"
  "store_ok s \<Longrightarrow> idx_get (st_alias_index s) a = Some i \<Longrightarrow> \<exists>x. dict_get (st_aliases s) i = Some x"
  "store_ok s \<Longrightarrow> idx_get (st_handoff_keys s) k = Some i \<Longrightarrow> \<exists>x. dict_get (st_handoffs s) i = Some x"
  "store_ok s \<Longrightarrow> idx_get (st_active_handoffs s) b = Some i \<Longrightarrow> \<exists>x. dict_get (st_handoffs s) i = Some x"
  "store_ok s \<Longrightarrow> idx_get (st_update_index s) c = Some i \<Longrightarrow> \<exists>x. dict_get (st_handoff_updates s) i = Some x"
  unfolding store_ok_def indices_ok_def by (blast intro: indexed_idx_get)+

lemma item_of_app: "item_of f k s = (case dict_get (f s) k of
    Some x \<Rightarrow> (Inr x, s) | None \<Rightarrow> (Inl (KeyError k), s))"
  by (simp add: item_of_def bindM_app split: option.split)

lemma put_intent_app: "put_intent i s = (Inr (), s\<lparr>
    st_outbox := dict_set (ob_outbox_id i) i (st_outbox s),
    st_outbox_index := dict_set (ob_idempotency_key i) (ob_outbox_id i) (st_outbox_index s)\<rparr>)"
  by (simp add: put_intent_def)

interpretation outbox: write_once outbox_lookup ob_idempotency_key enqueue_outbox store_ok
  "\<lambda>i. ob_outbox_id i \<noteq> []"
proof
  fix s :: store and i :: outbox_intent
  assume ok: "store_ok s" and good: "ob_outbox_id i \<noteq> []"
    and none: "outbox_lookup s (ob_idempotency_key i) = None"
  have "idx_get (st_outbox_index s) (ob_idempotency_key i) = None"
  proof (cases "idx_get (st_outbox_index s) (ob_idempotency_key i)")
    case (Some j)
    then show ?thesis using store_ok_indexD(1) [OF ok Some] none by (auto simp: outbox_lookup_def)
  qed
  then have run: "enqueue_outbox i s = (Inr i, snd (put_intent i s))"
    by (simp add: enqueue_outbox_def bindM_app seqM_app put_intent_app)
  have "store_ok (snd (enqueue_outbox i s))" using keepsD [OF ok_enqueue_outbox ok] .
  moreover have "outbox_lookup (snd (put_intent i s)) (ob_idempotency_key i) = Some i"
    using good by (simp add: outbox_lookup_def put_intent_app idx_get_set)
  ultimately show "\<exists>t. enqueue_outbox i s = (Inr i, t) \<and> store_ok t \<and>
      outbox_lookup t (ob_idempotency_key i) = Some i"
    using run by simp
next
  fix s :: store and i w :: outbox_intent
  assume "outbox_lookup s (ob_idempotency_key i) = Some w"
  then show "enqueue_outbox i s = (Inr w, s)"
    by (auto simp: outbox_lookup_def enqueue_outbox_def bindM_app item_of_app
        split: option.splits)
qed

interpretation callbacks: write_once callback_lookup callback_key claim_callback_value store_ok
  "\<lambda>cb. cb_callback_id cb \<noteq> []"
proof
  fix s :: store and cb :: callback_record
  assume ok: "store_ok s" and good: "cb_callback_id cb \<noteq> []"
    and none: "callback_lookup s (callback_key cb) = None"
  have n: "idx_get (st_callback_index s) (callback_key cb) = None"
  proof (cases "idx_get (st_callback_index s) (callback_key cb)")
    case (Some j)
    then show ?thesis using store_ok_indexD(2) [OF ok Some] none by (auto simp: callback_lookup_def)
  qed
  have "store_ok (snd (claim_callback_event cb s))" by (rule keepsD [OF ok_claim_callback_event ok])
  then show "\<exists>t. claim_callback_value cb s = (Inr cb, t) \<and> store_ok t \<and>
      callback_lookup t (callback_key cb) = Some cb"
    using n good
    by (auto simp: claim_callback_value_def claim_callback_event_def callback_key_def
        callback_lookup_def bindM_app seqM_app idx_get_set)
next
  fix s :: store and cb w :: callback_record
  assume "callback_lookup s (callback_key cb) = Some w"
  then show "claim_callback_value cb s = (Inr w, s)"
    by (auto simp: callback_lookup_def claim_callback_value_def claim_callback_event_def
        callback_key_def bindM_app item_of_app split: option.splits)
qed

interpretation events: write_once_stable "\<lambda>s k. dict_get (st_events s) k" ev_event_id append_event
  store_ok "\<lambda>_. True"
proof
  fix s :: store and e :: case_event
  assume "store_ok s" and "dict_get (st_events s) (ev_event_id e) = None"
  then show "\<exists>t. append_event e s = (Inr e, t) \<and> store_ok t \<and>
      dict_get (st_events t) (ev_event_id e) = Some e"
    using keepsD [OF ok_append_event, of s e]
    by (auto simp: append_event_def store_event_locked_def bindM_app seqM_app write_event_def)
next
  fix s :: store and e w :: case_event
  assume "dict_get (st_events s) (ev_event_id e) = Some w"
  then show "append_event e s = (Inr w, s)"
    by (simp add: append_event_def store_event_locked_def bindM_app)
next
  fix s :: store and k and w e :: case_event
  assume "dict_get (st_events s) k = Some w"
  moreover have "store_extends s (snd (append_event e s))"
    by (rule extends_run) (rule gr_append_event)
  ultimately show "dict_get (st_events (snd (append_event e s))) k = Some w"
    by (auto simp: store_extends_def same_records_def map_le_def dom_def)
qed

interpretation observations: write_once_stable "\<lambda>s k. dict_get (st_observations s) k"
  obs_observation_id put_observation store_ok "\<lambda>_. True"
proof
  fix s :: store and ob :: observation
  assume "store_ok s" and "dict_get (st_observations s) (obs_observation_id ob) = None"
  then show "\<exists>t. put_observation ob s = (Inr ob, t) \<and> store_ok t \<and>
      dict_get (st_observations t) (obs_observation_id ob) = Some ob"
    using keepsD [OF ok_put_observation, of s ob]
    by (auto simp: put_observation_def bindM_app seqM_app)
qed (auto simp: put_observation_def bindM_app seqM_app split: option.splits)

interpretation feedback: write_once_stable "\<lambda>s k. dict_get (st_feedback s) k"
  fb_feedback_id record_feedback store_ok "\<lambda>_. True"
proof
  fix s :: store and f :: operator_feedback
  assume "store_ok s" and "dict_get (st_feedback s) (fb_feedback_id f) = None"
  then show "\<exists>t. record_feedback f s = (Inr f, t) \<and> store_ok t \<and>
      dict_get (st_feedback t) (fb_feedback_id f) = Some f"
    using keepsD [OF ok_record_feedback, of s f]
    by (auto simp: record_feedback_def bindM_app seqM_app)
qed (auto simp: record_feedback_def bindM_app seqM_app split: option.splits)

interpretation traces: write_once_stable "\<lambda>s k. dict_get (st_traces s) k"
  tr_trace_id record_trace_store store_ok "\<lambda>_. True"
proof
  fix s :: store and tr :: trace_record
  assume "store_ok s" and "dict_get (st_traces s) (tr_trace_id tr) = None"
  then show "\<exists>t. record_trace_store tr s = (Inr tr, t) \<and> store_ok t \<and>
      dict_get (st_traces t) (tr_trace_id tr) = Some tr"
    using keepsD [OF ok_record_trace_store, of s tr]
    by (auto simp: record_trace_store_def bindM_app seqM_app)
qed (auto simp: record_trace_store_def bindM_app seqM_app split: option.splits)

text \<open>
  Enqueueing is idempotent on the idempotency key: in a consistent store it never raises, a second
  intent with the key of a stored one is answered with the stored one, and nothing is written then,
  so a side effect is requested once however often it is asked for.
\<close>

lemma enqueue_outbox_idempotent:
  assumes "store_ok s" and "ob_outbox_id i \<noteq> []" and "ob_idempotency_key j = ob_idempotency_key i"
  shows "\<exists>w t. enqueue_outbox i s = (Inr w, t) \<and> store_ok t \<and> enqueue_outbox j t = (Inr w, t) \<and>
    outbox_lookup t (ob_idempotency_key i) = Some w \<and>
    (outbox_lookup s (ob_idempotency_key i) = None \<longrightarrow> w = i)"
proof -
  obtain w t where r: "enqueue_outbox i s = (Inr w, t)" "store_ok t"
    "outbox_lookup t (ob_idempotency_key i) = Some w"
    "outbox_lookup s (ob_idempotency_key i) = None \<longrightarrow> w = i"
    using outbox.put_returns [OF assms(1,2)] by auto
  with outbox.put_again [OF assms(1,2) r(1) assms(3)] show ?thesis by auto
qed

lemma enqueue_outbox_idempotent_witness:
  "\<exists>t. enqueue_outbox ((blank_intent OI_report)\<lparr>ob_outbox_id := ''o1'', ob_idempotency_key := ''k''\<rparr>)
     (empty_store (\<lambda>_. []) (\<lambda>_. 0)) =
     (Inr ((blank_intent OI_report)\<lparr>ob_outbox_id := ''o1'', ob_idempotency_key := ''k''\<rparr>), t) \<and>
   enqueue_outbox ((blank_intent OI_report)\<lparr>ob_outbox_id := ''o2'', ob_idempotency_key := ''k''\<rparr>) t =
     (Inr ((blank_intent OI_report)\<lparr>ob_outbox_id := ''o1'', ob_idempotency_key := ''k''\<rparr>), t)"
  using enqueue_outbox_idempotent [OF store_ok_empty,
      of "(blank_intent OI_report)\<lparr>ob_outbox_id := ''o1'', ob_idempotency_key := ''k''\<rparr>"
         "(blank_intent OI_report)\<lparr>ob_outbox_id := ''o2'', ob_idempotency_key := ''k''\<rparr>"
         "\<lambda>_. []" "\<lambda>_. 0"]
  by (auto simp: outbox_lookup_def idx_get_def empty_store_def)

text \<open>
  Redelivering a batch of events, as after a crash before it was acknowledged, changes nothing and
  answers with the same events.
\<close>

lemma append_events_replay:
  assumes "store_ok s" and "mapM append_event es s = (r, t)"
  shows "mapM append_event es t = (r, t) \<and> store_ok t \<and> (\<exists>stored. r = Inr stored)"
proof -
  have all: "list_all (\<lambda>_. True) es" by (simp add: list_all_iff)
  show ?thesis
    using events.replay [OF assms(1) all assms(2)] events.writes_return [OF assms(1) all] assms(2)
    by auto
qed

lemma append_events_replay_witness:
  "\<exists>r t. mapM append_event [blank_event, blank_event\<lparr>ev_event_id := ''e''\<rparr>]
       (empty_store (\<lambda>_. []) (\<lambda>_. 0)) = (r, t) \<and>
     mapM append_event [blank_event, blank_event\<lparr>ev_event_id := ''e''\<rparr>] t = (r, t)"
proof -
  let ?es = "[blank_event, blank_event\<lparr>ev_event_id := ''e''\<rparr>]"
  obtain r t where rt: "mapM append_event ?es (empty_store (\<lambda>_. []) (\<lambda>_. 0)) = (r, t)" by force
  show ?thesis using append_events_replay [OF store_ok_empty rt] rt by blast
qed

end
