(* ===== verification/Handoff_Spec.thy ===== *)
theory Handoff_Spec
  imports Store_Spec
begin

section \<open>The life cycle of stored handoffs\<close>

text \<open>
  How the handoff ledger moves: which operations touch a handoff at all, the moves each of them
  makes, the uniqueness of requests by idempotency key, and what the operations that raise midway
  leave behind.
\<close>

subsection \<open>Operations that leave the ledger alone\<close>

definition ledger_is ::
  "(string, case_handoff) dict \<Rightarrow> (string, string) dict \<Rightarrow> store \<Rightarrow> bool" where
  "ledger_is H K s \<longleftrightarrow> st_handoffs s = H \<and> st_handoff_keys s = K"

lemma ledger_primitives [keeps_intros]:
  "keeps (ledger_is H K) uuid4_hex" "keeps (ledger_is H K) dt_now"
  "keeps (ledger_is H K) (put_case p)" "keeps (ledger_is H K) (put_atomic c)"
  "keeps (ledger_is H K) (put_alias a)" "keeps (ledger_is H K) (put_active_alias a)"
  "keeps (ledger_is H K) (retire_alias a now)"
  "keeps (ledger_is H K) (put_intent i)" "keeps (ledger_is H K) (put_objective v)"
  "keeps (ledger_is H K) (put_artifact k)" "keeps (ledger_is H K) (put_delivery d)"
  "keeps (ledger_is H K) (put_update u)" "keeps (ledger_is H K) (modM (write_event e))"
  "keeps (ledger_is H K) (modM (write_attention d' i))"
  "keeps (ledger_is H K) (drop_active_handoff h)" "keeps (ledger_is H K) (release_attention cid tk)"
  by (auto simp: keeps_def ledger_is_def uuid4_hex_def dt_now_def put_atomic_def put_case_def
      put_alias_def put_active_alias_def retire_alias_def Let_def put_intent_def put_objective_def
      put_artifact_def put_delivery_def put_update_def write_event_def write_attention_def
      drop_active_handoff_def release_attention_def split: option.split)

lemma ledger_modM [keeps_intros]:
  "(\<And>s. st_handoffs (f s) = st_handoffs s \<and> st_handoff_keys (f s) = st_handoff_keys s)
    \<Longrightarrow> keeps (ledger_is H K) (modM f)"
  by (simp add: keeps_def ledger_is_def)

lemma ledger_parts [keeps_intros]:
  "keeps (ledger_is H K) (new_id p)" "keeps (ledger_is H K) utc_now"
  unfolding new_id_def utc_now_def by (intro keeps_intros)+

lemma ledger_event [keeps_intros]:
  "keeps (ledger_is H K) (store_event_locked e)"
  unfolding store_event_locked_def by (intro keeps_intros)

lemma ledger_parts2 [keeps_intros]:
  "keeps (ledger_is H K) (new_event i t f)" "keeps (ledger_is H K) (new_alias x c ty v src conf t)"
  "keeps (ledger_is H K) (store_event_opt eo)" "keeps (ledger_is H K) (enqueue_outbox i')"
  "keeps (ledger_is H K) (upsert_objective_locked v')"
  unfolding new_event_def new_alias_def store_event_opt_def enqueue_outbox_def
    upsert_objective_locked_def
  by (intro keeps_intros)+

lemma ledger_parts3 [keeps_intros]:
  "keeps (ledger_is H K) (enqueue_outbox_opt io)"
  "keeps (ledger_is H K) (store_handoff_objective h v)"
  "keeps (ledger_is H K) (reassign_alias to_id now a moved)"
  unfolding enqueue_outbox_opt_def store_handoff_objective_def reassign_alias_def
  by (intro keeps_intros)+

lemma ledger_parts4 [keeps_intros]: "keeps (ledger_is H K) (reassign_aliases_locked x y now)"
  unfolding reassign_aliases_locked_def by (intro keeps_intros)

lemma ledger_untouched [keeps_intros]:
  "keeps (ledger_is H K) (put_observation ob)" "keeps (ledger_is H K) (upsert_case p)"
  "keeps (ledger_is H K) (record_acknowledgement_scope cid t sev)"
  "keeps (ledger_is H K) (create_atomic_case c aliases es)"
  "keeps (ledger_is H K) (claim_investigation_store cid a b l w pv now e)"
  "keeps (ledger_is H K) (append_event e)" "keeps (ledger_is H K) (record_alias al)"
  "keeps (ledger_is H K) (link_child_case cid pid reason refs now)"
  "keeps (ledger_is H K) (update_outbox i)" "keeps (ledger_is H K) (update_outbox_if_status i st tk)"
  "keeps (ledger_is H K) (claim_attention i n secs)"
  "keeps (ledger_is H K) (complete_attention i d n x tk' eo)"
  "keeps (ledger_is H K) (record_handoff_delivery dl)"
  "keeps (ledger_is H K) (update_handoff_delivery dl)" "keeps (ledger_is H K) (claim_callback_event cb)"
  "keeps (ledger_is H K) (upsert_verification_objective v eo)"
  "keeps (ledger_is H K) (update_verification_objective_result v eo)"
  "keeps (ledger_is H K) (record_knowledge_artifact k eo)"
  "keeps (ledger_is H K) (update_knowledge_artifact k eo)"
  "keeps (ledger_is H K) (record_outcome oc eo)" "keeps (ledger_is H K) (record_feedback f)"
  "keeps (ledger_is H K) (record_trace_store tr)"
  unfolding put_observation_def upsert_case_def record_acknowledgement_scope_def
    create_atomic_case_def claim_investigation_store_def append_event_def record_alias_def Let_def
    link_child_case_def update_outbox_def update_outbox_if_status_def claim_attention_def
    complete_attention_def record_handoff_delivery_def update_handoff_delivery_def
    claim_callback_event_def upsert_verification_objective_def
    update_verification_objective_result_def record_knowledge_artifact_def
    update_knowledge_artifact_def record_outcome_def record_feedback_def record_trace_store_def
  by (intro keeps_intros; simp)+

lemma ledger_untouchedD:
  "(\<And>H K. keeps (ledger_is H K) m) \<Longrightarrow> st_handoffs (snd (m s)) = st_handoffs s \<and>
    st_handoff_keys (snd (m s)) = st_handoff_keys s"
  unfolding keeps_def ledger_is_def by blast

lemma ledger_tails [keeps_intros]:
  "keeps (ledger_is H K) (finish_create h c vs w e i)" "keeps (ledger_is H K) (finish_update u h c w' sh e)"
  "keeps (ledger_is H K) (finish_verified h now e)" "keeps (ledger_is H K) (finish_resolution c oc now e)"
  unfolding finish_create_def finish_update_def finish_verified_def finish_resolution_def
  by (intro keeps_intros; simp)+

subsection \<open>Operations that move a handoff\<close>

definition moved :: "case_handoff \<Rightarrow> handoff_status \<Rightarrow> string \<Rightarrow> case_handoff" where
  "moved h w t = h\<lparr>ho_status := w, ho_updated_at := t\<rparr>"

text \<open>The ledger after at most one move, of one stored handoff, along the table.\<close>

definition one_move :: "loop_name \<Rightarrow> (handoff_status \<Rightarrow> bool) \<Rightarrow> store \<Rightarrow> store \<Rightarrow> bool" where
  "one_move actor p s t \<longleftrightarrow> st_handoff_keys t = st_handoff_keys s \<and>
     (st_handoffs t = st_handoffs s \<or>
      (\<exists>hid h w x. dict_get (st_handoffs s) hid = Some h \<and> p w \<and>
         allowed_handoff_transition (ho_status h) w actor \<and>
         st_handoffs t = dict_set (ho_handoff_id h) (moved h w x) (st_handoffs s)))"

lemma one_move_refl: "st_handoffs t = st_handoffs s \<Longrightarrow> st_handoff_keys t = st_handoff_keys s
    \<Longrightarrow> one_move actor p s t"
  by (simp add: one_move_def)

lemma move_handoff_run:
  "\<exists>t. move_handoff h (moved h w x) s = (Inr (), t) \<and> st_handoff_keys t = st_handoff_keys s \<and>
     st_handoffs t = dict_set (ho_handoff_id h) (moved h w x) (st_handoffs s)"
  by (simp add: move_handoff_def seqM_app drop_active_handoff_def put_handoff_def moved_def)

lemma one_move_after:
  assumes "dict_get (st_handoffs s) hid = Some h" and "p w"
    and "allowed_handoff_transition (ho_status h) w actor"
    and "st_handoffs u = st_handoffs s" and "st_handoff_keys u = st_handoff_keys s"
    and "\<And>H K. keeps (ledger_is H K) rest"
  shows "one_move actor p s (snd (seqM (move_handoff h (moved h w x)) rest u))"
proof -
  obtain t where t: "move_handoff h (moved h w x) u = (Inr (), t)"
    "st_handoff_keys t = st_handoff_keys u"
    "st_handoffs t = dict_set (ho_handoff_id h) (moved h w x) (st_handoffs u)"
    using move_handoff_run by blast
  have "seqM (move_handoff h (moved h w x)) rest u = rest t" using t(1) by (simp add: seqM_app)
  then have "st_handoffs (snd (seqM (move_handoff h (moved h w x)) rest u)) =
      dict_set (ho_handoff_id h) (moved h w x) (st_handoffs s)"
    "st_handoff_keys (snd (seqM (move_handoff h (moved h w x)) rest u)) = st_handoff_keys s"
    using ledger_untouchedD [OF assms(6), of t] t assms(4,5) by simp_all
  with assms(1-3) show ?thesis unfolding one_move_def by blast
qed

lemma require_handoff_app: "require_handoff_locked hid s = (case dict_get (st_handoffs s) hid of
    Some h \<Rightarrow> (Inr h, s) | None \<Rightarrow> (Inl (KeyError (''handoff not found: '' @ hid)), s))"
  by (simp add: require_handoff_locked_def bindM_app split: option.split)

lemma require_case_app: "require_atomic_case_locked cid s = (case atomic_by_id s cid of
    Some c \<Rightarrow> (Inr c, s) | None \<Rightarrow> (Inl (KeyError (''atomic case not found: '' @ cid)), s))"
  by (simp add: require_atomic_case_locked_def bindM_app split: option.split)

lemma require_transition_app:
  "require_handoff_transition a b l s = (if allowed_handoff_transition a b l then (Inr (), s)
     else (Inl (ValueError (''invalid LHP handoff transition '' @ repr_str (handoff_status_str a) @
          '' -> '' @ repr_str (handoff_status_str b) @ '' for '' @ repr_str (loop_name_str l))), s))"
  by (simp add: require_handoff_transition_def)

lemma put_update_app: "put_update u s = (Inr (), s\<lparr>
     st_handoff_updates := dict_set (hu_update_id u) u (st_handoff_updates s),
     st_update_index :=
       dict_set (hu_source_loop u, hu_external_event_id u) (hu_update_id u) (st_update_index s)\<rparr>)"
  by (simp add: put_update_def)

lemma verified_moves:
  "one_move Loop_noc (\<lambda>w. w = HS_verified) s (snd (mark_handoff_verified hid now eo s))"
proof (cases "dict_get (st_handoffs s) hid")
  case None
  then show ?thesis
    by (simp add: mark_handoff_verified_def bindM_app require_handoff_app one_move_refl)
next
  case (Some h)
  let ?rest = "finish_verified (moved h HS_verified now) now eo"
  show ?thesis
  proof (cases "allowed_handoff_transition (ho_status h) HS_verified Loop_noc")
    case True
    have "mark_handoff_verified hid now eo s = seqM (move_handoff h (moved h HS_verified now)) ?rest s"
      using Some True
      by (simp add: mark_handoff_verified_def bindM_app require_handoff_app require_transition_app
          seqM_app moved_def Let_def)
    with one_move_after [OF Some, of "\<lambda>w. w = HS_verified" HS_verified Loop_noc s ?rest now] True
    show ?thesis using ledger_tails(3) by auto
  next
    case False
    with Some show ?thesis
      by (simp add: mark_handoff_verified_def bindM_app require_handoff_app require_transition_app
          seqM_app one_move_refl)
  qed
qed

lemma resolution_moves:
  "one_move Loop_noc (\<lambda>w. w = HS_resolved) s (snd (resolve_case_with_outcome cid hid oc now eo s))"
proof (cases "atomic_by_id s cid")
  case None
  then show ?thesis
    by (simp add: resolve_case_with_outcome_def bindM_app require_case_app one_move_refl)
next
  case (Some c)
  let ?rest = "finish_resolution c oc now eo"
  have run: "resolve_case_with_outcome cid hid oc now eo s =
      (if oc_work_item_id oc \<noteq> ac_case_id c
       then (Inl (ValueError ''outcome work_item_id must match case_id''), s)
       else seqM (if hid = [] then retM () else resolve_handoff hid now) ?rest s)"
    using Some by (simp add: resolve_case_with_outcome_def bindM_app require_case_app seqM_app)
  consider "oc_work_item_id oc \<noteq> ac_case_id c" | "oc_work_item_id oc = ac_case_id c" "hid = []"
    | "oc_work_item_id oc = ac_case_id c" "hid \<noteq> []" "dict_get (st_handoffs s) hid = None"
    | h where "oc_work_item_id oc = ac_case_id c" "hid \<noteq> []" "dict_get (st_handoffs s) hid = Some h"
      "\<not> allowed_handoff_transition (ho_status h) HS_resolved Loop_noc"
    | h where "oc_work_item_id oc = ac_case_id c" "hid \<noteq> []" "dict_get (st_handoffs s) hid = Some h"
      "allowed_handoff_transition (ho_status h) HS_resolved Loop_noc"
    by (cases "dict_get (st_handoffs s) hid") auto
  then show ?thesis
  proof cases
    case 2
    then show ?thesis
      using run ledger_untouchedD [OF ledger_tails(4), of c oc now eo s]
      by (simp add: seqM_app one_move_refl)
  next
    case (5 h)
    then have "resolve_case_with_outcome cid hid oc now eo s =
        seqM (move_handoff h (moved h HS_resolved now)) ?rest s"
      using run by (simp add: resolve_handoff_def bindM_app require_handoff_app
          require_transition_app seqM_app moved_def)
    with one_move_after [OF 5(3), of "\<lambda>w. w = HS_resolved" HS_resolved Loop_noc s ?rest now] 5
    show ?thesis using ledger_tails(4) by auto
  qed (use run in \<open>simp_all add: one_move_refl seqM_app resolve_handoff_def bindM_app
      require_handoff_app require_transition_app\<close>)
qed

lemma update_moves:
  "one_move (hu_source_loop u) (\<lambda>w. \<not> verifier_only_status w) s
     (snd (append_handoff_update u hs cs shown eo s))"
proof -
  let ?run = "append_handoff_update u hs cs shown eo s"
  let ?w = "case hs of Some w \<Rightarrow> w | None \<Rightarrow> hu_status u"
  show ?thesis
  proof (cases "idx_get (st_update_index s) (hu_source_loop u, hu_external_event_id u)")
    case (Some uid)
    then have "snd ?run = s"
      by (simp add: append_handoff_update_def bindM_app item_of_app require_handoff_app
          require_case_app split: option.split)
    then show ?thesis by (simp add: one_move_refl)
  next
    case None
    show ?thesis
    proof (cases "\<exists>h c. dict_get (st_handoffs s) (hu_handoff_id u) = Some h \<and>
        atomic_by_id s (ho_case_id h) = Some c \<and> \<not> verifier_only_status ?w \<and>
        allowed_handoff_transition (ho_status h) ?w (hu_source_loop u)")
      case False
      then have "snd ?run = s"
        using None
        by (auto simp: append_handoff_update_def bindM_app seqM_app require_handoff_app Let_def
            require_case_app require_transition_app split: option.split)
      then show ?thesis by (simp add: one_move_refl)
    next
      case True
      then obtain h c where h: "dict_get (st_handoffs s) (hu_handoff_id u) = Some h"
        "atomic_by_id s (ho_case_id h) = Some c" "\<not> verifier_only_status ?w"
        "allowed_handoff_transition (ho_status h) ?w (hu_source_loop u)" by blast
      let ?m = "moved h ?w (hu_created_at u)"
      let ?rest = "finish_update u ?m c cs shown eo"
      let ?s = "snd (put_update u s)"
      have "?run = seqM (move_handoff h ?m) ?rest ?s"
        using None h
        by (simp add: append_handoff_update_def bindM_app seqM_app require_handoff_app Let_def
            require_case_app require_transition_app put_update_app moved_def)
      moreover have "st_handoffs ?s = st_handoffs s" "st_handoff_keys ?s = st_handoff_keys s"
        by (simp_all add: put_update_app)
      ultimately show ?thesis
        using one_move_after [OF h(1), of "\<lambda>w. \<not> verifier_only_status w" ?w "hu_source_loop u" ?s ?rest
            "hu_created_at u"] h ledger_tails(2) by simp
    qed
  qed
qed

subsection \<open>Requests and their idempotency keys\<close>

definition requests_bound :: "store \<Rightarrow> bool" where
  "requests_bound s \<longleftrightarrow> (\<forall>hid h. hid \<noteq> [] \<longrightarrow> dict_get (st_handoffs s) hid = Some h
     \<longrightarrow> dict_get (st_handoff_keys s) (ho_idempotency_key h) = Some hid)"

definition created_under :: "case_handoff \<Rightarrow> store \<Rightarrow> store \<Rightarrow> bool" where
  "created_under h s t \<longleftrightarrow> idx_get (st_handoff_keys s) (ho_idempotency_key h) = None \<and>
     st_handoffs t = dict_set (ho_handoff_id h) h (st_handoffs s) \<and>
     st_handoff_keys t = dict_set (ho_idempotency_key h) (ho_handoff_id h) (st_handoff_keys s)"

lemma existing_handoff_None:
  assumes "existing_handoff_locked h s = (Inr None, t)"
  shows "t = s \<and> idx_get (st_handoff_keys s) (ho_idempotency_key h) = None \<and>
    idx_get (st_active_handoffs s) (handoff_key h) = None"
  using assms by (auto simp: existing_handoff_locked_def bindM_app item_of_app split: option.splits)

lemma existing_handoff_state: "snd (existing_handoff_locked h s) = s"
  by (simp add: existing_handoff_locked_def bindM_app item_of_app split: option.split)

lemma create_ledger:
  "let t = snd (create_handoff_with_objectives h vs cs eo io s) in
     (st_handoffs t = st_handoffs s \<and> st_handoff_keys t = st_handoff_keys s) \<or> created_under h s t"
proof -
  let ?run = "create_handoff_with_objectives h vs cs eo io s"
  consider "snd ?run = s" | c where "existing_handoff_locked h s = (Inr None, s)"
    "?run = seqM (put_new_handoff h) (finish_create h c vs cs eo io) s"
  proof (cases "length vs \<le> MAX_VERIFICATION_OBJECTIVES_PER_HANDOFF \<and> (\<exists>c. atomic_by_id s (ho_case_id h) = Some c)
      \<and> existing_handoff_locked h s = (Inr None, s)")
    case False
    then have "snd ?run = s"
      using existing_handoff_state [of h s]
      by (auto simp: create_handoff_with_objectives_def bindM_app require_case_app
          split: option.split prod.split sum.split)
    then show ?thesis using that(1) by simp
  next
    case True
    then show ?thesis
      using that(2)
      by (auto simp: create_handoff_with_objectives_def bindM_app require_case_app)
  qed
  then show ?thesis
  proof cases
    case 1
    then show ?thesis by simp
  next
    case (2 c)
    have "?run = finish_create h c vs cs eo io (snd (put_new_handoff h s))"
      using 2(2) by (simp add: seqM_app put_new_handoff_def put_handoff_def)
    then show ?thesis
      using existing_handoff_None [OF 2(1)] ledger_untouchedD [OF ledger_tails(1), of h c vs cs eo io
          "snd (put_new_handoff h s)"]
      by (simp add: created_under_def put_new_handoff_def put_handoff_def seqM_app)
  qed
qed

lemma ledger_stay:
  "t = snd (m s) \<Longrightarrow> (\<And>H K. keeps (ledger_is H K) m) \<Longrightarrow> one_move actor p s t"
  using ledger_untouchedD [of m s] by (simp add: one_move_refl)

lemma ledger_step:
  assumes "store_step s t"
  shows "one_move Loop_noc (\<lambda>_. True) s t \<or> (\<exists>h. created_under h s t)"
  using assms
proof (cases rule: store_step.cases)
  case (step_create_handoff h vs cs eo io)
  then show ?thesis using create_ledger [of h vs cs eo io s] by (auto simp: Let_def one_move_refl)
next
  case (step_handoff_update u hs cs shown eo)
  have "allowed_handoff_transition a w l \<Longrightarrow> allowed_handoff_transition a w Loop_noc" for a w l
    by (auto simp: allowed_handoff_transition_def split: if_splits)
  then have "one_move (hu_source_loop u) (\<lambda>w. \<not> verifier_only_status w) s t
      \<Longrightarrow> one_move Loop_noc (\<lambda>_. True) s t"
    unfolding one_move_def by blast
  then show ?thesis using step_handoff_update update_moves by blast
next
  case (step_verified hid now eo)
  then show ?thesis using verified_moves [of s hid now eo] unfolding one_move_def by blast
next
  case (step_outcome cid hid oc now eo)
  then show ?thesis using resolution_moves [of s cid hid oc now eo] unfolding one_move_def by blast
qed (rule disjI1, erule ledger_stay, intro keeps_intros)+

lemma requests_bound_step:
  assumes "store_ok s" and "requests_bound s" and "store_step s t" shows "requests_bound t"
proof -
  from ledger_step [OF assms(3)] consider "one_move Loop_noc (\<lambda>_. True) s t" | h where "created_under h s t"
    by blast
  then show ?thesis
  proof cases
    case 1
    show ?thesis
    proof (cases "st_handoffs t = st_handoffs s")
      case True
      with 1 assms(2) show ?thesis by (simp add: one_move_def requests_bound_def)
    next
      case False
      then obtain hid h w x where h: "dict_get (st_handoffs s) hid = Some h"
        "st_handoffs t = dict_set (ho_handoff_id h) (moved h w x) (st_handoffs s)"
        "st_handoff_keys t = st_handoff_keys s"
        using 1 unfolding one_move_def by blast
      moreover have "ho_handoff_id h = hid"
        using assms(1) h(1) by (auto simp: store_ok_def tables_ok_def dest: keyed_get)
      ultimately show ?thesis using assms(2) by (auto simp: requests_bound_def moved_def)
    qed
  next
    case (2 h)
    show ?thesis
      using assms(2) 2 by (auto simp: requests_bound_def created_under_def idx_get_def split: if_splits)
  qed
qed

lemma reachable_requests_bound: "reachable_store ids instants s \<Longrightarrow> requests_bound s"
proof (induction rule: reachable_store.induct)
  case reach_empty
  then show ?case by (simp add: requests_bound_def empty_store_def)
next
  case (reach_step s t)
  then show ?case using requests_bound_step reachable_ok by blast
qed

subsection \<open>The life cycle\<close>

text \<open>A store with one case, and a request for it.\<close>

definition demo_store :: store where
  "demo_store = (empty_store (\<lambda>_. ''0123456789abcdef'') (\<lambda>_. 0))
     \<lparr>st_cases := [(''case_1'', Atomic sample_case)]\<rparr>"

definition demo_handoff :: case_handoff where
  "demo_handoff = blank_handoff\<lparr>ho_handoff_id := ''h1'', ho_case_id := ''case_1'',
     ho_target_loop := Loop_engineering, ho_objective_key := ''o1'', ho_idempotency_key := ''k1'',
     ho_created_at := ''t1'', ho_updated_at := ''t1''\<rparr>"

lemma demo_store_reachable: "reachable_store (\<lambda>_. ''0123456789abcdef'') (\<lambda>_. 0) demo_store"
proof -
  let ?e = "empty_store (\<lambda>_. ''0123456789abcdef'') (\<lambda>_. 0)"
  have e: "demo_store = snd (upsert_case (Atomic sample_case) ?e)"
    by (simp add: upsert_case_def put_case_def seqM_app demo_store_def proj_case_id_def sample_case_def
        empty_store_def)
  show ?thesis unfolding e by (rule reach_step [OF reach_empty step_upsert_case])
qed

definition demo_created :: store where
  "demo_created = snd (create_handoff_with_objectives demo_handoff [] None None None demo_store)"

lemma demo_created_reachable: "reachable_store (\<lambda>_. ''0123456789abcdef'') (\<lambda>_. 0) demo_created"
  unfolding demo_created_def by (rule reach_step [OF demo_store_reachable step_create_handoff])

lemma demo_case: "atomic_by_id demo_store ''case_1'' = Some sample_case"
  by (simp add: demo_store_def atomic_by_id_def case_by_id_def)

lemma demo_no_handoff: "existing_handoff_locked demo_handoff demo_store = (Inr None, demo_store)"
  by (simp add: existing_handoff_locked_def bindM_app demo_store_def empty_store_def idx_get_def)

lemma create_run:
  assumes "length vs \<le> MAX_VERIFICATION_OBJECTIVES_PER_HANDOFF"
    and "atomic_by_id s (ho_case_id h) = Some c" and "existing_handoff_locked h s = (Inr None, s)"
  shows "create_handoff_with_objectives h vs cs eo io s =
    finish_create h c vs cs eo io (snd (put_new_handoff h s))"
  using assms
  by (simp add: create_handoff_with_objectives_def bindM_app require_case_app seqM_app
      put_new_handoff_def put_handoff_def)

lemma put_new_handoff_ledger:
  "st_handoffs (snd (put_new_handoff h s)) = dict_set (ho_handoff_id h) h (st_handoffs s)"
  "st_handoff_keys (snd (put_new_handoff h s)) =
     dict_set (ho_idempotency_key h) (ho_handoff_id h) (st_handoff_keys s)"
  "st_cases (snd (put_new_handoff h s)) = st_cases s"
  by (simp_all add: put_new_handoff_def put_handoff_def seqM_app)

lemma demo_created_handoff: "dict_get (st_handoffs demo_created) ''h1'' = Some demo_handoff"
proof -
  have "ho_case_id demo_handoff = ''case_1''" by (simp add: demo_handoff_def)
  then have "demo_created = snd (finish_create demo_handoff sample_case [] None None None
      (snd (put_new_handoff demo_handoff demo_store)))"
    using create_run [OF _ _ demo_no_handoff] demo_case by (simp add: demo_created_def)
  then have "st_handoffs demo_created =
      dict_set (ho_handoff_id demo_handoff) demo_handoff (st_handoffs demo_store)"
    using ledger_untouchedD [OF ledger_tails(1)] put_new_handoff_ledger by metis
  moreover have "ho_handoff_id demo_handoff = ''h1''" by (simp add: demo_handoff_def)
  ultimately show ?thesis by simp
qed

text \<open>What one step of the store makes of a stored handoff.\<close>

definition next_of :: "case_handoff \<Rightarrow> case_handoff \<Rightarrow> bool" where
  "next_of h h' \<longleftrightarrow> h' = h \<or>
     (\<exists>w x. h' = moved h w x \<and> allowed_handoff_transition (ho_status h) w Loop_noc)"

lemma next_of_same [simp]: "next_of h h"
  by (simp add: next_of_def)

lemma next_ofD:
  assumes "next_of h h'"
  shows "allowed_handoff_transition (ho_status h) (ho_status h') Loop_noc"
    and "terminal_handoff_status (ho_status h) \<Longrightarrow> ho_status h' = ho_status h"
    and "ho_case_id h' = ho_case_id h" and "ho_payload h' = ho_payload h"
    and "ho_idempotency_key h' = ho_idempotency_key h"
proof -
  show "allowed_handoff_transition (ho_status h) (ho_status h') Loop_noc"
    using assms by (auto simp: next_of_def moved_def allowed_handoff_transition_def)
  then show "terminal_handoff_status (ho_status h) \<Longrightarrow> ho_status h' = ho_status h"
    using terminal_absorbs [of "ho_status h"] by blast
qed (use assms in \<open>auto simp: next_of_def moved_def\<close>)

lemma handoff_kept_move:
  assumes "store_ok s" and "one_move Loop_noc (\<lambda>_. True) s t" and "dict_get (st_handoffs s) hid = Some h"
  shows "\<exists>h'. dict_get (st_handoffs t) hid = Some h' \<and> next_of h h'"
proof (cases "st_handoffs t = st_handoffs s")
  case True
  with assms(3) show ?thesis by auto
next
  case False
  then obtain k g w x where g: "dict_get (st_handoffs s) k = Some g"
    "allowed_handoff_transition (ho_status g) w Loop_noc"
    "st_handoffs t = dict_set (ho_handoff_id g) (moved g w x) (st_handoffs s)"
    using assms(2) unfolding one_move_def by blast
  have t: "st_handoffs t = dict_set k (moved g w x) (st_handoffs s)"
    using g(3) handoff_key_id [OF assms(1) g(1)] by simp
  show ?thesis using g(1,2) assms(3) by (cases "k = hid") (auto simp: t next_of_def)
qed

lemma handoff_kept:
  assumes "store_ok s" and "store_step s t" and "dict_get (st_handoffs s) hid = Some h"
  shows "\<exists>h'. dict_get (st_handoffs t) hid = Some h' \<and>
    (next_of h h' \<or> idx_get (st_handoff_keys s) (ho_idempotency_key h') = None)"
  using ledger_step [OF assms(2)]
proof (elim disjE exE)
  assume "one_move Loop_noc (\<lambda>_. True) s t"
  from handoff_kept_move [OF assms(1) this assms(3)] show ?thesis by blast
next
  fix g assume "created_under g s t"
  with assms(3) show ?thesis by (cases "ho_handoff_id g = hid") (auto simp: created_under_def)
qed

lemma handoff_key_kept:
  assumes "store_step s t" and "dict_get (st_handoff_keys s) k = Some hid" and "hid \<noteq> []"
  shows "dict_get (st_handoff_keys t) k = Some hid"
  using ledger_step [OF assms(1)] assms(2,3)
  by (auto simp: one_move_def created_under_def idx_get_def)

text \<open>
  Requests are unique: in a reachable store two handoffs with one idempotency key are the same.
\<close>

theorem handoff_requests_unique:
  assumes "reachable_store ids instants s"
    and "dict_get (st_handoffs s) hid = Some h" and "dict_get (st_handoffs s) hid' = Some h'"
    and "hid \<noteq> []" and "hid' \<noteq> []" and "ho_idempotency_key h = ho_idempotency_key h'"
  shows "hid = hid' \<and> h = h'"
  using reachable_requests_bound [OF assms(1)] assms(2-6) unfolding requests_bound_def
  by (metis option.inject)

theorem handoff_requests_unique_witness: "''h1'' = ''h1'' \<and> demo_handoff = demo_handoff"
  using handoff_requests_unique [OF demo_created_reachable demo_created_handoff demo_created_handoff]
  by blast

text \<open>
  C8: No update, of any loop and with any requested status, makes a handoff verified or resolved: a
  handoff that has such a status afterwards had it before.
\<close>

theorem updates_never_verify:
  assumes "store_ok s" and "append_handoff_update u hs cs shown eo s = (r, t)"
    and "dict_get (st_handoffs t) hid = Some h'" and "verifier_only_status (ho_status h')"
  shows "dict_get (st_handoffs s) hid = Some h'"
proof -
  have "one_move (hu_source_loop u) (\<lambda>w. \<not> verifier_only_status w) s t"
    using update_moves [of u s hs cs shown eo] assms(2) by simp
  then show ?thesis
    using assms(3,4) unfolding one_move_def by (auto simp: moved_def split: if_splits)
qed

theorem updates_never_verify_witness:
  "dict_get (st_handoffs (demo_store\<lparr>st_handoffs := [(''h1'', demo_handoff\<lparr>ho_status := HS_verified\<rparr>)]\<rparr>))
     ''h1'' = Some (demo_handoff\<lparr>ho_status := HS_verified\<rparr>)"
proof -
  let ?s = "demo_store\<lparr>st_handoffs := [(''h1'', demo_handoff\<lparr>ho_status := HS_verified\<rparr>)]\<rparr>"
  have ok: "store_ok ?s"
    using reachable_ok [OF demo_store_reachable]
    by (simp add: store_ok_def tables_ok_def indices_ok_def log_ok_def logged_def demo_store_def
        keyed_def demo_handoff_def empty_store_def)
  have run: "append_handoff_update (blank_handoff_update\<lparr>hu_handoff_id := ''x''\<rparr>) None None None None ?s
      = (Inl (KeyError ''handoff not found: x''), ?s)"
    by (simp add: append_handoff_update_def bindM_app require_handoff_app blank_handoff_update_def
        demo_store_def empty_store_def idx_get_def)
  show ?thesis
    by (rule updates_never_verify [OF ok run]) (simp_all add: verifier_only_status_def)
qed

subsection \<open>Updates are recorded once\<close>

lemma store_event_run: "\<exists>ev E C. store_event_locked e s = (Inr ev, s\<lparr>st_events := E, st_case_events := C\<rparr>)"
proof (cases "dict_get (st_events s) (ev_event_id e)")
  case None
  then show ?thesis by (auto simp: store_event_locked_def bindM_app seqM_app write_event_def)
next
  case (Some x)
  then have "store_event_locked e s = (Inr x, s\<lparr>st_events := st_events s, st_case_events := st_case_events s\<rparr>)"
    by (simp add: store_event_locked_def bindM_app)
  then show ?thesis by blast
qed

lemma store_event_opt_run:
  "\<exists>ev E C. store_event_opt eo s = (Inr ev, s\<lparr>st_events := E, st_case_events := C\<rparr>)"
proof (cases eo)
  case None
  then have "store_event_opt eo s = (Inr None, s\<lparr>st_events := st_events s, st_case_events := st_case_events s\<rparr>)"
    by (simp add: store_event_opt_def)
  then show ?thesis by blast
next
  case (Some e)
  obtain ev E C where "store_event_locked e s = (Inr ev, s\<lparr>st_events := E, st_case_events := C\<rparr>)"
    using store_event_run by blast
  then show ?thesis using Some by (auto simp: store_event_opt_def bindM_app)
qed

lemma put_atomic_app: "put_atomic c s = (Inr (), s\<lparr>st_cases := dict_set (ac_case_id c) (Atomic c) (st_cases s)\<rparr>)"
  by (simp add: put_atomic_def put_case_def proj_case_id_def)

lemma move_handoff_app: "move_handoff old h s = (Inr (), s\<lparr>
    st_handoffs := dict_set (ho_handoff_id h) h (st_handoffs s),
    st_active_handoffs := (if handoff_active (ho_status h) then dict_set (handoff_key h) (ho_handoff_id h)
      else id) (dict_pop (handoff_key old) (st_active_handoffs s))\<rparr>)"
  by (simp add: move_handoff_def seqM_app drop_active_handoff_def put_handoff_def)

lemma case_after_update_id [simp]: "ac_case_id (case_after_update c h sv cs shown now) = ac_case_id c"
  by (simp add: case_after_update_def Let_def)

text \<open>What a recorded update wrote.\<close>

lemma append_update_run:
  assumes "append_handoff_update u hs cs shown eo s = (Inr r, t)" and "hr_created r"
  obtains h c w ev E C where
    "idx_get (st_update_index s) (hu_source_loop u, hu_external_event_id u) = None"
    "w = (case hs of Some w \<Rightarrow> w | None \<Rightarrow> hu_status u)"
    "dict_get (st_handoffs s) (hu_handoff_id u) = Some h" "atomic_by_id s (ho_case_id h) = Some c"
    "\<not> verifier_only_status w" "allowed_handoff_transition (ho_status h) w (hu_source_loop u)"
    "hr_update r = u" "hr_handoff r = moved h w (hu_created_at u)"
    "hr_case r = case_after_update c (hr_handoff r) (surviving_handoff t (hr_handoff r)) cs shown
       (hu_created_at u)"
    "hr_event r = ev"
    "st_handoff_updates t = dict_set (hu_update_id u) u (st_handoff_updates s)"
    "st_update_index t =
       dict_set (hu_source_loop u, hu_external_event_id u) (hu_update_id u) (st_update_index s)"
    "st_handoffs t = dict_set (ho_handoff_id h) (hr_handoff r) (st_handoffs s)"
    "st_cases t = dict_set (ac_case_id c) (Atomic (hr_case r)) (st_cases s)"
    "st_events t = E" "st_case_events t = C"
proof -
  let ?run = "append_handoff_update u hs cs shown eo s"
  let ?w = "case hs of Some w \<Rightarrow> w | None \<Rightarrow> hu_status u"
  have n: "idx_get (st_update_index s) (hu_source_loop u, hu_external_event_id u) = None"
  proof (cases "idx_get (st_update_index s) (hu_source_loop u, hu_external_event_id u)")
    case (Some uid)
    with assms show ?thesis
      by (auto simp: append_handoff_update_def bindM_app item_of_app require_handoff_app
          require_case_app split: option.splits)
  qed
  obtain h where h: "dict_get (st_handoffs s) (hu_handoff_id u) = Some h"
    using assms(1) n by (cases "dict_get (st_handoffs s) (hu_handoff_id u)")
      (auto simp: append_handoff_update_def bindM_app require_handoff_app)
  obtain c where c: "atomic_by_id s (ho_case_id h) = Some c"
    using assms(1) n h by (cases "atomic_by_id s (ho_case_id h)")
      (auto simp: append_handoff_update_def bindM_app require_handoff_app require_case_app)
  have w: "\<not> verifier_only_status ?w" "allowed_handoff_transition (ho_status h) ?w (hu_source_loop u)"
    using assms(1) n h c
    by (auto simp: append_handoff_update_def bindM_app require_handoff_app require_case_app seqM_app
        require_transition_app Let_def split: if_splits)
  let ?m = "moved h ?w (hu_created_at u)"
  let ?s1 = "snd (move_handoff h ?m (snd (put_update u s)))"
  have run: "?run = finish_update u ?m c cs shown eo ?s1"
    using n h c w
    by (simp add: append_handoff_update_def bindM_app require_handoff_app require_case_app seqM_app
        require_transition_app Let_def put_update_app move_handoff_app moved_def)
  let ?c' = "case_after_update c ?m (surviving_handoff ?s1 ?m) cs shown (hu_created_at u)"
  obtain ev E C where e: "store_event_opt eo (snd (put_atomic ?c' ?s1)) =
      (Inr ev, (snd (put_atomic ?c' ?s1))\<lparr>st_events := E, st_case_events := C\<rparr>)"
    using store_event_opt_run by blast
  have rt: "r = \<lparr>hr_update = u, hr_handoff = ?m, hr_case = ?c', hr_event = ev, hr_created = True\<rparr>"
    "t = (snd (put_atomic ?c' ?s1))\<lparr>st_events := E, st_case_events := C\<rparr>"
    using assms(1) run e by (simp_all add: finish_update_def bindM_app seqM_app put_atomic_app)
  have ids: "ho_handoff_id ?m = ho_handoff_id h" by (simp add: moved_def)
  have "st_handoffs t = st_handoffs ?s1" using rt(2) by (simp add: put_atomic_app)
  then have "surviving_handoff t ?m = surviving_handoff ?s1 ?m" by (simp add: surviving_handoff_def)
  then show ?thesis
    using that [OF n refl h c w, of ev E C] rt ids
    by (simp add: put_atomic_app move_handoff_app put_update_app)
qed

text \<open>
  An update is recorded once per source loop and external event: a callback delivered again, whatever
  else it says, is answered with the recorded update and the handoff and case as they are, and writes
  nothing.
\<close>

lemma handoff_update_recorded_once:
  assumes "store_ok s" and "append_handoff_update u hs cs shown eo s = (Inr r, t)" and "hr_created r"
    and "hu_update_id u \<noteq> []"
    and "hu_source_loop v = hu_source_loop u" and "hu_external_event_id v = hu_external_event_id u"
  shows "append_handoff_update v hs' cs' shown' eo' t =
    (Inr (r\<lparr>hr_event := None, hr_created := False\<rparr>), t)"
proof -
  from append_update_run [OF assms(2,3)] obtain h c w where
    h: "dict_get (st_handoffs s) (hu_handoff_id u) = Some h" "atomic_by_id s (ho_case_id h) = Some c"
    "hr_update r = u" "hr_handoff r = moved h w (hu_created_at u)" "ac_case_id (hr_case r) = ac_case_id c"
    "st_handoff_updates t = dict_set (hu_update_id u) u (st_handoff_updates s)"
    "st_update_index t =
       dict_set (hu_source_loop u, hu_external_event_id u) (hu_update_id u) (st_update_index s)"
    "st_handoffs t = dict_set (ho_handoff_id h) (hr_handoff r) (st_handoffs s)"
    "st_cases t = dict_set (ac_case_id c) (Atomic (hr_case r)) (st_cases s)"
    by (metis case_after_update_id)
  have ids: "ho_handoff_id h = hu_handoff_id u" "ac_case_id c = ho_case_id h"
    using handoff_key_id [OF assms(1) h(1)] atomic_by_id_key [OF assms(1) h(2)] by simp_all
  have "ho_case_id (hr_handoff r) = ho_case_id h" by (simp add: h(4) moved_def)
  moreover have "atomic_by_id t (ho_case_id h) = Some (hr_case r)"
    using h(9) ids by (simp add: atomic_by_id_def case_by_id_def)
  moreover have "r\<lparr>hr_event := None, hr_created := False\<rparr> = \<lparr>hr_update = u, hr_handoff = hr_handoff r,
      hr_case = hr_case r, hr_event = None, hr_created = False\<rparr>"
    using h(3) by (cases r) simp
  ultimately show ?thesis
    using assms(4-6) h ids
    by (simp add: append_handoff_update_def bindM_app item_of_app require_handoff_app require_case_app
        idx_get_set)
qed

lemma append_update_succeeds:
  assumes "idx_get (st_update_index s) (hu_source_loop u, hu_external_event_id u) = None"
    and "dict_get (st_handoffs s) (hu_handoff_id u) = Some h"
    and "atomic_by_id s (ho_case_id h) = Some c"
    and "\<not> verifier_only_status (hu_status u)"
    and "allowed_handoff_transition (ho_status h) (hu_status u) (hu_source_loop u)"
  shows "\<exists>r t. append_handoff_update u None cs shown eo s = (Inr r, t) \<and> hr_created r"
proof -
  let ?m = "moved h (hu_status u) (hu_created_at u)"
  let ?s1 = "snd (move_handoff h ?m (snd (put_update u s)))"
  have run: "append_handoff_update u None cs shown eo s = finish_update u ?m c cs shown eo ?s1"
    using assms
    by (simp add: append_handoff_update_def bindM_app require_handoff_app require_case_app seqM_app
        require_transition_app Let_def put_update_app move_handoff_app moved_def)
  let ?c' = "case_after_update c ?m (surviving_handoff ?s1 ?m) cs shown (hu_created_at u)"
  obtain ev E C where "store_event_opt eo (snd (put_atomic ?c' ?s1)) =
      (Inr ev, (snd (put_atomic ?c' ?s1))\<lparr>st_events := E, st_case_events := C\<rparr>)"
    using store_event_opt_run by blast
  then show ?thesis
    unfolding run by (auto simp: finish_update_def bindM_app seqM_app put_atomic_app)
qed

lemma demo_created_parts:
  "st_update_index demo_created = []"
  "atomic_by_id demo_created ''case_1'' = Some (sample_case\<lparr>ac_handoff_status := ''requested'',
     ac_last_handoff_at := ''t1'', ac_updated_at := ''t1''\<rparr>)"
proof -
  have "ho_case_id demo_handoff = ''case_1''" by (simp add: demo_handoff_def)
  then have e: "demo_created = snd (finish_create demo_handoff sample_case [] None None None
      (snd (put_new_handoff demo_handoff demo_store)))"
    using create_run [OF _ _ demo_no_handoff] demo_case by (simp add: demo_created_def)
  show "st_update_index demo_created = []"
    "atomic_by_id demo_created ''case_1'' = Some (sample_case\<lparr>ac_handoff_status := ''requested'',
     ac_last_handoff_at := ''t1'', ac_updated_at := ''t1''\<rparr>)"
    unfolding e
    by (simp_all add: finish_create_def bindM_app seqM_app put_atomic_app store_event_opt_def
        enqueue_outbox_opt_def put_new_handoff_def put_handoff_def demo_store_def empty_store_def
        atomic_by_id_def case_by_id_def sample_case_def demo_handoff_def blank_handoff_def Let_def)
qed

definition demo_update :: handoff_update where
  "demo_update = sample_update\<lparr>hu_update_id := ''hu1'', hu_handoff_id := ''h1'',
     hu_created_at := ''t2''\<rparr>"

lemma demo_update_applies:
  "\<exists>r t. append_handoff_update demo_update None None None None demo_created = (Inr r, t) \<and> hr_created r"
proof (rule append_update_succeeds)
  show "idx_get (st_update_index demo_created)
      (hu_source_loop demo_update, hu_external_event_id demo_update) = None"
    by (simp add: demo_created_parts idx_get_def)
  show "dict_get (st_handoffs demo_created) (hu_handoff_id demo_update) = Some demo_handoff"
    using demo_created_handoff by (simp add: demo_update_def)
  show "atomic_by_id demo_created (ho_case_id demo_handoff) = Some (sample_case\<lparr>
      ac_handoff_status := ''requested'', ac_last_handoff_at := ''t1'', ac_updated_at := ''t1''\<rparr>)"
    using demo_created_parts by (simp add: demo_handoff_def)
qed (simp_all add: demo_update_def sample_update_def blank_handoff_update_def demo_handoff_def
    blank_handoff_def verifier_only_status_def allowed_handoff_transition_def)

lemma handoff_update_recorded_once_witness:
  "\<exists>r t. append_handoff_update demo_update None None None None demo_created = (Inr r, t) \<and>
     append_handoff_update (demo_update\<lparr>hu_status := HS_failed\<rparr>) None None None None t =
       (Inr (r\<lparr>hr_event := None, hr_created := False\<rparr>), t)"
proof -
  obtain r t where rt: "append_handoff_update demo_update None None None None demo_created = (Inr r, t)"
    "hr_created r" using demo_update_applies by blast
  have "hu_update_id demo_update \<noteq> []" by (simp add: demo_update_def)
  from handoff_update_recorded_once [OF reachable_ok [OF demo_created_reachable] rt this,
      of "demo_update\<lparr>hu_status := HS_failed\<rparr>"] rt(1)
  show ?thesis by auto
qed

text \<open>
  When the last open handoff of a case ends, by cancellation or expiry, a case that is not itself
  closed goes back to investigating; while another handoff of the case is open, the case shows the status of
  the one updated last; and a case that is resolved, closed, expired or linked is not reopened.
\<close>

theorem ended_handoff_updates_case:
  assumes "append_handoff_update u hs cs shown eo s = (Inr r, t)" and "hr_created r"
    and "terminal_handoff_status (ho_status (hr_handoff r))"
  shows "\<exists>c. atomic_by_id s (ho_case_id (hr_handoff r)) = Some c \<and>
    (terminal_case_status (ac_status c) \<longrightarrow> ac_status (hr_case r) = ac_status c) \<and>
    (\<not> terminal_case_status (ac_status c) \<longrightarrow>
       (case surviving_handoff t (hr_handoff r) of
          None \<Rightarrow> ac_status (hr_case r) = CS_investigating \<and>
            \<not> (\<exists>x \<in> set (dict_values (st_handoffs t)). ho_case_id x = ho_case_id (hr_handoff r) \<and>
                 ho_handoff_id x \<noteq> ho_handoff_id (hr_handoff r) \<and>
                 \<not> terminal_handoff_status (ho_status x))
        | Some x \<Rightarrow> ac_status (hr_case r) = case_status_for_handoff (ho_status x) \<and>
            ac_handoff_status (hr_case r) = handoff_status_str (ho_status x) \<and>
            \<not> terminal_handoff_status (ho_status x) \<and> ho_case_id x = ho_case_id (hr_handoff r)))"
proof -
  from append_update_run [OF assms(1,2)] obtain h c w where
    c: "atomic_by_id s (ho_case_id h) = Some c" "hr_handoff r = moved h w (hu_created_at u)"
    "hr_case r = case_after_update c (hr_handoff r) (surviving_handoff t (hr_handoff r)) cs shown
       (hu_created_at u)" by metis
  have "ho_case_id (hr_handoff r) = ho_case_id h" using c(2) by (simp add: moved_def)
  moreover have "surviving_handoff t (hr_handoff r) = Some x \<Longrightarrow>
      \<not> terminal_handoff_status (ho_status x) \<and> ho_case_id x = ho_case_id (hr_handoff r)" for x
    unfolding surviving_handoff_def by (auto dest!: max_by_Some)
  moreover have "surviving_handoff t (hr_handoff r) = None \<Longrightarrow>
      \<not> (\<exists>x \<in> set (dict_values (st_handoffs t)). ho_case_id x = ho_case_id (hr_handoff r) \<and>
         ho_handoff_id x \<noteq> ho_handoff_id (hr_handoff r) \<and> \<not> terminal_handoff_status (ho_status x))"
    unfolding surviving_handoff_def by (auto simp: filter_empty_conv)
  ultimately show ?thesis
    using assms(3) c(1,3)
    by (intro exI [of _ c]) (auto simp: case_after_update_def Let_def split: option.split)
qed

definition demo_cancel :: handoff_update where
  "demo_cancel = demo_update\<lparr>hu_source_loop := Loop_noc, hu_status := HS_cancelled\<rparr>"

lemma demo_cancel_applies:
  obtains r t where "append_handoff_update demo_cancel None None None None demo_created = (Inr r, t)"
    "hr_created r" "terminal_handoff_status (ho_status (hr_handoff r))"
proof -
  have "\<exists>r t. append_handoff_update demo_cancel None None None None demo_created = (Inr r, t) \<and> hr_created r"
  proof (rule append_update_succeeds)
    show "idx_get (st_update_index demo_created)
        (hu_source_loop demo_cancel, hu_external_event_id demo_cancel) = None"
      by (simp add: demo_created_parts idx_get_def)
    show "dict_get (st_handoffs demo_created) (hu_handoff_id demo_cancel) = Some demo_handoff"
      using demo_created_handoff by (simp add: demo_update_def demo_cancel_def)
    show "atomic_by_id demo_created (ho_case_id demo_handoff) = Some (sample_case\<lparr>
        ac_handoff_status := ''requested'', ac_last_handoff_at := ''t1'', ac_updated_at := ''t1''\<rparr>)"
      using demo_created_parts by (simp add: demo_handoff_def)
  qed (simp_all add: demo_cancel_def demo_handoff_def
      blank_handoff_def verifier_only_status_def allowed_handoff_transition_def)
  then obtain r t where rt: "append_handoff_update demo_cancel None None None None demo_created = (Inr r, t)"
    "hr_created r" by blast
  obtain h w where "hr_handoff r = moved h w (hu_created_at demo_cancel)" "w = hu_status demo_cancel"
    using append_update_run [OF rt] by (metis option.simps(4))
  then have "ho_status (hr_handoff r) = HS_cancelled" by (simp add: moved_def demo_cancel_def)
  then show ?thesis using that [OF rt] by (simp add: terminal_handoff_status_def)
qed

theorem ended_handoff_updates_case_witness:
  "\<exists>r t c. append_handoff_update demo_cancel None None None None demo_created = (Inr r, t) \<and>
     atomic_by_id demo_created (ho_case_id (hr_handoff r)) = Some c"
proof -
  obtain r t where rt: "append_handoff_update demo_cancel None None None None demo_created = (Inr r, t)"
    "hr_created r" "terminal_handoff_status (ho_status (hr_handoff r))"
    by (rule demo_cancel_applies)
  show ?thesis using rt(1) ended_handoff_updates_case [OF rt] by auto
qed

subsection \<open>What a failing operation leaves behind\<close>

text \<open>
  Creating a handoff is not atomic: when an objective belongs to another case the call raises after the
  handoff was stored, without an event, an intent or a change of the case; and the retry with the
  objective put right is then answered as a duplicate, so the case never shows the request, the
  event is never appended and the delivery is never enqueued.
\<close>

theorem create_handoff_not_atomic:
  assumes "store_ok s" and "atomic_by_id s (ho_case_id h) = Some c"
    and "existing_handoff_locked h s = (Inr None, s)"
    and "vo_case_id v \<noteq> ho_case_id h" and "ho_handoff_id h \<noteq> []"
    and "length vs \<le> MAX_VERIFICATION_OBJECTIVES_PER_HANDOFF"
  shows "\<exists>t. create_handoff_with_objectives h [v] cs eo io s =
      (Inl (ValueError ''verification objective case_id must match handoff case_id''), t) \<and>
    dict_get (st_handoffs t) (ho_handoff_id h) = Some h \<and> st_cases t = st_cases s \<and>
    st_events t = st_events s \<and> st_outbox t = st_outbox s \<and>
    (\<exists>r. create_handoff_with_objectives h vs cs eo io t = (Inr r, t) \<and> \<not> hc_created r \<and>
       hc_handoff r = h \<and> hc_case r = c \<and> hc_event r = None \<and> hc_outbox_intent r = None)"
proof -
  let ?t = "snd (put_new_handoff h s)"
  have run: "create_handoff_with_objectives h [v] cs eo io s =
      (Inl (ValueError ''verification objective case_id must match handoff case_id''), ?t)"
    using create_run [OF _ assms(2,3), of "[v]"] assms(4)
    by (simp add: finish_create_def bindM_app store_handoff_objective_def
        MAX_VERIFICATION_OBJECTIVES_PER_HANDOFF_def)
  have t: "dict_get (st_handoffs ?t) (ho_handoff_id h) = Some h" "st_cases ?t = st_cases s"
    "st_events ?t = st_events s" "st_outbox ?t = st_outbox s"
    "idx_get (st_handoff_keys ?t) (ho_idempotency_key h) = Some (ho_handoff_id h)"
    using assms(5) by (simp_all add: put_new_handoff_def put_handoff_def seqM_app idx_get_set)
  have "existing_handoff_locked h ?t = (Inr (Some h), ?t)"
    using t by (simp add: existing_handoff_locked_def bindM_app item_of_app)
  moreover have "atomic_by_id ?t (ho_case_id h) = Some c"
    using assms(2) t(2) by (simp add: atomic_by_id_def case_by_id_def)
  ultimately have "\<exists>r. create_handoff_with_objectives h vs cs eo io ?t = (Inr r, ?t) \<and>
      \<not> hc_created r \<and> hc_handoff r = h \<and> hc_case r = c \<and> hc_event r = None \<and> hc_outbox_intent r = None"
    using assms(6) by (simp add: create_handoff_with_objectives_def bindM_app require_case_app)
  with run t show ?thesis by blast
qed

theorem create_handoff_not_atomic_witness:
  "\<exists>t. create_handoff_with_objectives demo_handoff [sample_objective\<lparr>vo_case_id := ''case_2''\<rparr>]
       None None None demo_store =
     (Inl (ValueError ''verification objective case_id must match handoff case_id''), t) \<and>
   dict_get (st_handoffs t) ''h1'' = Some demo_handoff"
proof -
  have c: "atomic_by_id demo_store (ho_case_id demo_handoff) = Some sample_case"
    using demo_case by (simp add: demo_handoff_def)
  have v: "vo_case_id (sample_objective\<lparr>vo_case_id := ''case_2''\<rparr>) \<noteq> ho_case_id demo_handoff"
    "ho_handoff_id demo_handoff = ''h1''"
    by (simp_all add: demo_handoff_def)
  have "length [] \<le> MAX_VERIFICATION_OBJECTIVES_PER_HANDOFF" by simp
  from create_handoff_not_atomic [where cs = None and eo = None and io = None,
      OF reachable_ok [OF demo_store_reachable] c demo_no_handoff v(1) _ this] v(2)
  show ?thesis by auto
qed

text \<open>
  Resolving a case with an outcome does not look whose handoff it resolves: a verified handoff of
  another case is resolved with it, and its own case keeps the status it had.
\<close>

theorem outcome_resolves_foreign_handoff:
  assumes "store_ok s" and "atomic_by_id s cid = Some c" and "oc_work_item_id oc = cid"
    and "dict_get (st_handoffs s) hid = Some h" and "hid \<noteq> []" and "ho_status h = HS_verified"
    and "ho_case_id h \<noteq> cid"
  shows "\<exists>r t. resolve_case_with_outcome cid hid oc now eo s = (Inr r, t) \<and>
    ac_status r = CS_resolved \<and> atomic_by_id t cid = Some r \<and>
    (\<exists>h'. dict_get (st_handoffs t) hid = Some h' \<and> ho_status h' = HS_resolved \<and>
       ho_case_id h' = ho_case_id h) \<and>
    case_by_id t (ho_case_id h) = case_by_id s (ho_case_id h)"
proof -
  let ?m = "h\<lparr>ho_status := HS_resolved, ho_updated_at := now\<rparr>"
  let ?s1 = "(snd (move_handoff h ?m s))\<lparr>st_outcomes := dict_set (oc_outcome_id oc) oc
    (st_outcomes (snd (move_handoff h ?m s)))\<rparr>"
  let ?c = "c\<lparr>ac_status := CS_resolved, ac_resolved_at := Some now,
    ac_resolution_reason := ''lhp_outcome_verified'', ac_updated_at := now\<rparr>"
  have ids: "ho_handoff_id h = hid" "ac_case_id c = cid"
    using handoff_key_id [OF assms(1,4)] atomic_by_id_key [OF assms(1,2)] by simp_all
  have ok: "allowed_handoff_transition HS_verified HS_resolved Loop_noc"
    by (simp add: allowed_handoff_transition_def)
  obtain ev E C where e: "store_event_opt eo (snd (put_atomic ?c ?s1)) =
      (Inr ev, (snd (put_atomic ?c ?s1))\<lparr>st_events := E, st_case_events := C\<rparr>)"
    using store_event_opt_run by blast
  have "resolve_case_with_outcome cid hid oc now eo s =
      (Inr ?c, (snd (put_atomic ?c ?s1))\<lparr>st_events := E, st_case_events := C\<rparr>)"
    using assms(2-6) ids ok e
    by (simp add: resolve_case_with_outcome_def resolve_handoff_def finish_resolution_def bindM_app
        seqM_app require_case_app require_handoff_app require_transition_app move_handoff_app
        put_atomic_app Let_def)
  then show ?thesis
    using ids assms(7)
    by (simp add: put_atomic_app move_handoff_app atomic_by_id_def case_by_id_def)
qed

theorem outcome_resolves_foreign_handoff_witness:
  "\<exists>r t. resolve_case_with_outcome ''case_1'' ''h9'' (blank_outcome\<lparr>oc_work_item_id := ''case_1''\<rparr>) ''t3'' None
     (demo_store\<lparr>st_handoffs := [(''h9'', demo_handoff\<lparr>ho_handoff_id := ''h9'', ho_case_id := ''case_2'',
        ho_status := HS_verified\<rparr>)]\<rparr>) = (Inr r, t) \<and> ac_status r = CS_resolved"
proof -
  let ?h = "demo_handoff\<lparr>ho_handoff_id := ''h9'', ho_case_id := ''case_2'', ho_status := HS_verified\<rparr>"
  let ?s = "demo_store\<lparr>st_handoffs := [(''h9'', ?h)]\<rparr>"
  have ok: "store_ok ?s"
    using reachable_ok [OF demo_store_reachable]
    by (simp add: store_ok_def tables_ok_def indices_ok_def log_ok_def logged_def demo_store_def
        keyed_def empty_store_def)
  have c: "atomic_by_id ?s ''case_1'' = Some sample_case"
    using demo_case by (simp add: atomic_by_id_def case_by_id_def)
  show ?thesis
    using outcome_resolves_foreign_handoff [OF ok c, of "blank_outcome\<lparr>oc_work_item_id := ''case_1''\<rparr>"
        "''h9''" ?h "''t3''" None] by auto
qed

end
