(* ===== verification/Outbox.thy ===== *)
theory Outbox
  imports Store_Spec
begin

section \<open>The outbox worker (app/cases/outbox.py)\<close>

text \<open>
  \<open>OutboxProcessor\<close>: it claims an intent by compare-and-set on its status and claim token, runs the
  handler of its type, and writes the outcome by compare-and-set on the token of its own claim. The
  handlers are the code of other modules and of transports: they are computations of the store given
  as a dictionary, and the deadline of 180 seconds around a report handler is one of the exceptions
  the handler ends with. The metric counters are not modelled.
\<close>

subsection \<open>Results and reports\<close>

record outbox_handler_result =
  hx_external_id :: string
  hx_external_url :: string
  hx_payload_updates :: jdict
  hx_attention_delivery :: "attention_delivery option"
  hx_attention_lease_token :: string
  hx_report_event :: "case_event option"

definition blank_result :: outbox_handler_result where
  "blank_result = \<lparr>hx_external_id = [], hx_external_url = [], hx_payload_updates = [],
     hx_attention_delivery = None, hx_attention_lease_token = [], hx_report_event = None\<rparr>"

record outbox_process_report =
  pr_processed :: nat
  pr_succeeded :: nat
  pr_failed :: nat
  pr_skipped :: nat

definition blank_report :: outbox_process_report where
  "blank_report = \<lparr>pr_processed = 0, pr_succeeded = 0, pr_failed = 0, pr_skipped = 0\<rparr>"

type_synonym outbox_handler = "outbox_intent \<Rightarrow> outbox_handler_result option st"

record outbox_processor =
  op_handlers :: "(string, outbox_handler) dict"
  op_retry_backoff_s :: int

text \<open>\<open>f"{type(exc).__name__}: {exc}"\<close>; a \<open>KeyError\<close> prints the repr of its argument.\<close>

fun exn_text :: "exn \<Rightarrow> string" where
  "exn_text (ValueError m) = ''ValueError: '' @ m"
| "exn_text (KeyError k) = ''KeyError: '' @ repr_str k"
| "exn_text (TypeError m) = ''TypeError: '' @ m"
| "exn_text (RuntimeError m) = ''RuntimeError: '' @ m"
| "exn_text (OverflowError m) = ''OverflowError: '' @ m"
| "exn_text (OtherError c m) = c @ '': '' @ m"

subsection \<open>Which intents are due\<close>

text \<open>A time without an offset counts as UTC; an unreadable one is due.\<close>

definition is_due :: "instant \<Rightarrow> outbox_intent \<Rightarrow> bool" where
  "is_due now i \<longleftrightarrow>
     ob_next_attempt_at i = [] \<or>
     (case fromisoformat (zulu (ob_next_attempt_at i)) of
        None \<Rightarrow> True | Some d \<Rightarrow> pydt_instant d \<le> now)"

text \<open>\<open>datetime + timedelta\<close>: the local time must stay in the calendar.\<close>

definition pydt_plus :: "pydt \<Rightarrow> int \<Rightarrow> exn + pydt" where
  "pydt_plus d us =
     (if valid_instant (dt_local d + us) then Inr (d\<lparr>dt_local := dt_local d + us\<rparr>)
      else Inl (OverflowError ''date value out of range''))"

definition lease_us :: int where
  "lease_us = 600 * second_us"

text \<open>
  The handler around the comparison catches \<open>ValueError\<close> and \<open>TypeError\<close>, so an overflow of the
  legacy lease escapes.
\<close>

definition claim_expired :: "instant \<Rightarrow> outbox_intent \<Rightarrow> exn + bool" where
  "claim_expired now i =
     (let leased = opt_truthy (ob_claim_expires_at i);
          v = (if leased then the (ob_claim_expires_at i) else ob_created_at i)
      in case fromisoformat (zulu v) of
           None \<Rightarrow> Inr False
         | Some d \<Rightarrow>
             if leased then Inr (pydt_instant d \<le> now)
             else (case pydt_plus d lease_us of
                     Inl e \<Rightarrow> Inl e | Inr d' \<Rightarrow> Inr (pydt_instant d' \<le> now)))"

definition return_expired_claim :: "instant \<Rightarrow> outbox_intent \<Rightarrow> unit st" where
  "return_expired_claim now i =
     (if ob_intent_type i \<noteq> OI_report then retM ()
      else bindM (liftM (claim_expired now i)) (\<lambda>gone.
        if \<not> gone then retM ()
        else bindM utc_now (\<lambda>t.
          seqM (update_outbox_if_status (i\<lparr>ob_status := OS_pending, ob_next_attempt_at := t,
              ob_error := ''Notification claim expired; retrying''\<rparr>) OS_in_progress
              (Some (ob_claim_token i)))
            (retM ()))))"

definition return_expired_claims :: "unit st" where
  "return_expired_claims =
     bindM dt_now (\<lambda>now.
     bindM (list_outbox (Some ''in_progress'')) (\<lambda>rows.
     seqM (mapM (return_expired_claim now) rows) (retM ())))"

definition due_intents :: "outbox_processor \<Rightarrow> outbox_intent list st" where
  "due_intents p =
     seqM (whenM (dict_get (op_handlers p) ''report'' \<noteq> None) return_expired_claims)
     (bindM (list_outbox (Some ''pending'')) (\<lambda>pending.
      bindM (list_outbox (Some ''failed'')) (\<lambda>failed.
      bindM dt_now (\<lambda>now. retM (pending @ filter (is_due now) failed)))))"

subsection \<open>Processing an intent\<close>

text \<open>The claim: attempts counted, a fresh token, a lease of ten minutes.\<close>

definition claim_intent :: "outbox_intent \<Rightarrow> outbox_intent option st" where
  "claim_intent i =
     bindM uuid4_hex (\<lambda>token.
     bindM dt_now (\<lambda>now.
     bindM (liftM (instant_plus now lease_us)) (\<lambda>expires.
       update_outbox_if_status (i\<lparr>ob_status := OS_in_progress, ob_attempts := ob_attempts i + 1,
         ob_claim_token := token, ob_claim_expires_at := Some (isoformat expires)\<rparr>)
         (ob_status i) (Some (ob_claim_token i)))))"

definition next_attempt :: "int \<Rightarrow> instant \<Rightarrow> exn + string" where
  "next_attempt backoff now =
     (case timedelta_seconds backoff of
        Inl e \<Rightarrow> Inl e
      | Inr us \<Rightarrow> (case instant_plus now us of Inl e \<Rightarrow> Inl e | Inr t \<Rightarrow> Inr (isoformat t)))"

text \<open>The outcome of a claimed intent: the stored row, or None when the claim was lost meanwhile.\<close>

definition record_failure :: "int \<Rightarrow> outbox_intent \<Rightarrow> exn \<Rightarrow> outbox_intent option st" where
  "record_failure backoff claimed e =
     bindM dt_now (\<lambda>now.
     bindM (liftM (next_attempt backoff now)) (\<lambda>retry_at.
       update_outbox_if_status (claimed\<lparr>ob_status := OS_failed, ob_error := exn_text e,
         ob_next_attempt_at := retry_at\<rparr>) OS_in_progress (Some (ob_claim_token claimed))))"

definition completed_intent ::
  "outbox_intent \<Rightarrow> string \<Rightarrow> outbox_handler_result option \<Rightarrow> outbox_intent" where
  "completed_intent claimed now r =
     (let base = claimed\<lparr>ob_status := OS_succeeded, ob_completed_at := Some now, ob_error := []\<rparr>
      in case r of
           None \<Rightarrow> base
         | Some x \<Rightarrow> base\<lparr>ob_external_id := hx_external_id x, ob_external_url := hx_external_url x,
             ob_payload := dict_update (ob_payload claimed) (hx_payload_updates x)\<rparr>)"

definition record_completion ::
  "outbox_intent \<Rightarrow> outbox_handler_result option \<Rightarrow> outbox_intent option st" where
  "record_completion claimed r =
     bindM utc_now (\<lambda>now.
     let completed = completed_intent claimed now r;
         plain = update_outbox_if_status completed OS_in_progress (Some (ob_claim_token claimed))
     in case r of
          None \<Rightarrow> plain
        | Some x \<Rightarrow> (case hx_attention_delivery x of
            None \<Rightarrow> plain
          | Some d \<Rightarrow> complete_attention completed d (ad_sequence d - 1)
              (ob_claim_token claimed) (hx_attention_lease_token x) (hx_report_event x)))"

datatype intent_outcome = IO_skipped | IO_lost | IO_failed | IO_succeeded

text \<open>
  Run the handler: what it raises becomes a failed row, and its effects on the store before the raise
  stay. Errors of the bookkeeping around it are not caught.
\<close>

definition tryM :: "('s, 'a) comp \<Rightarrow> ('s, exn + 'a) comp" where
  "tryM m = (\<lambda>s. case m s of (r, t) \<Rightarrow> (Inr r, t))"

definition run_claimed :: "int \<Rightarrow> outbox_handler \<Rightarrow> outbox_intent \<Rightarrow> intent_outcome st" where
  "run_claimed backoff handler claimed =
     bindM (tryM (handler claimed)) (\<lambda>result.
     case result of
       Inl e \<Rightarrow> bindM (record_failure backoff claimed e) (\<lambda>stored.
         retM (if stored = None then IO_lost else IO_failed))
     | Inr r \<Rightarrow> bindM (record_completion claimed r) (\<lambda>stored.
         retM (if stored = None then IO_lost else IO_succeeded)))"

definition process_one :: "outbox_processor \<Rightarrow> outbox_intent \<Rightarrow> intent_outcome st" where
  "process_one p i =
     (case dict_get (op_handlers p) (outbox_intent_type_str (ob_intent_type i)) of
        None \<Rightarrow> retM IO_skipped
      | Some handler \<Rightarrow> bindM (claim_intent i) (\<lambda>stored_claim.
          case stored_claim of
            None \<Rightarrow> retM IO_skipped
          | Some claimed \<Rightarrow> run_claimed (op_retry_backoff_s p) handler claimed))"

fun count_outcome :: "intent_outcome \<Rightarrow> outbox_process_report \<Rightarrow> outbox_process_report" where
  "count_outcome IO_skipped r = r\<lparr>pr_skipped := pr_skipped r + 1\<rparr>"
| "count_outcome IO_lost r = r\<lparr>pr_processed := pr_processed r + 1, pr_skipped := pr_skipped r + 1\<rparr>"
| "count_outcome IO_failed r = r\<lparr>pr_processed := pr_processed r + 1, pr_failed := pr_failed r + 1\<rparr>"
| "count_outcome IO_succeeded r =
     r\<lparr>pr_processed := pr_processed r + 1, pr_succeeded := pr_succeeded r + 1\<rparr>"

definition process_next ::
  "outbox_processor \<Rightarrow> outbox_intent \<Rightarrow> outbox_process_report \<Rightarrow> outbox_process_report st" where
  "process_next p i r = bindM (process_one p i) (\<lambda>out. retM (count_outcome out r))"

definition process_candidates ::
  "outbox_processor \<Rightarrow> outbox_intent list \<Rightarrow> outbox_process_report st" where
  "process_candidates p candidates = foldM (process_next p) candidates blank_report"

definition process_pending :: "outbox_processor \<Rightarrow> int \<Rightarrow> outbox_process_report st" where
  "process_pending p limit =
     bindM (due_intents p) (\<lambda>candidates. process_candidates p (slice_to (max 0 limit) candidates))"

definition process_intent :: "outbox_processor \<Rightarrow> outbox_intent \<Rightarrow> outbox_process_report st" where
  "process_intent p i =
     (if ob_status i \<noteq> OS_pending
      then raiseM (ValueError ''immediate processing requires a pending intent'')
      else process_candidates p [i])"

end
