(* ===== verification/Policy.thy ===== *)
theory Policy
  imports Models
begin

section \<open>Versioned policy (app/cases/policy.py)\<close>

text \<open>
  \<open>CasePolicy\<close> with its defaults and field bounds, and \<open>from_proactive_settings\<close>, which reads the
  settings object attribute by attribute: an attribute the object lacks is None here.
\<close>

record case_policy =
  pol_policy_version :: string
  pol_report_reassert_s :: int
  pol_investigation_cooldown_s :: int
  pol_investigation_failure_retry_s :: int
  pol_reinvestigate_stale_s :: int
  pol_recovery_cooldown_s :: int
  pol_suppression_default_ttl_s :: int
  pol_auto_snooze_ttl_s :: int
  pol_storm_correlation_window_s :: int
  pol_storm_confidence_threshold :: pyfloat
  pol_storm_stabilization_window_s :: int
  pol_child_suppression_enabled :: bool
  pol_require_positive_clean_for_resolve :: bool
  pol_source_degraded_blocks_clean :: bool
  pol_knowledge_export_required_for_prod :: bool
  pol_approved_knowledge_statuses :: "string list"
  pol_authoritative_knowledge_tiers :: "string list"

definition default_policy :: case_policy where
  "default_policy = \<lparr>
     pol_policy_version = ''case_policy_v1'', pol_report_reassert_s = 21600,
     pol_investigation_cooldown_s = 21600, pol_investigation_failure_retry_s = 21600,
     pol_reinvestigate_stale_s = 21600, pol_recovery_cooldown_s = 600,
     pol_suppression_default_ttl_s = 86400, pol_auto_snooze_ttl_s = 86400,
     pol_storm_correlation_window_s = 300,
     pol_storm_confidence_threshold = \<lparr>pf_value = 3 / 4, pf_repr = ''0.75''\<rparr>,
     pol_storm_stabilization_window_s = 900, pol_child_suppression_enabled = True,
     pol_require_positive_clean_for_resolve = True, pol_source_degraded_blocks_clean = True,
     pol_knowledge_export_required_for_prod = True,
     pol_approved_knowledge_statuses = [''approved'', ''reviewed''],
     pol_authoritative_knowledge_tiers = [''canonical'', ''advisory'', ''A0'', ''A1'', ''A2'']\<rparr>"

text \<open>The \<open>Field(ge=..., le=...)\<close> bounds a constructed policy satisfies.\<close>

definition policy_fields_ok :: "case_policy \<Rightarrow> bool" where
  "policy_fields_ok p \<longleftrightarrow>
     1 \<le> pol_report_reassert_s p \<and> 0 \<le> pol_investigation_cooldown_s p \<and>
     0 \<le> pol_investigation_failure_retry_s p \<and> 0 \<le> pol_reinvestigate_stale_s p \<and>
     0 \<le> pol_recovery_cooldown_s p \<and> 0 \<le> pol_suppression_default_ttl_s p \<and>
     0 \<le> pol_auto_snooze_ttl_s p \<and> 1 \<le> pol_storm_correlation_window_s p \<and>
     0 \<le> pf_value (pol_storm_confidence_threshold p) \<and>
     pf_value (pol_storm_confidence_threshold p) \<le> 1 \<and>
     1 \<le> pol_storm_stabilization_window_s p"

definition new_policy :: "case_policy \<Rightarrow> exn + case_policy" where
  "new_policy p = (if policy_fields_ok p then Inr p else Inl (ValueError ''CasePolicy''))"

record proactive_settings =
  ps_report_reassert_s :: "int option"
  ps_investigation_cooldown_s :: "int option"
  ps_investigation_failure_retry_s :: "int option"
  ps_auto_snooze_ttl_s :: "int option"

text \<open>\<open>getattr(settings, name, default)\<close>\<close>

definition attr_or :: "int option \<Rightarrow> int \<Rightarrow> int" where
  "attr_or v d = (case v of Some x \<Rightarrow> x | None \<Rightarrow> d)"

definition from_proactive_settings :: "proactive_settings \<Rightarrow> string \<Rightarrow> exn + case_policy" where
  "from_proactive_settings s version = new_policy (default_policy\<lparr>
     pol_policy_version := version,
     pol_report_reassert_s := attr_or (ps_report_reassert_s s) (pol_report_reassert_s default_policy),
     pol_investigation_cooldown_s :=
       attr_or (ps_investigation_cooldown_s s) (pol_investigation_cooldown_s default_policy),
     pol_investigation_failure_retry_s :=
       attr_or (ps_investigation_failure_retry_s s)
         (attr_or (ps_investigation_cooldown_s s)
            (pol_investigation_failure_retry_s default_policy)),
     pol_reinvestigate_stale_s :=
       attr_or (ps_investigation_cooldown_s s) (pol_reinvestigate_stale_s default_policy),
     pol_auto_snooze_ttl_s := attr_or (ps_auto_snooze_ttl_s s) (pol_auto_snooze_ttl_s default_policy)\<rparr>)"

lemma default_policy_ok: "policy_fields_ok default_policy"
  by (simp add: policy_fields_ok_def default_policy_def)

lemma new_policy_ok: "new_policy p = Inr q \<Longrightarrow> q = p \<and> policy_fields_ok p"
  by (simp add: new_policy_def split: if_splits)

lemma from_proactive_settings_empty:
  "from_proactive_settings \<lparr>ps_report_reassert_s = None, ps_investigation_cooldown_s = None,
     ps_investigation_failure_retry_s = None, ps_auto_snooze_ttl_s = None\<rparr> ''case_policy_v1''
   = Inr default_policy"
  by (simp add: from_proactive_settings_def new_policy_def policy_fields_ok_def attr_or_def
      default_policy_def)

end
