(* ===== verification/Service.thy ===== *)
theory Service
  imports Store_Handoffs Policy
begin

section \<open>The case service (app/cases/service.py)\<close>

text \<open>
  \<open>CaseService\<close> over the store: observations and what they do to a case, reporting and reminders,
  investigations, acknowledgement and suppression. The service's own state is its policy; the
  environment and the verbosity of the notifier are inputs. A method wrapped by
  \<open>_serialize_case_write\<close> runs under the store's guard for its case. The metric counters the
  methods bump are not modelled.
\<close>

record service =
  sv_policy :: case_policy
  sv_getenv :: "string \<Rightarrow> string"
  sv_verbosity :: int

abbreviation policy_version :: "service \<Rightarrow> string" where
  "policy_version sv \<equiv> pol_policy_version (sv_policy sv)"

datatype observe_action =
    OA_created | OA_updated | OA_resolved_positive_clean | OA_clean_without_case
  | OA_ignored_unknown_status

record observe_result =
  or_action :: observe_action
  or_observation :: observation
  or_case :: "atomic_case option"
  or_events :: "case_event list"

subsection \<open>Guards\<close>

text \<open>\<open>_serialize_case_write\<close> on a method whose target is an identifier, or a record that may lack one.\<close>

definition serialize_id :: "string option \<Rightarrow> 'a st \<Rightarrow> 'a st" where
  "serialize_id cid body = (case cid of None \<Rightarrow> body
     | Some c \<Rightarrow> if c = [] then body else case_write_guard c body)"

text \<open>On a method whose target is a case, the case is read again inside the guard.\<close>

definition serialize_case :: "atomic_case \<Rightarrow> (atomic_case \<Rightarrow> 'a st) \<Rightarrow> 'a st" where
  "serialize_case c body =
     (if ac_case_id c = [] then body c
      else case_write_guard (ac_case_id c)
        (bindM (require_atomic_case_locked (ac_case_id c)) body))"

text \<open>\<open>cast(AtomicCaseProjection, await self.store.upsert_case(case))\<close>\<close>

definition upsert_atomic :: "atomic_case \<Rightarrow> atomic_case st" where
  "upsert_atomic c = seqM (upsert_case (Atomic c)) (retM c)"

text \<open>\<open>await self.store.append_event(CaseEvent(...))\<close>\<close>

definition emit :: "string option \<Rightarrow> (case_event \<Rightarrow> case_event) \<Rightarrow> case_event st" where
  "emit eid fill = bindM (new_event eid None fill) append_event"

text \<open>An event identifier the caller may pass: the empty one means a fresh one.\<close>

definition given_id :: "string \<Rightarrow> string option" where
  "given_id v = (if v = [] then None else Some v)"

subsection \<open>Times\<close>

definition parse_iso_time :: "string \<Rightarrow> exn + instant option" where
  "parse_iso_time v =
     (if v = [] then Inr None
      else case fromisoformat (zulu v) of
        None \<Rightarrow> Inr None
      | Some d \<Rightarrow> (case dt_offset d of
          None \<Rightarrow> Inr (Some (dt_local d))
        | Some _ \<Rightarrow> (case astimezone_utc d of Inl e \<Rightarrow> Inl e | Inr t \<Rightarrow> Inr (Some t))))"

subsection \<open>Identity of an observation\<close>

definition case_identity :: "observation \<Rightarrow> jdict" where
  "case_identity ob = [
     (''source'', JStr (obs_source ob)),
     (''detector'', JStr (or_str (obs_detector ob) (obs_rule_id ob))),
     (''rule_id'', JStr (obs_rule_id ob)), (''entity'', JStr (obs_entity ob)),
     (''resource'', JStr (obs_resource ob)), (''interface'', JStr (obs_interface ob)),
     (''service'', JStr (obs_service ob)), (''site'', JStr (obs_site ob)),
     (''customer'', JStr (obs_customer ob))]"

definition case_resource :: "observation \<Rightarrow> string" where
  "case_resource ob = or_str (obs_entity ob) (or_str (obs_resource ob) (or_str (obs_service ob)
     (or_str (obs_site ob) (obs_customer ob))))"

definition case_title :: "observation \<Rightarrow> string" where
  "case_title ob =
     or_str (obs_detector ob) (or_str (obs_rule_id ob) (or_str (obs_source ob) ''observation'')) @
     '' on '' @ or_str (case_resource ob) ''unknown resource''"

definition case_summary :: "observation \<Rightarrow> string" where
  "case_summary ob =
     (case List.find (\<lambda>k. truthy (jget (obs_annotations ob) k))
         [''summary'', ''description'', ''message''] of
        Some k \<Rightarrow> py_str (jget (obs_annotations ob) k)
      | None \<Rightarrow> observation_status_str (obs_status ob) @ '' '' @ severity_str (obs_severity ob) @
          '' observation from '' @ or_str (obs_source ob) ''unknown source'')"

definition observation_identity_fingerprint :: "observation \<Rightarrow> string" where
  "observation_identity_fingerprint ob =
     take 16 (sha256_hex (stable_json (JDict (case_identity ob))))"

definition observation_alias :: "observation \<Rightarrow> alias_type \<times> string" where
  "observation_alias ob =
     (if obs_source_fingerprint ob \<noteq> [] then (AT_source_fp, obs_source_fingerprint ob)
      else if obs_dedup_key ob \<noteq> [] then (AT_source_event_id, obs_dedup_key ob)
      else (AT_rule_entity, observation_identity_fingerprint ob))"

definition investigation_signature :: "atomic_case \<Rightarrow> string" where
  "investigation_signature c =
     or_str (ac_signal_signature c) (or_str (ac_fingerprint c) (ac_case_id c))"

subsection \<open>Unhealthy observations\<close>

definition covered_severity_of :: "atomic_case \<Rightarrow> severity st" where
  "covered_severity_of c =
     (if acknowledged c then
        bindM (acknowledgement_scope (ac_case_id c) (ac_acknowledged_at c)) (\<lambda>scope.
        case scope of
          None \<Rightarrow> seqM (record_acknowledgement_scope (ac_case_id c) (ac_acknowledged_at c)
              (ac_severity c)) (retM (ac_severity c))
        | Some sev \<Rightarrow> retM sev)
      else retM (ac_severity c))"

text \<open>The acknowledgement ends with a recurrence or with a severity above the one it covers.\<close>

definition acknowledgement_ends :: "atomic_case \<Rightarrow> severity \<Rightarrow> severity \<Rightarrow> bool" where
  "acknowledgement_ends c observed covered \<longleftrightarrow>
     ac_status c \<in> {CS_resolved, CS_recovered_pending} \<or>
     (acknowledged c \<and> severity_rank covered < severity_rank observed)"

definition apply_unhealthy ::
  "service \<Rightarrow> observation \<Rightarrow> severity \<Rightarrow> string \<Rightarrow> atomic_case \<Rightarrow> atomic_case" where
  "apply_unhealthy sv ob covered now c =
     (let ends = acknowledgement_ends c (obs_severity ob) covered;
          previous = ac_signal_signature c
      in c\<lparr>
        ac_acknowledged_at := (if ends then [] else ac_acknowledged_at c),
        ac_acknowledged_by := (if ends then [] else ac_acknowledged_by c),
        ac_report_generation := (if ends then ac_report_generation c + 1 else ac_report_generation c),
        ac_previous_signal_signature :=
          (if previous \<noteq> obs_signal_signature ob then previous else ac_previous_signal_signature c),
        ac_signal_signature := obs_signal_signature ob,
        ac_signal_snapshot := obs_signal_snapshot ob,
        ac_severity := obs_severity ob,
        ac_status := (if ac_status c \<in> {CS_recovered_pending, CS_resolved} then CS_investigating
          else ac_status c),
        ac_updated_at := now,
        ac_last_seen := obs_observed_at ob,
        ac_last_observed_unhealthy := obs_observed_at ob,
        ac_resolution_reason := [],
        ac_resolved_at := None,
        ac_last_evaluated_at := obs_observed_at ob,
        ac_last_scan_cycle_id := obs_scan_cycle_id ob,
        ac_policy_version := policy_version sv\<rparr>)"

definition update_unhealthy_body :: "service \<Rightarrow> observation \<Rightarrow> atomic_case \<Rightarrow> observe_result st" where
  "update_unhealthy_body sv ob c =
     bindM utc_now (\<lambda>now.
     bindM (covered_severity_of c) (\<lambda>covered.
     let previous = ac_signal_signature c in
     bindM (upsert_atomic (apply_unhealthy sv ob covered now c)) (\<lambda>c'.
     bindM (emit None (\<lambda>e. e\<lparr>
         ev_case_id := Some (ac_case_id c'),
         ev_event_type := (if previous \<noteq> [] \<and> previous \<noteq> obs_signal_signature ob
           then ''case_signal_changed'' else ''case_observed_unhealthy''),
         ev_actor_type := Act_monitor, ev_source := obs_source ob,
         ev_observed_at := obs_observed_at ob, ev_policy_version := policy_version sv,
         ev_payload := [(''observation_id'', JStr (obs_observation_id ob)),
           (''previous_signal_signature'', JStr previous),
           (''signal_signature'', JStr (obs_signal_signature ob))]\<rparr>)) (\<lambda>event.
       retM \<lparr>or_action = OA_updated, or_observation = ob, or_case = Some c',
         or_events = [event]\<rparr>))))"

definition update_unhealthy :: "service \<Rightarrow> atomic_case \<Rightarrow> observation \<Rightarrow> observe_result st" where
  "update_unhealthy sv c ob = serialize_case c (update_unhealthy_body sv ob)"

definition create_aliases ::
  "observation \<Rightarrow> string \<Rightarrow> alias_type \<Rightarrow> string \<Rightarrow> case_alias list st" where
  "create_aliases ob cid ty v =
     (let alias = (\<lambda>t x. bindM (new_alias None cid t x [] pyfloat_one None) (\<lambda>a. retM [a])) in
      bindM (alias ty v) (\<lambda>main.
      bindM (if obs_source_fingerprint ob \<noteq> [] \<and> (ty, v) \<noteq> (AT_source_fp, obs_source_fingerprint ob)
             then alias AT_source_fp (obs_source_fingerprint ob) else retM []) (\<lambda>by_fp.
      bindM (if obs_source_event_id ob \<noteq> [] \<and> (ty, v) \<noteq> (AT_source_event_id, obs_source_event_id ob)
             then alias AT_source_event_id (obs_source_event_id ob) else retM []) (\<lambda>by_event.
        retM (main @ by_fp @ by_event)))))"

definition created_case_fields ::
  "service \<Rightarrow> observation \<Rightarrow> string \<Rightarrow> atomic_case \<Rightarrow> atomic_case" where
  "created_case_fields sv ob alias_value c = c\<lparr>
     ac_fingerprint := alias_value, ac_title := case_title ob, ac_summary := case_summary ob,
     ac_origin := (if obs_source ob = ''proactive'' \<or> obs_scan_cycle_id ob \<noteq> []
       then Origin_proactive else Origin_reactive),
     ac_rule_id := obs_rule_id ob, ac_detector := or_str (obs_detector ob) (obs_rule_id ob),
     ac_resource_id := case_resource ob, ac_identity := case_identity ob,
     ac_site := obs_site ob, ac_customer := obs_customer ob, ac_service := obs_service ob,
     ac_severity := obs_severity ob, ac_status := CS_investigating,
     ac_last_seen := obs_observed_at ob, ac_last_observed_unhealthy := obs_observed_at ob,
     ac_last_evaluated_at := obs_observed_at ob, ac_last_scan_cycle_id := obs_scan_cycle_id ob,
     ac_signal_snapshot := obs_signal_snapshot ob, ac_signal_signature := obs_signal_signature ob,
     ac_policy_version := policy_version sv\<rparr>"

definition create_from_unhealthy ::
  "service \<Rightarrow> observation \<Rightarrow> alias_type \<Rightarrow> string \<Rightarrow> observe_result st" where
  "create_from_unhealthy sv ob ty v =
     bindM utc_now (\<lambda>now.
     bindM (new_atomic_case None (Some now) (Some now) (created_case_fields sv ob v)) (\<lambda>c.
     bindM (create_aliases ob (ac_case_id c) ty v) (\<lambda>aliases.
     bindM (new_event None None (\<lambda>e. e\<lparr>
         ev_case_id := Some (ac_case_id c), ev_event_type := ''case_created'',
         ev_source := obs_source ob, ev_observed_at := obs_observed_at ob,
         ev_policy_version := policy_version sv,
         ev_payload := [(''observation_id'', JStr (obs_observation_id ob)),
           (''alias_type'', JStr (alias_type_str ty))]\<rparr>)) (\<lambda>e1.
     bindM (new_event None None (\<lambda>e. e\<lparr>
         ev_case_id := Some (ac_case_id c), ev_event_type := ''case_observed_unhealthy'',
         ev_actor_type := Act_monitor, ev_source := obs_source ob,
         ev_observed_at := obs_observed_at ob, ev_policy_version := policy_version sv,
         ev_payload := [(''observation_id'', JStr (obs_observation_id ob)),
           (''signal_signature'', JStr (obs_signal_signature ob))]\<rparr>)) (\<lambda>e2.
     bindM (create_atomic_case c aliases [e1, e2]) (\<lambda>(c', events, created).
       if \<not> created then update_unhealthy sv c' ob
       else retM \<lparr>or_action = OA_created, or_observation = ob, or_case = Some c',
         or_events = events\<rparr>))))))"

subsection \<open>Clean observations\<close>

definition resolves :: "service \<Rightarrow> observation \<Rightarrow> bool" where
  "resolves sv ob \<longleftrightarrow>
     is_positive_clean ob \<and> pol_require_positive_clean_for_resolve (sv_policy sv)"

definition apply_clean :: "service \<Rightarrow> observation \<Rightarrow> string \<Rightarrow> atomic_case \<Rightarrow> atomic_case" where
  "apply_clean sv ob now c =
     (let seen = c\<lparr>
        ac_updated_at := now, ac_last_observed_clean := obs_observed_at ob,
        ac_last_evaluated_at := obs_observed_at ob, ac_last_scan_cycle_id := obs_scan_cycle_id ob,
        ac_policy_version := policy_version sv\<rparr>
      in if resolves sv ob
         then seen\<lparr>ac_status := CS_resolved, ac_resolved_at := Some now,
           ac_resolution_reason := ''positive_clean_observation''\<rparr>
         else seen)"

definition record_clean_body :: "service \<Rightarrow> observation \<Rightarrow> atomic_case \<Rightarrow> observe_result st" where
  "record_clean_body sv ob c =
     bindM utc_now (\<lambda>now.
     bindM (upsert_atomic (apply_clean sv ob now c)) (\<lambda>c'.
     bindM (emit None (\<lambda>e. e\<lparr>
         ev_case_id := Some (ac_case_id c'),
         ev_event_type := (if resolves sv ob then ''case_resolved_positive_clean''
           else ''case_observed_clean''),
         ev_actor_type := Act_monitor, ev_source := obs_source ob,
         ev_observed_at := obs_observed_at ob, ev_policy_version := policy_version sv,
         ev_payload := [(''observation_id'', JStr (obs_observation_id ob)),
           (''source_health'', JStr (source_health_str (obs_source_health ob))),
           (''positive_clean'', JBool (is_positive_clean ob))]\<rparr>)) (\<lambda>event.
       retM \<lparr>or_action = (if resolves sv ob then OA_resolved_positive_clean else OA_updated),
         or_observation = ob, or_case = Some c', or_events = [event]\<rparr>)))"

definition record_clean :: "service \<Rightarrow> atomic_case \<Rightarrow> observation \<Rightarrow> observe_result st" where
  "record_clean sv c ob = serialize_case c (record_clean_body sv ob)"

subsection \<open>Observing\<close>

text \<open>The case an alias leads to, as \<open>observe\<close> reads it; a meta case there is an error.\<close>

definition observed_case :: "alias_type \<Rightarrow> string \<Rightarrow> atomic_case option st" where
  "observed_case ty v =
     bindM (resolve_alias ty v) (\<lambda>cid.
     if \<not> opt_truthy cid then retM None
     else bindM (get_case (the cid)) (\<lambda>found.
       case found of
         None \<Rightarrow> retM None
       | Some (Atomic c) \<Rightarrow> retM (Some c)
       | Some (Meta m) \<Rightarrow> raiseM (ValueError
           (''observation alias resolved to non-atomic case '' @ mc_case_id m))))"

definition observe :: "service \<Rightarrow> observation \<Rightarrow> observe_result st" where
  "observe sv observation =
     bindM (put_observation observation) (\<lambda>ob.
     let (ty, v) = observation_alias ob in
     bindM (observed_case ty v) (\<lambda>atomic.
     if obs_status ob = Obs_firing then
       (case atomic of
          None \<Rightarrow> create_from_unhealthy sv ob ty v
        | Some c \<Rightarrow> update_unhealthy sv c ob)
     else if obs_status ob = Obs_clean \<or> obs_status ob = Obs_resolved then
       (case atomic of
          None \<Rightarrow>
            bindM (emit None (\<lambda>e. e\<lparr>
              ev_event_type := ''observation_clean_without_case'', ev_actor_type := Act_monitor,
              ev_source := obs_source ob, ev_observed_at := obs_observed_at ob,
              ev_policy_version := policy_version sv,
              ev_payload := [(''observation_id'', JStr (obs_observation_id ob)),
                (''alias_type'', JStr (alias_type_str ty))]\<rparr>)) (\<lambda>event.
            retM \<lparr>or_action = OA_clean_without_case, or_observation = ob, or_case = None,
              or_events = [event]\<rparr>)
        | Some c \<Rightarrow> record_clean sv c ob)
     else
       bindM (emit None (\<lambda>e. e\<lparr>
         ev_case_id := map_option ac_case_id atomic,
         ev_event_type := ''observation_ignored_unknown_status'', ev_actor_type := Act_monitor,
         ev_source := obs_source ob, ev_observed_at := obs_observed_at ob,
         ev_policy_version := policy_version sv,
         ev_payload := [(''observation_id'', JStr (obs_observation_id ob)),
           (''status'', JStr (observation_status_str (obs_status ob)))]\<rparr>)) (\<lambda>event.
       retM \<lparr>or_action = OA_ignored_unknown_status, or_observation = ob, or_case = atomic,
         or_events = [event]\<rparr>)))"

definition case_for_alias :: "alias_type \<Rightarrow> string \<Rightarrow> atomic_case option st" where
  "case_for_alias ty v =
     bindM (resolve_alias ty v) (\<lambda>cid.
     if \<not> opt_truthy cid then retM None
     else bindM (get_case (the cid)) (\<lambda>found. retM (as_atomic found)))"

end
