(* ===== verification/Service_Reports.thy ===== *)
theory Service_Reports
  imports Service
begin

section \<open>Reports, investigations and operator actions of the service\<close>

text \<open>
  The part of \<open>CaseService\<close> that decides when a case is reported or reminded of, when it is
  investigated, and what acknowledgement, suppression, traces, feedback and citations do to it. Times
  the caller may pass (\<open>now\<close>) are options: None reads the clock, where the code does.
\<close>

subsection \<open>Reporting\<close>

definition report_state_signature :: "atomic_case \<Rightarrow> string" where
  "report_state_signature c = take 16 (sha256_hex (stable_json (JDict [
     (''case_id'', JStr (ac_case_id c)), (''report_generation'', JInt (ac_report_generation c)),
     (''status'', JStr (case_status_str (ac_status c))),
     (''severity'', JStr (severity_str (ac_severity c))),
     (''signal_signature'', JStr (ac_signal_signature c)),
     (''resolution_reason'', JStr (ac_resolution_reason c)),
     (''issue_url'', JStr (ac_issue_url c))])))"

text \<open>Whether one of the deadlines lies ahead, read in order.\<close>

primrec any_deadline_ahead :: "instant \<Rightarrow> string list \<Rightarrow> exn + bool" where
  "any_deadline_ahead now [] = Inr False"
| "any_deadline_ahead now (v # vs) =
     (case parse_iso_time v of
        Inl e \<Rightarrow> Inl e
      | Inr None \<Rightarrow> any_deadline_ahead now vs
      | Inr (Some t) \<Rightarrow> if now < t then Inr True else any_deadline_ahead now vs)"

text \<open>\<open>(now - last) >= timedelta(seconds=n)\<close>\<close>

definition elapsed :: "instant \<Rightarrow> instant \<Rightarrow> int \<Rightarrow> exn + bool" where
  "elapsed now since seconds =
     (case timedelta_seconds seconds of Inl e \<Rightarrow> Inl e | Inr us \<Rightarrow> Inr (us \<le> now - since))"

definition reminder_at :: "service \<Rightarrow> atomic_case \<Rightarrow> instant \<Rightarrow> exn + bool" where
  "reminder_at sv c now =
     (if ac_severity c \<noteq> HIGH \<or> acknowledged c then Inr False
      else if ac_status c \<in> {CS_resolved, CS_closed, CS_expired, CS_linked, CS_recovered_pending}
      then Inr False
      else if ac_covered_by_meta_case c \<and> \<not> ac_independent_action_required c then Inr False
      else case any_deadline_ahead now [ac_suppressed_until c, ac_snoozed_until c] of
        Inl e \<Rightarrow> Inl e
      | Inr True \<Rightarrow> Inr False
      | Inr False \<Rightarrow>
          if ac_last_reported_signature c \<noteq> report_state_signature c then Inr False
          else (case parse_iso_time (ac_last_reported_at c) of
              Inl e \<Rightarrow> Inl e
            | Inr None \<Rightarrow> Inr False
            | Inr (Some since) \<Rightarrow>
                elapsed now since (max 21600 (pol_report_reassert_s (sv_policy sv)))))"

definition should_remind :: "service \<Rightarrow> atomic_case \<Rightarrow> instant option \<Rightarrow> bool st" where
  "should_remind sv c now =
     (if attention_enabled (sv_getenv sv) \<and> source_watched c then retM False
      else bindM (given_or now dt_now) (\<lambda>t. liftM (reminder_at sv c t)))"

definition should_report :: "service \<Rightarrow> atomic_case \<Rightarrow> instant option \<Rightarrow> bool st" where
  "should_report sv c now =
     (if ac_last_reported_signature c \<noteq> report_state_signature c then retM True
      else if ac_last_reported_at c = [] then retM True
      else should_remind sv c now)"

definition legacy_reminder_projection :: "atomic_case \<Rightarrow> atomic_case option st" where
  "legacy_reminder_projection c =
     (if \<not> source_watched c then retM (Some c)
      else bindM (has_pending_attention (ac_case_id c)) (\<lambda>pending.
        if pending then retM None
        else bindM (get_attention (ac_case_id c)) (\<lambda>attention.
          bindM (liftM (parse_iso_time (ac_last_reported_at c))) (\<lambda>reported.
          case attention of
            None \<Rightarrow> retM (Some c)
          | Some d \<Rightarrow>
              if reported = None \<or> the reported < ad_delivered_at d
              then retM (Some (c\<lparr>ac_last_reported_at := isoformat (ad_delivered_at d)\<rparr>))
              else retM (Some c)))))"

definition report_key :: "atomic_case \<Rightarrow> string \<Rightarrow> string" where
  "report_key c sig =
     ''report:'' @ ac_case_id c @ '':'' @ sig @
     (if ac_last_reported_at c \<noteq> [] \<and> ac_last_reported_signature c = sig
      then '':reminder:'' @ ac_last_reported_at c else [])"

definition report_payload :: "atomic_case \<Rightarrow> string \<Rightarrow> jdict \<Rightarrow> jdict" where
  "report_payload c sig payload =
     (if ac_last_reported_at c \<noteq> [] \<and> ac_last_reported_signature c = sig
      then dict_set ''reminder_since'' (JStr (ac_last_reported_at c)) payload else payload)"

text \<open>Put a suppressed intent back to pending, unless someone changed it meanwhile.\<close>

definition retry_intent :: "outbox_intent \<Rightarrow> string list \<Rightarrow> outbox_intent st" where
  "retry_intent i drop_keys =
     bindM utc_now (\<lambda>now.
     bindM (update_outbox_if_status
         (i\<lparr>ob_status := OS_pending, ob_completed_at := None, ob_next_attempt_at := now,
            ob_payload := foldr dict_pop drop_keys (ob_payload i)\<rparr>) OS_succeeded None) (\<lambda>updated.
     case updated of Some u \<Rightarrow> retM u | None \<Rightarrow> enqueue_outbox i))"

text \<open>\<open>isinstance(v, int) and v >= verbosity\<close>; a bool is an int.\<close>

definition level_reaches :: "json \<Rightarrow> int \<Rightarrow> bool" where
  "level_reaches v verbosity =
     (case v of JInt i \<Rightarrow> verbosity \<le> i | JBool b \<Rightarrow> verbosity \<le> of_bool b | _ \<Rightarrow> False)"

definition request_report ::
  "service \<Rightarrow> atomic_case \<Rightarrow> string \<Rightarrow> jdict \<Rightarrow> outbox_intent st" where
  "request_report sv c state_signature payload =
     (let sig = or_str state_signature (report_state_signature c) in
      bindM (bindM (new_intent None None None (\<lambda>i. i\<lparr>
          ob_case_id := Some (ac_case_id c), ob_idempotency_key := report_key c sig,
          ob_state_signature := sig, ob_payload := report_payload c sig payload\<rparr>) OI_report)
        enqueue_outbox) (\<lambda>intent.
      bindM (if ob_status intent = OS_succeeded \<and>
           jget (ob_payload intent) ''notification_suppressed'' = JStr ''reminder_no_longer_due''
         then should_remind sv c None else retM False) (\<lambda>due_again.
      if due_again then retry_intent intent [''notification_suppressed'']
      else if ob_status intent = OS_succeeded \<and>
        jget (ob_payload intent) ''notification_suppressed'' = JStr ''verbosity'' \<and>
        level_reaches (jget (ob_payload intent) ''notification_level'') (sv_verbosity sv)
      then retry_intent intent [''notification_level'', ''notification_suppressed'']
      else retM intent)))"

definition reported_fields :: "service \<Rightarrow> string \<Rightarrow> bool \<Rightarrow> string \<Rightarrow> atomic_case \<Rightarrow> atomic_case" where
  "reported_fields sv sig reasserted now c = c\<lparr>
     ac_last_reported_at := now, ac_last_reported_signature := sig,
     ac_last_reasserted_at := (if reasserted then now else ac_last_reasserted_at c),
     ac_updated_at := now, ac_policy_version := policy_version sv\<rparr>"

definition mark_reported :: "service \<Rightarrow> string \<Rightarrow> string \<Rightarrow> bool \<Rightarrow> atomic_case st" where
  "mark_reported sv cid state_signature reasserted = serialize_id (Some cid)
     (bindM (require_atomic_case_locked cid) (\<lambda>c.
      bindM utc_now (\<lambda>now.
      bindM (upsert_atomic (reported_fields sv state_signature reasserted now c)) (\<lambda>c'.
      seqM (emit None (\<lambda>e. e\<lparr>
          ev_case_id := Some (ac_case_id c'),
          ev_event_type := (if reasserted then ''case_reasserted'' else ''case_reported''),
          ev_policy_version := policy_version sv,
          ev_payload := [(''state_signature'', JStr state_signature)]\<rparr>))
        (retM c')))))"

subsection \<open>Investigations\<close>

definition investigation_at :: "service \<Rightarrow> atomic_case \<Rightarrow> instant \<Rightarrow> exn + bool" where
  "investigation_at sv c now =
     (case parse_iso_time (ac_last_investigated_at c) of
        Inl e \<Rightarrow> Inl e
      | Inr None \<Rightarrow> Inr True
      | Inr (Some since) \<Rightarrow> elapsed now since
          (if ac_investigation_status c = ''failed''
           then pol_investigation_failure_retry_s (sv_policy sv)
           else pol_investigation_cooldown_s (sv_policy sv)))"

text \<open>The clock is read only when the last investigation has a time to compare it with.\<close>

definition should_investigate :: "service \<Rightarrow> atomic_case \<Rightarrow> instant option \<Rightarrow> bool st" where
  "should_investigate sv c now =
     (let decide =
        bindM (liftM (parse_iso_time (ac_last_investigated_at c))) (\<lambda>since.
        if since = None then retM True
        else bindM (given_or now dt_now) (\<lambda>t. liftM (investigation_at sv c t)))
      in
        if terminal_case_status (ac_status c) then retM False
        else if ac_investigation_status c = ''failed'' then decide
        else if ac_last_investigated_at c = [] \<or> ac_diagnosis_signature c = [] then retM True
        else if ac_signal_signature c \<noteq> [] \<and> ac_diagnosis_signature c \<noteq> ac_signal_signature c
        then retM True
        else decide)"

definition claim_investigation ::
  "service \<Rightarrow> atomic_case \<Rightarrow> string \<Rightarrow> atomic_case option st" where
  "claim_investigation sv c status =
     bindM (should_investigate sv c None) (\<lambda>due.
     if \<not> due then retM None
     else
       bindM (new_event None None (\<lambda>e. e\<lparr>
         ev_case_id := Some (ac_case_id c), ev_event_type := ''investigation_started'',
         ev_policy_version := policy_version sv,
         ev_payload := [(''diagnosis_signature'', JStr (investigation_signature c)),
           (''status'', JStr status)]\<rparr>)) (\<lambda>event.
       bindM utc_now (\<lambda>now.
         claim_investigation_store (ac_case_id c) (ac_signal_signature c)
           (ac_diagnosis_signature c) (ac_last_investigated_at c) status (policy_version sv)
           now event)))"

definition record_investigation_result ::
  "service \<Rightarrow> string \<Rightarrow> jdict \<Rightarrow> string list \<Rightarrow> string \<Rightarrow> string \<Rightarrow> atomic_case st" where
  "record_investigation_result sv cid diagnosis recommendations status error = serialize_id (Some cid)
     (bindM (require_atomic_case_locked cid) (\<lambda>c.
      bindM utc_now (\<lambda>now.
      bindM (upsert_atomic (c\<lparr>
          ac_last_investigated_at := now, ac_last_diagnosis := diagnosis,
          ac_diagnosis_signature := investigation_signature c,
          ac_recommendations := recommendations, ac_investigation_status := status,
          ac_investigation_error := error, ac_updated_at := now,
          ac_policy_version := policy_version sv\<rparr>)) (\<lambda>c'.
      seqM (emit None (\<lambda>e. e\<lparr>
          ev_case_id := Some (ac_case_id c'), ev_event_type := ''investigation_recorded'',
          ev_actor_type := Act_graph, ev_policy_version := policy_version sv,
          ev_payload := [(''diagnosis_signature'', JStr (ac_diagnosis_signature c')),
            (''recommendation_count'', JInt (int (length (ac_recommendations c')))),
            (''status'', JStr status), (''error'', JStr error)]\<rparr>))
        (retM c')))))"

subsection \<open>Operator actions\<close>

definition ack :: "service \<Rightarrow> string \<Rightarrow> string \<Rightarrow> string \<Rightarrow> atomic_case st" where
  "ack sv cid operator event_id = serialize_id (Some cid)
     (bindM (require_atomic_case_locked cid) (\<lambda>c.
      bindM utc_now (\<lambda>now.
      seqM (record_acknowledgement_scope (ac_case_id c) now (ac_severity c))
      (bindM (upsert_atomic (c\<lparr>ac_acknowledged_by := operator, ac_acknowledged_at := now,
          ac_updated_at := now, ac_policy_version := policy_version sv\<rparr>)) (\<lambda>c'.
       seqM (emit (given_id event_id) (\<lambda>e. e\<lparr>
          ev_case_id := Some (ac_case_id c'), ev_event_type := ''case_acknowledged'',
          ev_actor_type := Act_operator, ev_actor_id := operator,
          ev_policy_version := policy_version sv, ev_payload := []\<rparr>))
        (retM c'))))))"

definition suppression_end :: "service \<Rightarrow> int option \<Rightarrow> instant \<Rightarrow> exn + string" where
  "suppression_end sv ttl_seconds now =
     (let ttl = (case ttl_seconds of None \<Rightarrow> pol_suppression_default_ttl_s (sv_policy sv) | Some n \<Rightarrow> n)
      in if ttl \<le> 0 then Inr []
         else case timedelta_seconds ttl of
           Inl e \<Rightarrow> Inl e
         | Inr us \<Rightarrow> (case instant_plus now us of Inl e \<Rightarrow> Inl e | Inr t \<Rightarrow> Inr (isoformat t)))"

definition suppress ::
  "service \<Rightarrow> string \<Rightarrow> string \<Rightarrow> suppression_source \<Rightarrow> string \<Rightarrow> int option \<Rightarrow> string
    \<Rightarrow> atomic_case st" where
  "suppress sv cid reason source operator ttl_seconds event_id = serialize_id (Some cid)
     (bindM (require_atomic_case_locked cid) (\<lambda>c.
      bindM dt_now (\<lambda>now.
      bindM (liftM (suppression_end sv ttl_seconds now)) (\<lambda>until.
      bindM (upsert_atomic (c\<lparr>ac_suppressed_until := until, ac_snoozed_until := until,
          ac_suppression_reason := reason, ac_suppression_source := source,
          ac_updated_at := isoformat now, ac_policy_version := policy_version sv\<rparr>)) (\<lambda>c'.
      seqM (emit (given_id event_id) (\<lambda>e. e\<lparr>
          ev_case_id := Some (ac_case_id c'), ev_event_type := ''case_suppressed'',
          ev_actor_type := (if source = Sup_operator then Act_operator else Act_system),
          ev_actor_id := operator, ev_policy_version := policy_version sv,
          ev_payload := [(''reason'', JStr reason), (''source'', JStr (suppression_source_str source)),
            (''suppressed_until'', JStr (ac_suppressed_until c'))]\<rparr>))
        (retM c'))))))"

definition expire_suppression :: "service \<Rightarrow> string \<Rightarrow> instant option \<Rightarrow> atomic_case st" where
  "expire_suppression sv cid now = serialize_id (Some cid)
     (bindM (require_atomic_case_locked cid) (\<lambda>c.
      bindM (liftM (parse_iso_time (or_str (ac_suppressed_until c) (ac_snoozed_until c)))) (\<lambda>expiry.
      bindM (given_or now dt_now) (\<lambda>t.
      if expiry = None \<or> t < the expiry then retM c
      else
        bindM (upsert_atomic (c\<lparr>ac_suppressed_until := [], ac_snoozed_until := [],
          ac_suppression_reason := [], ac_suppression_source := Sup_none,
          ac_updated_at := isoformat t, ac_policy_version := policy_version sv\<rparr>)) (\<lambda>c'.
        seqM (emit None (\<lambda>e. e\<lparr>
            ev_case_id := Some (ac_case_id c'), ev_event_type := ''case_suppression_expired'',
            ev_policy_version := policy_version sv, ev_payload := []\<rparr>))
          (retM c'))))))"

subsection \<open>Issues, traces, feedback and citations\<close>

definition handoff_intent :: "service \<Rightarrow> string \<Rightarrow> jdict \<Rightarrow> outbox_intent option st" where
  "handoff_intent sv cid payload =
     bindM (require_atomic_case_locked cid) (\<lambda>c.
     if ac_issue_url c \<noteq> [] \<or> ac_issue_id c \<noteq> [] then
       seqM (emit None (\<lambda>e. e\<lparr>
           ev_case_id := Some (ac_case_id c), ev_event_type := ''handoff_skipped_existing_issue'',
           ev_policy_version := policy_version sv,
           ev_payload := [(''issue_url'', JStr (ac_issue_url c)),
             (''issue_id'', JStr (ac_issue_id c))]\<rparr>))
         (retM None)
     else
       bindM (new_intent None None None (\<lambda>i. i\<lparr>
         ob_case_id := Some (ac_case_id c),
         ob_idempotency_key := ''handoff:'' @ ac_case_id c @ '':'' @ policy_version sv,
         ob_state_signature := ac_signal_signature c, ob_payload := payload\<rparr>) OI_handoff) (\<lambda>i.
       bindM (enqueue_outbox i) (\<lambda>j. retM (Some j))))"

definition record_handoff_result :: "service \<Rightarrow> string \<Rightarrow> string \<Rightarrow> string \<Rightarrow> atomic_case st" where
  "record_handoff_result sv cid issue_url issue_id = serialize_id (Some cid)
     (bindM (require_atomic_case_locked cid) (\<lambda>c.
      bindM utc_now (\<lambda>now.
      bindM (upsert_atomic (c\<lparr>ac_issue_url := issue_url, ac_issue_id := issue_id,
          ac_handoff_status := ''created'', ac_last_handoff_at := now, ac_updated_at := now,
          ac_policy_version := policy_version sv\<rparr>)) (\<lambda>c'.
      seqM (emit None (\<lambda>e. e\<lparr>
          ev_case_id := Some (ac_case_id c'), ev_event_type := ''handoff_created_issue'',
          ev_policy_version := policy_version sv,
          ev_payload := [(''issue_url'', JStr issue_url), (''issue_id'', JStr issue_id)]\<rparr>))
        (retM c')))))"

definition record_trace :: "service \<Rightarrow> trace_record \<Rightarrow> trace_record st" where
  "record_trace sv t = serialize_id (tr_case_id t)
     (bindM (record_trace_store t) (\<lambda>stored.
      if \<not> opt_truthy (tr_case_id stored) then retM stored
      else bindM (require_atomic_case_locked (the (tr_case_id stored))) (\<lambda>c.
        if tr_trace_id stored \<in> set (ac_trace_ids c) then retM stored
        else bindM utc_now (\<lambda>now.
          seqM (upsert_atomic (c\<lparr>ac_trace_ids := ac_trace_ids c @ [tr_trace_id stored],
            ac_updated_at := now, ac_policy_version := policy_version sv\<rparr>))
          (retM stored)))))"

definition record_operator_feedback :: "service \<Rightarrow> operator_feedback \<Rightarrow> operator_feedback st" where
  "record_operator_feedback sv f = serialize_id (fb_case_id f)
     (bindM (record_feedback f) (\<lambda>stored.
      if \<not> opt_truthy (fb_case_id stored) then retM stored
      else bindM (require_atomic_case_locked (the (fb_case_id stored))) (\<lambda>c.
        if fb_feedback_id stored \<in> set (ac_feedback_ids c) then retM stored
        else bindM utc_now (\<lambda>now.
          seqM (upsert_atomic (c\<lparr>ac_feedback_ids := ac_feedback_ids c @ [fb_feedback_id stored],
            ac_updated_at := now, ac_policy_version := policy_version sv\<rparr>))
          (seqM (emit None (\<lambda>e. e\<lparr>
              ev_case_id := Some (ac_case_id c), ev_event_type := ''operator_feedback_recorded'',
              ev_actor_type := Act_operator, ev_actor_id := fb_actor_id stored,
              ev_policy_version := policy_version sv,
              ev_payload := [(''feedback_id'', JStr (fb_feedback_id stored)),
                (''feedback_type'', JStr (feedback_type_str (fb_feedback_type stored)))]\<rparr>))
            (retM stored))))))"

text \<open>\<open>existing.setdefault(stable_json(citation), citation)\<close> over the citations.\<close>

definition merge_citations :: "json list \<Rightarrow> json list \<Rightarrow> json list" where
  "merge_citations old new =
     dict_values (foldl (\<lambda>d x. if dict_get d (stable_json x) = None
         then dict_set (stable_json x) x d else d)
       (dict_of (map (\<lambda>x. (stable_json x, x)) old)) new)"

definition record_knowledge_citations ::
  "service \<Rightarrow> string \<Rightarrow> json list \<Rightarrow> string \<Rightarrow> atomic_case st" where
  "record_knowledge_citations sv cid citations trace_id = serialize_id (Some cid)
     (bindM (require_atomic_case_locked cid) (\<lambda>c.
      bindM utc_now (\<lambda>now.
      bindM (upsert_atomic (c\<lparr>
          ac_knowledge_citations := merge_citations (ac_knowledge_citations c) citations,
          ac_trace_ids := (if trace_id \<noteq> [] then add_new trace_id (ac_trace_ids c)
            else ac_trace_ids c),
          ac_updated_at := now, ac_policy_version := policy_version sv\<rparr>)) (\<lambda>c'.
      seqM (emit None (\<lambda>e. e\<lparr>
          ev_case_id := Some (ac_case_id c'), ev_event_type := ''hyrule_knowledge_retrieved'',
          ev_policy_version := policy_version sv,
          ev_payload := [(''citation_count'', JInt (int (length citations))),
            (''trace_id'', JStr trace_id)]\<rparr>))
        (retM c')))))"

end
