(* ===== verification/Py_Float.thy ===== *)
theory Py_Float
  imports Py_Json Complex_Main
begin

section \<open>Floats: reading, comparing, rounding, printing\<close>

text \<open>
  A float is the rational number it denotes, an infinity, or no number. Its arithmetic is exact: that
  \<open>float(text)\<close> takes the nearest double, and that a huge text overflows to an infinity, is not
  modelled. Comparisons with no number are false.
\<close>

datatype pynum = Finite rat | Infinite bool | Not_a_number

fun num_less :: "pynum \<Rightarrow> pynum \<Rightarrow> bool" where
  "num_less (Finite x) (Finite y) = (x < y)"
| "num_less (Finite x) (Infinite p) = p"
| "num_less (Infinite p) (Finite y) = (\<not> p)"
| "num_less (Infinite p) (Infinite q) = (\<not> p \<and> q)"
| "num_less Not_a_number _ = False"
| "num_less _ Not_a_number = False"

fun num_le :: "pynum \<Rightarrow> pynum \<Rightarrow> bool" where
  "num_le (Finite x) (Finite y) = (x \<le> y)"
| "num_le (Finite x) (Infinite p) = p"
| "num_le (Infinite p) (Finite y) = (\<not> p)"
| "num_le (Infinite p) (Infinite q) = (p \<longrightarrow> q)"
| "num_le Not_a_number _ = False"
| "num_le _ Not_a_number = False"

text \<open>\<open>int(x)\<close> cuts off towards zero and raises on an infinity and on no number.\<close>

definition py_trunc :: "rat \<Rightarrow> int" where
  "py_trunc x = (if 0 \<le> x then \<lfloor>x\<rfloor> else \<lceil>x\<rceil>)"

fun num_int :: "pynum \<Rightarrow> exn + int" where
  "num_int (Finite x) = Inr (py_trunc x)"
| "num_int (Infinite _) = Inl (OverflowError ''cannot convert float infinity to integer'')"
| "num_int Not_a_number = Inl (ValueError ''cannot convert float NaN to integer'')"

text \<open>Multiplication by a positive constant.\<close>

fun num_times :: "rat \<Rightarrow> pynum \<Rightarrow> pynum" where
  "num_times c (Finite x) = Finite (c * x)"
| "num_times c (Infinite p) = Infinite p"
| "num_times c Not_a_number = Not_a_number"

subsection \<open>Rounding\<close>

text \<open>To the nearest integer, ties to even.\<close>

definition round_half_even :: "rat \<Rightarrow> int" where
  "round_half_even q =
     (let f = \<lfloor>q\<rfloor>; r = q - of_int f
      in if r < 1 / 2 then f else if 1 / 2 < r then f + 1 else if even f then f else f + 1)"

text \<open>
  \<open>str(round(x, k))\<close> for \<open>k > 0\<close>: the sign of \<open>x\<close> survives a result of zero, trailing zeros go but for
  one digit. A magnitude of \<open>10 ^ 16\<close> or more, which Python writes with an exponent, is written out.
\<close>

definition strip_zeros :: "string \<Rightarrow> string" where
  "strip_zeros s = (let t = rev (dropWhile (\<lambda>c. c = CHR ''0'') (rev s)) in if t = [] then ''0'' else t)"

fun rounded_str :: "nat \<Rightarrow> pynum \<Rightarrow> string" where
  "rounded_str k (Finite x) =
     (let n = nat (round_half_even (\<bar>x\<bar> * 10 ^ k)) in
      (if x < 0 then ''-'' else []) @ nat_str (n div 10 ^ k) @ ''.'' @ strip_zeros (pad_str k n))"
| "rounded_str k (Infinite p) = (if p then ''inf'' else ''-inf'')"
| "rounded_str k Not_a_number = ''nan''"

text \<open>\<open>str(round(x))\<close>, an integer.\<close>

fun rounded_int_str :: "pynum \<Rightarrow> exn + string" where
  "rounded_int_str (Finite x) = Inr (int_str (round_half_even x))"
| "rounded_int_str (Infinite _) = Inl (OverflowError ''cannot convert float infinity to integer'')"
| "rounded_int_str Not_a_number = Inl (ValueError ''cannot convert float NaN to integer'')"

subsection \<open>float(text)\<close>

text \<open>Underscores are allowed between digits.\<close>

fun underscores_ok :: "bool \<Rightarrow> string \<Rightarrow> bool" where
  "underscores_ok after_digit [] = True"
| "underscores_ok after_digit (c # s) =
     (if c = CHR ''_'' then after_digit \<and> (case s of [] \<Rightarrow> False | d # _ \<Rightarrow> is_digit d) \<and> underscores_ok False s
      else underscores_ok (is_digit c) s)"

definition split_sign :: "string \<Rightarrow> bool \<times> string" where
  "split_sign s = (case s of [] \<Rightarrow> (False, [])
     | c # r \<Rightarrow> if c = CHR ''-'' then (True, r) else if c = CHR ''+'' then (False, r) else (False, s))"

definition digits_value :: "string \<Rightarrow> int" where
  "digits_value s = int (foldl (\<lambda>v c. 10 * v + digit_val c) 0 s)"

definition parse_exponent :: "string \<Rightarrow> int option" where
  "parse_exponent s = (case s of [] \<Rightarrow> Some 0
     | c # r \<Rightarrow>
       if c \<noteq> CHR ''e'' then None
       else let (neg, ds) = split_sign r in
         if ds = [] \<or> \<not> list_all is_digit ds then None
         else Some (if neg then - digits_value ds else digits_value ds))"

definition scale10 :: "int \<Rightarrow> int \<Rightarrow> rat" where
  "scale10 n e = (if 0 \<le> e then of_int (n * 10 ^ nat e) else of_int n / of_int (10 ^ nat (- e)))"

definition parse_decimal :: "string \<Rightarrow> rat option" where
  "parse_decimal s =
     (let whole = takeWhile is_digit s; rest = dropWhile is_digit s;
          pointed = (case rest of c # _ \<Rightarrow> c = CHR ''.'' | [] \<Rightarrow> False);
          part = (if pointed then takeWhile is_digit (tl rest) else []);
          tail = (if pointed then dropWhile is_digit (tl rest) else rest)
      in if whole = [] \<and> part = [] then None
         else case parse_exponent tail of None \<Rightarrow> None
           | Some e \<Rightarrow> Some (scale10 (digits_value (whole @ part)) (e - int (length part))))"

definition parse_float :: "string \<Rightarrow> pynum option" where
  "parse_float s =
     (let t = py_strip s in
      if \<not> underscores_ok False t then None
      else let (neg, u) = split_sign (py_lower (filter (\<lambda>c. c \<noteq> CHR ''_'') t)) in
        if u = ''inf'' \<or> u = ''infinity'' then Some (Infinite (\<not> neg))
        else if u = ''nan'' then Some Not_a_number
        else map_option (\<lambda>x. Finite (if neg then - x else x)) (parse_decimal u))"

text \<open>\<open>float(v)\<close> on a JSON value; the exceptions it raises are \<open>TypeError\<close> and \<open>ValueError\<close>.\<close>

fun float_of_json :: "json \<Rightarrow> pynum option" where
  "float_of_json (JInt i) = Some (Finite (of_int i))"
| "float_of_json (JBool b) = Some (Finite (if b then 1 else 0))"
| "float_of_json (JFloat r) = parse_float r"
| "float_of_json (JStr s) = parse_float s"
| "float_of_json JNull = None"
| "float_of_json (JList _) = None"
| "float_of_json (JDict _) = None"

subsection \<open>Facts\<close>

lemma py_trunc_int [simp]: "py_trunc (of_int i) = i" "py_trunc (numeral n) = numeral n" "py_trunc 0 = 0"
  by (simp_all add: py_trunc_def)

lemma num_less_irrefl [simp]: "\<not> num_less x x"
  by (cases x) auto

lemma round_half_even_int [simp]: "round_half_even (of_int i) = i"
  by (simp add: round_half_even_def)

lemma underscores_ok_none: "CHR ''_'' \<notin> set s \<Longrightarrow> underscores_ok d s"
  by (induction s arbitrary: d) auto

text \<open>The nearest integer is at most one half away.\<close>

lemma round_half_even_near: "\<bar>q - of_int (round_half_even q)\<bar> \<le> 1 / 2"
proof -
  have "of_int \<lfloor>q\<rfloor> \<le> q" "q < of_int \<lfloor>q\<rfloor> + 1" by linarith+
  then show ?thesis by (auto simp: round_half_even_def Let_def)
qed

text \<open>\<open>float(str(n)) == n\<close>\<close>

lemma is_digit_props: "is_digit c \<Longrightarrow> \<not> is_space c \<and> lower_char c = c \<and> c \<noteq> CHR ''_'' \<and>
    c \<noteq> CHR ''-'' \<and> c \<noteq> CHR ''+'' \<and> c \<noteq> CHR ''i'' \<and> c \<noteq> CHR ''n''"
  by (auto simp: is_digit_def is_space_def lower_char_def is_upper_def code_def)

lemma digits_plain:
  assumes "list_all is_digit s"
  shows "py_strip s = s" and "py_lower s = s" and "filter (\<lambda>c. c \<noteq> CHR ''_'') s = s"
    and "takeWhile is_digit s = s" and "dropWhile is_digit s = []"
proof -
  have d: "\<And>c. c \<in> set s \<Longrightarrow> is_digit c" using assms by (simp add: list_all_iff)
  have "dropWhile is_space t = t" if "set t \<subseteq> set s" for t
    using that d is_digit_props by (cases t) auto
  from this [of s] this [of "rev s"] show "py_strip s = s" by (simp add: py_strip_def)
  show "py_lower s = s" unfolding py_lower_def by (rule map_idI) (use d is_digit_props in blast)
  show "filter (\<lambda>c. c \<noteq> CHR ''_'') s = s" by (rule filter_True) (use d is_digit_props in blast)
  show "takeWhile is_digit s = s" "dropWhile is_digit s = []"
    using d by (auto simp: takeWhile_eq_all_conv)
qed

lemma parse_float_nat_str: "parse_float (nat_str n) = Some (Finite (of_nat n))"
proof -
  let ?s = "nat_str n"
  have d: "list_all is_digit ?s" by (rule nat_str_digits)
  have "?s \<noteq> []" by simp
  then obtain c r where s: "?s = c # r" "is_digit c" using d by (cases ?s) simp_all
  have "set ?s \<subseteq> Collect is_digit" using d by (auto simp: list_all_iff)
  then have u: "underscores_ok False ?s"
    using is_digit_props by (intro underscores_ok_none) blast
  have p: "split_sign ?s = (False, ?s)" "?s \<noteq> ''inf''" "?s \<noteq> ''infinity''" "?s \<noteq> ''nan''"
    using s is_digit_props [of c] by (simp_all add: split_sign_def)
  have "parse_decimal ?s = Some (of_nat n)"
    unfolding parse_decimal_def digits_plain(4) [OF d] digits_plain(5) [OF d]
    by (simp add: parse_exponent_def scale10_def digits_value_def foldl_nat_str)
  then show ?thesis
    unfolding parse_float_def Let_def digits_plain(1) [OF d] digits_plain(2) [OF d] digits_plain(3) [OF d]
    using u p by simp
qed

end
