(* ===== verification/Attention_Delivery.thy ===== *)
theory Attention_Delivery
  imports Outbox Service_Reports Py_Float
begin

section \<open>Attention delivery (app/cases/attention_scheduler.py, attention_handler.py, attention_sender.py)\<close>

text \<open>
  The scheduler turns a due attention request into an outbox intent; the handler, run by the outbox
  worker, checks again that the request is still due, takes the per-case lease, sends, and hands the
  delivery to the worker, which commits it; the sender renders the card. The verbosity of the notifier
  is an input, and so are three pieces of code outside these modules: the validation of a request out
  of the payload of an intent (pydantic's \<open>model_validate\<close>), the sender of a handler, and the notifier
  of a sender. The deadlines of 60 and 5 seconds are among the errors the sender ends with.
\<close>

subsection \<open>Scheduling\<close>

definition request_json :: "attention_request \<Rightarrow> json" where
  "request_json r = JDict [
     (''kind'', JStr (kind_str (ar_kind r))), (''generation'', JInt (ar_generation r)),
     (''phase'', JStr (phase_str (ar_phase r))),
     (''severity'', JStr (severity_str (ar_severity r))),
     (''expected_sequence'', JInt (ar_expected_sequence r)),
     (''idempotency_key'', JStr (ar_idempotency_key r))]"

definition attention_level :: "attention_request \<Rightarrow> int" where
  "attention_level r = (case ar_severity r of HIGH \<Rightarrow> 40 | MEDIUM \<Rightarrow> 30 | _ \<Rightarrow> 20)"

text \<open>A suppressed intent is eligible again when what suppressed it no longer does.\<close>

definition eligible_again :: "int \<Rightarrow> attention_request \<Rightarrow> outbox_intent \<Rightarrow> bool" where
  "eligible_again verbosity r i \<longleftrightarrow>
     (let suppressed = jget (ob_payload i) ''notification_suppressed''
      in if suppressed = JStr ''attention_verbosity'' then verbosity \<le> attention_level r
         else suppressed = JStr ''attention_no_longer_due'')"

definition requeue_attention :: "outbox_intent \<Rightarrow> outbox_intent st" where
  "requeue_attention i =
     bindM utc_now (\<lambda>now.
     bindM (update_outbox_if_status (i\<lparr>ob_status := OS_pending, ob_completed_at := None,
         ob_next_attempt_at := now,
         ob_payload := dict_pop ''notification_suppressed'' (ob_payload i)\<rparr>)
         OS_succeeded (Some (ob_claim_token i))) (\<lambda>updated.
     case updated of Some u \<Rightarrow> retM u | None \<Rightarrow> enqueue_outbox i))"

definition enqueue_attention ::
  "int \<Rightarrow> atomic_case \<Rightarrow> instant option \<Rightarrow> int \<Rightarrow> outbox_intent option st" where
  "enqueue_attention verbosity c now reminder_seconds =
     (if \<not> source_watched c then retM None
      else
        bindM (get_attention (ac_case_id c)) (\<lambda>previous.
        bindM (given_or now dt_now) (\<lambda>t.
        bindM (liftM (attention_due c previous t reminder_seconds)) (\<lambda>request.
        case request of
          None \<Rightarrow> retM None
        | Some r \<Rightarrow>
            bindM (bindM (new_intent None None None (\<lambda>i. i\<lparr>
                ob_case_id := Some (ac_case_id c), ob_idempotency_key := ar_idempotency_key r,
                ob_payload := [(''attention_request'', request_json r)]\<rparr>) OI_report)
              enqueue_outbox) (\<lambda>intent.
            if ob_status intent = OS_succeeded \<and> eligible_again verbosity r intent
            then bindM (requeue_attention intent) (\<lambda>j. retM (Some j))
            else retM (Some intent))))))"

definition count_enqueued :: "int \<Rightarrow> instant \<Rightarrow> int \<Rightarrow> atomic_case \<Rightarrow> nat \<Rightarrow> nat st" where
  "count_enqueued verbosity now reminder_seconds c n =
     bindM (enqueue_attention verbosity c (Some now) reminder_seconds)
       (\<lambda>i. retM (if i = None then n else n + 1))"

definition enqueue_attention_batch ::
  "int \<Rightarrow> string \<Rightarrow> int \<Rightarrow> instant option \<Rightarrow> int \<Rightarrow> (string \<times> nat) st" where
  "enqueue_attention_batch verbosity after_case_id limit now reminder_seconds =
     (let n = max 1 (min limit 1000) in
      bindM (given_or now dt_now) (\<lambda>t.
      bindM (list_attention_candidates after_case_id n (Some t) reminder_seconds) (\<lambda>cases.
      bindM (foldM (count_enqueued verbosity t reminder_seconds) cases 0) (\<lambda>enqueued.
        retM (if int (length cases) = n then ac_case_id (last cases) else [], enqueued)))))"

subsection \<open>The handler\<close>

text \<open>
  What a sender answers: None for a message below the verbosity, a bool, or the receipt of a card that
  a later one superseded, with the POSIX time it was verified at.
\<close>

datatype send_result = Send_suppressed | Send_bool bool | Send_superseded rat

type_synonym attention_sender =
  "atomic_case \<Rightarrow> attention_request \<Rightarrow> outbox_intent \<Rightarrow> send_result st"

definition epoch :: instant where
  "epoch = 719162 * day_us"

text \<open>\<open>datetime.fromtimestamp(t, timezone.utc)\<close>: the nearest microsecond, ties to even.\<close>

definition fromtimestamp :: "rat \<Rightarrow> exn + instant" where
  "fromtimestamp q =
     (let t = epoch + round_half_even (q * 1000000)
      in if valid_instant t then Inr t else Inl (ValueError ''year is out of range''))"

definition eligible ::
  "int \<Rightarrow> outbox_intent \<Rightarrow> attention_request \<Rightarrow> atomic_case option st" where
  "eligible reminder_seconds i request =
     (if \<not> opt_truthy (ob_case_id i) then raiseM (ValueError ''attention requires a case'')
      else
        bindM (get_case (the (ob_case_id i))) (\<lambda>found.
        case as_atomic found of
          None \<Rightarrow> raiseM (KeyError ''attention case unavailable'')
        | Some c \<Rightarrow>
            if \<not> source_watched c then retM None
            else
              bindM (get_attention (ac_case_id c)) (\<lambda>previous.
              bindM dt_now (\<lambda>now.
              bindM (liftM (attention_due c previous now reminder_seconds)) (\<lambda>current.
                retM (if current = Some request then Some c else None))))))"

definition suppressed_result :: "string \<Rightarrow> outbox_handler_result" where
  "suppressed_result reason =
     blank_result\<lparr>hx_payload_updates := [(''notification_suppressed'', JStr reason)]\<rparr>"

text \<open>\<open>AttentionDelivery(...)\<close> checks the bounds of its fields.\<close>

definition new_attention_delivery :: "attention_delivery \<Rightarrow> exn + attention_delivery" where
  "new_attention_delivery d =
     (if ad_generation d < 0 then Inl (ValueError ''generation'')
      else if ad_sequence d < 1 then Inl (ValueError ''sequence'') else Inr d)"

definition delivery_time :: "send_result \<Rightarrow> instant st" where
  "delivery_time sent = (case sent of
     Send_superseded verified_at \<Rightarrow> liftM (fromtimestamp verified_at) | _ \<Rightarrow> dt_now)"

text \<open>The send under the lease: the result, and whether the lease stays held.\<close>

definition attempt_delivery ::
  "int \<Rightarrow> attention_sender \<Rightarrow> outbox_intent \<Rightarrow> attention_request \<Rightarrow> string
    \<Rightarrow> (outbox_handler_result \<times> bool) st" where
  "attempt_delivery reminder_seconds sender i request lease =
     bindM (eligible reminder_seconds i request) (\<lambda>found.
     case found of
       None \<Rightarrow> retM (suppressed_result ''attention_no_longer_due'', False)
     | Some c \<Rightarrow>
         bindM (sender c request i) (\<lambda>sent.
         case sent of
           Send_suppressed \<Rightarrow> retM (suppressed_result ''attention_verbosity'', False)
         | Send_bool False \<Rightarrow> raiseM (RuntimeError ''attention notification was not delivered'')
         | _ \<Rightarrow>
             bindM (delivery_time sent) (\<lambda>t.
             bindM (liftM (new_attention_delivery \<lparr>ad_case_id = ac_case_id c,
                 ad_generation = ar_generation request, ad_phase = ar_phase request,
                 ad_severity = ar_severity request, ad_delivered_at = t,
                 ad_sequence = ar_expected_sequence request + 1\<rparr>)) (\<lambda>d.
               retM (blank_result\<lparr>hx_attention_delivery := Some d,
                 hx_attention_lease_token := lease,
                 hx_payload_updates := [(''attention_delivered'', JStr (kind_str (ar_kind request)))]\<rparr>,
                 True)))))"

text \<open>\<open>try ... finally\<close>: the lease is released unless the delivery is handed over.\<close>

definition release_unless :: "string \<Rightarrow> string \<Rightarrow> ('a \<times> bool) st \<Rightarrow> 'a st" where
  "release_unless cid lease body = (\<lambda>s. case body s of
     (Inr (x, True), t) \<Rightarrow> (Inr x, t)
   | (Inr (x, False), t) \<Rightarrow> (Inr x, snd (release_attention cid lease t))
   | (Inl e, t) \<Rightarrow> (Inl e, snd (release_attention cid lease t)))"

definition attention_handler ::
  "(json \<Rightarrow> exn + attention_request) \<Rightarrow> attention_sender \<Rightarrow> int \<Rightarrow> outbox_handler" where
  "attention_handler model_validate sender reminder_seconds i =
     bindM (liftM (model_validate (jget (ob_payload i) ''attention_request''))) (\<lambda>request.
     seqM (raise_if (ar_idempotency_key request \<noteq> ob_idempotency_key i)
       (ValueError ''attention identity mismatch''))
     (bindM (eligible reminder_seconds i request) (\<lambda>found.
      if found = None then retM (Some (suppressed_result ''attention_no_longer_due''))
      else
        bindM (claim_attention i (ar_expected_sequence request) 120) (\<lambda>lease.
        case lease of
          None \<Rightarrow> raiseM (RuntimeError ''attention delivery already claimed or superseded'')
        | Some token \<Rightarrow>
            bindM (release_unless (the (ob_case_id i)) token
              (attempt_delivery reminder_seconds sender i request token)) (\<lambda>r. retM (Some r))))))"

subsection \<open>The sender\<close>

record card_field =
  cf_name :: string
  cf_value :: string
  cf_inline :: bool

text \<open>The call of the notifier; the revision is the datetime whose POSIX time is passed.\<close>

record case_card =
  cc_case_id :: string
  cc_title :: string
  cc_description :: string
  cc_fields :: "card_field list"
  cc_color :: int
  cc_level :: int
  cc_revision :: pydt
  cc_superseded_receipt :: bool

datatype notifier_result = NR_none | NR_true | NR_superseded rat | NR_other

fun attention_label :: "attention_kind \<Rightarrow> string" where
  "attention_label AK_new = ''New incident''"
| "attention_label AK_recurrence = ''Incident recurring''"
| "attention_label AK_escalation = ''Incident escalated''"
| "attention_label AK_recovery = ''Incident recovered''"
| "attention_label AK_reminder = ''Unacknowledged critical incident''"

definition card_text :: "string \<Rightarrow> int \<Rightarrow> string" where
  "card_text v limit = sanitize_lhp_text (JStr v) limit"

definition card_fields :: "atomic_case \<Rightarrow> attention_request \<Rightarrow> card_field list" where
  "card_fields c r =
     [\<lparr>cf_name = ''Case'', cf_value = card_text (or_str (ac_case_number c) (ac_case_id c)) 128,
       cf_inline = True\<rparr>,
      \<lparr>cf_name = ''Status'', cf_value = card_text (case_status_str (ac_status c)) 64,
       cf_inline = True\<rparr>,
      \<lparr>cf_name = ''Severity'', cf_value = severity_str (ar_severity r), cf_inline = True\<rparr>,
      \<lparr>cf_name = ''Resource'', cf_value = card_text (or_str (ac_resource_id c) ''unknown'') 256,
       cf_inline = False\<rparr>] @
     (if ac_recommendations c = [] then []
      else [\<lparr>cf_name = ''Next checks'',
        cf_value = card_text (py_join ''; '' (ac_recommendations c)) 1000, cf_inline = False\<rparr>])"

definition card_title :: "atomic_case \<Rightarrow> attention_request \<Rightarrow> string" where
  "card_title c r = card_text (attention_label (ar_kind r) @ '': '' @
     or_str (ac_case_number c) (ac_case_id c) @ [CHR '' '', em_dash, CHR '' ''] @
     or_str (ac_title c) (ac_detector c)) 256"

text \<open>
  A new incident shares the card of its facts, which is named by the case; a later event has one card
  per durable request.
\<close>

definition card_identity :: "atomic_case \<Rightarrow> attention_request \<Rightarrow> string" where
  "card_identity c r = (if ar_kind r = AK_new then ac_case_id c else ar_idempotency_key r)"

definition card_revision :: "atomic_case \<Rightarrow> attention_request \<Rightarrow> outbox_intent \<Rightarrow> exn + pydt" where
  "card_revision c r i =
     (let v = (if ar_kind r = AK_new then ac_opened_at c else ob_created_at i)
      in case fromisoformat v of
           None \<Rightarrow> Inl (ValueError (''Invalid isoformat string: '' @ repr_str v))
         | Some d \<Rightarrow> Inr d)"

definition attention_card :: "atomic_case \<Rightarrow> attention_request \<Rightarrow> pydt \<Rightarrow> case_card" where
  "attention_card c r revision = \<lparr>
     cc_case_id = card_identity c r, cc_title = card_title c r,
     cc_description =
       card_text (or_str (ac_summary c) ''Monitoring reported an incident state change.'') 1600,
     cc_fields = card_fields c r,
     cc_color = (if ar_phase r = Ph_recovered then 0x2ECC71 else 0xE74C3C),
     cc_level = attention_level r, cc_revision = revision,
     cc_superseded_receipt = (ar_kind r = AK_new)\<rparr>"

definition attention_send ::
  "int \<Rightarrow> (case_card \<Rightarrow> notifier_result st) \<Rightarrow> attention_sender" where
  "attention_send verbosity notifier c r i =
     (if attention_level r < verbosity then retM Send_suppressed
      else
        bindM (liftM (card_revision c r i)) (\<lambda>revision.
        bindM (notifier (attention_card c r revision)) (\<lambda>result.
          retM (case result of
              NR_superseded q \<Rightarrow> if ar_kind r = AK_new then Send_superseded q else Send_bool False
            | NR_none \<Rightarrow> Send_bool True
            | NR_true \<Rightarrow> Send_bool True
            | NR_other \<Rightarrow> Send_bool False))))"

end
