(* ===== verification/Correlation.thy ===== *)
theory Correlation
  imports Service
begin

section \<open>Meta cases (app/cases/correlation.py)\<close>

text \<open>
  \<open>CorrelationService\<close>, the one owner of meta cases: it groups firing observations of one scope into a
  meta case and attaches and detaches child cases. Its own state is a policy.
\<close>

record meta_case_result =
  mr_action :: string
  mr_meta_case :: meta_case
  mr_events :: "case_event list"

fun as_meta :: "case_projection option \<Rightarrow> meta_case option" where
  "as_meta (Some (Meta m)) = Some m"
| "as_meta _ = None"

definition require_meta_case :: "string \<Rightarrow> meta_case st" where
  "require_meta_case mid = bindM (get_case mid) (\<lambda>found.
     case as_meta found of Some m \<Rightarrow> retM m
     | None \<Rightarrow> raiseM (KeyError (''meta-case not found: '' @ mid)))"

definition require_atomic_case :: "string \<Rightarrow> atomic_case st" where
  "require_atomic_case cid = bindM (get_case cid) (\<lambda>found.
     case as_atomic found of Some c \<Rightarrow> retM c
     | None \<Rightarrow> raiseM (KeyError (''atomic case not found: '' @ cid)))"

definition upsert_meta :: "meta_case \<Rightarrow> meta_case st" where
  "upsert_meta m = seqM (upsert_case (Meta m)) (retM m)"

subsection \<open>Reading a storm out of observations\<close>

definition event_fingerprint_from_parts :: "string \<Rightarrow> string list \<Rightarrow> string" where
  "event_fingerprint_from_parts title parts = take 16 (sha256_hex (stable_json (JDict
     [(''title'', JStr title),
      (''parts'', JList (map JStr (sort (filter (\<lambda>p. p \<noteq> []) parts))))])))"

definition scope_fields :: "(string \<times> (observation \<Rightarrow> string)) list" where
  "scope_fields = [(''site'', obs_site), (''customer'', obs_customer), (''service'', obs_service),
     (''resource'', obs_resource), (''entity'', obs_entity)]"

primrec shared_scope_in ::
  "(string \<times> (observation \<Rightarrow> string)) list \<Rightarrow> observation list \<Rightarrow> string \<times> string" where
  "shared_scope_in [] observations = ([], [])"
| "shared_scope_in (f # fs) observations =
     (case remdups (filter (\<lambda>v. v \<noteq> []) (map (snd f) observations)) of
        [v] \<Rightarrow> (fst f, v) | _ \<Rightarrow> shared_scope_in fs observations)"

definition shared_scope :: "observation list \<Rightarrow> string \<times> string" where
  "shared_scope observations = shared_scope_in scope_fields observations"

definition event_type_for_observations :: "observation list \<Rightarrow> meta_event_type" where
  "event_type_for_observations observations =
     (let rendered = py_lower (py_join '' '' (map (\<lambda>ob. py_join '' '' [obs_detector ob, obs_rule_id ob,
            str_or_empty (jget (obs_annotations ob) ''summary'')]) observations));
          has = (\<lambda>w. str_in w rendered)
      in if has ''router'' \<and> (has ''down'' \<or> has ''unreachable'') then ME_router_down
         else if has ''link'' \<and> (has ''down'' \<or> has ''loss'') then ME_link_failure
         else if has ''monitor'' \<or> has ''scrape'' then ME_monitoring_failure
         else if has ''bgp'' \<or> has ''ospf'' \<or> has ''isis'' \<or> has ''reconvergence''
         then ME_routing_reconvergence
         else if has ''power'' then ME_power_event
         else ME_unknown)"

subsection \<open>Children\<close>

definition meta_ended :: "case_status \<Rightarrow> bool" where
  "meta_ended w \<longleftrightarrow> w \<in> {CS_split, CS_merged, CS_resolved, CS_closed}"

text \<open>The guards of both cases, taken in the order of their identifiers.\<close>

definition both_guards :: "string \<Rightarrow> string \<Rightarrow> 'a st \<Rightarrow> 'a st" where
  "both_guards a b body = case_write_guard (min a b) (case_write_guard (max a b) body)"

definition attached_meta :: "case_policy \<Rightarrow> atomic_case \<Rightarrow> string \<Rightarrow> string \<Rightarrow> meta_case \<Rightarrow> meta_case" where
  "attached_meta pol child t1 t2 m = m\<lparr>
     mc_child_case_ids := add_new (ac_case_id child) (mc_child_case_ids m),
     mc_affected_entities := (if ac_resource_id child = [] then mc_affected_entities m
       else add_new (ac_resource_id child) (mc_affected_entities m)),
     mc_last_child_update_at := t1, mc_updated_at := t2,
     mc_policy_version := pol_policy_version pol\<rparr>"

definition attached_child :: "case_policy \<Rightarrow> string \<Rightarrow> bool \<Rightarrow> string \<Rightarrow> atomic_case \<Rightarrow> atomic_case" where
  "attached_child pol meta_id own_action t c = c\<lparr>
     ac_meta_case_id := meta_id, ac_covered_by_meta_case := \<not> own_action,
     ac_independent_action_required := own_action, ac_updated_at := t,
     ac_policy_version := pol_policy_version pol\<rparr>"

definition actor_of :: "string \<Rightarrow> actor_type" where
  "actor_of actor_id = (if actor_id = [] then Act_system else Act_operator)"

text \<open>A child of another meta case that has not ended cannot be attached.\<close>

definition check_not_elsewhere :: "atomic_case \<Rightarrow> meta_case \<Rightarrow> unit st" where
  "check_not_elsewhere child m =
     (if ac_meta_case_id child = [] \<or> ac_meta_case_id child = mc_case_id m then retM ()
      else bindM (get_case (ac_meta_case_id child)) (\<lambda>found.
        case as_meta found of
          None \<Rightarrow> retM ()
        | Some other \<Rightarrow> raise_if (\<not> meta_ended (mc_status other))
            (ValueError (''child case '' @ ac_case_id child @
              '' is already attached to active meta-case '' @ ac_meta_case_id child))))"

definition attach_child ::
  "case_policy \<Rightarrow> string \<Rightarrow> string \<Rightarrow> string \<Rightarrow> pyfloat \<Rightarrow> string \<Rightarrow> bool \<Rightarrow> meta_case_result st" where
  "attach_child pol meta_id child_id reason confidence actor_id own_action =
     both_guards meta_id child_id
       (bindM (require_meta_case meta_id) (\<lambda>m.
        bindM (require_atomic_case child_id) (\<lambda>child.
        seqM (check_not_elsewhere child m)
        (bindM utc_now (\<lambda>t1.
         bindM utc_now (\<lambda>t2.
         bindM utc_now (\<lambda>t3.
         bindM (upsert_meta (attached_meta pol child t1 t2 m)) (\<lambda>m'.
         seqM (upsert_atomic (attached_child pol (mc_case_id m) own_action t3 child))
         (bindM (emit None (\<lambda>e. e\<lparr>
             ev_case_id := Some (ac_case_id child), ev_meta_case_id := Some (mc_case_id m'),
             ev_event_type := ''child_case_attached_to_meta_case'',
             ev_actor_type := actor_of actor_id, ev_actor_id := actor_id,
             ev_policy_version := pol_policy_version pol,
             ev_payload := [(''reason'', JStr reason), (''confidence'', JFloat (pf_repr confidence)),
               (''covered_by_meta_case'', JBool (\<not> own_action)),
               (''independent_action_required'', JBool own_action)]\<rparr>)) (\<lambda>event.
           retM \<lparr>mr_action = ''attached'', mr_meta_case = m', mr_events = [event]\<rparr>))))))))))"

definition detached_child :: "case_policy \<Rightarrow> string \<Rightarrow> string \<Rightarrow> atomic_case \<Rightarrow> atomic_case" where
  "detached_child pol meta_id t c =
     (let ours = (ac_meta_case_id c = meta_id) in c\<lparr>
        ac_meta_case_id := (if ours then [] else ac_meta_case_id c),
        ac_covered_by_meta_case := (if ours then False else ac_covered_by_meta_case c),
        ac_updated_at := t, ac_policy_version := pol_policy_version pol\<rparr>)"

definition detached_meta :: "case_policy \<Rightarrow> string \<Rightarrow> string \<Rightarrow> string \<Rightarrow> meta_case \<Rightarrow> meta_case" where
  "detached_meta pol child_id t1 t2 m = m\<lparr>
     mc_child_case_ids := filter (\<lambda>i. i \<noteq> child_id) (mc_child_case_ids m),
     mc_last_child_update_at := t1, mc_updated_at := t2,
     mc_policy_version := pol_policy_version pol\<rparr>"

definition detach_child ::
  "case_policy \<Rightarrow> string \<Rightarrow> string \<Rightarrow> string \<Rightarrow> string \<Rightarrow> meta_case_result st" where
  "detach_child pol meta_id child_id reason actor_id =
     both_guards meta_id child_id
       (bindM (require_meta_case meta_id) (\<lambda>m.
        bindM (require_atomic_case child_id) (\<lambda>child.
        bindM utc_now (\<lambda>t1.
        bindM utc_now (\<lambda>t2.
        bindM utc_now (\<lambda>t3.
        bindM (upsert_meta (detached_meta pol (ac_case_id child) t1 t2 m)) (\<lambda>m'.
        seqM (upsert_atomic (detached_child pol (mc_case_id m) t3 child))
        (bindM (emit None (\<lambda>e. e\<lparr>
            ev_case_id := Some (ac_case_id child), ev_meta_case_id := Some (mc_case_id m'),
            ev_event_type := ''child_case_detached_from_meta_case'',
            ev_actor_type := actor_of actor_id, ev_actor_id := actor_id,
            ev_policy_version := pol_policy_version pol,
            ev_payload := [(''reason'', JStr reason)]\<rparr>)) (\<lambda>event.
          retM \<lparr>mr_action = ''detached'', mr_meta_case = m', mr_events = [event]\<rparr>)))))))))"

definition mark_independent_action_required ::
  "case_policy \<Rightarrow> string \<Rightarrow> bool \<Rightarrow> string \<Rightarrow> string \<Rightarrow> atomic_case st" where
  "mark_independent_action_required pol child_id required reason actor_id =
     case_write_guard child_id
       (bindM (require_atomic_case child_id) (\<lambda>child.
        bindM utc_now (\<lambda>t.
        bindM (upsert_atomic (child\<lparr>
            ac_independent_action_required := required,
            ac_covered_by_meta_case := (if required then False
              else if ac_meta_case_id child \<noteq> [] then True else ac_covered_by_meta_case child),
            ac_updated_at := t, ac_policy_version := pol_policy_version pol\<rparr>)) (\<lambda>c.
        seqM (emit None (\<lambda>e. e\<lparr>
            ev_case_id := Some (ac_case_id c),
            ev_meta_case_id := (if ac_meta_case_id c = [] then None else Some (ac_meta_case_id c)),
            ev_event_type := ''child_case_independent_action_required_set'',
            ev_actor_type := actor_of actor_id, ev_actor_id := actor_id,
            ev_policy_version := pol_policy_version pol,
            ev_payload := [(''required'', JBool required), (''reason'', JStr reason)]\<rparr>))
          (retM c)))))"

subsection \<open>Creating a meta case\<close>

text \<open>\<open>min(..., default="")\<close> and \<open>max(..., default="")\<close> of the observation times.\<close>

definition earliest :: "observation list \<Rightarrow> string" where
  "earliest obs = (if obs = [] then [] else Min (set (map obs_observed_at obs)))"

definition latest :: "observation list \<Rightarrow> string" where
  "latest obs = (if obs = [] then [] else Max (set (map obs_observed_at obs)))"

definition blank_meta :: meta_case where
  "blank_meta = \<lparr>
     mc_case_id = [], mc_event_fingerprint = [], mc_title = [], mc_summary = [],
     mc_event_type = ME_unknown, mc_status = CS_candidate_event, mc_suspected_primary_entity = [],
     mc_suspected_site = [], mc_suspected_customer = [], mc_suspected_service = [],
     mc_child_case_ids = [], mc_notification_ids = [], mc_observation_ids = [],
     mc_affected_entities = [], mc_affected_sites = [], mc_affected_customers = [],
     mc_affected_services = [], mc_affected_interfaces = [], mc_blast_radius_summary = [],
     mc_correlation_reason = [], mc_correlation_confidence = pyfloat_zero,
     mc_correlation_features = [], mc_root_cause_hypothesis = [], mc_supporting_evidence = [],
     mc_disconfirming_evidence = [], mc_opened_at = [], mc_updated_at = [],
     mc_first_notification_at = [], mc_last_notification_at = [], mc_last_child_update_at = [],
     mc_stabilized_at = None, mc_resolved_at = None, mc_closed_at = None,
     mc_resolution_reason = [], mc_notification_count = 0, mc_child_case_count = 0,
     mc_peak_rate = pyfloat_zero, mc_storm_started_at = [], mc_storm_last_seen_at = [],
     mc_storm_quiet_since = [], mc_stabilization_window_until = [], mc_event_level_diagnosis = [],
     mc_recommended_event_level_action = [], mc_issue_url = [], mc_issue_id = [],
     mc_handoff_status = [], mc_child_issue_urls = [], mc_trace_ids = [], mc_feedback_ids = [],
     mc_knowledge_citations = [], mc_candidate_knowledge_update_ids = [],
     mc_final_root_cause_label = [], mc_final_correlation_quality_label = [],
     mc_policy_version = []\<rparr>"

text \<open>The constructor with the times given: it checks the confidence and fills the counts.\<close>

definition new_meta_case :: "(meta_case \<Rightarrow> meta_case) \<Rightarrow> ('z draws_scheme, meta_case) comp" where
  "new_meta_case given =
     bindM (new_id ''meta'') (\<lambda>i.
       let m = given (blank_meta\<lparr>mc_case_id := i\<rparr>)
       in if pf_value (mc_correlation_confidence m) < 0 \<or> 1 < pf_value (mc_correlation_confidence m)
          then raiseM (ValueError ''correlation_confidence'') else retM (meta_fill_counts m))"

definition meta_status_for :: "case_policy \<Rightarrow> pyfloat \<Rightarrow> case_status" where
  "meta_status_for pol confidence =
     (if pf_value (pol_storm_confidence_threshold pol) \<le> pf_value confidence
      then CS_active_event else CS_candidate_event)"

definition created_meta ::
  "case_policy \<Rightarrow> string \<Rightarrow> string \<Rightarrow> string \<Rightarrow> meta_event_type \<Rightarrow> string \<Rightarrow> pyfloat
    \<Rightarrow> observation list \<Rightarrow> string \<Rightarrow> meta_case \<Rightarrow> meta_case" where
  "created_meta pol title summary fingerprint ty reason confidence obs now m = m\<lparr>
     mc_event_fingerprint := fingerprint, mc_title := title, mc_summary := summary,
     mc_event_type := ty, mc_status := meta_status_for pol confidence,
     mc_correlation_reason := reason, mc_correlation_confidence := confidence,
     mc_observation_ids := map obs_observation_id obs,
     mc_notification_ids := filter (\<lambda>i. i \<noteq> []) (map obs_source_event_id obs),
     mc_first_notification_at := earliest obs, mc_last_notification_at := latest obs,
     mc_opened_at := now, mc_updated_at := now, mc_storm_started_at := earliest obs,
     mc_storm_last_seen_at := latest obs, mc_policy_version := pol_policy_version pol\<rparr>"

definition attach_next ::
  "case_policy \<Rightarrow> string \<Rightarrow> string \<Rightarrow> pyfloat \<Rightarrow> string \<Rightarrow> string \<Rightarrow> case_event list
    \<Rightarrow> case_event list st" where
  "attach_next pol meta_id reason confidence actor_id child_id events =
     bindM (attach_child pol meta_id child_id reason confidence actor_id False)
       (\<lambda>r. retM (events @ mr_events r))"

definition create_meta_case ::
  "case_policy \<Rightarrow> string \<Rightarrow> string \<Rightarrow> string \<Rightarrow> meta_event_type \<Rightarrow> string \<Rightarrow> pyfloat
    \<Rightarrow> string list \<Rightarrow> observation list \<Rightarrow> string \<Rightarrow> meta_case_result st" where
  "create_meta_case pol title summary event_fingerprint ty reason confidence child_case_ids obs actor_id =
     (let fingerprint = or_str event_fingerprint
            (event_fingerprint_from_parts title (map obs_observation_id obs)) in
      bindM utc_now (\<lambda>now.
      bindM (new_meta_case (created_meta pol title summary fingerprint ty reason confidence obs now))
        (\<lambda>m0.
      bindM (upsert_meta m0) (\<lambda>m.
      bindM (emit None (\<lambda>e. e\<lparr>
          ev_meta_case_id := Some (mc_case_id m), ev_event_type := ''meta_case_created'',
          ev_actor_id := actor_id, ev_policy_version := pol_policy_version pol,
          ev_payload := [(''event_fingerprint'', JStr fingerprint),
            (''correlation_reason'', JStr reason),
            (''correlation_confidence'', JFloat (pf_repr confidence)),
            (''status'', JStr (case_status_str (meta_status_for pol confidence))),
            (''observation_ids'', JList (map JStr (map obs_observation_id obs)))]\<rparr>)) (\<lambda>event.
      bindM (foldM (attach_next pol (mc_case_id m) reason confidence actor_id) child_case_ids [event])
        (\<lambda>events.
      bindM (require_meta_case (mc_case_id m)) (\<lambda>stored.
        retM \<lparr>mr_action = ''created'', mr_meta_case = stored, mr_events = events\<rparr>)))))))"

definition four_fifths :: pyfloat where
  "four_fifths = \<lparr>pf_value = 3602879701896397 / 4503599627370496, pf_repr = ''0.8''\<rparr>"

definition max_float :: "pyfloat \<Rightarrow> pyfloat \<Rightarrow> pyfloat" where
  "max_float a b = (if pf_value a < pf_value b then b else a)"

definition collect_child :: "observation \<Rightarrow> string list \<Rightarrow> string list st" where
  "collect_child ob ids =
     (let (ty, v) = observation_alias ob in
      bindM (resolve_alias ty v) (\<lambda>cid.
        retM (if opt_truthy cid then add_new (the cid) ids else ids)))"

definition detector_names :: "observation list \<Rightarrow> string list" where
  "detector_names obs = sort (remdups (filter (\<lambda>d. d \<noteq> [])
     (map (\<lambda>ob. or_str (obs_detector ob) (obs_rule_id ob)) obs)))"

definition correlate_observations ::
  "case_policy \<Rightarrow> observation list \<Rightarrow> meta_case_result option st" where
  "correlate_observations pol observations =
     (let firing = filter (\<lambda>ob. obs_status ob = Obs_firing) observations;
          (scope_name, scope_value) = shared_scope firing
      in if length firing < 2 then retM None
         else if scope_value = [] then retM None
         else
           bindM (foldM collect_child firing []) (\<lambda>child_case_ids.
           if length child_case_ids < 2 then retM None
           else
             bindM (create_meta_case pol
                 (''Correlated '' @ scope_name @ '' event: '' @ scope_value)
                 (nat_str (length firing) @ '' firing observations share '' @ scope_name @ ''='' @
                   scope_value @ '': '' @ py_join '', '' (take 5 (detector_names firing)))
                 [] (event_type_for_observations firing) (''shared_'' @ scope_name)
                 (max_float four_fifths (pol_storm_confidence_threshold pol))
                 child_case_ids firing []) (\<lambda>r. retM (Some r))))"

end
