(* ===== verification/Service_Lhp.thy ===== *)
theory Service_Lhp
  imports Service_Reports
begin

section \<open>The handoff protocol through the service\<close>

text \<open>
  The LHP methods of \<open>CaseService\<close>: requesting, updating and cancelling a handoff, the verifier's
  results, knowledge requests, artifacts and their review, and outcomes. The delivery guard of
  \<open>cancel_lhp_handoff\<close> is a lock without data.
\<close>

subsection \<open>Requests\<close>

definition handoff_requested_payload :: "case_handoff \<Rightarrow> jdict" where
  "handoff_requested_payload h = [
     (''handoff_id'', JStr (ho_handoff_id h)),
     (''target_loop'', JStr (loop_name_str (ho_target_loop h))),
     (''objective_key'', JStr (ho_objective_key h)),
     (''idempotency_key'', JStr (ho_idempotency_key h))]"

definition request_lhp_handoff ::
  "service \<Rightarrow> case_handoff \<Rightarrow> verification_objective list \<Rightarrow> bool \<Rightarrow> handoff_create_result st" where
  "request_lhp_handoff sv h objectives enqueue_delivery =
     (if MAX_VERIFICATION_OBJECTIVES_PER_HANDOFF < length objectives
      then raiseM (ValueError (''handoff cannot define more than '' @
        nat_str MAX_VERIFICATION_OBJECTIVES_PER_HANDOFF @ '' verification objectives''))
      else
        bindM (require_atomic_case_locked (ho_case_id h)) (\<lambda>c.
        bindM (new_event None None (\<lambda>e. e\<lparr>
            ev_case_id := Some (ac_case_id c), ev_event_type := ''lhp_handoff_requested'',
            ev_correlation_id := ho_correlation_id h, ev_policy_version := policy_version sv,
            ev_payload := handoff_requested_payload h\<rparr>)) (\<lambda>event.
        bindM (if enqueue_delivery then
            bindM (new_intent None None None (\<lambda>i. i\<lparr>
              ob_case_id := Some (ac_case_id c),
              ob_idempotency_key := ''engineering_handoff_requested:'' @ ho_handoff_id h,
              ob_state_signature := ac_signal_signature c,
              ob_payload := [(''handoff_id'', JStr (ho_handoff_id h)),
                (''schema_version'', JStr (ho_schema_version h))]\<rparr>)
              OI_engineering_handoff_requested) (\<lambda>i. retM (Some i))
          else retM None) (\<lambda>outbox_intent.
          create_handoff_with_objectives h objectives (Some CS_handoff_requested) (Some event)
            outbox_intent))))"

text \<open>
  The payload of a knowledge request: the sanitized evidence, marked as untrusted, laid over the
  identifiers of the request.
\<close>

definition untrusted_payload :: "jdict \<Rightarrow> jdict" where
  "untrusted_payload payload =
     dict_set ''untrusted_evidence'' (JBool True) (sanitize_field_dict payload)"

definition knowledge_request_payload :: "(string \<times> string) list \<Rightarrow> jdict \<Rightarrow> jdict" where
  "knowledge_request_payload ids payload =
     dict_update (map (\<lambda>(k, v). (k, JStr v)) ids) (untrusted_payload payload)"

definition request_lhp_knowledge_context ::
  "service \<Rightarrow> string \<Rightarrow> string \<Rightarrow> string \<Rightarrow> jdict \<Rightarrow> outbox_intent st" where
  "request_lhp_knowledge_context sv cid handoff_id objective_key payload =
     bindM (require_atomic_case_locked cid) (\<lambda>c.
     bindM (bindM (new_intent None None None (\<lambda>i. i\<lparr>
         ob_case_id := Some (ac_case_id c),
         ob_idempotency_key := ''knowledge_context_requested:'' @ ac_case_id c @ '':'' @
           or_str handoff_id (or_str objective_key ''case''),
         ob_state_signature := ac_signal_signature c,
         ob_payload := knowledge_request_payload [(''case_id'', ac_case_id c),
           (''handoff_id'', handoff_id), (''objective_key'', objective_key)] payload\<rparr>)
         OI_knowledge_context_requested) enqueue_outbox) (\<lambda>intent.
     seqM (emit None (\<lambda>e. e\<lparr>
         ev_case_id := Some (ac_case_id c), ev_event_type := ''lhp_knowledge_context_requested'',
         ev_policy_version := policy_version sv,
         ev_payload := [(''handoff_id'', JStr handoff_id), (''objective_key'', JStr objective_key),
           (''outbox_id'', JStr (ob_outbox_id intent))]\<rparr>))
       (retM intent)))"

definition request_lhp_knowledge_artifact_proposal ::
  "service \<Rightarrow> string \<Rightarrow> string \<Rightarrow> string \<Rightarrow> jdict \<Rightarrow> outbox_intent st" where
  "request_lhp_knowledge_artifact_proposal sv cid handoff_id outcome_id payload =
     bindM (require_atomic_case_locked cid) (\<lambda>c.
     bindM (bindM (new_intent None None None (\<lambda>i. i\<lparr>
         ob_case_id := Some (ac_case_id c),
         ob_idempotency_key := ''knowledge_artifact_proposed:'' @ ac_case_id c @ '':'' @
           or_str handoff_id (or_str outcome_id ''case''),
         ob_state_signature := ac_signal_signature c,
         ob_payload := knowledge_request_payload [(''case_id'', ac_case_id c),
           (''handoff_id'', handoff_id), (''outcome_id'', outcome_id)] payload\<rparr>)
         OI_knowledge_artifact_proposed) enqueue_outbox) (\<lambda>intent.
     seqM (emit None (\<lambda>e. e\<lparr>
         ev_case_id := Some (ac_case_id c),
         ev_event_type := ''lhp_knowledge_artifact_proposal_requested'',
         ev_policy_version := policy_version sv,
         ev_payload := [(''handoff_id'', JStr handoff_id), (''outcome_id'', JStr outcome_id),
           (''outbox_id'', JStr (ob_outbox_id intent))]\<rparr>))
       (retM intent)))"

subsection \<open>Updates and cancellation\<close>

definition update_event_payload :: "handoff_update \<Rightarrow> string \<Rightarrow> jdict" where
  "update_event_payload u event_reason = [
     (''handoff_id'', JStr (hu_handoff_id u)), (''update_id'', JStr (hu_update_id u)),
     (''update_type'', JStr (update_type_str (hu_update_type u))),
     (''status'', JStr (handoff_status_str (hu_status u))),
     (''external_event_id'', JStr (hu_external_event_id u))] @
     (if event_reason \<noteq> [] then [(''reason'', JStr (or_str (hu_summary u) event_reason))] else [])"

definition record_lhp_handoff_update ::
  "service \<Rightarrow> handoff_update \<Rightarrow> case_status option \<Rightarrow> string option \<Rightarrow> actor_type option \<Rightarrow> string
    \<Rightarrow> string \<Rightarrow> handoff_update_result st" where
  "record_lhp_handoff_update sv u case_status shown_status event_actor_type event_actor_id
       event_reason =
     bindM (new_event None None (\<lambda>e. e\<lparr>
         ev_case_id := Some (hu_case_id u), ev_event_type := ''lhp_handoff_update_recorded'',
         ev_actor_type := (case event_actor_type of Some a \<Rightarrow> a
           | None \<Rightarrow> if hu_source_loop u = Loop_noc then Act_system else Act_monitor),
         ev_actor_id := event_actor_id, ev_source := loop_name_str (hu_source_loop u),
         ev_correlation_id := hu_correlation_id u, ev_policy_version := policy_version sv,
         ev_payload := update_event_payload u event_reason\<rparr>)) (\<lambda>event.
       append_handoff_update u None
         (Some (case case_status of Some w \<Rightarrow> w | None \<Rightarrow> case_status_for_handoff (hu_status u)))
         shown_status (Some event))"

definition record_lhp_verification_result ::
  "service \<Rightarrow> verification_objective \<Rightarrow> string \<Rightarrow> verification_objective st" where
  "record_lhp_verification_result sv v event_id =
     bindM (new_event (given_id event_id) None (\<lambda>e. e\<lparr>
         ev_case_id := Some (vo_case_id v),
         ev_event_type := ''lhp_verification_objective_updated'',
         ev_policy_version := policy_version sv,
         ev_payload := [(''objective_id'', JStr (vo_objective_id v)),
           (''objective_key'', JStr (vo_objective_key v)),
           (''status'', JStr (verification_status_str (vo_status v))),
           (''consecutive_pass_count'', JInt (vo_consecutive_pass_count v))]\<rparr>)) (\<lambda>event.
       update_verification_objective_result v (Some event))"

definition delivery_intent_of :: "string \<Rightarrow> outbox_intent \<Rightarrow> bool" where
  "delivery_intent_of hid i \<longleftrightarrow>
     ob_intent_type i = OI_engineering_handoff_requested \<and>
     str_or_empty (jget (ob_payload i) ''handoff_id'') = hid \<and>
     ob_status i \<notin> {OS_succeeded, OS_abandoned}"

definition abandon_intent :: "string \<Rightarrow> outbox_intent \<Rightarrow> unit st" where
  "abandon_intent hid i =
     (if \<not> delivery_intent_of hid i then retM ()
      else
        bindM (if opt_truthy (ob_completed_at i) then retM (the (ob_completed_at i)) else utc_now)
          (\<lambda>completed.
        seqM (update_outbox_if_status (i\<lparr>ob_status := OS_abandoned,
            ob_completed_at := Some completed, ob_error := ''handoff_cancelled''\<rparr>)
            (ob_status i) None)
          (retM ())))"

definition abandon_handoff_delivery_intents :: "string \<Rightarrow> unit st" where
  "abandon_handoff_delivery_intents hid =
     bindM (list_outbox None) (\<lambda>rows. seqM (mapM (abandon_intent hid) rows) (retM ()))"

definition skip_objective :: "service \<Rightarrow> case_handoff \<Rightarrow> verification_objective \<Rightarrow> unit st" where
  "skip_objective sv h v =
     (if vo_handoff_id v \<noteq> ho_handoff_id h \<or> vo_status v \<noteq> VS_pending then retM ()
      else bindM utc_now (\<lambda>now.
        seqM (record_lhp_verification_result sv (v\<lparr>vo_status := VS_skipped,
            vo_failure_reason := ''handoff_cancelled'', vo_next_check_at := [],
            vo_updated_at := now\<rparr>) [])
          (retM ())))"

definition skip_cancelled_handoff_objectives :: "service \<Rightarrow> case_handoff \<Rightarrow> unit st" where
  "skip_cancelled_handoff_objectives sv h =
     bindM (list_verification_objectives (Some (ho_case_id h)) None False)
       (\<lambda>rows. seqM (mapM (skip_objective sv h) rows) (retM ()))"

definition cancellation_fields :: "string list" where
  "cancellation_fields = [''handoff_id'', ''case_id'', ''source_loop'', ''update_type'', ''status'',
     ''summary'', ''external_event_id'', ''correlation_id'', ''payload'']"

definition cancel_lhp_handoff ::
  "service \<Rightarrow> string \<Rightarrow> string \<Rightarrow> string \<Rightarrow> string \<Rightarrow> handoff_update_result st" where
  "cancel_lhp_handoff sv hid actor_id reason external_event_id =
     bindM (require_handoff_locked hid) (\<lambda>h.
     bindM (new_handoff_update cancellation_fields (blank_handoff_update\<lparr>
         hu_handoff_id := ho_handoff_id h, hu_case_id := ho_case_id h,
         hu_source_loop := Loop_noc, hu_update_type := UT_cancelled, hu_status := HS_cancelled,
         hu_summary := reason, hu_external_event_id := external_event_id,
         hu_correlation_id := ho_correlation_id h,
         hu_payload := [(''actor_id'', JStr actor_id), (''reason'', JStr reason),
           (''source'', JStr ''loop_console'')]\<rparr>)) (\<lambda>u.
     bindM (record_lhp_handoff_update sv u None None (Some Act_operator) actor_id reason) (\<lambda>result.
     seqM (abandon_handoff_delivery_intents (ho_handoff_id h))
     (seqM (skip_cancelled_handoff_objectives sv h)
       (retM result)))))"

subsection \<open>Verification\<close>

definition upsert_lhp_verification_objective ::
  "service \<Rightarrow> verification_objective \<Rightarrow> verification_objective st" where
  "upsert_lhp_verification_objective sv v =
     bindM (new_event None None (\<lambda>e. e\<lparr>
         ev_case_id := Some (vo_case_id v),
         ev_event_type := ''lhp_verification_objective_upserted'',
         ev_policy_version := policy_version sv,
         ev_payload := [(''objective_id'', JStr (vo_objective_id v)),
           (''objective_key'', JStr (vo_objective_key v))]\<rparr>)) (\<lambda>event.
       upsert_verification_objective v (Some event))"

definition list_due_lhp_verification_objectives ::
  "string option \<Rightarrow> int \<Rightarrow> verification_objective list st" where
  "list_due_lhp_verification_objectives now limit =
     bindM (if opt_truthy now then retM (the now) else utc_now)
       (\<lambda>t. list_due_verification_objectives t limit)"

definition mark_lhp_handoff_verified :: "service \<Rightarrow> string \<Rightarrow> case_handoff st" where
  "mark_lhp_handoff_verified sv hid =
     bindM (require_handoff_locked hid) (\<lambda>h.
     bindM utc_now (\<lambda>now.
     bindM (new_event None (Some now) (\<lambda>e. e\<lparr>
         ev_case_id := Some (ho_case_id h), ev_event_type := ''lhp_handoff_verified'',
         ev_policy_version := policy_version sv,
         ev_payload := [(''handoff_id'', JStr hid)]\<rparr>)) (\<lambda>event.
       mark_handoff_verified hid now (Some event))))"

subsection \<open>Knowledge artifacts and outcomes\<close>

definition record_lhp_knowledge_artifact :: "service \<Rightarrow> knowledge_artifact \<Rightarrow> knowledge_artifact st" where
  "record_lhp_knowledge_artifact sv k =
     bindM (new_event None None (\<lambda>e. e\<lparr>
         ev_case_id := Some (ka_case_id k), ev_event_type := ''lhp_knowledge_artifact_recorded'',
         ev_source := ''knowledge'', ev_policy_version := policy_version sv,
         ev_payload := [(''artifact_id'', JStr (ka_artifact_id k)),
           (''artifact_type'', JStr (ka_artifact_type k)),
           (''review_status'', JStr (review_status_str (ka_review_status k)))]\<rparr>)) (\<lambda>event.
       record_knowledge_artifact k (Some event))"

definition review_statuses :: "review_status list" where
  "review_statuses =
     [KR_pending, KR_approved, KR_rejected, KR_superseded, KR_deprecated, KR_published]"

fun reviewed_status :: "review_status \<Rightarrow> artifact_status \<Rightarrow> artifact_status" where
  "reviewed_status KR_pending old = old"
| "reviewed_status KR_approved old = KS_approved"
| "reviewed_status KR_rejected old = KS_rejected"
| "reviewed_status KR_superseded old = KS_superseded"
| "reviewed_status KR_deprecated old = KS_deprecated"
| "reviewed_status KR_published old = KS_published"

definition review_entry :: "service \<Rightarrow> string \<Rightarrow> string \<Rightarrow> review_status \<Rightarrow> json" where
  "review_entry sv actor_id comment r = sanitize_lhp_payload 2000 MAX_PAYLOAD_DEPTH (JDict [
     (''actor_id'', JStr actor_id), (''comment'', JStr comment),
     (''review_status'', JStr (review_status_str r)),
     (''policy_version'', JStr (policy_version sv)),
     (''untrusted_operator_text'', JBool True), (''model_consumption_allowed'', JBool False)])"

text \<open>The dumped artifact with the review in it, validated again: every field counts as given.\<close>

definition reviewed_artifact ::
  "service \<Rightarrow> string \<Rightarrow> string \<Rightarrow> review_status \<Rightarrow> knowledge_artifact \<Rightarrow> exn + knowledge_artifact" where
  "reviewed_artifact sv actor_id comment r k = check_artifact artifact_fields (k\<lparr>
     ka_review_status := r, ka_status := reviewed_status r (ka_status k),
     ka_payload := dict_set ''review'' (review_entry sv actor_id comment r) (ka_payload k)\<rparr>)"

definition review_lhp_knowledge_artifact ::
  "service \<Rightarrow> string \<Rightarrow> string \<Rightarrow> string \<Rightarrow> string \<Rightarrow> string \<Rightarrow> knowledge_artifact st" where
  "review_lhp_knowledge_artifact sv artifact_id review_status actor_id comment event_id =
     (case List.find (\<lambda>r. review_status_str r = review_status) review_statuses of
        None \<Rightarrow> raiseM (ValueError ''invalid knowledge artifact review_status'')
      | Some r \<Rightarrow>
          bindM (list_knowledge_artifacts None None False) (\<lambda>artifacts.
          case List.find (\<lambda>k. ka_artifact_id k = artifact_id) artifacts of
            None \<Rightarrow> raiseM (KeyError (''knowledge artifact not found: '' @ artifact_id))
          | Some k \<Rightarrow>
              bindM (liftM (reviewed_artifact sv actor_id comment r k)) (\<lambda>reviewed.
              bindM (new_event (given_id event_id) None (\<lambda>e. e\<lparr>
                  ev_case_id := Some (ka_case_id reviewed),
                  ev_event_type := ''lhp_knowledge_artifact_reviewed'',
                  ev_actor_type := Act_operator, ev_actor_id := actor_id,
                  ev_source := ''loop_console'', ev_policy_version := policy_version sv,
                  ev_payload := [(''artifact_id'', JStr (ka_artifact_id reviewed)),
                    (''review_status'', JStr (review_status_str (ka_review_status reviewed))),
                    (''comment'', JStr comment), (''untrusted_operator_text'', JBool True),
                    (''model_consumption_allowed'', JBool False)]\<rparr>)) (\<lambda>event.
                update_knowledge_artifact reviewed (Some event)))))"

definition record_lhp_outcome :: "service \<Rightarrow> outcome_record \<Rightarrow> outcome_record st" where
  "record_lhp_outcome sv outcome =
     bindM (new_event None None (\<lambda>e. e\<lparr>
         ev_case_id := Some (oc_work_item_id outcome), ev_event_type := ''lhp_outcome_recorded'',
         ev_policy_version := policy_version sv,
         ev_payload := [(''outcome_id'', JStr (oc_outcome_id outcome)),
           (''case_type'', JStr (oc_case_type outcome))]\<rparr>)) (\<lambda>event.
       record_outcome outcome (Some event))"

definition resolve_lhp_case_with_outcome ::
  "service \<Rightarrow> string \<Rightarrow> outcome_record \<Rightarrow> string \<Rightarrow> atomic_case st" where
  "resolve_lhp_case_with_outcome sv cid outcome handoff_id =
     bindM utc_now (\<lambda>now.
     bindM (new_event None (Some now) (\<lambda>e. e\<lparr>
         ev_case_id := Some cid, ev_event_type := ''lhp_case_resolved_with_outcome'',
         ev_policy_version := policy_version sv,
         ev_payload := [(''outcome_id'', JStr (oc_outcome_id outcome)),
           (''handoff_id'', JStr handoff_id)]\<rparr>)) (\<lambda>event.
       resolve_case_with_outcome cid handoff_id outcome now (Some event)))"

end
