(* ===== verification/Verifier.thy ===== *)
theory Verifier
  imports Service_Lhp
begin

section \<open>The verifier (app/cases/verifier.py)\<close>

text \<open>
  \<open>CaseVerifier\<close>: one run checks the objectives that are due, records each result, and verifies (and
  with the settings resolves) the handoffs whose required objectives are all satisfied. The checker
  may be code of another module: it is a computation given as an argument, with
  \<open>default_verification_check\<close> as the code's own; so is the classification of its exceptions
  (\<open>app.safe_errors\<close>), a function from an exception to the name of its category.
\<close>

record verifier_settings =
  vs_verification_enabled :: bool
  vs_dry_run :: bool
  vs_auto_resolve :: bool
  vs_interval_s :: int
  vs_required_consecutive_passes :: int
  vs_knowledge_context :: bool

datatype check_status = CK_pass | CK_fail | CK_unknown | CK_skipped

record check_result =
  ck_status :: check_status
  ck_evidence_ref :: string
  ck_failure_reason :: string
  ck_payload :: "jdict option"

record run_report =
  rr_checked :: nat
  rr_updated :: nat
  rr_passed :: nat
  rr_failed :: nat
  rr_unknown :: nat
  rr_verified_handoffs :: nat
  rr_resolved_cases :: nat
  rr_dry_run :: bool

definition blank_run :: "bool \<Rightarrow> run_report" where
  "blank_run dry = \<lparr>rr_checked = 0, rr_updated = 0, rr_passed = 0, rr_failed = 0, rr_unknown = 0,
     rr_verified_handoffs = 0, rr_resolved_cases = 0, rr_dry_run = dry\<rparr>"

type_synonym verifier_check = "verification_objective \<Rightarrow> atomic_case option \<Rightarrow> check_result st"

subsection \<open>The result of a check\<close>

fun status_of_check :: "check_status \<Rightarrow> verification_status" where
  "status_of_check CK_pass = VS_pass"
| "status_of_check CK_fail = VS_fail"
| "status_of_check CK_unknown = VS_unknown"
| "status_of_check CK_skipped = VS_skipped"

text \<open>The clock is read only when \<open>now\<close> cannot be.\<close>

definition next_check_at :: "string \<Rightarrow> int \<Rightarrow> string st" where
  "next_check_at now interval_s =
     bindM (liftM (parse_iso_time now)) (\<lambda>parsed.
     bindM (given_or parsed dt_now) (\<lambda>t.
     bindM (liftM (timedelta_seconds (max 1 interval_s))) (\<lambda>us.
     bindM (liftM (instant_plus t us)) (\<lambda>u. retM (isoformat u)))))"

definition checked_objective ::
  "verification_objective \<Rightarrow> check_result \<Rightarrow> string \<Rightarrow> string \<Rightarrow> verification_objective" where
  "checked_objective v r now next_at =
     (let passes = (if ck_status r = CK_pass then vo_consecutive_pass_count v + 1 else 0)
      in v\<lparr>
        vo_last_checked_at := now, vo_next_check_at := next_at,
        vo_evidence_ref := sanitize_lhp_token (JStr (ck_evidence_ref r)) 180,
        vo_failure_reason := sanitize_lhp_token (JStr (ck_failure_reason r)) 180,
        vo_result_payload := (case ck_payload r of
            None \<Rightarrow> vo_result_payload v
          | Some p \<Rightarrow> if p = [] then vo_result_payload v
              else dict_update (vo_result_payload v) (sanitize_field_dict p)),
        vo_consecutive_pass_count := passes,
        vo_status := (if ck_status r = CK_pass
          then (if vo_required_consecutive_passes v \<le> passes then VS_pass else VS_pending)
          else status_of_check (ck_status r)),
        vo_updated_at := now\<rparr>)"

definition apply_check_result ::
  "verification_objective \<Rightarrow> check_result \<Rightarrow> string \<Rightarrow> int \<Rightarrow> verification_objective st" where
  "apply_check_result v r now interval_s =
     bindM (next_check_at now interval_s) (\<lambda>next_at. retM (checked_objective v r now next_at))"

definition objective_satisfied :: "verification_objective \<Rightarrow> bool" where
  "objective_satisfied v \<longleftrightarrow>
     vo_status v = vo_required_status v \<and>
     vo_required_consecutive_passes v \<le> vo_consecutive_pass_count v"

definition observed_clean_after_unhealthy :: "string \<Rightarrow> string \<Rightarrow> exn + bool" where
  "observed_clean_after_unhealthy clean unhealthy =
     (case parse_iso_time clean of
        Inl e \<Rightarrow> Inl e
      | Inr None \<Rightarrow> Inr False
      | Inr (Some c) \<Rightarrow> (case parse_iso_time unhealthy of
          Inl e \<Rightarrow> Inl e
        | Inr None \<Rightarrow> Inr True
        | Inr (Some u) \<Rightarrow> Inr (u \<le> c)))"

definition check_answer :: "check_status \<Rightarrow> string \<Rightarrow> string \<Rightarrow> check_result" where
  "check_answer w evidence reason =
     \<lparr>ck_status = w, ck_evidence_ref = evidence, ck_failure_reason = reason, ck_payload = None\<rparr>"

definition default_verification_check :: verifier_check where
  "default_verification_check v c =
     (if vo_objective_type v = ''monitoring_alert_clear'' then
        (case c of
           None \<Rightarrow> retM (check_answer CK_unknown [] ''case_not_found'')
         | Some x \<Rightarrow>
             bindM (liftM (observed_clean_after_unhealthy (ac_last_observed_clean x)
               (ac_last_observed_unhealthy x))) (\<lambda>clean.
             retM (if clean
               then check_answer CK_pass (''case:'' @ sanitize_lhp_token (JStr (ac_case_id x)) 180 @
                 '':last_observed_clean'') []
               else check_answer CK_unknown [] ''no_positive_clean_observation'')))
      else if vo_objective_type v = ''health_endpoint''
      then retM (check_answer CK_pass ''noc_process:verifier_alive'' [])
      else retM (check_answer CK_unknown []
        (''unsupported_objective_type:'' @ vo_objective_type v)))"

subsection \<open>Verifying a handoff\<close>

definition verifier_outcome ::
  "verifier_settings \<Rightarrow> case_handoff \<Rightarrow> verification_objective list \<Rightarrow> outcome_record st" where
  "verifier_outcome cfg h scoped = new_outcome
     [''work_item_id'', ''case_type'', ''fingerprint'', ''validation'', ''safety'']
     (blank_outcome\<lparr>oc_work_item_id := ho_case_id h, oc_case_type := ho_case_type h,
        oc_fingerprint := ho_fingerprint h,
        oc_validation := [(''verified_handoff_id'', JStr (ho_handoff_id h)),
          (''objective_ids'', JList (map (\<lambda>v. JStr (vo_objective_id v)) scoped)),
          (''required_consecutive_passes'', JInt (vs_required_consecutive_passes cfg))],
        oc_safety := [(''resolved_by'', JStr ''noc_case_verifier''),
          (''auto_resolve_enabled'', JBool True)]\<rparr>)"

definition scoped_objectives ::
  "string \<Rightarrow> verification_objective list \<Rightarrow> verification_objective list" where
  "scoped_objectives hid rows = filter (\<lambda>v. vo_handoff_id v = hid \<and> vo_required v) rows"

definition resolve_verified ::
  "service \<Rightarrow> verifier_settings \<Rightarrow> case_handoff \<Rightarrow> verification_objective list \<Rightarrow> (bool \<times> bool) st" where
  "resolve_verified sv cfg h scoped =
     bindM (verifier_outcome cfg h scoped) (\<lambda>outcome.
     seqM (resolve_lhp_case_with_outcome sv (ho_case_id h) outcome (ho_handoff_id h))
     (seqM (if vs_knowledge_context cfg then
         seqM (request_lhp_knowledge_artifact_proposal sv (ho_case_id h) (ho_handoff_id h)
           (oc_outcome_id outcome) [(''source'', JStr ''noc_case_verifier''),
             (''case_type'', JStr (ho_case_type h))]) (retM ())
       else retM ())
     (retM (True, True))))"

definition maybe_verify_handoff ::
  "service \<Rightarrow> verifier_settings \<Rightarrow> string \<Rightarrow> (bool \<times> bool) st" where
  "maybe_verify_handoff sv cfg hid =
     bindM (get_handoff hid) (\<lambda>found.
     case found of
       None \<Rightarrow> retM (False, False)
     | Some h \<Rightarrow>
         if ho_status h \<in> {HS_verified, HS_resolved, HS_cancelled, HS_expired}
         then retM (False, False)
         else
           bindM (list_verification_objectives (Some (ho_case_id h)) None False) (\<lambda>rows.
           let scoped = scoped_objectives hid rows in
           if scoped = [] \<or> \<not> list_all objective_satisfied scoped then retM (False, False)
           else
             bindM (mark_lhp_handoff_verified sv hid) (\<lambda>verified.
             if \<not> vs_auto_resolve cfg then retM (True, False)
             else resolve_verified sv cfg verified scoped)))"

subsection \<open>A run\<close>

text \<open>The checker under \<open>try\<close>: an exception counts as an unknown result of its category.\<close>

definition run_check ::
  "(exn \<Rightarrow> string) \<Rightarrow> verifier_check \<Rightarrow> verification_objective \<Rightarrow> check_result st" where
  "run_check classify checker v =
     bindM (get_case (vo_case_id v)) (\<lambda>found.
       catchM (checker v (as_atomic found))
         (\<lambda>e. retM (check_answer CK_unknown [] (classify e))))"

fun count_check :: "check_status \<Rightarrow> run_report \<Rightarrow> run_report" where
  "count_check CK_pass r = r\<lparr>rr_checked := rr_checked r + 1, rr_passed := rr_passed r + 1\<rparr>"
| "count_check CK_fail r = r\<lparr>rr_checked := rr_checked r + 1, rr_failed := rr_failed r + 1\<rparr>"
| "count_check _ r = r\<lparr>rr_checked := rr_checked r + 1, rr_unknown := rr_unknown r + 1\<rparr>"

definition check_due_objective ::
  "service \<Rightarrow> verifier_settings \<Rightarrow> (exn \<Rightarrow> string) \<Rightarrow> verifier_check \<Rightarrow> string
    \<Rightarrow> verification_objective \<Rightarrow> run_report \<times> string list \<Rightarrow> (run_report \<times> string list) st" where
  "check_due_objective sv cfg classify checker now v acc =
     bindM (run_check classify checker v) (\<lambda>r.
     bindM (apply_check_result v r now (vs_interval_s cfg)) (\<lambda>updated.
     let counted = count_check (ck_status r) (fst acc) in
     if vs_dry_run cfg then retM (counted, snd acc)
     else seqM (record_lhp_verification_result sv updated [])
       (retM (counted\<lparr>rr_updated := rr_updated counted + 1\<rparr>,
          if vo_handoff_id updated = [] then snd acc else add_new (vo_handoff_id updated) (snd acc)))))"

definition verify_touched ::
  "service \<Rightarrow> verifier_settings \<Rightarrow> string \<Rightarrow> run_report \<Rightarrow> run_report st" where
  "verify_touched sv cfg hid r =
     bindM (maybe_verify_handoff sv cfg hid) (\<lambda>(did_verify, did_resolve).
       retM (r\<lparr>rr_verified_handoffs := rr_verified_handoffs r + of_bool did_verify,
         rr_resolved_cases := rr_resolved_cases r + of_bool did_resolve\<rparr>))"

definition run_once ::
  "service \<Rightarrow> verifier_settings \<Rightarrow> (exn \<Rightarrow> string) \<Rightarrow> verifier_check \<Rightarrow> string option \<Rightarrow> int
    \<Rightarrow> run_report st" where
  "run_once sv cfg classify checker now limit =
     (if \<not> vs_verification_enabled cfg then retM (blank_run (vs_dry_run cfg))
      else
        bindM (if opt_truthy now then retM (the now) else utc_now) (\<lambda>t.
        bindM (list_due_lhp_verification_objectives (Some t) limit) (\<lambda>due.
        bindM (foldM (check_due_objective sv cfg classify checker t) due
            (blank_run (vs_dry_run cfg), [])) (\<lambda>(report, touched).
        if vs_dry_run cfg then retM report
        else foldM (verify_touched sv cfg) (sort touched) report))))"

subsection \<open>The loop\<close>

text \<open>
  The delay after a run of \<open>verifier_loop\<close> and the count of consecutive failures it carries on: a
  failed run backs off by powers of two, to eight times the interval and at most \<open>max_backoff_s\<close>.
\<close>

definition verifier_delay :: "int \<Rightarrow> int \<Rightarrow> nat \<Rightarrow> int" where
  "verifier_delay interval_s max_backoff_s failures =
     (if failures = 0 then max 1 interval_s
      else min max_backoff_s (max 1 interval_s * min (2 ^ (failures - 1)) 8))"

definition verifier_loop_step :: "bool \<Rightarrow> int \<Rightarrow> int \<Rightarrow> nat \<Rightarrow> nat \<times> int" where
  "verifier_loop_step raised interval_s max_backoff_s failures =
     (let n = (if raised then failures + 1 else 0)
      in (n, verifier_delay interval_s max_backoff_s n))"

end
