(* ===== verification/Graph_Memory.thy ===== *)
theory Graph_Memory
  imports Store_Handoffs
begin

section \<open>The case memory of the investigation graph\<close>

text \<open>
  \<open>CaseServiceGraphMemory\<close> (\<open>app/cases/graph_memory.py\<close>): how the investigation graph reads a case and
  writes its summary, its status and its links back, all through the operations of the case store. Here
  are the bounds on what is written and the operations that write; \<open>Graph_History\<close> has the readers that
  need a clock.
\<close>

subsection \<open>Bounds on text and values\<close>

text \<open>
  The characters of a category \<open>C*\<close> of the alphabet: the control characters and the soft hyphen. \<open>NUL\<close> is one of
  them, so the code's \<open>replace\<close> before it makes no difference, and is written out all the same.
\<close>

definition is_control :: "char \<Rightarrow> bool" where
  "is_control c \<longleftrightarrow> code c < 32 \<or> code c = 127 \<or> (128 \<le> code c \<and> code c < 160 \<and> c \<noteq> em_dash) \<or> code c = 173"

definition kept_char :: "char \<Rightarrow> bool" where
  "kept_char c \<longleftrightarrow> code c = 9 \<or> code c = 10 \<or> code c = 13 \<or> \<not> is_control c"

definition safe_string :: "nat \<Rightarrow> json \<Rightarrow> string" where
  "safe_string limit v =
     take limit (filter kept_char (filter (\<lambda>c. code c \<noteq> 0) (str_or_empty v)))"

text \<open>The depth bounds the recursion; a value that is not JSON does not occur.\<close>

fun bounded_json :: "nat \<Rightarrow> nat \<Rightarrow> json \<Rightarrow> json" where
  "bounded_json limit 0 v = JStr (safe_string limit v)"
| "bounded_json limit (Suc depth) v = (case v of
     JStr s \<Rightarrow> JStr (safe_string limit v)
   | JList vs \<Rightarrow> JList (map (bounded_json limit depth) (take 50 vs))
   | JDict d \<Rightarrow> JDict (dict_of (map (\<lambda>kv. (safe_string 80 (JStr (fst kv)), bounded_json limit depth (snd kv)))
       (take 100 d)))
   | _ \<Rightarrow> v)"

definition bounded :: "json \<Rightarrow> json" where
  "bounded = bounded_json 1000 5"

text \<open>\<open>_bounded_json\<close> of a dictionary is a dictionary.\<close>

definition bounded_dict :: "nat \<Rightarrow> nat \<Rightarrow> jdict \<Rightarrow> jdict" where
  "bounded_dict limit depth d = (case bounded_json limit depth (JDict d) of JDict e \<Rightarrow> e | _ \<Rightarrow> [])"

definition clip_key :: "string \<Rightarrow> nat \<Rightarrow> jdict \<Rightarrow> jdict" where
  "clip_key k limit d =
     (case dict_get d k of None \<Rightarrow> d | Some v \<Rightarrow> dict_set k (JStr (safe_string limit v)) d)"

definition summary_payload :: "jdict \<Rightarrow> jdict" where
  "summary_payload summary =
     clip_key ''thread_id'' 128 (clip_key ''incident_id'' 128
       (bounded_dict 2000 6 (filter (\<lambda>kv. fst kv \<noteq> ''case_context'') summary)))"

subsection \<open>Statuses\<close>

definition graph_authored_status :: "string \<Rightarrow> case_status option" where
  "graph_authored_status s =
     List.find (\<lambda>c. case_status_str c = s) [CS_investigating, CS_waiting_approval, CS_recovered_pending]"

text \<open>\<open>_case_status\<close>: a decision resolves the case; an unknown status keeps the old one.\<close>

definition graph_case_status :: "string \<Rightarrow> case_status \<Rightarrow> case_status" where
  "graph_case_status s fallback =
     (if s = ''approved'' \<or> s = ''rejected'' \<or> s = ''finalized'' then CS_resolved
      else case List.find (\<lambda>c. case_status_str c = s) [CS_investigating, CS_waiting_approval,
          CS_recovered_pending, CS_resolved, CS_expired, CS_linked, CS_closed] of
        Some c \<Rightarrow> c | None \<Rightarrow> fallback)"

subsection \<open>Finding the case\<close>

definition truthy_id :: "string option \<Rightarrow> string option" where
  "truthy_id v = (case v of Some s \<Rightarrow> (if s = [] then None else Some s) | None \<Rightarrow> None)"

definition case_numbered :: "string \<Rightarrow> case_projection list \<Rightarrow> string option" where
  "case_numbered text cases = (case List.find (\<lambda>p. case p of
       Atomic c \<Rightarrow> py_strip (ac_case_number c) = text | Meta m \<Rightarrow> False) cases of
     Some p \<Rightarrow> Some (proj_case_id p) | None \<Rightarrow> None)"

definition resolve_case_identifier :: "string \<Rightarrow> string option st" where
  "resolve_case_identifier identifier =
     (let text = py_strip identifier in
      if text = [] then retM None
      else bindM (get_case text) (\<lambda>direct. case as_atomic direct of
        Some c \<Rightarrow> retM (Some (ac_case_id c))
      | None \<Rightarrow> bindM (resolve_alias AT_source_fp text) (\<lambda>a. case truthy_id a of
          Some cid \<Rightarrow> retM (Some cid)
        | None \<Rightarrow> bindM (resolve_alias AT_source_event_id text) (\<lambda>b. case truthy_id b of
            Some cid \<Rightarrow> retM (Some cid)
          | None \<Rightarrow> bindM (list_cases (Some ''atomic'') None 500) (\<lambda>cases.
              retM (case_numbered text cases))))))"

definition graph_case :: "string \<Rightarrow> atomic_case option st" where
  "graph_case incident_id =
     bindM (resolve_case_identifier incident_id) (\<lambda>resolved.
     bindM (get_case (case truthy_id resolved of Some cid \<Rightarrow> cid | None \<Rightarrow> incident_id)) (\<lambda>found.
     retM (as_atomic found)))"

definition require_graph_case :: "string \<Rightarrow> atomic_case st" where
  "require_graph_case incident_id =
     bindM (graph_case incident_id) (\<lambda>found. case found of
       None \<Rightarrow> raiseM (KeyError (''CaseService graph case not found: '' @ incident_id))
     | Some c \<Rightarrow> retM c)"

subsection \<open>What a reader sees\<close>

definition stored_summary :: "atomic_case \<Rightarrow> jdict option" where
  "stored_summary c = (case jget (ac_last_diagnosis c) ''graph_summary'' of JDict d \<Rightarrow> Some d | _ \<Rightarrow> None)"

definition case_dict :: "atomic_case \<Rightarrow> jdict" where
  "case_dict c =
     (let summary = (case stored_summary c of Some d \<Rightarrow> d | None \<Rightarrow> []) in
      [(''incident_id'', JStr (ac_case_id c)), (''case_id'', JStr (ac_case_id c)),
       (''case_number'', JStr (ac_case_number c)), (''status'', JStr (case_status_str (ac_status c))),
       (''fingerprint'', JStr (ac_fingerprint c)), (''identity'', bounded (JDict (ac_identity c))),
       (''resource_id'', JStr (safe_string 240 (JStr (ac_resource_id c)))),
       (''title'', JStr (safe_string 240 (JStr (ac_title c)))),
       (''summary'', JStr (safe_string 1000 (JStr (ac_summary c)))),
       (''event_count'', JInt (int (length (ac_trace_ids c) + length (ac_feedback_ids c)))),
       (''thread_id'', JStr (str_or_empty
          (or_json (jget (ac_last_diagnosis c) ''thread_id'') (jget summary ''thread_id'')))),
       (''created_at'', JStr (ac_opened_at c)), (''updated_at'', JStr (ac_updated_at c)),
       (''last_event_at'', JStr (or_str (ac_last_seen c) (ac_updated_at c))),
       (''latest_transition'', JNull), (''downstream_victims'', JList []),
       (''parents_checked'', JList []), (''needs_reassessment'', JBool False),
       (''source'', JStr ''case_service'')])"

definition get_graph_case :: "string \<Rightarrow> jdict option st" where
  "get_graph_case incident_id =
     bindM (graph_case incident_id) (\<lambda>found. retM (map_option case_dict found))"

definition get_summary :: "string \<Rightarrow> jdict option st" where
  "get_summary incident_id =
     bindM (graph_case incident_id) (\<lambda>found.
     retM (Option.bind found (\<lambda>c. map_option (bounded_dict 1000 5) (stored_summary c))))"

definition list_summaries :: "jdict list st" where
  "list_summaries =
     bindM (list_cases (Some ''atomic'') None 500) (\<lambda>cases.
     retM (map (bounded_dict 1000 5)
       (List.map_filter (\<lambda>p. Option.bind (as_atomic (Some p)) stored_summary) cases)))"

subsection \<open>Writing a summary\<close>

definition summarised :: "jdict \<Rightarrow> atomic_case \<Rightarrow> atomic_case" where
  "summarised rendered c =
     (let diagnosis = dict_set ''graph_summary'' (JDict rendered) (ac_last_diagnosis c);
          diagnosis = (if truthy (jget rendered ''thread_id'')
            then dict_set ''thread_id'' (JStr (safe_string 128 (jget rendered ''thread_id''))) diagnosis
            else diagnosis)
      in c\<lparr>ac_last_diagnosis := diagnosis,
           ac_status := (case graph_authored_status (str_or_empty (jget rendered ''status'')) of
             Some status \<Rightarrow> status | None \<Rightarrow> ac_status c),
           ac_summary := (if truthy (jget rendered ''title'')
             then safe_string 1000 (jget rendered ''title'') else ac_summary c)\<rparr>)"

definition record_summary :: "jdict \<Rightarrow> atomic_case \<Rightarrow> unit st" where
  "record_summary summary c =
     (let rendered = summary_payload summary in
      bindM utc_now (\<lambda>now.
      bindM (upsert_case (Atomic (summarised rendered c\<lparr>ac_updated_at := now\<rparr>))) (\<lambda>_.
      bindM (new_event None None (\<lambda>e. e\<lparr>
         ev_case_id := Some (ac_case_id c), ev_event_type := ''graph_summary_recorded'',
         ev_actor_type := Act_graph,
         ev_payload := [(''status'', JStr (safe_string 64 (jget rendered ''status''))),
           (''thread_id'', JStr (safe_string 128 (jget rendered ''thread_id''))),
           (''title'', JStr (safe_string 500 (jget rendered ''title'')))]\<rparr>)) (\<lambda>e.
      bindM (append_event e) (\<lambda>_. retM ())))))"

definition put_summary :: "string \<Rightarrow> jdict \<Rightarrow> unit st" where
  "put_summary incident_id summary =
     bindM (require_graph_case incident_id) (\<lambda>c.
     case_write_guard (ac_case_id c)
       (bindM (require_graph_case (ac_case_id c)) (record_summary summary)))"

subsection \<open>Writing fields\<close>

definition graph_update_of :: "jdict \<Rightarrow> jdict" where
  "graph_update_of safe_fields =
     (let update = dict_pop ''case_context'' safe_fields in
      if truthy (jget update ''decision_status'')
      then dict_set ''status'' (JStr (str_or_empty (jget update ''decision_status''))) update
      else update)"

text \<open>\<open>d.setdefault(k, v)\<close>\<close>

definition dict_default :: "string \<Rightarrow> json \<Rightarrow> jdict \<Rightarrow> jdict" where
  "dict_default k v d = (case dict_get d k of None \<Rightarrow> dict_set k v d | Some _ \<Rightarrow> d)"

definition merged_summary :: "jdict \<Rightarrow> atomic_case \<Rightarrow> jdict" where
  "merged_summary safe_fields c =
     dict_default ''case_number'' (JStr (ac_case_number c))
       (dict_default ''incident_id'' (JStr (ac_case_id c))
         (dict_update (case stored_summary c of Some d \<Rightarrow> d | None \<Rightarrow> []) (graph_update_of safe_fields)))"

definition updated_by_graph :: "jdict \<Rightarrow> atomic_case \<Rightarrow> atomic_case" where
  "updated_by_graph safe_fields c =
     (let diagnosis = dict_set ''graph_summary'' (JDict (summary_payload (merged_summary safe_fields c)))
            (ac_last_diagnosis c);
          diagnosis = (if truthy (jget safe_fields ''thread_id'')
            then dict_set ''thread_id'' (JStr (safe_string 128 (jget safe_fields ''thread_id''))) diagnosis
            else diagnosis)
      in c\<lparr>ac_last_diagnosis := diagnosis,
           ac_summary := (if truthy (jget safe_fields ''diagnostic_summary'')
             then safe_string 1000 (jget safe_fields ''diagnostic_summary'') else ac_summary c)\<rparr>)"

definition status_by_graph :: "jdict \<Rightarrow> atomic_case \<Rightarrow> atomic_case" where
  "status_by_graph safe_fields c =
     (let status = str_or_empty (jget safe_fields ''status'') in
      if status = [] then c else c\<lparr>ac_status := graph_case_status status (ac_status c)\<rparr>)"

definition record_fields :: "jdict \<Rightarrow> atomic_case \<Rightarrow> jdict st" where
  "record_fields safe_fields c0 =
     (let c = status_by_graph safe_fields c0;
          status = str_or_empty (jget safe_fields ''status'') in
      bindM (if status \<noteq> [] \<and> terminal_case_status (ac_status c) \<and> ac_resolved_at c = None
        then bindM utc_now (\<lambda>now. retM (c\<lparr>ac_resolved_at := Some now\<rparr>)) else retM c) (\<lambda>c.
      bindM utc_now (\<lambda>now.
      let c = updated_by_graph safe_fields c\<lparr>ac_updated_at := now\<rparr> in
      bindM (upsert_case (Atomic c)) (\<lambda>_.
      bindM (new_event None None (\<lambda>e. e\<lparr>
         ev_case_id := Some (ac_case_id c), ev_event_type := ''graph_case_updated'',
         ev_actor_type := Act_graph,
         ev_payload := [(''status'', JStr (safe_string 64 (JStr status))),
           (''thread_id'', JStr (safe_string 128 (jget safe_fields ''thread_id''))),
           (''diagnostic_summary'', JStr (safe_string 500 (jget safe_fields ''diagnostic_summary'')))]\<rparr>)) (\<lambda>e.
      bindM (append_event e) (\<lambda>_. retM (case_dict c)))))))"

definition update_case :: "string \<Rightarrow> jdict \<Rightarrow> jdict st" where
  "update_case incident_id given =
     bindM (require_graph_case incident_id) (\<lambda>c.
     case_write_guard (ac_case_id c)
       (bindM (require_graph_case (ac_case_id c)) (record_fields (bounded_dict 1000 5 given))))"

definition set_case_thread :: "string \<Rightarrow> string \<Rightarrow> jdict st" where
  "set_case_thread incident_id thread_id = update_case incident_id [(''thread_id'', JStr thread_id)]"

subsection \<open>Linking\<close>

definition link_answer :: "case_link_result option \<Rightarrow> jdict" where
  "link_answer r = (case r of
     None \<Rightarrow> [(''ok'', JBool False), (''error'', JStr ''case_not_found'')]
   | Some l \<Rightarrow> [(''ok'', JBool True), (''child_case'', JDict (case_dict (cl_child_case l))),
       (''parent_case'', JDict (case_dict (cl_parent_case l))),
       (''moved_alias_count'', JInt (int (length (cl_moved_aliases l)))),
       (''event_count'', JInt (int (length (cl_events l))))])"

definition link_to_parent_case :: "string \<Rightarrow> string \<Rightarrow> string \<Rightarrow> json list \<Rightarrow> jdict st" where
  "link_to_parent_case child_case_id parent_case_id reason evidence_refs =
     (let refs = map (safe_string 160) (take 20 evidence_refs);
          safe_reason = safe_string 500 (JStr reason) in
      bindM (resolve_case_identifier child_case_id) (\<lambda>child.
      bindM (resolve_case_identifier parent_case_id) (\<lambda>parent.
      case (truthy_id child, truthy_id parent) of
        (Some c, Some p) \<Rightarrow>
          bindM utc_now (\<lambda>now.
          bindM (link_child_case c p safe_reason refs now) (\<lambda>r. retM (link_answer r)))
      | _ \<Rightarrow> retM (link_answer None))))"

end
