(* ===== verification/Service_Contract.thy ===== *)
theory Service_Contract
  imports Attention_Delivery Correlation Verifier Store_Growth Graph_Memory
begin

section \<open>What the components need of the store\<close>

text \<open>
  The interface between the store and everything above it. \<open>store_contract P\<close> says that the store
  operations the service, the outbox worker, the attention scheduler and handler, the correlation
  service, the verifier and the memory of the investigation graph call keep a predicate of the store, whether they return or raise. Inside
  the locale every operation of those components is shown to keep it too; the interpretations give
  the two predicates the store theories prove: consistency, and growth from a given state.
\<close>

lemma keeps_try [keeps_intros]: "keeps P m \<Longrightarrow> keeps P (tryM m)"
  by (auto simp: keeps_def tryM_def split: prod.splits)

lemma keeps_case_sum [keeps_intros]:
  "(\<And>e. keeps P (f e)) \<Longrightarrow> (\<And>x. keeps P (g x)) \<Longrightarrow>
    keeps P (case y of Inl e \<Rightarrow> f e | Inr x \<Rightarrow> g x)"
  by (cases y) auto

lemma keeps_read [keeps_intros]: "keeps P (\<lambda>s. (f s, s))"
  by (simp add: keeps_def)

locale store_contract =
  fixes P :: "store \<Rightarrow> bool"
  assumes draws: "keeps P uuid4_hex" "keeps P dt_now"
    and cases_ops: "keeps P (put_observation ob)" "keeps P (upsert_case p)"
      "keeps P (record_acknowledgement_scope cid t sev)" "keeps P (create_atomic_case c as es)"
      "keeps P (claim_investigation_store cid sg dg la w pv t e)" "keeps P (append_event e)"
      "keeps P (link_child_case child parent rs refs t)"
    and records: "keeps P (record_feedback f)" "keeps P (record_trace_store tr)"
    and outbox_ops: "keeps P (enqueue_outbox i)" "keeps P (update_outbox_if_status i st tk)"
    and attention_ops: "keeps P (claim_attention i n secs)" "keeps P (release_attention cid lt)"
      "keeps P (complete_attention i d n tk' lt eo)"
    and handoff_ops: "keeps P (create_handoff_with_objectives h vs cs eo io)"
      "keeps P (append_handoff_update u hs cs sh eo)" "keeps P (mark_handoff_verified cid t eo)"
      "keeps P (resolve_case_with_outcome cid hid oc t eo)"
    and objective_ops: "keeps P (upsert_verification_objective v eo)"
      "keeps P (update_verification_objective_result v eo)"
    and knowledge_ops: "keeps P (record_knowledge_artifact k eo)"
      "keeps P (update_knowledge_artifact k eo)" "keeps P (record_outcome oc eo)"
begin

lemmas [keeps_intros] = draws cases_ops records outbox_ops attention_ops handoff_ops objective_ops
  knowledge_ops

subsection \<open>Constructors, guards and reads\<close>

lemma k_utc_now [keeps_intros]: "keeps P utc_now"
  unfolding utc_now_def by (intro keeps_intros)

lemma k_new_id [keeps_intros]: "keeps P (new_id x)"
  unfolding new_id_def by (intro keeps_intros)

lemma k_new_event [keeps_intros]: "keeps P (new_event i t f)"
  unfolding new_event_def by (intro keeps_intros)

lemma k_new_alias [keeps_intros]: "keeps P (new_alias i c ty v src conf t)"
  unfolding new_alias_def by (intro keeps_intros)

lemma k_new_intent [keeps_intros]: "keeps P (new_intent i n c f ty)"
  unfolding new_intent_def by (intro keeps_intros)

lemma k_new_atomic_case [keeps_intros]: "keeps P (new_atomic_case i o' u f)"
  unfolding new_atomic_case_def by (intro keeps_intros)

lemma k_draw_field [keeps_intros]: "keeps P m \<Longrightarrow> keeps P (draw_field g n v m)"
  unfolding draw_field_def by (intro keeps_intros)

lemma k_new_handoff_update [keeps_intros]: "keeps P (new_handoff_update g u)"
  unfolding new_handoff_update_def by (intro keeps_intros)

lemma k_new_outcome [keeps_intros]: "keeps P (new_outcome g oc)"
  unfolding new_outcome_def by (intro keeps_intros)

lemma k_reads [keeps_intros]: "keeps P (get_case cid)" "keeps P (resolve_alias ty v)"
  "keeps P (acknowledgement_scope cid t)" "keeps P (list_outbox w)" "keeps P (get_attention cid)"
  "keeps P (has_pending_attention cid)" "keeps P (get_handoff hid)"
  "keeps P (list_verification_objectives co l nf)" "keeps P (list_due_verification_objectives t n)"
  "keeps P (list_knowledge_artifacts co l nf)"
  by (simp_all add: get_case_def resolve_alias_def acknowledgement_scope_def list_outbox_def
      get_attention_def has_pending_attention_def get_handoff_def
      list_verification_objectives_def list_due_verification_objectives_def
      list_knowledge_artifacts_def keeps_get)

lemma k_guard [keeps_intros]: "keeps P m \<Longrightarrow> keeps P (case_write_guard cid m)"
  unfolding case_write_guard_def by (intro keeps_intros)

lemma k_serialize_id [keeps_intros]: "keeps P m \<Longrightarrow> keeps P (serialize_id co m)"
  unfolding serialize_id_def by (intro keeps_intros)

lemma k_serialize_case [keeps_intros]: "(\<And>x. keeps P (f x)) \<Longrightarrow> keeps P (serialize_case c f)"
  unfolding serialize_case_def by (intro keeps_intros)

lemma k_upsert_atomic [keeps_intros]: "keeps P (upsert_atomic c)"
  unfolding upsert_atomic_def by (intro keeps_intros)

lemma k_emit [keeps_intros]: "keeps P (emit i f)"
  unfolding emit_def by (intro keeps_intros)

lemma k_case_bool [keeps_intros]:
  "(\<And>c. keeps P (f c)) \<Longrightarrow> (\<And>m. keeps P (g m)) \<Longrightarrow>
    keeps P (case p of Atomic c \<Rightarrow> f c | Meta m \<Rightarrow> g m)"
  by (cases p) auto

subsection \<open>The service\<close>

lemma k_covered_severity_of [keeps_intros]: "keeps P (covered_severity_of c)"
  unfolding covered_severity_of_def by (intro keeps_intros)

lemma k_update_unhealthy_body [keeps_intros]: "keeps P (update_unhealthy_body sv ob c)"
  unfolding update_unhealthy_body_def by (intro keeps_intros)

lemma k_update_unhealthy [keeps_intros]: "keeps P (update_unhealthy sv c ob)"
  unfolding update_unhealthy_def by (intro keeps_intros)

lemma k_create_aliases [keeps_intros]: "keeps P (create_aliases ob cid ty v)"
  unfolding create_aliases_def Let_def by (intro keeps_intros)

lemma k_create_from_unhealthy [keeps_intros]: "keeps P (create_from_unhealthy sv ob ty v)"
  unfolding create_from_unhealthy_def by (intro keeps_intros)

lemma k_record_clean [keeps_intros]: "keeps P (record_clean sv c ob)"
  unfolding record_clean_def record_clean_body_def by (intro keeps_intros)

lemma k_observed_case [keeps_intros]: "keeps P (observed_case ty v)"
  unfolding observed_case_def by (intro keeps_intros)

lemma k_observe [keeps_intros]: "keeps P (observe sv ob)"
  unfolding observe_def by (intro keeps_intros)

lemma k_should_remind [keeps_intros]: "keeps P (should_remind sv c t)"
  unfolding should_remind_def by (intro keeps_intros)

lemma k_should_report [keeps_intros]: "keeps P (should_report sv c t)"
  unfolding should_report_def by (intro keeps_intros)

lemma k_retry_intent [keeps_intros]: "keeps P (retry_intent i ks)"
  unfolding retry_intent_def by (intro keeps_intros)

lemma k_request_report [keeps_intros]: "keeps P (request_report sv c sig p)"
  unfolding request_report_def by (intro keeps_intros)

lemma k_mark_reported [keeps_intros]: "keeps P (mark_reported sv cid sig r)"
  unfolding mark_reported_def by (intro keeps_intros)

lemma k_should_investigate [keeps_intros]: "keeps P (should_investigate sv c t)"
  unfolding should_investigate_def Let_def by (intro keeps_intros)

lemma k_claim_investigation [keeps_intros]: "keeps P (claim_investigation sv c w)"
  unfolding claim_investigation_def by (intro keeps_intros)

lemma k_record_investigation_result [keeps_intros]:
  "keeps P (record_investigation_result sv cid d rs w e)"
  unfolding record_investigation_result_def by (intro keeps_intros)

lemma k_operator_actions [keeps_intros]: "keeps P (ack sv cid op ei)"
  "keeps P (suppress sv cid r src op ttl ei)" "keeps P (expire_suppression sv cid t)"
  unfolding ack_def suppress_def expire_suppression_def by (intro keeps_intros)+

lemma k_issues [keeps_intros]: "keeps P (handoff_intent sv cid p)"
  "keeps P (record_handoff_result sv cid url iid)"
  unfolding handoff_intent_def record_handoff_result_def by (intro keeps_intros)+

lemma k_case_records [keeps_intros]: "keeps P (record_trace sv tr)"
  "keeps P (record_operator_feedback sv f)" "keeps P (record_knowledge_citations sv cid cits ti)"
  unfolding record_trace_def record_operator_feedback_def record_knowledge_citations_def
  by (intro keeps_intros)+

subsection \<open>The handoff protocol\<close>

lemma k_request_lhp_handoff [keeps_intros]: "keeps P (request_lhp_handoff sv h vs b)"
  unfolding request_lhp_handoff_def by (intro keeps_intros)

lemma k_knowledge_requests [keeps_intros]:
  "keeps P (request_lhp_knowledge_context sv cid hid ok p)"
  "keeps P (request_lhp_knowledge_artifact_proposal sv cid hid oid p)"
  unfolding request_lhp_knowledge_context_def request_lhp_knowledge_artifact_proposal_def
  by (intro keeps_intros)+

lemma k_record_lhp_handoff_update [keeps_intros]:
  "keeps P (record_lhp_handoff_update sv u cs sh ea ei er)"
  unfolding record_lhp_handoff_update_def by (intro keeps_intros)

lemma k_record_lhp_verification_result [keeps_intros]:
  "keeps P (record_lhp_verification_result sv v ei)"
  unfolding record_lhp_verification_result_def by (intro keeps_intros)

lemma k_abandon [keeps_intros]: "keeps P (abandon_handoff_delivery_intents hid)"
  unfolding abandon_handoff_delivery_intents_def abandon_intent_def by (intro keeps_intros)

lemma k_skip [keeps_intros]: "keeps P (skip_cancelled_handoff_objectives sv h)"
  unfolding skip_cancelled_handoff_objectives_def skip_objective_def by (intro keeps_intros)

lemma k_cancel_lhp_handoff [keeps_intros]: "keeps P (cancel_lhp_handoff sv hid a r x)"
  unfolding cancel_lhp_handoff_def by (intro keeps_intros)

lemma k_verification [keeps_intros]: "keeps P (upsert_lhp_verification_objective sv v)"
  "keeps P (list_due_lhp_verification_objectives t n)" "keeps P (mark_lhp_handoff_verified sv hid)"
  unfolding upsert_lhp_verification_objective_def list_due_lhp_verification_objectives_def
    mark_lhp_handoff_verified_def by (intro keeps_intros)+

lemma k_knowledge [keeps_intros]: "keeps P (record_lhp_knowledge_artifact sv k)"
  "keeps P (review_lhp_knowledge_artifact sv ai rs a cm ei)" "keeps P (record_lhp_outcome sv oc)"
  "keeps P (resolve_lhp_case_with_outcome sv cid oc hid)"
  unfolding record_lhp_knowledge_artifact_def review_lhp_knowledge_artifact_def
    record_lhp_outcome_def resolve_lhp_case_with_outcome_def by (intro keeps_intros)+

subsection \<open>The outbox worker\<close>

lemma k_return_expired_claims [keeps_intros]: "keeps P return_expired_claims"
  unfolding return_expired_claims_def return_expired_claim_def by (intro keeps_intros)

lemma k_due_intents [keeps_intros]: "keeps P (due_intents p)"
  unfolding due_intents_def by (intro keeps_intros)

lemma k_claim_intent [keeps_intros]: "keeps P (claim_intent i)"
  unfolding claim_intent_def by (intro keeps_intros)

lemma k_record_failure [keeps_intros]: "keeps P (record_failure b i e)"
  unfolding record_failure_def by (intro keeps_intros)

lemma k_record_completion [keeps_intros]: "keeps P (record_completion i r)"
  unfolding record_completion_def Let_def by (intro keeps_intros)

lemma k_run_claimed: "keeps P (h i) \<Longrightarrow> keeps P (run_claimed b h i)"
  unfolding run_claimed_def by (intro keeps_intros)

lemma k_process_one:
  "(\<And>k h i. dict_get (op_handlers p) k = Some h \<Longrightarrow> keeps P (h i)) \<Longrightarrow> keeps P (process_one p i)"
  unfolding process_one_def
  by (auto split: option.split intro!: keeps_intros k_run_claimed)

lemma k_process_candidates:
  "(\<And>k h i. dict_get (op_handlers p) k = Some h \<Longrightarrow> keeps P (h i)) \<Longrightarrow>
    keeps P (process_candidates p xs)"
  unfolding process_candidates_def process_next_def by (intro keeps_intros k_process_one)

lemma k_process_pending:
  "(\<And>k h i. dict_get (op_handlers p) k = Some h \<Longrightarrow> keeps P (h i)) \<Longrightarrow>
    keeps P (process_pending p n)"
  unfolding process_pending_def by (intro keeps_intros k_process_candidates)

lemma k_process_intent:
  "(\<And>k h i. dict_get (op_handlers p) k = Some h \<Longrightarrow> keeps P (h i)) \<Longrightarrow>
    keeps P (process_intent p i)"
  unfolding process_intent_def by (intro keeps_intros k_process_candidates)

subsection \<open>Attention\<close>

lemma k_list_attention_candidates [keeps_intros]: "keeps P (list_attention_candidates a n t r)"
proof -
  have f: "keeps P (filterM p xs)" for p and xs :: "atomic_case list"
    by (induction xs) (auto intro!: keeps_intros)
  show ?thesis unfolding list_attention_candidates_def by (intro keeps_intros f)
qed

lemma k_enqueue_attention [keeps_intros]: "keeps P (enqueue_attention vb c t r)"
  unfolding enqueue_attention_def requeue_attention_def by (intro keeps_intros)

lemma k_enqueue_attention_batch [keeps_intros]: "keeps P (enqueue_attention_batch vb a n t r)"
  unfolding enqueue_attention_batch_def count_enqueued_def Let_def by (intro keeps_intros)

lemma k_eligible [keeps_intros]: "keeps P (eligible r i req)"
  unfolding eligible_def by (intro keeps_intros)

lemma k_attempt_delivery: "(\<And>c. keeps P (sender c req i)) \<Longrightarrow> keeps P (attempt_delivery r sender i req l)"
  unfolding attempt_delivery_def delivery_time_def
  by (auto split: option.split send_result.split bool.split intro!: keeps_intros)

lemma k_release_unless:
  assumes "keeps P m" shows "keeps P (release_unless cid l m)"
proof (rule keepsI)
  fix s assume "P s"
  obtain r t where m: "m s = (r, t)" by force
  have "P t" using keepsD_eq [OF assms \<open>P s\<close> m] .
  then have "P (snd (release_attention cid l t))" by (rule keepsD [OF attention_ops(2)])
  with \<open>P t\<close> m show "P (snd (release_unless cid l m s))"
    by (auto simp: release_unless_def split: sum.split bool.split prod.split)
qed

lemma k_attention_handler:
  "(\<And>c req. keeps P (sender c req i)) \<Longrightarrow> keeps P (attention_handler mv sender r i)"
  unfolding attention_handler_def by (intro keeps_intros k_release_unless k_attempt_delivery)

lemma k_attention_send: "(\<And>card. keeps P (nf card)) \<Longrightarrow> keeps P (attention_send vb nf c req i)"
  unfolding attention_send_def by (intro keeps_intros)

subsection \<open>Correlation\<close>

lemma k_require_both [keeps_intros]: "keeps P (require_meta_case mid)" "keeps P (require_atomic_case cid)"
  unfolding require_meta_case_def require_atomic_case_def by (intro keeps_intros)+

lemma k_upsert_meta [keeps_intros]: "keeps P (upsert_meta m)"
  unfolding upsert_meta_def by (intro keeps_intros)

lemma k_attach_child [keeps_intros]: "keeps P (attach_child pol mid cid r cf a b)"
  unfolding attach_child_def both_guards_def check_not_elsewhere_def by (intro keeps_intros)

lemma k_detach_child [keeps_intros]: "keeps P (detach_child pol mid cid r a)"
  unfolding detach_child_def both_guards_def by (intro keeps_intros)

lemma k_mark_independent [keeps_intros]:
  "keeps P (mark_independent_action_required pol cid b r a)"
  unfolding mark_independent_action_required_def by (intro keeps_intros)

lemma k_new_meta_case [keeps_intros]: "keeps P (new_meta_case f)"
  unfolding new_meta_case_def Let_def by (intro keeps_intros)

lemma k_create_meta_case [keeps_intros]: "keeps P (create_meta_case pol ti su fp ty r cf cs obs a)"
  unfolding create_meta_case_def attach_next_def Let_def by (intro keeps_intros)

lemma k_correlate_observations [keeps_intros]: "keeps P (correlate_observations pol obs)"
  unfolding correlate_observations_def collect_child_def Let_def by (intro keeps_intros)

subsection \<open>The verifier\<close>

lemma k_next_check_at [keeps_intros]: "keeps P (next_check_at t n)"
  unfolding next_check_at_def by (intro keeps_intros)

lemma k_maybe_verify_handoff [keeps_intros]: "keeps P (maybe_verify_handoff sv cfg hid)"
  unfolding maybe_verify_handoff_def resolve_verified_def verifier_outcome_def Let_def
  by (intro keeps_intros)

lemma k_check_due_objective:
  "(\<And>v c. keeps P (checker v c)) \<Longrightarrow> keeps P (check_due_objective sv cfg cl checker t v acc)"
  unfolding check_due_objective_def run_check_def apply_check_result_def Let_def
  by (intro keeps_intros)

lemma k_run_once:
  "(\<And>v c. keeps P (checker v c)) \<Longrightarrow> keeps P (run_once sv cfg cl checker now n)"
  unfolding run_once_def verify_touched_def by (intro keeps_intros k_check_due_objective)

subsection \<open>The memory of the investigation graph\<close>

lemma k_list_cases [keeps_intros]: "keeps P (list_cases k st n)"
  by (simp add: list_cases_def keeps_get)

lemma k_resolve_case_identifier [keeps_intros]: "keeps P (resolve_case_identifier i)"
  unfolding resolve_case_identifier_def Let_def by (intro keeps_intros)

lemma k_graph_case [keeps_intros]: "keeps P (graph_case i)" "keeps P (require_graph_case i)"
  unfolding require_graph_case_def graph_case_def by (intro keeps_intros)+

lemma k_record_graph [keeps_intros]: "keeps P (record_summary d c)" "keeps P (record_fields d c)"
  unfolding record_summary_def record_fields_def Let_def by (intro keeps_intros)+

lemma k_graph_memory [keeps_intros]: "keeps P (put_summary i d)" "keeps P (update_case i d)"
  "keeps P (set_case_thread i th)" "keeps P (get_summary i)" "keeps P (get_graph_case i)"
  "keeps P list_summaries"
  unfolding put_summary_def set_case_thread_def update_case_def get_summary_def get_graph_case_def
    list_summaries_def by (intro keeps_intros)+

lemma k_link_to_parent_case [keeps_intros]: "keeps P (link_to_parent_case c p r refs)"
  unfolding link_to_parent_case_def Let_def by (intro keeps_intros)

end

subsection \<open>The two contracts of the model's store\<close>

interpretation consistent: store_contract store_ok
  by unfold_locales (intro keeps_intros)+

interpretation growing: store_contract "store_extends s0" for s0
  by unfold_locales (intro keeps_intros)+

end
