(* ===== verification/Service_Spec.thy ===== *)
theory Service_Spec
  imports Handoff_Spec Service_Contract
begin

section \<open>What the case service guarantees\<close>

text \<open>
  The functional behaviour of the service on the cases of the store: what an observation does to a
  case and which ones may resolve it, one case per identity, acknowledgement, reporting intervals
  and the end of a cancelled handoff.
\<close>

subsection \<open>Frames\<close>

text \<open>Appending an event touches the event tables and the supply of identifiers and times only.\<close>

definition core :: "store \<Rightarrow> store" where
  "core s = s\<lparr>uuids_drawn := 0, ticks := 0, st_events := [], st_case_events := []\<rparr>"

definition same_but_events :: "store \<Rightarrow> store \<Rightarrow> bool" where
  "same_but_events s t \<longleftrightarrow> core t = core s"

lemma core_sels:
  "st_cases (core s) = st_cases s" "st_alias_index (core s) = st_alias_index s"
  "st_aliases (core s) = st_aliases s" "st_outbox (core s) = st_outbox s"
  "st_outbox_index (core s) = st_outbox_index s"
  "st_handoffs (core s) = st_handoffs s" "st_objectives (core s) = st_objectives s"
  "st_ack_scopes (core s) = st_ack_scopes s" "st_attention (core s) = st_attention s"
  "st_observations (core s) = st_observations s" "clock (core s) = clock s"
  by (simp_all add: core_def)

lemma same_but_eventsD:
  assumes "same_but_events s t"
  shows "st_cases t = st_cases s" "st_alias_index t = st_alias_index s" "st_aliases t = st_aliases s"
    "st_outbox t = st_outbox s" "st_outbox_index t = st_outbox_index s"
    "st_handoffs t = st_handoffs s" "st_objectives t = st_objectives s"
    "st_ack_scopes t = st_ack_scopes s" "st_attention t = st_attention s"
    "st_observations t = st_observations s" "clock t = clock s"
  using assms unfolding same_but_events_def by (metis core_sels)+

lemma same_but_events_cases:
  assumes "same_but_events s t"
  shows "case_by_id t cid = case_by_id s cid" "atomic_by_id t cid = atomic_by_id s cid"
    "alias_target t key = alias_target s key"
  using same_but_eventsD [OF assms]
  by (simp_all add: case_by_id_def atomic_by_id_def alias_target_def cong: option.case_cong)

lemma same_but_events_trans [trans]:
  "same_but_events s t \<Longrightarrow> same_but_events t u \<Longrightarrow> same_but_events s u"
  by (simp add: same_but_events_def)

lemma same_but_events_draws [simp]: "same_but_events s s"
  "same_but_events s (s\<lparr>ticks := n\<rparr>)" "same_but_events s (s\<lparr>uuids_drawn := m\<rparr>)"
  "same_but_events s (s\<lparr>uuids_drawn := m, ticks := n\<rparr>)" "same_but_events s (write_event e s)"
  by (simp_all add: same_but_events_def core_def write_event_def)

lemma append_event_run: "\<exists>e t. append_event e0 s = (Inr e, t) \<and> same_but_events s t"
  by (cases "dict_get (st_events s) (ev_event_id e0)")
    (auto simp: append_event_def store_event_locked_def bindM_app seqM_app)

lemma new_event_run: "\<exists>e t. new_event i o' fill s = (Inr e, t) \<and> same_but_events s t"
  by (cases i; cases o') (auto simp: new_event_def bindM_app new_id_app utc_now_app)

lemma emit_returns:
  obtains e t where "emit i fill s = (Inr e, t)" and "same_but_events s t"
proof -
  obtain e0 u where u: "new_event i None fill s = (Inr e0, u)" "same_but_events s u"
    using new_event_run by blast
  obtain e t where "append_event e0 u = (Inr e, t)" "same_but_events u t"
    using append_event_run by blast
  with u that show thesis by (auto simp: emit_def bindM_app intro: same_but_events_trans)
qed

lemma emit_dest: "emit i fill s = (r, t) \<Longrightarrow> (\<exists>e. r = Inr e) \<and> same_but_events s t"
  by (metis emit_returns prod.inject)

subsection \<open>An observation of a stored case\<close>

text \<open>The severity an acknowledgement covers: the recorded scope, else the case's own severity.\<close>

definition covered_of :: "store \<Rightarrow> atomic_case \<Rightarrow> severity" where
  "covered_of s c =
     (if acknowledged c
      then (case dict_get (st_ack_scopes s) (ac_case_id c) of
          Some (t, sev) \<Rightarrow> if t = ac_acknowledged_at c then sev else ac_severity c
        | None \<Rightarrow> ac_severity c)
      else ac_severity c)"

lemma acknowledgement_scope_app: "acknowledgement_scope cid tm s = (Inr (case dict_get (st_ack_scopes s) cid of
    Some (t, sev) \<Rightarrow> if t = tm then Some sev else None | None \<Rightarrow> None), s)"
  by (simp add: acknowledgement_scope_def)

lemma ack_scope_app:
  assumes "atomic_by_id s cid = Some c0"
  shows "record_acknowledgement_scope cid tm sev s =
    (Inr (), s\<lparr>st_ack_scopes := dict_set cid (tm, sev) (st_ack_scopes s)\<rparr>)"
  using assms by (simp add: record_acknowledgement_scope_def seqM_app require_case_app)

lemma covered_run:
  assumes "atomic_by_id s (ac_case_id c) = Some c0"
  obtains A where "covered_severity_of c s = (Inr (covered_of s c), s\<lparr>st_ack_scopes := A\<rparr>)"
proof (cases "acknowledged c")
  case False
  with that [of "st_ack_scopes s"] show thesis by (simp add: covered_severity_of_def covered_of_def)
next
  case True
  show thesis
  proof (cases "fst (acknowledgement_scope (ac_case_id c) (ac_acknowledged_at c) s) = Inr None")
    case False
    with True that [of "st_ack_scopes s"] show thesis
      by (auto simp: covered_severity_of_def covered_of_def bindM_app acknowledgement_scope_app
          split: option.splits if_splits)
  next
    case True
    with \<open>acknowledged c\<close> that [of "dict_set (ac_case_id c) (ac_acknowledged_at c, ac_severity c)
        (st_ack_scopes s)"] show thesis
      by (auto simp: covered_severity_of_def covered_of_def bindM_app seqM_app acknowledgement_scope_app
          ack_scope_app [OF assms] split: option.splits if_splits)
  qed
qed

lemma upsert_atomic_app: "upsert_atomic c s =
    (Inr c, s\<lparr>st_cases := dict_set (ac_case_id c) (Atomic c) (st_cases s)\<rparr>)"
  by (simp add: upsert_atomic_def upsert_case_def put_case_def seqM_app proj_case_id_def)

lemma guard_app: "case_write_guard cid m s =
    (if case_by_id s cid = None then (Inl (KeyError ''case not found''), s) else m s)"
  by (simp add: case_write_guard_def bindM_app)

lemma atomic_by_id_case: "atomic_by_id s cid = Some c \<Longrightarrow> case_by_id s cid = Some (Atomic c)"
  by (simp add: atomic_by_id_def as_atomic_Some)

text \<open>The case is read again inside the guard, so only the identifier of the caller's copy matters.\<close>

lemma serialize_case_app:
  assumes "ac_case_id c \<noteq> []"
  shows "serialize_case c body s = (case atomic_by_id s (ac_case_id c) of
      Some c0 \<Rightarrow> body c0 s
    | None \<Rightarrow> (Inl (if case_by_id s (ac_case_id c) = None then KeyError ''case not found''
        else KeyError (''atomic case not found: '' @ ac_case_id c)), s))"
  using assms
  by (auto simp: serialize_case_def guard_app bindM_app require_case_app dest: atomic_by_id_case
      split: option.split)

lemma apply_unhealthy_id [simp]: "ac_case_id (apply_unhealthy sv ob cv now c) = ac_case_id c"
  by (simp add: apply_unhealthy_def Let_def)

lemma apply_clean_id [simp]: "ac_case_id (apply_clean sv ob now c) = ac_case_id c"
  by (simp add: apply_clean_def Let_def)

lemma update_unhealthy_run:
  assumes "ac_case_id c \<noteq> []" and "atomic_by_id s (ac_case_id c) = Some c0"
    and "ac_case_id c0 = ac_case_id c"
  obtains r t now where "update_unhealthy sv c ob s = (Inr r, t)" and "or_action r = OA_updated"
    and "or_case r = Some (apply_unhealthy sv ob (covered_of s c0) now c0)"
    and "st_cases t = dict_set (ac_case_id c)
      (Atomic (apply_unhealthy sv ob (covered_of s c0) now c0)) (st_cases s)"
    and "st_handoffs t = st_handoffs s" and "st_outbox t = st_outbox s"
    and "st_aliases t = st_aliases s" and "st_alias_index t = st_alias_index s"
proof -
  let ?now = "isoformat (clock s (ticks s))"
  let ?s1 = "s\<lparr>ticks := Suc (ticks s)\<rparr>"
  have c0: "atomic_by_id ?s1 (ac_case_id c0) = Some c0" "covered_of ?s1 c0 = covered_of s c0"
    using assms by (simp_all add: atomic_by_id_def case_by_id_def covered_of_def)
  obtain A where A: "covered_severity_of c0 ?s1 = (Inr (covered_of s c0), ?s1\<lparr>st_ack_scopes := A\<rparr>)"
    using covered_run [OF c0(1)] c0(2) by metis
  let ?c = "apply_unhealthy sv ob (covered_of s c0) ?now c0"
  let ?s2 = "?s1\<lparr>st_ack_scopes := A, st_cases := dict_set (ac_case_id c0) (Atomic ?c) (st_cases s)\<rparr>"
  obtain x t where "update_unhealthy_body sv ob c0 s = (x, t)" by force
  then obtain r where r: "update_unhealthy_body sv ob c0 s = (Inr r, t)" "or_action r = OA_updated"
    "or_case r = Some ?c" "same_but_events ?s2 t"
    by (auto simp: update_unhealthy_body_def bindM_app utc_now_app A upsert_atomic_app Let_def
        dest!: emit_dest split: prod.splits sum.splits)
  show thesis
    using that [of r t ?now] r serialize_case_app [OF assms(1), of "update_unhealthy_body sv ob" s]
      assms(2,3) same_but_eventsD [OF r(4)]
    by (simp add: update_unhealthy_def)
qed

lemma record_clean_run:
  assumes "ac_case_id c \<noteq> []" and "atomic_by_id s (ac_case_id c) = Some c0"
    and "ac_case_id c0 = ac_case_id c"
  obtains r t now where "record_clean sv c ob s = (Inr r, t)"
    and "or_case r = Some (apply_clean sv ob now c0)"
    and "st_cases t = dict_set (ac_case_id c) (Atomic (apply_clean sv ob now c0)) (st_cases s)"
    and "st_handoffs t = st_handoffs s" and "st_outbox t = st_outbox s"
proof -
  let ?now = "isoformat (clock s (ticks s))"
  let ?c = "apply_clean sv ob ?now c0"
  let ?s2 = "s\<lparr>ticks := Suc (ticks s), st_cases := dict_set (ac_case_id c0) (Atomic ?c) (st_cases s)\<rparr>"
  obtain x t where "record_clean_body sv ob c0 s = (x, t)" by force
  then obtain r where r: "record_clean_body sv ob c0 s = (Inr r, t)" "or_case r = Some ?c"
    "same_but_events ?s2 t"
    by (auto simp: record_clean_body_def bindM_app utc_now_app upsert_atomic_app Let_def
        dest!: emit_dest split: prod.splits sum.splits)
  show thesis
    using that [of r t ?now] r serialize_case_app [OF assms(1), of "record_clean_body sv ob" s]
      assms(2,3) same_but_eventsD [OF r(3)]
    by (simp add: record_clean_def)
qed

subsection \<open>What an observation writes\<close>

lemma apply_unhealthy_open: "ac_status (apply_unhealthy sv ob cv now c) \<noteq> CS_resolved"
  by (simp add: apply_unhealthy_def Let_def)

lemma apply_clean_status: "ac_status (apply_clean sv ob now c) =
    (if resolves sv ob then CS_resolved else ac_status c)"
  by (simp add: apply_clean_def Let_def)

text \<open>At most one case is written, and it is resolved only if it was or the observation may resolve it.\<close>

definition one_case_written :: "service \<Rightarrow> observation \<Rightarrow> store \<Rightarrow> store \<Rightarrow> bool" where
  "one_case_written sv ob s t \<longleftrightarrow> st_cases t = st_cases s \<or>
     (\<exists>c. st_cases t = dict_set (ac_case_id c) (Atomic c) (st_cases s) \<and>
        (ac_status c = CS_resolved \<longrightarrow> resolves sv ob \<or>
          (\<exists>c0. atomic_by_id s (ac_case_id c) = Some c0 \<and> ac_status c0 = CS_resolved)))"

lemma one_case_same: "st_cases t = st_cases s \<Longrightarrow> one_case_written sv ob s t"
  by (simp add: one_case_written_def)

lemma one_case_open: "st_cases t = dict_set (ac_case_id c) (Atomic c) (st_cases s) \<Longrightarrow>
    ac_status c \<noteq> CS_resolved \<Longrightarrow> one_case_written sv ob s t"
  unfolding one_case_written_def by blast

lemma one_case_shift:
  "one_case_written sv ob u t \<Longrightarrow> st_cases u = st_cases s \<Longrightarrow> one_case_written sv ob s t"
  by (simp add: one_case_written_def atomic_by_id_def case_by_id_def)

lemma covered_dest: "covered_severity_of c s = (r, t) \<Longrightarrow> st_cases t = st_cases s"
  by (auto simp: covered_severity_of_def bindM_app seqM_app acknowledgement_scope_app
      record_acknowledgement_scope_def require_case_app split: if_splits option.splits)

lemma unhealthy_body_writes:
  assumes "update_unhealthy_body sv ob c s = (r, t)" shows "one_case_written sv ob' s t"
proof -
  obtain x u where u: "covered_severity_of c (s\<lparr>ticks := Suc (ticks s)\<rparr>) = (x, u)" by force
  show ?thesis
  proof (cases x)
    case (Inl e)
    with u assms covered_dest [OF u] show ?thesis
      by (intro one_case_same) (auto simp: update_unhealthy_body_def bindM_app utc_now_app)
  next
    case (Inr cv)
    let ?c = "apply_unhealthy sv ob cv (isoformat (clock s (ticks s))) c"
    have "st_cases t = dict_set (ac_case_id ?c) (Atomic ?c) (st_cases s)"
      using u Inr assms covered_dest [OF u]
      by (auto simp: update_unhealthy_body_def bindM_app utc_now_app upsert_atomic_app Let_def
          dest!: emit_dest same_but_eventsD(1) split: prod.splits sum.splits)
    then show ?thesis by (rule one_case_open) (rule apply_unhealthy_open)
  qed
qed

lemma update_unhealthy_writes:
  assumes "update_unhealthy sv c ob s = (r, t)" shows "one_case_written sv ob' s t"
proof (cases "ac_case_id c = []")
  case True
  with assms show ?thesis
    by (auto simp: update_unhealthy_def serialize_case_def dest: unhealthy_body_writes)
next
  case False
  with assms show ?thesis
    by (auto simp: update_unhealthy_def serialize_case_app intro: one_case_same
        dest: unhealthy_body_writes split: option.splits)
qed

lemma update_unhealthy_action: "update_unhealthy sv c ob s = (Inr r, t) \<Longrightarrow> or_action r = OA_updated"
  by (auto simp: update_unhealthy_def serialize_case_def update_unhealthy_body_def bindM_app guard_app Let_def
      split: if_splits prod.splits sum.splits)

lemma record_clean_writes:
  assumes "store_ok s" and "atomic_by_id s cid = Some c" and "cid \<noteq> []"
    and "record_clean sv c ob s = (r, t)"
  shows "one_case_written sv ob s t"
proof -
  have id: "ac_case_id c = cid" by (rule atomic_by_id_key [OF assms(1,2)])
  obtain r' t' now where run: "record_clean sv c ob s = (Inr r', t')"
    "st_cases t' = dict_set (ac_case_id c) (Atomic (apply_clean sv ob now c)) (st_cases s)"
    using record_clean_run [of c s c sv ob] id assms(2,3) by blast
  then show ?thesis
    using assms(2,4) id unfolding one_case_written_def
    by (intro disjI2 exI [of _ "apply_clean sv ob now c"]) (auto simp: apply_clean_status split: if_splits)
qed

subsection \<open>Creating a case\<close>

lemma existing_by_alias_state: "snd (existing_by_alias as s) = s"
  by (induction "as") (auto simp: bindM_app item_of_app split: option.split)

lemma put_active_alias_app: "put_active_alias a s = (Inr (), s\<lparr>
     st_aliases := dict_set (al_alias_id a) a (st_aliases s),
     st_alias_index := dict_set (key_of_alias a) (al_alias_id a) (st_alias_index s)\<rparr>)"
  by (simp add: put_active_alias_def)

definition alias_of :: "string \<Rightarrow> case_alias \<Rightarrow> bool" where
  "alias_of cid a \<longleftrightarrow> al_case_id a = cid \<and> al_retired_at a = None \<and> al_alias_id a \<noteq> []"

lemma put_alias_target:
  assumes "alias_of cid a"
  shows "alias_target (snd (put_active_alias a s)) (key_of_alias a) = Some cid"
    and "alias_target s k = Some cid \<Longrightarrow> alias_target (snd (put_active_alias a s)) k = Some cid"
  using assms
  by (auto simp: put_active_alias_app alias_target_def alias_of_def idx_get_def split: option.splits if_splits)

lemma put_aliases_run:
  assumes "list_all (alias_of cid) as"
  shows "\<exists>us t. mapM put_active_alias as s = (Inr us, t) \<and> st_cases t = st_cases s \<and>
    (\<forall>k. k \<in> key_of_alias ` set as \<or> alias_target s k = Some cid \<longrightarrow> alias_target t k = Some cid)"
  using assms
proof (induction "as" arbitrary: s)
  case Nil
  then show ?case by simp
next
  case (Cons a "as")
  obtain w where w: "put_active_alias a s = (Inr (), w)" "st_cases w = st_cases s"
    by (simp add: put_active_alias_app)
  have "list_all (alias_of cid) as" using Cons.prems by simp
  from Cons.IH [OF this, of w] obtain us t where t: "mapM put_active_alias as w = (Inr us, t)"
    "st_cases t = st_cases w"
    "\<And>k. k \<in> key_of_alias ` set as \<or> alias_target w k = Some cid \<Longrightarrow> alias_target t k = Some cid"
    by blast
  moreover have "alias_target w (key_of_alias a) = Some cid"
    "\<And>k. alias_target s k = Some cid \<Longrightarrow> alias_target w k = Some cid"
    using put_alias_target [of cid a s] Cons.prems w by simp_all
  ultimately show ?case using w by (auto simp: bindM_app)
qed

lemma store_events_run:
  "\<exists>es t. mapM store_event_locked events s = (Inr es, t) \<and> same_but_events s t"
proof (induction events arbitrary: s)
  case Nil
  then show ?case by simp
next
  case (Cons e events)
  obtain e' u where u: "store_event_locked e s = (Inr e', u)" "same_but_events s u"
    using append_event_run [of e s] by (auto simp: append_event_def)
  obtain es t where "mapM store_event_locked events u = (Inr es, t)" "same_but_events u t"
    using Cons.IH by blast
  with u show ?case by (auto simp: bindM_app intro: same_but_events_trans)
qed

lemma create_atomic_case_run:
  assumes "list_all (alias_of (ac_case_id c)) as"
    and "create_atomic_case c as events s = (r, t)"
  shows "(\<exists>e. r = Inl e \<and> t = s) \<or> (\<exists>c'. r = Inr (c', [], False) \<and> t = s) \<or>
    (\<exists>es. r = Inr (c, es, True) \<and> st_cases t = dict_set (ac_case_id c) (Atomic c) (st_cases s) \<and>
      (\<forall>k \<in> key_of_alias ` set as. alias_target t k = Some (ac_case_id c)))"
proof -
  obtain found where f: "existing_by_alias as s = (found, s)"
    using existing_by_alias_state [of "as" s] by (metis prod.collapse)
  let ?s1 = "s\<lparr>st_cases := dict_set (ac_case_id c) (Atomic c) (st_cases s)\<rparr>"
  obtain us u where u: "mapM put_active_alias as ?s1 = (Inr us, u)" "st_cases u = st_cases ?s1"
    "\<And>k. k \<in> key_of_alias ` set as \<Longrightarrow> alias_target u k = Some (ac_case_id c)"
    using put_aliases_run [OF assms(1), of ?s1] by blast
  obtain es w where w: "mapM store_event_locked events u = (Inr es, w)" "same_but_events u w"
    using store_events_run by blast
  have p: "put_atomic c s = (Inr (), ?s1)" by (simp add: put_atomic_def put_case_def proj_case_id_def)
  show ?thesis
    using assms(2) f u w p same_but_eventsD(1) [OF w(2)] same_but_events_cases(3) [OF w(2)]
    by (auto simp: create_atomic_case_def bindM_app seqM_app split: sum.splits option.splits)
qed

lemma new_alias_app: "new_alias None cid ty v src pyfloat_one None s =
    (Inr \<lparr>al_alias_id = ''alias'' @ ''_'' @ take 12 (uuid_hex s (uuids_drawn s)), al_case_id = cid,
      al_alias_type = ty, al_alias_value = py_strip v, al_source = src, al_confidence = pyfloat_one,
      al_created_at = isoformat (clock s (ticks s)), al_retired_at = None\<rparr>,
     s\<lparr>uuids_drawn := Suc (uuids_drawn s), ticks := Suc (ticks s)\<rparr>)"
  by (simp add: new_alias_def bindM_app new_id_app utc_now_app pyfloat_one_def)

lemma create_aliases_run:
  obtains a more u where "create_aliases ob cid ty v s = (Inr (a # more), u)" and "same_but_events s u"
    and "list_all (alias_of cid) (a # more)" and "key_of_alias a = (ty, py_strip (py_strip v))"
    and "al_alias_value a = py_strip v"
    and "(ty, v) = (AT_source_fp, obs_source_fingerprint ob) \<Longrightarrow> obs_source_event_id ob = [] \<Longrightarrow> more = []"
proof -
  obtain x u where x: "create_aliases ob cid ty v s = (x, u)" by force
  have "\<exists>a more. x = Inr (a # more) \<and> same_but_events s u \<and> list_all (alias_of cid) (a # more) \<and>
      key_of_alias a = (ty, py_strip (py_strip v)) \<and> al_alias_value a = py_strip v \<and>
      ((ty, v) = (AT_source_fp, obs_source_fingerprint ob) \<longrightarrow> obs_source_event_id ob = [] \<longrightarrow> more = [])"
    using x
    by (auto simp: create_aliases_def Let_def bindM_app new_alias_app alias_of_def key_of_alias_def
        alias_key_def split: if_splits)
  with x that show thesis by blast
qed

lemma dropWhile_idem: "dropWhile p (dropWhile p xs) = dropWhile p xs"
  by (induction xs) auto

lemma py_strip_idem [simp]: "py_strip (py_strip s) = py_strip s"
proof -
  let ?d = "dropWhile is_space s"
  let ?r = "rev (dropWhile is_space (rev ?d))"
  have "dropWhile is_space ?r = ?r"
  proof (cases "?r = []")
    case False
    obtain tail where "?d = ?r @ tail"
      using takeWhile_dropWhile_id [of is_space "rev ?d"] by (metis rev_append rev_rev_ident)
    then have "hd ?r = hd ?d" "?d \<noteq> []" using False by (metis hd_append2, force)
    then have "\<not> is_space (hd ?r)" using hd_dropWhile [of is_space s] by simp
    with False show ?thesis by (cases ?r) auto
  next
    case True
    then show ?thesis by (metis dropWhile.simps(1))
  qed
  then show ?thesis by (simp add: py_strip_def dropWhile_idem)
qed

subsection \<open>Observing\<close>

lemma new_case_app: "new_atomic_case None (Some now) (Some now) given s =
    (Inr (fill_atomic_signature (given (blank_case\<lparr>
       ac_case_id := ''case'' @ ''_'' @ take 12 (uuid_hex s (uuids_drawn s)),
       ac_opened_at := now, ac_updated_at := now\<rparr>))), s\<lparr>uuids_drawn := Suc (uuids_drawn s)\<rparr>)"
  by (simp add: new_atomic_case_def bindM_app new_id_app)

lemma created_fields [simp]:
  "ac_case_id (fill_atomic_signature (created_case_fields sv ob v c)) = ac_case_id c"
  "ac_status (fill_atomic_signature (created_case_fields sv ob v c)) = CS_investigating"
  by (simp_all add: fill_atomic_signature_def created_case_fields_def)

text \<open>Up to \<open>create_atomic_case\<close> only identifiers and times are drawn.\<close>

lemma create_prelude:
  obtains c a more e1 e2 z where "ac_case_id c \<noteq> []" and "ac_status c = CS_investigating"
    and "list_all (alias_of (ac_case_id c)) (a # more)" and "key_of_alias a = alias_key ty v"
    and "same_but_events s z" and "al_alias_value a = py_strip v"
    and "(ty, v) = (AT_source_fp, obs_source_fingerprint ob) \<Longrightarrow> obs_source_event_id ob = [] \<Longrightarrow> more = []"
    and "create_from_unhealthy sv ob ty v s =
      (case create_atomic_case c (a # more) [e1, e2] z of
         (Inl e, y) \<Rightarrow> (Inl e, y)
       | (Inr (c', events, created), y) \<Rightarrow>
           (if \<not> created then update_unhealthy sv c' ob y
            else (Inr \<lparr>or_action = OA_created, or_observation = ob, or_case = Some c',
              or_events = events\<rparr>, y)))"
proof -
  let ?s1 = "s\<lparr>ticks := Suc (ticks s)\<rparr>"
  obtain c where c: "new_atomic_case None (Some (isoformat (clock s (ticks s))))
      (Some (isoformat (clock s (ticks s)))) (created_case_fields sv ob v) ?s1 =
      (Inr c, ?s1\<lparr>uuids_drawn := Suc (uuids_drawn s)\<rparr>)" "ac_case_id c \<noteq> []" "ac_status c = CS_investigating"
    by (auto simp: new_case_app)
  obtain a more u where u: "create_aliases ob (ac_case_id c) ty v (?s1\<lparr>uuids_drawn := Suc (uuids_drawn s)\<rparr>) =
      (Inr (a # more), u)" "same_but_events (?s1\<lparr>uuids_drawn := Suc (uuids_drawn s)\<rparr>) u"
    "list_all (alias_of (ac_case_id c)) (a # more)" "key_of_alias a = alias_key ty v"
    "al_alias_value a = py_strip v"
    "(ty, v) = (AT_source_fp, obs_source_fingerprint ob) \<Longrightarrow> obs_source_event_id ob = [] \<Longrightarrow> more = []"
    using create_aliases_run [of ob "ac_case_id c" ty v "?s1\<lparr>uuids_drawn := Suc (uuids_drawn s)\<rparr>"]
    by (metis alias_key_def py_strip_idem)
  obtain e1 w where w: "new_event None None (\<lambda>e. e\<lparr>
         ev_case_id := Some (ac_case_id c), ev_event_type := ''case_created'',
         ev_source := obs_source ob, ev_observed_at := obs_observed_at ob,
         ev_policy_version := policy_version sv,
         ev_payload := [(''observation_id'', JStr (obs_observation_id ob)),
           (''alias_type'', JStr (alias_type_str ty))]\<rparr>) u = (Inr e1, w)" "same_but_events u w"
    using new_event_run by blast
  obtain e2 z where z: "new_event None None (\<lambda>e. e\<lparr>
         ev_case_id := Some (ac_case_id c), ev_event_type := ''case_observed_unhealthy'',
         ev_actor_type := Act_monitor, ev_source := obs_source ob,
         ev_observed_at := obs_observed_at ob, ev_policy_version := policy_version sv,
         ev_payload := [(''observation_id'', JStr (obs_observation_id ob)),
           (''signal_signature'', JStr (obs_signal_signature ob))]\<rparr>) w = (Inr e2, z)" "same_but_events w z"
    using new_event_run by blast
  have "same_but_events s (?s1\<lparr>uuids_drawn := Suc (uuids_drawn s)\<rparr>)"
    by (simp add: same_but_events_def core_def)
  then have same: "same_but_events s z"
    using u(2) w(2) z(2) by (blast intro: same_but_events_trans)
  show thesis
    by (rule that [OF c(2,3) u(3,4) same u(5,6), of e1 e2])
      (use c u w z in \<open>auto simp: create_from_unhealthy_def bindM_app utc_now_app
        split: sum.split prod.split\<close>)
qed

lemma create_from_unhealthy_run:
  assumes "create_from_unhealthy sv ob ty v s = (r, t)"
  shows "one_case_written sv ob' s t \<and> (\<forall>x. r = Inr x \<longrightarrow>
    or_action x = OA_updated \<or>
    (or_action x = OA_created \<and> or_observation x = ob \<and> (\<exists>c. or_case x = Some c \<and> ac_case_id c \<noteq> [] \<and>
      st_cases t = dict_set (ac_case_id c) (Atomic c) (st_cases s) \<and>
      alias_target t (alias_key ty v) = Some (ac_case_id c))))"
proof -
  obtain c a more e1 e2 z where c: "ac_case_id c \<noteq> []" "ac_status c = CS_investigating"
    "list_all (alias_of (ac_case_id c)) (a # more)" "key_of_alias a = alias_key ty v"
    "same_but_events s z"
    and run: "create_from_unhealthy sv ob ty v s =
      (case create_atomic_case c (a # more) [e1, e2] z of
         (Inl e, y) \<Rightarrow> (Inl e, y)
       | (Inr (c', events, created), y) \<Rightarrow>
           (if \<not> created then update_unhealthy sv c' ob y
            else (Inr \<lparr>or_action = OA_created, or_observation = ob, or_case = Some c',
              or_events = events\<rparr>, y)))"
    by (rule create_prelude)
  note cases = same_but_eventsD(1) [OF c(5)]
  obtain q y where y: "create_atomic_case c (a # more) [e1, e2] z = (q, y)" by force
  from create_atomic_case_run [OF c(3) y] show ?thesis
  proof (elim disjE exE conjE)
    fix e assume "q = Inl e" "y = z"
    then show ?thesis using run y assms cases by (auto intro: one_case_same)
  next
    fix c' assume "q = Inr (c', [], False)" "y = z"
    then show ?thesis
      using run y assms cases update_unhealthy_writes [of sv c' ob z r t ob'] update_unhealthy_action [of sv c' ob z _ t]
      by (auto intro: one_case_shift)
  next
    fix es assume "q = Inr (c, es, True)" "st_cases y = dict_set (ac_case_id c) (Atomic c) (st_cases z)"
      "\<forall>k \<in> key_of_alias ` set (a # more). alias_target y k = Some (ac_case_id c)"
    then show ?thesis
      using run y assms c cases by (auto intro: one_case_open)
  qed
qed

lemma put_observation_run: "\<exists>ob' t. put_observation ob s = (Inr ob', t) \<and>
    (t = s \<or> t = s\<lparr>st_observations := dict_set (obs_observation_id ob) ob (st_observations s)\<rparr>) \<and>
    (dict_get (st_observations s) (obs_observation_id ob) = None \<longrightarrow> ob' = ob)"
  by (auto simp: put_observation_def bindM_app seqM_app split: option.split)

lemma observed_case_app: "observed_case ty v s = (case alias_target s (alias_key ty v) of
    None \<Rightarrow> (Inr None, s)
  | Some cid \<Rightarrow> if cid = [] then (Inr None, s) else (case case_by_id s cid of
      None \<Rightarrow> (Inr None, s)
    | Some (Atomic c) \<Rightarrow> (Inr (Some c), s)
    | Some (Meta m) \<Rightarrow> (Inl (ValueError (''observation alias resolved to non-atomic case '' @ mc_case_id m)), s)))"
  by (auto simp: observed_case_def resolve_alias_def get_case_def bindM_app split: option.split case_projection.split)

lemma observed_case_dest:
  assumes "observed_case ty v s = (x, u)"
  shows "u = s \<and> (\<forall>c. x = Inr (Some c) \<longrightarrow> (\<exists>cid. cid \<noteq> [] \<and> atomic_by_id s cid = Some c))"
  using assms
  by (auto simp: observed_case_app atomic_by_id_def split: option.splits if_splits case_projection.splits)

text \<open>What \<open>observe\<close> does once the observation is stored and its case looked up.\<close>

lemma observe_writes:
  assumes "store_ok s" and "observe sv ob s = (r, t)"
  shows "\<exists>ob' u. put_observation ob s = (Inr ob', u) \<and> one_case_written sv ob' s t"
proof -
  obtain ob' u where u: "put_observation ob s = (Inr ob', u)" "st_cases u = st_cases s"
    using put_observation_run [of ob s] by auto
  have ok: "store_ok u" using keepsD [OF ok_put_observation assms(1), of ob] u(1) by simp
  obtain ty v where a: "observation_alias ob' = (ty, v)" by force
  obtain x w where x: "observed_case ty v u = (x, w)" by force
  note od = observed_case_dest [OF x]
  have "one_case_written sv ob' u t"
  proof (cases x)
    case (Inl e)
    then show ?thesis using assms(2) u(1) a x od by (auto simp: observe_def bindM_app intro: one_case_same)
  next
    case (Inr found)
    show ?thesis
    proof (cases found)
      case None
      then show ?thesis
        using assms(2) u(1) a x od Inr create_from_unhealthy_run [of sv ob' ty v u r t ob']
        by (auto simp: observe_def bindM_app dest!: emit_dest same_but_eventsD(1)
            intro: one_case_same split: if_splits prod.splits sum.splits)
    next
      case (Some c)
      then obtain cid where cid: "cid \<noteq> []" "atomic_by_id u cid = Some c" using od Inr by blast
      show ?thesis
        using assms(2) u(1) a x od Inr Some update_unhealthy_writes [of sv c ob' u r t ob']
          record_clean_writes [OF ok cid(2,1), of sv ob' r t]
        by (auto simp: observe_def bindM_app dest!: emit_dest same_but_eventsD(1)
            intro: one_case_same split: if_splits prod.splits sum.splits)
    qed
  qed
  then show ?thesis using u by (auto intro: one_case_shift)
qed

text \<open>
  C6: Absence of evidence resolves nothing: when a case is resolved after an observation, it was
  resolved before, or the observation is clean or resolved from a source that is neither degraded
  nor failed, and the policy asks for that positive evidence. What counts is the stored observation, the
  first one recorded under the identifier.
\<close>

theorem observe_resolves_only_on_evidence:
  assumes "store_ok s" and "observe sv ob s = (r, t)" and "put_observation ob s = (Inr stored, u)"
    and "atomic_by_id t cid = Some c" and "ac_status c = CS_resolved"
  shows "(\<exists>c0. atomic_by_id s cid = Some c0 \<and> ac_status c0 = CS_resolved) \<or>
    (is_positive_clean stored \<and> pol_require_positive_clean_for_resolve (sv_policy sv))"
proof -
  have w: "one_case_written sv stored s t" using observe_writes [OF assms(1,2)] assms(3) by auto
  show ?thesis
  proof (cases "st_cases t = st_cases s")
    case True
    with assms(4,5) show ?thesis by (auto simp: atomic_by_id_def case_by_id_def)
  next
    case False
    with w obtain d where d: "st_cases t = dict_set (ac_case_id d) (Atomic d) (st_cases s)"
      "ac_status d = CS_resolved \<longrightarrow> resolves sv stored \<or>
         (\<exists>c0. atomic_by_id s (ac_case_id d) = Some c0 \<and> ac_status c0 = CS_resolved)"
      unfolding one_case_written_def by blast
    with assms(4,5) show ?thesis
      by (cases "ac_case_id d = cid") (auto simp: atomic_by_id_def case_by_id_def resolves_def)
  qed
qed

text \<open>A service, an incident on a switch port, and a store with a resolved case.\<close>

definition quiet :: service where
  "quiet = \<lparr>sv_policy = default_policy, sv_getenv = (\<lambda>_. []), sv_verbosity = 20\<rparr>"

definition port_down :: observation where
  "port_down = blank_observation\<lparr>obs_observation_id := ''obs_1'', obs_source := ''icinga'',
     obs_source_fingerprint := ''fp1'', obs_status := Obs_firing, obs_severity := MEDIUM,
     obs_signal_signature := ''s1'', obs_observed_at := ''2026-01-01T00:00:00+00:00''\<rparr>"

definition resolved_store :: store where
  "resolved_store = demo_store\<lparr>st_cases := [(''case_1'', Atomic (sample_case\<lparr>ac_status := CS_resolved\<rparr>))]\<rparr>"

lemma resolved_store_ok: "store_ok resolved_store"
  by (simp add: store_ok_def tables_ok_def indices_ok_def log_ok_def logged_def empty_store_def
      resolved_store_def demo_store_def keyed_def proj_case_id_def sample_case_def)

theorem observe_resolves_only_on_evidence_witness:
  "(\<exists>c0. atomic_by_id resolved_store ''case_1'' = Some c0 \<and> ac_status c0 = CS_resolved) \<or>
     (is_positive_clean (port_down\<lparr>obs_status := Obs_unknown\<rparr>) \<and>
      pol_require_positive_clean_for_resolve (sv_policy quiet))"
proof -
  let ?ob = "port_down\<lparr>obs_status := Obs_unknown\<rparr>"
  obtain u where u: "put_observation ?ob resolved_store = (Inr ?ob, u)" "st_cases u = st_cases resolved_store"
    "alias_target u k = None" for k
    by (auto simp: put_observation_def bindM_app seqM_app resolved_store_def demo_store_def empty_store_def
        alias_target_def idx_get_def)
  obtain r t where rt: "observe quiet ?ob resolved_store = (r, t)" by force
  then have "st_cases t = st_cases resolved_store"
    using u by (auto simp: observe_def bindM_app observation_alias_def port_down_def observed_case_app
        dest!: emit_dest same_but_eventsD(1) split: prod.splits sum.splits)
  then have "atomic_by_id t ''case_1'' = Some (sample_case\<lparr>ac_status := CS_resolved\<rparr>)"
    by (simp add: atomic_by_id_def case_by_id_def resolved_store_def)
  from observe_resolves_only_on_evidence [OF resolved_store_ok rt u(1) this] show ?thesis by simp
qed

lemma record_clean_action: "record_clean sv c ob s = (Inr r, t) \<Longrightarrow> or_action r \<noteq> OA_created"
  by (auto simp: record_clean_def serialize_case_def record_clean_body_def bindM_app guard_app Let_def
      split: if_splits prod.splits sum.splits)

lemma observe_created:
  assumes "observe sv ob s = (Inr r, t)" and "or_action r = OA_created"
  obtains c ty v where "or_case r = Some c" and "ac_case_id c \<noteq> []"
    and "observation_alias (or_observation r) = (ty, v)"
    and "alias_target t (alias_key ty v) = Some (ac_case_id c)" and "atomic_by_id t (ac_case_id c) = Some c"
proof -
  obtain ob' u where u: "put_observation ob s = (Inr ob', u)" using put_observation_run [of ob s] by blast
  obtain ty v where a: "observation_alias ob' = (ty, v)" by force
  obtain x w where x: "observed_case ty v u = (x, w)" by force
  have "create_from_unhealthy sv ob' ty v u = (Inr r, t)"
    using assms u a x observed_case_dest [OF x] update_unhealthy_action [of sv _ ob' u r t]
      record_clean_action [of sv _ ob' u r t]
    by (auto simp: observe_def bindM_app split: if_splits sum.splits option.splits prod.splits)
  from create_from_unhealthy_run [OF this, of ob'] assms(2) obtain c where
    "or_observation r = ob'" "or_case r = Some c" "ac_case_id c \<noteq> []"
    "st_cases t = dict_set (ac_case_id c) (Atomic c) (st_cases u)"
    "alias_target t (alias_key ty v) = Some (ac_case_id c)" by auto
  with a show thesis by (intro that [of c ty v]) (auto simp: atomic_by_id_def case_by_id_def)
qed

lemma observe_known:
  assumes "dict_get (st_observations s) (obs_observation_id ob) = None" and "obs_status ob = Obs_firing"
    and "observation_alias ob = (ty, v)" and "alias_target s (alias_key ty v) = Some cid" and "cid \<noteq> []"
    and "atomic_by_id s cid = Some c" and "ac_case_id c = cid"
  obtains r t now where "observe sv ob s = (Inr r, t)" and "or_action r = OA_updated"
    and "or_case r = Some (apply_unhealthy sv ob (covered_of s c) now c)"
    and "atomic_by_id t cid = or_case r"
proof -
  let ?u = "s\<lparr>st_observations := dict_set (obs_observation_id ob) ob (st_observations s)\<rparr>"
  have p: "put_observation ob s = (Inr ob, ?u)"
    using assms(1) by (simp add: put_observation_def bindM_app seqM_app)
  have same: "atomic_by_id ?u k = atomic_by_id s k" "alias_target ?u key = alias_target s key"
    "case_by_id ?u k = case_by_id s k" "covered_of ?u c = covered_of s c" for k key
    by (simp_all add: atomic_by_id_def case_by_id_def alias_target_def covered_of_def cong: option.case_cong)
  have found: "observed_case ty v ?u = (Inr (Some c), ?u)"
    using assms(4-6) by (simp add: observed_case_app same atomic_by_id_case)
  obtain r t now where "update_unhealthy sv c ob ?u = (Inr r, t)" "or_action r = OA_updated"
    "or_case r = Some (apply_unhealthy sv ob (covered_of s c) now c)"
    "st_cases t = dict_set (ac_case_id c) (Atomic (apply_unhealthy sv ob (covered_of s c) now c)) (st_cases ?u)"
    by (rule update_unhealthy_run [of c ?u c sv ob]) (use assms(5-7) in \<open>simp_all add: same\<close>)
  then show thesis
    using p found assms(2,3,7)
    by (intro that [of r t now]) (auto simp: observe_def bindM_app atomic_by_id_def case_by_id_def)
qed

text \<open>
  C5: One case per identity: once a firing observation has opened a case, the next firing observation
  with the same identity alias never raises and updates that case instead of opening another, whatever
  service instance handles it.
\<close>

theorem observe_one_case_per_identity:
  assumes "store_ok s" and "observe sv ob s = (Inr r, t)" and "or_action r = OA_created"
    and "observation_alias ob' = observation_alias (or_observation r)" and "obs_status ob' = Obs_firing"
    and "dict_get (st_observations t) (obs_observation_id ob') = None"
  shows "\<exists>c r' t' c'. or_case r = Some c \<and> observe sv' ob' t = (Inr r', t') \<and>
    or_action r' = OA_updated \<and> or_case r' = Some c' \<and> ac_case_id c' = ac_case_id c"
proof -
  obtain c ty v where c: "or_case r = Some c" "ac_case_id c \<noteq> []"
    "observation_alias (or_observation r) = (ty, v)"
    "alias_target t (alias_key ty v) = Some (ac_case_id c)" "atomic_by_id t (ac_case_id c) = Some c"
    using observe_created [OF assms(2,3)] by blast
  with observe_known [of t ob' ty v "ac_case_id c" c sv'] assms(4-6) show ?thesis
    by (metis apply_unhealthy_id)
qed

lemma existing_by_alias_none:
  assumes "st_alias_index s = []" and "list_all (\<lambda>a. al_alias_value a \<noteq> []) as"
  shows "existing_by_alias as s = (Inr None, s)"
  using assms by (induction "as") (auto simp: bindM_app idx_get_def)

lemma create_atomic_case_new:
  assumes "st_alias_index s = []" and "st_cases s = []" and "list_all (\<lambda>a. al_alias_value a \<noteq> []) as"
    and "list_all (alias_of (ac_case_id c)) as"
  obtains es t where "create_atomic_case c as events s = (Inr (c, es, True), t)"
proof -
  obtain u us w where "put_atomic c s = (Inr (), u)" "mapM put_active_alias as u = (Inr us, w)"
    using put_aliases_run [OF assms(4)] by (fastforce simp: put_atomic_def put_case_def)
  moreover obtain es t where "mapM store_event_locked events w = (Inr es, t)" using store_events_run by blast
  moreover have "existing_by_fingerprint (ac_fingerprint c) s = None"
    using assms(2) by (simp add: existing_by_fingerprint_def)
  ultimately show thesis
    using that existing_by_alias_none [OF assms(1,3)] by (simp add: create_atomic_case_def bindM_app seqM_app)
qed

lemma observations_kept [keeps_intros]:
  "keeps (\<lambda>s. st_observations s = O') uuid4_hex" "keeps (\<lambda>s. st_observations s = O') dt_now"
  "keeps (\<lambda>s. st_observations s = O') (put_atomic c)"
  "keeps (\<lambda>s. st_observations s = O') (put_active_alias a)"
  "keeps (\<lambda>s. st_observations s = O') (modM (write_event e))"
  "keeps (\<lambda>s. st_observations s = O') (modM (\<lambda>s. s\<lparr>st_ack_scopes := f s\<rparr>))"
  "keeps (\<lambda>s. st_observations s = O') (upsert_atomic c)"
  by (auto simp: keeps_def uuid4_hex_def dt_now_def put_atomic_def put_case_def put_active_alias_app
      write_event_def upsert_atomic_app)

lemma create_keeps_observations: "keeps (\<lambda>s. st_observations s = O') (create_from_unhealthy sv ob ty v)"
proof -
  have [keeps_intros]: "keeps (\<lambda>s. st_observations s = O') (existing_by_alias as)" for as
    by (simp add: keeps_def existing_by_alias_state)
  show ?thesis
    unfolding create_from_unhealthy_def update_unhealthy_def serialize_case_def case_write_guard_def
      update_unhealthy_body_def covered_severity_of_def acknowledgement_scope_def
      record_acknowledgement_scope_def emit_def append_event_def new_atomic_case_def new_event_def
      new_alias_def utc_now_def new_id_def create_aliases_def create_atomic_case_def
      store_event_locked_def Let_def
    by (intro keeps_intros)
qed

lemma port_down_creates:
  "\<exists>r t. observe sv port_down (empty_store ids instants) = (Inr r, t) \<and> or_action r = OA_created \<and>
     or_observation r = port_down \<and> dict_get (st_observations t) ''obs_2'' = None"
proof -
  let ?s = "(empty_store ids instants)\<lparr>st_observations := [(''obs_1'', port_down)]\<rparr>"
  obtain c a more e1 e2 z where z: "list_all (alias_of (ac_case_id c)) (a # more)"
    "same_but_events ?s z" "al_alias_value a = py_strip ''fp1''" "more = []"
    and run: "create_from_unhealthy sv port_down AT_source_fp ''fp1'' ?s =
      (case create_atomic_case c (a # more) [e1, e2] z of
         (Inl e, y) \<Rightarrow> (Inl e, y)
       | (Inr (c', events, created), y) \<Rightarrow>
           (if \<not> created then update_unhealthy sv c' port_down y
            else (Inr \<lparr>or_action = OA_created, or_observation = port_down, or_case = Some c',
              or_events = events\<rparr>, y)))"
    by (rule create_prelude [of AT_source_fp "''fp1''" ?s port_down sv])
      (simp add: port_down_def blank_observation_def)
  have v: "py_strip ''fp1'' \<noteq> []" by code_simp
  obtain es y where y: "create_atomic_case c (a # more) [e1, e2] z = (Inr (c, es, True), y)"
    by (rule create_atomic_case_new [of z "a # more" c])
      (use z v same_but_eventsD [OF z(2)] in \<open>simp_all add: empty_store_def\<close>)
  have "snd (create_from_unhealthy sv port_down AT_source_fp ''fp1'' ?s) = y" using run y by simp
  then have "st_observations y = [(''obs_1'', port_down)]"
    using keepsD [OF create_keeps_observations, of ?s "st_observations ?s"] by force
  then show ?thesis
    using run y
    by (simp add: observe_def put_observation_def bindM_app seqM_app observation_alias_def
        port_down_def blank_observation_def observed_case_app alias_target_def idx_get_def empty_store_def)
qed

theorem observe_one_case_per_identity_witness:
  "\<exists>r t c r' t' c'. observe quiet port_down (empty_store (\<lambda>_. ''id'') (\<lambda>_. 0)) = (Inr r, t) \<and>
     or_case r = Some c \<and> observe quiet (port_down\<lparr>obs_observation_id := ''obs_2''\<rparr>) t = (Inr r', t') \<and>
     or_action r' = OA_updated \<and> or_case r' = Some c' \<and> ac_case_id c' = ac_case_id c"
proof -
  let ?ob = "port_down\<lparr>obs_observation_id := ''obs_2''\<rparr>"
  obtain r t where r: "observe quiet port_down (empty_store (\<lambda>_. ''id'') (\<lambda>_. 0)) = (Inr r, t)"
    "or_action r = OA_created" "or_observation r = port_down" "dict_get (st_observations t) ''obs_2'' = None"
    using port_down_creates by blast
  have "observation_alias ?ob = observation_alias (or_observation r)" "obs_status ?ob = Obs_firing"
    "dict_get (st_observations t) (obs_observation_id ?ob) = None"
    using r(3,4) by (simp_all add: observation_alias_def port_down_def)
  from observe_one_case_per_identity [OF store_ok_empty r(1,2) this, of quiet] r(1) show ?thesis by blast
qed

text \<open>
  C7: An acknowledgement holds until things get worse: an unhealthy observation of a stored case
  always succeeds and works on the case as it is stored, not on the caller's copy. A case that had
  recovered or was resolved is under investigation again; every other status, also closed, expired and
  linked, stays what it was. When the case had recovered or was resolved, or was acknowledged for a lower
  severity, its acknowledgement is cleared (both the time and the operator, so that it no longer counts
  as acknowledged) and a new report generation starts; otherwise time, operator and generation stay.
\<close>

theorem acknowledgement_ends_with_escalation:
  assumes "store_ok s" and "atomic_by_id s cid = Some c" and "cid \<noteq> []" and "ac_case_id copy = cid"
  shows "\<exists>r t c'. update_unhealthy sv copy ob s = (Inr r, t) \<and> atomic_by_id t cid = Some c' \<and>
    or_case r = Some c' \<and> ac_severity c' = obs_severity ob \<and> ac_resolved_at c' = None \<and>
    ac_status c' = (if ac_status c \<in> {CS_resolved, CS_recovered_pending} then CS_investigating
      else ac_status c) \<and>
    (if ac_status c \<in> {CS_resolved, CS_recovered_pending} \<or>
        (acknowledged c \<and> severity_rank (covered_of s c) < severity_rank (obs_severity ob))
     then \<not> acknowledged c' \<and> ac_acknowledged_at c' = [] \<and> ac_acknowledged_by c' = [] \<and>
       ac_report_generation c' = ac_report_generation c + 1
     else ac_acknowledged_at c' = ac_acknowledged_at c \<and>
       ac_acknowledged_by c' = ac_acknowledged_by c \<and>
       ac_report_generation c' = ac_report_generation c)"
proof -
  have id: "ac_case_id c = cid" by (rule atomic_by_id_key [OF assms(1,2)])
  obtain r t now where r: "update_unhealthy sv copy ob s = (Inr r, t)"
    "or_case r = Some (apply_unhealthy sv ob (covered_of s c) now c)"
    "st_cases t = dict_set cid (Atomic (apply_unhealthy sv ob (covered_of s c) now c)) (st_cases s)"
    by (rule update_unhealthy_run [of copy s c sv ob]) (use assms id in simp_all)
  then have "atomic_by_id t cid = Some (apply_unhealthy sv ob (covered_of s c) now c)"
    by (simp add: atomic_by_id_def case_by_id_def)
  with r(1,2) show ?thesis
    by (auto simp: apply_unhealthy_def Let_def acknowledgement_ends_def acknowledged_def)
qed

theorem acknowledgement_ends_with_escalation_witness:
  "\<exists>r t c'. update_unhealthy quiet
     (sample_case\<lparr>ac_severity := HIGH\<rparr>) port_down resolved_store = (Inr r, t) \<and>
     atomic_by_id t ''case_1'' = Some c' \<and> ac_acknowledged_by c' = [] \<and> ac_report_generation c' = 1"
proof -
  let ?c = "sample_case\<lparr>ac_status := CS_resolved\<rparr>"
  have c: "atomic_by_id resolved_store ''case_1'' = Some ?c"
    by (simp add: resolved_store_def atomic_by_id_def case_by_id_def)
  have "ac_case_id (sample_case\<lparr>ac_severity := HIGH\<rparr>) = ''case_1''" "ac_report_generation sample_case = 0"
    by (simp_all add: sample_case_def blank_case_def)
  with acknowledgement_ends_with_escalation [OF resolved_store_ok c, of "sample_case\<lparr>ac_severity := HIGH\<rparr>"
      quiet port_down]
  show ?thesis by auto
qed

end
