(* ===== verification/System_Spec.thy ===== *)
theory System_Spec
  imports Service_Spec
begin

section \<open>The components together\<close>

text \<open>
  The system as a state machine: one step per entry point of the service, the outbox worker, the
  attention scheduler, the correlation service, the verifier and the memory of the investigation graph, with any
  arguments and in any order.
  The code given as a parameter (handlers, senders, notifiers, checkers) is assumed to reach the store
  through its operations only. Each step then is a sequence of steps of the store, so what holds of
  every run of the store holds of every run of the system.
\<close>

subsection \<open>A component runs store operations\<close>

abbreviation store_run :: "store \<Rightarrow> store \<Rightarrow> bool" where
  "store_run \<equiv> store_step\<^sup>*\<^sup>*"

definition through_store :: "'a st \<Rightarrow> bool" where
  "through_store m \<longleftrightarrow> (\<forall>s. store_run s (snd (m s)))"

lemma keeps_run: "(\<And>s. store_step s (snd (m s))) \<Longrightarrow> keeps (store_run s0) m"
  by (rule keepsI) (rule rtranclp.rtrancl_into_rtrancl)

interpretation stepping: store_contract "store_run s0" for s0
  by unfold_locales (rule keeps_run, rule store_step.intros)+

lemma through_store_iff: "through_store m \<longleftrightarrow> (\<forall>s0. keeps (store_run s0) m)"
  unfolding through_store_def keeps_def by (meson rtranclp.rtrancl_refl rtranclp_trans)

lemma through_storeI: "(\<And>s0. keeps (store_run s0) m) \<Longrightarrow> store_run s (snd (m s))"
  unfolding keeps_def by blast

lemma through_storeD: "through_store m \<Longrightarrow> keeps (store_run s0) m"
  by (simp add: through_store_iff)

text \<open>The dictionary of a worker whose handlers reach the store through its operations.\<close>

definition handlers_through_store :: "outbox_processor \<Rightarrow> bool" where
  "handlers_through_store p \<longleftrightarrow>
     (\<forall>k h i. dict_get (op_handlers p) k = Some h \<longrightarrow> through_store (h i))"

lemma handler_keeps:
  "handlers_through_store p \<Longrightarrow> dict_get (op_handlers p) k = Some h \<Longrightarrow> keeps (store_run s0) (h i)"
  unfolding handlers_through_store_def by (blast intro: through_storeD)

subsection \<open>Steps of the system\<close>

inductive system_step :: "store \<Rightarrow> store \<Rightarrow> bool" where
  sys_observe: "system_step s (snd (observe sv ob s))"
| sys_request_report: "system_step s (snd (request_report sv c sig payload s))"
| sys_mark_reported: "system_step s (snd (mark_reported sv cid sig again s))"
| sys_claim_investigation: "system_step s (snd (claim_investigation sv c status s))"
| sys_investigation_result: "system_step s (snd (record_investigation_result sv cid d rs st er s))"
| sys_ack: "system_step s (snd (ack sv cid op eid s))"
| sys_suppress: "system_step s (snd (suppress sv cid reason src op ttl eid s))"
| sys_expire_suppression: "system_step s (snd (expire_suppression sv cid now s))"
| sys_handoff_intent: "system_step s (snd (handoff_intent sv cid payload s))"
| sys_handoff_result: "system_step s (snd (record_handoff_result sv cid url iid s))"
| sys_trace: "system_step s (snd (record_trace sv tr s))"
| sys_feedback: "system_step s (snd (record_operator_feedback sv f s))"
| sys_citations: "system_step s (snd (record_knowledge_citations sv cid cits tid s))"
| sys_request_handoff: "system_step s (snd (request_lhp_handoff sv h vs deliver s))"
| sys_knowledge_context: "system_step s (snd (request_lhp_knowledge_context sv cid hid ok payload s))"
| sys_artifact_proposal:
    "system_step s (snd (request_lhp_knowledge_artifact_proposal sv cid hid oid payload s))"
| sys_handoff_update: "system_step s (snd (record_lhp_handoff_update sv u cs shown actor aid reason s))"
| sys_verification_result: "system_step s (snd (record_lhp_verification_result sv v eid s))"
| sys_cancel: "system_step s (snd (cancel_lhp_handoff sv hid actor_id reason eid s))"
| sys_objective: "system_step s (snd (upsert_lhp_verification_objective sv v s))"
| sys_verified: "system_step s (snd (mark_lhp_handoff_verified sv hid s))"
| sys_artifact: "system_step s (snd (record_lhp_knowledge_artifact sv k s))"
| sys_review: "system_step s (snd (review_lhp_knowledge_artifact sv aid rs actor_id comment eid s))"
| sys_outcome: "system_step s (snd (record_lhp_outcome sv oc s))"
| sys_resolve: "system_step s (snd (resolve_lhp_case_with_outcome sv cid oc hid s))"
| sys_process_pending: "handlers_through_store p \<Longrightarrow> system_step s (snd (process_pending p n s))"
| sys_process_intent: "handlers_through_store p \<Longrightarrow> system_step s (snd (process_intent p i s))"
| sys_attention_batch: "system_step s (snd (enqueue_attention_batch vb after n now secs s))"
| sys_attach: "system_step s (snd (attach_child pol mid cid reason conf actor_id own s))"
| sys_detach: "system_step s (snd (detach_child pol mid cid reason actor_id s))"
| sys_independent:
    "system_step s (snd (mark_independent_action_required pol cid required reason actor_id s))"
| sys_meta: "system_step s (snd (create_meta_case pol title sm fp ty reason conf kids obs actor_id s))"
| sys_correlate: "system_step s (snd (correlate_observations pol obs s))"
| sys_verifier: "\<forall>v c. through_store (checker v c) \<Longrightarrow>
    system_step s (snd (run_once sv cfg classify checker now n s))"
| sys_graph_summary: "system_step s (snd (put_summary cid summary s))"
| sys_graph_update: "system_step s (snd (update_case cid given s))"
| sys_graph_link: "system_step s (snd (link_to_parent_case child parent reason refs s))"

inductive_cases system_stepE: "system_step s t"

inductive reachable_system :: "(nat \<Rightarrow> string) \<Rightarrow> (nat \<Rightarrow> instant) \<Rightarrow> store \<Rightarrow> bool"
  for ids instants where
  system_start: "reachable_system ids instants (empty_store ids instants)"
| system_next: "reachable_system ids instants s \<Longrightarrow> system_step s t \<Longrightarrow> reachable_system ids instants t"

lemma system_step_runs: "system_step s t \<Longrightarrow> store_run s t"
proof (induction rule: system_step.induct)
  case (sys_process_pending p s n)
  then show ?case by (intro through_storeI stepping.k_process_pending handler_keeps)
next
  case (sys_process_intent p s i)
  then show ?case by (intro through_storeI stepping.k_process_intent handler_keeps)
next
  case (sys_verifier checker s sv cfg classify now n)
  then show ?case by (intro through_storeI stepping.k_run_once) (blast intro: through_storeD)
qed (rule through_storeI, intro keeps_intros)+

lemma reachable_system_store: "reachable_system ids instants s \<Longrightarrow> reachable_store ids instants s"
proof (induction rule: reachable_system.induct)
  case system_start
  show ?case by (rule reach_empty)
next
  case (system_next s t)
  from system_step_runs [OF system_next.hyps(2)] system_next.IH show ?case
    by (induction rule: rtranclp_induct) (auto intro: reach_step)
qed

lemma run_extends: "store_run s t \<Longrightarrow> store_extends s t"
  by (induction rule: rtranclp_induct) (auto intro: store_extends_trans store_step_extends)

lemma run_reachable: "reachable_store ids instants s \<Longrightarrow> store_run s t \<Longrightarrow> reachable_store ids instants t"
  by (rotate_tac 1, induction rule: rtranclp_induct) (auto intro: reach_step)

lemma system_run_runs: "system_step\<^sup>*\<^sup>* s t \<Longrightarrow> store_run s t"
  by (induction rule: rtranclp_induct) (auto dest: system_step_runs intro: rtranclp_trans)

text \<open>The attention handler satisfies the assumption when its sender does.\<close>

lemma attention_handler_through_store:
  assumes "\<And>c req. through_store (sender c req i)"
  shows "through_store (attention_handler validate sender secs i)"
  unfolding through_store_iff
  by (intro allI stepping.k_attention_handler through_storeD assms)

text \<open>
  C2: The components refine the store: whatever one call of the service, the outbox worker, the
  scheduler, the correlation service, the verifier or the graph's memory does, returning or raising, is a sequence of steps of the
  store, so no component writes the store's tables behind its operations.
\<close>

theorem system_step_refines_store: "system_step s t \<Longrightarrow> store_step\<^sup>*\<^sup>* s t"
  by (rule system_step_runs)

theorem system_step_refines_store_witness:
  "store_step\<^sup>*\<^sup>* (empty_store (\<lambda>_. ''id'') (\<lambda>_. 0))
     (snd (observe quiet blank_observation (empty_store (\<lambda>_. ''id'') (\<lambda>_. 0))))"
  by (rule system_step_refines_store) (rule sys_observe)

text \<open>
  C3: However the components interleave, the store stays consistent and its history only grows: in
  every state the system goes on to, the tables, indices and logs agree, stored observations, events,
  feedback and traces are as they were, and no case, alias, intent, handoff or objective is lost.
\<close>

theorem system_run_consistent:
  assumes "reachable_system ids instants s" and "system_step\<^sup>*\<^sup>* s t"
  shows "store_ok t \<and> store_extends s t"
  using run_reachable [OF reachable_system_store [OF assms(1)] system_run_runs [OF assms(2)]]
    run_extends [OF system_run_runs [OF assms(2)]] reachable_ok by blast

theorem system_run_consistent_witness:
  "store_ok (snd (observe quiet blank_observation (empty_store (\<lambda>_. ''id'') (\<lambda>_. 0)))) \<and>
   store_extends (empty_store (\<lambda>_. ''id'') (\<lambda>_. 0))
     (snd (observe quiet blank_observation (empty_store (\<lambda>_. ''id'') (\<lambda>_. 0))))"
  by (rule system_run_consistent [OF system_start]) (rule r_into_rtranclp, rule sys_observe)

subsection \<open>The course of a handoff through the system\<close>

definition course_of :: "case_handoff \<Rightarrow> case_handoff \<Rightarrow> bool" where
  "course_of = next_of\<^sup>*\<^sup>*"

lemma course_keeps:
  assumes "course_of h h'"
  shows "(\<lambda>a b. allowed_handoff_transition a b Loop_noc)\<^sup>*\<^sup>* (ho_status h) (ho_status h') \<and>
    (terminal_handoff_status (ho_status h) \<longrightarrow> ho_status h' = ho_status h) \<and>
    ho_case_id h' = ho_case_id h \<and> ho_payload h' = ho_payload h \<and>
    ho_idempotency_key h' = ho_idempotency_key h"
  using assms unfolding course_of_def
proof (induction rule: rtranclp_induct)
  case base
  then show ?case by simp
next
  case (step x y)
  from step.IH next_ofD [OF step.hyps(2)] show ?case
    by (auto intro: rtranclp.rtrancl_into_rtrancl)
qed

lemma handoff_course_run:
  assumes "store_run s t" and "reachable_store ids instants s"
    and "dict_get (st_handoffs s) hid = Some h" and "hid \<noteq> []"
  shows "dict_get (st_handoff_keys t) (ho_idempotency_key h) = Some hid \<and>
    (\<exists>h'. dict_get (st_handoffs t) hid = Some h' \<and>
      (ho_idempotency_key h' = ho_idempotency_key h \<longrightarrow> course_of h h'))"
  using assms(1)
proof (induction rule: rtranclp_induct)
  case base
  show ?case
    using reachable_requests_bound [OF assms(2)] assms(3,4) by (auto simp: requests_bound_def course_of_def)
next
  case (step u t)
  then obtain g where g: "dict_get (st_handoffs u) hid = Some g"
    "ho_idempotency_key g = ho_idempotency_key h \<Longrightarrow> course_of h g" by blast
  obtain h' where h': "dict_get (st_handoffs t) hid = Some h'"
    "next_of g h' \<or> idx_get (st_handoff_keys u) (ho_idempotency_key h') = None"
    using handoff_kept [OF reachable_ok [OF run_reachable [OF assms(2) step.hyps(1)]] step.hyps(2) g(1)]
    by blast
  have "course_of h h'" if "ho_idempotency_key h' = ho_idempotency_key h"
  proof -
    have "next_of g h'" using h'(2) that step.IH assms(4) by (auto simp: idx_get_def)
    with g(2) next_ofD(5) [of g h'] that show ?thesis unfolding course_of_def by auto
  qed
  with h'(1) handoff_key_kept [OF step.hyps(2) conjunct1 [OF step.IH] assms(4)] show ?case by blast
qed

text \<open>
  C4: Through the whole system a request runs its course along the transition table: however the
  components interleave, under its identifier there is either the same request, with a status its
  old one leads to by allowed transitions, the old one itself once it had ended, or a request with
  another idempotency key created under the same identifier.
\<close>

theorem handoff_course_in_system:
  assumes "reachable_store ids instants s" and "system_step\<^sup>*\<^sup>* s t"
    and "dict_get (st_handoffs s) hid = Some h" and "hid \<noteq> []"
  shows "\<exists>h'. dict_get (st_handoffs t) hid = Some h' \<and>
    (ho_idempotency_key h' = ho_idempotency_key h \<longrightarrow>
       (\<lambda>a b. allowed_handoff_transition a b Loop_noc)\<^sup>*\<^sup>* (ho_status h) (ho_status h') \<and>
       (terminal_handoff_status (ho_status h) \<longrightarrow> ho_status h' = ho_status h) \<and>
       ho_case_id h' = ho_case_id h \<and> ho_payload h' = ho_payload h)"
  using handoff_course_run [OF system_run_runs [OF assms(2)] assms(1,3,4)] course_keeps [of h]
  by blast

theorem handoff_course_in_system_witness:
  "\<exists>h'. dict_get (st_handoffs (snd (mark_lhp_handoff_verified quiet ''h1'' demo_created))) ''h1''
     = Some h'"
  using handoff_course_in_system [OF demo_created_reachable _ demo_created_handoff,
      of "snd (mark_lhp_handoff_verified quiet ''h1'' demo_created)"] sys_verified
  by blast

end
