(* ===== verification/Reports_Spec.thy ===== *)
theory Reports_Spec
  imports Service_Spec
begin

section \<open>Reports and reminders\<close>

text \<open>
  When the service reports a case: a reported case is quiet until its reported state changes or the
  reminder interval has passed, and the times the service stamps are the times it reads back.
\<close>

subsection \<open>Times\<close>

lemma parse_iso_isoformat: "valid_instant t \<Longrightarrow> parse_iso_time (isoformat t) = Inr (Some t)"
  by (simp add: parse_iso_time_def fromisoformat_isoformat astimezone_utc_def pydt_instant_def)

text \<open>
  The service reads back the times it stamps: whatever \<open>utc_now\<close> wrote into a record is read by
  \<open>_parse_iso_time\<close> as the very moment, to the microsecond, that the clock showed.
\<close>

lemma stamped_time_read_back:
  assumes "valid_instant (clock s (ticks s))" and "utc_now s = (r, t)"
  shows "\<exists>v. r = Inr v \<and> parse_iso_time v = Inr (Some (clock s (ticks s)))"
  using assms parse_iso_isoformat by (auto simp: utc_now_app)

lemma stamped_time_read_back_witness:
  "\<exists>v. fst (utc_now (empty_store (\<lambda>_. []) (\<lambda>_. 63903000000000123))) = Inr v \<and>
     parse_iso_time v = Inr (Some 63903000000000123)"
proof -
  let ?s = "empty_store (\<lambda>_. []) (\<lambda>_. 63903000000000123)"
  obtain r t where rt: "utc_now ?s = (r, t)" by force
  have "clock ?s (ticks ?s) = 63903000000000123" by (simp add: empty_store_def)
  with stamped_time_read_back [OF _ rt] rt show ?thesis
    by (auto simp: valid_instant_def max_instant_def)
qed

subsection \<open>Reporting and reminding\<close>

lemma serialize_id_app:
  assumes "atomic_by_id s cid = Some c" and "cid \<noteq> []"
  shows "serialize_id (Some cid) m s = m s"
  using assms by (simp add: serialize_id_def guard_app atomic_by_id_case)

lemma mark_reported_run:
  assumes "atomic_by_id s cid = Some c" and "cid \<noteq> []" and "ac_case_id c = cid"
  obtains t where "mark_reported sv cid sig again s =
      (Inr (reported_fields sv sig again (isoformat (clock s (ticks s))) c), t)"
    and "atomic_by_id t cid = Some (reported_fields sv sig again (isoformat (clock s (ticks s))) c)"
proof -
  let ?c = "reported_fields sv sig again (isoformat (clock s (ticks s))) c"
  have id: "ac_case_id ?c = cid" using assms(3) by (simp add: reported_fields_def)
  obtain r t where rt: "mark_reported sv cid sig again s = (r, t)" by force
  then have "r = Inr ?c" "same_but_events (s\<lparr>ticks := Suc (ticks s),
      st_cases := dict_set cid (Atomic ?c) (st_cases s)\<rparr>) t"
    using assms(1) id
    by (auto simp: mark_reported_def serialize_id_app [OF assms(1,2)] bindM_app seqM_app require_case_app
        utc_now_app upsert_atomic_app dest!: emit_dest split: prod.splits sum.splits)
  with rt that show thesis
    by (auto simp: atomic_by_id_def case_by_id_def dest!: same_but_eventsD(1))
qed

definition remindable :: "atomic_case \<Rightarrow> bool" where
  "remindable c \<longleftrightarrow> ac_severity c = HIGH \<and> \<not> acknowledged c \<and>
     ac_status c \<notin> {CS_resolved, CS_closed, CS_expired, CS_linked, CS_recovered_pending} \<and>
     \<not> (ac_covered_by_meta_case c \<and> \<not> ac_independent_action_required c)"

lemma report_state_reported [simp]:
  "report_state_signature (reported_fields sv sig again now c) = report_state_signature c"
  by (simp add: report_state_signature_def reported_fields_def)

lemma parse_iso_empty [simp]: "parse_iso_time [] = Inr None"
  by (simp add: parse_iso_time_def)

lemma reminder_at_reported:
  assumes "ac_last_reported_signature c = report_state_signature c"
    and "ac_last_reported_at c = isoformat t" and "valid_instant t"
    and "ac_suppressed_until c = []" and "ac_snoozed_until c = []"
    and "timedelta_seconds (max 21600 (pol_report_reassert_s (sv_policy sv))) = Inr us"
  shows "reminder_at sv c now = Inr (remindable c \<and> us \<le> now - t)"
  using assms by (auto simp: reminder_at_def remindable_def elapsed_def parse_iso_isoformat)

text \<open>
  A report silences a case for the reminder interval: marking a stored case reported in its present
  state always succeeds, and from then on the case, while its state stays as reported, is due exactly when
  it is of high severity, open, not acknowledged and not covered by a meta case, and at least the policy's
  interval, six hours or more, has passed since the moment of the report.
\<close>

theorem reported_case_quiet_until_interval:
  assumes "store_ok s" and "atomic_by_id s cid = Some c" and "cid \<noteq> []"
    and "valid_instant (clock s (ticks s))"
    and "ac_suppressed_until c = []" and "ac_snoozed_until c = []"
    and "\<not> (attention_enabled (sv_getenv sv) \<and> source_watched c)"
    and "max 21600 (pol_report_reassert_s (sv_policy sv)) div 86400 \<le> 999999999"
  shows "\<exists>c' t. mark_reported sv cid (report_state_signature c) again s = (Inr c', t) \<and>
    atomic_by_id t cid = Some c' \<and>
    (\<forall>now u. should_report sv c' (Some now) u = (Inr (remindable c \<and>
       max 21600 (pol_report_reassert_s (sv_policy sv)) * second_us \<le> now - clock s (ticks s)), u))"
proof -
  let ?at = "clock s (ticks s)" and ?n = "max 21600 (pol_report_reassert_s (sv_policy sv))"
  let ?c = "reported_fields sv (report_state_signature c) again (isoformat ?at) c"
  have id: "ac_case_id c = cid" by (rule atomic_by_id_key [OF assms(1,2)])
  obtain t where t: "mark_reported sv cid (report_state_signature c) again s = (Inr ?c, t)"
    "atomic_by_id t cid = Some ?c"
    by (rule mark_reported_run [OF assms(2,3) id])
  have n: "timedelta_seconds ?n = Inr (?n * second_us)"
    using assms(8) by (simp add: timedelta_seconds_def)
  have fields: "ac_last_reported_signature ?c = report_state_signature ?c"
    "ac_last_reported_at ?c = isoformat ?at" "source_watched ?c = source_watched c"
    "remindable ?c = remindable c" "ac_suppressed_until ?c = []" "ac_snoozed_until ?c = []"
    using assms(5,6)
    by (simp_all add: reported_fields_def source_watched_def remindable_def report_state_signature_def
        acknowledged_def)
  have "reminder_at sv ?c now = Inr (remindable ?c \<and> ?n * second_us \<le> now - ?at)" for now
    by (rule reminder_at_reported [OF fields(1,2) assms(4) fields(5,6) n])
  then have "should_report sv ?c (Some now) u = (Inr (remindable c \<and> ?n * second_us \<le> now - ?at), u)" for now u
    using assms(7) fields by (auto simp: should_report_def should_remind_def bindM_app)
  with t show ?thesis by blast
qed

theorem reported_case_quiet_until_interval_witness:
  "\<exists>c' t. mark_reported quiet ''case_1'' (report_state_signature sample_case) False demo_store = (Inr c', t) \<and>
     should_report quiet c' (Some 0) t = (Inr False, t)"
proof -
  have ok: "store_ok demo_store" by (rule reachable_ok [OF demo_store_reachable])
  have "valid_instant (clock demo_store (ticks demo_store))" "ac_suppressed_until sample_case = []"
    "ac_snoozed_until sample_case = []"
    by (simp_all add: demo_store_def empty_store_def valid_instant_def max_instant_def sample_case_def
        blank_case_def)
  moreover have "\<not> (attention_enabled (sv_getenv quiet) \<and> source_watched sample_case)"
    "max 21600 (pol_report_reassert_s (sv_policy quiet)) div 86400 \<le> 999999999"
    by (simp_all add: quiet_def attention_enabled_def py_strip_def py_lower_def default_policy_def)
  ultimately obtain c' t where ct: "mark_reported quiet ''case_1'' (report_state_signature sample_case) False
      demo_store = (Inr c', t)"
    "\<forall>now u. should_report quiet c' (Some now) u = (Inr (remindable sample_case \<and>
       max 21600 (pol_report_reassert_s (sv_policy quiet)) * second_us \<le>
         now - clock demo_store (ticks demo_store)), u)"
    using reported_case_quiet_until_interval [OF ok demo_case, of quiet False] by blast
  then show ?thesis by (auto simp: demo_store_def empty_store_def second_us_def)
qed

end
