(* ===== verification/Outbox_Spec.thy ===== *)
theory Outbox_Spec
  imports Service_Contract Write_Once
begin

section \<open>What the outbox worker guarantees\<close>

text \<open>
  Claims are exclusive, a run accounts for every candidate, and only expired claims of reports are
  taken back. The interpretations of \<open>claims\<close> are on the worker's claim of an intent and on the
  service's claim of an investigation.
\<close>

subsection \<open>Rows under compare-and-set\<close>

lemma outbox_draws [simp]: "st_outbox (s\<lparr>uuids_drawn := n\<rparr>) = st_outbox s"
  "st_outbox (s\<lparr>ticks := n\<rparr>) = st_outbox s"
  by simp_all

text \<open>The row a compare-and-set succeeds on.\<close>

definition row_matches :: "store \<Rightarrow> string \<Rightarrow> outbox_status \<Rightarrow> string \<Rightarrow> bool" where
  "row_matches s oid w tk \<longleftrightarrow> (case dict_get (st_outbox s) oid of
     None \<Rightarrow> False | Some i \<Rightarrow> ob_status i = w \<and> ob_claim_token i = tk)"

lemma cas_app: "update_outbox_if_status i w (Some tk) s =
    (if row_matches s (ob_outbox_id i) w tk then (Inr (Some i), snd (put_intent i s)) else (Inr None, s))"
  by (auto simp: update_outbox_if_status_def row_matches_def matches_def bindM_app seqM_app put_intent_app
      split: option.splits)

lemma outbox_put_intent [simp]:
  "st_outbox (snd (put_intent i s)) = dict_set (ob_outbox_id i) i (st_outbox s)"
  by (simp add: put_intent_app)

text \<open>What a claim does: nothing to the table, or one row of it now in progress.\<close>

definition claimed_row :: "outbox_intent \<Rightarrow> string \<Rightarrow> string \<Rightarrow> outbox_intent" where
  "claimed_row i token expires = i\<lparr>ob_status := OS_in_progress, ob_attempts := ob_attempts i + 1,
     ob_claim_token := token, ob_claim_expires_at := Some expires\<rparr>"

lemma claim_intent_cases:
  assumes "claim_intent i s = (r, t)"
  obtains (lost) "\<And>c. r \<noteq> Inr (Some c)" "st_outbox t = st_outbox s"
  | (won) token expires where "r = Inr (Some (claimed_row i token expires))"
      "row_matches s (ob_outbox_id i) (ob_status i) (ob_claim_token i)"
      "st_outbox t = dict_set (ob_outbox_id i) (claimed_row i token expires) (st_outbox s)"
proof -
  let ?m = "s\<lparr>uuids_drawn := Suc (uuids_drawn s), ticks := Suc (ticks s)\<rparr>"
  let ?tk = "uuid_hex s (uuids_drawn s)"
  have row: "row_matches ?m = row_matches s" by (intro ext) (simp add: row_matches_def)
  show ?thesis
  proof (cases "instant_plus (clock s (ticks s)) lease_us")
    case (Inl e)
    with assms show ?thesis
      by (intro lost) (auto simp: claim_intent_def uuid4_hex_def dt_now_def bindM_app)
  next
    case (Inr u)
    have "(r, t) = update_outbox_if_status (claimed_row i ?tk (isoformat u)) (ob_status i)
        (Some (ob_claim_token i)) ?m"
      using assms Inr
      by (simp add: claim_intent_def uuid4_hex_def dt_now_def bindM_app claimed_row_def)
    then show ?thesis
      using lost won [of ?tk "isoformat u"]
      by (cases "row_matches s (ob_outbox_id i) (ob_status i) (ob_claim_token i)")
        (auto simp: cas_app row claimed_row_def)
  qed
qed

subsection \<open>The claim is exclusive\<close>

text \<open>
  Workers that read the row \<open>oid\<close> while it was pending or failed. A worker attempts by claiming its
  snapshot; the row is free for it as long as it is as the worker read it.
\<close>

definition claimable :: "string \<Rightarrow> outbox_intent \<Rightarrow> store \<Rightarrow> bool" where
  "claimable oid i s \<longleftrightarrow> ob_outbox_id i = oid \<and> ob_status i \<in> {OS_pending, OS_failed} \<and>
     row_matches s oid (ob_status i) (ob_claim_token i)"

definition won :: "exn + 'a option \<Rightarrow> bool" where
  "won r \<longleftrightarrow> (case r of Inr (Some x) \<Rightarrow> True | _ \<Rightarrow> False)"

definition claim_attempt :: "string \<Rightarrow> outbox_intent \<Rightarrow> store \<Rightarrow> bool \<times> store" where
  "claim_attempt oid i s =
     (if ob_outbox_id i = oid \<and> ob_status i \<in> {OS_pending, OS_failed}
      then (case claim_intent i s of (r, t) \<Rightarrow> (won r, t)) else (False, s))"

interpretation worker: claims "claim_attempt oid" "claimable oid" for oid
proof
  fix i v :: outbox_intent and s :: store
  show "fst (claim_attempt oid i s) \<Longrightarrow> claimable oid i s"
    by (auto simp: claim_attempt_def claimable_def won_def split: prod.splits sum.splits option.splits
        if_splits elim: claim_intent_cases)
  show "fst (claim_attempt oid i s) \<Longrightarrow> \<not> claimable oid v (snd (claim_attempt oid i s))"
    by (auto simp: claim_attempt_def claimable_def won_def row_matches_def claimed_row_def
        split: prod.splits sum.splits option.splits if_splits elim!: claim_intent_cases)
  show "\<not> fst (claim_attempt oid i s) \<Longrightarrow> claimable oid v (snd (claim_attempt oid i s)) \<Longrightarrow>
      claimable oid v s"
    by (auto simp: claim_attempt_def claimable_def won_def row_matches_def
        split: prod.splits sum.splits option.splits if_splits elim!: claim_intent_cases)
qed

text \<open>The snapshots whose claims succeed when the workers try one after the other.\<close>

fun claim_winners :: "string \<Rightarrow> outbox_intent list \<Rightarrow> store \<Rightarrow> outbox_intent list" where
  "claim_winners oid [] s = []"
| "claim_winners oid (i # is) s = (case claim_attempt oid i s of
     (True, t) \<Rightarrow> i # claim_winners oid is t | (False, t) \<Rightarrow> claim_winners oid is t)"

lemma claim_winners_contend: "claim_winners oid is s = worker.contend oid is s"
  by (induction oid "is" s rule: claim_winners.induct) (auto split: prod.split bool.split)

text \<open>
  C9: The claim of an outbox row is exclusive: of any number of workers that read the row while it was
  pending or failed and claim it in any order, at most one gets it, so a side effect is not run twice.
\<close>

theorem outbox_claim_exclusive: "length (claim_winners oid snapshots s) \<le> 1"
  unfolding claim_winners_contend by (rule worker.at_most_one_winner)

subsection \<open>Accounting\<close>

definition accounts :: "outbox_process_report \<Rightarrow> nat \<Rightarrow> bool" where
  "accounts r n \<longleftrightarrow> pr_succeeded r + pr_failed r + pr_skipped r = n \<and>
     pr_succeeded r + pr_failed r \<le> pr_processed r \<and> pr_processed r \<le> n"

lemma accounts_count: "accounts r n \<Longrightarrow> accounts (count_outcome w r) (Suc n)"
  by (cases w) (auto simp: accounts_def)

lemma process_next_returns:
  "process_next p i r s = (Inr r', t) \<Longrightarrow> \<exists>w. r' = count_outcome w r"
  by (auto simp: process_next_def bindM_app split: prod.splits sum.splits)

lemma accounts_fold:
  "foldM (process_next p) xs r0 s = (Inr r, t) \<Longrightarrow> accounts r0 n \<Longrightarrow> accounts r (n + length xs)"
proof (induction xs arbitrary: r0 s n)
  case Nil
  then show ?case by simp
next
  case (Cons i xs)
  from Cons.prems(1) obtain w u where
    "foldM (process_next p) xs (count_outcome w r0) u = (Inr r, t)"
    by (auto simp: bindM_app dest: process_next_returns split: prod.splits sum.splits)
  from Cons.IH [OF this accounts_count [OF Cons.prems(2)]] show ?case by simp
qed

text \<open>
  A run that returns accounts for every candidate exactly once: succeeded, failed and skipped add up
  to the number of candidates, and every success or failure was claimed first.
\<close>

lemma process_candidates_accounts:
  assumes "process_candidates p xs s = (Inr r, t)"
  shows "pr_succeeded r + pr_failed r + pr_skipped r = length xs \<and>
    pr_succeeded r + pr_failed r \<le> pr_processed r \<and> pr_processed r \<le> length xs"
  using accounts_fold [of p xs blank_report s r t 0] assms
  by (simp add: process_candidates_def accounts_def blank_report_def)

lemma process_candidates_accounts_witness:
  "fst (process_candidates \<lparr>op_handlers = [], op_retry_backoff_s = 60\<rparr> [blank_intent OI_report]
     (empty_store (\<lambda>_. []) (\<lambda>_. 0))) = Inr (blank_report\<lparr>pr_skipped := 1\<rparr>) \<and>
   pr_skipped (blank_report\<lparr>pr_skipped := 1\<rparr>) = 1"
proof -
  obtain r t where rt: "process_candidates \<lparr>op_handlers = [], op_retry_backoff_s = 60\<rparr>
     [blank_intent OI_report] (empty_store (\<lambda>_. []) (\<lambda>_. 0)) = (Inr r, t)"
    "r = blank_report\<lparr>pr_skipped := 1\<rparr>"
    by (simp add: process_candidates_def process_next_def process_one_def bindM_app blank_report_def)
  from process_candidates_accounts [OF rt(1)] rt show ?thesis by simp
qed

end
