(* ===== verification/Delivery_Spec.thy ===== *)
theory Delivery_Spec
  imports Outbox_Spec Service_Spec
begin

section \<open>Lost claims and attention deliveries\<close>

text \<open>
  What the compare-and-set updates protect: the outcome of a worker that lost its claim is discarded,
  an attention lease keeps other workers out while it lasts, and a sequence number of a case is
  delivered once.
\<close>

subsection \<open>A worker that lost its claim\<close>

text \<open>The tables an outcome could change.\<close>

definition outcome_untouched :: "store \<Rightarrow> store \<Rightarrow> bool" where
  "outcome_untouched s t \<longleftrightarrow> st_outbox t = st_outbox s \<and> st_attention t = st_attention s \<and>
     st_cases t = st_cases s \<and> st_events t = st_events s"

lemma outcome_untouched_draws [simp]: "outcome_untouched s s" "outcome_untouched s (s\<lparr>ticks := n\<rparr>)"
  by (simp_all add: outcome_untouched_def)

lemma row_matches_ticks [simp]: "row_matches (s\<lparr>ticks := n\<rparr>) = row_matches s"
  by (intro ext) (simp add: row_matches_def)

lemma won_simps [simp]: "won (Inr (Some x))" "\<not> won (Inr None)" "\<not> won (Inl e)"
  by (simp_all add: won_def)

lemma owns_row: "owns_intent s oid cid tk n \<Longrightarrow> row_matches s oid OS_in_progress tk"
  by (auto simp: owns_intent_def row_matches_def split: option.splits)

lemma complete_attention_lost:
  assumes "\<not> row_matches s (ob_outbox_id i) OS_in_progress tk"
    and "complete_attention i d n tk lease eo s = (q, t)"
  shows "t = s \<and> \<not> won q"
  using assms owns_row [of s "ob_outbox_id i" _ tk n]
  by (auto simp: complete_attention_def bindM_app split: if_splits)

lemma failure_lost:
  assumes "\<not> row_matches s (ob_outbox_id i) OS_in_progress (ob_claim_token i)"
    and "record_failure b i e s = (q, t)"
  shows "outcome_untouched s t \<and> \<not> won q"
  using assms by (auto simp: record_failure_def bindM_app dt_now_app cas_app split: sum.splits)

lemma completed_id [simp]: "ob_outbox_id (completed_intent i now r) = ob_outbox_id i"
  by (simp add: completed_intent_def Let_def split: option.split)

lemma completion_lost:
  assumes "\<not> row_matches s (ob_outbox_id i) OS_in_progress (ob_claim_token i)"
    and "record_completion i r s = (q, t)"
  shows "outcome_untouched s t \<and> \<not> won q"
  using assms
  by (auto simp: record_completion_def bindM_app utc_now_app cas_app Let_def split: option.splits
      dest!: complete_attention_lost [rotated])

text \<open>
  What the attempt of such a worker answers: it counts as skipped, unless the bookkeeping itself raises,
  which it does when the time of the next attempt after a failed handler is outside the calendar, and when
  the handler returned an attention delivery of another case than the row's.
\<close>

definition foreign_delivery :: "outbox_intent \<Rightarrow> outbox_handler_result option \<Rightarrow> bool" where
  "foreign_delivery i r \<longleftrightarrow> (case r of None \<Rightarrow> False | Some x \<Rightarrow>
     (case hx_attention_delivery x of None \<Rightarrow> False | Some d \<Rightarrow> ob_case_id i \<noteq> Some (ad_case_id d)))"

definition lost_outcome ::
  "int \<Rightarrow> outbox_intent \<Rightarrow> exn + outbox_handler_result option \<Rightarrow> instant \<Rightarrow> exn + intent_outcome" where
  "lost_outcome backoff claimed x now =
     (case x of
        Inl e \<Rightarrow> (case next_attempt backoff now of Inl o' \<Rightarrow> Inl o' | Inr retry_at \<Rightarrow> Inr IO_lost)
      | Inr r \<Rightarrow> if foreign_delivery claimed r then Inl (ValueError ''invalid attention completion'')
          else Inr IO_lost)"

lemma failure_lost_answer:
  assumes "\<not> row_matches s (ob_outbox_id i) OS_in_progress (ob_claim_token i)"
    and "record_failure b i e s = (q, t)"
  shows "q = (case next_attempt b (clock s (ticks s)) of Inl o' \<Rightarrow> Inl o' | Inr retry_at \<Rightarrow> Inr None)"
  using assms by (auto simp: record_failure_def bindM_app dt_now_app cas_app split: sum.splits)

lemma complete_attention_lost_answer:
  assumes "\<not> row_matches s (ob_outbox_id i) OS_in_progress tk" and "ob_status i = OS_succeeded"
    and "complete_attention i d (ad_sequence d - 1) tk lease eo s = (q, t)"
  shows "q = (if ob_case_id i \<noteq> Some (ad_case_id d)
    then Inl (ValueError ''invalid attention completion'') else Inr None)"
  using assms owns_row [of s "ob_outbox_id i" _ tk "ad_sequence d - 1"]
  by (auto simp: complete_attention_def bindM_app split: if_splits)

lemma completed_simps [simp]:
  "ob_status (completed_intent i now r) = OS_succeeded" "ob_case_id (completed_intent i now r) = ob_case_id i"
  by (simp_all add: completed_intent_def Let_def split: option.split)

lemma completion_lost_answer:
  assumes "\<not> row_matches s (ob_outbox_id i) OS_in_progress (ob_claim_token i)"
    and "record_completion i r s = (q, t)"
  shows "q = (if foreign_delivery i r then Inl (ValueError ''invalid attention completion'') else Inr None)"
  using assms
  by (auto simp: record_completion_def bindM_app utc_now_app cas_app Let_def foreign_delivery_def
      split: option.splits if_splits dest!: complete_attention_lost_answer [rotated 2])

text \<open>
  C10: A worker that lost its claim while its handler ran, because the lease ended and the row was
  returned, claimed again, cancelled or finished by another, records nothing: neither the row, the
  attention ledger, the cases nor the events change. The attempt then counts as processed and skipped,
  never as succeeded or failed, with two exceptions, in which the bookkeeping raises and the exception
  leaves the loop: the handler raised and the time of the next attempt is outside the calendar, or the
  handler returned an attention delivery of another case than the row's.
\<close>

theorem lost_claim_records_nothing:
  assumes "handler claimed s = (x, u)" and "run_claimed backoff handler claimed s = (q, t)"
    and "\<not> row_matches u (ob_outbox_id claimed) OS_in_progress (ob_claim_token claimed)"
  shows "outcome_untouched u t \<and> q = lost_outcome backoff claimed x (clock u (ticks u)) \<and>
    (q = Inr IO_lost \<longrightarrow> count_outcome IO_lost report = report\<lparr>
       pr_processed := pr_processed report + 1, pr_skipped := pr_skipped report + 1\<rparr>)"
proof (cases x)
  case (Inl e)
  obtain y w where y: "record_failure backoff claimed e u = (y, w)" by force
  with failure_lost [OF assms(3) y] failure_lost_answer [OF assms(3) y] assms(1,2) Inl show ?thesis
    by (auto simp: run_claimed_def tryM_def bindM_app lost_outcome_def split: sum.splits option.splits)
next
  case (Inr r)
  obtain y w where y: "record_completion claimed r u = (y, w)" by force
  with completion_lost [OF assms(3) y] completion_lost_answer [OF assms(3) y] assms(1,2) Inr show ?thesis
    by (auto simp: run_claimed_def tryM_def bindM_app lost_outcome_def split: sum.splits option.splits if_splits)
qed

theorem lost_claim_records_nothing_witness:
  "fst (run_claimed 60 (\<lambda>_. retM None) (blank_intent OI_report) (empty_store (\<lambda>_. []) (\<lambda>_. 0))) = Inr IO_lost"
proof -
  let ?s = "empty_store (\<lambda>_. []) (\<lambda>_. 0)" and ?i = "blank_intent OI_report"
  obtain q t where qt: "run_claimed 60 (\<lambda>_. retM None) ?i ?s = (q, t)" by force
  have "\<not> row_matches ?s (ob_outbox_id ?i) OS_in_progress (ob_claim_token ?i)"
    by (simp add: row_matches_def empty_store_def)
  from lost_claim_records_nothing [OF retM_app qt this] qt show ?thesis
    by (simp add: lost_outcome_def foreign_delivery_def)
qed

subsection \<open>The attention lease\<close>

lemma claim_attention_won:
  assumes "claim_attention i n secs s = (Inr (Some lt), t)"
  obtains cid expires where "ob_case_id i = Some cid"
    "expires = clock s (ticks s) + secs * second_us" "clock t = clock s" "ticks t = Suc (ticks s)"
    "st_attention_leases t = dict_set cid (lt, ob_outbox_id i, ob_claim_token i, expires) (st_attention_leases s)"
    "owns_intent s (ob_outbox_id i) cid (ob_claim_token i) n"
    "(case dict_get (st_attention_leases s) cid of None \<Rightarrow> True
      | Some l \<Rightarrow> lease_expires l \<le> clock s (ticks s))"
  using assms
  by (auto simp: claim_attention_def bindM_app seqM_app dt_now_app require_case_app uuid4_hex_def
      instant_plus_def owns_intent_def not_less
      split: option.splits if_splits sum.splits)

text \<open>
  One attention delivery of a case at a time: after a worker got the lease of a case, no worker gets a
  lease of that case, for whatever intent and sequence, at any moment before the lease it was given
  expires or is released.
\<close>

theorem attention_lease_exclusive:
  assumes "claim_attention i n secs s = (Inr (Some lt), t)" and "ob_case_id j = ob_case_id i"
    and "dict_get (st_attention_leases u) (the (ob_case_id i)) =
      dict_get (st_attention_leases t) (the (ob_case_id i))"
    and "clock u (ticks u) < clock s (ticks s) + secs * second_us"
  shows "\<not> won (fst (claim_attention j m secs' u))"
proof
  assume "won (fst (claim_attention j m secs' u))"
  then obtain lt' t' where j: "claim_attention j m secs' u = (Inr (Some lt'), t')"
    by (auto simp: won_def split: sum.splits option.splits) (metis prod.collapse)
  obtain cid where i: "ob_case_id i = Some cid" "dict_get (st_attention_leases t) cid =
      Some (lt, ob_outbox_id i, ob_claim_token i, clock s (ticks s) + secs * second_us)"
    by (rule claim_attention_won [OF assms(1)]) auto
  show False
    by (rule claim_attention_won [OF j]) (use i assms(2-4) in \<open>auto simp: lease_expires_def\<close>)
qed

text \<open>A store with a case and a report of it that a worker has claimed.\<close>

definition claimed_intent :: outbox_intent where
  "claimed_intent = (blank_intent OI_report)\<lparr>ob_outbox_id := ''o1'', ob_case_id := Some ''case_1'',
     ob_idempotency_key := ''k1'', ob_status := OS_in_progress, ob_claim_token := ''claim''\<rparr>"

definition claimed_store :: store where
  "claimed_store = demo_store\<lparr>st_outbox := [(''o1'', claimed_intent)]\<rparr>"

definition leased_store :: store where
  "leased_store = claimed_store\<lparr>ticks := 1, uuids_drawn := 1,
     st_attention_leases := [(''case_1'', ''0123456789abcdef'', ''o1'', ''claim'', 120000000)]\<rparr>"

lemma claimed_lease:
  "claim_attention claimed_intent 0 120 claimed_store = (Inr (Some ''0123456789abcdef''), leased_store)"
  by (simp add: claim_attention_def claimed_intent_def blank_intent_def bindM_app dt_now_app owns_intent_def
      claimed_store_def demo_store_def empty_store_def previous_sequence_def seqM_app require_case_app
      atomic_by_id_def case_by_id_def uuid4_hex_def instant_plus_def valid_instant_def max_instant_def
      second_us_def leased_store_def)

theorem attention_lease_exclusive_witness:
  "\<not> won (fst (claim_attention claimed_intent 0 60 leased_store))"
  by (rule attention_lease_exclusive [OF claimed_lease])
    (simp_all add: leased_store_def claimed_store_def demo_store_def empty_store_def second_us_def)

text \<open>
  C20: A sequence number is delivered once: a completed delivery is the ledger's row of its case with
  exactly the next sequence number, its lease is gone, and while that row stands no lease and no completion
  for the same number is granted, to any worker.
\<close>

theorem attention_sequence_once:
  assumes "complete_attention i d n tk lease eo s = (Inr (Some j), t)"
  shows "dict_get (st_attention t) (ad_case_id d) = Some d \<and> ad_sequence d = n + 1 \<and>
    dict_get (st_attention_leases t) (ad_case_id d) = None \<and>
    \<not> (\<exists>u i' tk' lease' eo' d'. dict_get (st_attention u) (ad_case_id d) = Some d \<and>
        ad_case_id d' = ad_case_id d \<and> won (fst (complete_attention i' d' n tk' lease' eo' u))) \<and>
    \<not> (\<exists>u i' secs. dict_get (st_attention u) (ad_case_id d) = Some d \<and>
        ob_case_id i' = Some (ad_case_id d) \<and> won (fst (claim_attention i' n secs u)))"
proof -
  have row: "dict_get (st_attention t) (ad_case_id d) = Some d" "ad_sequence d = n + 1"
    "dict_get (st_attention_leases t) (ad_case_id d) = None"
    using assms
    by (auto simp: complete_attention_def bindM_app seqM_app dt_now_app require_case_app
        write_attention_def put_atomic_def put_case_def
        split: if_splits option.splits sum.splits prod.splits)
  have no: "\<not> owns_intent u oid (ad_case_id d) tk' n"
    if "dict_get (st_attention u) (ad_case_id d) = Some d" for u oid tk'
    using that row(2) by (auto simp: owns_intent_def previous_sequence_def split: option.splits)
  have "\<not> won (fst (complete_attention i' d' n tk' lease' eo' u))"
    if "dict_get (st_attention u) (ad_case_id d) = Some d" "ad_case_id d' = ad_case_id d"
    for u i' tk' lease' eo' d'
    using no [OF that(1)] that(2) by (auto simp: complete_attention_def bindM_app)
  moreover have "\<not> won (fst (claim_attention i' n secs u))"
    if "dict_get (st_attention u) (ad_case_id d) = Some d" "ob_case_id i' = Some (ad_case_id d)"
    for u i' secs
    using no [of "u\<lparr>ticks := Suc (ticks u)\<rparr>"] that
    by (auto simp: claim_attention_def bindM_app dt_now_app)
  ultimately show ?thesis using row by blast
qed

theorem attention_sequence_once_witness:
  "\<exists>t d. complete_attention (claimed_intent\<lparr>ob_status := OS_succeeded\<rparr>) d 0 ''claim'' ''0123456789abcdef''
     None leased_store = (Inr (Some (claimed_intent\<lparr>ob_status := OS_succeeded\<rparr>)), t) \<and>
     dict_get (st_attention t) ''case_1'' = Some d"
proof -
  let ?d = "\<lparr>ad_case_id = ''case_1'', ad_generation = 0, ad_phase = Ph_firing, ad_severity = HIGH,
    ad_delivered_at = 0, ad_sequence = 1\<rparr>"
  obtain t where t: "complete_attention (claimed_intent\<lparr>ob_status := OS_succeeded\<rparr>) ?d 0 ''claim''
     ''0123456789abcdef'' None leased_store = (Inr (Some (claimed_intent\<lparr>ob_status := OS_succeeded\<rparr>)), t)"
    by (simp add: complete_attention_def claimed_intent_def blank_intent_def bindM_app dt_now_app
        owns_intent_def holds_lease_def leased_store_def claimed_store_def demo_store_def empty_store_def
        previous_sequence_def seqM_app require_case_app atomic_by_id_def case_by_id_def lease_expires_def)
  from attention_sequence_once [OF t] t show ?thesis by auto
qed

end
