(* ===== verification/Verifier_Spec.thy ===== *)
theory Verifier_Spec
  imports Service_Spec
begin

section \<open>What the verifier guarantees\<close>

text \<open>
  When the verifier moves a handoff, how passes are counted, and which handoffs it never comes back
  to. The checker is a parameter; what is assumed of it is that it leaves the handoffs alone.
\<close>

subsection \<open>Passes in a row\<close>

text \<open>An objective after a sequence of checks, each with its time and the time of the next one.\<close>

definition after_checks ::
  "verification_objective \<Rightarrow> (check_result \<times> string \<times> string) list \<Rightarrow> verification_objective" where
  "after_checks v checks = foldl (\<lambda>w (r, now, next_at). checked_objective w r now next_at) v checks"

definition passes :: "check_result \<times> string \<times> string \<Rightarrow> bool" where
  "passes x \<longleftrightarrow> ck_status (fst x) = CK_pass"

lemma checked_fields [simp]:
  "vo_handoff_id (checked_objective v r now n) = vo_handoff_id v"
  "vo_objective_id (checked_objective v r now n) = vo_objective_id v"
  "vo_required_consecutive_passes (checked_objective v r now n) = vo_required_consecutive_passes v"
  "vo_consecutive_pass_count (checked_objective v r now n) =
     (if ck_status r = CK_pass then vo_consecutive_pass_count v + 1 else 0)"
  by (simp_all add: checked_objective_def Let_def)

lemma after_checks_snoc: "after_checks v (xs @ [(r, now, n)]) = checked_objective (after_checks v xs) r now n"
  by (simp add: after_checks_def)

lemma after_checks_required [simp]:
  "vo_required_consecutive_passes (after_checks v xs) = vo_required_consecutive_passes v"
  by (induction xs rule: rev_induct) (auto simp: after_checks_snoc after_checks_def)

lemma after_checks_count:
  "vo_consecutive_pass_count (after_checks v xs) =
     int (length (takeWhile passes (rev xs))) + (if list_all passes xs then vo_consecutive_pass_count v else 0)"
proof (induction xs rule: rev_induct)
  case Nil
  then show ?case by (simp add: after_checks_def)
next
  case (snoc x xs)
  obtain r now n where "x = (r, now, n)" by (cases x)
  with snoc show ?case by (auto simp: after_checks_snoc passes_def)
qed

text \<open>
  Only passes in a row count: a new objective has the status pass after some checks exactly when
  the last of them, as many as it requires, all passed (and at least the last one); any other result
  sets the count back to zero.
\<close>

theorem pass_needs_passes_in_a_row:
  assumes "checks \<noteq> []" and "vo_consecutive_pass_count v = 0" and "vo_status v \<noteq> VS_pass"
  shows "vo_status (after_checks v checks) = VS_pass \<longleftrightarrow> passes (last checks) \<and>
    vo_required_consecutive_passes v \<le> int (length (takeWhile passes (rev checks)))"
proof -
  obtain xs r now n where c: "checks = xs @ [(r, now, n)]"
    using assms(1) by (metis append_butlast_last_id prod_cases3)
  have count: "int (length (takeWhile passes (rev checks))) =
      (if ck_status r = CK_pass then vo_consecutive_pass_count (after_checks v xs) + 1 else 0)"
    using after_checks_count [of v xs] assms(2) by (simp add: c passes_def)
  show ?thesis
    unfolding count by (cases "ck_status r") (auto simp: c after_checks_snoc passes_def checked_objective_def Let_def)
qed

theorem pass_needs_passes_in_a_row_witness:
  "vo_status (after_checks (blank_objective\<lparr>vo_required_consecutive_passes := 2\<rparr>)
     [(check_answer CK_pass [] [], ''t1'', ''t2''), (check_answer CK_fail [] [], ''t2'', ''t3''),
      (check_answer CK_pass [] [], ''t3'', ''t4'')]) \<noteq> VS_pass"
proof -
  let ?v = "blank_objective\<lparr>vo_required_consecutive_passes := 2\<rparr>"
  let ?xs = "[(check_answer CK_pass [] [], ''t1'', ''t2''), (check_answer CK_fail [] [], ''t2'', ''t3''),
      (check_answer CK_pass [] [], ''t3'', ''t4'')]"
  have "vo_consecutive_pass_count ?v = 0" "vo_status ?v \<noteq> VS_pass" by (simp_all add: blank_objective_def)
  from pass_needs_passes_in_a_row [of ?xs ?v, OF _ this] show ?thesis
    by (simp add: passes_def check_answer_def)
qed

subsection \<open>When a handoff is verified\<close>

text \<open>The required objectives of a handoff in the store.\<close>

definition required_objectives :: "store \<Rightarrow> case_handoff \<Rightarrow> verification_objective set" where
  "required_objectives s h = {v \<in> set (dict_values (st_objectives s)).
     vo_case_id v = ho_case_id h \<and> vo_handoff_id v = ho_handoff_id h \<and> vo_required v}"

lemma scoped_rows:
  obtains rows where "list_verification_objectives (Some (ho_case_id h)) None False s = (Inr rows, s)"
    and "set (scoped_objectives hid rows) = required_objectives s (h\<lparr>ho_handoff_id := hid\<rparr>)"
  by (rule that [of "py_sort False (\<lambda>v. (vo_updated_at v, vo_created_at v, vo_objective_id v))
       (filter (\<lambda>v. vo_case_id v = ho_case_id h) (dict_values (st_objectives s)))"])
    (auto simp: list_verification_objectives_def list_rows_def matches_def scoped_objectives_def
      required_objectives_def)

lemma get_handoff_app: "get_handoff hid s = (Inr (dict_get (st_handoffs s) hid), s)"
  by (simp add: get_handoff_def)

lemma maybe_verify_still:
  assumes "maybe_verify_handoff sv cfg hid s = (r, t)"
    and "\<And>h. \<lbrakk>dict_get (st_handoffs s) hid = Some h; \<not> terminal_handoff_status (ho_status h);
      ho_status h \<noteq> HS_verified; required_objectives s (h\<lparr>ho_handoff_id := hid\<rparr>) \<noteq> {};
      \<forall>v \<in> required_objectives s (h\<lparr>ho_handoff_id := hid\<rparr>). objective_satisfied v\<rbrakk> \<Longrightarrow> False"
  shows "t = s \<and> r = Inr (False, False)"
proof (cases "dict_get (st_handoffs s) hid")
  case None
  with assms(1) show ?thesis by (simp add: maybe_verify_handoff_def bindM_app get_handoff_app)
next
  case (Some h)
  obtain rows where rows: "list_verification_objectives (Some (ho_case_id h)) None False s = (Inr rows, s)"
    "set (scoped_objectives hid rows) = required_objectives s (h\<lparr>ho_handoff_id := hid\<rparr>)"
    by (rule scoped_rows)
  have "terminal_handoff_status (ho_status h) \<or> ho_status h = HS_verified \<or>
      set (scoped_objectives hid rows) = {} \<or> \<not> (\<forall>v \<in> set (scoped_objectives hid rows). objective_satisfied v)"
    unfolding rows(2) using assms(2) [OF Some] by blast
  then show ?thesis
    using assms(1) Some rows(1)
    by (auto simp: maybe_verify_handoff_def bindM_app get_handoff_app Let_def list_all_iff
        terminal_handoff_status_def split: if_splits)
qed

text \<open>A handoff with one satisfied objective.\<close>

definition passed_objective :: verification_objective where
  "passed_objective = blank_objective\<lparr>vo_objective_id := ''v1'', vo_case_id := ''case_1'',
     vo_handoff_id := ''h1'', vo_required := True, vo_required_status := VS_pass, vo_status := VS_pass,
     vo_required_consecutive_passes := 1, vo_consecutive_pass_count := 1\<rparr>"

definition passed_store :: "handoff_status \<Rightarrow> store" where
  "passed_store w = demo_store\<lparr>st_handoffs := [(''h1'', demo_handoff\<lparr>ho_status := w\<rparr>)],
     st_objectives := [(''v1'', passed_objective)]\<rparr>"

lemma passed_store_ok: "store_ok (passed_store w)"
  by (simp add: store_ok_def tables_ok_def indices_ok_def log_ok_def logged_def empty_store_def
      passed_store_def demo_store_def keyed_def proj_case_id_def sample_case_def demo_handoff_def
      passed_objective_def)

lemma passed_required:
  "required_objectives (passed_store w) (demo_handoff\<lparr>ho_status := w'\<rparr>) = {passed_objective}"
  by (auto simp: required_objectives_def passed_store_def passed_objective_def demo_handoff_def)

lemma passed_satisfied: "objective_satisfied passed_objective"
  by (simp add: objective_satisfied_def passed_objective_def)

definition verify_settings :: verifier_settings where
  "verify_settings = \<lparr>vs_verification_enabled = True, vs_dry_run = False, vs_auto_resolve = False,
     vs_interval_s = 60, vs_required_consecutive_passes = 1, vs_knowledge_context = False\<rparr>"

text \<open>
  C21: The verifier moves a handoff on evidence only: when its decision about a handoff changes the
  handoffs or anything else, the handoff had not ended and was not verified, it has required objectives, and each
  of them has its required status after the passes in a row it requires.
\<close>

theorem verified_on_evidence_only:
  assumes "store_ok s" and "maybe_verify_handoff sv cfg hid s = (r, t)" and "t \<noteq> s"
  shows "\<exists>h. dict_get (st_handoffs s) hid = Some h \<and> \<not> terminal_handoff_status (ho_status h) \<and>
    ho_status h \<noteq> HS_verified \<and> required_objectives s h \<noteq> {} \<and>
    Ball (required_objectives s h) (\<lambda>v. vo_status v = vo_required_status v \<and>
      vo_required_consecutive_passes v \<le> vo_consecutive_pass_count v)"
proof (rule ccontr)
  assume no: "\<not> ?thesis"
  have "h\<lparr>ho_handoff_id := hid\<rparr> = h" if "dict_get (st_handoffs s) hid = Some h" for h
    using handoff_key_id [OF assms(1) that] by (cases h) simp
  then show False
    using no assms(3) maybe_verify_still [OF assms(2)] unfolding objective_satisfied_def by metis
qed

lemma mark_verified_writes:
  assumes "dict_get (st_handoffs s) hid = Some h" and "allowed_handoff_transition (ho_status h) HS_verified Loop_noc"
  shows "st_handoffs (snd (mark_handoff_verified hid now eo s)) =
    dict_set (ho_handoff_id h) (moved h HS_verified now) (st_handoffs s)"
proof -
  obtain u where "move_handoff h (moved h HS_verified now) s = (Inr (), u)"
    "st_handoffs u = dict_set (ho_handoff_id h) (moved h HS_verified now) (st_handoffs s)"
    using move_handoff_run by blast
  with assms ledger_untouchedD [OF ledger_tails(3), of "moved h HS_verified now" now eo u] show ?thesis
    by (simp add: mark_handoff_verified_def bindM_app require_handoff_app require_transition_app
        seqM_app moved_def Let_def)
qed

lemma mark_lhp_run:
  assumes "dict_get (st_handoffs s) hid = Some h"
  obtains now e u where "mark_lhp_handoff_verified sv hid s = mark_handoff_verified hid now (Some e) u"
    and "same_but_events s u" and "store_ok s \<Longrightarrow> store_ok u"
proof -
  let ?now = "isoformat (clock s (ticks s))"
  let ?fill = "\<lambda>e. e\<lparr>
         ev_case_id := Some (ho_case_id h), ev_event_type := ''lhp_handoff_verified'',
         ev_policy_version := policy_version sv, ev_payload := [(''handoff_id'', JStr hid)]\<rparr>"
  let ?s = "s\<lparr>ticks := Suc (ticks s)\<rparr>"
  obtain e u where u: "new_event None (Some ?now) ?fill ?s = (Inr e, u)" "same_but_events ?s u"
    using new_event_run by blast
  have run: "mark_lhp_handoff_verified sv hid s = mark_handoff_verified hid ?now (Some e) u"
    using assms u(1) by (simp add: mark_lhp_handoff_verified_def bindM_app require_handoff_app utc_now_app)
  have same: "same_but_events s u"
    using u(2) same_but_events_draws(2) same_but_events_trans by blast
  have "keeps store_ok (seqM utc_now (new_event None (Some ?now) ?fill))" by (intro keeps_intros)
  then have "store_ok s \<Longrightarrow> store_ok u" using u(1) keepsD by (fastforce simp: seqM_app utc_now_app)
  then show thesis by (rule that [OF run same])
qed

lemma passed_verified:
  "\<exists>x. dict_get (st_handoffs (snd (maybe_verify_handoff quiet verify_settings ''h1'' (passed_store HS_implemented)))) ''h1''
    = Some x \<and> ho_status x = HS_verified"
proof -
  let ?s = "passed_store HS_implemented" and ?h = "demo_handoff\<lparr>ho_status := HS_implemented\<rparr>"
  have h: "dict_get (st_handoffs ?s) ''h1'' = Some ?h" "ho_handoff_id ?h = ''h1''"
    by (simp_all add: passed_store_def demo_handoff_def)
  obtain rows where rows: "list_verification_objectives (Some (ho_case_id ?h)) None False ?s = (Inr rows, ?s)"
    "set (scoped_objectives ''h1'' rows) = {passed_objective}"
    using scoped_rows [of ?h ?s "''h1''"] passed_required [of HS_implemented HS_implemented] h(2)
    by (metis (no_types, lifting) case_handoff.surjective case_handoff.update_convs(1))
  have scoped: "scoped_objectives ''h1'' rows \<noteq> []" "list_all objective_satisfied (scoped_objectives ''h1'' rows)"
    using rows(2) passed_satisfied by (auto simp: list_all_iff)
  obtain now e u where u: "mark_lhp_handoff_verified quiet ''h1'' ?s = mark_handoff_verified ''h1'' now (Some e) u"
    "same_but_events ?s u" by (rule mark_lhp_run [OF h(1)])
  have "dict_get (st_handoffs (snd (mark_lhp_handoff_verified quiet ''h1'' ?s))) ''h1'' = Some (moved ?h HS_verified now)"
    using mark_verified_writes [of u "''h1''" ?h now "Some e"] same_but_eventsD(6) [OF u(2)] h u(1)
    by (simp add: allowed_handoff_transition_def verifier_only_status_def)
  moreover have "snd (maybe_verify_handoff quiet verify_settings ''h1'' ?s) =
      snd (mark_lhp_handoff_verified quiet ''h1'' ?s)"
    using h(1) rows(1) scoped
    by (auto simp: maybe_verify_handoff_def bindM_app get_handoff_app Let_def verify_settings_def
        split: sum.splits prod.splits)
  ultimately show ?thesis by (simp add: moved_def)
qed

theorem verified_on_evidence_only_witness:
  "objective_satisfied passed_objective \<and> required_objectives (passed_store HS_implemented)
     (demo_handoff\<lparr>ho_status := HS_implemented\<rparr>) \<noteq> {}"
proof -
  let ?s = "passed_store HS_implemented"
  obtain r t where rt: "maybe_verify_handoff quiet verify_settings ''h1'' ?s = (r, t)" by force
  have h: "dict_get (st_handoffs ?s) ''h1'' = Some (demo_handoff\<lparr>ho_status := HS_implemented\<rparr>)"
    by (simp add: passed_store_def)
  have "t \<noteq> ?s" using passed_verified rt h by fastforce
  from verified_on_evidence_only [OF passed_store_ok rt this] h passed_satisfied show ?thesis by auto
qed

subsection \<open>What the verifier never comes back to\<close>

definition others_kept :: "string \<Rightarrow> store \<Rightarrow> store \<Rightarrow> bool" where
  "others_kept hid s t \<longleftrightarrow> (\<forall>k. k \<noteq> hid \<longrightarrow> dict_get (st_handoffs t) k = dict_get (st_handoffs s) k)"

lemma others_kept_same [simp]: "st_handoffs t = st_handoffs s \<Longrightarrow> others_kept hid s t"
  by (simp add: others_kept_def)

lemma move_then_rest:
  assumes "store_ok s" and "dict_get (st_handoffs s) hid = Some h" and "\<And>H K. keeps (ledger_is H K) rest"
  shows "others_kept hid s (snd (seqM (move_handoff h (moved h w x)) rest s))"
proof -
  obtain u where u: "move_handoff h (moved h w x) s = (Inr (), u)"
    "st_handoffs u = dict_set (ho_handoff_id h) (moved h w x) (st_handoffs s)"
    using move_handoff_run by blast
  have "seqM (move_handoff h (moved h w x)) rest s = rest u" using u(1) by (simp add: seqM_app)
  then show ?thesis
    using ledger_untouchedD [OF assms(3), of u] u(2) handoff_key_id [OF assms(1,2)]
    by (simp add: others_kept_def)
qed

lemma mark_verified_others:
  assumes "store_ok s" and "mark_handoff_verified hid now eo s = (r, t)"
  shows "others_kept hid s t"
proof (cases "dict_get (st_handoffs s) hid")
  case None
  with assms(2) show ?thesis by (simp add: mark_handoff_verified_def bindM_app require_handoff_app)
next
  case (Some h)
  with assms(2) move_then_rest [OF assms(1) Some ledger_tails(3), of HS_verified now "moved h HS_verified now" now eo]
  show ?thesis
    by (auto simp: mark_handoff_verified_def bindM_app require_handoff_app require_transition_app
        seqM_app moved_def Let_def split: if_splits)
qed

lemma mark_verified_id:
  "mark_handoff_verified hid now eo s = (Inr h', t) \<Longrightarrow>
    \<exists>h. dict_get (st_handoffs s) hid = Some h \<and> ho_handoff_id h' = ho_handoff_id h"
  by (auto simp: mark_handoff_verified_def bindM_app require_handoff_app require_transition_app
      seqM_app Let_def finish_verified_def move_handoff_def drop_active_handoff_def put_handoff_def
      split: option.splits if_splits prod.splits sum.splits)

lemma resolution_others:
  assumes "store_ok s" and "hid \<noteq> []" and "resolve_case_with_outcome cid hid oc now eo s = (r, t)"
  shows "others_kept hid s t"
proof (cases "dict_get (st_handoffs s) hid")
  case None
  with assms(2,3) show ?thesis
    by (auto simp: resolve_case_with_outcome_def bindM_app require_case_app seqM_app resolve_handoff_def
        require_handoff_app split: option.splits if_splits)
next
  case (Some h)
  obtain u where u: "move_handoff h (moved h HS_resolved now) s = (Inr (), u)"
    "st_handoffs u = dict_set (ho_handoff_id h) (moved h HS_resolved now) (st_handoffs s)"
    using move_handoff_run by blast
  have "others_kept hid s u" using u(2) handoff_key_id [OF assms(1) Some] by (simp add: others_kept_def)
  then have "others_kept hid s w" if "finish_resolution c oc now eo u = (q, w)" for c q w
    using ledger_untouchedD [OF ledger_tails(4), of c oc now eo u] that by (simp add: others_kept_def)
  with assms(2,3) Some u(1) show ?thesis
    by (auto simp: resolve_case_with_outcome_def bindM_app require_case_app seqM_app resolve_handoff_def
        require_handoff_app require_transition_app moved_def
        split: option.splits if_splits)
qed

text \<open>A consistent store in which the handoff \<open>hid\<close> is as it was.\<close>

definition handoff_stays :: "string \<Rightarrow> case_handoff option \<Rightarrow> store \<Rightarrow> bool" where
  "handoff_stays hid X s \<longleftrightarrow> store_ok s \<and> dict_get (st_handoffs s) hid = X"

lemma stays_quiet:
  assumes "keeps store_ok m" and "\<And>H K. keeps (ledger_is H K) m"
  shows "keeps (handoff_stays hid X) m"
  using keepsD [OF assms(1)] ledger_untouchedD [OF assms(2)] by (auto simp: keeps_def handoff_stays_def)

lemma stays_draws [keeps_intros]: "keeps (handoff_stays hid X) utc_now"
  "keeps (handoff_stays hid X) dt_now" "keeps (handoff_stays hid X) (new_event i' t f)"
  "keeps (handoff_stays hid X) (append_event e)" "keeps (handoff_stays hid X) (enqueue_outbox i)"
  "keeps (handoff_stays hid X) (new_intent a b c g ty)" "keeps (handoff_stays hid X) (new_outcome fs oc)"
  "keeps (handoff_stays hid X) (update_verification_objective_result v eo)"
  by (rule stays_quiet; (intro keeps_intros consistent.k_new_intent consistent.k_new_outcome)?;
      (unfold new_intent_def new_outcome_def draw_field_def)?; intro keeps_intros)+

lemma keeps_bind_result:
  assumes "\<And>s. P s \<Longrightarrow> P (snd (m s)) \<and> (\<forall>x. fst (m s) = Inr x \<longrightarrow> Q x)" and "\<And>x. Q x \<Longrightarrow> keeps P (f x)"
  shows "keeps P (bindM m f)"
proof (rule keepsI)
  fix s assume P: "P s"
  obtain r t where m: "m s = (r, t)" by force
  with assms(1) [OF P] assms(2) show "P (snd (bindM m f s))"
    by (cases r) (auto simp: bindM_app keeps_def)
qed

lemma stays_mark:
  assumes "hid' \<noteq> hid" and "handoff_stays hid X s"
  shows "handoff_stays hid X (snd (mark_lhp_handoff_verified sv hid' s)) \<and>
    (\<forall>h. fst (mark_lhp_handoff_verified sv hid' s) = Inr h \<longrightarrow> ho_handoff_id h = hid')"
proof (cases "dict_get (st_handoffs s) hid'")
  case None
  with assms show ?thesis by (simp add: mark_lhp_handoff_verified_def bindM_app require_handoff_app)
next
  case (Some h)
  obtain now e u where u: "mark_lhp_handoff_verified sv hid' s = mark_handoff_verified hid' now (Some e) u"
    "same_but_events s u" "store_ok u" by (rule mark_lhp_run [OF Some]) (use assms(2) in \<open>simp add: handoff_stays_def\<close>)
  obtain r t where r: "mark_handoff_verified hid' now (Some e) u = (r, t)" by force
  have "store_ok t" using keepsD_eq [OF ok_mark_handoff_verified u(3) r] .
  moreover have "dict_get (st_handoffs t) hid = X"
    using mark_verified_others [OF u(3) r] assms same_but_eventsD(6) [OF u(2)]
    by (simp add: others_kept_def handoff_stays_def)
  moreover have "ho_handoff_id h' = hid'" if "r = Inr h'" for h'
    using mark_verified_id [of hid' now "Some e" u h' t] r that handoff_key_id [OF u(3)] by auto
  ultimately show ?thesis using u(1) r by (simp add: handoff_stays_def)
qed

lemma stays_resolution [keeps_intros]:
  assumes "hid' \<noteq> hid" and "hid' \<noteq> []"
  shows "keeps (handoff_stays hid X) (resolve_case_with_outcome cid hid' oc now eo)"
proof (rule keepsI)
  fix s assume s: "handoff_stays hid X s"
  obtain r t where r: "resolve_case_with_outcome cid hid' oc now eo s = (r, t)" by force
  have "store_ok s" using s by (simp add: handoff_stays_def)
  from keepsD_eq [OF ok_resolve_case_with_outcome this r] resolution_others [OF this assms(2) r] assms(1) s r
  show "handoff_stays hid X (snd (resolve_case_with_outcome cid hid' oc now eo s))"
    by (simp add: handoff_stays_def others_kept_def)
qed

lemma stays_require [keeps_intros]: "keeps (handoff_stays hid X) (require_atomic_case_locked c)"
  unfolding require_atomic_case_locked_def by (intro keeps_intros)

lemma stays_resolve_verified:
  assumes "ho_handoff_id h \<noteq> hid" and "ho_handoff_id h \<noteq> []"
  shows "keeps (handoff_stays hid X) (resolve_verified sv cfg h scoped)"
  unfolding resolve_verified_def verifier_outcome_def resolve_lhp_case_with_outcome_def
    request_lhp_knowledge_artifact_proposal_def emit_def
  using assms by (intro keeps_intros)

lemma stays_maybe_verify:
  assumes "hid' \<noteq> hid" and "hid' \<noteq> []"
  shows "keeps (handoff_stays hid X) (maybe_verify_handoff sv cfg hid')"
proof -
  have mark: "keeps (handoff_stays hid X) (bindM (mark_lhp_handoff_verified sv hid') (\<lambda>verified.
      if \<not> vs_auto_resolve cfg then retM (True, False) else resolve_verified sv cfg verified scoped))" for scoped
    by (rule keeps_bind_result [where Q = "\<lambda>h. ho_handoff_id h = hid'"])
      (use assms stays_mark [OF assms(1)] in \<open>auto intro!: keeps_intros stays_resolve_verified\<close>)
  show ?thesis
    unfolding maybe_verify_handoff_def get_handoff_def list_verification_objectives_def Let_def
    by (rule keeps_bind, rule keeps_get, rule keeps_case_option, rule keeps_ret, rule keeps_if,
        rule keeps_ret, rule keeps_bind, rule keeps_get, rule keeps_if, rule keeps_ret, rule mark)
qed

lemma stays_verify_touched:
  "hid \<notin> set hids \<Longrightarrow> [] \<notin> set hids \<Longrightarrow> keeps (handoff_stays hid X) (foldM (verify_touched sv cfg) hids r)"
proof (induction hids arbitrary: r)
  case Nil
  then show ?case by (simp add: keeps_ret)
next
  case (Cons k hids)
  then have "keeps (handoff_stays hid X) (verify_touched sv cfg k r)" for r
    unfolding verify_touched_def by (auto intro!: keeps_intros stays_maybe_verify)
  with Cons show ?case by (auto intro: keeps_bind)
qed

text \<open>The handoffs a run touches are those of the objectives it found due.\<close>

lemma check_due_touched:
  assumes "check_due_objective sv cfg cl checker now v acc s = (Inr acc', t)"
  shows "set (snd acc') \<subseteq> set (snd acc) \<union> ({vo_handoff_id v} - {[]})"
proof -
  from assms obtain r u where
    "bindM (apply_check_result v r now (vs_interval_s cfg)) (\<lambda>updated.
       let counted = count_check (ck_status r) (fst acc) in
       if vs_dry_run cfg then retM (counted, snd acc)
       else seqM (record_lhp_verification_result sv updated [])
         (retM (counted\<lparr>rr_updated := rr_updated counted + 1\<rparr>,
            if vo_handoff_id updated = [] then snd acc else add_new (vo_handoff_id updated) (snd acc)))) u
     = (Inr acc', t)"
    unfolding check_due_objective_def by (rule bindM_success) blast
  then obtain w y where "apply_check_result v r now (vs_interval_s cfg) u = (Inr w, y)"
    "snd acc' = snd acc \<or> (vo_handoff_id w \<noteq> [] \<and> snd acc' = add_new (vo_handoff_id w) (snd acc))"
    by (rule bindM_success) (auto simp: Let_def seqM_app split: if_splits prod.splits sum.splits)
  moreover from this(1) have "vo_handoff_id w = vo_handoff_id v"
    unfolding apply_check_result_def by (elim bindM_success) auto
  ultimately show ?thesis by auto
qed

lemma checks_touched:
  "foldM (check_due_objective sv cfg cl checker now) vs acc s = (Inr acc', t) \<Longrightarrow>
    set (snd acc') \<subseteq> set (snd acc) \<union> (vo_handoff_id ` set vs - {[]})"
proof (induction vs arbitrary: acc s)
  case Nil
  then show ?case by simp
next
  case (Cons v vs)
  from Cons.prems obtain a u where "check_due_objective sv cfg cl checker now v acc s = (Inr a, u)"
    "foldM (check_due_objective sv cfg cl checker now) vs a u = (Inr acc', t)"
    by (auto simp: bindM_app split: prod.splits sum.splits)
  from check_due_touched [OF this(1)] Cons.IH [OF this(2)] show ?case by auto
qed

lemma stays_check_due:
  assumes "\<And>v c. reads_only (checker v c)"
  shows "keeps (handoff_stays hid X) (foldM (check_due_objective sv cfg cl checker now) vs acc)"
proof -
  have [keeps_intros]: "keeps (handoff_stays hid X) (checker v c)" for v c
    by (rule reads_only_keeps) (rule assms)
  show ?thesis
    unfolding check_due_objective_def run_check_def get_case_def apply_check_result_def next_check_at_def
      record_lhp_verification_result_def Let_def
    by (intro keeps_intros)
qed

lemma set_rows: "set (slice_to m (py_sort b f (filter p xs))) \<subseteq> {v \<in> set xs. p v}"
  using set_slice_to [of m "py_sort b f (filter p xs)"] by auto

lemma due_objectives:
  assumes "list_due_verification_objectives now n s = (r, t)"
  obtains vs where "r = Inr vs" and "t = s"
    and "set vs \<subseteq> {v \<in> set (dict_values (st_objectives s)). vo_status v \<notin> {VS_pass, VS_skipped}}"
proof -
  define vs where "vs = slice_to (bounded_limit n)
     (py_sort False (\<lambda>v. (vo_next_check_at v, vo_created_at v, vo_objective_id v))
       (filter (objective_due s now) (dict_values (st_objectives s))))"
  have "list_due_verification_objectives now n s = (Inr vs, s)"
    unfolding list_due_verification_objectives_def getM_app vs_def by (rule refl)
  with assms have "r = Inr vs" "t = s" by simp_all
  moreover have "set vs \<subseteq> {v \<in> set (dict_values (st_objectives s)). objective_due s now v}"
    unfolding vs_def by (rule set_rows)
  then have "set vs \<subseteq> {v \<in> set (dict_values (st_objectives s)). vo_status v \<notin> {VS_pass, VS_skipped}}"
    by (rule subset_trans) (simp add: objective_due_def Collect_mono_iff)
  ultimately show thesis by (rule that)
qed

lemma chosen_time:
  assumes "handoff_stays hid X s"
  obtains nw u where "(if opt_truthy now then retM (the now) else utc_now) s = (Inr nw, u)"
    and "handoff_stays hid X u" and "st_objectives u = st_objectives s"
proof (cases "opt_truthy now")
  case True
  with assms that [of "the now" s] show thesis by simp
next
  case False
  with keepsD [OF stays_draws(1) assms] that [of "isoformat (clock s (ticks s))" "s\<lparr>ticks := Suc (ticks s)\<rparr>"]
  show thesis by (simp add: utc_now_app)
qed

lemma due_lhp_objectives:
  assumes "list_due_lhp_verification_objectives now n s = (r, t)" and "handoff_stays hid X s"
  obtains vs where "r = Inr vs" and "handoff_stays hid X t"
    and "set vs \<subseteq> {v \<in> set (dict_values (st_objectives s)). vo_status v \<notin> {VS_pass, VS_skipped}}"
proof -
  obtain nw u where u: "(if opt_truthy now then retM (the now) else utc_now) s = (Inr nw, u)"
    "handoff_stays hid X u" "st_objectives u = st_objectives s"
    by (rule chosen_time [OF assms(2)])
  have "list_due_verification_objectives nw n u = (r, t)"
    using assms(1) u(1) by (simp add: list_due_lhp_verification_objectives_def bindM_app)
  then show thesis
    by (rule due_objectives) (rule that, simp_all only: u(2,3))
qed

text \<open>The objectives of a handoff, required or not, have all passed or are skipped.\<close>

definition settled :: "string \<Rightarrow> store \<Rightarrow> bool" where
  "settled hid s \<longleftrightarrow> Ball (set (dict_values (st_objectives s)))
     (\<lambda>v. vo_handoff_id v \<noteq> hid \<or> vo_status v \<in> {VS_pass, VS_skipped})"

lemma settled_frame: "(\<And>s. st_objectives (snd (m s)) = st_objectives s) \<Longrightarrow> keeps (settled hid) m"
  by (simp add: keeps_def settled_def)

lemma settled_writes [keeps_intros]:
  "keeps (settled hid) uuid4_hex" "keeps (settled hid) dt_now" "keeps (settled hid) (put_case c)"
  "keeps (settled hid) (put_intent i)" "keeps (settled hid) (put_handoff h)"
  "keeps (settled hid) (drop_active_handoff h)" "keeps (settled hid) (modM (write_event e))"
  "keeps (settled hid) (modM (\<lambda>s. s\<lparr>st_outcomes := f s\<rparr>))"
  by (auto intro!: settled_frame simp: uuid4_hex_def dt_now_def put_case_def put_intent_def put_handoff_def
      drop_active_handoff_def write_event_def Let_def)

lemma dict_set_entry: "e \<in> set (dict_set k v d) \<Longrightarrow> e = (k, v) \<or> e \<in> set d"
  by (induction d) (auto split: if_splits)

lemma settled_put_objective: "vo_handoff_id v \<noteq> hid \<Longrightarrow> keeps (settled hid) (put_objective v)"
  unfolding put_objective_def by (rule modM_keeps) (auto simp: settled_def dest!: dict_set_entry)

lemma settled_events [keeps_intros]: "keeps (settled hid) (store_event_locked e)" "keeps (settled hid) (store_event_opt eo)"
  "keeps (settled hid) (new_event i' t f)" "keeps (settled hid) (append_event e)" "keeps (settled hid) utc_now"
  unfolding store_event_opt_def store_event_locked_def new_event_def append_event_def given_or_def new_id_def utc_now_def
  by (intro keeps_intros)+

lemma settled_verifying [keeps_intros]: "keeps (settled hid) (mark_lhp_handoff_verified sv hid')"
  unfolding mark_lhp_handoff_verified_def mark_handoff_verified_def require_handoff_locked_def
    require_handoff_transition_def move_handoff_def finish_verified_def require_atomic_case_locked_def
    put_atomic_def Let_def
  by (intro keeps_intros)

lemma settled_resolving [keeps_intros]: "keeps (settled hid) (resolve_verified sv cfg h scoped)"
  unfolding resolve_verified_def verifier_outcome_def new_outcome_def draw_field_def new_id_def
    resolve_lhp_case_with_outcome_def resolve_case_with_outcome_def resolve_handoff_def finish_resolution_def
    require_handoff_locked_def require_handoff_transition_def move_handoff_def require_atomic_case_locked_def
    request_lhp_knowledge_artifact_proposal_def emit_def new_intent_def enqueue_outbox_def item_of_def put_atomic_def Let_def
  by (intro keeps_intros)

lemma settled_touched: "keeps (settled hid) (foldM (verify_touched sv cfg) hids r)"
  unfolding verify_touched_def maybe_verify_handoff_def get_handoff_def list_verification_objectives_def Let_def
  by (intro keeps_intros)

lemma checked_handoff: "apply_check_result v r now k s = (Inr w, t) \<Longrightarrow> vo_handoff_id w = vo_handoff_id v"
  unfolding apply_check_result_def by (elim bindM_success) auto

lemma checked_handoff_fst:
  "fst (apply_check_result v r now k s) = Inr w \<Longrightarrow> vo_handoff_id w = vo_handoff_id v"
  by (metis checked_handoff prod.collapse)

lemma settled_check:
  assumes "\<And>v c. reads_only (checker v c)" and "vo_handoff_id v \<noteq> hid"
  shows "keeps (settled hid) (check_due_objective sv cfg cl checker now v acc)"
proof -
  have [keeps_intros]: "keeps (settled hid) (checker v c)" for v c
    by (rule reads_only_keeps) (rule assms(1))
  have checked: "keeps (settled hid) (apply_check_result v r now k)" for r k
    unfolding apply_check_result_def next_check_at_def given_or_def by (intro keeps_intros)
  have result: "keeps (settled hid) (record_lhp_verification_result sv w [])" if "vo_handoff_id w \<noteq> hid" for w
    unfolding record_lhp_verification_result_def update_verification_objective_result_def
    using that by (intro keeps_intros settled_put_objective)
  have afterwards: "keeps (settled hid) (bindM (apply_check_result v r now k) g)"
    if "\<And>w. vo_handoff_id w \<noteq> hid \<Longrightarrow> keeps (settled hid) (g w)" for r k and g :: "verification_objective \<Rightarrow> 'b st"
    by (rule keeps_bind_result [where Q = "\<lambda>w. vo_handoff_id w \<noteq> hid"])
      (use that assms(2) keepsD [OF checked] in \<open>auto dest: checked_handoff_fst\<close>)
  show ?thesis
    unfolding check_due_objective_def run_check_def get_case_def Let_def
    by (intro keeps_bind keeps_get keeps_catch keeps_ret afterwards keeps_if keeps_seq result) (auto intro: keeps_intros)
qed

lemma settled_checks:
  assumes "\<And>v c. reads_only (checker v c)" and "\<And>v. v \<in> set vs \<Longrightarrow> vo_handoff_id v \<noteq> hid"
  shows "keeps (settled hid) (foldM (check_due_objective sv cfg cl checker now) vs acc)"
  using assms(2)
proof (induction vs arbitrary: acc)
  case Nil
  then show ?case by (simp add: keeps_ret)
next
  case (Cons v vs)
  then show ?case by (auto intro!: keeps_bind settled_check [OF assms(1)])
qed

text \<open>A run leaves a handoff alone whose objectives have all passed or are skipped, and they stay so.\<close>

lemma run_once_leaves:
  assumes "store_ok s" and "\<And>v c. reads_only (checker v c)" and "hid \<noteq> []" and "settled hid s"
  shows "handoff_stays hid (dict_get (st_handoffs s) hid) (snd (run_once sv cfg cl checker now n s)) \<and>
    settled hid (snd (run_once sv cfg cl checker now n s))"
proof (cases "vs_verification_enabled cfg")
  case False
  then show ?thesis using assms(1,4) by (simp add: run_once_def handoff_stays_def)
next
  case True
  let ?P = "handoff_stays hid (dict_get (st_handoffs s) hid)"
  have s: "?P s" using assms(1) by (simp add: handoff_stays_def)
  obtain nw u where u: "(if opt_truthy now then retM (the now) else utc_now) s = (Inr nw, u)"
    "?P u" "st_objectives u = st_objectives s"
    by (rule chosen_time [OF s])
  obtain q w where q: "list_due_lhp_verification_objectives (Some nw) n u = (q, w)" by force
  obtain vs where vs: "q = Inr vs" "?P w"
    "set vs \<subseteq> {v \<in> set (dict_values (st_objectives u)). vo_status v \<notin> {VS_pass, VS_skipped}}"
    by (rule due_lhp_objectives [OF q u(2)])
  have due: "vo_handoff_id v \<noteq> hid" if "v \<in> set vs" for v
  proof -
    have "v \<in> set (dict_values (st_objectives s))" "vo_status v \<notin> {VS_pass, VS_skipped}"
      using that vs(3) by (auto simp only: u(3) mem_Collect_eq subset_eq)
    then show ?thesis using assms(4) unfolding settled_def by blast
  qed
  have w: "settled hid w"
  proof -
    have list: "keeps (settled hid) (list_due_lhp_verification_objectives (Some nw) n)"
      unfolding list_due_lhp_verification_objectives_def list_due_verification_objectives_def by (intro keeps_intros)
    have "settled hid u" using assms(4) u(3) by (simp add: settled_def)
    from keepsD_eq [OF list this q] show ?thesis .
  qed
  obtain x y where x: "foldM (check_due_objective sv cfg cl checker nw) vs (blank_run (vs_dry_run cfg), []) w
      = (x, y)" by force
  have y: "?P y" using keepsD_eq [OF stays_check_due [OF assms(2)] vs(2) x] .
  have sy: "settled hid y" using keepsD_eq [OF settled_checks [OF assms(2) due] w x] .
  have "hid \<notin> set (snd a) \<and> [] \<notin> set (snd a)" if "x = Inr a" for a
    using checks_touched [OF x [unfolded that]] due by fastforce
  then show ?thesis
    using True u(1) q vs(1) x y sy keepsD [OF stays_verify_touched y] keepsD [OF settled_touched sy]
    by (cases x) (auto simp: run_once_def bindM_app)
qed

text \<open>
  What comes after a store: further runs, with whatever settings, time, limit and checker that only reads, and, between
  them, any other change that keeps the store consistent and the objectives of the handoff passed or skipped.
\<close>

inductive later_store :: "string \<Rightarrow> store \<Rightarrow> store \<Rightarrow> bool" for hid s where
  later_start: "later_store hid s s"
| later_run: "later_store hid s t \<Longrightarrow> (\<And>v c. reads_only (checker v c)) \<Longrightarrow>
    later_store hid s (snd (run_once sv cfg classify checker now n t))"
| later_change: "later_store hid s t \<Longrightarrow> store_ok u \<Longrightarrow> settled hid u \<Longrightarrow> later_store hid s u"

lemma later_settled:
  assumes "later_store hid s t" and "store_ok s" and "settled hid s" and "hid \<noteq> []"
  shows "store_ok t \<and> settled hid t"
  using assms(1)
proof induction
  case (later_run t checker sv cfg classify now n)
  then show ?case using run_once_leaves [of t checker hid] assms(4) by (simp add: handoff_stays_def)
qed (use assms in auto)

text \<open>
  C37: The verifier strands a handoff whose objectives pass too early: while the table does not lead from the
  status of the handoff to verified, as before it is implemented, the decision of the verifier raises although every
  required objective is satisfied. When moreover all objectives of the handoff, the required and the others, have passed or
  are skipped, none is ever due again, and no later run changes the handoff: not the next one and none after it, with
  whatever settings, time, limit and checker that only reads the store, and whatever else happens to the store between
  the runs, the handoff being implemented included, as long as its objectives stay passed or skipped.
\<close>

theorem early_pass_strands_handoff:
  assumes "store_ok s" and "dict_get (st_handoffs s) hid = Some h" and "hid \<noteq> []"
    and "\<not> allowed_handoff_transition (ho_status h) HS_verified Loop_noc"
    and "\<not> terminal_handoff_status (ho_status h)" and "required_objectives s h \<noteq> {}"
    and "Ball (required_objectives s h) objective_satisfied" and "settled hid s"
    and "\<And>v c. reads_only (checker v c)" and "later_store hid s u"
  shows "(\<exists>m. fst (maybe_verify_handoff sv cfg hid s) = Inl (ValueError m)) \<and>
    dict_get (st_handoffs (snd (run_once sv cfg' classify checker now n u))) hid = dict_get (st_handoffs u) hid"
proof
  have h: "h\<lparr>ho_handoff_id := hid\<rparr> = h" using handoff_key_id [OF assms(1,2)] by (cases h) simp
  obtain rows where rows: "list_verification_objectives (Some (ho_case_id h)) None False s = (Inr rows, s)"
    "set (scoped_objectives hid rows) = required_objectives s h"
    using scoped_rows [of h s hid] unfolding h by blast
  have scoped: "scoped_objectives hid rows \<noteq> []" "list_all objective_satisfied (scoped_objectives hid rows)"
    using assms(6,7) rows(2) by (auto simp: list_all_iff)
  have verified: "ho_status h \<noteq> HS_verified"
    using assms(4) by (auto simp: allowed_handoff_transition_def verifier_only_status_def)
  obtain now' e u where u: "mark_lhp_handoff_verified sv hid s = mark_handoff_verified hid now' (Some e) u"
    "same_but_events s u" by (rule mark_lhp_run [OF assms(2)])
  have "dict_get (st_handoffs u) hid = Some h" using assms(2) same_but_eventsD(6) [OF u(2)] by simp
  then have "\<exists>m. mark_lhp_handoff_verified sv hid s = (Inl (ValueError m), u)"
    using assms(4) u(1)
    by (simp add: mark_handoff_verified_def bindM_app seqM_app require_handoff_app require_transition_app)
  then show "\<exists>m. fst (maybe_verify_handoff sv cfg hid s) = Inl (ValueError m)"
    using assms(2,5) rows(1) scoped verified
    by (auto simp: maybe_verify_handoff_def bindM_app get_handoff_app Let_def terminal_handoff_status_def)
next
  have "store_ok u \<and> settled hid u" by (rule later_settled [OF assms(10,1,8,3)])
  with run_once_leaves [of u checker hid] assms(3,9)
  show "dict_get (st_handoffs (snd (run_once sv cfg' classify checker now n u))) hid = dict_get (st_handoffs u) hid"
    by (simp add: handoff_stays_def)
qed

theorem early_pass_strands_handoff_witness:
  "(\<exists>m. fst (maybe_verify_handoff quiet verify_settings ''h1'' (passed_store HS_accepted)) = Inl (ValueError m)) \<and>
    dict_get (st_handoffs (snd (run_once quiet verify_settings (\<lambda>_. []) default_verification_check None 100
      (passed_store HS_implemented)))) ''h1'' = Some (demo_handoff\<lparr>ho_status := HS_implemented\<rparr>)"
proof -
  let ?s = "passed_store HS_accepted" and ?h = "demo_handoff\<lparr>ho_status := HS_accepted\<rparr>"
  have s: "settled ''h1'' (passed_store st)" for st by (simp add: settled_def passed_store_def passed_objective_def)
  have "dict_get (st_handoffs ?s) ''h1'' = Some ?h" "\<not> terminal_handoff_status (ho_status ?h)"
    "\<not> allowed_handoff_transition (ho_status ?h) HS_verified Loop_noc"
    by (simp_all add: passed_store_def terminal_handoff_status_def allowed_handoff_transition_def
        verifier_only_status_def passed_objective_def)
  moreover have "required_objectives ?s ?h \<noteq> {}" "Ball (required_objectives ?s ?h) objective_satisfied"
    using passed_required [of HS_accepted HS_accepted] passed_satisfied by simp_all
  moreover have "reads_only (default_verification_check v c)" for v c
    by (auto simp: reads_only_def default_verification_check_def bindM_app split: option.split sum.split)
  moreover have "later_store ''h1'' ?s (passed_store HS_implemented)"
    by (rule later_change [OF later_start passed_store_ok s])
  ultimately have "(\<exists>m. fst (maybe_verify_handoff quiet verify_settings ''h1'' ?s) = Inl (ValueError m)) \<and>
      dict_get (st_handoffs (snd (run_once quiet verify_settings (\<lambda>_. []) default_verification_check None 100
        (passed_store HS_implemented)))) ''h1'' = dict_get (st_handoffs (passed_store HS_implemented)) ''h1''"
    by (intro early_pass_strands_handoff [OF passed_store_ok]) (simp_all add: s)
  then show ?thesis by (simp add: passed_store_def)
qed

end
