(* ===== verification/Notifications.thy ===== *)
theory Notifications
  imports Models
begin

section \<open>Monitoring notifications (app/cases/notifications.py)\<close>

text \<open>
  Webhook payloads of Alertmanager and Icinga become observations. A payload is a JSON object; the
  identifier and the receive time of an observation are drawn when it is built.
\<close>

definition json_dict :: "json \<Rightarrow> jdict" where
  "json_dict v = (case v of JDict d \<Rightarrow> d | _ \<Rightarrow> [])"

definition json_list :: "json \<Rightarrow> json list" where
  "json_list v = (case v of JList xs \<Rightarrow> xs | _ \<Rightarrow> [])"

text \<open>\<open>str(a or b or default)\<close>\<close>

primrec first_truthy :: "json list \<Rightarrow> json" where
  "first_truthy [] = JStr []"
| "first_truthy (v # vs) = or_json v (first_truthy vs)"

definition str_first :: "json list \<Rightarrow> string" where
  "str_first vs = py_str (first_truthy vs)"

definition status_from_alertmanager :: "string \<Rightarrow> observation_status" where
  "status_from_alertmanager status =
     (if py_lower status = ''firing'' then Obs_firing else Obs_resolved)"

definition status_from_icinga :: "string \<Rightarrow> string \<Rightarrow> observation_status" where
  "status_from_icinga state payload_status =
     (if py_lower payload_status = ''resolved'' \<or> py_upper state \<in> {''OK'', ''UP''}
      then Obs_resolved else Obs_firing)"

definition severity_of :: "json \<Rightarrow> severity" where
  "severity_of v =
     (let text = py_upper (str_or_empty v)
      in if text \<in> {''CRITICAL'', ''HIGH'', ''DOWN''} then HIGH
         else if text \<in> {''WARNING'', ''WARN'', ''MEDIUM''} then MEDIUM
         else if text \<in> {''OK'', ''UP'', ''INFO'', ''LOW''} then LOW
         else UNKNOWN)"

primrec first_label :: "jdict \<Rightarrow> string list \<Rightarrow> string" where
  "first_label labels [] = []"
| "first_label labels (n # ns) =
     (if truthy (jget labels n) then py_str (jget labels n) else first_label labels ns)"

definition notification_fingerprint :: "jdict \<Rightarrow> string" where
  "notification_fingerprint d = take 16 (sha256_hex (stable_json (JDict d)))"

subsection \<open>Alertmanager\<close>

definition alert_labels :: "jdict \<Rightarrow> jdict \<Rightarrow> jdict" where
  "alert_labels payload alert =
     dict_update (dict_of (json_dict (jget payload ''commonLabels'')))
       (json_dict (jget alert ''labels''))"

definition alert_annotations :: "jdict \<Rightarrow> jdict \<Rightarrow> jdict" where
  "alert_annotations payload alert =
     dict_update (dict_of (json_dict (jget payload ''commonAnnotations'')))
       (json_dict (jget alert ''annotations''))"

definition alert_fingerprint :: "jdict \<Rightarrow> jdict \<Rightarrow> string" where
  "alert_fingerprint alert labels =
     str_first [jget alert ''fingerprint'', jget labels ''fingerprint'']"

definition alert_event_id :: "jdict \<Rightarrow> jdict \<Rightarrow> jdict \<Rightarrow> nat \<Rightarrow> string" where
  "alert_event_id payload alert labels index =
     (let fp = alert_fingerprint alert labels; group_key = str_or_empty (jget payload ''groupKey'')
      in if fp \<noteq> [] then fp
         else if group_key \<noteq> [] then group_key @ '':'' @ nat_str index
         else notification_fingerprint
           [(''labels'', JDict labels), (''index'', JInt (int index))])"

definition alertmanager_fields ::
  "jdict \<Rightarrow> nat \<Rightarrow> jdict \<Rightarrow> observation \<Rightarrow> observation" where
  "alertmanager_fields payload index alert ob =
     (let source = str_first [jget payload ''source'', JStr ''alertmanager''];
          labels = alert_labels payload alert;
          annotations = alert_annotations payload alert;
          fp = alert_fingerprint alert labels;
          event_id = alert_event_id payload alert labels index;
          status = status_from_alertmanager (str_first [jget alert ''status'', jget payload ''status'']);
          detector = str_first [jget labels ''alertname'', jget payload ''receiver'',
            JStr ''alertmanager''];
          resource = first_label labels
            [''host'', ''instance'', ''device'', ''router'', ''node'', ''target''];
          serv = first_label labels [''service'', ''job'', ''check'', ''alertname''];
          starts_at = str_first [jget alert ''startsAt'', jget alert ''starts_at'']
      in ob\<lparr>
        obs_source := source, obs_source_event_id := event_id,
        obs_source_fingerprint := (if fp \<noteq> [] then fp else notification_fingerprint
          [(''detector'', JStr detector), (''resource'', JStr resource), (''service'', JStr serv)]),
        obs_dedup_key := source @ '':'' @ event_id @ '':'' @ observation_status_str status,
        obs_detector := detector, obs_rule_id := detector, obs_entity := resource,
        obs_resource := resource, obs_service := serv,
        obs_site := first_label labels [''site'', ''pop'', ''region''],
        obs_customer := first_label labels [''customer'', ''tenant''],
        obs_severity := severity_of
          (first_truthy [jget labels ''severity'', jget labels ''priority'', JStr ''UNKNOWN'']),
        obs_status := status, obs_observed_at := starts_at, obs_labels := labels,
        obs_annotations := annotations,
        obs_signal_snapshot := [(''labels'', JDict labels), (''annotations'', JDict annotations),
          (''startsAt'', JStr starts_at),
          (''endsAt'', first_truthy [jget alert ''endsAt'', jget alert ''ends_at'']),
          (''generatorURL'', first_truthy [jget alert ''generatorURL'']),
          (''groupKey'', JStr (str_or_empty (jget payload ''groupKey'')))],
        obs_source_health := SH_healthy, obs_observation_confidence := Conf_high,
        obs_payload_ref := str_first [jget alert ''generatorURL'', jget payload ''externalURL'']\<rparr>)"

definition observations_from_alertmanager ::
  "jdict \<Rightarrow> ('z draws_scheme, observation list) comp" where
  "observations_from_alertmanager payload =
     mapM (\<lambda>(index, alert). new_observation None (Some []) None
         (alertmanager_fields payload index (json_dict alert)))
       (enumerate 0 (json_list (jget payload ''alerts'')))"

subsection \<open>Icinga\<close>

definition icinga_fields :: "jdict \<Rightarrow> observation \<Rightarrow> observation" where
  "icinga_fields payload ob =
     (let source = str_first [jget payload ''source'', JStr ''icinga2''];
          first_alert = (case json_list (jget payload ''alerts'') of
            [] \<Rightarrow> [] | a # _ \<Rightarrow> json_dict a);
          labels = alert_labels payload first_alert;
          annotations = alert_annotations payload first_alert;
          detector = str_first [jget labels ''alertname'', jget labels ''service'',
            jget labels ''check_command'', JStr ''icinga-check''];
          resource = str_first [jget labels ''host'', jget labels ''instance''];
          serv = str_first [jget labels ''service'', jget labels ''check_command'', JStr detector];
          state = str_first [jget labels ''state'', jget first_alert ''status'',
            jget payload ''status''];
          status = status_from_icinga state (str_or_empty (jget payload ''status''));
          event_id = notification_fingerprint [(''source'', JStr source),
            (''detector'', JStr detector), (''resource'', JStr resource), (''service'', JStr serv)]
      in ob\<lparr>
        obs_source := source, obs_source_event_id := event_id,
        obs_source_fingerprint := event_id,
        obs_dedup_key := source @ '':'' @ event_id @ '':'' @ observation_status_str status @
          '':'' @ state,
        obs_detector := detector, obs_rule_id := detector, obs_entity := resource,
        obs_resource := resource, obs_service := serv, obs_severity := severity_of (JStr state),
        obs_status := status, obs_labels := labels, obs_annotations := annotations,
        obs_signal_snapshot := [(''labels'', JDict labels), (''annotations'', JDict annotations),
          (''state'', JStr state), (''tags'', JDict (json_dict (jget payload ''tags'')))],
        obs_source_health := SH_healthy, obs_observation_confidence := Conf_high\<rparr>)"

definition observation_from_icinga_alert_payload ::
  "jdict \<Rightarrow> ('z draws_scheme, observation) comp" where
  "observation_from_icinga_alert_payload payload =
     new_observation None None None (icinga_fields payload)"

end
