(* ===== verification/Task_Lock.thy ===== *)
theory Task_Lock
  imports Prelude
begin

section \<open>The transaction lock of the store (\<open>_TaskReentrantLock\<close> of app/cases/store.py)\<close>

text \<open>
  A task-reentrant lock around an \<open>asyncio.Lock\<close>. Tasks run one at a time and switch only where they
  await, so a step of the model is what a task does between two awaits. \<open>__aenter__\<close> of a task that
  does not own the lock is two steps: it queues for the inner lock (the await), and once the inner lock
  is granted to it the task becomes the owner and the depth grows. A nested \<open>__aenter__\<close> and an
  \<open>__aexit__\<close> never await. The inner lock hands itself to the waiters in the order they came.
\<close>

record lock =
  lk_locked :: bool
  lk_owner :: "nat option"
  lk_depth :: int
  lk_waiting :: "nat list"

definition new_lock :: lock where
  "new_lock = \<lparr>lk_locked = False, lk_owner = None, lk_depth = 0, lk_waiting = []\<rparr>"

definition enter_nested :: "lock \<Rightarrow> lock" where
  "enter_nested l = l\<lparr>lk_depth := lk_depth l + 1\<rparr>"

definition enter_granted :: "nat \<Rightarrow> lock \<Rightarrow> lock" where
  "enter_granted task l =
     l\<lparr>lk_locked := True, lk_owner := Some task, lk_depth := lk_depth l + 1\<rparr>"

definition exit_lock :: "lock \<Rightarrow> lock" where
  "exit_lock l =
     (let d = lk_depth l - 1
      in if d = 0 then l\<lparr>lk_depth := d, lk_owner := None, lk_locked := False\<rparr>
         else l\<lparr>lk_depth := d\<rparr>)"

text \<open>
  The state of the whole system: the lock, and for each task how many guarded blocks it is inside of.
  A task inside no block either is elsewhere or waits in the queue; only a task inside a block leaves one.
\<close>

type_synonym lock_system = "lock \<times> (nat \<Rightarrow> nat)"

inductive lock_step :: "lock_system \<Rightarrow> lock_system \<Rightarrow> bool" where
  lk_reenter: "lk_owner l = Some t \<Longrightarrow> t \<notin> set (lk_waiting l) \<Longrightarrow>
    lock_step (l, inside) (enter_nested l, inside(t := Suc (inside t)))"
| lk_take: "lk_owner l \<noteq> Some t \<Longrightarrow> t \<notin> set (lk_waiting l) \<Longrightarrow> \<not> lk_locked l \<Longrightarrow>
    lk_waiting l = [] \<Longrightarrow>
    lock_step (l, inside) (enter_granted t l, inside(t := Suc (inside t)))"
| lk_wait: "lk_owner l \<noteq> Some t \<Longrightarrow> t \<notin> set (lk_waiting l) \<Longrightarrow>
    lk_locked l \<or> lk_waiting l \<noteq> [] \<Longrightarrow>
    lock_step (l, inside) (l\<lparr>lk_waiting := lk_waiting l @ [t]\<rparr>, inside)"
| lk_grant: "lk_waiting l = t # ts \<Longrightarrow> \<not> lk_locked l \<Longrightarrow>
    lock_step (l, inside) (enter_granted t (l\<lparr>lk_waiting := ts\<rparr>), inside(t := Suc (inside t)))"
| lk_cancel: "t \<in> set (lk_waiting l) \<Longrightarrow>
    lock_step (l, inside) (l\<lparr>lk_waiting := filter (\<lambda>u. u \<noteq> t) (lk_waiting l)\<rparr>, inside)"
| lk_leave: "0 < inside t \<Longrightarrow> t \<notin> set (lk_waiting l) \<Longrightarrow>
    lock_step (l, inside) (exit_lock l, inside(t := inside t - 1))"

inductive_cases lock_stepE: "lock_step s t"

inductive lock_reachable :: "lock_system \<Rightarrow> bool" where
  lr_start: "lock_reachable (new_lock, \<lambda>_. 0)"
| lr_step: "lock_reachable s \<Longrightarrow> lock_step s t \<Longrightarrow> lock_reachable t"

subsection \<open>The invariant\<close>

text \<open>The depth counts the blocks its owner is inside of, and nobody else is inside of any.\<close>

definition lock_ok :: "lock_system \<Rightarrow> bool" where
  "lock_ok = (\<lambda>(l, inside).
     distinct (lk_waiting l) \<and>
     (case lk_owner l of
        None \<Rightarrow> \<not> lk_locked l \<and> lk_depth l = 0 \<and> (\<forall>t. inside t = 0)
      | Some o' \<Rightarrow> lk_locked l \<and> lk_depth l = int (inside o') \<and> 0 < inside o' \<and>
          o' \<notin> set (lk_waiting l) \<and> (\<forall>t. t \<noteq> o' \<longrightarrow> inside t = 0)))"

lemma lock_ok_step: "lock_step s t \<Longrightarrow> lock_ok s \<Longrightarrow> lock_ok t"
  by (induction rule: lock_step.induct)
    (auto simp: lock_ok_def enter_nested_def enter_granted_def exit_lock_def Let_def
      split: option.splits if_splits)

lemma lock_ok_reachable: "lock_reachable s \<Longrightarrow> lock_ok s"
proof (induction rule: lock_reachable.induct)
  case lr_start
  show ?case by (simp add: lock_ok_def new_lock_def)
qed (rule lock_ok_step)

text \<open>
  What keeps a set of tasks from blocking one another: the owner never waits for the lock it owns, it may always enter
  again and leave, and a lock nobody owns can be taken by the first task of its queue.
\<close>

definition no_deadlock :: "lock_system \<Rightarrow> bool" where
  "no_deadlock = (\<lambda>(l, inside). case lk_owner l of
     Some o' \<Rightarrow> o' \<notin> set (lk_waiting l) \<and>
       lock_step (l, inside) (enter_nested l, inside(o' := Suc (inside o'))) \<and>
       lock_step (l, inside) (exit_lock l, inside(o' := inside o' - 1))
   | None \<Rightarrow> (case lk_waiting l of [] \<Rightarrow> True | u # us \<Rightarrow>
       lock_step (l, inside) (enter_granted u (l\<lparr>lk_waiting := us\<rparr>), inside(u := Suc (inside u)))))"

text \<open>
  C27: Mutual exclusion with reentry: in every interleaving at most one task is inside guarded blocks,
  it is the recorded owner, the depth is the number of blocks it is inside of, and the inner lock is
  held exactly then, so a nested store call lets no other task in. And no deadlock: the owner is never among the
  waiting tasks and can enter again without waiting and leave at any time, and where nobody owns the lock, the first
  waiting task, if there is one, can take it.
\<close>

theorem lock_mutual_exclusion:
  assumes "lock_reachable (l, inside)"
  shows "(0 < inside t \<longrightarrow> lk_owner l = Some t \<and> lk_depth l = int (inside t)) \<and>
    (0 < inside t \<longrightarrow> 0 < inside u \<longrightarrow> t = u) \<and>
    (lk_locked l \<longleftrightarrow> (\<exists>v. 0 < inside v)) \<and> no_deadlock (l, inside)"
proof (cases "lk_owner l")
  case None
  with lock_ok_reachable [OF assms] have ok: "\<not> lk_locked l" "\<And>t. inside t = 0" by (simp_all add: lock_ok_def)
  then have "lock_step (l, inside) (enter_granted u (l\<lparr>lk_waiting := us\<rparr>), inside(u := Suc (inside u)))"
    if "lk_waiting l = u # us" for u us using lk_grant [OF that] by blast
  with None ok show ?thesis by (simp add: no_deadlock_def split: list.split)
next
  case (Some v)
  with lock_ok_reachable [OF assms] have ok: "lk_locked l" "lk_depth l = int (inside v)" "0 < inside v"
    "v \<notin> set (lk_waiting l)" "\<forall>t. t \<noteq> v \<longrightarrow> inside t = 0" by (simp_all add: lock_ok_def)
  have "no_deadlock (l, inside)"
    using Some ok(3,4) lk_reenter [of l v inside] lk_leave [of inside v l] by (simp add: no_deadlock_def)
  with Some ok show ?thesis by (metis less_numeral_extra(3))
qed

text \<open>Task 1 enters while task 2 waits, and enters again.\<close>

lemma lock_example_once: "lock_reachable (\<lparr>lk_locked = True, lk_owner = Some 1, lk_depth = 1,
    lk_waiting = [2]\<rparr>, (\<lambda>_. 0)(1 := 1))"
proof -
  have "lock_reachable (enter_granted 1 new_lock, (\<lambda>_. 0)(1 := Suc 0))"
    using lr_step [OF lr_start lk_take [of new_lock 1 "\<lambda>_. 0"]] by (simp add: new_lock_def)
  from lr_step [OF this lk_wait [of _ 2]] show ?thesis
    by (simp add: new_lock_def enter_granted_def)
qed

lemma lock_example: "lock_reachable (\<lparr>lk_locked = True, lk_owner = Some 1, lk_depth = 2,
    lk_waiting = [2]\<rparr>, (\<lambda>_. 0)(1 := 2))"
  using lr_step [OF lock_example_once lk_reenter [of _ 1]]
  by (simp add: enter_nested_def numeral_2_eq_2)

theorem lock_mutual_exclusion_witness:
  "\<exists>l inside. lock_reachable (l, inside) \<and> lk_owner l = Some 1 \<and> lk_depth l = 2 \<and> inside 1 = 2 \<and> inside 2 = 0 \<and>
     2 \<in> set (lk_waiting l) \<and> no_deadlock (l, inside)"
  using lock_mutual_exclusion [OF lock_example, of 1 2] lock_example
  by (intro exI [of _ "\<lparr>lk_locked = True, lk_owner = Some 1, lk_depth = 2, lk_waiting = [2]\<rparr>"]
      exI [of _ "(\<lambda>_. 0)(1 := 2)"]) simp

text \<open>
  C28: A task that waits gets in: when the owner has left its last block, the inner lock is free and
  the task at the head of the queue becomes the owner in its next step.
\<close>

theorem lock_handed_over:
  assumes "lock_reachable (l, inside)" and "lk_owner l = Some t" and "inside t = 1"
    and "lk_waiting l = u # us"
  shows "lock_step (l, inside) (exit_lock l, inside(t := 0)) \<and>
    (\<exists>m. lock_step (exit_lock l, inside(t := 0)) (m, inside(t := 0, u := 1)) \<and>
      lk_owner m = Some u \<and> lk_depth m = 1 \<and> lk_waiting m = us)"
proof -
  from lock_ok_reachable [OF assms(1)] assms(2-4)
  have t: "t \<notin> set (lk_waiting l)" "lk_depth l = 1" "inside u = 0"
    by (auto simp: lock_ok_def)
  have leave: "lock_step (l, inside) (exit_lock l, inside(t := 0))"
    using lk_leave [of inside t l] assms(3) t(1) by simp
  moreover have "lock_step (exit_lock l, inside(t := 0))
      (enter_granted u ((exit_lock l)\<lparr>lk_waiting := us\<rparr>), inside(t := 0, u := 1))"
    using lk_grant [of "exit_lock l" u us "inside(t := 0)"] assms(4) t by (simp add: exit_lock_def)
  ultimately show ?thesis using t(2)
    by (intro conjI exI [of _ "enter_granted u ((exit_lock l)\<lparr>lk_waiting := us\<rparr>)"])
      (simp_all add: enter_granted_def exit_lock_def)
qed

theorem lock_handed_over_witness:
  "\<exists>m. lock_step (new_lock\<lparr>lk_waiting := [2]\<rparr>, (\<lambda>_. 0)) (m, (\<lambda>_. 0)(2 := 1)) \<and>
     lk_owner m = Some 2 \<and> lk_depth m = 1 \<and> lk_waiting m = []"
proof -
  have e: "((\<lambda>_. 0)(Suc 0 := 0) :: nat \<Rightarrow> nat) = (\<lambda>_. 0)" by auto
  show ?thesis using lock_handed_over [OF lock_example_once, of 1 2 "[]"]
    by (simp add: e exit_lock_def new_lock_def)
qed

end
