(* ===== verification/Hotspots.thy ===== *)
theory Hotspots
  imports Service_Reports
begin

section \<open>Hotspots: what the proactive loop scans for\<close>

text \<open>
  \<open>app/proactive/models.py\<close>, as far as the loop's decisions depend on it, and
  \<open>app/cases/proactive.py\<close>, the adapter to the observations of the case service. The text of a
  hotspot comes from telemetry labels, so its constructor scrubs every such field.
  \<open>hotspot_severity\<close>, \<open>hotspot_category\<close> and \<open>specialist\<close> are the source's literal types. The
  middle dot the payload joins its bits with is the Latin-1 character of code 183.
\<close>

datatype hotspot_severity = Sev_high | Sev_medium | Sev_low

datatype specialist = Spec_bgp | Spec_security_firewall | Spec_infrastructure

datatype hotspot_category =
    Cat_bgp | Cat_wireguard | Cat_disk | Cat_tls | Cat_logs | Cat_scrape | Cat_dns | Cat_nat64
  | Cat_service | Cat_other

fun hotspot_severity_str :: "hotspot_severity \<Rightarrow> string" where
  "hotspot_severity_str Sev_high = ''HIGH''"
| "hotspot_severity_str Sev_medium = ''MEDIUM''"
| "hotspot_severity_str Sev_low = ''LOW''"

fun specialist_str :: "specialist \<Rightarrow> string" where
  "specialist_str Spec_bgp = ''bgp''"
| "specialist_str Spec_security_firewall = ''security_firewall''"
| "specialist_str Spec_infrastructure = ''infrastructure''"

fun hotspot_category_str :: "hotspot_category \<Rightarrow> string" where
  "hotspot_category_str Cat_bgp = ''bgp''"
| "hotspot_category_str Cat_wireguard = ''wireguard''"
| "hotspot_category_str Cat_disk = ''disk''"
| "hotspot_category_str Cat_tls = ''tls''"
| "hotspot_category_str Cat_logs = ''logs''"
| "hotspot_category_str Cat_scrape = ''scrape''"
| "hotspot_category_str Cat_dns = ''dns''"
| "hotspot_category_str Cat_nat64 = ''nat64''"
| "hotspot_category_str Cat_service = ''service''"
| "hotspot_category_str Cat_other = ''other''"

text \<open>\<open>_SEVERITY_RANK.get(str(severity or "").upper(), 0)\<close>\<close>

definition hotspot_severity_rank :: "string \<Rightarrow> int" where
  "hotspot_severity_rank s =
     (let u = py_upper s in
      if u = ''LOW'' then 1 else if u = ''MEDIUM'' then 2 else if u = ''HIGH'' then 3 else 0)"

text \<open>The severities in the order of their rank.\<close>

instantiation hotspot_severity :: linorder
begin

definition less_eq_hotspot_severity :: "hotspot_severity \<Rightarrow> hotspot_severity \<Rightarrow> bool" where
  "s \<le> t \<longleftrightarrow> hotspot_severity_rank (hotspot_severity_str s) \<le> hotspot_severity_rank (hotspot_severity_str t)"

definition less_hotspot_severity :: "hotspot_severity \<Rightarrow> hotspot_severity \<Rightarrow> bool" where
  "s < t \<longleftrightarrow> hotspot_severity_rank (hotspot_severity_str s) < hotspot_severity_rank (hotspot_severity_str t)"

instance
proof
  fix s t :: hotspot_severity
  show "s \<le> t \<Longrightarrow> t \<le> s \<Longrightarrow> s = t"
    by (cases s; cases t)
      (simp_all add: less_eq_hotspot_severity_def hotspot_severity_rank_def py_upper_def
        upper_char_def is_lower_def code_def)
qed (auto simp: less_eq_hotspot_severity_def less_hotspot_severity_def)

end

subsection \<open>Scrubbing\<close>

definition middle_dot :: char where
  "middle_dot = char_of (183 :: nat)"

definition is_printable :: "char \<Rightarrow> bool" where
  "is_printable c \<longleftrightarrow> (32 \<le> code c \<and> code c < 127) \<or> c = em_dash \<or> c = middle_dot"

definition sanitize_label :: "nat \<Rightarrow> string \<Rightarrow> string" where
  "sanitize_label limit value = take limit (filter is_printable (py_join '' '' (py_split value)))"

subsection \<open>Hotspots\<close>

record hotspot_evidence =
  he_label :: string
  he_query :: string
  he_value :: string
  he_threshold :: string
  he_detail :: string

record hotspot =
  hs_rule_id :: string
  hs_key :: string
  hs_category :: hotspot_category
  hs_severity :: hotspot_severity
  hs_score :: pyfloat
  hs_title :: string
  hs_resource :: string
  hs_summary :: string
  hs_evidence :: "hotspot_evidence list"
  hs_recommended_checks :: "string list"
  hs_suggested_specialist :: "specialist option"
  hs_warrants_change :: bool
  hs_change_rationale :: string
  hs_detected_at :: string

definition sanitize_evidence :: "hotspot_evidence \<Rightarrow> hotspot_evidence" where
  "sanitize_evidence e = e\<lparr>
     he_label := sanitize_label 160 (he_label e), he_value := sanitize_label 200 (he_value e),
     he_threshold := sanitize_label 120 (he_threshold e),
     he_detail := sanitize_label 200 (he_detail e)\<rparr>"

definition sanitize_hotspot :: "hotspot \<Rightarrow> hotspot" where
  "sanitize_hotspot h = h\<lparr>
     hs_key := sanitize_label 200 (hs_key h),
     hs_resource := sanitize_label 120 (hs_resource h),
     hs_title := sanitize_label 200 (hs_title h),
     hs_summary := sanitize_label 600 (hs_summary h),
     hs_change_rationale := sanitize_label 300 (hs_change_rationale h),
     hs_recommended_checks := map (sanitize_label 200) (hs_recommended_checks h),
     hs_evidence := map sanitize_evidence (hs_evidence h)\<rparr>"

text \<open>
  The constructor: \<open>detected_at\<close> has a default factory, a negative score is a validation error (a
  \<open>ValueError\<close>), and the validator scrubs the fields.
\<close>

definition blank_hotspot :: "string \<Rightarrow> string \<Rightarrow> hotspot" where
  "blank_hotspot rule_id key = \<lparr>
     hs_rule_id = rule_id, hs_key = key, hs_category = Cat_other, hs_severity = Sev_low,
     hs_score = pyfloat_zero, hs_title = [], hs_resource = [], hs_summary = [], hs_evidence = [],
     hs_recommended_checks = [], hs_suggested_specialist = None, hs_warrants_change = False,
     hs_change_rationale = [], hs_detected_at = []\<rparr>"

definition new_hotspot ::
  "string \<Rightarrow> string \<Rightarrow> string option \<Rightarrow> (hotspot \<Rightarrow> hotspot) \<Rightarrow> ('z draws_scheme, hotspot) comp" where
  "new_hotspot rule_id key detected given =
     bindM (given_or detected utc_now) (\<lambda>now.
     let h = given (blank_hotspot rule_id key\<lparr>hs_detected_at := now\<rparr>) in
     if pf_value (hs_score h) < 0
     then raiseM (ValueError ''score: Input should be greater than or equal to 0'')
     else retM (sanitize_hotspot h))"

definition hotspot_fingerprint :: "hotspot \<Rightarrow> string" where
  "hotspot_fingerprint h = take 16 (sha256_hex (hs_rule_id h @ ''|'' @ hs_key h))"

text \<open>\<open>ProactiveCycleReport.top\<close>: the first hotspots by falling score.\<close>

definition top_hotspots :: "nat \<Rightarrow> hotspot list \<Rightarrow> hotspot list" where
  "top_hotspots limit hs = take limit (py_sort True (\<lambda>h. pf_value (hs_score h)) hs)"

subsection \<open>The synthetic alert\<close>

definition evidence_line :: "hotspot_evidence \<Rightarrow> string" where
  "evidence_line e = py_join [CHR '' '', middle_dot, CHR '' '']
     (filter (\<lambda>b. b \<noteq> []) [he_label e, he_value e, he_threshold e, he_detail e])"

definition alert_summary :: "hotspot \<Rightarrow> string" where
  "alert_summary h = py_join [CHR 0x0A]
     (filter (\<lambda>l. l \<noteq> []) (hs_summary h # map evidence_line (hs_evidence h)))"

definition alert_name :: "hotspot \<Rightarrow> string" where
  "alert_name h = ''Proactive: '' @ or_str (hs_title h) (hs_rule_id h)"

definition alert_label_dict :: "hotspot \<Rightarrow> jdict" where
  "alert_label_dict h =
     [(''alertname'', JStr (alert_name h)),
      (''host'', JStr (or_str (hs_resource h) ''as215932'')),
      (''service'', JStr (hotspot_category_str (hs_category h))),
      (''severity'', JStr (hotspot_severity_str (hs_severity h))),
      (''proactive_rule'', JStr (hs_rule_id h)),
      (''proactive_category'', JStr (hotspot_category_str (hs_category h))),
      (''state'', JStr (hotspot_severity_str (hs_severity h)))] @
     (case hs_suggested_specialist h of None \<Rightarrow> []
      | Some s \<Rightarrow> [(''specialist_hint'', JStr (specialist_str s))])"

definition hotspot_to_alert_payload :: "hotspot \<Rightarrow> jdict" where
  "hotspot_to_alert_payload h =
     (let labels = alert_label_dict h; annotations = JDict [(''summary'', JStr (alert_summary h))] in
      [(''source'', JStr ''proactive''), (''status'', JStr ''firing''),
       (''groupLabels'', JDict [(''alertname'', JStr (alert_name h)), (''host'', jget labels ''host'')]),
       (''commonLabels'', JDict labels), (''commonAnnotations'', annotations),
       (''alerts'', JList [JDict [(''status'', JStr ''firing''), (''labels'', JDict labels),
          (''annotations'', annotations)]]),
       (''proactive'', JDict
         [(''rule_id'', JStr (hs_rule_id h)), (''key'', JStr (hs_key h)),
          (''fingerprint'', JStr (hotspot_fingerprint h)),
          (''category'', JStr (hotspot_category_str (hs_category h))),
          (''score'', JFloat (pf_repr (hs_score h))),
          (''warrants_change'', JBool (hs_warrants_change h)),
          (''recommended_checks'', JList (map JStr (hs_recommended_checks h)))])])"

subsection \<open>The adapter to the case service\<close>

fun severity_of_hotspot :: "hotspot_severity \<Rightarrow> severity" where
  "severity_of_hotspot Sev_high = HIGH"
| "severity_of_hotspot Sev_medium = MEDIUM"
| "severity_of_hotspot Sev_low = LOW"

definition evidence_dump :: "hotspot_evidence \<Rightarrow> json" where
  "evidence_dump e = JDict [(''label'', JStr (he_label e)), (''query'', JStr (he_query e)),
     (''value'', JStr (he_value e)), (''threshold'', JStr (he_threshold e)),
     (''detail'', JStr (he_detail e))]"

definition hotspot_snapshot :: "hotspot \<Rightarrow> jdict" where
  "hotspot_snapshot h =
     [(''rule_id'', JStr (hs_rule_id h)), (''key'', JStr (hs_key h)),
      (''category'', JStr (hotspot_category_str (hs_category h))),
      (''severity'', JStr (hotspot_severity_str (hs_severity h))),
      (''score'', JFloat (pf_repr (hs_score h))), (''title'', JStr (hs_title h)),
      (''summary'', JStr (hs_summary h)), (''resource'', JStr (hs_resource h)),
      (''evidence'', JList (map evidence_dump (hs_evidence h))),
      (''recommended_checks'', JList (map JStr (hs_recommended_checks h))),
      (''suggested_specialist'', (case hs_suggested_specialist h of None \<Rightarrow> JNull
         | Some s \<Rightarrow> JStr (specialist_str s))),
      (''warrants_change'', JBool (hs_warrants_change h)),
      (''change_rationale'', JStr (hs_change_rationale h))]"

definition observation_from_hotspot ::
  "hotspot \<Rightarrow> string \<Rightarrow> source_health \<Rightarrow> ('z draws_scheme, observation) comp" where
  "observation_from_hotspot h cycle_id health =
     (let fp = hotspot_fingerprint h in
      new_observation None (Some (hs_detected_at h)) None (\<lambda>ob. ob\<lparr>
        obs_source := ''proactive'', obs_source_event_id := cycle_id @ '':'' @ fp,
        obs_source_fingerprint := fp, obs_dedup_key := ''proactive:'' @ cycle_id @ '':'' @ fp,
        obs_detector := hs_rule_id h, obs_rule_id := hs_rule_id h, obs_entity := hs_resource h,
        obs_resource := hs_resource h,
        obs_service := hotspot_category_str (hs_category h),
        obs_severity := severity_of_hotspot (hs_severity h), obs_status := Obs_firing,
        obs_scan_cycle_id := cycle_id,
        obs_labels := [(''proactive_rule'', JStr (hs_rule_id h)), (''proactive_key'', JStr (hs_key h)),
          (''category'', JStr (hotspot_category_str (hs_category h))),
          (''resource'', JStr (hs_resource h))],
        obs_annotations := [(''summary'', JStr (hs_summary h)), (''title'', JStr (hs_title h))],
        obs_signal_snapshot := hotspot_snapshot h, obs_source_health := health,
        obs_observation_confidence := (if health = SH_healthy then Conf_high else Conf_medium)\<rparr>))"

end
