(* ===== verification/Loop_State.thy ===== *)
theory Loop_State
  imports Hotspots
begin

section \<open>The state of the proactive loop\<close>

text \<open>
  What a cycle of \<open>ProactiveLoop\<close> (\<open>app/proactive/loop.py\<close>) reads and writes: the files of its state
  directory (one budget ledger per UTC day, the cooldown stamps, the suppressions), the fields of the
  loop object, and the case store behind it, which also holds the clock and the identifiers that
  \<open>datetime.now\<close> and \<open>uuid4\<close> draw from. \<open>time.time()\<close> is a second sequence of readings. A float is
  the rational number it denotes, its arithmetic is exact, and infinities and NaN are left out. The
  type parameter is the state of the rest of the world, which only the callbacks act on.
\<close>

subsection \<open>Files\<close>

text \<open>
  A JSON file as its readers see it: not there, not readable (no JSON, an I/O error), holding something
  else than a dictionary, or the value it holds. The loop is the only writer, so a value has the shape the loop writes.
\<close>

datatype 'a state_file = Absent | Unreadable | Misshapen | Holds 'a

text \<open>The dictionary of a file that is read with every failure taken as no entries.\<close>

fun lenient_load :: "('k, 'v) dict state_file \<Rightarrow> ('k, 'v) dict" where
  "lenient_load (Holds d) = d"
| "lenient_load Absent = []"
| "lenient_load Unreadable = []"
| "lenient_load Misshapen = []"

text \<open>\<open>json.dumps(data, sort_keys=True)\<close>: read back, the keys come in sorted order.\<close>

definition dumped :: "(string, 'v) dict \<Rightarrow> (string, 'v) dict state_file" where
  "dumped d = Holds (sort_key fst d)"

text \<open>A ledger as a cycle uses it, and as it lies in its file, where a key may be missing.\<close>

record ledger =
  lg_cycles :: int
  lg_investigations :: int
  lg_attempts :: int
  lg_succeeded :: int
  lg_failed :: int
  lg_skipped :: int
  lg_cost_usd :: rat
  lg_handoffs :: int

record stored_ledger =
  sl_cycles :: "int option"
  sl_investigations :: "int option"
  sl_attempts :: "int option"
  sl_succeeded :: "int option"
  sl_failed :: "int option"
  sl_skipped :: "int option"
  sl_cost_usd :: "rat option"
  sl_handoffs :: "int option"

record suppression =
  su_fingerprint :: string
  su_key :: string
  su_reason :: string
  su_issue :: string
  su_operator :: string
  su_created_at :: string
  su_expires_at :: "rat option"

text \<open>
  The run lock as a reader finds it: no JSON yet (it is created first and written afterwards, or it is
  damaged), or the holder's process number and starting time.
\<close>

datatype run_lock = Lock_unwritten | Lock_written int rat

subsection \<open>The report of a cycle\<close>

text \<open>
  \<open>ProactiveCycleReport\<close>. The loop mutates it in place as it goes, so what a cycle has recorded when it
  fails stays recorded.
\<close>

datatype cycle_outcome =
    Out_disabled | Out_locked | Out_over_budget | Out_idle | Out_scanned | Out_investigated | Out_error

record cycle_report =
  cr_cycle_id :: string
  cr_started_at :: string
  cr_finished_at :: string
  cr_outcome :: cycle_outcome
  cr_detail :: string
  cr_hotspots :: "hotspot list"
  cr_investigation_attempted :: "string list"
  cr_investigated :: "string list"
  cr_investigation_failed :: "string list"
  cr_investigation_skipped :: "string list"
  cr_budget_summary :: string
  cr_auto_snoozed :: "string list"
  cr_handoffs :: "string list"
  cr_handoffs_by_key :: "(string, string) dict"
  cr_cost_usd :: rat
  cr_decision_id :: "string option"
  cr_errors :: "string list"

definition blank_cycle :: cycle_report where
  "blank_cycle = \<lparr>
     cr_cycle_id = [], cr_started_at = [], cr_finished_at = [], cr_outcome = Out_idle, cr_detail = [],
     cr_hotspots = [], cr_investigation_attempted = [], cr_investigated = [],
     cr_investigation_failed = [], cr_investigation_skipped = [], cr_budget_summary = [],
     cr_auto_snoozed = [], cr_handoffs = [], cr_handoffs_by_key = [], cr_cost_usd = 0,
     cr_decision_id = None, cr_errors = []\<rparr>"

definition new_cycle_report :: "('z draws_scheme, cycle_report) comp" where
  "new_cycle_report =
     bindM (new_id ''cyc'') (\<lambda>i.
     bindM utc_now (\<lambda>now. retM (blank_cycle\<lparr>cr_cycle_id := i, cr_started_at := now\<rparr>)))"

subsection \<open>The world of a cycle\<close>

text \<open>
  \<open>lw_investigations\<close> maps a fingerprint to its time stamp, None for an entry that is no number.
  The fields from \<open>lw_last_deep_scan\<close> on are those of the loop object; an unset
  \<open>_last_report_signature\<close> is None. \<open>lw_report\<close> is the report the current cycle writes, \<open>lw_last_report\<close>
  the one of the last cycle that took the lock.
\<close>

type_synonym report_signature = "(string \<times> hotspot_severity) set"

record 'w loop_world =
  lw_store :: store
  lw_seconds :: "nat \<Rightarrow> rat"
  lw_second_reads :: nat
  lw_lock :: "run_lock option"
  lw_ledgers :: "string \<Rightarrow> stored_ledger state_file"
  lw_investigations :: "(string, rat option) dict state_file"
  lw_suppressions :: "(string, suppression) dict state_file"
  lw_last_deep_scan :: rat
  lw_last_report_signature :: "report_signature option"
  lw_last_report_ts :: rat
  lw_last_deep_hotspots :: "hotspot list"
  lw_last_effective :: "hotspot list"
  lw_report :: cycle_report
  lw_last_report :: "cycle_report option"
  lw_outside :: 'w

type_synonym ('w, 'a) lp = "('w loop_world, 'a) comp"

text \<open>Run a computation of the case store; read \<open>time.time()\<close>; run a callback, which acts on the case
  store and on the outside world but not on the loop's files and fields.\<close>

definition in_store :: "'a st \<Rightarrow> ('w, 'a) lp" where
  "in_store m = zoomM lw_store (\<lambda>s w. w\<lparr>lw_store := s\<rparr>) m"

definition time_time :: "('w, rat) lp" where
  "time_time = (\<lambda>w. (Inr (lw_seconds w (lw_second_reads w)),
     w\<lparr>lw_second_reads := Suc (lw_second_reads w)\<rparr>))"

type_synonym ('w, 'a) callback = "(store \<times> 'w, 'a) comp"

definition call_out :: "('w, 'a) callback \<Rightarrow> ('w, 'a) lp" where
  "call_out m = zoomM (\<lambda>w. (lw_store w, lw_outside w))
     (\<lambda>(s, x) w. w\<lparr>lw_store := s, lw_outside := x\<rparr>) m"

text \<open>Write to the report of the cycle.\<close>

definition note_report :: "(cycle_report \<Rightarrow> cycle_report) \<Rightarrow> ('w, unit) lp" where
  "note_report f = modM (\<lambda>w. w\<lparr>lw_report := f (lw_report w)\<rparr>)"

subsection \<open>Frames\<close>

text \<open>What the readings and the calls out keep: all that a predicate of the loop's own state says.\<close>

lemma keeps_note_report [keeps_intros]:
  "(\<And>w. P w \<Longrightarrow> P (w\<lparr>lw_report := f (lw_report w)\<rparr>)) \<Longrightarrow> keeps P (note_report f)"
  by (simp add: note_report_def keeps_def)

lemma keeps_time_time [keeps_intros]:
  "(\<And>w. P w \<Longrightarrow> P (w\<lparr>lw_second_reads := Suc (lw_second_reads w)\<rparr>)) \<Longrightarrow> keeps P time_time"
  by (simp add: time_time_def keeps_def)

lemma keeps_modM: "(\<And>w. P w \<Longrightarrow> P (f w)) \<Longrightarrow> keeps P (modM f)"
  by (simp add: keeps_def)

lemma keeps_in_store:
  "(\<And>w s. P w \<Longrightarrow> P (w\<lparr>lw_store := s\<rparr>)) \<Longrightarrow> keeps P (in_store m)"
  unfolding in_store_def by (rule keeps_zoom [where Q = "\<lambda>_. True"]) (simp_all add: keeps_def)

lemma keeps_call_out:
  "(\<And>w s x. P w \<Longrightarrow> P (w\<lparr>lw_store := s, lw_outside := x\<rparr>)) \<Longrightarrow> keeps P (call_out m)"
  unfolding call_out_def
  by (rule keeps_zoom [where Q = "\<lambda>_. True"]) (simp_all add: keeps_def split: prod.splits)

end
