(* ===== verification/Ledger.thy ===== *)
theory Ledger
  imports Loop_State Py_Float
begin

section \<open>The daily budget ledger\<close>

text \<open>
  \<open>load_ledger\<close> and \<open>update_ledger\<close> of \<open>app/proactive/ledger.py\<close>. A ledger that cannot be read is an
  error, so that spending fails closed; one written before the counters were split counts its
  investigations as attempts and as successes.
\<close>

definition empty_ledger :: ledger where
  "empty_ledger = \<lparr>lg_cycles = 0, lg_investigations = 0, lg_attempts = 0, lg_succeeded = 0,
     lg_failed = 0, lg_skipped = 0, lg_cost_usd = 0, lg_handoffs = 0\<rparr>"

definition value_or :: "'a option \<Rightarrow> 'a \<Rightarrow> 'a" where
  "value_or v d = (case v of None \<Rightarrow> d | Some x \<Rightarrow> x)"

definition merged_ledger :: "stored_ledger \<Rightarrow> ledger" where
  "merged_ledger l = (let n = value_or (sl_investigations l) 0 in
     \<lparr>lg_cycles = value_or (sl_cycles l) 0, lg_investigations = n,
      lg_attempts = value_or (sl_attempts l) n, lg_succeeded = value_or (sl_succeeded l) n,
      lg_failed = value_or (sl_failed l) 0, lg_skipped = value_or (sl_skipped l) 0,
      lg_cost_usd = value_or (sl_cost_usd l) 0, lg_handoffs = value_or (sl_handoffs l) 0\<rparr>)"

definition stored_form :: "ledger \<Rightarrow> stored_ledger" where
  "stored_form l = \<lparr>sl_cycles = Some (lg_cycles l), sl_investigations = Some (lg_investigations l),
     sl_attempts = Some (lg_attempts l), sl_succeeded = Some (lg_succeeded l),
     sl_failed = Some (lg_failed l), sl_skipped = Some (lg_skipped l),
     sl_cost_usd = Some (lg_cost_usd l), sl_handoffs = Some (lg_handoffs l)\<rparr>"

definition ledger_name :: "string \<Rightarrow> string" where
  "ledger_name day = ''ledger-'' @ day @ ''.json''"

definition corrupt_ledger :: "string \<Rightarrow> string \<Rightarrow> exn" where
  "corrupt_ledger what day =
     OtherError ''CorruptLedgerError'' (what @ '' proactive budget ledger '' @ ledger_name day)"

definition read_ledger :: "stored_ledger state_file \<Rightarrow> string \<Rightarrow> exn + ledger" where
  "read_ledger f day =
     (case f of Absent \<Rightarrow> Inr empty_ledger | Unreadable \<Rightarrow> Inl (corrupt_ledger ''cannot read'' day)
      | Misshapen \<Rightarrow> Inl (corrupt_ledger ''invalid'' day)
      | Holds l \<Rightarrow> Inr (merged_ledger l))"

definition load_ledger :: "string \<Rightarrow> ('w, ledger) lp" where
  "load_ledger day = bindM (getM (\<lambda>w. lw_ledgers w day)) (\<lambda>f. liftM (read_ledger f day))"

text \<open>\<open>round(x, 6)\<close>: ties go to the even digit.\<close>

definition round6 :: "rat \<Rightarrow> rat" where
  "round6 x = of_int (round_half_even (x * 1000000)) / 1000000"

text \<open>The keyword arguments of an update are a ledger of differences.\<close>

definition add_ledger :: "ledger \<Rightarrow> ledger \<Rightarrow> ledger" where
  "add_ledger l d =
     \<lparr>lg_cycles = lg_cycles l + lg_cycles d,
      lg_investigations = lg_investigations l + lg_investigations d,
      lg_attempts = lg_attempts l + lg_attempts d, lg_succeeded = lg_succeeded l + lg_succeeded d,
      lg_failed = lg_failed l + lg_failed d, lg_skipped = lg_skipped l + lg_skipped d,
      lg_cost_usd = round6 (lg_cost_usd l + lg_cost_usd d), lg_handoffs = lg_handoffs l + lg_handoffs d\<rparr>"

definition negative_counter :: "ledger \<Rightarrow> bool" where
  "negative_counter l \<longleftrightarrow> Min {lg_cycles l, lg_investigations l, lg_attempts l, lg_succeeded l,
     lg_failed l, lg_skipped l} < 0"

definition update_ledger :: "string \<Rightarrow> ledger \<Rightarrow> ('w, ledger) lp" where
  "update_ledger day d = bindM (load_ledger day) (\<lambda>l.
     let l' = add_ledger l d in
     if negative_counter l' then raiseM (ValueError ''proactive ledger counters cannot be negative'')
     else seqM (modM (\<lambda>w. w\<lparr>lw_ledgers := (lw_ledgers w)(day := Holds (stored_form l'))\<rparr>)) (retM l'))"

text \<open>\<open>today()\<close>: the date of \<open>datetime.now(UTC)\<close>.\<close>

definition today :: "('w, string) lp" where
  "today = bindM (in_store dt_now) (\<lambda>t. retM (take 10 (isoformat t)))"

subsection \<open>Facts\<close>

lemma merged_stored_form [simp]: "merged_ledger (stored_form l) = l"
  by (simp add: merged_ledger_def stored_form_def value_or_def)

lemma negative_counter_iff: "negative_counter l \<longleftrightarrow>
    lg_cycles l < 0 \<or> lg_investigations l < 0 \<or> lg_attempts l < 0 \<or> lg_succeeded l < 0 \<or>
    lg_failed l < 0 \<or> lg_skipped l < 0"
  by (simp add: negative_counter_def min_less_iff_disj)

lemma load_ledger_app:
  "load_ledger day w = (read_ledger (lw_ledgers w day) day, w)"
  by (simp add: load_ledger_def bindM_app)

text \<open>An update that returns wrote the sum and nothing else; one that raises wrote nothing.\<close>

lemma update_ledger_ok:
  assumes "read_ledger (lw_ledgers w day) day = Inr l" and "\<not> negative_counter (add_ledger l d)"
  shows "update_ledger day d w = (Inr (add_ledger l d),
    w\<lparr>lw_ledgers := (lw_ledgers w)(day := Holds (stored_form (add_ledger l d)))\<rparr>)"
  using assms by (simp add: update_ledger_def load_ledger_app comp_simps Let_def)

lemma update_ledger_raises:
  assumes "update_ledger day d w = (Inl e, w')"
  shows "w' = w"
  using assms
  by (auto simp: update_ledger_def load_ledger_app comp_simps Let_def split: sum.splits if_splits)

lemma update_ledger_returns:
  assumes "update_ledger day d w = (Inr l', w')"
  obtains l where "read_ledger (lw_ledgers w day) day = Inr l" "l' = add_ledger l d"
    "\<not> negative_counter l'" "w' = w\<lparr>lw_ledgers := (lw_ledgers w)(day := Holds (stored_form l'))\<rparr>"
  using assms
  by (auto simp: update_ledger_def load_ledger_app comp_simps Let_def split: sum.splits if_splits)

end
