(* ===== verification/Governance.thy ===== *)
theory Governance
  imports Ledger
begin

section \<open>Governance: how much a cycle may investigate\<close>

text \<open>
  \<open>app/proactive/governance.py\<close>, with the settings of \<open>ProactiveLoopSettings\<close> the loop consults. The
  text of a gate's reason is kept as a constructor with the numbers it shows. The golden manifest is
  a parameter: \<open>load_golden_manifest\<close> reads it from a file.
\<close>

record loop_settings =
  lps_enabled :: bool
  lps_shadow :: bool
  lps_interval_s :: int
  lps_deep_scan_s :: int
  lps_max_investigations_per_cycle :: int
  lps_max_investigations_per_day :: int
  lps_max_cost_usd_per_day :: rat
  lps_report_reassert_s :: int
  lps_investigation_cooldown_s :: int
  lps_auto_snooze_enabled :: bool
  lps_auto_snooze_ttl_s :: int
  lps_auto_snooze_max_per_cycle :: int
  lps_auto_snooze_icinga_ack :: bool
  lps_auto_heavy_probes :: bool
  lps_severity_floor :: string
  lps_ruleset_version :: string

definition default_settings :: loop_settings where
  "default_settings = \<lparr>
     lps_enabled = False, lps_shadow = True, lps_interval_s = 120, lps_deep_scan_s = 900,
     lps_max_investigations_per_cycle = 1, lps_max_investigations_per_day = 12,
     lps_max_cost_usd_per_day = 10, lps_report_reassert_s = 3600, lps_investigation_cooldown_s = 21600,
     lps_auto_snooze_enabled = False, lps_auto_snooze_ttl_s = 86400,
     lps_auto_snooze_max_per_cycle = 3, lps_auto_snooze_icinga_ack = True,
     lps_auto_heavy_probes = False, lps_severity_floor = ''MEDIUM'', lps_ruleset_version = ''1''\<rparr>"

subsection \<open>The decision context\<close>

record decision_context =
  dc_decision_id :: string
  dc_cycle_id :: string
  dc_created_at :: string
  dc_manifest_hash :: string
  dc_perimeter_context_version :: string
  dc_scanner_ruleset_version :: string
  dc_model_chain :: "string list"
  dc_shadow :: bool
  dc_auto_heavy_probes :: bool
  dc_budget_state :: ledger
  dc_injected_lesson_ids :: "string list"

definition manifest_hash :: "json \<Rightarrow> string" where
  "manifest_hash manifest = ''sha256:'' @ take 32 (sha256_hex (json_dumps_ascii manifest))"

definition build_decision_context ::
  "json \<Rightarrow> loop_settings \<Rightarrow> string \<Rightarrow> string list \<Rightarrow> ledger \<Rightarrow> string list
    \<Rightarrow> ('z draws_scheme, decision_context) comp" where
  "build_decision_context manifest ps cycle_id chain budget lessons =
     bindM (new_id ''dcx'') (\<lambda>i.
     bindM utc_now (\<lambda>now.
     retM \<lparr>dc_decision_id = i, dc_cycle_id = cycle_id, dc_created_at = now,
       dc_manifest_hash = manifest_hash manifest,
       dc_perimeter_context_version = lps_ruleset_version ps,
       dc_scanner_ruleset_version = lps_ruleset_version ps, dc_model_chain = chain,
       dc_shadow = lps_shadow ps, dc_auto_heavy_probes = lps_auto_heavy_probes ps,
       dc_budget_state = budget, dc_injected_lesson_ids = lessons\<rparr>))"

subsection \<open>The gate\<close>

datatype gate_reason =
    Gate_shadow
  | Gate_none_eligible
  | Gate_cost_reached rat
  | Gate_attempts_reached int
  | Gate_available int int int

record gate_decision =
  gd_max_investigations :: int
  gd_reason :: gate_reason
  gd_over_budget :: bool
  gd_eligible :: "hotspot list"

definition gate_allowed :: "gate_decision \<Rightarrow> bool" where
  "gate_allowed g \<longleftrightarrow> 0 < gd_max_investigations g"

definition above_floor :: "loop_settings \<Rightarrow> hotspot \<Rightarrow> bool" where
  "above_floor ps h \<longleftrightarrow>
     hotspot_severity_rank (lps_severity_floor ps) \<le> hotspot_severity_rank (hotspot_severity_str (hs_severity h))"

definition eligible_hotspots :: "loop_settings \<Rightarrow> hotspot list \<Rightarrow> hotspot list" where
  "eligible_hotspots ps hs = py_sort True (\<lambda>h. pf_value (hs_score h)) (filter (above_floor ps) hs)"

definition evaluate_gate :: "loop_settings \<Rightarrow> ledger \<Rightarrow> hotspot list \<Rightarrow> gate_decision" where
  "evaluate_gate ps l hs =
     (let eligible = eligible_hotspots ps hs;
          decide = (\<lambda>n reason over. \<lparr>gd_max_investigations = n, gd_reason = reason,
            gd_over_budget = over, gd_eligible = eligible\<rparr>) in
      if lps_shadow ps then decide 0 Gate_shadow False
      else if eligible = [] then decide 0 Gate_none_eligible False
      else if lps_max_cost_usd_per_day ps \<le> lg_cost_usd l
      then decide 0 (Gate_cost_reached (lps_max_cost_usd_per_day ps)) True
      else let remaining = lps_max_investigations_per_day ps - lg_attempts l in
        if remaining \<le> 0
        then decide 0 (Gate_attempts_reached (lps_max_investigations_per_day ps)) True
        else let n = min (lps_max_investigations_per_cycle ps) (min remaining (int (length eligible))) in
          decide n (Gate_available n (lg_attempts l) (lps_max_investigations_per_day ps)) False)"

subsection \<open>Facts\<close>

lemma set_eligible: "set (eligible_hotspots ps hs) = {h \<in> set hs. above_floor ps h}"
  by (auto simp: eligible_hotspots_def)

lemma gate_eligible [simp]: "gd_eligible (evaluate_gate ps l hs) = eligible_hotspots ps hs"
  by (simp add: evaluate_gate_def Let_def)

text \<open>What an open gate has checked.\<close>

lemma gate_open:
  assumes "0 < gd_max_investigations (evaluate_gate ps l hs)"
  shows "\<not> lps_shadow ps" and "lg_cost_usd l < lps_max_cost_usd_per_day ps"
    and "gd_max_investigations (evaluate_gate ps l hs) \<le> lps_max_investigations_per_day ps - lg_attempts l"
    and "gd_max_investigations (evaluate_gate ps l hs) \<le> lps_max_investigations_per_cycle ps"
    and "\<not> gd_over_budget (evaluate_gate ps l hs)"
  using assms by (auto simp: evaluate_gate_def Let_def split: if_splits)

end
