(* ===== verification/Investigations.thy ===== *)
theory Investigations
  imports Governance Outbox
begin

section \<open>The investigations of a cycle\<close>

text \<open>
  \<open>ProactiveLoop._investigate\<close> and what it calls: the cooldown file, the gate and the records of the
  case service, and the loop over the hotspots the gate lets through, with its ledger updates. The
  investigator is a callback of the loop; a cancellation of the task reaches the loop as the
  exception \<open>CancelledError\<close>, which \<open>except Exception\<close> does not catch.
\<close>

datatype investigation_status = Inv_succeeded | Inv_failed | Inv_skipped

record investigation_outcome =
  io_incident_id :: "string option"
  io_cost_usd :: rat
  io_handoff_url :: "string option"
  io_status :: investigation_status
  io_reason :: string

type_synonym 'w investigator =
  "hotspot \<Rightarrow> decision_context \<Rightarrow> ('w, investigation_outcome option) callback"

definition is_cancelled :: "exn \<Rightarrow> bool" where
  "is_cancelled e \<longleftrightarrow> (case e of OtherError cls _ \<Rightarrow> cls = ''CancelledError'' | _ \<Rightarrow> False)"

text \<open>\<open>try: m except Exception as e: h(e)\<close>: a cancellation passes through.\<close>

definition except_exception :: "('s, 'a) comp \<Rightarrow> (exn \<Rightarrow> ('s, 'a) comp) \<Rightarrow> ('s, 'a) comp" where
  "except_exception m h = catchM m (\<lambda>e. if is_cancelled e then raiseM e else h e)"

lemma keeps_except [keeps_intros]:
  "keeps P m \<Longrightarrow> (\<And>e. keeps P (h e)) \<Longrightarrow> keeps P (except_exception m h)"
  unfolding except_exception_def by (intro keeps_intros)

subsection \<open>The cooldown file\<close>

definition cooling :: "rat \<Rightarrow> int \<Rightarrow> rat option \<Rightarrow> bool" where
  "cooling now cooldown stamp \<longleftrightarrow> (case stamp of None \<Rightarrow> False | Some t \<Rightarrow> now - t < of_int cooldown)"

definition recent_investigation_fps :: "loop_settings \<Rightarrow> ('w, string set) lp" where
  "recent_investigation_fps ps =
     (if lps_investigation_cooldown_s ps \<le> 0 then retM {}
      else bindM time_time (\<lambda>now.
        bindM (getM (\<lambda>w. lenient_load (lw_investigations w))) (\<lambda>d.
        retM (set (map fst (filter (\<lambda>(fp, t). cooling now (lps_investigation_cooldown_s ps) t) d))))))"

definition stamp_investigations ::
  "rat \<Rightarrow> int \<Rightarrow> string list \<Rightarrow> (string, rat option) dict \<Rightarrow> (string, rat option) dict" where
  "stamp_investigations now cooldown fps d =
     filter (\<lambda>(fp, t). cooling now cooldown t) (foldl (\<lambda>d fp. dict_set fp (Some now) d) d fps)"

definition record_investigations :: "loop_settings \<Rightarrow> string list \<Rightarrow> ('w, unit) lp" where
  "record_investigations ps fps =
     (if lps_investigation_cooldown_s ps \<le> 0 \<or> fps = [] then retM ()
      else bindM time_time (\<lambda>now.
        modM (\<lambda>w. w\<lparr>lw_investigations := dumped (stamp_investigations now
          (lps_investigation_cooldown_s ps) fps (lenient_load (lw_investigations w)))\<rparr>)))"

subsection \<open>The case service in control\<close>

text \<open>
  \<open>_case_service_should_investigate\<close>: a failure of the case service lets the investigation go ahead.
\<close>

definition case_should_investigate :: "service \<Rightarrow> hotspot \<Rightarrow> ('w, bool) lp" where
  "case_should_investigate sv h = except_exception
     (in_store (bindM (case_for_alias AT_source_fp (hotspot_fingerprint h)) (\<lambda>c.
        case c of None \<Rightarrow> retM True | Some c \<Rightarrow> should_investigate sv c None)))
     (\<lambda>e. retM True)"

definition investigation_diagnosis :: "jdict \<Rightarrow> string option \<Rightarrow> jdict" where
  "investigation_diagnosis existing incident =
     [(''incident_id'', (case incident of None \<Rightarrow> JNull | Some i \<Rightarrow> JStr i)),
      (''source'', JStr ''proactive_loop'')] @
     (case jget existing ''graph_summary'' of JDict d \<Rightarrow> [(''graph_summary'', JDict d)] | _ \<Rightarrow> [])"

definition case_record_investigation ::
  "service \<Rightarrow> hotspot \<Rightarrow> investigation_outcome \<Rightarrow> ('w, unit) lp" where
  "case_record_investigation sv h o' = except_exception
     (in_store (bindM (case_for_alias AT_source_fp (hotspot_fingerprint h)) (\<lambda>c.
        case c of None \<Rightarrow> retM ()
        | Some c \<Rightarrow> seqM (record_investigation_result sv (ac_case_id c)
              (investigation_diagnosis (ac_last_diagnosis c) (io_incident_id o')) [] ''complete'' [])
            (retM ()))))
     (\<lambda>e. retM ())"

text \<open>\<open>[h for h in hs if await p(h)]\<close>\<close>

primrec keepM :: "('a \<Rightarrow> ('s, bool) comp) \<Rightarrow> 'a list \<Rightarrow> ('s, 'a list) comp" where
  "keepM p [] = retM []"
| "keepM p (x # xs) = bindM (p x) (\<lambda>keep.
     bindM (keepM p xs) (\<lambda>ys. retM (if keep then x # ys else ys)))"

subsection \<open>One investigation\<close>

text \<open>
  The control service is None when the cooldown file decides. \<open>category\<close> is \<open>classify_exception\<close>,
  which names an exception's category.
\<close>

definition spend :: "(ledger \<Rightarrow> ledger) \<Rightarrow> ledger" where
  "spend f = f empty_ledger"

definition finish_investigation ::
  "service option \<Rightarrow> string \<Rightarrow> hotspot \<Rightarrow> investigation_outcome option \<Rightarrow> nat \<times> string list
    \<Rightarrow> ('w, nat \<times> string list) lp" where
  "finish_investigation control day h outcome acc = (case outcome of
     None \<Rightarrow>
       seqM (note_report (\<lambda>r. r\<lparr>cr_investigation_failed := cr_investigation_failed r @ [hs_key h]\<rparr>))
       (seqM (update_ledger day (spend (\<lambda>l. l\<lparr>lg_failed := 1\<rparr>)))
       (retM (fst acc, snd acc @ [hotspot_fingerprint h])))
   | Some res \<Rightarrow>
     (case io_status res of
        Inv_skipped \<Rightarrow>
          seqM (note_report (\<lambda>r. r\<lparr>
            cr_investigation_attempted := butlast (cr_investigation_attempted r),
            cr_investigation_skipped := cr_investigation_skipped r @ [hs_key h]\<rparr>))
          (seqM (update_ledger day (spend (\<lambda>l. l\<lparr>lg_attempts := -1, lg_skipped := 1\<rparr>)))
          (retM acc))
      | Inv_failed \<Rightarrow>
          seqM (note_report (\<lambda>r. r\<lparr>cr_investigation_failed := cr_investigation_failed r @ [hs_key h]\<rparr>))
          (seqM (update_ledger day (spend (\<lambda>l. l\<lparr>lg_failed := 1\<rparr>)))
          (seqM (note_report (\<lambda>r. r\<lparr>cr_cost_usd := round6 (cr_cost_usd r + io_cost_usd res)\<rparr>))
          (retM (fst acc, snd acc @ [hotspot_fingerprint h]))))
      | Inv_succeeded \<Rightarrow>
          seqM (note_report (\<lambda>r. r\<lparr>cr_investigated := cr_investigated r @ [hs_key h]\<rparr>))
          (seqM (update_ledger day (spend (\<lambda>l. l\<lparr>lg_investigations := 1, lg_succeeded := 1\<rparr>)))
          (seqM (note_report (\<lambda>r. r\<lparr>cr_cost_usd := round6 (cr_cost_usd r + io_cost_usd res)\<rparr>))
          (seqM (whenM (opt_truthy (io_handoff_url res))
            (note_report (\<lambda>r. r\<lparr>cr_handoffs := cr_handoffs r @ [the (io_handoff_url res)],
              cr_handoffs_by_key :=
                dict_set (hs_key h) (the (io_handoff_url res)) (cr_handoffs_by_key r)\<rparr>)))
          (seqM (case control of None \<Rightarrow> retM () | Some sv \<Rightarrow> case_record_investigation sv h res)
          (retM (Suc (fst acc), snd acc @ [hotspot_fingerprint h]))))))))"

definition abort_investigation ::
  "loop_settings \<Rightarrow> service option \<Rightarrow> (exn \<Rightarrow> string) \<Rightarrow> string \<Rightarrow> hotspot \<Rightarrow> exn
    \<Rightarrow> nat \<times> string list \<Rightarrow> ('w, nat \<times> string list) lp" where
  "abort_investigation ps control category day h e acc =
     (if is_cancelled e then
        seqM (update_ledger day (spend (\<lambda>l. l\<lparr>lg_failed := 1\<rparr>)))
        (seqM (whenM (control = None) (record_investigations ps [hotspot_fingerprint h]))
        (raiseM e))
      else
        seqM (note_report (\<lambda>r. r\<lparr>cr_errors := cr_errors r @ [category e],
          cr_investigation_failed := cr_investigation_failed r @ [hs_key h]\<rparr>))
        (seqM (update_ledger day (spend (\<lambda>l. l\<lparr>lg_failed := 1\<rparr>)))
        (retM (fst acc, snd acc @ [hotspot_fingerprint h]))))"

definition investigate_hotspot ::
  "loop_settings \<Rightarrow> service option \<Rightarrow> (exn \<Rightarrow> string) \<Rightarrow> 'w investigator \<Rightarrow> decision_context
    \<Rightarrow> string \<Rightarrow> hotspot \<Rightarrow> nat \<times> string list \<Rightarrow> ('w, nat \<times> string list) lp" where
  "investigate_hotspot ps control category ask decision day h acc =
     seqM (update_ledger day (spend (\<lambda>l. l\<lparr>lg_attempts := 1\<rparr>)))
     (seqM (note_report (\<lambda>r. r\<lparr>
        cr_investigation_attempted := cr_investigation_attempted r @ [hs_key h]\<rparr>))
     (bindM (tryM (call_out (ask h decision))) (\<lambda>result.
      case result of
        Inl e \<Rightarrow> abort_investigation ps control category day h e acc
      | Inr outcome \<Rightarrow> finish_investigation control day h outcome acc)))"

definition fresh_hotspots ::
  "loop_settings \<Rightarrow> service option \<Rightarrow> hotspot list \<Rightarrow> ('w, hotspot list) lp" where
  "fresh_hotspots ps control eligible = (case control of
     Some sv \<Rightarrow> keepM (case_should_investigate sv) eligible
   | None \<Rightarrow> bindM (recent_investigation_fps ps) (\<lambda>recent.
       retM (filter (\<lambda>h. hotspot_fingerprint h \<notin> recent) eligible)))"

definition investigate ::
  "loop_settings \<Rightarrow> service option \<Rightarrow> (exn \<Rightarrow> string) \<Rightarrow> 'w investigator option \<Rightarrow> gate_decision
    \<Rightarrow> decision_context \<Rightarrow> string \<Rightarrow> ('w, nat) lp" where
  "investigate ps control category investigator gate decision day = (case investigator of
     None \<Rightarrow> retM 0
   | Some ask \<Rightarrow>
     if gd_max_investigations gate \<le> 0 then retM 0
     else bindM (fresh_hotspots ps control (gd_eligible gate)) (\<lambda>fresh.
       seqM (note_report (\<lambda>r. r\<lparr>cr_investigation_skipped := cr_investigation_skipped r @
         map hs_key (filter (\<lambda>h. hotspot_fingerprint h \<notin> hotspot_fingerprint ` set fresh)
           (gd_eligible gate))\<rparr>))
       (bindM (foldM (investigate_hotspot ps control category ask decision day)
          (slice_to (gd_max_investigations gate) fresh) (0, [])) (\<lambda>acc.
       seqM (whenM (control = None) (record_investigations ps (snd acc)))
         (retM (fst acc))))))"

end
