(* ===== verification/Routing.thy ===== *)
theory Routing
  imports Hotspots
begin

section \<open>Routing an alert to a specialist\<close>

text \<open>
  \<open>app/graph/routing.py\<close>: the labels of an alert payload, the resource it is about, the specialist
  the supervisor chooses, and the node of the investigation graph that stands for it. The payload is
  a JSON dictionary. What \<open>str\<close> renders of a dictionary is \<^const>\<open>py_str\<close>.
\<close>

definition dict_of_json :: "json \<Rightarrow> jdict option" where
  "dict_of_json v = (case v of JDict d \<Rightarrow> Some d | _ \<Rightarrow> None)"

text \<open>\<open>if isinstance(v, dict): labels.update(v)\<close>\<close>

definition update_labels :: "json \<Rightarrow> jdict \<Rightarrow> jdict" where
  "update_labels v labels = (case dict_of_json v of None \<Rightarrow> labels | Some d \<Rightarrow> dict_update labels d)"

definition nested_labels :: "jdict \<Rightarrow> json" where
  "nested_labels payload = (case jget payload ''alerts'' of
     JList (JDict a # _) \<Rightarrow> jget a ''labels'' | _ \<Rightarrow> JNull)"

definition labels_from_alert :: "jdict \<Rightarrow> jdict" where
  "labels_from_alert payload =
     update_labels (nested_labels payload)
       (update_labels (jget payload ''commonLabels'') (update_labels (jget payload ''groupLabels'') []))"

text \<open>The host of an \<open>instance\<close> label: out of brackets, or without the port after a single colon.\<close>

definition instance_host :: "string \<Rightarrow> string" where
  "instance_host i =
     (if take 1 i = ''['' \<and> CHR '']'' \<in> set i then takeWhile (\<lambda>c. c \<noteq> CHR '']'') (drop 1 i)
      else if count_list i (CHR '':'') = 1 then takeWhile (\<lambda>c. c \<noteq> CHR '':'') i
      else i)"

definition resource_id_from_alert :: "jdict \<Rightarrow> string" where
  "resource_id_from_alert payload =
     (let labels = labels_from_alert payload;
          host = or_json (jget labels ''host'') (jget labels ''hostname'')
      in if truthy host then py_str host
         else if truthy (jget labels ''instance'') then instance_host (py_str (jget labels ''instance''))
         else py_str (or_json (jget payload ''source'') (JStr ''unknown'')))"

subsection \<open>The supervisor\<close>

record route =
  rt_specialist :: specialist
  rt_reason :: string

definition routing_blob :: "jdict \<Rightarrow> jdict \<Rightarrow> string" where
  "routing_blob labels payload =
     py_lower (py_join '' '' [py_str (JDict labels), py_str (JDict payload)])"

definition bgp_tokens :: "string list" where
  "bgp_tokens = [''bgp'', ''peer'', ''route'', ''frr'', ''ospf'']"

definition firewall_tokens :: "string list" where
  "firewall_tokens = [''pf'', ''nft'', ''firewall'', ''icmp unreachable'', ''drop'', ''blocked'']"

definition hinted_specialist :: "string \<Rightarrow> specialist option" where
  "hinted_specialist s =
     List.find (\<lambda>p. specialist_str p = s) [Spec_bgp, Spec_security_firewall, Spec_infrastructure]"

definition supervisor_route :: "jdict \<Rightarrow> route" where
  "supervisor_route alert =
     (let labels = labels_from_alert alert;
          hint = py_strip (str_or_empty (jget labels ''specialist_hint''));
          blob = routing_blob labels alert
      in case hinted_specialist hint of
        Some s \<Rightarrow> \<lparr>rt_specialist = s, rt_reason = ''Explicit specialist hint from alert labels.''\<rparr>
      | None \<Rightarrow>
          if \<exists>t \<in> set bgp_tokens. str_in t blob then
            \<lparr>rt_specialist = Spec_bgp, rt_reason =
              ''Routing keywords in the alert payload indicate a control-plane investigation.''\<rparr>
          else if \<exists>t \<in> set firewall_tokens. str_in t blob then
            \<lparr>rt_specialist = Spec_security_firewall, rt_reason =
              ''Firewall or packet-filter symptoms dominate the alert payload.''\<rparr>
          else
            \<lparr>rt_specialist = Spec_infrastructure, rt_reason =
              ''The alert is host/service oriented rather than routing-specific.''\<rparr>)"

text \<open>The state's \<open>active_specialist\<close> and \<open>specialist_type\<close>, and the node they lead to.\<close>

definition route_specialist :: "string \<Rightarrow> string \<Rightarrow> string" where
  "route_specialist active specialist_type =
     (let s = or_str active specialist_type in
      if s = ''bgp'' then ''bgp_specialist''
      else if s = ''security_firewall'' then ''firewall_specialist''
      else ''infrastructure_specialist'')"

definition is_direct_measurement :: "string \<Rightarrow> bool" where
  "is_direct_measurement v \<longleftrightarrow> (\<exists>t \<in> set [''tcpdump'', ''pflog'', ''nft_log'', ''ndp'', ''arp_state'', ''capture''].
     str_in t (py_lower v))"

subsection \<open>Facts\<close>

lemma hinted_specialist_str [simp]: "hinted_specialist (specialist_str s) = Some s"
  by (cases s) (simp_all add: hinted_specialist_def)

lemma py_strip_specialist [simp]: "py_strip (specialist_str s) = specialist_str s"
  by (cases s) (simp_all add: py_strip_def is_space_def code_def)

text \<open>The labels a hotspot's synthetic alert carries are those of its dictionary of labels.\<close>

lemma dict_get_hint:
  "dict_get (rev (alert_label_dict h)) ''specialist_hint'' =
     map_option (\<lambda>s. JStr (specialist_str s)) (hs_suggested_specialist h)"
  by (cases "hs_suggested_specialist h") (simp_all add: alert_label_dict_def)

lemma labels_of_hotspot_alert:
  "jget (labels_from_alert (hotspot_to_alert_payload h)) ''specialist_hint'' =
     (case hs_suggested_specialist h of None \<Rightarrow> JNull | Some s \<Rightarrow> JStr (specialist_str s))"
  by (simp add: labels_from_alert_def hotspot_to_alert_payload_def Let_def nested_labels_def
      update_labels_def dict_of_json_def jget_def dict_get_update dict_get_hint split: option.splits)

lemma hotspot_alert_routed:
  assumes "hs_suggested_specialist h = Some s"
  shows "rt_specialist (supervisor_route (hotspot_to_alert_payload h)) = s"
  by (simp add: supervisor_route_def Let_def labels_of_hotspot_alert assms)

end
