(* ===== verification/Py_Url.thy ===== *)
theory Py_Url
  imports Py_Text
begin

section \<open>The host name of a URL\<close>

text \<open>
  \<open>urlsplit(url).hostname\<close> of the standard library: the scheme, the part between the two slashes and
  the next \<open>/\<close>, \<open>?\<close> or \<open>#\<close>, without user and port, in lower case up to a zone. A \<open>ValueError\<close> (unmatched
  brackets, brackets around something else than an IPv6 address) is the outer None, a URL without a
  host the inner one.
\<close>

text \<open>\<open>s.partition(c)\<close> and \<open>s.rpartition(c)\<close>: before, whether \<open>c\<close> occurs, after.\<close>

definition partition_at :: "char \<Rightarrow> string \<Rightarrow> string \<times> bool \<times> string" where
  "partition_at c s = (takeWhile (\<lambda>x. x \<noteq> c) s, c \<in> set s, drop 1 (dropWhile (\<lambda>x. x \<noteq> c) s))"

definition after_last :: "char \<Rightarrow> string \<Rightarrow> string" where
  "after_last c s = rev (takeWhile (\<lambda>x. x \<noteq> c) (rev s))"

text \<open>\<open>s.split(c)\<close>\<close>

fun split_on :: "char \<Rightarrow> string \<Rightarrow> string list" where
  "split_on c [] = [[]]"
| "split_on c (x # s) =
     (if x = c then [] # split_on c s
      else case split_on c s of [] \<Rightarrow> [[x]] | w # ws \<Rightarrow> (x # w) # ws)"

definition is_hex :: "char \<Rightarrow> bool" where
  "is_hex c \<longleftrightarrow> is_digit c \<or> (97 \<le> code c \<and> code c \<le> 102) \<or> (65 \<le> code c \<and> code c \<le> 70)"

subsection \<open>IPv6 addresses\<close>

definition valid_octet :: "string \<Rightarrow> bool" where
  "valid_octet s \<longleftrightarrow> s \<noteq> [] \<and> length s \<le> 3 \<and> (length s = 1 \<or> hd s \<noteq> CHR ''0'') \<and>
     (case parse_digits s of None \<Rightarrow> False | Some n \<Rightarrow> n \<le> 255)"

definition valid_ipv4 :: "string \<Rightarrow> bool" where
  "valid_ipv4 s \<longleftrightarrow> (let parts = split_on (CHR ''.'') s in length parts = 4 \<and> list_all valid_octet parts)"

definition valid_hextet :: "string \<Rightarrow> bool" where
  "valid_hextet s \<longleftrightarrow> s \<noteq> [] \<and> length s \<le> 4 \<and> list_all is_hex s"

text \<open>
  The groups of an address: at least three, a dotted last one counting for two, at most nine; one
  empty inner group stands for at least one group of zeros, and only next to it may the address begin
  or end with a colon.
\<close>

definition valid_groups :: "string list \<Rightarrow> bool" where
  "valid_groups parts \<longleftrightarrow>
     (let n = length parts; inner = filter (\<lambda>i. 0 < i \<and> i < n - 1 \<and> parts ! i = []) [0..<n] in
      3 \<le> n \<and> n \<le> 9 \<and>
      (case inner of
         [] \<Rightarrow> n = 8 \<and> list_all valid_hextet parts
       | [k] \<Rightarrow>
           let hi = take k parts; lo = drop (Suc k) parts;
               hi' = (if hd parts = [] then tl hi else hi);
               lo' = (if last parts = [] then butlast lo else lo)
           in (hd parts = [] \<longrightarrow> hi' = []) \<and> (last parts = [] \<longrightarrow> lo' = []) \<and>
              length hi' + length lo' < 8 \<and> list_all valid_hextet (hi' @ lo')
       | _ \<Rightarrow> False))"

definition valid_ipv6 :: "string \<Rightarrow> bool" where
  "valid_ipv6 s \<longleftrightarrow>
     (let (addr, scoped, scope) = partition_at (CHR ''%'') s; parts = split_on (CHR '':'') addr in
      CHR ''/'' \<notin> set s \<and> (scoped \<longrightarrow> scope \<noteq> [] \<and> CHR ''%'' \<notin> set scope) \<and>
      3 \<le> length parts \<and>
      (if CHR ''.'' \<in> set (last parts)
       then valid_ipv4 (last parts) \<and> valid_groups (butlast parts @ [''0'', ''0''])
       else valid_groups parts))"

text \<open>\<open>_check_bracketed_host\<close>: an IPv6 address, or \<open>v\<close>, hexadecimal digits, a dot and something.\<close>

definition valid_bracketed :: "string \<Rightarrow> bool" where
  "valid_bracketed s \<longleftrightarrow>
     (case s of c # r \<Rightarrow>
        if c = CHR ''v''
        then takeWhile is_hex r \<noteq> [] \<and>
          (case dropWhile is_hex r of d # rest \<Rightarrow> d = CHR ''.'' \<and> rest \<noteq> [] | [] \<Rightarrow> False)
        else valid_ipv6 s
      | [] \<Rightarrow> False)"

subsection \<open>Splitting\<close>

definition scheme_char :: "char \<Rightarrow> bool" where
  "scheme_char c \<longleftrightarrow> is_alnum c \<or> c = CHR ''+'' \<or> c = CHR ''-'' \<or> c = CHR ''.''"

text \<open>What follows the scheme, if the text before the first colon is one.\<close>

definition after_scheme :: "string \<Rightarrow> string" where
  "after_scheme url =
     (let (before, colon, after) = partition_at (CHR '':'') url in
      if colon \<and> before \<noteq> [] \<and> (is_upper (hd before) \<or> is_lower (hd before)) \<and> list_all scheme_char before
      then after else url)"

definition url_netloc :: "string \<Rightarrow> string" where
  "url_netloc url =
     (let cleaned = filter (\<lambda>c. code c \<noteq> 9 \<and> code c \<noteq> 10 \<and> code c \<noteq> 13)
            (dropWhile (\<lambda>c. code c \<le> 32) url);
          rest = after_scheme cleaned
      in if take 2 rest = ''//''
         then takeWhile (\<lambda>c. c \<noteq> CHR ''/'' \<and> c \<noteq> CHR ''?'' \<and> c \<noteq> CHR ''#'') (drop 2 rest)
         else [])"

text \<open>The host of \<open>_hostinfo\<close>, and what \<open>urlsplit\<close> checks about brackets.\<close>

definition netloc_host :: "string \<Rightarrow> string" where
  "netloc_host netloc =
     (let hostinfo = after_last (CHR ''@'') netloc;
          (_, bracket, bracketed) = partition_at (CHR ''['') hostinfo
      in if bracket then fst (partition_at (CHR '']'') bracketed)
         else fst (partition_at (CHR '':'') hostinfo))"

definition netloc_ok :: "string \<Rightarrow> bool" where
  "netloc_ok netloc \<longleftrightarrow>
     (CHR ''['' \<in> set netloc \<longleftrightarrow> CHR '']'' \<in> set netloc) \<and>
     (CHR ''['' \<in> set netloc \<longrightarrow>
       (let hostinfo = after_last (CHR ''@'') netloc;
            (before, bracket, bracketed) = partition_at (CHR ''['') hostinfo;
            port = snd (snd (partition_at (CHR '']'') bracketed))
        in (bracket \<longrightarrow> before = [] \<and> (port \<noteq> [] \<longrightarrow> hd port = CHR '':'')) \<and>
           valid_bracketed (netloc_host netloc)))"

definition url_hostname :: "string \<Rightarrow> string option option" where
  "url_hostname url =
     (let netloc = url_netloc url; host = netloc_host netloc;
          (name, percent, zone) = partition_at (CHR ''%'') host
      in if \<not> netloc_ok netloc then None
         else if host = [] then Some None
         else Some (Some (py_lower name @ (if percent then ''%'' else []) @ zone)))"

lemma url_hostname_example:
  "url_hostname ''https://user:pw@Mail.Example.net:8443/x?y'' = Some (Some ''mail.example.net'')"
  by code_simp

lemma url_hostname_ipv6:
  "url_hostname ''http://[2a0c:b641::1]:9100/metrics'' = Some (Some ''2a0c:b641::1'')"
  "url_hostname ''http://[::1'' = None" "url_hostname ''tcp://[1.2.3.4]'' = None"
  "url_hostname ''1x://host'' = Some None"
  by code_simp+

end
