(* ===== verification/Scanner.thy ===== *)
theory Scanner
  imports Investigations Routing Py_Float Py_Url Py_Regex
begin

section \<open>The scan rules\<close>

text \<open>
  \<open>app/proactive/scanner.py\<close>: what Prometheus answers becomes samples, six rules turn samples into
  hotspots, and \<open>scan\<close> runs the rules and merges what they found. The tool that answers a query is a
  parameter, a callback that may raise; so is what compiling the operator's extra patterns for benign
  units gives. \<open>asyncio.gather\<close> runs the rules interleaved; here they run one after the other, which only
  changes the order in which the hotspots read the clock and the tool is called.
\<close>

subsection \<open>Samples\<close>

record sample =
  sm_labels :: "(string, string) dict"
  sm_value :: pynum

definition to_float :: "json \<Rightarrow> pynum option" where
  "to_float v = float_of_json (case v of JList [_, x] \<Rightarrow> x | _ \<Rightarrow> v)"

definition prom_response_ok :: "json \<Rightarrow> bool" where
  "prom_response_ok resp = (case resp of
     JDict d \<Rightarrow>
       (if jget d ''ok'' = JBool False then False
        else if dict_get d ''result'' \<noteq> None then True
        else (case jget d ''data'' of JDict data \<Rightarrow> dict_get data ''result'' \<noteq> None | _ \<Rightarrow> False))
   | _ \<Rightarrow> False)"

definition row_sample :: "json \<Rightarrow> sample option" where
  "row_sample row = (case row of
     JDict d \<Rightarrow> (case to_float (jget d ''value'') of None \<Rightarrow> None
       | Some x \<Rightarrow> Some \<lparr>sm_labels = (case jget d ''metric'' of
           JDict m \<Rightarrow> map (\<lambda>(k, v). (k, py_str v)) m | _ \<Rightarrow> []), sm_value = x\<rparr>)
   | _ \<Rightarrow> None)"

definition response_rows :: "jdict \<Rightarrow> json" where
  "response_rows d = (let rows = jget d ''result'' in
     if rows = JNull then (case jget d ''data'' of JDict data \<Rightarrow> jget data ''result'' | _ \<Rightarrow> JNull)
     else rows)"

definition parse_prom_vector :: "json \<Rightarrow> sample list" where
  "parse_prom_vector resp = (case resp of
     JDict d \<Rightarrow>
       (if jget d ''ok'' = JBool False then []
        else (case response_rows d of JList rows \<Rightarrow> List.map_filter row_sample rows | _ \<Rightarrow> []))
   | _ \<Rightarrow> [])"

subsection \<open>The context of a scan\<close>

text \<open>The case store and the outside world, and the flag \<open>degraded\<close>.\<close>

type_synonym 'w scan_state = "(store \<times> 'w) \<times> bool"

type_synonym ('w, 'a) sc = "('w scan_state, 'a) comp"

type_synonym 'w prom_tool = "string \<Rightarrow> ('w, json) callback"

definition in_world :: "('w, 'a) callback \<Rightarrow> ('w, 'a) sc" where
  "in_world m = zoomM fst (\<lambda>w s. (w, snd s)) m"

definition set_degraded :: "('w, unit) sc" where
  "set_degraded = modM (\<lambda>s. (fst s, True))"

definition prom :: "'w prom_tool \<Rightarrow> string \<Rightarrow> ('w, sample list) sc" where
  "prom tool query =
     bindM (except_exception (bindM (in_world (tool query)) (\<lambda>resp. retM (Some resp))) (\<lambda>e. retM None)) (\<lambda>answer.
     case answer of None \<Rightarrow> seqM set_degraded (retM [])
     | Some resp \<Rightarrow>
         if prom_response_ok resp then retM (parse_prom_vector resp) else seqM set_degraded (retM []))"

text \<open>A hotspot is dated by the clock, which the store carries.\<close>

definition make_hotspot :: "string \<Rightarrow> string \<Rightarrow> (hotspot \<Rightarrow> hotspot) \<Rightarrow> ('w, hotspot) sc" where
  "make_hotspot rule_id key given =
     in_world (zoomM fst (\<lambda>s w. (s, snd w)) (new_hotspot rule_id key None given))"

definition score :: "nat \<Rightarrow> pyfloat" where
  "score n = \<lparr>pf_value = of_nat n, pf_repr = nat_str n @ ''.0''\<rparr>"

definition label_or :: "sample \<Rightarrow> string \<Rightarrow> string \<Rightarrow> string" where
  "label_or s k d = (case dict_get (sm_labels s) k of None \<Rightarrow> d | Some v \<Rightarrow> v)"

definition host_or :: "sample \<Rightarrow> string \<Rightarrow> string" where
  "host_or s d = or_str (instance_host (label_or s ''instance'' [])) d"

definition evidence :: "string \<Rightarrow> string \<Rightarrow> string \<Rightarrow> string \<Rightarrow> string \<Rightarrow> hotspot_evidence" where
  "evidence label query val threshold detail = \<lparr>he_label = label, he_query = query, he_value = val,
     he_threshold = threshold, he_detail = detail\<rparr>"

subsection \<open>BGP peers\<close>

definition bgp_state_query :: string where
  \<open>bgp_state_query = ''frr_bgp_peer_state{state!="Established"} == 1''\<close>

definition bgp_flap_query :: string where
  "bgp_flap_query = ''changes(frr_bgp_peer_state[1h]) >= 4''"

definition bgp_peer :: "sample \<Rightarrow> string" where
  "bgp_peer s = or_str (or_str (label_or s ''peer'' []) (label_or s ''neighbor'' [])) ''unknown''"

definition bgp_rationale :: string where
  "bgp_rationale = ''Recurrent BGP flap may need timer/policy or peer-side coordination.''"

definition bgp_down :: "string \<Rightarrow> string \<Rightarrow> string \<Rightarrow> hotspot \<Rightarrow> hotspot" where
  "bgp_down host peer state h = h\<lparr>
     hs_category := Cat_bgp, hs_severity := Sev_medium, hs_score := score 240,
     hs_title := ''BGP peer '' @ peer @ '' not Established'', hs_resource := host,
     hs_summary := ''Peer '' @ peer @ '' on '' @ host @ '' is in state '' @ state @
       '' (pre-alert; BGPSessionDown fires after 2m).'',
     hs_evidence := [evidence (''bgp peer state '' @ host @ ''/'' @ peer) [] state ''Established'' []],
     hs_recommended_checks := [''frr_vtysh_cmd on '' @ host @ '': show bgp summary'',
       ''check peer '' @ peer @ '' session logs''],
     hs_suggested_specialist := Some Spec_bgp, hs_warrants_change := False\<rparr>"

definition bgp_flap_evidence :: "string \<Rightarrow> string \<Rightarrow> int \<Rightarrow> hotspot_evidence" where
  "bgp_flap_evidence host peer flaps =
     evidence (''bgp state changes/1h '' @ host @ ''/'' @ peer) ''changes(frr_bgp_peer_state[1h])''
       (int_str flaps) ''>=4'' ''session flapping''"

text \<open>A peer found down that also flaps: the fields of the hotspot are assigned, with no validation.\<close>

definition bgp_also_flapping :: "string \<Rightarrow> string \<Rightarrow> int \<Rightarrow> hotspot \<Rightarrow> hotspot" where
  "bgp_also_flapping host peer flaps h = h\<lparr>
     hs_severity := Sev_high, hs_score := score 320,
     hs_summary := hs_summary h @ '' Also flapping: '' @ int_str flaps @ '' state changes in the last hour.'',
     hs_evidence := hs_evidence h @ [bgp_flap_evidence host peer flaps],
     hs_warrants_change := True, hs_change_rationale := bgp_rationale\<rparr>"

definition bgp_flapping :: "string \<Rightarrow> string \<Rightarrow> int \<Rightarrow> hotspot \<Rightarrow> hotspot" where
  "bgp_flapping host peer flaps h = h\<lparr>
     hs_category := Cat_bgp, hs_severity := (if 8 \<le> flaps then Sev_high else Sev_medium),
     hs_score := (if 8 \<le> flaps then score 300 else score 230),
     hs_title := ''BGP peer '' @ peer @ '' flapping'', hs_resource := host,
     hs_summary := ''Peer '' @ peer @ '' on '' @ host @ '' flapped '' @ int_str flaps @
       '' times in the last hour.'',
     hs_evidence := [bgp_flap_evidence host peer flaps],
     hs_recommended_checks := [''frr_vtysh_cmd on '' @ host @ '': show bgp neighbor '' @ peer],
     hs_suggested_specialist := Some Spec_bgp, hs_warrants_change := True,
     hs_change_rationale := bgp_rationale\<rparr>"

definition bgp_down_step :: "sample \<Rightarrow> (string, hotspot) dict \<Rightarrow> ('w, (string, hotspot) dict) sc" where
  "bgp_down_step s found =
     (let peer = bgp_peer s; host = host_or s ''router''; key = host @ '':'' @ peer in
      bindM (make_hotspot ''bgp_risk'' key (bgp_down host peer (label_or s ''state'' ''unknown''))) (\<lambda>h.
      retM (dict_set key h found)))"

definition bgp_flap_step :: "sample \<Rightarrow> (string, hotspot) dict \<Rightarrow> ('w, (string, hotspot) dict) sc" where
  "bgp_flap_step s found =
     (let peer = bgp_peer s; host = host_or s ''router''; key = host @ '':'' @ peer in
      bindM (liftM (num_int (sm_value s))) (\<lambda>flaps.
      case dict_get found key of
        Some h \<Rightarrow> retM (dict_set key (bgp_also_flapping host peer flaps h) found)
      | None \<Rightarrow> bindM (make_hotspot ''bgp_risk'' key (bgp_flapping host peer flaps)) (\<lambda>h.
          retM (dict_set key h found))))"

definition rule_bgp_risk :: "'w prom_tool \<Rightarrow> ('w, hotspot list) sc" where
  "rule_bgp_risk tool =
     bindM (prom tool bgp_state_query) (\<lambda>down.
     bindM (foldM bgp_down_step down []) (\<lambda>found.
     bindM (prom tool bgp_flap_query) (\<lambda>flapping.
     bindM (foldM bgp_flap_step flapping found) (\<lambda>found. retM (dict_values found)))))"

subsection \<open>Filling disks\<close>

definition fs_exclude :: string where
  \<open>fs_exclude = ''fstype!~"tmpfs|ramfs|overlay|squashfs|devtmpfs|fuse.*|nsfs|autofs"''\<close>

definition disk_free_query :: string where
  "disk_free_query = ''node_filesystem_avail_bytes{'' @ fs_exclude @ ''} / node_filesystem_size_bytes{'' @
     fs_exclude @ ''}''"

definition disk_fills_query :: string where
  "disk_fills_query = ''predict_linear(node_filesystem_avail_bytes{'' @ fs_exclude @ ''}[6h], 86400) <= 0''"

definition fs_key :: "sample \<Rightarrow> string" where
  "fs_key s = label_or s ''instance'' [] @ ''|'' @ label_or s ''mountpoint'' []"

definition disk_skipped :: "bool \<Rightarrow> pynum \<Rightarrow> bool" where
  "disk_skipped soon ratio \<longleftrightarrow> num_le (Finite (20 / 100)) ratio \<and> \<not> soon"

definition disk_urgent :: "bool \<Rightarrow> pynum \<Rightarrow> bool" where
  "disk_urgent soon ratio \<longleftrightarrow> soon \<or> num_less ratio (Finite (10 / 100))"

definition disk_low :: "string \<Rightarrow> string \<Rightarrow> bool \<Rightarrow> pynum \<Rightarrow> hotspot \<Rightarrow> hotspot" where
  "disk_low host mount soon ratio h =
     (let pct = rounded_str 1 (num_times 100 ratio); urgent = disk_urgent soon ratio;
          detail = (if soon then ''projected to fill within 24h'' else ''low free space'')
      in h\<lparr>
     hs_category := Cat_disk, hs_severity := (if urgent then Sev_high else Sev_medium),
     hs_score := (if urgent then score 360 else score 250),
     hs_title := ''Disk '' @ mount @ '' low on '' @ host, hs_resource := host,
     hs_summary := host @ '':'' @ mount @ '' has '' @ pct @ ''% free ('' @ detail @ '').'',
     hs_evidence := [evidence (''free ratio '' @ host @ '':'' @ mount)
       ''node_filesystem_avail_bytes / node_filesystem_size_bytes'' (pct @ ''%'')
       ''<20% (HIGH <10% or fills <24h)'' detail],
     hs_recommended_checks := [''os_journalctl / du on '' @ host @ '':'' @ mount,
       ''identify largest growing path; check log rotation / retention''],
     hs_suggested_specialist := Some Spec_infrastructure, hs_warrants_change := urgent,
     hs_change_rationale :=
       (if urgent then ''Retention/rotation or volume sizing may need a config change.'' else [])\<rparr>)"

definition disk_step :: "string set \<Rightarrow> sample \<Rightarrow> hotspot list \<Rightarrow> ('w, hotspot list) sc" where
  "disk_step fills s found =
     (let soon = (fs_key s \<in> fills); ratio = sm_value s;
          host = host_or s ''host''; mount = label_or s ''mountpoint'' ''?''
      in if disk_skipped soon ratio then retM found
         else bindM (make_hotspot ''disk_fill'' (host @ '':'' @ mount) (disk_low host mount soon ratio)) (\<lambda>h.
           retM (found @ [h])))"

definition rule_disk_fill :: "'w prom_tool \<Rightarrow> ('w, hotspot list) sc" where
  "rule_disk_fill tool =
     bindM (prom tool disk_free_query) (\<lambda>ratios.
     bindM (prom tool disk_fills_query) (\<lambda>filling.
     foldM (disk_step (set (map fs_key filling)))
       (dict_values (dict_of (map (\<lambda>s. (fs_key s, s)) ratios))) []))"

subsection \<open>Flapping scrape targets\<close>

definition scrape_query :: string where
  "scrape_query = ''changes(up[2h]) >= 4''"

definition any_but_newline :: "char \<Rightarrow> bool" where
  "any_but_newline c \<longleftrightarrow> code c \<noteq> 10"

definition rx_exact :: "string \<Rightarrow> rx" where
  "rx_exact w = foldr (\<lambda>c r. Rx_Seq (Rx_Class (\<lambda>d. d = c)) r) w Rx_Eps"

definition rx_blackbox :: rx where
  "rx_blackbox = Rx_Seq (rx_exact ''blackbox'') (Rx_Opt (rx_seq
     [rx_exact ''-'',
      rx_alts (rx_exact ''dns'') (map rx_exact [''icmp'', ''http'', ''tcp'', ''bgpalerter'']),
      Rx_Opt (Rx_Seq (rx_exact ''-'') (Rx_Star any_but_newline))]))"

text \<open>\<open>re.fullmatch\<close>\<close>

definition is_blackbox :: "string \<Rightarrow> bool" where
  "is_blackbox job \<longleftrightarrow> list_ex (\<lambda>p. snd p = []) (rx_match rx_blackbox (None, job))"

definition is_url :: "string \<Rightarrow> bool" where
  "is_url i \<longleftrightarrow> str_in ''://'' i"

definition url_host :: "string \<Rightarrow> string" where
  "url_host i = (case url_hostname i of Some (Some h) \<Rightarrow> or_str h ''URL target'' | _ \<Rightarrow> ''URL target'')"

text \<open>The host a target is shown by, and the identity its key is built from.\<close>

definition scrape_name :: "string \<Rightarrow> string" where
  "scrape_name i = or_str (or_str (instance_host i) i) ''target''"

definition scrape_host :: "string \<Rightarrow> string" where
  "scrape_host i = (if is_url i then url_host i else scrape_name i)"

definition scrape_identity :: "string \<Rightarrow> string" where
  "scrape_identity i = (if is_url i then ''url-'' @ sha256_hex i else scrape_name i)"

definition exact_probe_check :: "string \<Rightarrow> string \<Rightarrow> string" where
  "exact_probe_check i job =
     ''compare probe_success{job='' @ json_str job @ '',instance='' @ json_str i @
     ''} when matching up == 1; the instance label identifies the probe target, not necessarily the exporter''"

definition probe_check :: "string \<Rightarrow> string \<Rightarrow> string" where
  "probe_check i job =
     (if is_url i \<or> sanitize_label 200 (exact_probe_check i job) \<noteq> exact_probe_check i job
      then ''compare probe_success using exact job/instance labels from Prometheus Targets when '' @
        ''matching up == 1; instance is the probe target, not necessarily the exporter''
      else exact_probe_check i job)"

definition scrape_checks :: "string \<Rightarrow> string \<Rightarrow> string list" where
  "scrape_checks i job =
     (let exporter = (if is_blackbox job then ''blackbox exporter'' else ''exporter'') in
      (if is_blackbox job then probe_check i job
       else ''check '' @ scrape_host i @ '' exporter logs and host reboot/OOM history'') #
      (if is_url i then [''match target ID by SHA-256 hashing exact instance labels from Prometheus Targets locally'']
       else []) @
      [''correlate Prometheus scrape errors with '' @ exporter @ '' availability and maintenance'',
       ''check shared scraper/'' @ exporter @ '' resource pressure and scraper-to-exporter reachability''])"

definition target_ref :: "string \<Rightarrow> string" where
  "target_ref i = (if is_url i
     then ''Target ID (SHA-256 of exact UTF-8 instance): '' @ drop 4 (scrape_identity i) @ ''. '' else [])"

definition scrape_flapping :: "string \<Rightarrow> string \<Rightarrow> int \<Rightarrow> hotspot \<Rightarrow> hotspot" where
  "scrape_flapping i job flaps h =
     (let host = scrape_host i; high = (8 \<le> flaps) in h\<lparr>
     hs_category := Cat_scrape, hs_severity := (if high then Sev_high else Sev_medium),
     hs_score := (if high then score 300 else score 220),
     hs_title := ''Scrape target '' @ host @ '' flapping'', hs_resource := host,
     hs_summary := target_ref i @ ''Prometheus scrape availability for '' @ host @ '' (job '' @ job @
       '') changed '' @ int_str flaps @ '' times in 2h. This measures collection health; it does not '' @
       ''establish a DNS, BGP, or other service outage.'',
     hs_evidence := [evidence (''up changes/2h '' @ host) ''changes(up[2h])'' (int_str flaps) ''>=4'' []],
     hs_recommended_checks := scrape_checks i job,
     hs_suggested_specialist := Some Spec_infrastructure\<rparr>)"

definition scrape_step :: "sample \<Rightarrow> hotspot list \<Rightarrow> ('w, hotspot list) sc" where
  "scrape_step s found =
     (let i = label_or s ''instance'' []; job = label_or s ''job'' [] in
      bindM (liftM (num_int (sm_value s))) (\<lambda>flaps.
      bindM (make_hotspot ''scrape_flap'' (scrape_identity i @ '':'' @ job) (scrape_flapping i job flaps)) (\<lambda>h.
      retM (found @ [h]))))"

definition rule_scrape_flap :: "'w prom_tool \<Rightarrow> ('w, hotspot list) sc" where
  "rule_scrape_flap tool = bindM (prom tool scrape_query) (\<lambda>flapping. foldM scrape_step flapping [])"

subsection \<open>Service churn\<close>

definition restart_query :: string where
  "restart_query = ''increase(node_systemd_service_restart_total[2h]) >= 3''"

definition failed_query :: string where
  \<open>failed_query = ''node_systemd_unit_state{state="failed"} == 1 and changes(node_systemd_unit_state{state="failed"}[2h]) > 0''\<close>

text \<open>The patterns of benign units, in any case, with the operator's after them.\<close>

definition benign_unit_patterns :: "rx list" where
  "benign_unit_patterns =
     [Rx_Seq (rx_lit ''cloud-init'') (Rx_Star any_but_newline),
      Rx_Seq (rx_lit ''cloud-config'') (Rx_Star any_but_newline),
      Rx_Seq (rx_lit ''cloud-final'') (Rx_Star any_but_newline),
      Rx_Seq (Rx_Star any_but_newline) (rx_lit ''-resolvconf''),
      rx_lit ''openipmi'',
      Rx_Seq (rx_lit ''ipmi'') (Rx_Star any_but_newline)]"

definition benign_unit_rx :: "rx list \<Rightarrow> rx" where
  "benign_unit_rx extra =
     (let ps = benign_unit_patterns @ extra in
      Rx_Seq (rx_alts (hd ps) (tl ps)) (Rx_Opt (rx_lit ''.service'')))"

text \<open>\<open>matcher.match(text)\<close>: the pattern ends in \<open>$\<close>, which is the end or a last line break.\<close>

definition matches_to_end :: "rx \<Rightarrow> string \<Rightarrow> bool" where
  "matches_to_end r s \<longleftrightarrow>
     list_ex (\<lambda>p. snd p = [] \<or> snd p = [CHR 0x0A]) (rx_match r (None, s))"

definition unit_name :: "string \<Rightarrow> string" where
  "unit_name u =
     (let n = length u - 8 in if 8 \<le> length u \<and> drop n u = ''.service'' then take n u else u)"

definition is_benign_unit :: "rx list \<Rightarrow> string \<Rightarrow> bool" where
  "is_benign_unit extra u \<longleftrightarrow>
     matches_to_end (benign_unit_rx extra) u \<or> matches_to_end (benign_unit_rx extra) (unit_name u)"

definition unit_of :: "sample \<Rightarrow> string" where
  "unit_of s = or_str (or_str (label_or s ''name'' []) (label_or s ''unit'' [])) ''unit''"

definition unit_churn :: "string \<Rightarrow> string \<Rightarrow> int \<Rightarrow> hotspot \<Rightarrow> hotspot" where
  "unit_churn host u restarts h =
     (let high = (6 \<le> restarts) in h\<lparr>
     hs_category := Cat_service, hs_severity := (if high then Sev_high else Sev_medium),
     hs_score := (if high then score 300 else score 230),
     hs_title := u @ '' restart churn on '' @ host, hs_resource := host,
     hs_summary := u @ '' on '' @ host @ '' restarted ~'' @ int_str restarts @ '' times in 2h.'',
     hs_evidence := [evidence (''restarts/2h '' @ host @ ''/'' @ u)
       ''increase(node_systemd_service_restart_total[2h])'' (int_str restarts) ''>=3'' []],
     hs_recommended_checks := [''os_service_logs '' @ u @ '' on '' @ host, ''check for crash loop / config error''],
     hs_suggested_specialist := Some Spec_infrastructure\<rparr>)"

definition unit_failed_query :: string where
  \<open>unit_failed_query = ''node_systemd_unit_state{state="failed"} and changes(...[2h]) > 0''\<close>

definition unit_failed :: "string \<Rightarrow> string \<Rightarrow> hotspot \<Rightarrow> hotspot" where
  "unit_failed host u h = h\<lparr>
     hs_category := Cat_service, hs_severity := Sev_medium, hs_score := score 250,
     hs_title := u @ '' recently failed on '' @ host, hs_resource := host,
     hs_summary := ''systemd unit '' @ u @ '' on '' @ host @ '' entered the failed state within the last 2h.'',
     hs_evidence := [evidence (''unit state '' @ host @ ''/'' @ u) unit_failed_query
       ''failed (recent transition)'' ''active'' []],
     hs_recommended_checks := [''os_systemd_status '' @ u @ '' on '' @ host, ''os_service_logs '' @ u],
     hs_suggested_specialist := Some Spec_infrastructure\<rparr>"

definition churn_step ::
  "rx list \<Rightarrow> sample \<Rightarrow> (string, hotspot) dict \<Rightarrow> ('w, (string, hotspot) dict) sc" where
  "churn_step extra s found =
     (let host = host_or s ''host''; u = unit_of s; key = host @ '':'' @ u in
      if is_benign_unit extra u then retM found
      else bindM (liftM (num_int (sm_value s))) (\<lambda>restarts.
        bindM (make_hotspot ''service_churn'' key (unit_churn host u restarts)) (\<lambda>h.
        retM (dict_set key h found))))"

definition failed_step ::
  "rx list \<Rightarrow> sample \<Rightarrow> (string, hotspot) dict \<Rightarrow> ('w, (string, hotspot) dict) sc" where
  "failed_step extra s found =
     (let host = host_or s ''host''; u = unit_of s; key = host @ '':'' @ u in
      if is_benign_unit extra u then retM found
      else if dict_get found key \<noteq> None then retM found
      else bindM (make_hotspot ''service_churn'' key (unit_failed host u)) (\<lambda>h.
        retM (dict_set key h found)))"

text \<open>The matcher is compiled first: a fragment that is no pattern raises there.\<close>

definition rule_service_churn :: "'w prom_tool \<Rightarrow> exn + rx list \<Rightarrow> ('w, hotspot list) sc" where
  "rule_service_churn tool ignored =
     bindM (liftM ignored) (\<lambda>extra.
     bindM (prom tool restart_query) (\<lambda>restarted.
     bindM (foldM (churn_step extra) restarted []) (\<lambda>found.
     bindM (prom tool failed_query) (\<lambda>failed.
     bindM (foldM (failed_step extra) failed found) (\<lambda>found. retM (dict_values found))))))"

subsection \<open>Reachability\<close>

definition reach_query :: string where
  \<open>reach_query = ''avg_over_time(probe_success{job="blackbox-icmp"}[30m])''\<close>

definition reach_degraded :: "pynum \<Rightarrow> bool" where
  "reach_degraded ratio \<longleftrightarrow> num_le (Finite 0) ratio \<and> num_less ratio (Finite (95 / 100))"

definition is_overlay :: "string \<Rightarrow> bool" where
  "is_overlay i \<longleftrightarrow> str_in ''ff'' (py_lower i) \<and> str_in ''::'' i"

definition reach_intermittent :: "string \<Rightarrow> pynum \<Rightarrow> string \<Rightarrow> hotspot \<Rightarrow> hotspot" where
  "reach_intermittent i ratio percent h =
     (let host = scrape_name i; high = num_less ratio (Finite (1 / 2)) in h\<lparr>
     hs_category := (if is_overlay i then Cat_wireguard else Cat_service),
     hs_severity := (if high then Sev_high else Sev_medium),
     hs_score := (if high then score 310 else score 230),
     hs_title := ''Intermittent ICMP to '' @ host, hs_resource := host,
     hs_summary := ''ICMP success to '' @ i @ '' averaged '' @ percent @ ''% over 30m (1.0 = healthy).'',
     hs_evidence := [evidence (''icmp success 30m '' @ i) reach_query (rounded_str 3 ratio) ''1.0''
       ''packet loss / link degrading''],
     hs_recommended_checks := [''wg_show on the endpoints for '' @ host,
       ''check latency/handshake age; underlay path''],
     hs_suggested_specialist := Some Spec_infrastructure\<rparr>)"

definition reach_step :: "sample \<Rightarrow> hotspot list \<Rightarrow> ('w, hotspot list) sc" where
  "reach_step s found =
     (let ratio = sm_value s; i = label_or s ''instance'' [] in
      if \<not> reach_degraded ratio then retM found
      else bindM (liftM (rounded_int_str (num_times 100 ratio))) (\<lambda>percent.
        bindM (make_hotspot ''reachability_flap'' (or_str i (scrape_name i))
            (reach_intermittent i ratio percent)) (\<lambda>h.
        retM (found @ [h]))))"

definition rule_reachability_flap :: "'w prom_tool \<Rightarrow> ('w, hotspot list) sc" where
  "rule_reachability_flap tool = bindM (prom tool reach_query) (\<lambda>probed. foldM reach_step probed [])"

subsection \<open>Certificates\<close>

definition tls_query :: string where
  "tls_query = ''probe_ssl_earliest_cert_expiry - time()''"

definition tls_skipped :: "pynum \<Rightarrow> bool" where
  "tls_skipped seconds \<longleftrightarrow>
     num_less (Finite (14 * 86400)) seconds \<or> num_less seconds (Finite (- 86400))"

definition tls_near_expiry :: "string \<Rightarrow> pynum \<Rightarrow> hotspot \<Rightarrow> hotspot" where
  "tls_near_expiry i seconds h =
     (let days = rounded_str 1 (num_times (1 / 86400) seconds);
          high = num_less seconds (Finite (3 * 86400)) in h\<lparr>
     hs_category := Cat_tls, hs_severity := (if high then Sev_high else Sev_medium),
     hs_score := (if high then score 330 else score 240),
     hs_title := ''TLS cert near expiry for '' @ i, hs_resource := i,
     hs_summary := ''Certificate for '' @ i @ '' expires in '' @ days @ '' day(s).'',
     hs_evidence := [evidence (''cert expiry '' @ i) tls_query (days @ ''d'') ''<14d (HIGH <3d)'' []],
     hs_recommended_checks := [''check Caddy/ACME renewal logs on proxy'', ''verify DNS-01/HTTP-01 path''],
     hs_suggested_specialist := Some Spec_infrastructure, hs_warrants_change := False\<rparr>)"

definition tls_step :: "sample \<Rightarrow> hotspot list \<Rightarrow> ('w, hotspot list) sc" where
  "tls_step s found =
     (let seconds = sm_value s; i = label_or s ''instance'' ''cert'' in
      if tls_skipped seconds then retM found
      else bindM (make_hotspot ''tls_expiry'' i (tls_near_expiry i seconds)) (\<lambda>h. retM (found @ [h])))"

definition rule_tls_expiry :: "'w prom_tool \<Rightarrow> ('w, hotspot list) sc" where
  "rule_tls_expiry tool = bindM (prom tool tls_query) (\<lambda>certs. foldM tls_step certs [])"

subsection \<open>A scan\<close>

definition cheap_rules :: "'w prom_tool \<Rightarrow> exn + rx list \<Rightarrow> ('w, hotspot list) sc list" where
  "cheap_rules tool ignored =
     [rule_bgp_risk tool, rule_scrape_flap tool, rule_service_churn tool ignored, rule_reachability_flap tool]"

definition deep_rules :: "'w prom_tool \<Rightarrow> ('w, hotspot list) sc list" where
  "deep_rules tool = [rule_disk_fill tool, rule_tls_expiry tool]"

definition run_rule :: "('w, hotspot list) sc \<Rightarrow> ('w, hotspot list) sc" where
  "run_rule r = except_exception r (\<lambda>e. retM [])"

text \<open>Of two hotspots with one fingerprint the one of the higher score stays, in the first one's place.\<close>

definition merge_hotspot :: "(string, hotspot) dict \<Rightarrow> hotspot \<Rightarrow> (string, hotspot) dict" where
  "merge_hotspot merged h =
     (let fp = hotspot_fingerprint h in
      case dict_get merged fp of
        None \<Rightarrow> dict_set fp h merged
      | Some g \<Rightarrow> if pf_value (hs_score g) < pf_value (hs_score h) then dict_set fp h merged else merged)"

definition merged_hotspots :: "hotspot list \<Rightarrow> hotspot list" where
  "merged_hotspots found =
     py_sort True (\<lambda>h. pf_value (hs_score h)) (dict_values (foldl merge_hotspot [] found))"

definition scan_rules :: "'w prom_tool \<Rightarrow> exn + rx list \<Rightarrow> bool \<Rightarrow> ('w, hotspot list) sc" where
  "scan_rules tool ignored deep =
     bindM (mapM run_rule (cheap_rules tool ignored @ (if deep then deep_rules tool else []))) (\<lambda>batches.
     retM (merged_hotspots (concat batches)))"

text \<open>With a new context, and with what the loop reads from it afterwards.\<close>

definition scan :: "'w prom_tool \<Rightarrow> exn + rx list \<Rightarrow> bool \<Rightarrow> ('w, hotspot list \<times> bool) callback" where
  "scan tool ignored deep = (\<lambda>w. case scan_rules tool ignored deep (w, False) of
     (Inl e, (w', degraded)) \<Rightarrow> (Inl e, w')
   | (Inr found, (w', degraded)) \<Rightarrow> (Inr (found, degraded), w'))"

end
