(* ===== verification/Icinga_Ack.thy ===== *)
theory Icinga_Ack
  imports Investigations Py_Float
begin

section \<open>Acknowledging a problem in Icinga\<close>

text \<open>
  \<open>app/icinga_ack.py\<close>, and the loop's search for the problem that stands for a hotspot
  (\<open>ProactiveLoop._icinga_target_for\<close> and \<open>_auto_snooze_icinga_ack\<close>). The tools of the MCP server are a
  parameter: a tool is called by name with its arguments, may raise, and answers with a JSON value. The
  signing secret is a parameter too; the two names of its environment variable are the caller's matter.
\<close>

type_synonym 'w tool_call = "string \<Rightarrow> json \<Rightarrow> ('w, json) callback"

subsection \<open>The signed authorization\<close>

definition ack_authorization :: "string \<Rightarrow> string \<Rightarrow> int \<Rightarrow> rat \<Rightarrow> rat \<Rightarrow> jdict" where
  "ack_authorization case_id operator auth_ttl now1 now2 =
     [(''action_id'', JStr (''auto-ack-'' @ int_str (py_trunc (now1 * 1000)))),
      (''case_id'', JStr case_id), (''operator'', JStr operator),
      (''action_class'', JStr ''acknowledge_icinga''),
      (''expiry'', JInt (py_trunc now2 + max 1 auth_ttl))]"

definition signed_authorization :: "string \<Rightarrow> jdict \<Rightarrow> jdict" where
  "signed_authorization secret payload =
     (if secret = [] then payload
      else dict_set ''signature'' (JStr (hmac_sha256_hex secret (json_dumps_ascii (JDict payload)))) payload)"

definition sign_ack_authorization :: "string \<Rightarrow> string \<Rightarrow> string \<Rightarrow> int \<Rightarrow> ('w, jdict) lp" where
  "sign_ack_authorization secret case_id operator auth_ttl =
     bindM time_time (\<lambda>now1. bindM time_time (\<lambda>now2.
     retM (signed_authorization secret (ack_authorization case_id operator auth_ttl now1 now2))))"

definition opt_json :: "string option \<Rightarrow> json" where
  "opt_json v = (case v of None \<Rightarrow> JNull | Some s \<Rightarrow> JStr s)"

text \<open>The call of the tool; None where it could not run.\<close>

definition acknowledge_icinga ::
  "'w tool_call option \<Rightarrow> string \<Rightarrow> string \<Rightarrow> string option \<Rightarrow> string \<Rightarrow> string \<Rightarrow> string \<Rightarrow> int option
    \<Rightarrow> bool \<Rightarrow> ('w, json option) lp" where
  "acknowledge_icinga tool secret host service comment case_id author ack_ttl notify = (case tool of
     None \<Rightarrow> retM None
   | Some call \<Rightarrow>
       if host = [] then retM None
       else
         bindM (sign_ack_authorization secret case_id author 300) (\<lambda>auth.
         let args = [(''host_name'', JStr host), (''service_name'', opt_json service),
           (''author'', JStr author), (''comment'', JStr comment), (''notify'', JBool notify),
           (''action_authorization'', JDict auth)] in
         bindM (case ack_ttl of None \<Rightarrow> retM args
             | Some n \<Rightarrow> bindM time_time (\<lambda>now. retM (args @ [(''expiry'', JInt (py_trunc now + n))]))) (\<lambda>args.
         except_exception
           (bindM (call_out (call ''icinga_acknowledge_alert'' (JDict args))) (\<lambda>r. retM (Some r)))
           (\<lambda>e. retM None))))"

subsection \<open>The problem of a hotspot\<close>

text \<open>
  \<open>for p in res.get("problems") or []\<close>: a text or a dictionary yields no dictionaries; a number that
  is not zero cannot be iterated.
\<close>

definition problem_rows :: "jdict \<Rightarrow> exn + json list" where
  "problem_rows res = (let v = jget res ''problems'' in
     if \<not> truthy v then Inr []
     else case v of
       JList xs \<Rightarrow> Inr xs | JStr _ \<Rightarrow> Inr [] | JDict _ \<Rightarrow> Inr []
     | _ \<Rightarrow> Inl (TypeError ''object is not iterable''))"

text \<open>\<open>int(float(p.get("state")))\<close>; an infinite state is an \<open>OverflowError\<close>, which nothing catches.\<close>

definition problem_state :: "jdict \<Rightarrow> exn + int option" where
  "problem_state p = (case float_of_json (jget p ''state'') of
     None \<Rightarrow> Inr None
   | Some (Infinite b) \<Rightarrow> Inl (OverflowError ''cannot convert float infinity to integer'')
   | Some Not_a_number \<Rightarrow> Inr None
   | Some (Finite x) \<Rightarrow> Inr (Some (py_trunc x)))"

definition service_of_name :: "string \<Rightarrow> string" where
  "service_of_name name =
     (if CHR ''!'' \<in> set name then drop 1 (dropWhile (\<lambda>c. c \<noteq> CHR ''!'') name) else name)"

definition is_warning_of :: "string \<Rightarrow> string \<Rightarrow> jdict \<Rightarrow> bool" where
  "is_warning_of host cat p \<longleftrightarrow>
     problem_state p = Inr (Some 1) \<and> py_strip (str_or_empty (jget p ''host'')) = host \<and>
     (let name = str_or_empty (jget p ''name'') in
      cat = [] \<or> str_in cat (py_lower (service_of_name name)) \<or> str_in cat (py_lower name))"

fun icinga_matches :: "string \<Rightarrow> string \<Rightarrow> json list \<Rightarrow> exn + (string \<times> string option) list" where
  "icinga_matches host cat [] = Inr []"
| "icinga_matches host cat (JDict p # ps) = (case problem_state p of
     Inl e \<Rightarrow> Inl e
   | Inr _ \<Rightarrow> (case icinga_matches host cat ps of Inl e \<Rightarrow> Inl e
     | Inr ms \<Rightarrow> Inr (if is_warning_of host cat p
         then (let svc = service_of_name (str_or_empty (jget p ''name'')) in
           (host, if svc = [] then None else Some svc)) # ms
         else ms)))"
| "icinga_matches host cat (_ # ps) = icinga_matches host cat ps"

definition unique_match :: "string \<Rightarrow> string \<Rightarrow> json \<Rightarrow> exn + (string \<times> string option) option" where
  "unique_match host cat answer = (case answer of
     JDict res \<Rightarrow> (case problem_rows res of Inl e \<Rightarrow> Inl e
       | Inr rows \<Rightarrow> (case icinga_matches host cat rows of
           Inl e \<Rightarrow> Inl e | Inr [m] \<Rightarrow> Inr (Some m) | Inr _ \<Rightarrow> Inr None))
   | _ \<Rightarrow> Inr None)"

definition icinga_target_for ::
  "'w tool_call option \<Rightarrow> hotspot \<Rightarrow> ('w, (string \<times> string option) option) lp" where
  "icinga_target_for tool h =
     (let host = py_strip (hs_resource h) in case tool of
        None \<Rightarrow> retM None
      | Some call \<Rightarrow>
          if host = [] then retM None
          else
            bindM (except_exception
              (bindM (call_out (call ''icinga_list_problems''
                  (JDict [(''object_type'', JStr ''service''), (''limit'', JInt 100)]))) (\<lambda>r. retM (Some r)))
              (\<lambda>e. retM None)) (\<lambda>answer.
            case answer of None \<Rightarrow> retM None
            | Some res \<Rightarrow> liftM (unique_match host (py_lower (hotspot_category_str (hs_category h))) res)))"

definition auto_ack_comment :: "hotspot \<Rightarrow> string" where
  "auto_ack_comment h = ''NOC agent auto-snoozed non-urgent '' @ hotspot_severity_str (hs_severity h) @
     '': '' @ hs_title h @ ''; ack auto-expires.''"

definition auto_snooze_icinga_ack :: "'w tool_call option \<Rightarrow> string \<Rightarrow> hotspot \<Rightarrow> int \<Rightarrow> ('w, unit) lp" where
  "auto_snooze_icinga_ack tool secret h ttl =
     bindM (icinga_target_for tool h) (\<lambda>target. case target of
       None \<Rightarrow> retM ()
     | Some (host, service) \<Rightarrow>
         bindM (acknowledge_icinga tool secret host service (auto_ack_comment h) [] ''noc-agent'' (Some ttl) False)
           (\<lambda>_. retM ()))"

section \<open>What the automatic acknowledgement touches\<close>

text \<open>
  The calls the loop makes when it mutes a finding, read off a tool that logs them: at most one
  acknowledgement, of the one warning that matches the hotspot, with an end.
\<close>

text \<open>A tool that logs its calls in the outside world and answers from a function.\<close>

type_synonym call_log = "(string \<times> json) list"

definition logging :: "(string \<Rightarrow> json \<Rightarrow> json) \<Rightarrow> call_log tool_call" where
  "logging answers = (\<lambda>name args (s, log). (Inr (answers name args), (s, log @ [(name, args)])))"

definition list_args :: json where
  "list_args = JDict [(''object_type'', JStr ''service''), (''limit'', JInt 100)]"

lemma logged_call:
  "call_out (logging answers name args) w =
     (Inr (answers name args), w\<lparr>lw_outside := lw_outside w @ [(name, args)]\<rparr>)"
  by (simp add: call_out_def zoomM_def logging_def)

subsection \<open>The one match\<close>

definition row_matches :: "string \<Rightarrow> string \<Rightarrow> json \<Rightarrow> bool" where
  "row_matches host cat row = (case row of JDict p \<Rightarrow> is_warning_of host cat p | _ \<Rightarrow> False)"

definition row_target :: "string \<Rightarrow> json \<Rightarrow> string \<times> string option" where
  "row_target host row = (case row of
     JDict p \<Rightarrow> (let svc = service_of_name (str_or_empty (jget p ''name'')) in
       (host, if svc = [] then None else Some svc))
   | _ \<Rightarrow> (host, None))"

lemma icinga_matches_filter:
  "icinga_matches host cat rows = Inr ms \<Longrightarrow> ms = map (row_target host) (filter (row_matches host cat) rows)"
proof (induction host cat rows arbitrary: ms rule: icinga_matches.induct)
  case (2 host cat p ps)
  from 2(2) obtain x ms' where "problem_state p = Inr x" "icinga_matches host cat ps = Inr ms'"
    by (auto split: sum.splits)
  with 2 show ?case by (auto simp: row_matches_def row_target_def Let_def)
qed (simp_all add: row_matches_def)

lemma unique_match_filter:
  assumes "unique_match host cat answer = Inr (Some m)"
  obtains rows res row where "answer = JDict res" and "problem_rows res = Inr rows"
    and "filter (row_matches host cat) rows = [row]" and "m = row_target host row"
proof -
  from assms obtain res rows ms where r: "answer = JDict res" "problem_rows res = Inr rows"
      "icinga_matches host cat rows = Inr ms" "ms = [m]"
    by (auto simp: unique_match_def split: json.splits sum.splits list.splits)
  with icinga_matches_filter [OF r(3)] obtain row where
    "filter (row_matches host cat) rows = [row]" "m = row_target host row"
    by (auto simp: map_eq_Cons_conv)
  with r that show ?thesis by blast
qed

text \<open>
  When the loop mutes a finding it may acknowledge one problem in Icinga, and only where exactly
  one of the listed problems is a WARNING of the finding's own host that names its category: it calls
  the tool at most once, for that problem, without notification, and with an expiry, so that it never
  silences a CRITICAL problem, a guessed name, or anything for good.
\<close>

theorem auto_ack_one_warning:
  assumes "auto_snooze_icinga_ack (Some (logging answers)) secret h ttl w = (r, w')"
  shows "lw_outside w' = lw_outside w \<or>
    lw_outside w' = lw_outside w @ [(''icinga_list_problems'', list_args)] \<or>
    (\<exists>args rows res p. lw_outside w' = lw_outside w @
        [(''icinga_list_problems'', list_args), (''icinga_acknowledge_alert'', JDict args)] \<and>
      answers ''icinga_list_problems'' list_args = JDict res \<and> problem_rows res = Inr rows \<and>
      filter (row_matches (py_strip (hs_resource h)) (py_lower (hotspot_category_str (hs_category h)))) rows = [JDict p] \<and>
      problem_state p = Inr (Some 1) \<and>
      jget args ''host_name'' = JStr (py_strip (hs_resource h)) \<and>
      jget args ''service_name'' = opt_json (snd (row_target (py_strip (hs_resource h)) (JDict p))) \<and>
      jget args ''notify'' = JBool False \<and> (\<exists>now. jget args ''expiry'' = JInt (now + ttl)))"
proof (cases "py_strip (hs_resource h) = []")
  case True
  then show ?thesis using assms
    by (simp add: auto_snooze_icinga_ack_def icinga_target_for_def bindM_app)
next
  case False
  let ?host = "py_strip (hs_resource h)" and ?cat = "py_lower (hotspot_category_str (hs_category h))"
  let ?ans = "answers ''icinga_list_problems'' list_args"
  let ?w = "w\<lparr>lw_outside := lw_outside w @ [(''icinga_list_problems'', list_args)]\<rparr>"
  have target: "icinga_target_for (Some (logging answers)) h w = (unique_match ?host ?cat ?ans, ?w)"
    using False by (simp add: icinga_target_for_def Let_def except_exception_def catchM_def bindM_app
        logged_call flip: list_args_def)
  consider (none) "lw_outside w' = lw_outside ?w" | (one) m where "unique_match ?host ?cat ?ans = Inr (Some m)"
  proof (cases "unique_match ?host ?cat ?ans")
    case (Inl e)
    then show ?thesis using assms that(1) by (auto simp: auto_snooze_icinga_ack_def bindM_app target)
  next
    case (Inr t)
    then show ?thesis using assms that by (cases t) (auto simp: auto_snooze_icinga_ack_def bindM_app target)
  qed
  then show ?thesis
  proof cases
    case none
    then show ?thesis by simp
  next
    case one
    obtain rows res row where u: "?ans = JDict res" "problem_rows res = Inr rows"
        "filter (row_matches ?host ?cat) rows = [row]" "m = row_target ?host row"
      using unique_match_filter [OF one] by blast
    have "row_matches ?host ?cat row" using u(3) by (metis filter_eq_Cons_iff)
    then obtain p where p: "row = JDict p" "is_warning_of ?host ?cat p"
      by (auto simp: row_matches_def split: json.splits)
    obtain svc where m: "m = (?host, svc)" using u(4) p(1) by (simp add: row_target_def Let_def)
    have "svc = snd (row_target ?host (JDict p))" using m u(4) p(1) by (metis snd_conv)
    moreover obtain args now where "lw_outside w' = lw_outside w @ [(''icinga_list_problems'', list_args),
        (''icinga_acknowledge_alert'', JDict args)]" "jget args ''host_name'' = JStr ?host"
        "jget args ''service_name'' = opt_json svc" "jget args ''notify'' = JBool False"
        "jget args ''expiry'' = JInt (now + ttl)"
      using assms False one m
      by (auto simp: auto_snooze_icinga_ack_def bindM_app target acknowledge_icinga_def Let_def
          sign_ack_authorization_def time_time_def except_exception_def catchM_def logged_call
          jget_def)
    ultimately show ?thesis using u(1-3) p by (auto simp: is_warning_of_def)
  qed
qed


definition one_warning :: "string \<Rightarrow> json \<Rightarrow> json" where
  "one_warning name args = JDict [(''problems'', JList
     [JDict [(''host'', JStr ''log''), (''name'', JStr ''log!disk /''), (''state'', JInt 1)],
      JDict [(''host'', JStr ''log''), (''name'', JStr ''log!disk /var''), (''state'', JInt 2)],
      JDict [(''host'', JStr ''mon''), (''name'', JStr ''mon!disk /''), (''state'', JStr ''1'')]])]"

definition logged_world :: "call_log loop_world" where
  "logged_world = \<lparr>
     lw_store = empty_store (\<lambda>n. nat_str n) (\<lambda>n. 63000000000000000 + int n), lw_seconds = (\<lambda>n. of_nat n),
     lw_second_reads = 0, lw_lock = None, lw_ledgers = (\<lambda>_. Absent), lw_investigations = Absent,
     lw_suppressions = Absent, lw_last_deep_scan = 0, lw_last_report_signature = None,
     lw_last_report_ts = 0, lw_last_deep_hotspots = [], lw_last_effective = [],
     lw_report = blank_cycle, lw_last_report = None, lw_outside = []\<rparr>"

definition muted_hotspot :: hotspot where
  "muted_hotspot = (blank_hotspot ''disk_fill'' ''log:/'')\<lparr>hs_category := Cat_disk, hs_resource := ''log''\<rparr>"

lemma sample_unique_match:
  "unique_match (py_strip (hs_resource muted_hotspot)) (py_lower (hotspot_category_str (hs_category muted_hotspot)))
     (one_warning ''icinga_list_problems'' list_args) = Inr (Some (''log'', Some ''disk /''))"
  by code_simp

theorem auto_ack_one_warning_witness:
  "\<exists>args. lw_outside (snd (auto_snooze_icinga_ack (Some (logging one_warning)) [] muted_hotspot 86400 logged_world)) =
      [(''icinga_list_problems'', list_args), (''icinga_acknowledge_alert'', JDict args)] \<and>
    jget args ''host_name'' = JStr ''log'' \<and> jget args ''notify'' = JBool False"
proof -
  let ?w' = "snd (auto_snooze_icinga_ack (Some (logging one_warning)) [] muted_hotspot 86400 logged_world)"
  have host: "py_strip (hs_resource muted_hotspot) = ''log''" by code_simp
  have out: "lw_outside logged_world = []" by (simp add: logged_world_def)
  have "length (lw_outside ?w') = 2"
    using sample_unique_match host
    by (simp add: auto_snooze_icinga_ack_def bindM_app icinga_target_for_def Let_def except_exception_def
        catchM_def logged_call acknowledge_icinga_def sign_ack_authorization_def time_time_def out
        flip: list_args_def)
  then show ?thesis
    using auto_ack_one_warning [of one_warning "[]" muted_hotspot 86400 logged_world
        "fst (auto_snooze_icinga_ack (Some (logging one_warning)) [] muted_hotspot 86400 logged_world)" ?w']
    by (auto simp: out host)
qed

end
