(* ===== verification/Suppressions.thy ===== *)
theory Suppressions
  imports Loop_State "HOL-Library.Sublist"
begin

section \<open>The suppression store\<close>

text \<open>
  \<open>SuppressionStore\<close> of \<open>app/proactive/suppressions.py\<close>: acknowledgements and snoozes, keyed by the
  fingerprint of a hotspot or a prefix of it, in one file. Saving replaces the file, with the keys in
  sorted order.
\<close>

definition unexpired :: "rat \<Rightarrow> suppression \<Rightarrow> bool" where
  "unexpired now e \<longleftrightarrow> (case su_expires_at e of None \<Rightarrow> True | Some t \<Rightarrow> now < t)"

definition loaded_suppressions :: "'w loop_world \<Rightarrow> (string, suppression) dict" where
  "loaded_suppressions w = lenient_load (lw_suppressions w)"

definition save_suppressions :: "(string, suppression) dict \<Rightarrow> ('w, unit) lp" where
  "save_suppressions d = modM (\<lambda>w. w\<lparr>lw_suppressions := dumped d\<rparr>)"

text \<open>\<open>active()\<close> without an argument reads the clock.\<close>

definition active_suppressions :: "('w, (string, suppression) dict) lp" where
  "active_suppressions = bindM time_time (\<lambda>now.
     bindM (getM loaded_suppressions) (\<lambda>d. retM (filter (\<lambda>(k, e). unexpired now e) d)))"

definition suppression_entries :: "('w, suppression list) lp" where
  "suppression_entries = bindM (getM loaded_suppressions) (\<lambda>d. retM (dict_values d))"

text \<open>The expiry: \<open>time.time() + ttl\<close>, or none for no or a zero lifetime.\<close>

definition expiry_of :: "rat option \<Rightarrow> ('w, rat option) lp" where
  "expiry_of ttl = (case ttl of None \<Rightarrow> retM None
     | Some n \<Rightarrow> if n = 0 then retM None else bindM time_time (\<lambda>now. retM (Some (now + n))))"

definition add_suppression ::
  "string \<Rightarrow> string \<Rightarrow> string \<Rightarrow> string \<Rightarrow> string \<Rightarrow> rat option \<Rightarrow> ('w, suppression) lp" where
  "add_suppression fingerprint key reason issue operator ttl =
     bindM (getM loaded_suppressions) (\<lambda>d.
     bindM (in_store utc_now) (\<lambda>created.
     bindM (expiry_of ttl) (\<lambda>expires.
     let e = \<lparr>su_fingerprint = fingerprint, su_key = key, su_reason = reason, su_issue = issue,
       su_operator = operator, su_created_at = created, su_expires_at = expires\<rparr> in
     seqM (save_suppressions (dict_set fingerprint e d)) (retM e))))"

definition remove_suppression :: "string \<Rightarrow> ('w, bool) lp" where
  "remove_suppression fingerprint = bindM (getM loaded_suppressions) (\<lambda>d.
     if dict_get d fingerprint = None then retM False
     else seqM (save_suppressions (dict_pop fingerprint d)) (retM True))"

definition prune_resolved :: "string set \<Rightarrow> ('w, string list) lp" where
  "prune_resolved firing = bindM (getM loaded_suppressions) (\<lambda>d.
     let pruned = filter (\<lambda>fp. fp \<notin> firing) (dict_keys d) in
     if pruned = [] then retM []
     else seqM (save_suppressions (foldr dict_pop pruned d)) (retM pruned))"

text \<open>The short-SHA match: an acknowledgement's key is a prefix of the fingerprint.\<close>

definition covers :: "string \<Rightarrow> hotspot \<Rightarrow> bool" where
  "covers ack_id h \<longleftrightarrow> prefix ack_id (hotspot_fingerprint h)"

subsection \<open>Facts\<close>

text \<open>The file holds one entry per key.\<close>

definition suppressions_ok :: "'w loop_world \<Rightarrow> bool" where
  "suppressions_ok w \<longleftrightarrow> distinct (dict_keys (loaded_suppressions w))"

lemma map_of_sort_key [simp]:
  assumes "distinct (map fst d)"
  shows "map_of (sort_key fst d) = map_of d"
proof -
  have "distinct (map fst (sort_key fst d))"
    using assms by (simp add: distinct_map)
  moreover have "set (sort_key fst d) = set d" by simp
  ultimately show ?thesis
    using assms map_of_inject_set by blast
qed

lemma loaded_dumped [simp]: "loaded_suppressions (w\<lparr>lw_suppressions := dumped d\<rparr>) = sort_key fst d"
  by (simp add: loaded_suppressions_def dumped_def)

text \<open>What the file answers for a key after each operation.\<close>

definition suppression_of :: "'w loop_world \<Rightarrow> string \<Rightarrow> suppression option" where
  "suppression_of w = map_of (loaded_suppressions w)"



lemma save_suppressions_app [comp_simps]:
  "save_suppressions d w = (Inr (), w\<lparr>lw_suppressions := dumped d\<rparr>)"
  by (simp add: save_suppressions_def)

lemma remove_suppression_ok:
  assumes "suppressions_ok w"
  obtains r w' where "remove_suppression k w = (Inr r, w')" "suppressions_ok w'"
    "suppression_of w' = (suppression_of w)(k := None)"
    "w' = w\<lparr>lw_suppressions := lw_suppressions w'\<rparr>"
proof (cases "dict_get (loaded_suppressions w) k = None")
  case True
  then show ?thesis
    using assms that [of False w]
    by (simp add: remove_suppression_def comp_simps suppression_of_def fun_upd_idem)
next
  case False
  let ?d = "dict_pop k (loaded_suppressions w)"
  have "distinct (dict_keys ?d)" using assms by (simp add: suppressions_ok_def distinct_dict_pop)
  moreover have "remove_suppression k w = (Inr True, w\<lparr>lw_suppressions := dumped ?d\<rparr>)"
    using False by (auto simp: remove_suppression_def comp_simps)
  ultimately show ?thesis
    using that [of True "w\<lparr>lw_suppressions := dumped ?d\<rparr>"]
    by (simp add: suppressions_ok_def suppression_of_def delete_conv' fun_upd_def distinct_map)
qed

lemma add_suppression_ok:
  assumes "suppressions_ok w"
  obtains e w' where "add_suppression fp key reason issue operator ttl w = (Inr e, w')"
    "suppressions_ok w'" "suppression_of w' = (suppression_of w)(fp \<mapsto> e)" "su_operator e = operator"
    "su_expires_at e = None \<longleftrightarrow> ttl = None \<or> ttl = Some 0"
proof -
  let ?w = "w\<lparr>lw_store := (lw_store w)\<lparr>ticks := Suc (ticks (lw_store w))\<rparr>\<rparr>"
  obtain expires w1 where expiry: "expiry_of ttl ?w = (Inr expires, w1)"
    "expires = None \<longleftrightarrow> ttl = None \<or> ttl = Some 0"
    by (cases ttl; cases "ttl = Some 0") (simp_all add: expiry_of_def time_time_def comp_simps)
  obtain e where run: "add_suppression fp key reason issue operator ttl w =
      (Inr e, w1\<lparr>lw_suppressions := dumped (dict_set fp e (loaded_suppressions w))\<rparr>)"
    "su_operator e = operator" "su_expires_at e = None \<longleftrightarrow> ttl = None \<or> ttl = Some 0"
    using expiry
    by (simp add: add_suppression_def in_store_def zoomM_def utc_now_def dt_now_def comp_simps Let_def)
  have "distinct (dict_keys (dict_set fp e (loaded_suppressions w)))"
    using assms by (simp add: suppressions_ok_def distinct_dict_set)
  then show ?thesis
    using that [OF run(1) _ _ run(2,3)]
    by (simp add: suppressions_ok_def suppression_of_def update_conv' distinct_map)
qed

lemma active_suppressions_app:
  "active_suppressions w =
     (Inr (filter (\<lambda>(k, e). unexpired (lw_seconds w (lw_second_reads w)) e) (loaded_suppressions w)),
      w\<lparr>lw_second_reads := Suc (lw_second_reads w)\<rparr>)"
  by (simp add: active_suppressions_def time_time_def comp_simps loaded_suppressions_def)

end
