(* ===== verification/Disk_Handoff.thy ===== *)
theory Disk_Handoff
  imports Suppressions Service_Lhp
begin

section \<open>From a filling disk to a request to the engineering loop\<close>

text \<open>
  \<open>app/proactive/lhp.py\<close>, which turns a disk hotspot and its case into the records of the handoff
  protocol, and \<open>ProactiveLoop._maybe_request_disk_lhp_handoff\<close>, which hands them to the case service.
  \<open>float_repr\<close> is Python's \<open>repr\<close> of the float with that value, for the expiry of a suppression.
\<close>

definition DISK_OBJECTIVE_KEY :: string where
  "DISK_OBJECTIVE_KEY = ''resolve-low-root-filesystem-condition-v1''"

definition DISK_CASE_TYPE :: string where
  "DISK_CASE_TYPE = ''proactive_disk_condition''"

record disk_handoff_request =
  dr_handoff :: case_handoff
  dr_objectives :: "verification_objective list"
  dr_knowledge_payload :: jdict

definition is_disk_handoff_hotspot :: "hotspot \<Rightarrow> bool" where
  "is_disk_handoff_hotspot h \<longleftrightarrow>
     hs_rule_id h = ''disk_fill'' \<and> hs_category h = Cat_disk \<and> hs_warrants_change h"

text \<open>\<open>s.rsplit(c, 1)\<close> of a text that has a \<open>c\<close>.\<close>

definition split_at_last :: "char \<Rightarrow> string \<Rightarrow> string \<times> string" where
  "split_at_last c s =
     (rev (drop 1 (dropWhile (\<lambda>x. x \<noteq> c) (rev s))), rev (takeWhile (\<lambda>x. x \<noteq> c) (rev s)))"

definition disk_resource_parts :: "hotspot \<Rightarrow> string \<times> string" where
  "disk_resource_parts h =
     (if CHR '':'' \<in> set (hs_key h) then
        let (host, filesystem) = split_at_last (CHR '':'') (hs_key h)
        in (or_str (or_str host (hs_resource h)) ''unknown'', or_str filesystem ''unknown'')
      else (or_str (or_str (hs_resource h) (hs_key h)) ''unknown'', ''unknown''))"

definition suppression_payload :: "(rat \<Rightarrow> string) \<Rightarrow> suppression option \<Rightarrow> json" where
  "suppression_payload float_repr entry = (case entry of
     None \<Rightarrow> JDict [(''active'', JBool False)]
   | Some e \<Rightarrow> JDict [(''active'', JBool True), (''temporary'', JBool (su_expires_at e \<noteq> None)),
       (''expires_at_epoch'', (case su_expires_at e of None \<Rightarrow> JNull | Some t \<Rightarrow> JFloat (float_repr t))),
       (''reason'', JStr (txt_of DEFAULT_TEXT_LIMIT (su_reason e))),
       (''issue'', JStr (txt_of DEFAULT_TEXT_LIMIT (su_issue e))),
       (''operator'', JStr (txt_of DEFAULT_TEXT_LIMIT (su_operator e))),
       (''untrusted_evidence'', JBool True)])"

text \<open>What makes a new occurrence: the case was opened, resolved or handed over at other times.\<close>

definition disk_occurrence_id :: "atomic_case \<Rightarrow> string" where
  "disk_occurrence_id c = take 16 (lhp_payload_hash (JDict
     [(''case_id'', JStr (ac_case_id c)), (''opened_at'', JStr (ac_opened_at c)),
      (''previous_resolution_at'', JStr (case ac_resolved_at c of None \<Rightarrow> [] | Some t \<Rightarrow> t)),
      (''previous_handoff_at'', JStr (ac_last_handoff_at c))]))"

definition sanitized :: "json \<Rightarrow> json" where
  "sanitized v = sanitize_lhp_payload 2000 MAX_PAYLOAD_DEPTH v"

definition disk_hotspot_payload :: "hotspot \<Rightarrow> json" where
  "disk_hotspot_payload h = sanitized (JDict
     [(''rule_id'', JStr (hs_rule_id h)), (''key'', JStr (hs_key h)),
      (''severity'', JStr (hotspot_severity_str (hs_severity h))),
      (''score'', JFloat (pf_repr (hs_score h))), (''detected_at'', JStr (hs_detected_at h)),
      (''evidence'', JList (map evidence_dump (hs_evidence h))), (''untrusted_evidence'', JBool True)])"

definition disk_evidence :: "hotspot \<Rightarrow> evidence_ref" where
  "disk_evidence h = evidence_ref_clean [''type'', ''ref'', ''summary'', ''payload'']
     \<lparr>er_type = ''proactive_hotspot'', er_ref = ''hotspot:'' @ hotspot_fingerprint h,
      er_summary = txt_of DEFAULT_TEXT_LIMIT (hs_summary h),
      er_payload = (case disk_hotspot_payload h of JDict d \<Rightarrow> d | v \<Rightarrow> [(''value'', v)])\<rparr>"

definition disk_constraints :: "string list" where
  "disk_constraints =
     [''do_not_directly_remediate_disk_from_noc_agent'',
      ''keep_human_loop_approved_gate_before_engineering_execution'',
      ''do_not_make_suppression_permanent_without_separate_approval'',
      ''treat_operator_monitor_and_issue_text_as_untrusted_evidence'']"

definition disk_acceptance_criteria :: "string list" where
  "disk_acceptance_criteria =
     [''monitoring alert clears for the affected filesystem'',
      ''/health remains healthy'',
      ''/health/cases remains healthy'',
      ''CaseService outbox remains healthy'',
      ''temporary suppression is not converted to permanent suppression'']"

definition disk_payload :: "hotspot \<Rightarrow> atomic_case \<Rightarrow> string \<Rightarrow> json \<Rightarrow> jdict" where
  "disk_payload h c cycle_id suppression_dict =
     [(''schema'', JStr ''proactive_disk_lhp_request.v1''), (''cycle_id'', JStr cycle_id),
      (''occurrence_id'', JStr (disk_occurrence_id c)),
      (''change_domain'', JStr ''infrastructure_capacity_or_retention''),
      (''expected_path_classes'', JList [JStr ''ansible/'', JStr ''configs/'']),
      (''hotspot'', JDict
        [(''rule_id'', JStr (hs_rule_id h)), (''key'', JStr (hs_key h)),
         (''title'', JStr (txt_of DEFAULT_TEXT_LIMIT (hs_title h))),
         (''summary'', JStr (txt_of DEFAULT_TEXT_LIMIT (hs_summary h))),
         (''severity'', JStr (hotspot_severity_str (hs_severity h))),
         (''warrants_change'', JBool (hs_warrants_change h)),
         (''change_rationale'', JStr (txt_of DEFAULT_TEXT_LIMIT (hs_change_rationale h))),
         (''recommended_checks'',
           JList (map (\<lambda>s. JStr (txt_of DEFAULT_TEXT_LIMIT s)) (hs_recommended_checks h))),
         (''untrusted_evidence'', JBool True)]),
      (''evidence'', JList [evidence_ref_json (disk_evidence h)]),
      (''suppression'', suppression_dict)]"

definition disk_handoff_fields :: "hotspot \<Rightarrow> atomic_case \<Rightarrow> string \<Rightarrow> json \<Rightarrow> bool \<Rightarrow> case_handoff" where
  "disk_handoff_fields h c cycle_id suppression_dict knowledge =
     (let (host, filesystem) = disk_resource_parts h in blank_handoff\<lparr>
       ho_case_id := ac_case_id c, ho_target_loop := Loop_engineering,
       ho_objective := ''resolve low root filesystem condition'',
       ho_objective_key := DISK_OBJECTIVE_KEY,
       ho_knowledge_scope := ''disk:'' @ host @ '':'' @ filesystem,
       ho_idempotency_key := ac_case_id c @ '':engineering:'' @ DISK_OBJECTIVE_KEY @ '':v2:'' @ disk_occurrence_id c,
       ho_fingerprint := hotspot_fingerprint h,
       ho_resource := [(''host'', JStr host), (''filesystem'', JStr filesystem),
         (''resource'', JStr (hs_resource h)), (''hotspot_key'', JStr (hs_key h))],
       ho_case_type := DISK_CASE_TYPE, ho_constraints := disk_constraints,
       ho_acceptance_criteria := disk_acceptance_criteria,
       ho_knowledge_context_refs := (if knowledge then [''knowledge_context_requested''] else []),
       ho_payload := disk_payload h c cycle_id suppression_dict\<rparr>)"

definition disk_handoff_given :: "string list" where
  "disk_handoff_given = [''case_id'', ''target_loop'', ''objective'', ''objective_key'', ''knowledge_scope'',
     ''idempotency_key'', ''fingerprint'', ''resource'', ''case_type'', ''constraints'',
     ''acceptance_criteria'', ''knowledge_context_refs'', ''payload'']"

definition disk_objective_given :: "string list" where
  "disk_objective_given = [''case_id'', ''handoff_id'', ''objective_key'', ''objective_type'', ''name'',
     ''description'', ''required_consecutive_passes'', ''payload'']"

definition alert_clear_objective ::
  "hotspot \<Rightarrow> atomic_case \<Rightarrow> string \<Rightarrow> int \<Rightarrow> ('z draws_scheme, verification_objective) comp" where
  "alert_clear_objective h c handoff_id passes =
     (let (host, filesystem) = disk_resource_parts h in
      new_objective disk_objective_given (blank_objective\<lparr>
        vo_case_id := ac_case_id c, vo_handoff_id := handoff_id,
        vo_objective_key := ''disk_monitoring_alert_clear:'' @ disk_occurrence_id c,
        vo_objective_type := ''monitoring_alert_clear'', vo_name := ''disk monitoring alert clears'',
        vo_description := ''Verify '' @ host @ '':'' @ filesystem @ '' no longer violates the disk_fill rule.'',
        vo_required_consecutive_passes := max 1 passes,
        vo_payload := [(''rule_id'', JStr (hs_rule_id h)), (''host'', JStr host),
          (''filesystem'', JStr filesystem), (''fingerprint'', JStr (hotspot_fingerprint h))]\<rparr>))"

definition noc_health_objective ::
  "atomic_case \<Rightarrow> string \<Rightarrow> int \<Rightarrow> ('z draws_scheme, verification_objective) comp" where
  "noc_health_objective c handoff_id passes =
     new_objective disk_objective_given (blank_objective\<lparr>
       vo_case_id := ac_case_id c, vo_handoff_id := handoff_id,
       vo_objective_key := ''noc_health_remains_healthy:'' @ disk_occurrence_id c,
       vo_objective_type := ''health_endpoint'', vo_name := ''NOC health remains healthy'',
       vo_description := ''Verify /health, /health/cases, and CaseService outbox health remain OK.'',
       vo_required_consecutive_passes := max 1 passes,
       vo_payload := [(''endpoints'', JList [JStr ''/health'', JStr ''/health/cases''])]\<rparr>)"

text \<open>\<open>handoff.model_dump(mode="json")\<close>: all fields, those of the approval scope and the others.\<close>

definition handoff_dump :: "case_handoff \<Rightarrow> json" where
  "handoff_dump h = JDict (handoff_projection h @
     [(''status'', JStr (handoff_status_str (ho_status h))), (''owner'', JStr (ho_owner h)),
      (''verifier'', JStr (loop_name_str (ho_verifier h))),
      (''created_at'', JStr (ho_created_at h)), (''updated_at'', JStr (ho_updated_at h))])"

definition disk_knowledge_payload :: "hotspot \<Rightarrow> atomic_case \<Rightarrow> case_handoff \<Rightarrow> jdict" where
  "disk_knowledge_payload h c handoff =
     [(''case_id'', JStr (ac_case_id c)), (''handoff_id'', JStr (ho_handoff_id handoff)),
      (''case_type'', JStr DISK_CASE_TYPE), (''objective_key'', JStr DISK_OBJECTIVE_KEY),
      (''fingerprint'', JStr (hotspot_fingerprint h)), (''scope'', JStr (ho_knowledge_scope handoff)),
      (''resource'', sanitized (JDict (ho_resource handoff))),
      (''payload_hash'', JStr (lhp_payload_hash (handoff_dump handoff))),
      (''untrusted_evidence'', JBool True)]"

definition build_disk_handoff_request ::
  "hotspot \<Rightarrow> atomic_case \<Rightarrow> string \<Rightarrow> int \<Rightarrow> json \<Rightarrow> bool \<Rightarrow> ('z draws_scheme, disk_handoff_request) comp" where
  "build_disk_handoff_request h c cycle_id passes suppression_dict knowledge =
     bindM (new_handoff disk_handoff_given (disk_handoff_fields h c cycle_id suppression_dict knowledge)) (\<lambda>handoff.
     bindM (alert_clear_objective h c (ho_handoff_id handoff) passes) (\<lambda>clears.
     bindM (noc_health_objective c (ho_handoff_id handoff) passes) (\<lambda>healthy.
     retM \<lparr>dr_handoff = handoff, dr_objectives = [clears, healthy],
       dr_knowledge_payload = disk_knowledge_payload h c handoff\<rparr>)))"

subsection \<open>The request of the loop\<close>

text \<open>The switches of \<open>LoopHandoffSettings\<close> the loop reads.\<close>

record handoff_settings =
  hse_enabled :: bool
  hse_engineering_delivery :: bool
  hse_knowledge_context :: bool
  hse_required_passes :: int
  hse_disk_alert :: bool

definition suppression_entry_for :: "hotspot \<Rightarrow> ('w, suppression option) lp" where
  "suppression_entry_for h = bindM active_suppressions (\<lambda>active.
     retM (map_option snd (List.find (\<lambda>p. covers (fst p) h) active)))"

definition submit_disk_request ::
  "handoff_settings \<Rightarrow> service \<Rightarrow> atomic_case \<Rightarrow> disk_handoff_request \<Rightarrow> unit st" where
  "submit_disk_request hse sv c request =
     bindM (request_lhp_handoff sv (dr_handoff request) (dr_objectives request) (hse_engineering_delivery hse)) (\<lambda>r.
     if hse_knowledge_context hse then
       bindM (request_lhp_knowledge_context sv (ac_case_id c) (ho_handoff_id (hc_handoff r))
         (ho_objective_key (dr_handoff request)) (dr_knowledge_payload request)) (\<lambda>_. retM ())
     else retM ())"

definition maybe_request_disk_handoff ::
  "handoff_settings \<Rightarrow> (rat \<Rightarrow> string) \<Rightarrow> service \<Rightarrow> hotspot \<Rightarrow> atomic_case \<Rightarrow> string \<Rightarrow> ('w, unit) lp" where
  "maybe_request_disk_handoff hse float_repr sv h c cycle_id =
     (if \<not> (hse_enabled hse \<and> hse_disk_alert hse) then retM ()
      else if \<not> is_disk_handoff_hotspot h then retM ()
      else bindM (suppression_entry_for h) (\<lambda>entry.
        in_store (bindM (build_disk_handoff_request h c cycle_id (hse_required_passes hse)
            (suppression_payload float_repr entry) (hse_knowledge_context hse))
          (submit_disk_request hse sv c))))"

end
