(* ===== verification/Run_Lock.thy ===== *)
theory Run_Lock
  imports Loop_State
begin

section \<open>The run lock\<close>

text \<open>
  \<open>acquire_lock\<close> and \<open>release_lock\<close> of \<open>app/proactive/ledger.py\<close>, twice. \<open>acquire_lock\<close> below is
  the call when nothing else touches the file meanwhile. \<open>lock_advance\<close> is the same code one system call
  at a time, for any number of processes that share the file: \<open>os.open\<close> creates the file with a new
  inode and no content, the content is written through the descriptor, so it reaches the inode even
  when the path has been unlinked meanwhile, and \<open>unlink\<close> removes whatever the path names. An inode
  number is never used twice (a file system that reuses one only weakens the comparison).
\<close>

definition lock_max_age :: int where
  "lock_max_age = 7200"

text \<open>\<open>pid > 0 and fresh and _pid_alive(pid)\<close>\<close>

definition held_by_live :: "int \<Rightarrow> (int \<Rightarrow> bool) \<Rightarrow> rat \<Rightarrow> run_lock \<Rightarrow> bool" where
  "held_by_live max_age alive now l = (case l of
     Lock_unwritten \<Rightarrow> False
   | Lock_written pid started \<Rightarrow> 0 < pid \<and> now - started < of_int max_age \<and> alive pid)"

definition take_lock :: "int \<Rightarrow> ('w, bool) lp" where
  "take_lock me = bindM time_time (\<lambda>now.
     seqM (modM (\<lambda>w. w\<lparr>lw_lock := Some (Lock_written me now)\<rparr>)) (retM True))"

definition acquire_lock :: "int \<Rightarrow> (int \<Rightarrow> bool) \<Rightarrow> int \<Rightarrow> ('w, bool) lp" where
  "acquire_lock max_age alive me = bindM (getM lw_lock) (\<lambda>l.
     case l of None \<Rightarrow> take_lock me
     | Some l \<Rightarrow> bindM time_time (\<lambda>now.
         if held_by_live max_age alive now l then retM False
         else seqM (modM (\<lambda>w. w\<lparr>lw_lock := None\<rparr>)) (take_lock me)))"

definition release_lock :: "bool \<Rightarrow> ('w, unit) lp" where
  "release_lock held = whenM held (modM (\<lambda>w. w\<lparr>lw_lock := None\<rparr>))"

subsection \<open>Many processes, one system call at a time\<close>

text \<open>
  Where a process stands in \<open>acquire_lock\<close>: outside, before \<open>os.open\<close>, before the first \<open>stat\<close>,
  before reading, before the age and liveness test (with the inode of the first \<open>stat\<close>, None after
  an exception, and the holder read), before the second \<open>stat\<close>, before \<open>unlink\<close>, before writing the
  content to its new inode, holding the lock, or refused.
\<close>

datatype lock_pc =
    Outside
  | Opening
  | Statting
  | Reading nat
  | Judging "nat option" int rat
  | Restatting "nat option"
  | Unlinking
  | Writing nat
  | Holding
  | Refused

record lock_sys =
  ls_path :: "nat option"
  ls_content :: "nat \<Rightarrow> run_lock"
  ls_next_inode :: nat
  ls_pc :: "int \<Rightarrow> lock_pc"
  ls_now :: rat
  ls_alive :: "int \<Rightarrow> bool"

definition goto :: "int \<Rightarrow> lock_pc \<Rightarrow> lock_sys \<Rightarrow> lock_sys" where
  "goto p c s = s\<lparr>ls_pc := (ls_pc s)(p := c)\<rparr>"

text \<open>\<open>os.open(path, O_CREAT | O_EXCL | O_WRONLY)\<close> when there is no file.\<close>

definition create_file :: "int \<Rightarrow> lock_sys \<Rightarrow> lock_sys" where
  "create_file p s = goto p (Writing (ls_next_inode s)) (s\<lparr>ls_path := Some (ls_next_inode s),
     ls_content := (ls_content s)(ls_next_inode s := Lock_unwritten),
     ls_next_inode := Suc (ls_next_inode s)\<rparr>)"

fun lock_advance :: "int \<Rightarrow> int \<Rightarrow> lock_pc \<Rightarrow> lock_sys \<Rightarrow> lock_sys" where
  "lock_advance max_age p Outside s = goto p Opening s"
| "lock_advance max_age p Opening s =
     (if ls_path s = None then create_file p s else goto p Statting s)"
| "lock_advance max_age p Statting s =
     (case ls_path s of None \<Rightarrow> goto p (Judging None (-1) 0) s | Some i \<Rightarrow> goto p (Reading i) s)"
| "lock_advance max_age p (Reading i) s =
     (case ls_path s of None \<Rightarrow> goto p (Judging None (-1) 0) s
      | Some j \<Rightarrow> (case ls_content s j of
            Lock_unwritten \<Rightarrow> goto p (Judging None (-1) 0) s
          | Lock_written pid started \<Rightarrow> goto p (Judging (Some i) pid started) s))"
| "lock_advance max_age p (Judging before pid started) s =
     (if held_by_live max_age (ls_alive s) (ls_now s) (Lock_written pid started)
      then goto p Refused s else goto p (Restatting before) s)"
| "lock_advance max_age p (Restatting before) s =
     (case ls_path s of None \<Rightarrow> goto p Opening s
      | Some j \<Rightarrow> if before \<noteq> None \<and> before \<noteq> Some j then goto p Refused s else goto p Unlinking s)"
| "lock_advance max_age p Unlinking s = goto p Opening (s\<lparr>ls_path := None\<rparr>)"
| "lock_advance max_age p (Writing i) s =
     goto p Holding (s\<lparr>ls_content := (ls_content s)(i := Lock_written p (ls_now s))\<rparr>)"
| "lock_advance max_age p Holding s = goto p Outside (s\<lparr>ls_path := None\<rparr>)"
| "lock_advance max_age p Refused s = goto p Outside s"

text \<open>The last two lines are \<open>release_lock\<close> and the end of a cycle that did not get the lock.\<close>

definition lock_act :: "int \<Rightarrow> int \<Rightarrow> lock_sys \<Rightarrow> lock_sys" where
  "lock_act max_age p s = lock_advance max_age p (ls_pc s p) s"

definition fresh_system :: "(int \<Rightarrow> bool) \<Rightarrow> lock_sys" where
  "fresh_system alive = \<lparr>ls_path = None, ls_content = (\<lambda>_. Lock_unwritten), ls_next_inode = 0,
     ls_pc = (\<lambda>_. Outside), ls_now = 0, ls_alive = alive\<rparr>"

text \<open>A live process makes a step, time passes, or a process dies.\<close>

inductive lock_moves :: "int \<Rightarrow> lock_sys \<Rightarrow> lock_sys \<Rightarrow> bool" for max_age where
  act: "ls_alive s p \<Longrightarrow> lock_moves max_age s (lock_act max_age p s)"
| wait: "0 \<le> d \<Longrightarrow> lock_moves max_age s (s\<lparr>ls_now := ls_now s + d\<rparr>)"
| die: "lock_moves max_age s (s\<lparr>ls_alive := (ls_alive s)(p := False)\<rparr>)"

text \<open>What a scheduler that runs the processes in this order makes of the system.\<close>

definition run_schedule :: "int \<Rightarrow> int list \<Rightarrow> lock_sys \<Rightarrow> lock_sys" where
  "run_schedule max_age ps s = fold (lock_act max_age) ps s"

text \<open>
  A whole call of one process: it runs until it holds the lock or is refused. A call that nothing
  interrupts takes nine steps at most.
\<close>

fun finish_call :: "nat \<Rightarrow> int \<Rightarrow> int \<Rightarrow> lock_sys \<Rightarrow> lock_sys" where
  "finish_call 0 max_age p s = s"
| "finish_call (Suc n) max_age p s = (let s' = lock_act max_age p s in
     if ls_pc s' p = Holding \<or> ls_pc s' p = Refused then s' else finish_call n max_age p s')"

definition whole_call :: "int \<Rightarrow> int \<Rightarrow> lock_sys \<Rightarrow> lock_sys" where
  "whole_call max_age p s = finish_call 9 max_age p s"

lemma schedule_moves:
  assumes "\<forall>p \<in> set ps. ls_alive s p"
  shows "(lock_moves max_age)\<^sup>*\<^sup>* s (run_schedule max_age ps s)"
  using assms
proof (induction ps arbitrary: s)
  case (Cons p ps)
  have alive: "ls_alive (lock_act max_age p s) = ls_alive s"
    by (cases "ls_pc s p")
      (auto simp: lock_act_def goto_def create_file_def split: option.splits run_lock.splits)
  have "lock_moves max_age s (lock_act max_age p s)" using Cons.prems by (auto intro: lock_moves.act)
  moreover have "(lock_moves max_age)\<^sup>*\<^sup>* (lock_act max_age p s) (run_schedule max_age (p # ps) s)"
    using Cons.IH [of "lock_act max_age p s"] Cons.prems alive by (simp add: run_schedule_def)
  ultimately show ?case by (rule converse_rtranclp_into_rtranclp)
qed (simp add: run_schedule_def)

end
