(* ===== verification/Proactive_Loop.thy ===== *)
theory Proactive_Loop
  imports Scanner Icinga_Ack Disk_Handoff Run_Lock
begin

section \<open>The proactive loop\<close>

text \<open>
  One cycle of \<open>ProactiveLoop\<close> (\<open>app/proactive/loop.py\<close>): the carried hotspots, the suppressions, the
  digest, and \<open>run_once\<close>, which puts them together. What is not the loop's own is a field of
  \<open>loop_env\<close>: the tools of the MCP server (which the scan rules and the acknowledgements in Icinga
  call), the investigator, the reporter, the audit post, the memory, the insight records and the
  heartbeat are callbacks, which may raise; the names of the models and of the lessons are lists.
\<close>

record 'w loop_env =
  le_settings :: loop_settings
  le_service :: "service option"
  le_control :: bool
  le_manifest :: json
  le_model_chain :: "string list"
  le_lessons :: "string list"
  le_pid :: int
  le_pid_alive :: "int \<Rightarrow> bool"
  le_category :: "exn \<Rightarrow> string"
  le_tool :: "'w tool_call option"
  le_ignored_units :: "exn + rx list"
  le_signing_secret :: string
  le_handoffs :: handoff_settings
  le_float_repr :: "rat \<Rightarrow> string"
  le_investigator :: "'w investigator option"
  le_reporter :: "cycle_report \<Rightarrow> gate_decision \<Rightarrow> ('w, bool option) callback"
  le_snooze_report :: "string list \<Rightarrow> hotspot list \<Rightarrow> ('w, unit) callback"
  le_memory :: "cycle_report \<Rightarrow> bool \<Rightarrow> ('w, unit) callback"
  le_insights :: "cycle_report \<Rightarrow> gate_decision \<Rightarrow> hotspot list \<Rightarrow> bool \<Rightarrow> bool \<Rightarrow> bool \<Rightarrow> ('w, unit) callback"
  le_heartbeat :: "cycle_report \<Rightarrow> ('w, unit) callback"

text \<open>The query tool of the scan. Without an MCP runtime the attribute access raises.\<close>

definition prom_of :: "'w tool_call option \<Rightarrow> 'w prom_tool" where
  "prom_of tool = (\<lambda>query. case tool of
     None \<Rightarrow> raiseM (OtherError ''AttributeError'' ''call_tool'')
   | Some call \<Rightarrow> call ''prometheus_query'' (JDict [(''query'', JStr query)]))"

text \<open>The service in control of the investigations: \<open>case_service_control\<close> needs one.\<close>

definition control_service :: "'w loop_env \<Rightarrow> service option" where
  "control_service env = (if le_control env then le_service env else None)"

subsection \<open>Carrying hotspots over\<close>

definition deep_rule_ids :: "string set" where
  "deep_rule_ids = {''disk_fill'', ''tls_expiry''}"

definition is_deep :: "hotspot \<Rightarrow> bool" where
  "is_deep h \<longleftrightarrow> hs_rule_id h \<in> deep_rule_ids"

definition merge_with_carried :: "hotspot list \<Rightarrow> bool \<Rightarrow> bool \<Rightarrow> ('w, hotspot list) lp" where
  "merge_with_carried raw do_deep degraded = (\<lambda>w.
     if degraded then
       let merged = raw @ filter (\<lambda>h. hotspot_fingerprint h \<notin> hotspot_fingerprint ` set raw)
             (lw_last_effective w)
       in (Inr merged, w\<lparr>lw_last_effective := merged\<rparr>)
     else if do_deep then
       (Inr raw, w\<lparr>lw_last_deep_hotspots := filter is_deep raw, lw_last_effective := raw\<rparr>)
     else
       let effective = filter (\<lambda>h. \<not> is_deep h) raw @ lw_last_deep_hotspots w
       in (Inr effective, w\<lparr>lw_last_effective := effective\<rparr>))"

definition should_deep_scan :: "loop_settings \<Rightarrow> ('w, bool) lp" where
  "should_deep_scan ps = bindM time_time (\<lambda>now. bindM (getM lw_last_deep_scan) (\<lambda>last_scan.
     retM (of_int (max (lps_interval_s ps) (lps_deep_scan_s ps)) \<le> now - last_scan)))"

subsection \<open>Suppressions in a cycle\<close>

text \<open>
  The acknowledgements of conditions that have cleared are dropped, in the order of the entries; a
  timed snooze stays until it expires.
\<close>

definition resolved_acks :: "hotspot list \<Rightarrow> (string, suppression) dict \<Rightarrow> string list" where
  "resolved_acks raw active =
     map fst (filter (\<lambda>(k, e). su_expires_at e = None \<and> \<not> (\<exists>h \<in> set raw. covers k h)) active)"

definition apply_suppressions :: "hotspot list \<Rightarrow> ('w, hotspot list) lp" where
  "apply_suppressions raw = bindM active_suppressions (\<lambda>active.
     if active = [] then retM raw
     else seqM (mapM remove_suppression (resolved_acks raw active))
       (bindM active_suppressions (\<lambda>still.
        retM (filter (\<lambda>h. \<not> (\<exists>k \<in> set (dict_keys still). covers k h)) raw))))"

definition is_auto_snoozable :: "hotspot \<Rightarrow> bool" where
  "is_auto_snoozable h \<longleftrightarrow> hs_severity h = Sev_low \<and> \<not> hs_warrants_change h"

definition snooze_reason :: "hotspot \<Rightarrow> string" where
  "snooze_reason h =
     ''auto-snoozed (non-urgent '' @ hotspot_severity_str (hs_severity h) @ ''): '' @ hs_title h"

text \<open>The accumulator holds the keys snoozed so far and the active keys.\<close>

definition snooze_hotspot ::
  "'w loop_env \<Rightarrow> hotspot \<Rightarrow> string list \<times> string list \<Rightarrow> ('w, string list \<times> string list) lp" where
  "snooze_hotspot env h acc =
     (let ps = le_settings env; fp = hotspot_fingerprint h; ttl = lps_auto_snooze_ttl_s ps in
      if max 1 (lps_auto_snooze_max_per_cycle ps) \<le> int (length (fst acc)) then retM acc
      else if \<not> is_auto_snoozable h then retM acc
      else if \<exists>a \<in> set (snd acc). prefix a fp \<or> prefix fp a then retM acc
      else
        seqM (add_suppression fp (hs_key h) (snooze_reason h) [] ''agent'' (Some (of_int ttl)))
        (seqM (whenM (lps_auto_snooze_icinga_ack ps) (auto_snooze_icinga_ack (le_tool env) (le_signing_secret env) h ttl))
        (retM (fst acc @ [hs_key h], snd acc @ [fp]))))"

definition auto_snooze :: "'w loop_env \<Rightarrow> hotspot list \<Rightarrow> ('w, string list) lp" where
  "auto_snooze env raw =
     (if \<not> lps_auto_snooze_enabled (le_settings env) then retM []
      else bindM active_suppressions (\<lambda>active.
        bindM (foldM (snooze_hotspot env) raw ([], dict_keys active)) (\<lambda>acc.
        seqM (whenM (fst acc \<noteq> [])
            (except_exception (call_out (le_snooze_report env (fst acc) raw)) (\<lambda>e. retM ())))
          (retM (fst acc)))))"

subsection \<open>Observing and reporting\<close>

definition observe_hotspot ::
  "'w loop_env \<Rightarrow> service \<Rightarrow> string \<Rightarrow> source_health \<Rightarrow> hotspot \<Rightarrow> ('w, unit) lp" where
  "observe_hotspot env sv cycle_id health h =
     bindM (in_store (bindM (observation_from_hotspot h cycle_id health) (observe sv))) (\<lambda>result.
     case or_case result of None \<Rightarrow> retM ()
     | Some c \<Rightarrow> maybe_request_disk_handoff (le_handoffs env) (le_float_repr env) sv h c cycle_id)"

definition shadow_observe_hotspots ::
  "'w loop_env \<Rightarrow> hotspot list \<Rightarrow> string \<Rightarrow> source_health \<Rightarrow> ('w, unit) lp" where
  "shadow_observe_hotspots env raw cycle_id health = (case le_service env of
     None \<Rightarrow> retM ()
   | Some sv \<Rightarrow>
       if raw = [] then retM ()
       else except_exception (seqM (mapM (observe_hotspot env sv cycle_id health) raw) (retM ()))
         (\<lambda>e. if control_service env \<noteq> None then raiseM e else retM ()))"

definition signature_of :: "hotspot list \<Rightarrow> report_signature" where
  "signature_of hs = (\<lambda>h. (hotspot_fingerprint h, hs_severity h)) ` set hs"

definition report_decision :: "loop_settings \<Rightarrow> ('w, bool \<times> report_signature \<times> rat) lp" where
  "report_decision ps = bindM time_time (\<lambda>now. getM (\<lambda>w.
     let hs = cr_hotspots (lw_report w); signature = signature_of hs; last_sig = lw_last_report_signature w in
     if hs = [] then (last_sig \<noteq> None \<and> last_sig \<noteq> Some {}, signature, now)
     else (last_sig \<noteq> Some signature \<or>
       of_int (max 1 (lps_report_reassert_s ps)) \<le> now - lw_last_report_ts w, signature, now)))"

definition mark_hotspot_reported :: "service \<Rightarrow> hotspot \<Rightarrow> ('w, unit) lp" where
  "mark_hotspot_reported sv h = except_exception
     (in_store (bindM (case_for_alias AT_source_fp (hotspot_fingerprint h)) (\<lambda>c.
        case c of None \<Rightarrow> retM ()
        | Some c \<Rightarrow> seqM (mark_reported sv (ac_case_id c) (report_state_signature c) False) (retM ()))))
     (\<lambda>e. retM ())"

definition mark_reported_hotspots :: "'w loop_env \<Rightarrow> ('w, unit) lp" where
  "mark_reported_hotspots env = (case control_service env of None \<Rightarrow> retM ()
     | Some sv \<Rightarrow> bindM (getM (\<lambda>w. cr_hotspots (lw_report w))) (\<lambda>hs.
         seqM (mapM (mark_hotspot_reported sv) hs) (retM ())))"

text \<open>The reporter's answer counts as delivered unless it is \<open>False\<close>.\<close>

definition post_digest ::
  "'w loop_env \<Rightarrow> gate_decision \<Rightarrow> bool \<Rightarrow> report_signature \<Rightarrow> rat \<Rightarrow> ('w, bool) lp" where
  "post_digest env gate due signature now =
     (if \<not> due then retM False
      else bindM (getM lw_report) (\<lambda>report.
        bindM (except_exception
            (bindM (call_out (le_reporter env report gate)) (\<lambda>delivered. retM (delivered \<noteq> Some False)))
            (\<lambda>e. retM False)) (\<lambda>delivered.
        if delivered then
          seqM (modM (\<lambda>w. w\<lparr>lw_last_report_signature := Some signature, lw_last_report_ts := now\<rparr>))
          (seqM (mark_reported_hotspots env) (retM True))
        else retM False)))"

definition safe_report :: "'w loop_env \<Rightarrow> gate_decision \<Rightarrow> ('w, bool \<times> bool) lp" where
  "safe_report env gate = bindM (report_decision (le_settings env)) (\<lambda>(due, signature, now).
     bindM (post_digest env gate due signature now) (\<lambda>posted.
     seqM (bindM (getM lw_report) (\<lambda>report.
         except_exception (call_out (le_heartbeat env report)) (\<lambda>e. retM ())))
       (retM (due, posted))))"

subsection \<open>A cycle\<close>

definition classify_outcome :: "cycle_report \<Rightarrow> gate_decision \<Rightarrow> nat \<Rightarrow> cycle_outcome" where
  "classify_outcome report gate investigated =
     (if investigated \<noteq> 0 then Out_investigated
      else if gd_over_budget gate then Out_over_budget
      else if cr_hotspots report \<noteq> [] then Out_scanned else Out_idle)"

definition budget_summary :: "loop_settings \<Rightarrow> ledger \<Rightarrow> cycle_report \<Rightarrow> string" where
  "budget_summary ps l r =
     (let count = (\<lambda>xs. int_str (int (length xs))) in
      ''Recorded investigation attempts: '' @ int_str (lg_attempts l) @ ''/'' @
      int_str (lps_max_investigations_per_day ps) @ '' today; this cycle: '' @
      count (cr_investigation_attempted r) @ '' attempted, '' @ count (cr_investigated r) @
      '' succeeded, '' @ count (cr_investigation_failed r) @ '' failed'' @
      (if cr_investigation_skipped r = [] then []
       else '', '' @ count (cr_investigation_skipped r) @ '' skipped'') @ ''.'')"

text \<open>The cycle up to its investigations: what is on the report and what the gate allows.\<close>

definition survey :: "'w loop_env \<Rightarrow> bool \<Rightarrow> ('w, hotspot list) lp" where
  "survey env do_deep =
     bindM (call_out (scan (prom_of (le_tool env)) (le_ignored_units env) do_deep)) (\<lambda>(raw, degraded).
     bindM (getM (\<lambda>w. cr_cycle_id (lw_report w))) (\<lambda>cycle_id.
     seqM (shadow_observe_hotspots env raw cycle_id (if degraded then SH_degraded else SH_healthy))
     (bindM (merge_with_carried raw do_deep degraded) (\<lambda>effective.
      bindM (auto_snooze env effective) (\<lambda>snoozed.
      seqM (note_report (\<lambda>r. r\<lparr>cr_auto_snoozed := snoozed\<rparr>))
      (bindM (apply_suppressions effective) (\<lambda>kept.
       seqM (note_report (\<lambda>r. r\<lparr>cr_hotspots := kept\<rparr>)) (retM effective))))))))"

definition decide :: "'w loop_env \<Rightarrow> ledger \<Rightarrow> ('w, decision_context) lp" where
  "decide env l =
     bindM (getM (\<lambda>w. cr_cycle_id (lw_report w))) (\<lambda>cycle_id.
     bindM (in_store (build_decision_context (le_manifest env) (le_settings env) cycle_id
         (le_model_chain env) l (le_lessons env))) (\<lambda>decision.
     seqM (note_report (\<lambda>r. r\<lparr>cr_decision_id := Some (dc_decision_id decision)\<rparr>))
       (retM decision)))"

definition settle_cycle ::
  "'w loop_env \<Rightarrow> string \<Rightarrow> bool \<Rightarrow> gate_decision \<Rightarrow> nat \<Rightarrow> ('w, unit) lp" where
  "settle_cycle env day do_deep gate investigated =
     bindM (getM lw_report) (\<lambda>r.
     seqM (update_ledger day (spend (\<lambda>l. l\<lparr>lg_cycles := 1, lg_cost_usd := cr_cost_usd r,
       lg_handoffs := int (length (cr_handoffs r))\<rparr>)))
     (bindM (load_ledger day) (\<lambda>final.
      seqM (note_report (\<lambda>r. r\<lparr>cr_budget_summary := budget_summary (le_settings env) final r\<rparr>))
      (seqM (whenM do_deep (bindM time_time (\<lambda>now. modM (\<lambda>w. w\<lparr>lw_last_deep_scan := now\<rparr>))))
      (note_report (\<lambda>r. r\<lparr>cr_outcome := classify_outcome r gate investigated\<rparr>))))))"

definition finish_cycle ::
  "'w loop_env \<Rightarrow> gate_decision \<Rightarrow> hotspot list \<Rightarrow> bool \<Rightarrow> ('w, unit) lp" where
  "finish_cycle env gate effective do_deep =
     seqM (bindM (getM lw_report) (\<lambda>r.
       except_exception (call_out (le_memory env r do_deep)) (\<lambda>e. retM ())))
     (bindM (safe_report env gate) (\<lambda>(due, posted).
      bindM (getM lw_report) (\<lambda>r.
       except_exception (call_out (le_insights env r gate effective due posted do_deep)) (\<lambda>e. retM ()))))"

definition cycle_body :: "'w loop_env \<Rightarrow> bool option \<Rightarrow> ('w, unit) lp" where
  "cycle_body env deep =
     bindM today (\<lambda>day.
     bindM (load_ledger day) (\<lambda>l.
     bindM (case deep of None \<Rightarrow> should_deep_scan (le_settings env) | Some d \<Rightarrow> retM d) (\<lambda>do_deep.
     bindM (survey env do_deep) (\<lambda>effective.
     bindM (decide env l) (\<lambda>decision.
     bindM (getM (\<lambda>w. evaluate_gate (le_settings env) l (cr_hotspots (lw_report w)))) (\<lambda>gate.
     bindM (investigate (le_settings env) (control_service env) (le_category env)
         (le_investigator env) gate decision day) (\<lambda>investigated.
     seqM (settle_cycle env day do_deep gate investigated)
       (finish_cycle env gate effective do_deep))))))))"

text \<open>\<open>try: ... finally: f\<close>\<close>

definition finallyM :: "('s, 'a) comp \<Rightarrow> ('s, unit) comp \<Rightarrow> ('s, 'a) comp" where
  "finallyM m f = bindM (tryM m) (\<lambda>r. seqM f (liftM r))"

definition finish_report :: "('w, unit) lp" where
  "finish_report = bindM (in_store utc_now) (\<lambda>now. note_report (\<lambda>r. r\<lparr>cr_finished_at := now\<rparr>))"

definition run_cycle :: "'w loop_env \<Rightarrow> bool option \<Rightarrow> ('w, cycle_report) lp" where
  "run_cycle env deep =
     seqM (bindM (in_store new_cycle_report) (\<lambda>r. note_report (\<lambda>_. r)))
     (if \<not> lps_enabled (le_settings env) then
        seqM (note_report (\<lambda>r. r\<lparr>cr_outcome := Out_disabled\<rparr>))
        (seqM finish_report (getM lw_report))
      else bindM (acquire_lock lock_max_age (le_pid_alive env) (le_pid env)) (\<lambda>got.
        if \<not> got then
          seqM (note_report (\<lambda>r. r\<lparr>cr_outcome := Out_locked,
            cr_detail := ''another cycle holds the lock''\<rparr>))
          (seqM finish_report (getM lw_report))
        else
          seqM (finallyM (except_exception (cycle_body env deep) (\<lambda>e.
              note_report (\<lambda>r. r\<lparr>cr_outcome := Out_error, cr_errors := cr_errors r @ [le_category env e]\<rparr>)))
            (release_lock True))
          (seqM finish_report
          (seqM (modM (\<lambda>w. w\<lparr>lw_last_report := Some (lw_report w)\<rparr>))
            (getM lw_report)))))"

end
