(* ===== verification/Run_Lock_Spec.thy ===== *)
theory Run_Lock_Spec
  imports Run_Lock
begin

section \<open>What the run lock guarantees, and what it does not\<close>

text \<open>
  The call by itself does what its name says. Calls that do not interleave, by holders that
  finish within the lock's age, exclude each other. Two calls that do interleave may both succeed:
  the file exists before its content does, and a reader takes an empty file for an abandoned one
  and then skips the inode comparison that would tell it that the file is new.
\<close>

subsection \<open>One call by itself\<close>

definition lock_file :: "lock_sys \<Rightarrow> run_lock option" where
  "lock_file s = map_option (ls_content s) (ls_path s)"

lemmas lock_eval = lock_act_def goto_def create_file_def lock_file_def

text \<open>The state a process leaves that has just written its lock.\<close>

definition taken_by :: "int \<Rightarrow> lock_sys \<Rightarrow> lock_sys" where
  "taken_by p s = goto p Holding (s\<lparr>ls_path := Some (ls_next_inode s),
     ls_content := (ls_content s)(ls_next_inode s := Lock_written p (ls_now s)),
     ls_next_inode := Suc (ls_next_inode s)\<rparr>)"

lemma taken_by_simps [simp]:
  "ls_pc (taken_by p s) = (ls_pc s)(p := Holding)"
  "lock_file (taken_by p s) = Some (Lock_written p (ls_now s))"
  "ls_now (taken_by p s) = ls_now s" "ls_alive (taken_by p s) = ls_alive s"
  by (simp_all add: taken_by_def goto_def lock_file_def)

lemma goto_simps [simp]:
  "ls_pc (goto p c s) = (ls_pc s)(p := c)" "lock_file (goto p c s) = lock_file s"
  "ls_now (goto p c s) = ls_now s" "ls_alive (goto p c s) = ls_alive s"
  by (simp_all add: goto_def lock_file_def)

lemma whole_call_cases:
  assumes "ls_pc s p = Outside"
  shows "whole_call max_age p s =
    (case lock_file s of None \<Rightarrow> taken_by p s
     | Some l \<Rightarrow> if held_by_live max_age (ls_alive s) (ls_now s) l then goto p Refused s
         else taken_by p s)"
proof (cases "ls_path s")
  case None
  then show ?thesis
    using assms by (simp add: whole_call_def eval_nat_numeral lock_eval taken_by_def)
next
  case (Some i)
  then show ?thesis
    using assms
    by (cases "ls_content s i")
      (simp_all add: whole_call_def eval_nat_numeral lock_eval taken_by_def held_by_live_def Let_def)
qed

lemma acquire_lock_app:
  "acquire_lock max_age alive me w =
     (case lw_lock w of
        None \<Rightarrow> (Inr True, w\<lparr>lw_lock := Some (Lock_written me (lw_seconds w (lw_second_reads w))),
          lw_second_reads := Suc (lw_second_reads w)\<rparr>)
      | Some l \<Rightarrow>
          if held_by_live max_age alive (lw_seconds w (lw_second_reads w)) l
          then (Inr False, w\<lparr>lw_second_reads := Suc (lw_second_reads w)\<rparr>)
          else (Inr True, w\<lparr>
            lw_lock := Some (Lock_written me (lw_seconds w (Suc (lw_second_reads w)))),
            lw_second_reads := Suc (Suc (lw_second_reads w))\<rparr>))"
  by (auto simp: acquire_lock_def take_lock_def time_time_def comp_simps split: option.splits)

text \<open>
  The lock call as one operation and the lock call as a sequence of system calls agree. A process
  whose call nothing interrupts, while the clock stands still, ends holding the lock when \<open>acquire_lock\<close> returns a
  path and refused when it returns None, with the same lock file, and the other processes are where they were.
\<close>
theorem acquire_lock_is_its_system_calls:
  assumes "ls_pc s p = Outside" and "lw_lock w = lock_file s" and "\<forall>n. lw_seconds w n = ls_now s"
    and "acquire_lock max_age (ls_alive s) p w = (Inr got, w')"
  shows "ls_pc (whole_call max_age p s) = (ls_pc s)(p := if got then Holding else Refused) \<and>
    lock_file (whole_call max_age p s) = lw_lock w'"
  using assms by (auto simp: whole_call_cases acquire_lock_app split: option.splits if_splits)

definition two_processes :: "int \<Rightarrow> bool" where
  "two_processes p \<longleftrightarrow> p = 1 \<or> p = 2"

text \<open>The world of a cycle when there is no lock file.\<close>

theorem acquire_lock_is_its_system_calls_witness:
  "ls_pc (whole_call 7200 1 (fresh_system two_processes)) 1 = Holding"
proof -
  let ?w = "undefined\<lparr>lw_lock := None, lw_seconds := (\<lambda>_. 0)\<rparr> :: unit loop_world"
  have "acquire_lock 7200 (ls_alive (fresh_system two_processes)) 1 ?w =
      (Inr True, snd (acquire_lock 7200 (ls_alive (fresh_system two_processes)) 1 ?w))"
    by (simp add: acquire_lock_app)
  from acquire_lock_is_its_system_calls [OF _ _ _ this]
  show ?thesis by (simp add: fresh_system_def lock_file_def)
qed

text \<open>
  A lock call that nothing interrupts ends: whatever file it finds, a process that starts it holds
  the lock or is refused after at most nine system calls; it neither waits nor retries for ever.
\<close>
theorem lock_call_ends:
  assumes "ls_pc s p = Outside"
  shows "ls_pc (whole_call max_age p s) p = Holding \<or> ls_pc (whole_call max_age p s) p = Refused"
  using assms by (simp add: whole_call_cases split: option.splits)

theorem lock_call_ends_witness:
  "ls_pc (whole_call 7200 2 (fresh_system two_processes)) 2 \<in> {Holding, Refused}"
  using lock_call_ends [of "fresh_system two_processes" 2 7200] by (simp add: fresh_system_def)

subsection \<open>Calls that do not interleave\<close>

text \<open>
  The runs in which every call of \<open>acquire_lock\<close> goes through without interruption, and time does not
  pass the lock's age while a live process holds the lock.
\<close>

definition lock_age_ok :: "int \<Rightarrow> rat \<Rightarrow> lock_sys \<Rightarrow> bool" where
  "lock_age_ok max_age later s \<longleftrightarrow> (\<forall>p started. ls_alive s p \<longrightarrow> ls_pc s p = Holding \<longrightarrow>
     lock_file s = Some (Lock_written p started) \<longrightarrow> later - started < of_int max_age)"

inductive orderly :: "int \<Rightarrow> lock_sys \<Rightarrow> bool" for max_age where
  start: "orderly max_age (fresh_system alive)"
| call: "orderly max_age s \<Longrightarrow> ls_alive s p \<Longrightarrow> 0 < p \<Longrightarrow> ls_pc s p = Outside \<Longrightarrow>
    orderly max_age (whole_call max_age p s)"
| leave: "orderly max_age s \<Longrightarrow> ls_alive s p \<Longrightarrow> ls_pc s p = Holding \<or> ls_pc s p = Refused \<Longrightarrow>
    orderly max_age (lock_act max_age p s)"
| pass: "orderly max_age s \<Longrightarrow> 0 \<le> d \<Longrightarrow> lock_age_ok max_age (ls_now s + d) s \<Longrightarrow>
    orderly max_age (s\<lparr>ls_now := ls_now s + d\<rparr>)"
| crash: "orderly max_age s \<Longrightarrow> orderly max_age (s\<lparr>ls_alive := (ls_alive s)(p := False)\<rparr>)"

text \<open>A live holder is the one whose number is in the file, and it is fresh.\<close>

definition holder_in_file :: "int \<Rightarrow> lock_sys \<Rightarrow> bool" where
  "holder_in_file max_age s \<longleftrightarrow> (\<forall>p. ls_alive s p \<longrightarrow> ls_pc s p = Holding \<longrightarrow> 0 < p \<and>
     (\<exists>started. lock_file s = Some (Lock_written p started) \<and> ls_now s - started < of_int max_age))"


lemma holders_equal:
  assumes "holder_in_file max_age s"
    and "ls_alive s p" "ls_pc s p = Holding" "ls_alive s q" "ls_pc s q = Holding"
  shows "p = q"
  using assms by (metis holder_in_file_def option.inject run_lock.inject)

lemma orderly_holder_in_file:
  assumes "orderly max_age s" and "0 < max_age"
  shows "holder_in_file max_age s"
  using assms
proof (induction rule: orderly.induct)
  case (call s p)
  show ?case
  proof (cases "\<exists>l. lock_file s = Some l \<and> held_by_live max_age (ls_alive s) (ls_now s) l")
    case True
    then have "whole_call max_age p s = goto p Refused s"
      using call.hyps by (auto simp: whole_call_cases)
    then show ?thesis using call.IH call.prems by (simp add: holder_in_file_def)
  next
    case False
    then have "whole_call max_age p s = taken_by p s"
      using call.hyps by (auto simp: whole_call_cases split: option.splits)
    moreover have "\<not> (ls_alive s q \<and> ls_pc s q = Holding)" for q
      using call.IH call.prems False by (force simp: holder_in_file_def held_by_live_def)
    ultimately show ?thesis using call.hyps call.prems by (simp add: holder_in_file_def)
  qed
next
  case (leave s p)
  then have "ls_pc s q \<noteq> Holding" if "ls_alive s q" "q \<noteq> p" "ls_pc s p = Holding" for q
    using that leave holders_equal [of max_age s p q] by blast
  with leave show ?case
    by (auto simp: holder_in_file_def lock_act_def lock_file_def goto_def split: if_splits)
next
  case (pass s d)
  then show ?case by (force simp: holder_in_file_def lock_age_ok_def lock_file_def)
qed (auto simp: holder_in_file_def lock_file_def fresh_system_def)

text \<open>
  C34: The run lock excludes: in a run whose lock calls go through without interruption and whose
  holders finish before the lock's age, two live processes never hold the lock at the same time.
\<close>
theorem orderly_lock_exclusive:
  assumes "orderly max_age s" and "0 < max_age"
    and "ls_alive s p" and "ls_pc s p = Holding" and "ls_alive s q" and "ls_pc s q = Holding"
  shows "p = q"
  using holders_equal [OF orderly_holder_in_file [OF assms(1,2)] assms(3-6)] .

lemma orderly_example: "orderly 7200 (whole_call 7200 2 (whole_call 7200 1 (fresh_system two_processes)))"
proof (rule orderly.call)
  let ?s = "fresh_system two_processes"
  have no_file: "lock_file ?s = None" by (simp add: fresh_system_def lock_file_def)
  have one: "whole_call 7200 1 ?s = taken_by 1 ?s"
    using whole_call_cases [of ?s 1 7200] no_file by (simp add: fresh_system_def)
  show "orderly 7200 (whole_call 7200 1 ?s)"
    by (rule orderly.call [OF orderly.start]) (simp_all add: fresh_system_def two_processes_def)
  show "ls_alive (whole_call 7200 1 ?s) 2" "ls_pc (whole_call 7200 1 ?s) 2 = Outside"
    using one by (simp_all add: fresh_system_def two_processes_def)
qed simp

theorem orderly_lock_exclusive_witness:
  "ls_pc (whole_call 7200 2 (whole_call 7200 1 (fresh_system two_processes))) 2 \<noteq> Holding"
proof
  let ?s = "fresh_system two_processes" and ?t = "whole_call 7200 2 (whole_call 7200 1 (fresh_system two_processes))"
  assume "ls_pc ?t 2 = Holding"
  moreover have one: "whole_call 7200 1 ?s = taken_by 1 ?s"
    using whole_call_cases [of ?s 1 7200] by (simp add: fresh_system_def lock_file_def)
  moreover have "ls_pc ?t 1 = Holding" "ls_alive ?t = two_processes"
    using whole_call_cases [of "whole_call 7200 1 ?s" 2 7200] one
    by (simp_all add: fresh_system_def held_by_live_def split: if_splits)
  ultimately show False
    using orderly_lock_exclusive [OF orderly_example, of 1 2] by (simp add: two_processes_def)
qed

subsection \<open>Calls that interleave\<close>

text \<open>
  Process 1 has created the file and not yet written it when process 2 reads it: the text is no JSON,
  so process 2 takes the file for an abandoned one, unlinks it and creates its own. Process 1 then
  writes to the inode it has, and both go on.
\<close>

definition racing_schedule :: "int list" where
  "racing_schedule = [1, 1, 2, 2, 2, 2, 2, 2, 2, 2, 2, 1]"

text \<open>
  The run lock does not exclude processes that start together. From no lock file at all, with two
  live processes and no time passing, the system reaches a state in which both hold the lock, though
  the holder in the file is live and fresh.
\<close>
theorem run_lock_race:
  "\<exists>s. (lock_moves lock_max_age)\<^sup>*\<^sup>* (fresh_system two_processes) s \<and>
     ls_alive s 1 \<and> ls_alive s 2 \<and> ls_pc s 1 = Holding \<and> ls_pc s 2 = Holding \<and>
     lock_file s = Some (Lock_written 2 (ls_now s))"
proof -
  let ?s = "run_schedule lock_max_age racing_schedule (fresh_system two_processes)"
  have "(lock_moves lock_max_age)\<^sup>*\<^sup>* (fresh_system two_processes) ?s"
    by (rule schedule_moves) (simp add: racing_schedule_def fresh_system_def two_processes_def)
  moreover have "ls_pc ?s 1 = Holding" "ls_pc ?s 2 = Holding" "ls_alive ?s = two_processes"
    "lock_file ?s = Some (Lock_written 2 (ls_now ?s))"
    by (simp_all add: run_schedule_def racing_schedule_def fresh_system_def lock_eval held_by_live_def
        lock_max_age_def)
  ultimately show ?thesis by (intro exI [of _ ?s]) (simp add: two_processes_def)
qed

end
