(* ===== verification/Budget_Spec.thy ===== *)
theory Budget_Spec
  imports Proactive_Loop Run_Lock_Spec Service_Contract
begin

section \<open>The budget of the proactive loop\<close>

text \<open>
  Whatever the scanner, the investigator and the other callbacks do, and however a cycle ends, a
  cycle leaves the ledger of the day within the daily limit and in balance. The proofs follow the
  ledgers through a cycle: only \<open>update_ledger\<close> writes them.
\<close>

subsection \<open>Ledgers in balance\<close>

text \<open>
  No counter is negative, every attempt has ended as a success or a failure, and the successes are
  the investigations.
\<close>

definition ledger_ok :: "ledger \<Rightarrow> bool" where
  "ledger_ok l \<longleftrightarrow> \<not> negative_counter l \<and> lg_attempts l = lg_succeeded l + lg_failed l \<and>
     lg_investigations l = lg_succeeded l"

lemma ledger_ok_empty [simp]: "ledger_ok empty_ledger"
  by (simp add: ledger_ok_def negative_counter_iff empty_ledger_def)

text \<open>
  What a run may do to the ledgers: a ledger that is in balance stays in balance, and its attempts grow
  to the limit at most.
\<close>

definition within_limit :: "int \<Rightarrow> 'w loop_world \<Rightarrow> 'w loop_world \<Rightarrow> bool" where
  "within_limit limit w w' \<longleftrightarrow> (\<forall>day l. read_ledger (lw_ledgers w day) day = Inr l \<longrightarrow> ledger_ok l \<longrightarrow>
     (\<exists>l'. read_ledger (lw_ledgers w' day) day = Inr l' \<and> ledger_ok l' \<and>
       lg_attempts l \<le> lg_attempts l' \<and> lg_attempts l' \<le> max (lg_attempts l) limit))"

lemma within_limit_refl: "lw_ledgers w' = lw_ledgers w \<Longrightarrow> within_limit limit w w'"
  by (simp add: within_limit_def)

lemma within_limit_trans:
  assumes "within_limit limit u v" and "within_limit limit v w"
  shows "within_limit limit u w"
  unfolding within_limit_def
proof (intro allI impI)
  fix day l
  assume "read_ledger (lw_ledgers u day) day = Inr l" "ledger_ok l"
  then obtain m where m: "read_ledger (lw_ledgers v day) day = Inr m" "ledger_ok m"
    "lg_attempts l \<le> lg_attempts m" "lg_attempts m \<le> max (lg_attempts l) limit"
    using assms(1) unfolding within_limit_def by blast
  then obtain n where "read_ledger (lw_ledgers w day) day = Inr n" "ledger_ok n"
    "lg_attempts m \<le> lg_attempts n" "lg_attempts n \<le> max (lg_attempts m) limit"
    using assms(2) unfolding within_limit_def by blast
  then show "\<exists>l'. read_ledger (lw_ledgers w day) day = Inr l' \<and> ledger_ok l' \<and>
      lg_attempts l \<le> lg_attempts l' \<and> lg_attempts l' \<le> max (lg_attempts l) limit"
    using m by (intro exI [of _ n]) auto
qed

subsection \<open>What leaves the ledgers alone\<close>

lemma ledgers_kept:
  assumes "\<And>f. keeps (\<lambda>w. lw_ledgers w = f) m" and "m w = (r, w')"
  shows "lw_ledgers w' = lw_ledgers w"
  using keepsD_eq [OF assms(1) _ assms(2), of "lw_ledgers w"] by simp

lemma keeps_keepM [keeps_intros]: "(\<And>x. keeps P (p x)) \<Longrightarrow> keeps P (keepM p xs)"
  by (induction xs) (auto intro!: keeps_intros)

lemma keeps_finally [keeps_intros]: "keeps P m \<Longrightarrow> keeps P f \<Longrightarrow> keeps P (finallyM m f)"
  unfolding finallyM_def by (intro keeps_intros)

text \<open>A predicate of the loop's files and fields, which the case store and the clock do not touch.\<close>

definition own_state :: "('w loop_world \<Rightarrow> bool) \<Rightarrow> bool" where
  "own_state P \<longleftrightarrow> (\<forall>w s x n. P w \<longrightarrow> P (w\<lparr>lw_store := s\<rparr>) \<and> P (w\<lparr>lw_store := s, lw_outside := x\<rparr>) \<and>
     P (w\<lparr>lw_second_reads := n\<rparr>))"

lemma own_in_store: "own_state P \<Longrightarrow> keeps P (in_store m)"
  by (rule keeps_in_store) (simp add: own_state_def)

lemma own_call_out: "own_state P \<Longrightarrow> keeps P (call_out m)"
  by (rule keeps_call_out) (simp add: own_state_def)

lemma own_time: "own_state P \<Longrightarrow> keeps P time_time"
  by (rule keeps_time_time) (simp add: own_state_def)

lemma own_disk: "own_state P \<Longrightarrow> keeps P (maybe_request_disk_handoff hse fr sv h c cycle_id)"
  unfolding maybe_request_disk_handoff_def suppression_entry_for_def active_suppressions_def
  by (intro keeps_intros own_in_store own_time)

lemma own_ack: "own_state P \<Longrightarrow> keeps P (auto_snooze_icinga_ack tool secret h ttl)"
  unfolding auto_snooze_icinga_ack_def icinga_target_for_def acknowledge_icinga_def sign_ack_authorization_def
    Let_def
  by (intro keeps_intros own_call_out own_time)

lemmas own_intros = keeps_intros own_in_store own_call_out own_time own_disk own_ack

lemma own_ledgers [simp]: "own_state (\<lambda>w. lw_ledgers w = f)"
  by (simp add: own_state_def)

named_theorems quiet_parts \<open>parts of a cycle that leave the ledgers alone\<close>

lemma quiet_record [quiet_parts]: "keeps (\<lambda>w. lw_ledgers w = f) (record_investigations ps fps)"
  unfolding record_investigations_def by (intro own_intros own_ledgers keeps_modM) simp

lemma quiet_fresh [quiet_parts]: "keeps (\<lambda>w. lw_ledgers w = f) (fresh_hotspots ps control hs)"
  unfolding fresh_hotspots_def recent_investigation_fps_def case_should_investigate_def
  by (intro own_intros own_ledgers)

lemma quiet_case_record [quiet_parts]: "keeps (\<lambda>w. lw_ledgers w = f) (case_record_investigation sv h o')"
  unfolding case_record_investigation_def by (intro own_intros own_ledgers)

lemma quiet_note [quiet_parts]: "keeps (\<lambda>w. lw_ledgers w = f) (note_report g)"
  by (intro keeps_note_report) simp

lemma quiet_save [quiet_parts]: "keeps (\<lambda>w. lw_ledgers w = f) (save_suppressions d)"
  unfolding save_suppressions_def by (intro keeps_modM) simp

lemma quiet_active [quiet_parts]: "keeps (\<lambda>w. lw_ledgers w = f) active_suppressions"
  unfolding active_suppressions_def by (intro own_intros own_ledgers)

lemma quiet_remove [quiet_parts]: "keeps (\<lambda>w. lw_ledgers w = f) (remove_suppression k)"
  unfolding remove_suppression_def by (intro own_intros own_ledgers quiet_parts)

lemma quiet_add [quiet_parts]: "keeps (\<lambda>w. lw_ledgers w = f) (add_suppression a b c d e ttl)"
  unfolding add_suppression_def expiry_of_def by (intro own_intros own_ledgers quiet_parts)

lemma quiet_apply [quiet_parts]: "keeps (\<lambda>w. lw_ledgers w = f) (apply_suppressions raw)"
  unfolding apply_suppressions_def by (intro own_intros own_ledgers quiet_parts)

lemma quiet_snooze [quiet_parts]: "keeps (\<lambda>w. lw_ledgers w = f) (auto_snooze env raw)"
  unfolding auto_snooze_def snooze_hotspot_def by (intro own_intros own_ledgers quiet_parts)

lemma quiet_merge [quiet_parts]: "keeps (\<lambda>w. lw_ledgers w = f) (merge_with_carried raw d g)"
  by (simp add: merge_with_carried_def keeps_def Let_def)

lemma quiet_shadow [quiet_parts]: "keeps (\<lambda>w. lw_ledgers w = f) (shadow_observe_hotspots env raw c health)"
  unfolding shadow_observe_hotspots_def observe_hotspot_def
  by (intro own_intros own_ledgers)

lemma quiet_survey [quiet_parts]: "keeps (\<lambda>w. lw_ledgers w = f) (survey env d)"
  unfolding survey_def by (intro own_intros own_ledgers quiet_parts)

lemma quiet_decide [quiet_parts]: "keeps (\<lambda>w. lw_ledgers w = f) (decide env l)"
  unfolding decide_def by (intro own_intros own_ledgers quiet_parts)

lemma quiet_deep [quiet_parts]: "keeps (\<lambda>w. lw_ledgers w = f) (should_deep_scan ps)"
  unfolding should_deep_scan_def by (intro own_intros own_ledgers)

lemma quiet_safe_report [quiet_parts]: "keeps (\<lambda>w. lw_ledgers w = f) (safe_report env gate)"
  unfolding safe_report_def post_digest_def report_decision_def mark_reported_hotspots_def mark_hotspot_reported_def
  by (intro own_intros own_ledgers keeps_modM) simp

lemma quiet_finish [quiet_parts]: "keeps (\<lambda>w. lw_ledgers w = f) (finish_cycle env gate effective d)"
  unfolding finish_cycle_def by (intro own_intros own_ledgers quiet_parts)

lemma quiet_lock [quiet_parts]:
  "keeps (\<lambda>w. lw_ledgers w = f) (acquire_lock age alive me)"
  "keeps (\<lambda>w. lw_ledgers w = f) (release_lock held)"
  unfolding acquire_lock_def take_lock_def release_lock_def
  by (intro own_intros own_ledgers keeps_modM; simp)+

lemma quiet_finish_report [quiet_parts]: "keeps (\<lambda>w. lw_ledgers w = f) finish_report"
  unfolding finish_report_def by (intro own_intros own_ledgers quiet_parts)


subsection \<open>One investigation\<close>

text \<open>A world whose ledger of the day is \<open>l\<close>, the other days' as in \<open>w\<close>.\<close>

definition ledger_moved :: "string \<Rightarrow> ledger \<Rightarrow> 'w loop_world \<Rightarrow> 'w loop_world \<Rightarrow> bool" where
  "ledger_moved day l w w' \<longleftrightarrow> read_ledger (lw_ledgers w' day) day = Inr l \<and>
     (\<forall>d. d \<noteq> day \<longrightarrow> lw_ledgers w' d = lw_ledgers w d)"

lemma ledger_moved_kept:
  "ledger_moved day l w w1 \<Longrightarrow> (\<And>f. keeps (\<lambda>w. lw_ledgers w = f) m) \<Longrightarrow> m w1 = (r, w')
    \<Longrightarrow> ledger_moved day l w w'"
  using ledgers_kept [of m w1 r w'] by (simp add: ledger_moved_def)

lemma spend_moves:
  assumes "ledger_moved day l w w1" and "\<not> negative_counter (add_ledger l (spend f))"
  shows "\<exists>w2. update_ledger day (spend f) w1 = (Inr (add_ledger l (spend f)), w2) \<and>
    ledger_moved day (add_ledger l (spend f)) w w2"
  using assms update_ledger_ok [of w1 day l "spend f"]
  by (auto simp: ledger_moved_def read_ledger_def)

text \<open>Run a computation that leaves the ledgers alone, then go on.\<close>

lemma moved_seq:
  assumes "ledger_moved day l w w1" and "\<And>f. keeps (\<lambda>w. lw_ledgers w = f) m"
    and "\<And>x w2. m w1 = (Inr x, w2) \<Longrightarrow> ledger_moved day l w w2 \<Longrightarrow> Q (k x w2)"
    and "\<And>e w2. m w1 = (Inl e, w2) \<Longrightarrow> ledger_moved day l w w2 \<Longrightarrow> Q (Inl e, w2)"
  shows "Q (bindM m k w1)"
proof (cases "m w1")
  case (Pair r w2)
  then have "ledger_moved day l w w2" using ledger_moved_kept [OF assms(1,2)] by blast
  then show ?thesis using assms(3,4) Pair by (cases r) (simp_all add: bindM_app)
qed

text \<open>An attempt under way: one more than the finished ones.\<close>

definition in_flight :: "ledger \<Rightarrow> bool" where
  "in_flight l \<longleftrightarrow> \<not> negative_counter l \<and> lg_attempts l = lg_succeeded l + lg_failed l + 1 \<and>
     lg_investigations l = lg_succeeded l"

definition settled_after :: "string \<Rightarrow> ledger \<Rightarrow> 'w loop_world \<Rightarrow> 'w loop_world \<Rightarrow> bool" where
  "settled_after day l w w' \<longleftrightarrow> (\<exists>l'. ledger_moved day l' w w' \<and> ledger_ok l' \<and>
     lg_attempts l - 1 \<le> lg_attempts l' \<and> lg_attempts l' \<le> lg_attempts l)"

lemma settled_kept:
  "settled_after day l w w1 \<Longrightarrow> (\<And>f. keeps (\<lambda>w. lw_ledgers w = f) m) \<Longrightarrow>
    settled_after day l w (snd (m w1))"
  unfolding settled_after_def by (metis ledger_moved_kept prod.collapse)

lemmas ledger_arith = add_ledger_def spend_def empty_ledger_def negative_counter_iff

lemma settles:
  assumes "ledger_moved day l w w1" and "in_flight l"
    and "f = (\<lambda>l. l\<lparr>lg_failed := 1\<rparr>) \<or> f = (\<lambda>l. l\<lparr>lg_attempts := -1, lg_skipped := 1\<rparr>) \<or>
      f = (\<lambda>l. l\<lparr>lg_investigations := 1, lg_succeeded := 1\<rparr>)"
  shows "settled_after day l w (snd (update_ledger day (spend f) w1))"
proof -
  let ?l = "add_ledger l (spend f)"
  have "ledger_ok ?l" "lg_attempts l - 1 \<le> lg_attempts ?l" "lg_attempts ?l \<le> lg_attempts l"
    using assms(2,3) by (auto simp: in_flight_def ledger_ok_def ledger_arith)
  moreover from this(1) have "\<not> negative_counter ?l" by (simp add: ledger_ok_def)
  ultimately show ?thesis
    using spend_moves [OF assms(1)] by (fastforce simp: settled_after_def)
qed

text \<open>Note something, settle the attempt, and go on without touching the ledgers.\<close>

lemma note_then_settle:
  assumes "ledger_moved day l w w1" and "in_flight l"
    and "f = (\<lambda>l. l\<lparr>lg_failed := 1\<rparr>) \<or> f = (\<lambda>l. l\<lparr>lg_attempts := -1, lg_skipped := 1\<rparr>) \<or>
      f = (\<lambda>l. l\<lparr>lg_investigations := 1, lg_succeeded := 1\<rparr>)"
    and "\<And>f. keeps (\<lambda>w. lw_ledgers w = f) m"
  shows "settled_after day l w (snd (seqM (note_report g) (seqM (update_ledger day (spend f)) m) w1))"
proof -
  let ?w = "w1\<lparr>lw_report := g (lw_report w1)\<rparr>"
  have "ledger_moved day l w ?w" using assms(1) by (simp add: ledger_moved_def)
  from settles [OF this assms(2,3)]
  have "settled_after day l w (snd (seqM (update_ledger day (spend f)) m ?w))"
    using settled_kept [of day l w _ m] assms(4)
    by (auto simp: seqM_app split: prod.splits sum.splits)
  then show ?thesis by (simp add: seqM_app note_report_def)
qed

lemma finish_settles:
  assumes "ledger_moved day l w w1" and "in_flight l"
  shows "settled_after day l w (snd (finish_investigation control day h outcome acc w1))"
proof (cases outcome)
  case None
  show ?thesis
    unfolding finish_investigation_def None option.case
    by (rule note_then_settle [OF assms], simp, intro own_intros)
next
  case (Some res)
  show ?thesis
  proof (cases "io_status res")
    case Inv_succeeded
    show ?thesis
      unfolding finish_investigation_def Some option.case Inv_succeeded investigation_status.case
      by (rule note_then_settle [OF assms], simp, intro own_intros quiet_parts)
  next
    case Inv_failed
    show ?thesis
      unfolding finish_investigation_def Some option.case Inv_failed investigation_status.case
      by (rule note_then_settle [OF assms], simp, intro own_intros quiet_parts)
  next
    case Inv_skipped
    show ?thesis
      unfolding finish_investigation_def Some option.case Inv_skipped investigation_status.case
      by (rule note_then_settle [OF assms], simp, intro own_intros quiet_parts)
  qed
qed

lemma settle_then:
  assumes "ledger_moved day l w w1" and "in_flight l" and "\<And>f. keeps (\<lambda>w. lw_ledgers w = f) m"
  shows "settled_after day l w (snd (seqM (update_ledger day (spend (\<lambda>l. l\<lparr>lg_failed := 1\<rparr>))) m w1))"
  using settles [OF assms(1,2), of "\<lambda>l. l\<lparr>lg_failed := 1\<rparr>"] settled_kept [of day l w _ m] assms(3)
  by (auto simp: seqM_app split: prod.splits sum.splits)

lemma abort_settles:
  assumes "ledger_moved day l w w1" and "in_flight l"
  shows "settled_after day l w (snd (abort_investigation ps control category day h e acc w1))"
proof (cases "is_cancelled e")
  case True
  then show ?thesis
    unfolding abort_investigation_def if_P [OF True]
    by (intro settle_then [OF assms] own_intros quiet_parts)
next
  case False
  then show ?thesis
    unfolding abort_investigation_def if_not_P [OF False]
    by (intro note_then_settle [OF assms] own_intros) simp
qed

text \<open>
  The whole investigation of a hotspot: one attempt more, or none when the investigator skipped it,
  and the ledger in balance again, however it ends.
\<close>

definition attempted_at_most :: "string \<Rightarrow> ledger \<Rightarrow> int \<Rightarrow> 'w loop_world \<Rightarrow> 'w loop_world \<Rightarrow> bool" where
  "attempted_at_most day l n w w' \<longleftrightarrow> (\<exists>l'. ledger_moved day l' w w' \<and> ledger_ok l' \<and>
     lg_attempts l \<le> lg_attempts l' \<and> lg_attempts l' \<le> lg_attempts l + n)"

lemma investigate_hotspot_attempts:
  assumes "ledger_moved day l w w1" and "ledger_ok l"
  shows "attempted_at_most day l 1 w
    (snd (investigate_hotspot ps control category ask decision day h acc w1))"
proof -
  let ?l = "add_ledger l (spend (\<lambda>l. l\<lparr>lg_attempts := 1\<rparr>))"
  have flight: "in_flight ?l" using assms(2) by (auto simp: in_flight_def ledger_ok_def ledger_arith)
  then obtain w2 where w2: "update_ledger day (spend (\<lambda>l. l\<lparr>lg_attempts := 1\<rparr>)) w1 = (Inr ?l, w2)"
    "ledger_moved day ?l w w2"
    using spend_moves [OF assms(1)] by (auto simp: in_flight_def)
  define w3 where "w3 = w2\<lparr>lw_report := (lw_report w2)\<lparr>cr_investigation_attempted :=
    cr_investigation_attempted (lw_report w2) @ [hs_key h]\<rparr>\<rparr>"
  have "ledger_moved day ?l w w3" using w2(2) by (simp add: ledger_moved_def w3_def)
  moreover obtain r w4 where w4: "tryM (call_out (ask h decision)) w3 = (r, w4)" by fastforce
  moreover have "keeps (\<lambda>w. lw_ledgers w = f) (tryM (call_out (ask h decision)))" for f
    by (intro own_intros keeps_try own_ledgers)
  ultimately have moved: "ledger_moved day ?l w w4" by (metis ledger_moved_kept)
  have "\<exists>x. r = Inr x" using w4 by (auto simp: tryM_def split: prod.splits)
  then obtain x where r: "r = Inr x" ..
  have "settled_after day ?l w (snd (case x of
      Inl e \<Rightarrow> abort_investigation ps control category day h e acc w4
    | Inr outcome \<Rightarrow> finish_investigation control day h outcome acc w4))"
    by (cases x) (simp_all add: abort_settles finish_settles moved flight)
  moreover have "investigate_hotspot ps control category ask decision day h acc w1 = (case x of
      Inl e \<Rightarrow> abort_investigation ps control category day h e acc w4
    | Inr outcome \<Rightarrow> finish_investigation control day h outcome acc w4)"
    using w2(1) w4 r
    by (simp add: investigate_hotspot_def seqM_app bindM_app note_report_def w3_def split: sum.splits)
  ultimately show ?thesis
    by (auto simp: settled_after_def attempted_at_most_def ledger_arith)
qed

lemma investigations_attempts:
  assumes "ledger_moved day l w w1" and "ledger_ok l"
  shows "attempted_at_most day l (int (length hs)) w
    (snd (foldM (investigate_hotspot ps control category ask decision day) hs acc w1))"
  using assms
proof (induction hs arbitrary: l acc w1)
  case Nil
  then show ?case by (auto simp: attempted_at_most_def)
next
  case (Cons h hs)
  obtain r w2 where step: "investigate_hotspot ps control category ask decision day h acc w1 = (r, w2)"
    by fastforce
  then obtain l' where l': "ledger_moved day l' w w2" "ledger_ok l'"
    "lg_attempts l \<le> lg_attempts l'" "lg_attempts l' \<le> lg_attempts l + 1"
    using investigate_hotspot_attempts [OF Cons.prems, of ps control category ask decision h acc]
    by (auto simp: attempted_at_most_def)
  show ?case
  proof (cases r)
    case (Inl e)
    then show ?thesis using step l' by (auto simp: bindM_app attempted_at_most_def)
  next
    case (Inr acc')
    then show ?thesis
      using step l' Cons.IH [OF l'(1,2), of acc'] by (auto simp: bindM_app attempted_at_most_def)
  qed
qed


subsection \<open>The cycle\<close>

lemma attempts_kept:
  assumes "attempted_at_most day l n w w2" and "\<And>f. keeps (\<lambda>w. lw_ledgers w = f) m"
  shows "attempted_at_most day l n w (snd (m w2))"
  using assms unfolding attempted_at_most_def by (metis ledger_moved_kept prod.collapse)

text \<open>All the investigations of a cycle: as many attempts as the gate allows.\<close>

lemma investigate_attempts:
  assumes "ledger_moved day l w w1" and "ledger_ok l"
  shows "attempted_at_most day l (max 0 (gd_max_investigations gate)) w
    (snd (investigate ps control category investigator gate decision day w1))"
proof -
  have stays: "attempted_at_most day l (max 0 (gd_max_investigations gate)) w w2"
    if "ledger_moved day l w w2" for w2
    using that assms(2) by (auto simp: attempted_at_most_def)
  show ?thesis
  proof (cases "investigator = None \<or> gd_max_investigations gate \<le> 0")
    case True
    then show ?thesis using stays [OF assms(1)] by (auto simp: investigate_def split: option.splits)
  next
    case False
    then obtain ask where ask: "investigator = Some ask" by auto
    let ?n = "gd_max_investigations gate"
    let ?note = "\<lambda>fresh. note_report (\<lambda>r. r\<lparr>cr_investigation_skipped := cr_investigation_skipped r @
         map hs_key (filter (\<lambda>h. hotspot_fingerprint h \<notin> hotspot_fingerprint ` set fresh)
           (gd_eligible gate))\<rparr>)"
    let ?stop = "\<lambda>acc. seqM (whenM (control = None) (record_investigations ps (snd acc))) (retM (fst acc))"
    have tail: "attempted_at_most day l (max 0 ?n) w (snd (bindM (foldM
          (investigate_hotspot ps control category ask decision day) (slice_to ?n fresh) (0, [])) ?stop w2))"
      if "ledger_moved day l w w2" for w2 and fresh :: "hotspot list"
    proof -
      obtain r w3 where fold: "foldM (investigate_hotspot ps control category ask decision day)
          (slice_to ?n fresh) (0, []) w2 = (r, w3)" by fastforce
      have "int (length (slice_to ?n fresh)) \<le> max 0 ?n" by (simp add: slice_to_def)
      then have "attempted_at_most day l (max 0 ?n) w w3"
        using investigations_attempts [OF that assms(2), where hs = "slice_to ?n fresh" and acc = "(0, [])"
            and ps = ps and control = control and category = category and ask = ask
            and decision = decision] fold
        by (fastforce simp: attempted_at_most_def)
      moreover have "keeps (\<lambda>w. lw_ledgers w = f) (?stop acc)" for f acc
        by (intro own_intros quiet_parts)
      ultimately have "attempted_at_most day l (max 0 ?n) w (snd (?stop acc w3))" for acc
        by (rule attempts_kept)
      with \<open>attempted_at_most day l (max 0 ?n) w w3\<close> show ?thesis
        using fold by (cases r) (simp_all add: bindM_app)
    qed
    have "attempted_at_most day l (max 0 ?n) w (snd (seqM (?note fresh) (bindM (foldM
          (investigate_hotspot ps control category ask decision day) (slice_to ?n fresh) (0, [])) ?stop) w2))"
      if "ledger_moved day l w w2" for w2 and fresh :: "hotspot list"
      using tail [of "snd (?note fresh w2)" fresh] that
      by (simp add: seqM_app note_report_def ledger_moved_def)
    note go = this
    have closed: "\<not> gd_max_investigations gate \<le> 0" using False ask by simp
    show ?thesis
      unfolding investigate_def ask option.case if_not_P [OF closed]
      by (intro moved_seq [OF assms(1) quiet_fresh,
            where Q = "\<lambda>p. attempted_at_most day l (max 0 ?n) w (snd p)"])
        (rule go, assumption, simp add: stays)
  qed
qed

lemma attempts_within_limit:
  assumes "attempted_at_most day l n w w'" and "read_ledger (lw_ledgers w day) day = Inr l"
    and "lg_attempts l + n \<le> max (lg_attempts l) limit"
  shows "within_limit limit w w'"
  unfolding within_limit_def
proof (intro allI impI)
  fix d k
  assume k: "read_ledger (lw_ledgers w d) d = Inr k" "ledger_ok k"
  obtain l' where l': "ledger_moved day l' w w'" "ledger_ok l'" "lg_attempts l \<le> lg_attempts l'"
    "lg_attempts l' \<le> lg_attempts l + n"
    using assms(1) unfolding attempted_at_most_def by blast
  show "\<exists>l'. read_ledger (lw_ledgers w' d) d = Inr l' \<and> ledger_ok l' \<and>
      lg_attempts k \<le> lg_attempts l' \<and> lg_attempts l' \<le> max (lg_attempts k) limit"
  proof (cases "d = day")
    case True
    then show ?thesis using k l' assms(2,3) by (intro exI [of _ l']) (auto simp: ledger_moved_def)
  next
    case False
    then show ?thesis using k l'(1) by (auto simp: ledger_moved_def)
  qed
qed

lemma keeps_update_within:
  assumes "lg_attempts d = 0" "lg_succeeded d = 0" "lg_failed d = 0" "lg_investigations d = 0"
    "0 \<le> lg_cycles d" "0 \<le> lg_skipped d"
  shows "keeps (within_limit limit w) (update_ledger day d)"
proof (rule keepsI)
  fix v
  assume v: "within_limit limit w v"
  have "within_limit limit v (snd (update_ledger day d v))"
  proof (cases "update_ledger day d v")
    case (Pair r v')
    show ?thesis
    proof (cases r)
      case (Inl e)
      then show ?thesis using Pair update_ledger_raises [of day d v e v'] by (simp add: within_limit_refl)
    next
      case (Inr l')
      then obtain l where l: "read_ledger (lw_ledgers v day) day = Inr l" "l' = add_ledger l d"
        "v' = v\<lparr>lw_ledgers := (lw_ledgers v)(day := Holds (stored_form l'))\<rparr>"
        using Pair update_ledger_returns by metis
      then show ?thesis
        using Pair assms by (auto simp: within_limit_def read_ledger_def ledger_ok_def ledger_arith)
    qed
  qed
  with v show "within_limit limit w (snd (update_ledger day d v))" by (rule within_limit_trans)
qed

lemma keeps_within_quiet:
  assumes "\<And>f. keeps (\<lambda>w. lw_ledgers w = f) m"
  shows "keeps (within_limit limit w) m"
proof (rule keepsI)
  fix v assume "within_limit limit w v"
  moreover have "lw_ledgers (snd (m v)) = lw_ledgers v"
    using ledgers_kept [of m v "fst (m v)"] assms by simp
  ultimately show "within_limit limit w (snd (m v))" by (simp add: within_limit_def)
qed

lemma own_within [simp]: "own_state (within_limit limit w)"
  by (simp add: own_state_def within_limit_def)

lemma settle_within: "keeps (within_limit limit w) (settle_cycle env day d gate n)"
proof -
  have "keeps (within_limit limit w) (modM (\<lambda>w. w\<lparr>lw_last_deep_scan := now\<rparr>))" for now
    by (intro keeps_within_quiet keeps_modM) simp
  then show ?thesis
    unfolding settle_cycle_def load_ledger_def
    by (intro own_intros own_within keeps_update_within)
      (simp_all add: spend_def empty_ledger_def within_limit_def)
qed

lemma limit_bound:
  "lg_attempts l + max 0 (gd_max_investigations (evaluate_gate ps l hs)) \<le>
     max (lg_attempts l) (lps_max_investigations_per_day ps)"
proof (cases "0 < gd_max_investigations (evaluate_gate ps l hs)")
  case True
  then show ?thesis using gate_open(3) [OF True] by simp
qed simp

lemma quiet_then:
  assumes "lw_ledgers w1 = lw_ledgers w" and "\<And>f. keeps (\<lambda>w. lw_ledgers w = f) m"
    and "\<And>x w2. lw_ledgers w2 = lw_ledgers w \<Longrightarrow> m w1 = (Inr x, w2) \<Longrightarrow>
      within_limit limit w (snd (k x w2))"
  shows "within_limit limit w (snd (bindM m k w1))"
proof (cases "m w1")
  case (Pair r w2)
  then have "lw_ledgers w2 = lw_ledgers w" using ledgers_kept [OF assms(2) Pair] assms(1) by simp
  then show ?thesis using assms(3) Pair by (cases r) (simp_all add: bindM_app within_limit_refl)
qed

text \<open>A day whose ledger is out of balance is no concern of the limit; the other days are untouched.\<close>

lemma other_days:
  "keeps (\<lambda>v. \<forall>d. d \<noteq> day \<longrightarrow> lw_ledgers v d = f d) (update_ledger day x)"
proof (rule keepsI)
  fix v :: "'a loop_world" assume "\<forall>d. d \<noteq> day \<longrightarrow> lw_ledgers v d = f d"
  then show "\<forall>d. d \<noteq> day \<longrightarrow> lw_ledgers (snd (update_ledger day x v)) d = f d"
    by (simp add: update_ledger_def load_ledger_app comp_simps Let_def split: sum.splits)
qed

lemma own_other [simp]: "own_state (\<lambda>v. \<forall>d. d \<noteq> day \<longrightarrow> lw_ledgers v d = f d)"
  by (simp add: own_state_def)

lemma keeps_case_investigation [keeps_intros]:
  "keeps P a \<Longrightarrow> keeps P b \<Longrightarrow> keeps P c \<Longrightarrow>
    keeps P (case s of Inv_succeeded \<Rightarrow> a | Inv_failed \<Rightarrow> b | Inv_skipped \<Rightarrow> c)"
  by (cases s) simp_all

lemma investigate_other_days:
  "keeps (\<lambda>v. \<forall>d. d \<noteq> day \<longrightarrow> lw_ledgers v d = f d)
     (investigate ps control category investigator gate decision day)"
  unfolding investigate_def investigate_hotspot_def abort_investigation_def finish_investigation_def
    fresh_hotspots_def recent_investigation_fps_def case_should_investigate_def
    record_investigations_def case_record_investigation_def
  by (intro own_intros own_other other_days keeps_try keeps_case_sum keeps_case_investigation keeps_modM; simp)

text \<open>Once the ledger of the day has been read, the rest of the cycle keeps to the limit.\<close>

lemma investigate_within:
  assumes "lw_ledgers w1 = lw_ledgers w" and "read_ledger (lw_ledgers w day) day = Inr l"
  shows "within_limit (lps_max_investigations_per_day ps) w
    (snd (investigate ps control category investigator (evaluate_gate ps l hs) decision day w1))"
proof (cases "ledger_ok l")
  case True
  have "ledger_moved day l w w1" using assms by (simp add: ledger_moved_def)
  from attempts_within_limit [OF investigate_attempts [OF this True] assms(2) limit_bound]
  show ?thesis .
next
  case False
  have "\<forall>d. d \<noteq> day \<longrightarrow> lw_ledgers (snd (investigate ps control category investigator
      (evaluate_gate ps l hs) decision day w1)) d = lw_ledgers w d"
    using keepsD [OF investigate_other_days, of day w1 "lw_ledgers w"] assms(1) by simp
  note others = this
  show ?thesis
    unfolding within_limit_def
  proof (intro allI impI)
    fix d k assume k: "read_ledger (lw_ledgers w d) d = Inr k" "ledger_ok k"
    then have "d \<noteq> day" using False assms(2) by auto
    then show "\<exists>l'. read_ledger (lw_ledgers (snd (investigate ps control category investigator
        (evaluate_gate ps l hs) decision day w1)) d) d = Inr l' \<and> ledger_ok l' \<and>
        lg_attempts k \<le> lg_attempts l' \<and>
        lg_attempts l' \<le> max (lg_attempts k) (lps_max_investigations_per_day ps)"
      using others k by (intro exI [of _ k]) simp
  qed
qed

lemma cycle_body_within:
  "within_limit (lps_max_investigations_per_day (le_settings env)) w (snd (cycle_body env deep w))"
proof -
  let ?limit = "lps_max_investigations_per_day (le_settings env)"
  have tail: "within_limit ?limit w (snd (bindM (investigate (le_settings env) (control_service env)
      (le_category env) (le_investigator env) (evaluate_gate (le_settings env) l hs) decision day)
      (\<lambda>n. seqM (settle_cycle env day d gate n) (finish_cycle env gate effective d)) w1))"
    if "lw_ledgers w1 = lw_ledgers w" "read_ledger (lw_ledgers w day) day = Inr l"
    for l hs decision day d gate effective w1
  proof -
    have "keeps (within_limit ?limit w) (seqM (settle_cycle env day d gate n) (finish_cycle env gate effective d))"
      for n
      by (intro own_intros settle_within keeps_within_quiet quiet_finish)
    note after = keepsD [OF this]
    obtain r w2 where run: "investigate (le_settings env) (control_service env) (le_category env)
        (le_investigator env) (evaluate_gate (le_settings env) l hs) decision day w1 = (r, w2)"
      by fastforce
    then have "within_limit ?limit w w2"
      using investigate_within [OF that, of "le_settings env" "control_service env" "le_category env"
          "le_investigator env" hs decision] by simp
    then show ?thesis using run after by (cases r) (simp_all add: bindM_app)
  qed
  show ?thesis
    unfolding cycle_body_def
  proof (rule quiet_then [OF refl], goal_cases)
    case (1 f)
    show ?case unfolding today_def by (intro own_intros own_ledgers)
  next
    case day: (2 day w1)
    show ?case
    proof (rule quiet_then [OF day(1)], goal_cases)
      case (1 f)
      show ?case unfolding load_ledger_def by (intro own_intros)
    next
      case (2 l w2)
      then have l: "read_ledger (lw_ledgers w day) day = Inr l"
        using day(1) by (simp add: load_ledger_app)
      show ?case
        by (rule quiet_then [OF 2(1)], (intro own_intros quiet_parts)[1],
            rule quiet_then, assumption, rule quiet_survey,
            rule quiet_then, assumption, rule quiet_decide)
          (simp add: bindM_app [of "getM _"] tail [OF _ l])
    qed
  qed
qed


lemma keeps_new_report:
  "own_state P \<Longrightarrow> (\<And>w r. P w \<Longrightarrow> P (w\<lparr>lw_report := r\<rparr>)) \<Longrightarrow>
    keeps P (bindM (in_store new_cycle_report) (\<lambda>r. note_report (\<lambda>_. r)))"
  by (intro own_intros) auto

lemma run_cycle_within:
  "within_limit (lps_max_investigations_per_day (le_settings env)) w (snd (run_cycle env deep w))"
proof -
  let ?P = "within_limit (lps_max_investigations_per_day (le_settings env)) w"
  have body: "keeps ?P (cycle_body env deep)"
  proof (rule keepsI)
    fix v assume "?P v"
    then show "?P (snd (cycle_body env deep v))"
      using cycle_body_within by (rule within_limit_trans)
  qed
  have writes: "?P v \<Longrightarrow> ?P (v\<lparr>lw_report := r\<rparr>)" "?P v \<Longrightarrow> ?P (v\<lparr>lw_last_report := lr\<rparr>)" for v r lr
    by (simp_all add: within_limit_def)
  have "keeps ?P (run_cycle env deep)"
    unfolding run_cycle_def
    by (intro own_intros own_within body keeps_within_quiet quiet_parts keeps_modM keeps_new_report writes)
  then show ?thesis by (rule keepsD) (simp add: within_limit_refl)
qed

text \<open>A run of the loop: cycles one after the other, each with its settings and callbacks.\<close>

definition run_cycles :: "('w loop_env \<times> bool option) list \<Rightarrow> 'w loop_world \<Rightarrow> 'w loop_world" where
  "run_cycles runs w = fold (\<lambda>(env, deep) w. snd (run_cycle env deep w)) runs w"

text \<open>
  C29: The daily cap holds and the books balance: over any number of cycles, however the scans, the
  investigations and the other callbacks turn out and whether they return, raise or are cancelled, the
  recorded attempts of a day never pass the daily limit (unless they were past it before), no attempt
  is ever lost from the ledger, and the attempts stay the sum of the successes and the failures.
\<close>
theorem daily_attempts_within_limit:
  assumes "\<forall>run \<in> set runs. lps_max_investigations_per_day (le_settings (fst run)) = limit"
    and "read_ledger (lw_ledgers w day) day = Inr l" and "ledger_ok l"
  shows "\<exists>l'. read_ledger (lw_ledgers (run_cycles runs w) day) day = Inr l' \<and> ledger_ok l' \<and>
    lg_attempts l \<le> lg_attempts l' \<and> lg_attempts l' \<le> max (lg_attempts l) limit"
proof -
  have "within_limit limit w (run_cycles runs w)"
    using assms(1)
  proof (induction runs arbitrary: w)
    case Nil
    then show ?case by (simp add: run_cycles_def within_limit_refl)
  next
    case (Cons run runs)
    obtain env deep where run: "run = (env, deep)" by fastforce
    have "within_limit limit w (snd (run_cycle env deep w))"
      using run_cycle_within [of env w deep] Cons.prems run by simp
    moreover have "within_limit limit (snd (run_cycle env deep w)) (run_cycles (run # runs) w)"
      using Cons.IH [of "snd (run_cycle env deep w)"] Cons.prems run by (simp add: run_cycles_def)
    ultimately show ?case by (rule within_limit_trans)
  qed
  then show ?thesis using assms(2,3) unfolding within_limit_def by blast
qed

text \<open>
  A loop to try things on: an investigator that always raises, a reporter that always delivers, and a
  tool that answers every query with no rows.
\<close>

definition sample_hotspot :: hotspot where
  "sample_hotspot = (blank_hotspot ''bgp_down'' ''rtr:peer1'')\<lparr>
     hs_category := Cat_bgp, hs_severity := Sev_high, hs_title := ''BGP session down''\<rparr>"

definition sample_env :: "unit loop_env" where
  "sample_env = \<lparr>
     le_settings = default_settings\<lparr>lps_enabled := True, lps_shadow := False\<rparr>, le_service = None,
     le_control = False, le_manifest = JNull, le_model_chain = [], le_lessons = [], le_pid = 1,
     le_pid_alive = (\<lambda>p. p = 1), le_category = (\<lambda>_. ''unexpected''),
     le_tool = Some (\<lambda>_ _. retM (JDict [(''result'', JList [])])), le_ignored_units = Inr [],
     le_signing_secret = [], le_handoffs = \<lparr>hse_enabled = False, hse_engineering_delivery = False,
       hse_knowledge_context = False, hse_required_passes = 3, hse_disk_alert = False\<rparr>,
     le_float_repr = (\<lambda>_. ''0.0''),
     le_investigator = Some (\<lambda>_ _. raiseM (RuntimeError ''model unavailable'')),
     le_reporter = (\<lambda>_ _. retM None), 
     le_snooze_report = (\<lambda>_ _. retM ()),
     le_memory = (\<lambda>_ _. retM ()), le_insights = (\<lambda>_ _ _ _ _ _. retM ()),
     le_heartbeat = (\<lambda>_. retM ())\<rparr>"

definition sample_world :: "unit loop_world" where
  "sample_world = \<lparr>
     lw_store = empty_store (\<lambda>n. nat_str n) (\<lambda>n. 63000000000000000 + int n), lw_seconds = (\<lambda>n. of_nat n),
     lw_second_reads = 0, lw_lock = None, lw_ledgers = (\<lambda>_. Absent), lw_investigations = Absent,
     lw_suppressions = Absent, lw_last_deep_scan = 0, lw_last_report_signature = None,
     lw_last_report_ts = 0, lw_last_deep_hotspots = [], lw_last_effective = [],
     lw_report = blank_cycle, lw_last_report = None, lw_outside = ()\<rparr>"

theorem daily_attempts_within_limit_witness:
  "\<exists>l'. read_ledger (lw_ledgers (run_cycles [(sample_env, None), (sample_env, Some True)] sample_world)
      ''2026-06-01'') ''2026-06-01'' = Inr l' \<and> ledger_ok l' \<and> 0 \<le> lg_attempts l' \<and> lg_attempts l' \<le> 12"
  using daily_attempts_within_limit [of "[(sample_env, None), (sample_env, Some True)]" 12 sample_world
      "''2026-06-01''" empty_ledger]
  by (simp add: sample_env_def default_settings_def sample_world_def read_ledger_def)
    (simp add: empty_ledger_def)

subsection \<open>Failing closed, and the lock\<close>

lemmas cycle_eval = in_store_def zoomM_def new_cycle_report_def new_id_def uuid4_hex_def utc_now_def
  dt_now_def note_report_def release_lock_def finish_report_def

text \<open>
  A budget that cannot be read stops the cycle before anything is spent: nothing is scanned,
  investigated or reported (the outside world is untouched and no attempt is noted), the ledgers stay
  as they are, the report says error, and the lock is free again.
\<close>
theorem unreadable_ledger_fails_closed:
  assumes "lps_enabled (le_settings env)" and "lw_lock w = None"
    and "day = take 10 (isoformat (clock (lw_store w) (Suc (ticks (lw_store w)))))"
    and "lw_ledgers w day = Unreadable \<or> lw_ledgers w day = Misshapen"
    and "run_cycle env deep w = (r, w')"
  shows "\<exists>report. r = Inr report \<and> cr_outcome report = Out_error \<and>
    cr_investigation_attempted report = [] \<and> cr_hotspots report = [] \<and> lw_outside w' = lw_outside w \<and>
    lw_ledgers w' = lw_ledgers w \<and> lw_last_report w' = Some report \<and> lw_lock w' = None"
  using assms
  by (auto simp: run_cycle_def cycle_body_def today_def load_ledger_app read_ledger_def acquire_lock_app
      comp_simps cycle_eval finallyM_def tryM_def except_exception_def catchM_def is_cancelled_def
      corrupt_ledger_def blank_cycle_def)


definition corrupt_world :: "unit loop_world" where
  "corrupt_world = sample_world\<lparr>lw_ledgers := (\<lambda>_. Unreadable)\<rparr>"

theorem unreadable_ledger_fails_closed_witness:
  "\<exists>report. fst (run_cycle sample_env None corrupt_world) = Inr report \<and> cr_outcome report = Out_error \<and>
    lw_lock (snd (run_cycle sample_env None corrupt_world)) = None"
  using unreadable_ledger_fails_closed [of sample_env corrupt_world _ None
      "fst (run_cycle sample_env None corrupt_world)" "snd (run_cycle sample_env None corrupt_world)", OF _ _ refl]
  by (auto simp: sample_env_def default_settings_def corrupt_world_def sample_world_def)

text \<open>\<open>release_lock\<close> is in the \<open>finally\<close>: a cycle that took the lock gives it back, even when cancelled.\<close>

lemma finally_app:
  "finallyM m f w = (case m w of (r, w1) \<Rightarrow>
     (case f w1 of (Inl e, w2) \<Rightarrow> (Inl e, w2) | (Inr _, w2) \<Rightarrow> (r, w2)))"
  by (simp add: finallyM_def tryM_def comp_simps split: prod.splits sum.splits)

text \<open>
  C30: A cycle and the run lock. When another live process holds a fresh lock, the cycle reports that it
  is locked and touches nothing else: not the lock, the ledgers, the files, the loop's memory of the
  last report, or the outside world. When the lock is free, the cycle leaves it free, whether it
  returns, fails or is cancelled.
\<close>
theorem cycle_and_run_lock:
  assumes "lps_enabled (le_settings env)" and "run_cycle env deep w = (r, w')"
  shows "(\<forall>l. lw_lock w = Some l \<and>
      held_by_live lock_max_age (le_pid_alive env) (lw_seconds w (lw_second_reads w)) l \<longrightarrow>
      (\<exists>report. r = Inr report \<and> cr_outcome report = Out_locked \<and> lw_lock w' = Some l \<and>
        lw_ledgers w' = lw_ledgers w \<and> lw_suppressions w' = lw_suppressions w \<and>
        lw_investigations w' = lw_investigations w \<and> lw_last_report w' = lw_last_report w \<and>
        lw_outside w' = lw_outside w)) \<and>
    (lw_lock w = None \<longrightarrow> lw_lock w' = None)"
proof (intro conjI allI impI)
  fix l assume l: "lw_lock w = Some l \<and>
    held_by_live lock_max_age (le_pid_alive env) (lw_seconds w (lw_second_reads w)) l"
  show "\<exists>report. r = Inr report \<and> cr_outcome report = Out_locked \<and> lw_lock w' = Some l \<and>
      lw_ledgers w' = lw_ledgers w \<and> lw_suppressions w' = lw_suppressions w \<and>
      lw_investigations w' = lw_investigations w \<and> lw_last_report w' = lw_last_report w \<and>
      lw_outside w' = lw_outside w"
    using l assms
    by (auto simp: run_cycle_def acquire_lock_app comp_simps cycle_eval)
next
  assume "lw_lock w = None"
  then show "lw_lock w' = None"
    using assms
    by (auto simp: run_cycle_def acquire_lock_app comp_simps cycle_eval finally_app
        split: prod.splits sum.splits)
qed


theorem cycle_and_run_lock_witness:
  "lw_lock (snd (run_cycle sample_env None sample_world)) = None"
  using cycle_and_run_lock [of sample_env None sample_world "fst (run_cycle sample_env None sample_world)"
      "snd (run_cycle sample_env None sample_world)"]
  by (simp add: sample_env_def default_settings_def sample_world_def)

end
