(* ===== verification/Loop_Spec.thy ===== *)
theory Loop_Spec
  imports Budget_Spec
begin

section \<open>What the proactive loop shows and what it keeps quiet about\<close>

text \<open>
  The loop's memory between cycles: hotspots that were not scanned are carried, acknowledged ones are
  hidden and come back when they recur, minor ones are muted for a time, a digest is posted once, and a
  hotspot that was just investigated is left alone for a while.
\<close>

subsection \<open>Carried hotspots\<close>

abbreviation fingerprints :: "hotspot list \<Rightarrow> string set" where
  "fingerprints hs \<equiv> hotspot_fingerprint ` set hs"

text \<open>A scan: what it found, whether it ran the deep rules, whether a query failed.\<close>

definition carry_scans :: "(hotspot list \<times> bool \<times> bool) list \<Rightarrow> 'w loop_world \<Rightarrow> 'w loop_world" where
  "carry_scans scans w =
     fold (\<lambda>(raw, deep, degraded) w. snd (merge_with_carried raw deep degraded w)) scans w"

lemma carry_step:
  "lw_last_effective (snd (merge_with_carried raw deep degraded w)) =
     (if degraded then raw @ filter (\<lambda>h. hotspot_fingerprint h \<notin> fingerprints raw) (lw_last_effective w)
      else if deep then raw else filter (\<lambda>h. \<not> is_deep h) raw @ lw_last_deep_hotspots w)"
  "lw_last_deep_hotspots (snd (merge_with_carried raw deep degraded w)) =
     (if \<not> degraded \<and> deep then filter is_deep raw else lw_last_deep_hotspots w)"
  "fst (merge_with_carried raw deep degraded w) =
     Inr (lw_last_effective (snd (merge_with_carried raw deep degraded w)))"
  by (simp_all add: merge_with_carried_def Let_def)

lemma degraded_keeps:
  "fingerprints (lw_last_effective (snd (merge_with_carried raw deep True w))) =
     fingerprints raw \<union> fingerprints (lw_last_effective w)"
  by (auto simp: carry_step)

lemma deep_carried:
  assumes "fingerprints (lw_last_deep_hotspots w) \<subseteq> fingerprints (lw_last_effective w)"
    and "\<forall>(raw, deep, degraded) \<in> set scans. deep \<longrightarrow> degraded"
  shows "fingerprints (lw_last_deep_hotspots w) \<subseteq> fingerprints (lw_last_effective (carry_scans scans w))"
  using assms
proof (induction scans arbitrary: w)
  case Nil
  then show ?case by (simp add: carry_scans_def)
next
  case (Cons scan scans)
  obtain raw deep degraded where scan: "scan = (raw, deep, degraded)" by (cases scan) auto
  let ?w = "snd (merge_with_carried raw deep degraded w)"
  have same: "lw_last_deep_hotspots ?w = lw_last_deep_hotspots w"
    using Cons.prems(2) scan by (auto simp: carry_step)
  have "fingerprints (lw_last_deep_hotspots w) \<subseteq> fingerprints (lw_last_effective ?w)"
  proof (cases degraded)
    case True
    then have "degraded = True" by simp
    show ?thesis unfolding \<open>degraded = True\<close> degraded_keeps using Cons.prems(1) by (rule le_supI2)
  next
    case False
    then have "\<not> deep" using Cons.prems(2) scan by auto
    then show ?thesis using False by (auto simp: carry_step)
  qed
  then have "fingerprints (lw_last_deep_hotspots ?w) \<subseteq> fingerprints (lw_last_effective ?w)"
    unfolding same .
  moreover have "\<forall>(raw, deep, degraded) \<in> set scans. deep \<longrightarrow> degraded" using Cons.prems(2) by simp
  moreover have "carry_scans (scan # scans) w = carry_scans scans ?w"
    by (simp add: carry_scans_def scan)
  ultimately show ?case using Cons.IH [of ?w] unfolding same by simp
qed

text \<open>
  No false all-clear for a deep finding: what a clean deep scan found with a deep rule (a disk that
  fills, a certificate that expires) stays among the effective hotspots through any number of cheap
  scans, which do not look for it, and of degraded scans, until the next clean deep scan.
\<close>
theorem deep_findings_persist:
  assumes "h \<in> set raw" and "is_deep h"
    and "\<forall>(raw', deep, degraded) \<in> set later. deep \<longrightarrow> degraded"
  shows "hotspot_fingerprint h \<in>
    fingerprints (lw_last_effective (carry_scans ((raw, True, False) # later) w))"
proof -
  let ?w = "snd (merge_with_carried raw True False w)"
  have "hotspot_fingerprint h \<in> fingerprints (lw_last_deep_hotspots ?w)"
    using assms(1,2) by (auto simp: carry_step)
  moreover have "fingerprints (lw_last_deep_hotspots ?w) \<subseteq> fingerprints (lw_last_effective ?w)"
    by (auto simp: carry_step)
  ultimately show ?thesis
    using deep_carried [of ?w later] assms(3) by (auto simp: carry_scans_def)
qed

theorem deep_findings_persist_witness:
  "hotspot_fingerprint (blank_hotspot ''disk_fill'' ''log:/var'') \<in> fingerprints (lw_last_effective
    (carry_scans [([blank_hotspot ''disk_fill'' ''log:/var''], True, False), ([], False, False),
      ([], True, True)] sample_world))"
  using deep_findings_persist [of "blank_hotspot ''disk_fill'' ''log:/var''"
      "[blank_hotspot ''disk_fill'' ''log:/var'']" "[([], False, False), ([], True, True)]" sample_world]
  by (simp add: is_deep_def deep_rule_ids_def blank_hotspot_def)

subsection \<open>Suppressions\<close>

lemma unexpired_antimono: "unexpired later e \<Longrightarrow> now \<le> later \<Longrightarrow> unexpired now e"
  by (auto simp: unexpired_def split: option.splits)

lemma remove_all:
  assumes "suppressions_ok w"
  obtains rs w' where "mapM remove_suppression ks w = (Inr rs, w')" "suppressions_ok w'"
    "suppression_of w' = suppression_of w |` (- set ks)" "w' = w\<lparr>lw_suppressions := lw_suppressions w'\<rparr>"
  using assms
proof (induction ks arbitrary: w thesis)
  case Nil
  then show ?case by (simp add: restrict_map_def)
next
  case (Cons k ks)
  obtain r u where u: "remove_suppression k w = (Inr r, u)" "suppressions_ok u"
    "suppression_of u = (suppression_of w)(k := None)" "u = w\<lparr>lw_suppressions := lw_suppressions u\<rparr>"
    using remove_suppression_ok [OF Cons.prems(2)] by metis
  obtain rs v where v: "mapM remove_suppression ks u = (Inr rs, v)" "suppressions_ok v"
    "suppression_of v = suppression_of u |` (- set ks)" "v = u\<lparr>lw_suppressions := lw_suppressions v\<rparr>"
    using Cons.IH [OF _ u(2)] by metis
  have "suppression_of v = suppression_of w |` (- set (k # ks))"
    using u(3) v(3) by (auto simp: restrict_map_def fun_eq_iff)
  moreover have "v = w\<lparr>lw_suppressions := lw_suppressions v\<rparr>"
    using u(4) v(4) by (metis loop_world.surjective loop_world.update_convs(7))
  ultimately show ?case
    using Cons.prems(1) u(1) v(1,2) by (simp add: comp_simps)
qed

lemma suppression_of_iff:
  "suppressions_ok w \<Longrightarrow> suppression_of w k = Some e \<longleftrightarrow> (k, e) \<in> set (loaded_suppressions w)"
  by (simp add: suppressions_ok_def suppression_of_def)


text \<open>Whether an unexpired entry of the file covers a hotspot at a time.\<close>

definition suppressed_at :: "'w loop_world \<Rightarrow> rat \<Rightarrow> hotspot \<Rightarrow> bool" where
  "suppressed_at w now h \<longleftrightarrow> (\<exists>(k, e) \<in> set (loaded_suppressions w). unexpired now e \<and> covers k h)"

lemma resolved_acks_iff:
  "k \<in> set (resolved_acks raw active) \<longleftrightarrow>
     (\<exists>e. (k, e) \<in> set active \<and> su_expires_at e = None \<and> \<not> (\<exists>h \<in> set raw. covers k h))"
  by (force simp: resolved_acks_def)

text \<open>
  What a cycle hides and what it forgets. On a clock that does not run backwards, the hotspots a
  cycle goes on with are exactly those no unexpired suppression covers; an acknowledgement without an
  expiry is dropped exactly when none of the scanned hotspots is covered by it, so that a recurrence
  alerts again; and a timed snooze stays in the file even while its hotspot is clear.
\<close>
theorem suppressions_applied:
  assumes "suppressions_ok w" and "mono (lw_seconds w)" and "apply_suppressions raw w = (r, w')"
  shows "r = Inr (filter (\<lambda>h. \<not> suppressed_at w (lw_seconds w (Suc (lw_second_reads w))) h) raw) \<and>
    suppression_of w' k = (case suppression_of w k of None \<Rightarrow> None
      | Some e \<Rightarrow> if su_expires_at e = None \<and> \<not> (\<exists>h \<in> set raw. covers k h) then None else Some e)"
proof -
  let ?t = "lw_seconds w (lw_second_reads w)" and ?u = "lw_seconds w (Suc (lw_second_reads w))"
  have later: "?t \<le> ?u" using assms(2) by (simp add: monoD)
  define active where "active = filter (\<lambda>(k, e). unexpired ?t e) (loaded_suppressions w)"
  define w1 where "w1 = w\<lparr>lw_second_reads := Suc (lw_second_reads w)\<rparr>"
  have first: "active_suppressions w = (Inr active, w1)"
    by (simp add: active_suppressions_app active_def w1_def)
  have w1: "suppressions_ok w1" "loaded_suppressions w1 = loaded_suppressions w"
    using assms(1) by (simp_all add: w1_def suppressions_ok_def loaded_suppressions_def)
  have "r = Inr (filter (\<lambda>h. \<not> suppressed_at w ?u h) raw) \<and>
    suppression_of w' = suppression_of w |` (- set (resolved_acks raw active))"
  proof (cases "active = []")
    case True
    then have none: "\<not> unexpired ?t e" if "(k, e) \<in> set (loaded_suppressions w)" for k e
      using that by (auto simp: active_def filter_empty_conv)
    then have "\<not> suppressed_at w ?u h" for h
      using unexpired_antimono [OF _ later] by (auto simp: suppressed_at_def)
    moreover have "r = Inr raw" "w' = w1"
      using assms(3) first True by (auto simp: apply_suppressions_def comp_simps)
    ultimately show ?thesis
      using True w1(2) by (simp add: suppression_of_def resolved_acks_def restrict_map_def)
  next
    case False
    obtain rs w2 where w2: "mapM remove_suppression (resolved_acks raw active) w1 = (Inr rs, w2)"
      "suppressions_ok w2" "suppression_of w2 = suppression_of w1 |` (- set (resolved_acks raw active))"
      "w2 = w1\<lparr>lw_suppressions := lw_suppressions w2\<rparr>"
      using remove_all [OF w1(1)] by metis
    then have clock: "lw_seconds w2 (lw_second_reads w2) = ?u"
      by (metis (no_types, lifting) loop_world.select_convs(2,3) loop_world.surjective
          loop_world.update_convs(3,7) w1_def)
    define still where "still = filter (\<lambda>(k, e). unexpired ?u e) (loaded_suppressions w2)"
    have second: "active_suppressions w2 = (Inr still, w2\<lparr>lw_second_reads := Suc (lw_second_reads w2)\<rparr>)"
      by (simp add: active_suppressions_app clock still_def)
    have "(\<exists>k \<in> set (dict_keys still). covers k h) \<longleftrightarrow> suppressed_at w ?u h" if "h \<in> set raw" for h
    proof -
      have "(k, e) \<in> set (loaded_suppressions w2) \<longleftrightarrow>
          (k, e) \<in> set (loaded_suppressions w) \<and> k \<notin> set (resolved_acks raw active)" for k e
        using suppression_of_iff [OF w2(2)] suppression_of_iff [OF assms(1)] w2(3) w1(2)
        by (metis (no_types, lifting) ComplI ComplD restrict_map_def suppression_of_def option.distinct(1))
      moreover have "k \<notin> set (resolved_acks raw active)" if "covers k h" for k
        using that \<open>h \<in> set raw\<close> by (auto simp: resolved_acks_iff)
      ultimately show ?thesis by (force simp: suppressed_at_def still_def)
    qed
    then have "filter (\<lambda>h. \<not> (\<exists>k \<in> set (dict_keys still). covers k h)) raw =
        filter (\<lambda>h. \<not> suppressed_at w ?u h) raw"
      by (intro filter_cong) simp_all
    moreover have "apply_suppressions raw w =
        (Inr (filter (\<lambda>h. \<not> (\<exists>k \<in> set (dict_keys still). covers k h)) raw),
         w2\<lparr>lw_second_reads := Suc (lw_second_reads w2)\<rparr>)"
      using first False w2(1) second by (simp add: apply_suppressions_def comp_simps)
    ultimately have "r = Inr (filter (\<lambda>h. \<not> suppressed_at w ?u h) raw)"
      "w' = w2\<lparr>lw_second_reads := Suc (lw_second_reads w2)\<rparr>"
      using assms(3) by (simp_all only: prod.inject)
    then show ?thesis
      using w2(3) w1(2) by (simp add: suppression_of_def loaded_suppressions_def)
  qed
  note both = this
  have mem: "k \<in> set (resolved_acks raw active) \<longleftrightarrow> (\<exists>e. suppression_of w k = Some e \<and>
      su_expires_at e = None \<and> \<not> (\<exists>h \<in> set raw. covers k h))"
    by (auto simp: resolved_acks_iff active_def suppression_of_iff [OF assms(1)] unexpired_def)
  have "suppression_of w' k = (case suppression_of w k of None \<Rightarrow> None
      | Some e \<Rightarrow> if su_expires_at e = None \<and> \<not> (\<exists>h \<in> set raw. covers k h) then None else Some e)"
    using both mem by (auto simp: restrict_map_def split: option.splits)
  with both show ?thesis by blast
qed


text \<open>An acknowledgement of a hotspot that has cleared, next to a snooze of another.\<close>

definition acked_world :: "unit loop_world" where
  "acked_world = sample_world\<lparr>lw_suppressions := Holds
     [(''abc'', \<lparr>su_fingerprint = ''abc'', su_key = [], su_reason = [], su_issue = [],
        su_operator = ''web'', su_created_at = [], su_expires_at = None\<rparr>),
      (''def'', \<lparr>su_fingerprint = ''def'', su_key = [], su_reason = [], su_issue = [],
        su_operator = ''agent'', su_created_at = [], su_expires_at = Some 100\<rparr>)]\<rparr>"

lemma sample_clock: "mono (lw_seconds sample_world)"
  by (simp add: sample_world_def mono_def)

theorem suppressions_applied_witness:
  "fst (apply_suppressions [] acked_world) = Inr [] \<and>
   suppression_of (snd (apply_suppressions [] acked_world)) ''abc'' = None \<and>
   suppression_of (snd (apply_suppressions [] acked_world)) ''def'' \<noteq> None"
proof -
  have ok: "suppressions_ok acked_world" "mono (lw_seconds acked_world)"
    using sample_clock by (simp_all add: acked_world_def suppressions_ok_def loaded_suppressions_def)
  have run: "apply_suppressions [] acked_world =
    (fst (apply_suppressions [] acked_world), snd (apply_suppressions [] acked_world))" by simp
  have loaded: "suppression_of acked_world = map_of (lenient_load (lw_suppressions acked_world))"
    by (simp add: suppression_of_def loaded_suppressions_def)
  show ?thesis
    using suppressions_applied [OF ok run, of "''abc''"] suppressions_applied [OF ok run, of "''def''"]
    by (simp add: loaded) (simp add: acked_world_def)
qed

text \<open>
  An acknowledgement is a prefix, and the empty text is a prefix of every fingerprint.
\<close>

lemma empty_ack_covers: "covers [] h"
  by (simp add: covers_def)

text \<open>
  An acknowledgement with an empty fingerprint mutes everything. While such an entry is in the file
  and unexpired, a cycle goes on with no hotspot at all, whatever their severity, and the entry is
  never taken for resolved as long as anything fires.
\<close>
theorem empty_ack_mutes_everything:
  assumes "suppressions_ok w" and "mono (lw_seconds w)" and "suppression_of w [] = Some e"
    and "su_expires_at e = None" and "raw \<noteq> []" and "apply_suppressions raw w = (r, w')"
  shows "r = Inr [] \<and> suppression_of w' [] = Some e"
proof -
  have "suppressed_at w t h" for t h
    using assms(3,4) suppression_of_iff [OF assms(1)] empty_ack_covers
    by (force simp: suppressed_at_def unexpired_def)
  moreover obtain h where "h \<in> set raw" using assms(5) by (meson last_in_set)
  ultimately show ?thesis
    using suppressions_applied [OF assms(1,2,6), of "[]"] assms(3) empty_ack_covers by auto
qed

definition muted_world :: "unit loop_world" where
  "muted_world = sample_world\<lparr>lw_suppressions := Holds
     [([], \<lparr>su_fingerprint = [], su_key = [], su_reason = [], su_issue = [],
        su_operator = ''web'', su_created_at = [], su_expires_at = None\<rparr>)]\<rparr>"

theorem empty_ack_mutes_everything_witness:
  "fst (apply_suppressions [sample_hotspot] muted_world) = Inr []"
  using empty_ack_mutes_everything [of muted_world _ "[sample_hotspot]"
      "fst (apply_suppressions [sample_hotspot] muted_world)"
      "snd (apply_suppressions [sample_hotspot] muted_world)"] sample_clock
  by (auto simp: muted_world_def suppressions_ok_def loaded_suppressions_def suppression_of_def)

subsection \<open>The digest\<close>

lemma report_decision_app:
  "report_decision ps w = (Inr (if cr_hotspots (lw_report w) = []
      then lw_last_report_signature w \<noteq> None \<and> lw_last_report_signature w \<noteq> Some {}
      else lw_last_report_signature w \<noteq> Some (signature_of (cr_hotspots (lw_report w))) \<or>
        of_int (max 1 (lps_report_reassert_s ps)) \<le> lw_seconds w (lw_second_reads w) - lw_last_report_ts w,
      signature_of (cr_hotspots (lw_report w)), lw_seconds w (lw_second_reads w)),
    w\<lparr>lw_second_reads := Suc (lw_second_reads w)\<rparr>)"
  by (simp add: report_decision_def time_time_def comp_simps Let_def)

abbreviation digest_memory :: "'w loop_world \<Rightarrow> report_signature option \<times> rat" where
  "digest_memory w \<equiv> (lw_last_report_signature w, lw_last_report_ts w)"

lemma own_digest [simp]: "own_state (\<lambda>w. digest_memory w = f)"
  by (simp add: own_state_def)

lemma digest_kept:
  assumes "\<And>f. keeps (\<lambda>w. digest_memory w = f) m" and "m w = (r, w')"
  shows "digest_memory w' = digest_memory w"
  using keepsD_eq [OF assms(1) _ assms(2), of "digest_memory w"] by simp

lemma keeps_mark_reported: "keeps (\<lambda>w. digest_memory w = f) (mark_reported_hotspots env)"
  unfolding mark_reported_hotspots_def mark_hotspot_reported_def
  by (intro own_intros own_digest)

text \<open>
  What \<open>_safe_report\<close> does to the loop's memory: it takes over the signature and the time exactly when
  the digest was due and delivered.
\<close>

lemma post_digest_memory:
  assumes "post_digest env gate due signature now w = (Inr posted, w')"
  shows "(posted \<longrightarrow> due) \<and> digest_memory w' = (if posted then (Some signature, now) else digest_memory w)"
proof (cases due)
  case True
  let ?m = "except_exception
    (bindM (call_out (le_reporter env (lw_report w) gate)) (\<lambda>delivered. retM (delivered \<noteq> Some False)))
    (\<lambda>e. retM False)"
  obtain r w1 where call: "?m w = (r, w1)" by fastforce
  have "keeps (\<lambda>v. digest_memory v = f) ?m" for f by (intro own_intros own_digest)
  then have kept: "digest_memory w1 = digest_memory w" using call by (rule digest_kept)
  show ?thesis
  proof (cases "r = Inr True")
    case True
    let ?w = "w1\<lparr>lw_last_report_signature := Some signature, lw_last_report_ts := now\<rparr>"
    obtain q w2 where mark: "mark_reported_hotspots env ?w = (q, w2)" by fastforce
    have "digest_memory w2 = digest_memory ?w"
      using keeps_mark_reported mark by (rule digest_kept)
    then show ?thesis
      using assms \<open>due\<close> call True mark by (auto simp: post_digest_def comp_simps split: sum.splits)
  next
    case False
    then show ?thesis
      using assms \<open>due\<close> call kept
      by (auto simp: post_digest_def comp_simps split: sum.splits if_splits)
  qed
qed (use assms in \<open>simp add: post_digest_def\<close>)

lemma safe_report_memory:
  assumes "safe_report env gate w = (Inr (due, posted), w')"
  shows "report_decision (le_settings env) w = (Inr (due, signature_of (cr_hotspots (lw_report w)),
      lw_seconds w (lw_second_reads w)), w\<lparr>lw_second_reads := Suc (lw_second_reads w)\<rparr>) \<and>
    (posted \<longrightarrow> due) \<and> digest_memory w' = (if posted
      then (Some (signature_of (cr_hotspots (lw_report w))), lw_seconds w (lw_second_reads w))
      else digest_memory w)"
proof -
  let ?sig = "signature_of (cr_hotspots (lw_report w))" and ?now = "lw_seconds w (lw_second_reads w)"
  let ?w = "w\<lparr>lw_second_reads := Suc (lw_second_reads w)\<rparr>"
  obtain d where d: "report_decision (le_settings env) w = (Inr (d, ?sig, ?now), ?w)"
    by (simp add: report_decision_app)
  then obtain q w1 where post: "post_digest env gate d ?sig ?now ?w = (Inr q, w1)"
    using assms by (auto simp: safe_report_def bindM_app split: prod.splits sum.splits)
  let ?beat = "except_exception (call_out (le_heartbeat env (lw_report w1))) (\<lambda>e. retM ())"
  obtain b w2 where beat: "?beat w1 = (b, w2)" by fastforce
  have "keeps (\<lambda>v. digest_memory v = f) ?beat" for f by (intro own_intros own_digest)
  then have "digest_memory w2 = digest_memory w1" using beat by (rule digest_kept)
  moreover have "due = d" "posted = q" "w' = w2"
    using assms d post beat by (auto simp: safe_report_def comp_simps split: sum.splits)
  ultimately show ?thesis using d post_digest_memory [OF post] by simp
qed

text \<open>
  A digest is posted once, and until it is delivered. When a digest was due and the same set of
  hotspots (by fingerprint and severity) is there again before the reassertion interval has passed,
  the loop's decision is to post exactly when the first delivery failed: a failed delivery is retried,
  a delivered one is not repeated, and an all-clear is posted once only.
\<close>
theorem digest_posted_until_delivered:
  assumes "safe_report env gate w = (Inr (True, posted), w')"
    and "digest_memory v = digest_memory w'"
    and "signature_of (cr_hotspots (lw_report v)) = signature_of (cr_hotspots (lw_report w))"
    and "lw_seconds w (lw_second_reads w) \<le> lw_seconds v (lw_second_reads v)"
    and "lw_seconds v (lw_second_reads v) - lw_seconds w (lw_second_reads w) <
      of_int (max 1 (lps_report_reassert_s (le_settings env)))"
    and "report_decision (le_settings env) v = (Inr (due, sig, now), v')"
  shows "due \<longleftrightarrow> \<not> posted"
proof -
  note first = safe_report_memory [OF assms(1)]
  have empty: "cr_hotspots (lw_report v) = [] \<longleftrightarrow> cr_hotspots (lw_report w) = []"
    using assms(3) by (metis image_is_empty set_empty signature_of_def)
  show ?thesis
  proof (cases posted)
    case True
    then show ?thesis
      using first assms(2-6) empty by (auto simp: report_decision_app signature_of_def)
  next
    case False
    then show ?thesis
      using first assms(2-6) empty by (auto simp: report_decision_app signature_of_def)
  qed
qed


definition digest_world :: "unit loop_world" where
  "digest_world = sample_world\<lparr>lw_report := blank_cycle\<lparr>cr_hotspots := [sample_hotspot]\<rparr>\<rparr>"

lemma sample_digest:
  "safe_report sample_env gate digest_world = (Inr (True, True), digest_world\<lparr>lw_second_reads := 1,
     lw_last_report_signature := Some (signature_of [sample_hotspot]), lw_last_report_ts := 0\<rparr>)"
  by (simp add: safe_report_def post_digest_def report_decision_app comp_simps sample_env_def
      digest_world_def sample_world_def call_out_def zoomM_def except_exception_def catchM_def
      mark_reported_hotspots_def control_service_def)

definition sample_gate :: gate_decision where
  "sample_gate = evaluate_gate (le_settings sample_env) empty_ledger [sample_hotspot]"

theorem digest_posted_until_delivered_witness:
  "\<not> fst (projr (fst (report_decision (le_settings sample_env)
      (snd (safe_report sample_env sample_gate digest_world)))))"
proof -
  let ?v = "snd (safe_report sample_env sample_gate digest_world)"
  obtain due sig now v' where again: "report_decision (le_settings sample_env) ?v = (Inr (due, sig, now), v')"
    by (simp add: report_decision_app)
  have "due \<longleftrightarrow> \<not> True"
    by (rule digest_posted_until_delivered [OF sample_digest [of sample_gate] _ _ _ _ again])
      (simp_all add: sample_digest, simp_all add: digest_world_def sample_world_def blank_cycle_def
        sample_env_def default_settings_def)
  with again show ?thesis by simp
qed

subsection \<open>Automatic snoozes\<close>

text \<open>What the loop over the hotspots has done so far.\<close>

definition snoozed_so_far ::
  "'w loop_env \<Rightarrow> hotspot list \<Rightarrow> 'w loop_world \<Rightarrow> string list \<Rightarrow> string list \<times> string list \<Rightarrow> 'w loop_world \<Rightarrow> bool" where
  "snoozed_so_far env raw w active acc v \<longleftrightarrow>
     suppressions_ok v \<and> set active \<subseteq> set (snd acc) \<and>
     int (length (fst acc)) \<le> max 1 (lps_auto_snooze_max_per_cycle (le_settings env)) \<and>
     set (fst acc) \<subseteq> hs_key ` {h \<in> set raw. is_auto_snoozable h} \<and>
     (\<forall>k. suppression_of v k = suppression_of w k \<or>
       (\<exists>h \<in> set raw. is_auto_snoozable h \<and> hotspot_fingerprint h = k \<and> k \<notin> set active \<and>
         (\<exists>e. suppression_of v k = Some e \<and> su_operator e = ''agent'')))"


lemma foldM_invariant:
  assumes "J acc w" and "\<And>x acc v. x \<in> set xs \<Longrightarrow> J acc v \<Longrightarrow>
      (case f x acc v of (Inl e, v') \<Rightarrow> K v' | (Inr acc', v') \<Rightarrow> J acc' v')"
  shows "case foldM f xs acc w of (Inl e, w') \<Rightarrow> K w' | (Inr acc', w') \<Rightarrow> J acc' w'"
  using assms
proof (induction xs arbitrary: acc w)
  case (Cons x xs)
  have step: "case f x acc w of (Inl e, v') \<Rightarrow> K v' | (Inr acc', v') \<Rightarrow> J acc' v'"
    by (rule Cons.prems) (simp_all add: Cons.prems)
  show ?case
  proof (cases "f x acc w")
    case (Pair r v)
    then show ?thesis
      using step Cons.IH [of _ v] Cons.prems(2) by (cases r) (simp_all add: bindM_app)
  qed
qed simp

text \<open>Running a callback changes no suppression.\<close>

lemma auto_ack_suppressions:
  assumes "auto_snooze_icinga_ack tool secret h ttl v = (r, v')"
  shows "lw_suppressions v' = lw_suppressions v"
proof -
  have "own_state (\<lambda>w. lw_suppressions w = lw_suppressions v)" by (simp add: own_state_def)
  from keepsD_eq [OF own_ack [OF this] _ assms] show ?thesis by simp
qed

lemma snoozed_frame:
  "snoozed_so_far env raw w active acc v \<Longrightarrow> lw_suppressions v' = lw_suppressions v \<Longrightarrow>
    snoozed_so_far env raw w active acc v'"
proof -
  assume v: "snoozed_so_far env raw w active acc v" and "lw_suppressions v' = lw_suppressions v"
  then have "suppression_of v' = suppression_of v" "suppressions_ok v' = suppressions_ok v"
    by (simp_all add: suppression_of_def suppressions_ok_def loaded_suppressions_def)
  then show ?thesis using v unfolding snoozed_so_far_def by simp
qed

lemma snooze_step:
  assumes "h \<in> set raw" and "snoozed_so_far env raw w active acc v"
  shows "case snooze_hotspot env h acc v of
      (Inl e, v') \<Rightarrow> \<exists>acc. snoozed_so_far env raw w active acc v'
    | (Inr acc', v') \<Rightarrow> snoozed_so_far env raw w active acc' v'"
proof (cases "max 1 (lps_auto_snooze_max_per_cycle (le_settings env)) \<le> int (length (fst acc)) \<or>
    \<not> is_auto_snoozable h \<or>
    (\<exists>a \<in> set (snd acc). prefix a (hotspot_fingerprint h) \<or> prefix (hotspot_fingerprint h) a)")
  case True
  then have "snooze_hotspot env h acc v = (Inr acc, v)" by (auto simp: snooze_hotspot_def Let_def)
  then show ?thesis using assms(2) by simp
next
  case False
  let ?fp = "hotspot_fingerprint h" and ?ps = "le_settings env"
  let ?acc = "(fst acc @ [hs_key h], snd acc @ [?fp])"
  have ok: "suppressions_ok v" using assms(2) by (simp add: snoozed_so_far_def)
  obtain e v1 where add: "add_suppression ?fp (hs_key h) (snooze_reason h) [] ''agent''
        (Some (of_int (lps_auto_snooze_ttl_s ?ps))) v = (Inr e, v1)"
    "suppressions_ok v1" "suppression_of v1 = (suppression_of v)(?fp \<mapsto> e)" "su_operator e = ''agent''"
    using add_suppression_ok [OF ok] by metis
  have "?fp \<notin> set active" using False assms(2) by (auto simp: snoozed_so_far_def)
  then have after: "snoozed_so_far env raw w active ?acc v1"
    using assms add(2-4) False by (auto simp: snoozed_so_far_def)
  obtain r v2 where ack: "whenM (lps_auto_snooze_icinga_ack ?ps)
      (auto_snooze_icinga_ack (le_tool env) (le_signing_secret env) h (lps_auto_snooze_ttl_s ?ps)) v1 = (r, v2)"
    by fastforce
  then have "lw_suppressions v2 = lw_suppressions v1"
    using auto_ack_suppressions by (auto split: if_splits)
  with after have "snoozed_so_far env raw w active ?acc v2" by (rule snoozed_frame)
  moreover have "snooze_hotspot env h acc v = (case r of Inl e \<Rightarrow> (Inl e, v2) | Inr _ \<Rightarrow> (Inr ?acc, v2))"
    using False add(1) ack by (auto simp: snooze_hotspot_def Let_def seqM_app split: sum.splits)
  ultimately show ?thesis by (cases r) auto
qed

lemma snoozed_outcome:
  assumes "snoozed_so_far env raw w active acc w'"
    and "\<And>k. k \<in> set active \<longleftrightarrow> (\<exists>e. suppression_of w k = Some e \<and> unexpired t e)"
  shows "\<forall>k. suppression_of w' k = suppression_of w k \<or>
      (\<exists>h \<in> set raw. is_auto_snoozable h \<and> hotspot_fingerprint h = k \<and>
        (\<forall>e. suppression_of w k = Some e \<longrightarrow> \<not> unexpired t e) \<and>
        (\<exists>e. suppression_of w' k = Some e \<and> su_operator e = ''agent''))"
    and "int (length (fst acc)) \<le> max 1 (lps_auto_snooze_max_per_cycle (le_settings env))"
    and "set (fst acc) \<subseteq> hs_key ` {h \<in> set raw. is_auto_snoozable h}"
  using assms(1) unfolding snoozed_so_far_def assms(2) by blast+

text \<open>
  The loop mutes only minor findings, a few at a time, and never overrides an operator. Whatever
  \<open>_auto_snooze\<close> returns or raises, a suppression it changed is one it wrote itself for a scanned
  hotspot of low severity that warrants no change and that no active suppression had as its key; and
  it reports at most the configured number (at least one) of such hotspots.
\<close>
theorem auto_snooze_only_minor:
  assumes "suppressions_ok w" and "auto_snooze env raw w = (r, w')"
  shows "(\<forall>k. suppression_of w' k = suppression_of w k \<or>
      (\<exists>h \<in> set raw. is_auto_snoozable h \<and> hotspot_fingerprint h = k \<and>
        (\<forall>e. suppression_of w k = Some e \<longrightarrow> \<not> unexpired (lw_seconds w (lw_second_reads w)) e) \<and>
        (\<exists>e. suppression_of w' k = Some e \<and> su_operator e = ''agent''))) \<and>
    (\<forall>snoozed. r = Inr snoozed \<longrightarrow>
      int (length snoozed) \<le> max 1 (lps_auto_snooze_max_per_cycle (le_settings env)) \<and>
      set snoozed \<subseteq> hs_key ` {h \<in> set raw. is_auto_snoozable h})"
proof (cases "lps_auto_snooze_enabled (le_settings env)")
  case False
  then show ?thesis using assms(2) by (auto simp: auto_snooze_def)
next
  case True
  let ?t = "lw_seconds w (lw_second_reads w)"
  let ?active = "dict_keys (filter (\<lambda>(k, e). unexpired ?t e) (loaded_suppressions w))"
  let ?w = "w\<lparr>lw_second_reads := Suc (lw_second_reads w)\<rparr>"
  let ?J = "snoozed_so_far env raw w ?active"
  have start: "?J ([], ?active) ?w"
    using assms(1)
    by (simp add: snoozed_so_far_def suppressions_ok_def suppression_of_def loaded_suppressions_def)
  have fold: "case foldM (snooze_hotspot env) raw ([], ?active) ?w of
      (Inl e, w') \<Rightarrow> \<exists>acc. ?J acc w' | (Inr acc', w') \<Rightarrow> ?J acc' w'"
    by (rule foldM_invariant [where J = ?J, OF start snooze_step])
  obtain q w1 where run: "foldM (snooze_hotspot env) raw ([], ?active) ?w = (q, w1)" by fastforce
  have "\<exists>acc. ?J acc w' \<and> (\<forall>snoozed. r = Inr snoozed \<longrightarrow> snoozed = fst acc)"
  proof (cases q)
    case (Inl e)
    then show ?thesis
      using fold run assms(2) True by (auto simp: auto_snooze_def active_suppressions_app bindM_app)
  next
    case (Inr acc)
    let ?post = "whenM (fst acc \<noteq> [])
      (except_exception (call_out (le_snooze_report env (fst acc) raw)) (\<lambda>e. retM ()))"
    obtain b w2 where post: "?post w1 = (b, w2)" by fastforce
    have "keeps (\<lambda>v. lw_suppressions v = lw_suppressions w1) ?post"
      by (intro own_intros) (simp add: own_state_def)
    from keepsD_eq [OF this _ post] have "?J acc w2"
      using fold run Inr snoozed_frame by (metis (mono_tags, lifting) case_prod_conv sum.case(2))
    moreover have "w' = w2" "\<forall>snoozed. r = Inr snoozed \<longrightarrow> snoozed = fst acc"
      using run Inr post assms(2) True
      by (auto simp: auto_snooze_def active_suppressions_app bindM_app seqM_app split: sum.splits)
    ultimately show ?thesis by blast
  qed
  then obtain acc where acc: "?J acc w'" "\<forall>snoozed. r = Inr snoozed \<longrightarrow> snoozed = fst acc" by blast
  have keys: "k \<in> set ?active \<longleftrightarrow> (\<exists>e. suppression_of w k = Some e \<and> unexpired ?t e)" for k
    using suppression_of_iff [OF assms(1)] by force
  show ?thesis using snoozed_outcome [OF acc(1) keys] acc(2) by blast
qed


definition snoozing_env :: "unit loop_env" where
  "snoozing_env = sample_env\<lparr>le_settings := default_settings\<lparr>lps_auto_snooze_enabled := True\<rparr>\<rparr>"

theorem auto_snooze_only_minor_witness:
  "suppression_of (snd (auto_snooze snoozing_env [sample_hotspot] acked_world)) ''def'' =
     suppression_of acked_world ''def''"
proof -
  have "suppressions_ok acked_world"
    by (simp add: acked_world_def suppressions_ok_def loaded_suppressions_def)
  moreover have "\<not> is_auto_snoozable sample_hotspot"
    by (simp add: is_auto_snoozable_def sample_hotspot_def)
  ultimately show ?thesis
    using auto_snooze_only_minor [of acked_world snoozing_env "[sample_hotspot]"
        "fst (auto_snooze snoozing_env [sample_hotspot] acked_world)"
        "snd (auto_snooze snoozing_env [sample_hotspot] acked_world)"]
    by auto
qed

subsection \<open>The cooldown\<close>

lemma stamped_get:
  "map_of (foldl (\<lambda>d fp. dict_set fp v d) d fps) k = (if k \<in> set fps then Some v else map_of d k)"
  by (induction fps arbitrary: d) (simp_all add: update_conv')

lemma stamped_distinct:
  "distinct (dict_keys d) \<Longrightarrow> distinct (dict_keys (foldl (\<lambda>d fp. dict_set fp v d) d fps))"
  by (induction fps arbitrary: d) (simp_all add: distinct_update)

lemma cooling_later: "cooling later cooldown stamp \<Longrightarrow> now \<le> later \<Longrightarrow> cooling now cooldown stamp"
  by (auto simp: cooling_def split: option.splits)

definition investigations_ok :: "'w loop_world \<Rightarrow> bool" where
  "investigations_ok w \<longleftrightarrow> distinct (dict_keys (lenient_load (lw_investigations w)))"

text \<open>The stamp of a fingerprint in the cooldown file, if it is still cooling at a time.\<close>

definition resting_at :: "loop_settings \<Rightarrow> 'w loop_world \<Rightarrow> rat \<Rightarrow> string \<Rightarrow> bool" where
  "resting_at ps w now fp \<longleftrightarrow>
     (\<exists>stamp. (fp, stamp) \<in> set (lenient_load (lw_investigations w)) \<and>
        cooling now (lps_investigation_cooldown_s ps) stamp)"

lemma fresh_hotspots_app:
  assumes "0 < lps_investigation_cooldown_s ps"
  shows "fresh_hotspots ps None hs v =
    (Inr (filter (\<lambda>h. \<not> resting_at ps v (lw_seconds v (lw_second_reads v)) (hotspot_fingerprint h)) hs),
     v\<lparr>lw_second_reads := Suc (lw_second_reads v)\<rparr>)"
proof -
  have "h \<in> fst ` {x \<in> set d. case x of (fp, t) \<Rightarrow> Q t} \<longleftrightarrow> (\<exists>t. (h, t) \<in> set d \<and> Q t)"
    for h :: string and d :: "(string \<times> rat option) list" and Q by force
  then show ?thesis
    using assms
    by (simp add: fresh_hotspots_def recent_investigation_fps_def time_time_def comp_simps resting_at_def)
qed

text \<open>
  A hotspot that was just investigated rests. After the investigations of a cycle have been
  recorded, and until the cooldown has passed, the cooldown file lets through exactly the hotspots that
  were not among them and that no earlier investigation still holds back; recording new stamps forgets
  no stamp that still counts.
\<close>
theorem investigated_hotspots_rest:
  assumes "0 < lps_investigation_cooldown_s ps" and "fps \<noteq> []" and "investigations_ok w"
    and "record_investigations ps fps w = (Inr (), w')" and "lw_investigations v = lw_investigations w'"
    and "lw_seconds w (lw_second_reads w) \<le> lw_seconds v (lw_second_reads v)"
    and "lw_seconds v (lw_second_reads v) - lw_seconds w (lw_second_reads w) <
      of_int (lps_investigation_cooldown_s ps)"
  shows "fst (fresh_hotspots ps None hs v) = Inr (filter (\<lambda>h. hotspot_fingerprint h \<notin> set fps \<and>
    \<not> resting_at ps w (lw_seconds v (lw_second_reads v)) (hotspot_fingerprint h)) hs)"
proof -
  let ?now = "lw_seconds w (lw_second_reads w)" and ?later = "lw_seconds v (lw_second_reads v)"
  let ?c = "lps_investigation_cooldown_s ps"
  let ?old = "lenient_load (lw_investigations w)"
  define stamped where "stamped = foldl (\<lambda>d fp. dict_set fp (Some ?now) d) ?old fps"
  have d: "distinct (dict_keys ?old)" "distinct (dict_keys stamped)"
    using assms(3) by (simp_all add: investigations_ok_def stamped_def stamped_distinct)
  have "lw_investigations w' = dumped (filter (\<lambda>(fp, t). cooling ?now ?c t) stamped)"
    using assms(1,2,4)
    by (auto simp: record_investigations_def time_time_def comp_simps stamp_investigations_def stamped_def)
  then have stamps: "set (lenient_load (lw_investigations v)) = {(fp, t) \<in> set stamped. cooling ?now ?c t}"
    using assms(5) by (auto simp: dumped_def)
  have rest: "resting_at ps v ?later fp \<longleftrightarrow> fp \<in> set fps \<or> resting_at ps w ?later fp" for fp
  proof -
    have "(fp, t) \<in> set stamped \<longleftrightarrow> (if fp \<in> set fps then t = Some ?now else (fp, t) \<in> set ?old)" for t
      using map_of_eq_Some_iff [OF d(1), of fp t] map_of_eq_Some_iff [OF d(2), of fp t]
        stamped_get [of "Some ?now" ?old fps fp]
      by (auto simp: stamped_def)
    moreover have "cooling ?later ?c (Some ?now)" using assms(7) by (simp add: cooling_def)
    moreover have "cooling ?later ?c t \<Longrightarrow> cooling ?now ?c t" for t
      using cooling_later assms(6) by blast
    ultimately show ?thesis unfolding resting_at_def stamps by auto
  qed
  show ?thesis by (simp add: fresh_hotspots_app [OF assms(1)] rest)
qed


theorem investigated_hotspots_rest_witness:
  "fst (fresh_hotspots default_settings None [sample_hotspot]
     (snd (record_investigations default_settings [hotspot_fingerprint sample_hotspot] sample_world))) = Inr []"
proof -
  let ?fps = "[hotspot_fingerprint sample_hotspot]"
  let ?v = "snd (record_investigations default_settings ?fps sample_world)"
  have run: "record_investigations default_settings ?fps sample_world = (Inr (), ?v)"
    "lw_seconds ?v = lw_seconds sample_world" "lw_second_reads ?v = 1"
    by (simp_all add: record_investigations_def default_settings_def time_time_def comp_simps sample_world_def)
  have cooldown: "lps_investigation_cooldown_s default_settings = 21600"
    by (simp add: default_settings_def)
  have "investigations_ok sample_world" "lw_seconds sample_world = (\<lambda>n. of_nat n)"
    "lw_second_reads sample_world = 0"
    by (simp_all add: investigations_ok_def sample_world_def)
  then have "fst (fresh_hotspots default_settings None [sample_hotspot] ?v) =
      Inr (filter (\<lambda>h. hotspot_fingerprint h \<notin> set ?fps \<and>
        \<not> resting_at default_settings sample_world (lw_seconds ?v (lw_second_reads ?v)) (hotspot_fingerprint h))
        [sample_hotspot])"
    by (intro investigated_hotspots_rest [OF _ _ _ run(1) refl])
      (simp_all add: run(2,3) cooldown)
  then show ?thesis by simp
qed

subsection \<open>Cancellation\<close>

text \<open>
  The two investigations of the statement below, one at a time: the first ends well, the second is
  cancelled.
\<close>

lemma spent:
  assumes "read_ledger (lw_ledgers w day) day = Inr l" and "\<not> negative_counter (add_ledger l (spend f))"
  shows "update_ledger day (spend f) w = (Inr (add_ledger l (spend f)),
    w\<lparr>lw_ledgers := (lw_ledgers w)(day := Holds (stored_form (add_ledger l (spend f))))\<rparr>)"
  using assms by (rule update_ledger_ok)

lemma succeeds_then:
  assumes "read_ledger (lw_ledgers w day) day = Inr l" and "ledger_ok l"
    and "ask h decision = retM (Some res)" and "io_status res = Inv_succeeded"
  shows "\<exists>w' l'. investigate_hotspot ps None category ask decision day h acc w =
      (Inr (Suc (fst acc), snd acc @ [hotspot_fingerprint h]), w') \<and>
    read_ledger (lw_ledgers w' day) day = Inr l' \<and> ledger_ok l' \<and>
    lw_investigations w' = lw_investigations w \<and>
    cr_investigated (lw_report w') = cr_investigated (lw_report w) @ [hs_key h]"
proof -
  let ?l = "add_ledger l (spend (\<lambda>l. l\<lparr>lg_attempts := 1\<rparr>))"
  let ?m = "add_ledger ?l (spend (\<lambda>l. l\<lparr>lg_investigations := 1, lg_succeeded := 1\<rparr>))"
  have "\<not> negative_counter ?l" "\<not> negative_counter ?m" "ledger_ok ?m"
    using assms(2) by (auto simp: ledger_ok_def ledger_arith)
  then show ?thesis
    using assms
    by (simp add: investigate_hotspot_def spent [OF assms(1)] comp_simps note_report_def tryM_def
        call_out_def zoomM_def finish_investigation_def spent read_ledger_def)
qed

lemma cancelled_then:
  assumes "read_ledger (lw_ledgers w day) day = Inr l" and "ledger_ok l"
    and "ask k decision = raiseM (OtherError ''CancelledError'' [])"
    and "0 < lps_investigation_cooldown_s ps" and "lw_investigations w = Absent"
  shows "\<exists>w'. investigate_hotspot ps None category ask decision day k acc w =
      (Inl (OtherError ''CancelledError'' []), w') \<and>
    dict_keys (lenient_load (lw_investigations w')) = [hotspot_fingerprint k] \<and>
    cr_investigated (lw_report w') = cr_investigated (lw_report w)"
proof -
  let ?l = "add_ledger l (spend (\<lambda>l. l\<lparr>lg_attempts := 1\<rparr>))"
  let ?m = "add_ledger ?l (spend (\<lambda>l. l\<lparr>lg_failed := 1\<rparr>))"
  have "\<not> negative_counter ?l" "\<not> negative_counter ?m"
    using assms(2) by (auto simp: ledger_ok_def ledger_arith)
  then show ?thesis
    using assms(3-5)
    by (simp add: investigate_hotspot_def spent [OF assms(1)] comp_simps note_report_def tryM_def
        call_out_def zoomM_def abort_investigation_def is_cancelled_def spent read_ledger_def
        record_investigations_def time_time_def stamp_investigations_def cooling_def dumped_def)
qed

text \<open>
  A cancellation forgets the rest of the cycle. When the first of two investigations succeeds and
  the second is cancelled, the ledger counts both, but the cooldown file gets the second hotspot's stamp
  only: the first one, investigated and paid for, is investigated again by the next cycle.
\<close>
theorem cancellation_forgets_stamps:
  assumes "0 < lps_investigation_cooldown_s ps" and "lw_investigations w = Absent"
    and "read_ledger (lw_ledgers w day) day = Inr l" and "ledger_ok l"
    and "gd_max_investigations gate = 2" and "gd_eligible gate = [h, k]"
    and "ask h decision = retM (Some res)" and "io_status res = Inv_succeeded"
    and "ask k decision = raiseM (OtherError ''CancelledError'' [])"
    and "investigate ps None category (Some ask) gate decision day w = (r, w')"
  shows "r = Inl (OtherError ''CancelledError'' []) \<and>
    dict_keys (lenient_load (lw_investigations w')) = [hotspot_fingerprint k] \<and>
    cr_investigated (lw_report w') = cr_investigated (lw_report w) @ [hs_key h]"
proof -
  let ?w = "w\<lparr>lw_second_reads := Suc (lw_second_reads w)\<rparr>"
  have fresh: "fresh_hotspots ps None [h, k] w = (Inr [h, k], ?w)"
    using assms(2) by (simp add: fresh_hotspots_app [OF assms(1)] resting_at_def)
  obtain w1 l1 where first: "investigate_hotspot ps None category ask decision day h (0, []) ?w =
      (Inr (1, [hotspot_fingerprint h]), w1)"
    "read_ledger (lw_ledgers w1 day) day = Inr l1" "ledger_ok l1" "lw_investigations w1 = Absent"
    "cr_investigated (lw_report w1) = cr_investigated (lw_report w) @ [hs_key h]"
    using succeeds_then [of ?w day l ask h decision res ps category "(0, [])"] assms by auto
  obtain w2 where second: "investigate_hotspot ps None category ask decision day k
      (1, [hotspot_fingerprint h]) w1 = (Inl (OtherError ''CancelledError'' []), w2)"
    "dict_keys (lenient_load (lw_investigations w2)) = [hotspot_fingerprint k]"
    "cr_investigated (lw_report w2) = cr_investigated (lw_report w1)"
    using cancelled_then [of w1 day l1 ask k decision ps category "(1, [hotspot_fingerprint h])"]
      first(2-4) assms(1,9) by auto
  have "investigate ps None category (Some ask) gate decision day w =
      (Inl (OtherError ''CancelledError'' []), w2)"
    using assms(5,6) fresh first(1) second(1)
    by (simp add: investigate_def comp_simps note_report_def slice_to_def)
  then show ?thesis using assms(10) second(2,3) first(5) by simp
qed

definition sample_success :: investigation_outcome where
  "sample_success = \<lparr>io_incident_id = None, io_cost_usd = 0, io_handoff_url = None,
     io_status = Inv_succeeded, io_reason = []\<rparr>"

definition cancelling_ask :: "unit investigator" where
  "cancelling_ask h decision =
     (if hs_key h = ''rtr:peer1'' then retM (Some sample_success)
      else raiseM (OtherError ''CancelledError'' []))"

theorem cancellation_forgets_stamps_witness:
  "dict_keys (lenient_load (lw_investigations (snd (investigate default_settings None (\<lambda>_. [])
     (Some cancelling_ask) (sample_gate\<lparr>gd_max_investigations := 2,
        gd_eligible := [sample_hotspot, blank_hotspot ''disk_fill'' ''log:/var'']\<rparr>)
     (undefined\<lparr>dc_cycle_id := []\<rparr>) ''2026-06-01'' sample_world)))) =
   [hotspot_fingerprint (blank_hotspot ''disk_fill'' ''log:/var'')]"
  by (rule cancellation_forgets_stamps [where h = sample_hotspot and res = sample_success and l = empty_ledger, OF _ _ _ _ _ _ _ _ _
        prod.collapse [symmetric], THEN conjunct2, THEN conjunct1])
    (simp_all add: default_settings_def sample_world_def read_ledger_def cancelling_ask_def
      sample_hotspot_def blank_hotspot_def sample_success_def)

end
