(* ===== verification/Yields.thy ===== *)
theory Yields
  imports Prelude
begin

section \<open>What a computation yields\<close>

text \<open>
  \<open>yields P m\<close> says that \<open>P\<close> holds of the value \<open>m\<close> returns, if it returns one; its rules follow the
  combinators, and \<open>keeps_after\<close> lets a preservation proof use what an earlier step yields.
\<close>

named_theorems yields_intros \<open>rules that reduce what a computation yields\<close>

definition yields :: "('a \<Rightarrow> bool) \<Rightarrow> ('s, 'a) comp \<Rightarrow> bool" where
  "yields P m \<longleftrightarrow> (\<forall>s x t. m s = (Inr x, t) \<longrightarrow> P x)"

lemma yieldsD: "yields P m \<Longrightarrow> m s = (Inr x, t) \<Longrightarrow> P x"
  by (auto simp: yields_def)

lemma yields_top: "(\<And>x. P x) \<Longrightarrow> yields P m"
  by (simp add: yields_def)

lemma yields_ret [simp]: "yields P (retM x) = P x"
  by (simp add: yields_def)

lemma yields_bind: "yields Q m \<Longrightarrow> (\<And>x. Q x \<Longrightarrow> yields P (f x)) \<Longrightarrow> yields P (bindM m f)"
  unfolding yields_def by (metis bindM_success)

lemma yields_then [yields_intros]: "(\<And>x. yields P (f x)) \<Longrightarrow> yields P (bindM m f)"
  by (rule yields_bind [of "\<lambda>_. True"]) (simp_all add: yields_top)

lemma yields_if [yields_intros]:
  "(c \<Longrightarrow> yields P m) \<Longrightarrow> (\<not> c \<Longrightarrow> yields P n) \<Longrightarrow> yields P (if c then m else n)"
  by simp

lemma yields_foldM [yields_intros]:
  assumes "\<And>x acc. P acc \<Longrightarrow> yields P (f x acc)" and "P acc"
  shows "yields P (foldM f xs acc)"
  using assms(2)
proof (induction xs arbitrary: acc)
  case Nil
  then show ?case by (simp add: yields_def)
next
  case (Cons x xs)
  then show ?case by (auto intro: yields_bind assms(1))
qed

lemma yields_zoom: "yields P m \<Longrightarrow> yields P (zoomM get put m)"
  by (auto simp: yields_def zoomM_def split: prod.splits)

lemma yields_mapM:
  "(\<And>m. m \<in> set ms \<Longrightarrow> yields P (f m)) \<Longrightarrow> yields (\<lambda>ys. \<forall>y \<in> set ys. P y) (mapM f ms)"
proof (induction ms)
  case (Cons m ms)
  show ?case unfolding mapM.simps
  proof (rule yields_bind [where Q = P])
    show "yields P (f m)" using Cons.prems by simp
    show "yields (\<lambda>ys. \<forall>y \<in> set ys. P y) (bindM (mapM f ms) (\<lambda>ys. retM (y # ys)))" if "P y" for y
      using that Cons by (intro yields_bind [where Q = "\<lambda>ys. \<forall>y \<in> set ys. P y"]) simp_all
  qed
qed simp

lemma yields_lift: "(\<And>x. r = Inr x \<Longrightarrow> P x) \<Longrightarrow> yields P (liftM r)"
  by (simp add: yields_def)

lemma keeps_after:
  assumes "yields Q m" and "keeps P m" and "\<And>x. Q x \<Longrightarrow> keeps P (f x)"
  shows "keeps P (bindM m f)"
proof (rule keepsI)
  fix s assume "P s"
  obtain r t where m: "m s = (r, t)" by fastforce
  then have t: "P t" using keepsD_eq [OF assms(2) \<open>P s\<close>] by blast
  show "P (snd (bindM m f s))"
  proof (cases r)
    case (Inl e)
    then show ?thesis using m t by (simp add: bindM_Inl)
  next
    case (Inr x)
    then have "Q x" using yieldsD [OF assms(1)] m by blast
    then show ?thesis using m Inr t keepsD [OF assms(3)] by (simp add: bindM_Inr)
  qed
qed

end
