(* ===== verification/Scanner_Rules.thy ===== *)
theory Scanner_Rules
  imports Scanner Yields Proactive_Loop
begin

section \<open>What the scan rules yield\<close>

text \<open>
  Every hotspot a rule returns carries the rule's identifier and specialist, and its constructor has
  scrubbed its identifying texts.
\<close>

lemma yields_except:
  "yields P m \<Longrightarrow> (\<And>e. yields P (h e)) \<Longrightarrow> yields P (except_exception m h)"
  unfolding yields_def except_exception_def catchM_def
  by (fastforce split: prod.splits sum.splits if_splits)

subsection \<open>Hotspots of a rule\<close>

definition scrubbed_text :: "nat \<Rightarrow> string \<Rightarrow> bool" where
  "scrubbed_text limit s \<longleftrightarrow> length s \<le> limit \<and> (\<forall>c \<in> set s. is_printable c)"

definition clean_identity :: "hotspot \<Rightarrow> bool" where
  "clean_identity h \<longleftrightarrow> scrubbed_text 200 (hs_key h) \<and> scrubbed_text 120 (hs_resource h) \<and>
     scrubbed_text 200 (hs_title h) \<and> (\<forall>c \<in> set (hs_recommended_checks h). scrubbed_text 200 c)"

definition rule_hotspot :: "string \<Rightarrow> specialist \<Rightarrow> hotspot \<Rightarrow> bool" where
  "rule_hotspot rule_id sp h \<longleftrightarrow>
     hs_rule_id h = rule_id \<and> hs_suggested_specialist h = Some sp \<and> clean_identity h"

lemma sanitize_label_scrubbed: "scrubbed_text n (sanitize_label n s)"
  unfolding scrubbed_text_def sanitize_label_def by (auto dest!: in_set_takeD)

lemma sanitize_hotspot_clean [simp]: "clean_identity (sanitize_hotspot h)"
  by (simp add: clean_identity_def sanitize_hotspot_def sanitize_label_scrubbed)

text \<open>What the functions that fill in a hotspot leave of it.\<close>

definition fills_in :: "specialist \<Rightarrow> (hotspot \<Rightarrow> hotspot) \<Rightarrow> bool" where
  "fills_in sp given \<longleftrightarrow> (\<forall>h. hs_rule_id (given h) = hs_rule_id h \<and> hs_suggested_specialist (given h) = Some sp)"

lemma fills_in_rules [simp]:
  "fills_in Spec_bgp (bgp_down host peer state)"
  "fills_in Spec_bgp (bgp_flapping host peer flaps)"
  "fills_in Spec_infrastructure (disk_low host mount soon ratio)"
  "fills_in Spec_infrastructure (scrape_flapping i job flaps)"
  "fills_in Spec_infrastructure (unit_churn host u restarts)"
  "fills_in Spec_infrastructure (unit_failed host u)"
  "fills_in Spec_infrastructure (reach_intermittent i ratio percent)"
  "fills_in Spec_infrastructure (tls_near_expiry i ratio)"
  by (simp_all add: fills_in_def bgp_down_def bgp_flapping_def disk_low_def scrape_flapping_def
      unit_churn_def unit_failed_def reach_intermittent_def tls_near_expiry_def Let_def)

lemma yields_make_hotspot:
  "fills_in sp given \<Longrightarrow> yields (rule_hotspot rule_id sp) (make_hotspot rule_id key given)"
  unfolding make_hotspot_def in_world_def
  by (intro yields_zoom)
    (auto simp: yields_def new_hotspot_def rule_hotspot_def fills_in_def sanitize_hotspot_def blank_hotspot_def
      Let_def bindM_app clean_identity_def sanitize_label_scrubbed split: prod.splits sum.splits if_splits)

lemma bgp_also_flapping_rule [simp]:
  "rule_hotspot rule_id sp (bgp_also_flapping host peer flaps h) = rule_hotspot rule_id sp h"
  by (simp add: rule_hotspot_def bgp_also_flapping_def clean_identity_def)

subsection \<open>The rules\<close>

definition found_by :: "string \<Rightarrow> specialist \<Rightarrow> (string, hotspot) dict \<Rightarrow> bool" where
  "found_by rule_id sp found \<longleftrightarrow> (\<forall>h \<in> set (dict_values found). rule_hotspot rule_id sp h)"

lemma found_by_Nil [simp]: "found_by rule_id sp []"
  by (simp add: found_by_def)

lemma found_by_set: "found_by rule_id sp found \<Longrightarrow> rule_hotspot rule_id sp h
    \<Longrightarrow> found_by rule_id sp (dict_set k h found)"
proof (induction found)
  case (Cons p found)
  then show ?case by (cases p) (auto simp: found_by_def)
qed (simp add: found_by_def)

lemma found_by_get: "found_by rule_id sp found \<Longrightarrow> dict_get found k = Some h \<Longrightarrow> rule_hotspot rule_id sp h"
  unfolding found_by_def by (blast dest: dict_get_values)

lemma yields_made_dict:
  "fills_in sp given \<Longrightarrow> found_by rule_id sp found \<Longrightarrow>
    yields (found_by rule_id sp) (bindM (make_hotspot rule_id key given) (\<lambda>h. retM (dict_set k h found)))"
  by (rule yields_bind [OF yields_make_hotspot [of sp]]) (simp_all add: found_by_set)

lemma yields_made_list:
  "fills_in sp given \<Longrightarrow> (\<forall>h \<in> set found. rule_hotspot rule_id sp h) \<Longrightarrow>
    yields (\<lambda>hs. \<forall>h \<in> set hs. rule_hotspot rule_id sp h)
      (bindM (make_hotspot rule_id key given) (\<lambda>h. retM (found @ [h])))"
  by (rule yields_bind [OF yields_make_hotspot]) auto

lemma yields_found:
  "yields (found_by rule_id sp) m \<Longrightarrow>
    yields (\<lambda>hs. \<forall>h \<in> set hs. rule_hotspot rule_id sp h) (bindM m (\<lambda>found. retM (dict_values found)))"
  by (rule yields_bind, assumption) (simp_all add: found_by_def)

lemma rule_bgp_risk_yields:
  "yields (\<lambda>hs. \<forall>h \<in> set hs. rule_hotspot ''bgp_risk'' Spec_bgp h) (rule_bgp_risk tool)"
proof -
  let ?ok = "found_by ''bgp_risk'' Spec_bgp"
  have down: "yields ?ok (bgp_down_step s found)" if "?ok found" for s found
    using that by (simp add: bgp_down_step_def Let_def yields_made_dict)
  have flap: "yields ?ok (bgp_flap_step s found)" if "?ok found" for s found
    unfolding bgp_flap_step_def Let_def
  proof (rule yields_then)
    fix flaps
    let ?key = "host_or s ''router'' @ '':'' @ bgp_peer s"
    show "yields ?ok (case dict_get found ?key of
        Some h \<Rightarrow> retM (dict_set ?key (bgp_also_flapping (host_or s ''router'') (bgp_peer s) flaps h) found)
      | None \<Rightarrow> bindM (make_hotspot ''bgp_risk'' ?key (bgp_flapping (host_or s ''router'') (bgp_peer s) flaps))
          (\<lambda>h. retM (dict_set ?key h found)))"
      using that by (cases "dict_get found ?key")
        (simp_all add: yields_made_dict found_by_set found_by_get del: append.simps)
  qed
  show ?thesis unfolding rule_bgp_risk_def
  proof (rule yields_then)
    fix samples
    show "yields (\<lambda>hs. \<forall>h \<in> set hs. rule_hotspot ''bgp_risk'' Spec_bgp h)
        (bindM (foldM bgp_down_step samples []) (\<lambda>found. bindM (prom tool bgp_flap_query) (\<lambda>flapping.
         bindM (foldM bgp_flap_step flapping found) (\<lambda>found. retM (dict_values found)))))"
    proof (rule yields_bind)
      show "yields ?ok (foldM bgp_down_step samples [])"
        by (rule yields_foldM) (simp_all add: down)
    qed (intro yields_then yields_found yields_foldM flap)
  qed
qed

lemma rule_service_churn_yields:
  "yields (\<lambda>hs. \<forall>h \<in> set hs. rule_hotspot ''service_churn'' Spec_infrastructure h)
     (rule_service_churn tool ignored)"
proof -
  let ?ok = "found_by ''service_churn'' Spec_infrastructure"
  have churn: "yields ?ok (churn_step extra s found)" if "?ok found" for extra s found
    using that unfolding churn_step_def Let_def
    by (intro yields_if yields_then yields_made_dict) simp_all
  have failed: "yields ?ok (failed_step extra s found)" if "?ok found" for extra s found
    using that unfolding failed_step_def Let_def by (intro yields_if yields_made_dict) simp_all
  show ?thesis unfolding rule_service_churn_def
  proof (rule yields_then, rule yields_then)
    fix extra samples
    show "yields (\<lambda>hs. \<forall>h \<in> set hs. rule_hotspot ''service_churn'' Spec_infrastructure h)
        (bindM (foldM (churn_step extra) samples []) (\<lambda>found. bindM (prom tool failed_query) (\<lambda>failed.
         bindM (foldM (failed_step extra) failed found) (\<lambda>found. retM (dict_values found)))))"
    proof (rule yields_bind)
      show "yields ?ok (foldM (churn_step extra) samples [])"
        by (rule yields_foldM) (simp_all add: churn)
    qed (intro yields_then yields_found yields_foldM failed)
  qed
qed

text \<open>The other rules collect a list, sample by sample.\<close>

lemma rule_scrape_flap_yields:
  "yields (\<lambda>hs. \<forall>h \<in> set hs. rule_hotspot ''scrape_flap'' Spec_infrastructure h) (rule_scrape_flap tool)"
  unfolding rule_scrape_flap_def scrape_step_def Let_def
  by (intro yields_then yields_foldM yields_made_list) simp_all

lemma rule_reachability_flap_yields:
  "yields (\<lambda>hs. \<forall>h \<in> set hs. rule_hotspot ''reachability_flap'' Spec_infrastructure h)
     (rule_reachability_flap tool)"
  unfolding rule_reachability_flap_def reach_step_def Let_def
  by (intro yields_then yields_foldM yields_if yields_made_list) simp_all

lemma rule_disk_fill_yields:
  "yields (\<lambda>hs. \<forall>h \<in> set hs. rule_hotspot ''disk_fill'' Spec_infrastructure h) (rule_disk_fill tool)"
  unfolding rule_disk_fill_def disk_step_def Let_def
  by (intro yields_then yields_foldM yields_if yields_made_list) simp_all

lemma rule_tls_expiry_yields:
  "yields (\<lambda>hs. \<forall>h \<in> set hs. rule_hotspot ''tls_expiry'' Spec_infrastructure h) (rule_tls_expiry tool)"
  unfolding rule_tls_expiry_def tls_step_def Let_def
  by (intro yields_then yields_foldM yields_if yields_made_list) simp_all

end
