(* ===== verification/Scanner_Spec.thy ===== *)
theory Scanner_Spec
  imports Scanner_Rules Budget_Spec
begin

section \<open>What a scan promises\<close>

text \<open>
  The merged hotspots are one per fingerprint, the best first; every hotspot of a scan belongs to a
  rule that ran, reaches the specialist its rule names, and is carried over as \<open>DEEP_RULE_IDS\<close> says; a
  scan returns whatever its rules raise, and is marked degraded by a failed query only.
\<close>

subsection \<open>Merging\<close>

definition merged_ok :: "hotspot set \<Rightarrow> (string, hotspot) dict \<Rightarrow> bool" where
  "merged_ok seen d \<longleftrightarrow> distinct (dict_keys d) \<and>
     (\<forall>k h. dict_get d k = Some h \<longrightarrow> k = hotspot_fingerprint h \<and> h \<in> seen) \<and>
     (\<forall>h \<in> seen. \<exists>g. dict_get d (hotspot_fingerprint h) = Some g \<and> pf_value (hs_score h) \<le> pf_value (hs_score g))"

lemma merged_ok_step:
  assumes "merged_ok seen d"
  shows "merged_ok (insert h seen) (merge_hotspot d h)"
proof -
  let ?fp = "hotspot_fingerprint h"
  have set: "merged_ok (insert h seen) (dict_set ?fp h d)"
    if "\<And>g. dict_get d ?fp = Some g \<Longrightarrow> pf_value (hs_score g) \<le> pf_value (hs_score h)"
  proof -
    have "\<exists>g. dict_get (dict_set ?fp h d) (hotspot_fingerprint h') = Some g \<and>
        pf_value (hs_score h') \<le> pf_value (hs_score g)" if h': "h' \<in> insert h seen" for h'
    proof (cases "hotspot_fingerprint h' = ?fp \<and> h' \<noteq> h")
      case True
      then obtain g where "dict_get d ?fp = Some g" "pf_value (hs_score h') \<le> pf_value (hs_score g)"
        using h' assms by (auto simp: merged_ok_def simp del: map_of_eq_Some_iff)
      then show ?thesis using True \<open>\<And>g. dict_get d ?fp = Some g \<Longrightarrow> _\<close> by (auto intro: order_trans)
    next
      case False
      then show ?thesis using h' assms by (auto simp: merged_ok_def simp del: map_of_eq_Some_iff)
    qed
    then show ?thesis using assms
      unfolding merged_ok_def by (simp add: distinct_dict_set del: map_of_eq_Some_iff)
  qed
  show ?thesis
  proof (cases "dict_get d ?fp")
    case None
    then show ?thesis using set by (simp add: merge_hotspot_def)
  next
    case (Some g)
    show ?thesis
    proof (cases "pf_value (hs_score g) < pf_value (hs_score h)")
      case True
      then show ?thesis using Some set by (simp add: merge_hotspot_def)
    next
      case False
      then have "merged_ok (insert h seen) d"
        using assms Some unfolding merged_ok_def by (simp del: map_of_eq_Some_iff)
      then show ?thesis using False Some by (simp add: merge_hotspot_def)
    qed
  qed
qed

lemma merged_ok_foldl: "merged_ok seen d \<Longrightarrow> merged_ok (set hs \<union> seen) (foldl merge_hotspot d hs)"
proof (induction hs arbitrary: seen d)
  case (Cons h hs)
  from Cons.IH [OF merged_ok_step [OF Cons.prems]] show ?case by simp
qed simp

lemma merged_ok_all: "merged_ok (set hs) (foldl merge_hotspot [] hs)"
proof -
  have "merged_ok {} []" by (simp add: merged_ok_def)
  from merged_ok_foldl [OF this] show ?thesis by simp
qed

lemma merged_ok_values:
  assumes "merged_ok seen d"
  shows "map hotspot_fingerprint (dict_values d) = dict_keys d"
    and "set (dict_values d) \<subseteq> seen"
proof -
  have d: "distinct (dict_keys d)" using assms by (simp add: merged_ok_def)
  have get: "dict_get d k = Some h" if "(k, h) \<in> set d" for k h using d that by simp
  show "map hotspot_fingerprint (dict_values d) = dict_keys d"
    using assms get by (auto simp: merged_ok_def)
  show "set (dict_values d) \<subseteq> seen" using assms get by (fastforce simp: merged_ok_def)
qed

lemma distinct_map_py_sort: "distinct (map f (py_sort r g xs)) = distinct (map f xs)"
  by (simp add: distinct_map py_sort_def)

lemma merged_hotspots_set: "set (merged_hotspots hs) \<subseteq> set hs"
  using merged_ok_values(2) [OF merged_ok_all] by (simp add: merged_hotspots_def)

lemma merged_hotspots_distinct: "distinct (map hotspot_fingerprint (merged_hotspots hs))"
  using merged_ok_all [of hs] merged_ok_values(1) [OF merged_ok_all [of hs]]
  by (simp only: merged_hotspots_def distinct_map_py_sort) (simp add: merged_ok_def)

lemma merged_hotspots_ranked: "sorted (map (\<lambda>h. pf_value (hs_score h)) (rev (merged_hotspots hs)))"
  unfolding merged_hotspots_def by (rule sorted_py_sort_rev)

lemma merged_hotspots_best:
  assumes "h \<in> set hs"
  shows "\<exists>g \<in> set (merged_hotspots hs). hotspot_fingerprint g = hotspot_fingerprint h \<and>
    pf_value (hs_score h) \<le> pf_value (hs_score g)"
proof -
  obtain g where g: "dict_get (foldl merge_hotspot [] hs) (hotspot_fingerprint h) = Some g"
      "pf_value (hs_score h) \<le> pf_value (hs_score g)"
    using assms merged_ok_all [of hs] by (auto simp: merged_ok_def)
  moreover have "hotspot_fingerprint h = hotspot_fingerprint g"
    using g(1) merged_ok_all [of hs] by (simp add: merged_ok_def)
  moreover have "g \<in> set (merged_hotspots hs)"
    using dict_get_values [OF g(1)] by (simp add: merged_hotspots_def)
  ultimately show ?thesis by auto
qed

subsection \<open>The hotspots of a scan\<close>

definition cheap_rule_ids :: "string set" where
  "cheap_rule_ids = {''bgp_risk'', ''scrape_flap'', ''service_churn'', ''reachability_flap''}"

definition specialist_of_rule :: "string \<Rightarrow> specialist" where
  "specialist_of_rule rule_id = (if rule_id = ''bgp_risk'' then Spec_bgp else Spec_infrastructure)"

definition scanned :: "string set \<Rightarrow> hotspot \<Rightarrow> bool" where
  "scanned ids h \<longleftrightarrow> hs_rule_id h \<in> ids \<and>
     hs_suggested_specialist h = Some (specialist_of_rule (hs_rule_id h)) \<and> clean_identity h"

lemma yields_mono: "yields P m \<Longrightarrow> (\<And>x. P x \<Longrightarrow> Q x) \<Longrightarrow> yields Q m"
  by (auto simp: yields_def)

lemma scanned_rule:
  assumes "yields (\<lambda>hs. \<forall>h \<in> set hs. rule_hotspot r (specialist_of_rule r) h) m" and "r \<in> ids"
  shows "yields (\<lambda>hs. \<forall>h \<in> set hs. scanned ids h) (run_rule m)"
  unfolding run_rule_def
  by (rule yields_except [OF yields_mono [OF assms(1)]])
    (use assms(2) in \<open>auto simp: rule_hotspot_def scanned_def\<close>)

lemma cheap_rules_yield:
  "m \<in> set (cheap_rules tool ignored) \<Longrightarrow> yields (\<lambda>hs. \<forall>h \<in> set hs. scanned cheap_rule_ids h) (run_rule m)"
  using scanned_rule [of "''bgp_risk''" "rule_bgp_risk tool" cheap_rule_ids]
    scanned_rule [of "''scrape_flap''" "rule_scrape_flap tool" cheap_rule_ids]
    scanned_rule [of "''service_churn''" "rule_service_churn tool ignored" cheap_rule_ids]
    scanned_rule [of "''reachability_flap''" "rule_reachability_flap tool" cheap_rule_ids]
  by (auto simp: cheap_rules_def cheap_rule_ids_def specialist_of_rule_def rule_bgp_risk_yields
      rule_scrape_flap_yields rule_service_churn_yields rule_reachability_flap_yields)

lemma deep_rules_yield:
  "m \<in> set (deep_rules tool) \<Longrightarrow> yields (\<lambda>hs. \<forall>h \<in> set hs. scanned deep_rule_ids h) (run_rule m)"
  using scanned_rule [of "''disk_fill''" "rule_disk_fill tool" deep_rule_ids]
    scanned_rule [of "''tls_expiry''" "rule_tls_expiry tool" deep_rule_ids]
  by (auto simp: deep_rules_def deep_rule_ids_def specialist_of_rule_def rule_disk_fill_yields
      rule_tls_expiry_yields)

definition rule_ids_run :: "bool \<Rightarrow> string set" where
  "rule_ids_run deep = cheap_rule_ids \<union> (if deep then deep_rule_ids else {})"

lemma scan_batches:
  assumes "scan tool ignored deep w = (Inr (hs, degraded), w')"
  obtains batches where "mapM run_rule (cheap_rules tool ignored @ (if deep then deep_rules tool else [])) (w, False)
      = (Inr batches, (w', degraded))" and "hs = merged_hotspots (concat batches)"
  using assms by (auto simp: scan_def scan_rules_def bindM_app split: prod.splits sum.splits)

lemma scan_scanned:
  assumes "scan tool ignored deep w = (Inr (hs, degraded), w')" and "h \<in> set hs"
  shows "scanned (rule_ids_run deep) h"
proof -
  let ?rules = "cheap_rules tool ignored @ (if deep then deep_rules tool else [])"
  let ?ok = "\<lambda>hs. \<forall>h \<in> set hs. scanned (rule_ids_run deep) h"
  obtain batches where b: "mapM run_rule ?rules (w, False) = (Inr batches, (w', degraded))"
      "hs = merged_hotspots (concat batches)"
    using assms(1) by (rule scan_batches)
  have "yields ?ok (run_rule m)" if "m \<in> set ?rules" for m
    using that yields_mono [OF cheap_rules_yield [of m tool ignored], of ?ok]
      yields_mono [OF deep_rules_yield [of m tool], of ?ok]
    by (auto simp: rule_ids_run_def scanned_def split: if_splits)
  then have "yields (\<lambda>bs. \<forall>hs \<in> set bs. ?ok hs) (mapM run_rule ?rules)"
    by (rule yields_mapM)
  from yieldsD [OF this b(1)] show ?thesis
    using assms(2) b(2) merged_hotspots_set [of "concat batches"] by fastforce
qed

text \<open>
  C31: The hotspots of a scan have distinct fingerprints and come by falling score; each belongs to a
  rule that ran, and its key, resource, title and checks are printable and bounded, whatever labels
  Prometheus answered with.
\<close>

theorem scan_ranked_and_clean:
  assumes "scan tool ignored deep w = (Inr (hs, degraded), w')"
  shows "distinct (map hotspot_fingerprint hs) \<and>
    sorted (map (\<lambda>h. pf_value (hs_score h)) (rev hs)) \<and>
    (\<forall>h \<in> set hs. hs_rule_id h \<in> rule_ids_run deep \<and> clean_identity h)"
proof -
  obtain batches where "hs = merged_hotspots (concat batches)" using assms by (rule scan_batches)
  then show ?thesis using scan_scanned [OF assms]
    by (simp add: merged_hotspots_distinct merged_hotspots_ranked scanned_def)
qed

text \<open>
  The specialist a rule suggests is the one the supervisor of the investigation graph routes the
  hotspot's synthetic alert to, whatever keywords its texts contain.
\<close>

theorem scanned_hotspot_routed:
  assumes "scan tool ignored deep w = (Inr (hs, degraded), w')" and "h \<in> set hs"
  shows "rt_specialist (supervisor_route (hotspot_to_alert_payload h)) =
    (if hs_rule_id h = ''bgp_risk'' then Spec_bgp else Spec_infrastructure)"
  using scan_scanned [OF assms] hotspot_alert_routed [of h]
  by (simp add: scanned_def specialist_of_rule_def)

lemma cheap_not_deep: "cheap_rule_ids \<inter> deep_rule_ids = {}"
  by (simp add: cheap_rule_ids_def deep_rule_ids_def)

lemma scan_filters:
  assumes "scan tool ignored deep w = (Inr (hs, degraded), w')"
  shows "filter is_deep hs = filter (\<lambda>h. hs_rule_id h \<notin> cheap_rule_ids) hs"
    and "\<not> deep \<Longrightarrow> filter (\<lambda>h. \<not> is_deep h) hs = hs"
proof -
  have "is_deep h = (hs_rule_id h \<notin> cheap_rule_ids)" and "\<not> deep \<Longrightarrow> \<not> is_deep h" if "h \<in> set hs" for h
    using scan_scanned [OF assms that] cheap_not_deep
    by (auto simp: scanned_def rule_ids_run_def is_deep_def split: if_splits)
  then show "filter is_deep hs = filter (\<lambda>h. hs_rule_id h \<notin> cheap_rule_ids) hs"
    and "\<not> deep \<Longrightarrow> filter (\<lambda>h. \<not> is_deep h) hs = hs"
    by (auto intro!: filter_cong filter_True)
qed

text \<open>
  \<open>DEEP_RULE_IDS\<close> is in step with the rules: the loop's merge of a clean cheap scan keeps every
  hotspot of the scan and carries exactly the deep ones over, and after a clean deep scan what it will
  carry is what the deep rules found.
\<close>

theorem carry_over_in_step:
  assumes "scan tool ignored deep w = (Inr (hs, degraded), w')"
  shows "merge_with_carried hs deep False world =
    (if deep
     then (Inr hs, world\<lparr>lw_last_deep_hotspots := filter (\<lambda>h. hs_rule_id h \<notin> cheap_rule_ids) hs,
             lw_last_effective := hs\<rparr>)
     else (Inr (hs @ lw_last_deep_hotspots world),
             world\<lparr>lw_last_effective := hs @ lw_last_deep_hotspots world\<rparr>))"
  using scan_filters [OF assms] by (simp add: merge_with_carried_def Let_def)

subsection \<open>A sample scan\<close>

text \<open>A tool that gives the same answers every time, with rows for one query only.\<close>

definition answering :: "(string \<Rightarrow> json) \<Rightarrow> 'w prom_tool" where
  "answering answers = (\<lambda>q w. (Inr (answers q), w))"

definition rows_for :: "(string \<times> json list) list \<Rightarrow> string \<Rightarrow> json" where
  "rows_for d q = JDict [(''result'', JList (case map_of d q of None \<Rightarrow> [] | Some rows \<Rightarrow> rows))]"

lemma prom_answering:
  "prom (answering answers) q s =
     (if prom_response_ok (answers q) then (Inr (parse_prom_vector (answers q)), s)
      else (Inr [], (fst s, True)))"
  by (simp add: prom_def except_exception_def catchM_def bindM_app seqM_app in_world_def zoomM_def
      answering_def set_degraded_def)

lemma prom_rows [simp]:
  "prom (answering (rows_for d)) q s =
     (Inr (case map_of d q of None \<Rightarrow> [] | Some rows \<Rightarrow> List.map_filter row_sample rows), s)"
  by (simp add: prom_answering rows_for_def prom_response_ok_def parse_prom_vector_def response_rows_def
      List.map_filter_def split: option.split)

definition tick_scan :: "'w scan_state \<Rightarrow> 'w scan_state" where
  "tick_scan s = ((fst (fst s)\<lparr>ticks := Suc (ticks (fst (fst s)))\<rparr>, snd (fst s)), snd s)"

definition scan_now :: "'w scan_state \<Rightarrow> string" where
  "scan_now s = isoformat (clock (fst (fst s)) (ticks (fst (fst s))))"

lemma make_hotspot_app:
  assumes "\<And>h. 0 \<le> pf_value (hs_score (given h))"
  shows "make_hotspot r k given s =
    (Inr (sanitize_hotspot (given (blank_hotspot r k\<lparr>hs_detected_at := scan_now s\<rparr>))), tick_scan s)"
  using assms by (simp add: make_hotspot_def in_world_def zoomM_def new_hotspot_def given_or_def utc_now_def
      bindM_app dt_now_def Let_def tick_scan_def scan_now_def not_less)

lemma scores [simp]:
  "0 \<le> pf_value (hs_score (bgp_down host peer state h))"
  "0 \<le> pf_value (hs_score (bgp_flapping host peer flaps h))"
  "0 \<le> pf_value (hs_score (disk_low host mount soon ratio h))"
  "0 \<le> pf_value (hs_score (scrape_flapping i job flaps h))"
  "0 \<le> pf_value (hs_score (reach_intermittent i ratio percent h))"
  "0 \<le> pf_value (hs_score (tls_near_expiry i ratio h))"
  by (simp_all add: bgp_down_def bgp_flapping_def disk_low_def scrape_flapping_def reach_intermittent_def
      tls_near_expiry_def score_def Let_def)

lemmas make_apps [simp] = make_hotspot_app [OF scores(1)] make_hotspot_app [OF scores(2)]
  make_hotspot_app [OF scores(3)] make_hotspot_app [OF scores(4)] make_hotspot_app [OF scores(5)]
  make_hotspot_app [OF scores(6)]

lemmas query_defs = bgp_state_query_def bgp_flap_query_def disk_free_query_def disk_fills_query_def
  fs_exclude_def scrape_query_def restart_query_def failed_query_def reach_query_def tls_query_def

definition sample_scan_state :: "unit scan_state" where
  "sample_scan_state =
     ((empty_store (\<lambda>n. nat_str n) (\<lambda>n. 63000000000000000 + int n), ()), False)"

definition lossy_rows :: "(string \<times> json list) list" where
  "lossy_rows = [(reach_query, [JDict [(''metric'', JDict [(''instance'', JStr ''10.0.0.7'')]),
     (''value'', JStr ''0.4'')]])]"

lemma lossy_sample:
  "List.map_filter row_sample (the (map_of lossy_rows reach_query)) =
     [\<lparr>sm_labels = [(''instance'', ''10.0.0.7'')], sm_value = Finite (2 / 5)\<rparr>]"
  by code_simp

lemma lossy_scan:
  "\<exists>h. scan (answering (rows_for lossy_rows)) (Inr []) False w =
     (Inr ([h], False), (fst w\<lparr>ticks := Suc (ticks (fst w))\<rparr>, snd w)) \<and> hs_rule_id h = ''reachability_flap''"
proof -
  let ?t = "answering (rows_for lossy_rows)"
  have none: "map_of lossy_rows q = None" if "q \<in> {bgp_state_query, bgp_flap_query, scrape_query, restart_query, failed_query}" for q
    using that by (auto simp: lossy_rows_def query_defs)
  have quiet: "rule_bgp_risk ?t s = (Inr [], s)" "rule_scrape_flap ?t s = (Inr [], s)"
      "rule_service_churn ?t (Inr []) s = (Inr [], s)" for s
    by (simp_all add: rule_bgp_risk_def rule_scrape_flap_def rule_service_churn_def bindM_app none)
  have "\<exists>h. rule_reachability_flap ?t s = (Inr [h], tick_scan s) \<and> hs_rule_id h = ''reachability_flap''" for s
    using lossy_sample
    by (simp add: rule_reachability_flap_def bindM_app lossy_rows_def reach_step_def Let_def reach_degraded_def
        sanitize_hotspot_def blank_hotspot_def reach_intermittent_def)
  then obtain h where "rule_reachability_flap ?t (w, False) = (Inr [h], tick_scan (w, False))"
      "hs_rule_id h = ''reachability_flap''" by blast
  then show ?thesis
    by (simp add: scan_def scan_rules_def cheap_rules_def bindM_app run_rule_def except_exception_def catchM_def
        quiet merged_hotspots_def merge_hotspot_def Let_def py_sort_def tick_scan_def)
qed

lemma sample_lossy_scan:
  obtains h w' where "scan (answering (rows_for lossy_rows)) (Inr []) False (fst sample_scan_state) = (Inr ([h], False), w')"
    and "hs_rule_id h = ''reachability_flap''"
  using lossy_scan [of "fst sample_scan_state"] by auto

theorem scan_ranked_and_clean_witness:
  "\<exists>h. fst (scan (answering (rows_for lossy_rows)) (Inr []) False (fst sample_scan_state)) = Inr ([h], False) \<and>
    clean_identity h"
proof -
  obtain h w' where s: "scan (answering (rows_for lossy_rows)) (Inr []) False (fst sample_scan_state) = (Inr ([h], False), w')"
    by (rule sample_lossy_scan)
  from scan_ranked_and_clean [OF s] show ?thesis by (simp add: s)
qed

theorem scanned_hotspot_routed_witness:
  "\<exists>h. fst (scan (answering (rows_for lossy_rows)) (Inr []) False (fst sample_scan_state)) = Inr ([h], False) \<and>
    rt_specialist (supervisor_route (hotspot_to_alert_payload h)) = Spec_infrastructure"
proof -
  obtain h w' where s: "scan (answering (rows_for lossy_rows)) (Inr []) False (fst sample_scan_state) = (Inr ([h], False), w')"
      "hs_rule_id h = ''reachability_flap''"
    by (rule sample_lossy_scan)
  from scanned_hotspot_routed [OF s(1), of h] s show ?thesis by simp
qed

theorem carry_over_in_step_witness:
  "\<exists>h. fst (merge_with_carried [h] False False (sample_world\<lparr>lw_last_deep_hotspots := [blank_hotspot ''disk_fill'' ''x'']\<rparr>))
     = Inr [h, blank_hotspot ''disk_fill'' ''x'']"
proof -
  obtain h w' where "scan (answering (rows_for lossy_rows)) (Inr []) False (fst sample_scan_state) = (Inr ([h], False), w')"
    by (rule sample_lossy_scan)
  from carry_over_in_step [OF this, of "sample_world\<lparr>lw_last_deep_hotspots := [blank_hotspot ''disk_fill'' ''x'']\<rparr>"]
  show ?thesis by (intro exI [of _ h]) simp
qed

end
