(* ===== verification/Scan_Faults.thy ===== *)
theory Scan_Faults
  imports Scanner_Spec
begin

section \<open>Failures in a scan\<close>

text \<open>
  Where a scan can stop, and what it says of itself afterwards: only the cancellation of a query stops
  it; \<open>degraded\<close> records failed queries and nothing else, so a rule that fails by itself looks like a
  rule that found nothing.
\<close>

subsection \<open>What a computation raises\<close>

text \<open>An exception that \<open>except Exception\<close> catches.\<close>

definition catchable :: "('s, 'a) comp \<Rightarrow> bool" where
  "catchable m \<longleftrightarrow> (\<forall>s e t. m s = (Inl e, t) \<longrightarrow> \<not> is_cancelled e)"

named_theorems catchable_intros \<open>rules that reduce what a computation raises\<close>

lemma catchable_ret [catchable_intros]: "catchable (retM x)"
  by (simp add: catchable_def)

lemma catchable_lift: "(\<And>e. r = Inl e \<Longrightarrow> \<not> is_cancelled e) \<Longrightarrow> catchable (liftM r)"
  by (simp add: catchable_def)

lemma catchable_mod [catchable_intros]: "catchable (modM f)"
  by (simp add: catchable_def)

lemma catchable_bind [catchable_intros]:
  "catchable m \<Longrightarrow> (\<And>x. catchable (f x)) \<Longrightarrow> catchable (bindM m f)"
  unfolding catchable_def bindM_def by (fastforce split: prod.splits sum.splits)

lemma catchable_seq [catchable_intros]: "catchable m \<Longrightarrow> catchable n \<Longrightarrow> catchable (seqM m n)"
  unfolding seqM_def by (rule catchable_bind)

lemma catchable_if [catchable_intros]: "catchable m \<Longrightarrow> catchable n \<Longrightarrow> catchable (if c then m else n)"
  by simp

lemma catchable_option [catchable_intros]:
  "catchable m \<Longrightarrow> (\<And>x. catchable (f x)) \<Longrightarrow> catchable (case v of None \<Rightarrow> m | Some x \<Rightarrow> f x)"
  by (cases v) simp_all

lemma catchable_foldM [catchable_intros]: "(\<And>x acc. catchable (f x acc)) \<Longrightarrow> catchable (foldM f xs acc)"
proof (induction xs arbitrary: acc)
  case (Cons x xs)
  show ?case unfolding foldM.simps by (intro catchable_bind Cons)
qed (simp add: catchable_def)

lemma catchable_zoom: "catchable m \<Longrightarrow> catchable (zoomM get put m)"
  by (auto simp: catchable_def zoomM_def split: prod.splits)

lemma catchable_except: "catchable m \<Longrightarrow> (\<And>e. catchable (h e)) \<Longrightarrow> catchable (except_exception m h)"
  unfolding catchable_def except_exception_def catchM_def
  by (fastforce split: prod.splits sum.splits if_splits)

lemma except_total:
  assumes "catchable m"
  shows "\<exists>x t. except_exception m (\<lambda>e. retM y) s = (Inr x, t)"
  using assms by (auto simp: catchable_def except_exception_def catchM_def split: prod.splits sum.splits)

lemma mapM_total:
  "(\<And>m s. m \<in> set ms \<Longrightarrow> \<exists>x t. f m s = (Inr x, t)) \<Longrightarrow> \<exists>xs t. mapM f ms s = (Inr xs, t)"
proof (induction ms arbitrary: s)
  case (Cons m ms)
  have "\<exists>x t. f m s = (Inr x, t)" by (rule Cons.prems) simp
  then obtain x t where x: "f m s = (Inr x, t)" by blast
  obtain xs u where "mapM f ms t = (Inr xs, u)" using Cons.IH [of t] Cons.prems by auto
  then show ?case using x by (simp add: bindM_app)
qed simp

subsection \<open>The rules\<close>

lemma num_int_catchable [catchable_intros]: "catchable (liftM (num_int x))"
  by (rule catchable_lift) (cases x; auto simp: is_cancelled_def split: if_splits)

lemma rounded_int_catchable [catchable_intros]: "catchable (liftM (rounded_int_str x))"
  by (rule catchable_lift) (cases x; auto simp: is_cancelled_def)

lemma make_hotspot_catchable [catchable_intros]: "catchable (make_hotspot r k given)"
  unfolding make_hotspot_def in_world_def
  by (intro catchable_zoom)
    (auto simp: catchable_def new_hotspot_def given_or_def utc_now_def dt_now_def Let_def bindM_app is_cancelled_def
      split: prod.splits sum.splits if_splits)

lemma prom_catchable [catchable_intros]:
  assumes "\<And>q. catchable (tool q)"
  shows "catchable (prom tool q)"
  unfolding prom_def in_world_def set_degraded_def
  by (intro catchable_intros catchable_except catchable_zoom assms)

lemma rules_catchable:
  assumes "\<And>q. catchable (tool q)" and "\<And>e. ignored = Inl e \<Longrightarrow> \<not> is_cancelled e"
    and "m \<in> set (cheap_rules tool ignored @ deep_rules tool)"
  shows "catchable m"
proof -
  have "catchable (rule_bgp_risk tool)" unfolding rule_bgp_risk_def bgp_down_step_def bgp_flap_step_def Let_def
    by (intro catchable_intros assms(1))
  moreover have "catchable (rule_scrape_flap tool)" unfolding rule_scrape_flap_def scrape_step_def Let_def
    by (intro catchable_intros assms(1))
  moreover have "catchable (rule_service_churn tool ignored)"
    unfolding rule_service_churn_def churn_step_def failed_step_def Let_def
    by (intro catchable_intros catchable_lift assms(1)) (rule assms(2))
  moreover have "catchable (rule_reachability_flap tool)"
    unfolding rule_reachability_flap_def reach_step_def Let_def by (intro catchable_intros assms(1))
  moreover have "catchable (rule_disk_fill tool)" unfolding rule_disk_fill_def disk_step_def Let_def
    by (intro catchable_intros assms(1))
  moreover have "catchable (rule_tls_expiry tool)" unfolding rule_tls_expiry_def tls_step_def Let_def
    by (intro catchable_intros assms(1))
  ultimately show ?thesis using assms(3) by (auto simp: cheap_rules_def deep_rules_def)
qed

lemma scan_total:
  assumes "\<And>q w e w'. tool q w = (Inl e, w') \<Longrightarrow> \<not> is_cancelled e"
    and "\<And>e. ignored = Inl e \<Longrightarrow> \<not> is_cancelled e"
  shows "\<exists>hs degraded w'. scan tool ignored deep w = (Inr (hs, degraded), w')"
proof -
  let ?rules = "cheap_rules tool ignored @ (if deep then deep_rules tool else [])"
  have "\<And>q. catchable (tool q)" using assms(1) by (auto simp: catchable_def)
  then have "\<exists>hs t. run_rule m s = (Inr hs, t)" if "m \<in> set ?rules" for m s
    unfolding run_rule_def using that assms(2)
    by (intro except_total rules_catchable [where ignored = ignored and tool = tool]) (auto split: if_splits)
  then obtain batches t where "mapM run_rule ?rules (w, False) = (Inr batches, t)"
    using mapM_total [of ?rules run_rule "(w, False)"] by auto
  then show ?thesis by (cases t) (simp add: scan_def scan_rules_def bindM_app)
qed

text \<open>
  C32: A scan always returns: whatever the queries raise (short of a cancellation), answer or leave
  out, and whatever a rule makes of it, the scan comes back with a list of hotspots and its flag.
\<close>

theorem scan_returns:
  assumes "\<And>q w e w'. tool q w = (Inl e, w') \<Longrightarrow> \<not> is_cancelled e"
    and "\<And>e. ignored = Inl e \<Longrightarrow> \<not> is_cancelled e"
  shows "\<exists>hs degraded w'. scan tool ignored deep w = (Inr (hs, degraded), w')"
  using assms by (rule scan_total)

subsection \<open>The flag\<close>

text \<open>A tool that answers every query well.\<close>

definition answers_well :: "'w prom_tool \<Rightarrow> bool" where
  "answers_well tool \<longleftrightarrow> (\<forall>q w. \<exists>r w'. tool q w = (Inr r, w') \<and> prom_response_ok r)"

lemma keeps_in_world [keeps_intros]: "keeps (\<lambda>s. snd s = d) (in_world m)"
  by (auto simp: in_world_def keeps_def zoomM_def split: prod.splits)

lemma keeps_make_hotspot [keeps_intros]: "keeps (\<lambda>s. snd s = d) (make_hotspot r k given)"
  unfolding make_hotspot_def by (rule keeps_in_world)

lemma prom_well [keeps_intros]:
  assumes "answers_well tool"
  shows "keeps (\<lambda>s. snd s = d) (prom tool q)"
proof (rule keepsI)
  fix s :: "'a scan_state" assume s: "snd s = d"
  obtain r w' where r: "tool q (fst s) = (Inr r, w')" "prom_response_ok r"
    using assms unfolding answers_well_def by blast
  then show "snd (snd (prom tool q s)) = d"
    using s by (simp add: prom_def except_exception_def catchM_def bindM_app in_world_def zoomM_def)
qed

lemma keeps_run_rule:
  assumes "keeps (\<lambda>s. snd s = d) m"
  shows "keeps (\<lambda>s. snd s = d) (run_rule m)"
  unfolding run_rule_def except_exception_def
  by (intro keeps_catch assms keeps_if keeps_raise keeps_ret)

lemma rules_keep_flag:
  assumes "answers_well tool" and "m \<in> set (cheap_rules tool ignored @ deep_rules tool)"
  shows "keeps (\<lambda>s. snd s = d) m"
proof -
  have "keeps (\<lambda>s. snd s = d) (rule_bgp_risk tool)"
    unfolding rule_bgp_risk_def bgp_down_step_def bgp_flap_step_def Let_def
    by (intro keeps_intros assms(1))
  moreover have "keeps (\<lambda>s. snd s = d) (rule_scrape_flap tool)"
    unfolding rule_scrape_flap_def scrape_step_def Let_def by (intro keeps_intros assms(1))
  moreover have "keeps (\<lambda>s. snd s = d) (rule_service_churn tool ignored)"
    unfolding rule_service_churn_def churn_step_def failed_step_def Let_def
    by (intro keeps_intros assms(1))
  moreover have "keeps (\<lambda>s. snd s = d) (rule_reachability_flap tool)"
    unfolding rule_reachability_flap_def reach_step_def Let_def by (intro keeps_intros assms(1))
  moreover have "keeps (\<lambda>s. snd s = d) (rule_disk_fill tool)"
    unfolding rule_disk_fill_def disk_step_def Let_def by (intro keeps_intros assms(1))
  moreover have "keeps (\<lambda>s. snd s = d) (rule_tls_expiry tool)"
    unfolding rule_tls_expiry_def tls_step_def Let_def by (intro keeps_intros assms(1))
  ultimately show ?thesis using assms(2) by (auto simp: cheap_rules_def deep_rules_def)
qed

lemma well_scan_not_degraded:
  assumes "answers_well tool" and "scan tool ignored deep w = (Inr (hs, degraded), w')"
  shows "\<not> degraded"
proof -
  let ?rules = "cheap_rules tool ignored @ (if deep then deep_rules tool else [])"
  obtain batches where b: "mapM run_rule ?rules (w, False) = (Inr batches, (w', degraded))"
    using assms(2) by (rule scan_batches)
  have rule: "keeps (\<lambda>s. \<not> snd s) (run_rule m)" if "m \<in> set ?rules" for m
    using that rules_keep_flag [OF assms(1), of m ignored False]
    by (intro keeps_run_rule [where d = False, simplified]) (auto split: if_splits)
  have "keeps (\<lambda>s. \<not> snd s) (mapM run_rule ms)" if "set ms \<subseteq> set ?rules" for ms
    using that by (induction ms) (auto intro!: keeps_bind keeps_ret rule)
  from keepsD_eq [OF this [OF order_refl] _ b] show ?thesis by simp
qed

text \<open>
  A fragment in \<open>NOC_PROACTIVE_IGNORE_UNITS\<close> that is no regular expression turns the service rule
  off for good: no scan reports restart churn or a failed unit, whatever Prometheus answers, and the
  scan is not marked degraded, so the loop takes the missing hotspots for resolved ones.
\<close>

theorem broken_ignore_list_reads_as_clear:
  assumes "answers_well tool" and "scan tool (Inl e) deep w = (Inr (hs, degraded), w')"
  shows "\<not> degraded \<and> (\<forall>h \<in> set hs. hs_rule_id h \<noteq> ''service_churn'') \<and>
    (\<not> deep \<longrightarrow> fst (merge_with_carried hs deep degraded world) = Inr (hs @ lw_last_deep_hotspots world))"
proof -
  let ?rules = "cheap_rules tool (Inl e) @ (if deep then deep_rules tool else [])"
  let ?ok = "\<lambda>hs. \<forall>h \<in> set hs. hs_rule_id h \<noteq> ''service_churn''"
  have healthy: "\<not> degraded" using assms by (rule well_scan_not_degraded)
  obtain batches where b: "mapM run_rule ?rules (w, False) = (Inr batches, (w', degraded))"
      "hs = merged_hotspots (concat batches)"
    using assms(2) by (rule scan_batches)
  have "yields ?ok (run_rule m)" if "m \<in> set ?rules" for m
  proof -
    have other: "yields ?ok (run_rule m)"
      if "yields (\<lambda>hs. \<forall>h \<in> set hs. rule_hotspot r sp h) m" "r \<noteq> ''service_churn''" for m r sp
      unfolding run_rule_def using that
      by (intro yields_except) (auto elim!: yields_mono simp: rule_hotspot_def)
    have "yields ?ok (run_rule (rule_service_churn tool (Inl e)))"
      by (auto simp: yields_def run_rule_def rule_service_churn_def except_exception_def catchM_def
          bindM_app split: if_splits)
    then show ?thesis using that other [OF rule_bgp_risk_yields] other [OF rule_scrape_flap_yields]
        other [OF rule_reachability_flap_yields] other [OF rule_disk_fill_yields]
        other [OF rule_tls_expiry_yields]
      by (auto simp: cheap_rules_def deep_rules_def split: if_splits)
  qed
  then have "yields (\<lambda>bs. \<forall>hs \<in> set bs. ?ok hs) (mapM run_rule ?rules)" by (rule yields_mapM)
  from yieldsD [OF this b(1)] have none: "?ok hs"
    using b(2) merged_hotspots_set [of "concat batches"] by fastforce
  then show ?thesis using healthy scan_filters(2) [OF assms(2)]
    by (simp add: merge_with_carried_def Let_def)
qed

theorem scan_returns_witness:
  "\<exists>hs degraded w'. scan (\<lambda>_ _. (Inl (OtherError ''TimeoutError'' []), fst sample_scan_state))
     (Inl (OtherError ''PatternError'' ''missing )'')) True (fst sample_scan_state) = (Inr (hs, degraded), w')"
  by (rule scan_returns) (auto simp: is_cancelled_def)

theorem broken_ignore_list_reads_as_clear_witness:
  "\<exists>hs w'. scan (answering (rows_for [])) (Inl (OtherError ''PatternError'' ''missing )'')) False
     (fst sample_scan_state) = (Inr (hs, False), w') \<and> ''service_churn'' \<notin> hs_rule_id ` set hs"
proof -
  let ?t = "answering (rows_for [])" and ?e = "OtherError ''PatternError'' ''missing )''"
  have well: "answers_well ?t" by (simp add: answers_well_def answering_def rows_for_def prom_response_ok_def)
  obtain hs d w' where s: "scan ?t (Inl ?e) False (fst sample_scan_state) = (Inr (hs, d), w')"
    using scan_total [of ?t "Inl ?e" False "fst sample_scan_state"] by (auto simp: answering_def is_cancelled_def)
  from broken_ignore_list_reads_as_clear [OF well s, of sample_world]
  have "\<not> d" "''service_churn'' \<notin> hs_rule_id ` set hs" by auto
  then show ?thesis using s by (intro exI [of _ hs] exI [of _ "w'"]) simp
qed

end
