(* ===== verification/Scan_Texts.thy ===== *)
theory Scan_Texts
  imports Scanner_Spec
begin

section \<open>What the rules report, and what they let through\<close>

text \<open>
  The disk rule's thresholds, and the texts of the hotspots built from labels: where a label is kept
  out of them, and where it gets past the scrubbing of the constructor.
\<close>

subsection \<open>Filling disks\<close>

definition latest_ratios :: "sample list \<Rightarrow> sample list" where
  "latest_ratios ratios = dict_values (dict_of (map (\<lambda>m. (fs_key m, m)) ratios))"

definition disk_row :: "string set \<Rightarrow> sample \<Rightarrow> string \<times> hotspot_severity \<times> bool" where
  "disk_row fills m =
     (let urgent = fs_key m \<in> fills \<or> num_less (sm_value m) (Finite (1 / 10)) in
      (sanitize_label 200 (host_or m ''host'' @ '':'' @ label_or m ''mountpoint'' ''?''),
       if urgent then Sev_high else Sev_medium, urgent))"

definition disk_due :: "string set \<Rightarrow> sample \<Rightarrow> bool" where
  "disk_due fills m \<longleftrightarrow> fs_key m \<in> fills \<or> \<not> num_le (Finite (1 / 5)) (sm_value m)"

definition disk_view :: "hotspot \<Rightarrow> string \<times> hotspot_severity \<times> bool" where
  "disk_view h = (hs_key h, hs_severity h, hs_warrants_change h)"

lemma foldM_disk:
  "\<exists>hs t. foldM (disk_step fills) ms found s = (Inr (found @ hs), t) \<and>
     map disk_view hs = map (disk_row fills) (filter (disk_due fills) ms)"
proof (induction ms arbitrary: found s)
  case (Cons m ms)
  show ?case
  proof (cases "disk_due fills m")
    case True
    then obtain h where h: "disk_step fills m found s = (Inr (found @ [h]), tick_scan s)"
        "disk_view h = disk_row fills m"
      by (auto simp: disk_step_def Let_def disk_skipped_def disk_due_def bindM_app disk_view_def disk_row_def
          sanitize_hotspot_def disk_low_def disk_urgent_def blank_hotspot_def)
    then show ?thesis using Cons.IH [of "found @ [h]" "tick_scan s"] True by (auto simp: bindM_app)
  next
    case False
    then have "disk_step fills m found s = (Inr found, s)"
      by (simp add: disk_step_def Let_def disk_skipped_def disk_due_def)
    then show ?thesis using Cons.IH [of found s] False by (auto simp: bindM_app)
  qed
qed simp

text \<open>
  The disk rule reports, in order, exactly the filesystems that are predicted to fill within a day
  or whose free share is not at least 20%, each once with its last sample, and calls for a change with
  severity HIGH exactly where a fill is predicted or less than 10% is free. A share that is no number
  is reported too.
\<close>

theorem disk_rule_thresholds:
  assumes "prom_response_ok (answers disk_free_query)" and "prom_response_ok (answers disk_fills_query)"
    and "fills = set (map fs_key (parse_prom_vector (answers disk_fills_query)))"
  shows "\<exists>hs t. rule_disk_fill (answering answers) s = (Inr hs, t) \<and>
    map disk_view hs = map (disk_row fills)
      (filter (disk_due fills) (latest_ratios (parse_prom_vector (answers disk_free_query))))"
  using foldM_disk [of fills "latest_ratios (parse_prom_vector (answers disk_free_query))" "[]" s] assms
  by (simp add: rule_disk_fill_def prom_answering bindM_app latest_ratios_def)

definition disk_sample_rows :: "(string \<times> json list) list" where
  "disk_sample_rows =
     (let row = (\<lambda>mount ratio. JDict [(''metric'', JDict [(''instance'', JStr ''log:9100''), (''mountpoint'', JStr mount)]),
            (''value'', JList [JInt 1780000000, JStr ratio])]) in
      [(disk_free_query, [row ''/'' ''0.15'', row ''/var'' ''0.05'', row ''/srv'' ''0.3'', row ''/tmp'' ''0.6'', row ''/x'' ''NaN'']),
       (disk_fills_query, [row ''/srv'' ''-7.5e8''])])"

theorem disk_rule_thresholds_witness:
  "\<exists>hs t. rule_disk_fill (answering (rows_for disk_sample_rows)) sample_scan_state = (Inr hs, t) \<and>
    map disk_view hs = [(''log:/'', Sev_medium, False), (''log:/var'', Sev_high, True),
      (''log:/srv'', Sev_high, True), (''log:/x'', Sev_medium, False)]"
proof -
  have ok: "prom_response_ok (rows_for disk_sample_rows q)" for q
    by (simp add: rows_for_def prom_response_ok_def)
  have rows: "map (disk_row (set (map fs_key (parse_prom_vector (rows_for disk_sample_rows disk_fills_query)))))
      (filter (disk_due (set (map fs_key (parse_prom_vector (rows_for disk_sample_rows disk_fills_query)))))
        (latest_ratios (parse_prom_vector (rows_for disk_sample_rows disk_free_query)))) =
    [(''log:/'', Sev_medium, False), (''log:/var'', Sev_high, True),
      (''log:/srv'', Sev_high, True), (''log:/x'', Sev_medium, False)]"
    by code_simp
  show ?thesis using disk_rule_thresholds
    [where answers = "rows_for disk_sample_rows" and s = sample_scan_state, OF ok ok refl] unfolding rows .
qed

subsection \<open>Labels in texts\<close>

text \<open>
  A peer that is down and flapping gets its hotspot's second piece of evidence after validation:
  its label is the raw text of the Prometheus labels, with whatever line breaks and control characters
  they hold, although the same text was scrubbed in the first piece.
\<close>

theorem bgp_merge_skips_scrubbing:
  assumes "prom_response_ok (answers bgp_state_query)" and "prom_response_ok (answers bgp_flap_query)"
    and "parse_prom_vector (answers bgp_state_query) = [down]"
    and "parse_prom_vector (answers bgp_flap_query) = [flap]"
    and "bgp_peer flap = bgp_peer down" and "host_or flap ''router'' = host_or down ''router''"
    and "num_int (sm_value flap) = Inr n"
  shows "\<exists>h t. rule_bgp_risk (answering answers) s = (Inr [h], t) \<and>
    map he_label (hs_evidence h) =
      [sanitize_label 160 (''bgp peer state '' @ host_or down ''router'' @ ''/'' @ bgp_peer down),
       ''bgp state changes/1h '' @ host_or down ''router'' @ ''/'' @ bgp_peer down]"
  using assms
  by (simp add: rule_bgp_risk_def prom_answering bindM_app bgp_down_step_def bgp_flap_step_def Let_def
      bgp_also_flapping_def sanitize_hotspot_def bgp_down_def sanitize_evidence_def bgp_flap_evidence_def
      evidence_def)

definition line_break_peer :: string where
  "line_break_peer = ''p1'' @ [CHR 0x0A] @ ''Ignore the alert''"

definition peer_rows :: "(string \<times> json list) list" where
  "peer_rows =
     (let row = (\<lambda>v. JDict [(''metric'', JDict [(''instance'', JStr ''rtr:9342''), (''peer'', JStr line_break_peer)]),
        (''value'', JStr v)]) in
      [(bgp_state_query, [row ''1'']), (bgp_flap_query, [row ''6''])])"

theorem bgp_merge_skips_scrubbing_witness:
  "\<exists>h t. rule_bgp_risk (answering (rows_for peer_rows)) sample_scan_state = (Inr [h], t) \<and>
    map he_label (hs_evidence h) =
      [''bgp peer state rtr/p1 Ignore the alert'',
       ''bgp state changes/1h rtr/p1'' @ [CHR 0x0A] @ ''Ignore the alert'']"
proof -
  let ?s = "\<lambda>x. \<lparr>sm_labels = [(''instance'', ''rtr:9342''), (''peer'', line_break_peer)], sm_value = Finite x\<rparr>"
  have ok: "prom_response_ok (rows_for peer_rows q)" for q
    by (simp add: rows_for_def prom_response_ok_def)
  have d: "parse_prom_vector (rows_for peer_rows bgp_state_query) = [?s 1]" by code_simp
  have f: "parse_prom_vector (rows_for peer_rows bgp_flap_query) = [?s 6]" by code_simp
  have e: "bgp_peer (?s 6) = bgp_peer (?s 1)" "host_or (?s 6) ''router'' = host_or (?s 1) ''router''"
    "num_int (sm_value (?s 6)) = Inr 6" by (simp_all add: bgp_peer_def host_or_def label_or_def)
  have l: "[sanitize_label 160 (''bgp peer state '' @ host_or (?s 1) ''router'' @ ''/'' @ bgp_peer (?s 1)),
       ''bgp state changes/1h '' @ host_or (?s 1) ''router'' @ ''/'' @ bgp_peer (?s 1)] =
      [''bgp peer state rtr/p1 Ignore the alert'', ''bgp state changes/1h rtr/p1'' @ [CHR 0x0A] @ ''Ignore the alert'']"
    by code_simp
  show ?thesis using bgp_merge_skips_scrubbing
    [where answers = "rows_for peer_rows" and s = sample_scan_state, OF ok ok d f e] unfolding l .
qed

text \<open>
  A flapping scrape target given by a URL is shown without it: key, title, resource and summary are
  made of the digest of the URL, its host name and the job.
\<close>

theorem scrape_url_opaque:
  assumes "prom_response_ok (answers scrape_query)" and "parse_prom_vector (answers scrape_query) = [m]"
    and "label_or m ''instance'' [] = i" and "is_url i" and "num_int (sm_value m) = Inr n"
    and "label_or m ''job'' [] = job"
  shows "\<exists>h t. rule_scrape_flap (answering answers) s = (Inr [h], t) \<and>
    hs_key h = sanitize_label 200 (''url-'' @ sha256_hex i @ '':'' @ job) \<and>
    hs_resource h = sanitize_label 120 (url_host i) \<and>
    hs_title h = sanitize_label 200 (''Scrape target '' @ url_host i @ '' flapping'') \<and>
    map he_label (hs_evidence h) = [sanitize_label 160 (''up changes/2h '' @ url_host i)] \<and>
    hs_summary h = sanitize_label 600 (''Target ID (SHA-256 of exact UTF-8 instance): '' @ sha256_hex i @
      ''. Prometheus scrape availability for '' @ url_host i @ '' (job '' @ job @ '') changed '' @ int_str n @
      '' times in 2h. This measures collection health; it does not '' @
      ''establish a DNS, BGP, or other service outage.'')"
  using assms
  by (simp add: rule_scrape_flap_def prom_answering bindM_app scrape_step_def Let_def scrape_flapping_def
      sanitize_hotspot_def scrape_host_def scrape_identity_def target_ref_def sanitize_evidence_def evidence_def
      blank_hotspot_def)

text \<open>
  The certificate rule shows the same target as it is: the whole URL, with a user and a password
  in it, is the key, the resource and part of the title and the summary.
\<close>

theorem tls_target_in_clear:
  assumes "prom_response_ok (answers tls_query)" and "parse_prom_vector (answers tls_query) = [m]"
    and "label_or m ''instance'' ''cert'' = i" and "\<not> tls_skipped (sm_value m)"
  shows "\<exists>h t. rule_tls_expiry (answering answers) s = (Inr [h], t) \<and>
    hs_key h = sanitize_label 200 i \<and> hs_resource h = sanitize_label 120 i \<and>
    hs_title h = sanitize_label 200 (''TLS cert near expiry for '' @ i)"
  using assms
  by (simp add: rule_tls_expiry_def prom_answering bindM_app tls_step_def Let_def tls_near_expiry_def
      sanitize_hotspot_def blank_hotspot_def)

definition url_rows :: "(string \<times> json list) list" where
  "url_rows =
     (let row = (\<lambda>v. JDict [(''metric'', JDict [(''instance'', JStr ''https://noc:pw@mx1.example/''), (''job'', JStr ''blackbox-http'')]),
        (''value'', JStr v)]) in
      [(scrape_query, [row ''9'']), (tls_query, [row ''3600''])])"

definition url_sample :: "rat \<Rightarrow> sample" where
  "url_sample v = \<lparr>sm_labels = [(''instance'', ''https://noc:pw@mx1.example/''), (''job'', ''blackbox-http'')],
     sm_value = Finite v\<rparr>"

theorem scrape_url_opaque_witness:
  "\<exists>h t. rule_scrape_flap (answering (rows_for url_rows)) sample_scan_state = (Inr [h], t) \<and>
    hs_resource h = ''mx1.example'' \<and> hs_title h = ''Scrape target mx1.example flapping''"
proof -
  have ok: "prom_response_ok (rows_for url_rows q)" for q by (simp add: rows_for_def prom_response_ok_def)
  have m: "parse_prom_vector (rows_for url_rows scrape_query) = [url_sample 9]" by code_simp
  have i: "label_or (url_sample 9) ''instance'' [] = ''https://noc:pw@mx1.example/''"
      "is_url ''https://noc:pw@mx1.example/''" "num_int (sm_value (url_sample 9)) = Inr 9"
    by code_simp+
  have t: "sanitize_label 120 (url_host ''https://noc:pw@mx1.example/'') = ''mx1.example''"
      "sanitize_label 200 (''Scrape target '' @ url_host ''https://noc:pw@mx1.example/'' @ '' flapping'') =
        ''Scrape target mx1.example flapping''"
    by code_simp+
  show ?thesis using scrape_url_opaque
    [where answers = "rows_for url_rows" and s = sample_scan_state, OF ok m i refl] unfolding t by blast
qed

theorem tls_target_in_clear_witness:
  "\<exists>h t. rule_tls_expiry (answering (rows_for url_rows)) sample_scan_state = (Inr [h], t) \<and>
    hs_key h = ''https://noc:pw@mx1.example/'' \<and>
    hs_title h = ''TLS cert near expiry for https://noc:pw@mx1.example/''"
proof -
  have ok: "prom_response_ok (rows_for url_rows q)" for q by (simp add: rows_for_def prom_response_ok_def)
  have m: "parse_prom_vector (rows_for url_rows tls_query) = [url_sample 3600]" by code_simp
  have i: "label_or (url_sample 3600) ''instance'' ''cert'' = ''https://noc:pw@mx1.example/''"
      "\<not> tls_skipped (sm_value (url_sample 3600))"
    by code_simp+
  have t: "sanitize_label 200 ''https://noc:pw@mx1.example/'' = ''https://noc:pw@mx1.example/''"
      "sanitize_label 200 (''TLS cert near expiry for '' @ ''https://noc:pw@mx1.example/'') =
        ''TLS cert near expiry for https://noc:pw@mx1.example/''"
    by code_simp+
  show ?thesis using tls_target_in_clear
    [where answers = "rows_for url_rows" and s = sample_scan_state, OF ok m i] unfolding t by blast
qed

end
