(* ===== verification/Disk_Spec.thy ===== *)
theory Disk_Spec
  imports Disk_Handoff Yields Handoff_Spec Budget_Spec
begin

section \<open>What the disk requests promise\<close>

text \<open>
  Whatever the telemetry says, a request can be built and binds its objectives to itself; and while a
  case has an open disk handoff, further hotspots add nothing to it.
\<close>

subsection \<open>The request\<close>

lemma new_handoff_app:
  "\<exists>hid corr c_at u_at t. new_handoff disk_handoff_given h s =
     (check_handoff disk_handoff_given (h\<lparr>ho_handoff_id := hid, ho_correlation_id := corr,
        ho_created_at := c_at, ho_updated_at := u_at\<rparr>), t)"
  by (simp add: new_handoff_def draw_field_def disk_handoff_given_def new_id_def uuid4_hex_def utc_now_def
      dt_now_def bindM_app) blast

lemma new_objective_app:
  "\<exists>i c_at u_at t. new_objective disk_objective_given v s =
     (check_objective disk_objective_given
        (v\<lparr>vo_objective_id := i, vo_created_at := c_at, vo_updated_at := u_at\<rparr>), t)"
  by (simp add: new_objective_def draw_field_def disk_objective_given_def new_id_def uuid4_hex_def
      utc_now_def dt_now_def bindM_app) blast

text \<open>A request to the engineering loop for a case.\<close>

definition disk_handoff_for :: "atomic_case \<Rightarrow> case_handoff \<Rightarrow> bool" where
  "disk_handoff_for c h \<longleftrightarrow> ho_case_id h = tok (ac_case_id c) \<and> ho_source_loop h = Loop_noc \<and>
     ho_target_loop h = Loop_engineering \<and> ho_verifier h = Loop_noc \<and> ho_status h = HS_requested \<and>
     ho_objective_key h = tok DISK_OBJECTIVE_KEY \<and>
     bounded_payload 2000 MAX_PAYLOAD_DEPTH (JDict (ho_payload h)) \<and>
     bounded_payload 2000 MAX_PAYLOAD_DEPTH (JDict (ho_resource h))"

definition disk_objective_for :: "atomic_case \<Rightarrow> string \<Rightarrow> verification_objective \<Rightarrow> bool" where
  "disk_objective_for c hid v \<longleftrightarrow> vo_case_id v = tok (ac_case_id c) \<and> vo_handoff_id v = tok hid \<and>
     vo_required v \<and> vo_required_status v = VS_pass \<and> vo_status v = VS_pending \<and>
     1 \<le> vo_required_consecutive_passes v \<and> vo_consecutive_pass_count v = 0"

lemma required_checked: "checked r x = Inr y \<Longrightarrow> y = x"
  by (auto simp: checked_def split: sum.splits)

lemma disk_handoff_yields:
  "yields (disk_handoff_for c) (new_handoff disk_handoff_given (disk_handoff_fields h c cycle sp k))"
proof -
  have "disk_handoff_for c x"
    if "check_handoff disk_handoff_given ((disk_handoff_fields h c cycle sp k)\<lparr>ho_handoff_id := hid,
      ho_correlation_id := corr, ho_created_at := c_at, ho_updated_at := u_at\<rparr>) = Inr x" for hid corr c_at u_at x
    using required_checked [OF that [unfolded check_handoff_def]]
    by (simp add: disk_handoff_fields_def Let_def disk_handoff_for_def blank_handoff_def if_given_def
        disk_handoff_given_def sanitize_field_dict_bounded split: prod.split)
  note check = this
  show ?thesis unfolding yields_def
  proof (intro allI impI)
    fix s :: "'z draws_scheme" and x t
    assume run: "new_handoff disk_handoff_given (disk_handoff_fields h c cycle sp k) s = (Inr x, t)"
    obtain hid corr c_at u_at t' where "new_handoff disk_handoff_given (disk_handoff_fields h c cycle sp k) s =
      (check_handoff disk_handoff_given ((disk_handoff_fields h c cycle sp k)\<lparr>ho_handoff_id := hid,
        ho_correlation_id := corr, ho_created_at := c_at, ho_updated_at := u_at\<rparr>), t')"
      using new_handoff_app by blast
    then show "disk_handoff_for c x" using run by (intro check) simp
  qed
qed

lemma py_strip_Nil: "py_strip s = [] \<longleftrightarrow> (\<forall>c \<in> set s. is_space c)"
proof -
  have "(\<forall>c \<in> set s. is_space c) = (dropWhile is_space s = [])" by (simp add: dropWhile_eq_Nil_conv)
  moreover have "py_strip s = [] \<longleftrightarrow> (\<forall>c \<in> set (dropWhile is_space s). is_space c)"
    by (simp add: py_strip_def dropWhile_eq_Nil_conv)
  moreover have "\<not> (\<forall>c \<in> set (dropWhile is_space s). is_space c)" if "dropWhile is_space s \<noteq> []"
    using hd_dropWhile [OF that] that by (meson hd_in_set)
  ultimately show ?thesis by (metis empty_iff empty_set)
qed

lemma blank_required [simp]:
  "\<not> lhp_blank (JStr ''resolve low root filesystem condition'')" "\<not> lhp_blank (JStr DISK_OBJECTIVE_KEY)"
  "\<not> lhp_blank (JStr (''disk_monitoring_alert_clear:'' @ r))"
  "\<not> lhp_blank (JStr (''noc_health_remains_healthy:'' @ r))"
  "\<not> lhp_blank (JStr ''monitoring_alert_clear'')" "\<not> lhp_blank (JStr ''health_endpoint'')"
  "\<not> lhp_blank (JStr ''disk monitoring alert clears'')" "\<not> lhp_blank (JStr ''NOC health remains healthy'')"
  by (simp_all add: lhp_blank_def py_strip_Nil DISK_OBJECTIVE_KEY_def is_space_def code_def)

lemma disk_handoff_built:
  assumes "\<not> lhp_blank (JStr (ac_case_id c))"
  shows "\<exists>x t. new_handoff disk_handoff_given (disk_handoff_fields h c cycle sp k) s = (Inr x, t)"
proof -
  have nb: "\<not> lhp_blank (JStr (ac_case_id c @ '':engineering:'' @ r))" for r
    using assms by (auto simp: lhp_blank_def py_strip_Nil)
  have "\<exists>x. check_handoff disk_handoff_given ((disk_handoff_fields h c cycle sp k)\<lparr>ho_handoff_id := hid,
      ho_correlation_id := corr, ho_created_at := c_at, ho_updated_at := u_at\<rparr>) = Inr x" for hid corr c_at u_at
    using assms nb
    by (simp add: check_handoff_def checked_def disk_handoff_fields_def Let_def blank_required split: prod.split)
  note check = this
  obtain hid corr c_at u_at t where run: "new_handoff disk_handoff_given (disk_handoff_fields h c cycle sp k) s =
      (check_handoff disk_handoff_given ((disk_handoff_fields h c cycle sp k)\<lparr>ho_handoff_id := hid,
        ho_correlation_id := corr, ho_created_at := c_at, ho_updated_at := u_at\<rparr>), t)"
    using new_handoff_app by blast
  then show ?thesis using check by auto
qed


lemma disk_objective_built:
  assumes "\<not> lhp_blank (JStr (ac_case_id c))" and "vo_case_id v = ac_case_id c" and "vo_handoff_id v = hid"
    and "1 \<le> vo_required_consecutive_passes v" and "vo_consecutive_pass_count v = 0"
    and "\<not> lhp_blank (JStr (vo_objective_key v))" and "\<not> lhp_blank (JStr (vo_objective_type v))"
    and "\<not> lhp_blank (JStr (vo_name v))"
    and "vo_required v" and "vo_required_status v = VS_pass" and "vo_status v = VS_pending"
  shows "\<exists>x t. new_objective disk_objective_given v s = (Inr x, t) \<and> disk_objective_for c hid x"
proof -
  obtain i c_at u_at t where run: "new_objective disk_objective_given v s =
      (check_objective disk_objective_given (v\<lparr>vo_objective_id := i, vo_created_at := c_at, vo_updated_at := u_at\<rparr>), t)"
    using new_objective_app by blast
  have "\<exists>x. check_objective disk_objective_given (v\<lparr>vo_objective_id := i, vo_created_at := c_at,
      vo_updated_at := u_at\<rparr>) = Inr x \<and> disk_objective_for c hid x"
    using assms
    by (simp add: check_objective_def checked_def disk_objective_for_def if_given_def disk_objective_given_def)
  then show ?thesis using run by auto
qed

lemma alert_clear_built:
  "\<not> lhp_blank (JStr (ac_case_id c)) \<Longrightarrow>
    \<exists>x t. alert_clear_objective h c hid passes s = (Inr x, t) \<and> disk_objective_for c hid x"
  unfolding alert_clear_objective_def
  by (cases "disk_resource_parts h", simp only: split_beta fst_conv snd_conv Let_def, rule disk_objective_built)
    (simp_all add: blank_objective_def lhp_blank_def py_strip_Nil is_space_def code_def)

lemma noc_health_built:
  "\<not> lhp_blank (JStr (ac_case_id c)) \<Longrightarrow>
    \<exists>x t. noc_health_objective c hid passes s = (Inr x, t) \<and> disk_objective_for c hid x"
  unfolding noc_health_objective_def by (rule disk_objective_built)
    (simp_all add: blank_objective_def lhp_blank_def py_strip_Nil is_space_def code_def)

text \<open>
  Whatever the telemetry says, a disk hotspot of a stored case makes a well-formed request: the
  handoff goes from the NOC loop to the engineering loop, asks for nothing but \<open>requested\<close>, and its
  payload and resource are bounded and free of secrets by key; both objectives belong to the same case
  and handoff, are required, and have to pass at least once.
\<close>

theorem disk_request_well_formed:
  assumes "\<not> lhp_blank (JStr (ac_case_id c))"
  shows "\<exists>r t clears healthy. build_disk_handoff_request h c cycle passes sp knowledge s = (Inr r, t) \<and>
    disk_handoff_for c (dr_handoff r) \<and> dr_objectives r = [clears, healthy] \<and>
    disk_objective_for c (ho_handoff_id (dr_handoff r)) clears \<and>
    disk_objective_for c (ho_handoff_id (dr_handoff r)) healthy"
proof -
  obtain x t where x: "new_handoff disk_handoff_given (disk_handoff_fields h c cycle sp knowledge) s = (Inr x, t)"
    using disk_handoff_built [OF assms] by blast
  obtain v u where v: "alert_clear_objective h c (ho_handoff_id x) passes t = (Inr v, u)"
      "disk_objective_for c (ho_handoff_id x) v"
    using alert_clear_built [OF assms] by blast
  obtain v' u' where v': "noc_health_objective c (ho_handoff_id x) passes u = (Inr v', u')"
      "disk_objective_for c (ho_handoff_id x) v'"
    using noc_health_built [OF assms] by blast
  show ?thesis
    using x v v' yieldsD [OF disk_handoff_yields x]
    by (auto simp: build_disk_handoff_request_def bindM_app)
qed

subsection \<open>One request at a time\<close>

definition disk_tables ::
  "(string, case_handoff) dict \<Rightarrow> (string, verification_objective) dict \<Rightarrow> (string, case_projection) dict
    \<Rightarrow> (string \<times> loop_name \<times> string, string) dict \<Rightarrow> store \<Rightarrow> bool" where
  "disk_tables H V C A s \<longleftrightarrow>
     st_handoffs s = H \<and> st_objectives s = V \<and> st_cases s = C \<and> st_active_handoffs s = A"

lemma disk_primitives [keeps_intros]:
  "keeps (disk_tables H V C A) uuid4_hex" "keeps (disk_tables H V C A) dt_now"
  "keeps (disk_tables H V C A) (put_intent i)" "keeps (disk_tables H V C A) (modM (write_event e))"
  by (auto simp: keeps_def disk_tables_def uuid4_hex_def dt_now_def put_intent_def write_event_def)

lemma disk_parts [keeps_intros]:
  "keeps (disk_tables H V C A) (new_id p)" "keeps (disk_tables H V C A) utc_now"
  unfolding new_id_def utc_now_def by (intro keeps_intros)+

lemma disk_modM [keeps_intros]:
  "(\<And>s. st_handoffs (f s) = st_handoffs s \<and> st_objectives (f s) = st_objectives s \<and>
      st_cases (f s) = st_cases s \<and> st_active_handoffs (f s) = st_active_handoffs s)
    \<Longrightarrow> keeps (disk_tables H V C A) (modM f)"
  by (simp add: keeps_def disk_tables_def)

lemma disk_builders [keeps_intros]:
  "keeps (disk_tables H V C A) (new_handoff g h)" "keeps (disk_tables H V C A) (new_objective g v)"
  "keeps (disk_tables H V C A) (new_event i t f)" "keeps (disk_tables H V C A) (new_intent a b c' f' ty)"
  "keeps (disk_tables H V C A) (enqueue_outbox i')" "keeps (disk_tables H V C A) (store_event_locked e)"
  unfolding new_handoff_def new_objective_def new_event_def new_intent_def draw_field_def given_or_def
    enqueue_outbox_def store_event_locked_def
  by (intro keeps_intros)+

lemma disk_request_builder [keeps_intros]:
  "keeps (disk_tables H V C A) (build_disk_handoff_request h c cycle passes sp knowledge)"
  unfolding build_disk_handoff_request_def alert_clear_objective_def noc_health_objective_def
  by (intro keeps_intros)


lemma create_answers_existing:
  assumes "idx_get (st_active_handoffs s) (handoff_key h) \<noteq> None"
  shows "snd (create_handoff_with_objectives h vs cs eo io s) = s"
  using assms
  by (auto simp: create_handoff_with_objectives_def bindM_app require_case_app existing_handoff_locked_def
      item_of_app split: option.split)

lemma disk_create:
  assumes "idx_get A (handoff_key h) \<noteq> None"
  shows "keeps (disk_tables H V C A) (create_handoff_with_objectives h vs cs eo io)"
  by (rule keepsI) (use assms create_answers_existing in \<open>auto simp: disk_tables_def\<close>)

lemma disk_request_kept:
  assumes "idx_get A (handoff_key h) \<noteq> None"
  shows "keeps (disk_tables H V C A) (request_lhp_handoff sv h vs enqueue)"
  unfolding request_lhp_handoff_def require_atomic_case_locked_def
  by (intro keeps_intros disk_create assms)

lemma disk_knowledge_kept [keeps_intros]:
  "keeps (disk_tables H V C A) (request_lhp_knowledge_context sv cid hid key payload)"
  unfolding request_lhp_knowledge_context_def require_atomic_case_locked_def emit_def append_event_def
  by (intro keeps_intros)

definition disk_key :: "atomic_case \<Rightarrow> string \<times> loop_name \<times> string" where
  "disk_key c = (tok (ac_case_id c), Loop_engineering, tok DISK_OBJECTIVE_KEY)"

lemma built_request_key:
  "yields (\<lambda>r. handoff_key (dr_handoff r) = disk_key c)
     (build_disk_handoff_request h c cycle passes sp knowledge)"
  unfolding build_disk_handoff_request_def
  by (rule yields_bind [OF disk_handoff_yields])
    (auto intro!: yields_then simp: disk_handoff_for_def handoff_key_def disk_key_def)

lemma disk_submit_kept:
  assumes "idx_get A (disk_key c) \<noteq> None"
  shows "keeps (disk_tables H V C A) (bindM (build_disk_handoff_request h c cycle passes sp knowledge)
    (submit_disk_request hse sv c))"
proof (rule keeps_after [OF built_request_key disk_request_builder])
  fix r :: disk_handoff_request assume "handoff_key (dr_handoff r) = disk_key c"
  then show "keeps (disk_tables H V C A) (submit_disk_request hse sv c r)"
    unfolding submit_disk_request_def using assms
    by (intro keeps_intros disk_request_kept) simp_all
qed

text \<open>
  C33: One disk request at a time: while the index of open handoffs has one of the case to the
  engineering loop for the disk objective, another disk hotspot of the case adds no handoff and no
  objective and leaves the cases and the open handoffs as they are, whatever the hotspot, the
  suppressions and the settings say and whether the request returns or raises.
\<close>

theorem disk_request_not_repeated:
  assumes "idx_get (st_active_handoffs (lw_store w)) (disk_key c) \<noteq> None"
    and "w' = snd (maybe_request_disk_handoff hse float_repr sv h c cycle_id w)"
  shows "st_handoffs (lw_store w') = st_handoffs (lw_store w) \<and>
    st_objectives (lw_store w') = st_objectives (lw_store w) \<and>
    st_cases (lw_store w') = st_cases (lw_store w) \<and>
    st_active_handoffs (lw_store w') = st_active_handoffs (lw_store w)"
proof -
  let ?P = "disk_tables (st_handoffs (lw_store w)) (st_objectives (lw_store w)) (st_cases (lw_store w))
    (st_active_handoffs (lw_store w))"
  have "keeps (\<lambda>w. ?P (lw_store w)) (in_store (bindM (build_disk_handoff_request h c cycle_id
      (hse_required_passes hse) x (hse_knowledge_context hse)) (submit_disk_request hse sv c)))" for x
    unfolding in_store_def
    by (rule keeps_zoom [where Q = ?P]) (use disk_submit_kept [OF assms(1)] in simp_all)
  then have "keeps (\<lambda>w. ?P (lw_store w)) (maybe_request_disk_handoff hse float_repr sv h c cycle_id)"
    unfolding maybe_request_disk_handoff_def suppression_entry_for_def active_suppressions_def
    by (intro keeps_intros) simp_all
  from keepsD [OF this, of w] show ?thesis
    by (simp add: assms(2) disk_tables_def)
qed


subsection \<open>Examples\<close>

definition full_disk :: hotspot where
  "full_disk = (blank_hotspot ''disk_fill'' ''log:/'')\<lparr>hs_category := Cat_disk, hs_resource := ''log'',
     hs_warrants_change := True\<rparr>"

definition disk_case :: atomic_case where
  "disk_case = blank_case\<lparr>ac_case_id := ''case_1''\<rparr>"

theorem disk_request_well_formed_witness:
  "\<exists>r t. build_disk_handoff_request full_disk disk_case ''cyc_1'' 3 (JDict []) True (lw_store sample_world) = (Inr r, t) \<and>
    ho_target_loop (dr_handoff r) = Loop_engineering \<and> length (dr_objectives r) = 2"
proof -
  have "\<not> lhp_blank (JStr (ac_case_id disk_case))" by code_simp
  from disk_request_well_formed [OF this, of full_disk "''cyc_1''" 3 "JDict []" True "lw_store sample_world"]
  show ?thesis by (auto simp: disk_handoff_for_def)
qed

definition disk_settings :: handoff_settings where
  "disk_settings = \<lparr>hse_enabled = True, hse_engineering_delivery = True, hse_knowledge_context = True,
     hse_required_passes = 3, hse_disk_alert = True\<rparr>"

definition disk_service :: service where
  "disk_service = \<lparr>sv_policy = default_policy, sv_getenv = (\<lambda>_. []), sv_verbosity = 20\<rparr>"

definition open_disk_world :: "unit loop_world" where
  "open_disk_world = sample_world\<lparr>lw_store := (lw_store sample_world)\<lparr>
     st_active_handoffs := [(disk_key disk_case, ''handoff_1'')]\<rparr>\<rparr>"

theorem disk_request_not_repeated_witness:
  "idx_get (st_active_handoffs (lw_store open_disk_world)) (disk_key disk_case) = Some ''handoff_1'' \<and>
   st_handoffs (lw_store (snd (maybe_request_disk_handoff disk_settings (\<lambda>_. []) disk_service full_disk disk_case
     ''cyc_1'' open_disk_world))) = []"
proof -
  have k: "idx_get (st_active_handoffs (lw_store open_disk_world)) (disk_key disk_case) = Some ''handoff_1''"
    by (simp add: open_disk_world_def idx_get_def)
  then have "idx_get (st_active_handoffs (lw_store open_disk_world)) (disk_key disk_case) \<noteq> None" by simp
  from disk_request_not_repeated [OF this refl, of disk_settings "\<lambda>_. []" disk_service full_disk "''cyc_1''"] k
  show ?thesis by (simp add: open_disk_world_def sample_world_def empty_store_def)
qed

end
