(* ===== verification/Diagnosis.thy ===== *)
theory Diagnosis
  imports Routing Py_Float
begin

section \<open>The diagnosis of a specialist\<close>

text \<open>
  What a specialist agent must answer (\<open>DiagnosticSynthesis\<close> in \<open>app/agents/triage.py\<close>) and its contract, the
  finding the graph makes of it (\<open>_evidence_item\<close>, \<open>_synthesis_assessment\<close> in \<open>app/graph/nodes.py\<close>, the models of
  \<open>app/graph/state.py\<close>), the cap the evidence puts on its confidence, and the check against the golden state
  (\<open>app/golden_state.py\<close>). The message of a field constraint is pydantic's.
\<close>

subsection \<open>The models\<close>

datatype failure_domain =
    FD_local_host | FD_noc | FD_local_router | FD_firewall | FD_l2_adjacency | FD_l3_routing | FD_bgp
  | FD_transit_peer_ixp | FD_dns | FD_control_plane_service | FD_monitoring_telemetry | FD_unknown

datatype observation_source = Src_manifest | Src_perimeter_context | Src_mcp_telemetry | Src_alert | Src_derived

datatype delta_kind =
  DK_hard_failure | DK_degraded_state | DK_intermittent_failure | DK_missing_data | DK_unknown

datatype contradiction_status =
    Con_unresolved | Con_resolved | Con_time_skewed | Con_vantage_point_dependent | Con_tooling_fault
  | Con_insufficient_evidence

datatype likelihood = Likely_low | Likely_medium | Likely_high

datatype synthesis_severity = SS_HIGH | SS_MEDIUM | SS_LOW

record diagnostic_evidence =
  de_evidence_id :: string
  de_tool :: string
  de_target :: string
  de_collected_at :: string
  de_collection_window :: string
  de_observed_value :: string
  de_expected_value :: string
  de_interpretation :: string
  de_direct_measurement :: bool
  de_truncated :: bool

record state_observation =
  so_subject :: string
  so_attribute :: string
  so_value :: string
  so_source :: observation_source
  so_evidence_refs :: "string list"

record state_delta =
  sd_delta_id :: string
  sd_subject :: string
  sd_attribute :: string
  sd_expected_value :: string
  sd_observed_value :: string
  sd_delta_type :: delta_kind
  sd_impact :: string
  sd_evidence_refs :: "string list"

record confirmed_fact =
  cf_fact_id :: string
  cf_statement :: string
  cf_evidence_refs :: "string list"

record hypothesis =
  hy_hypothesis_id :: string
  hy_statement :: string
  hy_failure_domain :: failure_domain
  hy_likelihood :: likelihood
  hy_evidence_refs :: "string list"
  hy_missing_evidence :: "string list"

record contradiction =
  tc_contradiction_id :: string
  tc_summary :: string
  tc_status :: contradiction_status
  tc_evidence_refs :: "string list"
  tc_next_check :: string

record remediation =
  rm_summary :: string
  rm_proposed_actions :: "string list"
  rm_risk :: string
  rm_rollback :: string
  rm_evidence_refs :: "string list"
  rm_approval_required :: bool

record synthesis =
  sy_read_only :: bool
  sy_incident_summary :: string
  sy_affected_objects :: "string list"
  sy_intended_state :: "state_observation list"
  sy_observed_state :: "state_observation list"
  sy_deltas :: "state_delta list"
  sy_evidence_chain :: "diagnostic_evidence list"
  sy_confirmed_facts :: "confirmed_fact list"
  sy_hypotheses :: "hypothesis list"
  sy_contradictions :: "contradiction list"
  sy_confidence_score :: rat
  sy_confidence_basis :: string
  sy_severity :: synthesis_severity
  sy_recommended_next_checks :: "string list"
  sy_remediation_proposal :: "remediation option"
  sy_executed_actions :: "string list"
  sy_requires_human :: bool
  sy_human_escalation_reason :: string

definition blank_evidence :: diagnostic_evidence where
  "blank_evidence = \<lparr>
     de_evidence_id = [], de_tool = [], de_target = [], de_collected_at = [], de_collection_window = [],
     de_observed_value = [], de_expected_value = [], de_interpretation = [],
     de_direct_measurement = False, de_truncated = False\<rparr>"

definition blank_synthesis :: synthesis where
  "blank_synthesis = \<lparr>
     sy_read_only = True, sy_incident_summary = [], sy_affected_objects = [], sy_intended_state = [],
     sy_observed_state = [], sy_deltas = [], sy_evidence_chain = [], sy_confirmed_facts = [],
     sy_hypotheses = [], sy_contradictions = [], sy_confidence_score = 0, sy_confidence_basis = [],
     sy_severity = SS_LOW, sy_recommended_next_checks = [], sy_remediation_proposal = None,
     sy_executed_actions = [], sy_requires_human = True, sy_human_escalation_reason = []\<rparr>"

subsection \<open>The contract of a synthesis\<close>

text \<open>The first of a sequence of checks that fails.\<close>

primrec first_failure :: "(exn + unit) list \<Rightarrow> exn + unit" where
  "first_failure [] = Inr ()"
| "first_failure (c # cs) = (case c of Inl e \<Rightarrow> Inl e | Inr _ \<Rightarrow> first_failure cs)"

definition require_that :: "bool \<Rightarrow> string \<Rightarrow> exn + unit" where
  "require_that ok message = (if ok then Inr () else Inl (ValueError message))"

definition evidence_ids :: "synthesis \<Rightarrow> string list" where
  "evidence_ids s = filter (\<lambda>i. i \<noteq> []) (map de_evidence_id (sy_evidence_chain s))"

text \<open>\<open>validate_refs\<close>; the unknown references are sorted and without repetition.\<close>

definition check_refs :: "string list \<Rightarrow> bool \<Rightarrow> string \<Rightarrow> string list \<Rightarrow> exn + unit" where
  "check_refs known required owner refs =
     (let unknown = sort (remdups (filter (\<lambda>r. r \<notin> set known) refs)) in
      if required \<and> refs = [] then Inl (ValueError (owner @ '' must reference at least one evidence_id''))
      else require_that (unknown = [])
        (owner @ '' references unknown evidence_id values: '' @ py_join '', '' unknown))"

definition named_owner :: "string \<Rightarrow> string \<Rightarrow> string" where
  "named_owner kind i = kind @ ''.'' @ or_str i ''<unknown>''"

definition reference_checks :: "synthesis \<Rightarrow> (exn + unit) list" where
  "reference_checks s =
     (let known = evidence_ids s in
      map (\<lambda>ob. check_refs known False (named_owner ''observed_state'' (so_subject ob)) (so_evidence_refs ob))
        (sy_observed_state s)
      @ map (\<lambda>d. check_refs known True (named_owner ''delta'' (sd_delta_id d)) (sd_evidence_refs d)) (sy_deltas s)
      @ map (\<lambda>f. check_refs known True (named_owner ''confirmed_fact'' (cf_fact_id f)) (cf_evidence_refs f))
        (sy_confirmed_facts s)
      @ map (\<lambda>h. check_refs known False (named_owner ''hypothesis'' (hy_hypothesis_id h)) (hy_evidence_refs h))
        (sy_hypotheses s)
      @ map (\<lambda>c. check_refs known False (named_owner ''contradiction'' (tc_contradiction_id c))
          (tc_evidence_refs c)) (sy_contradictions s)
      @ (case sy_remediation_proposal s of None \<Rightarrow> []
         | Some r \<Rightarrow> [check_refs known True ''remediation_proposal'' (rm_evidence_refs r)]))"

definition check_synthesis :: "synthesis \<Rightarrow> exn + synthesis" where
  "check_synthesis s =
     (case first_failure
        ([require_that (0 \<le> sy_confidence_score s) ''Input should be greater than or equal to 0'',
          require_that (sy_confidence_score s \<le> 1) ''Input should be less than or equal to 1'',
          require_that (sy_read_only s) ''DiagnosticSynthesis.read_only must be true'',
          require_that (sy_executed_actions s = []) ''DiagnosticSynthesis.executed_actions must remain empty'',
          require_that (case sy_remediation_proposal s of None \<Rightarrow> True | Some r \<Rightarrow> rm_approval_required r)
            ''remediation_proposal.approval_required must be true'',
          require_that (distinct (evidence_ids s)) ''evidence_chain evidence_id values must be unique'']
         @ reference_checks s
         @ [require_that (sy_confidence_score s \<le> 8 / 10 \<or> list_ex de_direct_measurement (sy_evidence_chain s))
            ''confidence above 0.8 requires direct-measurement evidence'']) of
        Inl e \<Rightarrow> Inl e | Inr _ \<Rightarrow> Inr s)"

subsection \<open>The finding\<close>

record evidence_item =
  ei_tool :: string
  ei_summary :: string
  ei_direct_measurement :: bool
  ei_payload :: jdict

record finding =
  fd_specialist :: specialist
  fd_summary :: string
  fd_assessment :: string
  fd_confidence :: rat
  fd_evidence :: "evidence_item list"

definition evidence_payload :: "diagnostic_evidence \<Rightarrow> jdict" where
  "evidence_payload e =
     [(''evidence_id'', JStr (de_evidence_id e)), (''tool'', JStr (de_tool e)), (''target'', JStr (de_target e)),
      (''collected_at'', JStr (de_collected_at e)), (''collection_window'', JStr (de_collection_window e)),
      (''observed_value'', JStr (de_observed_value e)), (''expected_value'', JStr (de_expected_value e)),
      (''interpretation'', JStr (de_interpretation e)),
      (''direct_measurement'', JBool (de_direct_measurement e)), (''truncated'', JBool (de_truncated e))]"

definition evidence_item_of :: "diagnostic_evidence \<Rightarrow> evidence_item" where
  "evidence_item_of e =
     (let evidence_id = or_str (de_evidence_id e) (or_str (de_tool e) ''agent_observation'');
          subject = (if de_tool e \<noteq> [] \<or> de_target e \<noteq> []
            then de_tool e @ ''('' @ de_target e @ '')'' else evidence_id);
          meaning = or_str (de_interpretation e)
            (or_str (de_observed_value e) ''Agent reported diagnostic evidence.'')
      in \<lparr>ei_tool = evidence_id,
          ei_summary = py_join '': '' (filter (\<lambda>p. p \<noteq> []) [subject, meaning]),
          ei_direct_measurement = de_direct_measurement e \<or> is_direct_measurement (de_tool e),
          ei_payload = evidence_payload e\<rparr>)"

definition delta_text :: "state_delta \<Rightarrow> string" where
  "delta_text d = sd_subject d @ '' '' @ sd_attribute d @ '': expected '' @ sd_expected_value d @
     '', observed '' @ sd_observed_value d"

definition delta_worded :: "state_delta \<Rightarrow> bool" where
  "delta_worded d \<longleftrightarrow> sd_subject d \<noteq> [] \<or> sd_attribute d \<noteq> [] \<or> sd_expected_value d \<noteq> [] \<or> sd_observed_value d \<noteq> []"

definition texts_section :: "string \<Rightarrow> bool \<Rightarrow> string list \<Rightarrow> string list" where
  "texts_section label present texts =
     (if present then [label @ py_join ''; '' (filter (\<lambda>t. t \<noteq> []) texts)] else [])"

definition newline :: string where
  "newline = [char_of (10 :: nat)]"

definition synthesis_assessment :: "synthesis \<Rightarrow> string" where
  "synthesis_assessment s =
     (let sections =
        texts_section ''Facts: '' (sy_confirmed_facts s \<noteq> []) (map cf_statement (sy_confirmed_facts s))
        @ (if sy_deltas s \<noteq> []
           then [''Deltas: '' @ py_join ''; '' (map delta_text (filter delta_worded (sy_deltas s)))] else [])
        @ texts_section ''Hypotheses: '' (sy_hypotheses s \<noteq> []) (map hy_statement (sy_hypotheses s))
        @ texts_section ''Contradictions: '' (sy_contradictions s \<noteq> []) (map tc_summary (sy_contradictions s))
        @ (if sy_confidence_basis s \<noteq> [] then [''Confidence basis: '' @ sy_confidence_basis s] else [])
      in or_str (py_strip (py_join newline (filter (\<lambda>t. t \<noteq> []) sections))) (sy_incident_summary s))"

definition finding_of :: "specialist \<Rightarrow> synthesis \<Rightarrow> finding" where
  "finding_of specialist s = \<lparr>
     fd_specialist = specialist, fd_summary = sy_incident_summary s, fd_assessment = synthesis_assessment s,
     fd_confidence = sy_confidence_score s, fd_evidence = map evidence_item_of (sy_evidence_chain s)\<rparr>"

subsection \<open>Evidence validation\<close>

definition capped_confidence :: "bool \<Rightarrow> rat \<Rightarrow> rat" where
  "capped_confidence direct c =
     (let c = (if 8 / 10 < c \<and> \<not> direct then 8 / 10 else c)
      in if \<not> direct \<and> 1 / 2 < c then 1 / 2 else c)"

text \<open>Both models are read back from the state, the synthesis under its contract.\<close>

definition validated_evidence :: "finding \<Rightarrow> synthesis \<Rightarrow> exn + (finding \<times> synthesis)" where
  "validated_evidence f s =
     (let c = capped_confidence (list_ex ei_direct_measurement (fd_evidence f)) (fd_confidence f) in
      case check_synthesis s of Inl e \<Rightarrow> Inl e
      | Inr s \<Rightarrow> Inr (f\<lparr>fd_confidence := c\<rparr>, s\<lparr>sy_confidence_score := c\<rparr>))"

subsection \<open>The golden state\<close>

text \<open>
  \<open>monitoring_requires_targets\<close> of \<open>prompts/golden_state_manifest.json\<close>. The cache of telemetry is a dictionary; its list of
  jobs holds texts.
\<close>

definition monitoring_requires_targets :: "string list" where
  "monitoring_requires_targets = [''node'', ''frr'', ''blackbox'']"

definition observed_jobs :: "jdict \<Rightarrow> string list" where
  "observed_jobs telemetry = (case jget telemetry ''prometheus_target_jobs'' of
     JList vs \<Rightarrow> concat (map (\<lambda>v. case v of JStr s \<Rightarrow> [s] | _ \<Rightarrow> []) vs) | _ \<Rightarrow> [])"

definition drift_findings_for :: "string \<Rightarrow> jdict \<Rightarrow> string list" where
  "drift_findings_for resource_id telemetry =
     (let connected = (case dict_get telemetry ''mcp_connected'' of None \<Rightarrow> True | Some v \<Rightarrow> truthy v);
          observed = observed_jobs telemetry;
          missing = sort (filter (\<lambda>t. t \<notin> set observed) monitoring_requires_targets)
      in (if resource_id = ''noc'' \<and> \<not> connected
          then [''Golden state requires MCP connectivity on noc, but telemetry reports it unavailable.''] else [])
       @ (if observed \<noteq> [] \<and> missing \<noteq> []
          then [''Prometheus target classes missing from live view: '' @ py_join '', '' missing @ ''.''] else []))"

end
