(* ===== verification/Graph_History.thy ===== *)
theory Graph_History
  imports Graph_Memory Loop_State Attention_Delivery
begin

section \<open>The history and the context of a case\<close>

text \<open>
  The readers of \<open>CaseServiceGraphMemory\<close> that need \<open>time.time()\<close>: what happened on a resource in the last
  week, and the context the investigation graph starts from. They run in the world of \<open>Loop_State\<close>, whose case
  store and readings of the clock they use. A naive time stamp is taken as UTC, the zone the process runs in;
  a timestamp is the exact rational number of seconds.
\<close>

subsection \<open>Rows\<close>

record history_row =
  hr_ts :: rat
  hr_case_id :: string
  hr_case_number :: string
  hr_resource_id :: string
  hr_alertname :: string
  hr_severity :: string
  hr_status :: case_status
  hr_received_at :: string
  hr_event_type :: "string option"
  hr_observation_id :: "string option"

definition parse_ts :: "string \<Rightarrow> rat" where
  "parse_ts value =
     (if value = [] then 0
      else case fromisoformat (zulu value) of None \<Rightarrow> 0
        | Some d \<Rightarrow> (case astimezone_utc d of Inl e \<Rightarrow> 0
            | Inr t \<Rightarrow> of_int (t - epoch) / 1000000))"

definition resource_key :: "string \<Rightarrow> string" where
  "resource_key value = py_join '' '' (py_split (py_lower (py_strip value)))"

definition case_last_at :: "atomic_case \<Rightarrow> string" where
  "case_last_at c = or_str (ac_last_seen c) (or_str (ac_updated_at c) (ac_opened_at c))"

definition history_row_of :: "atomic_case \<Rightarrow> rat \<Rightarrow> history_row" where
  "history_row_of c ts = \<lparr>
     hr_ts = ts, hr_case_id = ac_case_id c,
     hr_case_number = safe_string 128 (JStr (ac_case_number c)),
     hr_resource_id = safe_string 240 (JStr (ac_resource_id c)),
     hr_alertname = safe_string 120 (JStr (or_str (ac_detector c) (ac_rule_id c))),
     hr_severity = safe_string 32 (JStr (severity_str (ac_severity c))),
     hr_status = ac_status c, hr_received_at = case_last_at c,
     hr_event_type = None, hr_observation_id = None\<rparr>"

definition event_seen_at :: "case_event \<Rightarrow> string" where
  "event_seen_at e = or_str (ev_observed_at e) (ev_occurred_at e)"

definition history_event_row :: "atomic_case \<Rightarrow> case_event \<Rightarrow> rat \<Rightarrow> history_row" where
  "history_event_row c e ts = history_row_of c ts\<lparr>
     hr_event_type := Some (safe_string 80 (JStr (ev_event_type e))),
     hr_received_at := event_seen_at e,
     hr_observation_id := (if truthy (jget (ev_payload e) ''observation_id'')
       then Some (safe_string 128 (jget (ev_payload e) ''observation_id'')) else None)\<rparr>"

subsection \<open>The history of a resource\<close>

definition unhealthy_event :: "case_event \<Rightarrow> bool" where
  "unhealthy_event e \<longleftrightarrow> ev_event_type e = ''case_observed_unhealthy'' \<or> ev_event_type e = ''case_signal_changed''"

definition recent_event_rows :: "rat \<Rightarrow> atomic_case \<Rightarrow> case_event list \<Rightarrow> history_row list" where
  "recent_event_rows cutoff c events =
     filter (\<lambda>r. cutoff \<le> hr_ts r)
       (map (\<lambda>e. history_event_row c e (parse_ts (event_seen_at e))) (filter unhealthy_event events))"

definition rows_of_case :: "rat \<Rightarrow> atomic_case \<Rightarrow> case_event list \<Rightarrow> history_row list" where
  "rows_of_case cutoff c events =
     (let event_rows = recent_event_rows cutoff c events in
      if event_rows \<noteq> [] then event_rows
      else let ts = parse_ts (case_last_at c) in if ts < cutoff then [] else [history_row_of c ts])"

definition history_rows :: "string \<Rightarrow> rat \<Rightarrow> case_projection \<Rightarrow> history_row list \<Rightarrow> history_row list st" where
  "history_rows resource_id cutoff p rows = (case p of
     Meta m \<Rightarrow> retM rows
   | Atomic c \<Rightarrow>
       if resource_key (ac_resource_id c) \<noteq> resource_key resource_id then retM rows
       else bindM (case_events (ac_case_id c) None False) (\<lambda>events.
         retM (rows @ rows_of_case cutoff c events)))"

text \<open>\<open>rows.sort(key=..., reverse=True)\<close> and \<open>rows[:50]\<close>\<close>

definition newest_rows :: "history_row list \<Rightarrow> history_row list" where
  "newest_rows rows = take 50 (py_sort True hr_ts rows)"

definition history_since :: "string \<Rightarrow> rat \<Rightarrow> history_row list st" where
  "history_since resource_id cutoff =
     bindM (list_cases (Some ''atomic'') None 500) (\<lambda>cases.
     bindM (foldM (history_rows resource_id cutoff) cases []) (\<lambda>rows.
     retM (newest_rows rows)))"

definition week_seconds :: int where
  "week_seconds = 7 * 24 * 3600"

definition history_for :: "string \<Rightarrow> int \<Rightarrow> ('w, history_row list) lp" where
  "history_for resource_id window_seconds =
     bindM time_time (\<lambda>now. in_store (history_since resource_id (now - of_int window_seconds)))"

definition correlate :: "string \<Rightarrow> ('w, history_row list \<times> bool) lp" where
  "correlate resource_id =
     bindM (history_for resource_id week_seconds) (\<lambda>history. retM (history, 3 < length history))"

definition history_for_case :: "atomic_case \<Rightarrow> ('w, history_row list) lp" where
  "history_for_case c =
     (let resource_id = or_str (ac_resource_id c) (ac_fingerprint c) in
      if resource_id = [] then retM [] else history_for resource_id week_seconds)"

subsection \<open>The context of a case\<close>

definition event_dict :: "case_event \<Rightarrow> jdict" where
  "event_dict e =
     (let p = ev_payload e in
      [(''received_at'', JStr (ev_occurred_at e)), (''event_type'', JStr (ev_event_type e)),
       (''source'', JStr (ev_source e)),
       (''state'', JStr (safe_string 64 (or_json (jget p ''status'') (or_json (jget p ''state'') (JStr []))))),
       (''summary'', JStr (safe_string 1000 (or_json (jget p ''summary'')
          (or_json (jget p ''diagnostic_summary'') (or_json (jget p ''title'') (JStr (ev_event_type e))))))),
       (''payload'', bounded (JDict p))])"

definition graph_case_events :: "string \<Rightarrow> jdict list st" where
  "graph_case_events incident_id =
     bindM (resolve_case_identifier incident_id) (\<lambda>found. case truthy_id found of
       None \<Rightarrow> retM []
     | Some cid \<Rightarrow> bindM (case_events cid None False) (\<lambda>events. retM (map event_dict events)))"

definition timeline_event :: "atomic_case \<Rightarrow> case_event \<Rightarrow> json" where
  "timeline_event c e =
     (let p = ev_payload e in
      JDict [(''received_at'', JStr (ev_occurred_at e)),
       (''state'', JStr (safe_string 64 (or_json (jget p ''status'')
          (or_json (jget p ''state'') (JStr (case_status_str (ac_status c))))))),
       (''summary'', JStr (safe_string 1000 (or_json (jget p ''summary'')
          (or_json (jget p ''diagnostic_summary'') (or_json (jget p ''title'')
             (JStr (or_str (ac_summary c) (ac_title c))))))))])"

text \<open>\<open>max((...), default="")\<close> of texts.\<close>

definition latest_text :: "string list \<Rightarrow> string" where
  "latest_text xs = (case max_by id xs of None \<Rightarrow> [] | Some x \<Rightarrow> x)"

definition chronic_history :: "history_row list \<Rightarrow> json" where
  "chronic_history history =
     JDict [(''event_count'', JInt (int (length history))),
       (''case_count'', JInt (int (length (remdups (filter (\<lambda>i. i \<noteq> []) (map hr_case_id history)))))),
       (''last_seen'', JStr (latest_text (map hr_received_at history))),
       (''pattern'', JStr (if 1 < length history
          then ''repeated CaseService observations for this resource'' else []))]"

definition context_of :: "atomic_case \<Rightarrow> case_event list \<Rightarrow> history_row list \<Rightarrow> jdict" where
  "context_of c events history =
     [(''case_number'', JStr (safe_string 128 (JStr (ac_case_number c)))),
      (''case_status'', JStr (safe_string 64 (JStr (case_status_str (ac_status c))))),
      (''fingerprint'', JStr (safe_string 128 (JStr (ac_fingerprint c)))),
      (''resource_key'', JStr (safe_string 240 (JStr (ac_resource_id c)))),
      (''alert_identity'', bounded (JDict (ac_identity c))),
      (''event_timeline'', JList (map (timeline_event c) (drop (length events - 10) events))),
      (''latest_transition'', JNull),
      (''chronic_history_7d'', chronic_history history),
      (''topology_context'', JDict [(''parents_checked'', JList []), (''linked_parent_case'', JStr []),
         (''downstream_victims'', JList [])]),
      (''required_output_policy'', JDict [
         (''safe_automated_actions'', JStr ''read-only or low-risk actions that could be automated later''),
         (''high_impact_approval_needed_actions'',
          JStr ''restart, config, routing, firewall, VM, or storage changes'')])]"

definition case_context :: "string \<Rightarrow> ('w, jdict) lp" where
  "case_context incident_id =
     bindM (in_store (graph_case incident_id)) (\<lambda>found. case found of
       None \<Rightarrow> retM []
     | Some c \<Rightarrow>
         bindM (in_store (case_events (ac_case_id c) None False)) (\<lambda>events.
         bindM (history_for_case c) (\<lambda>history. retM (context_of c events history))))"

end
