(* ===== verification/Remediation.thy ===== *)
theory Remediation
  imports Diagnosis Graph_History Icinga_Ack
begin

section \<open>Proposals, approval and execution in the investigation graph\<close>

text \<open>
  The nodes of \<open>app/graph/nodes.py\<close> from the proposal to the verification of what was executed. A node takes
  the workflow state and returns it with its updates merged in. What is outside the repository is a
  parameter (\<open>graph_deps\<close>): the environment, the MCP server's tools, the agent, the Discord post, and the
  checkpointer of the graph library. The structured actions and the records of what was executed are
  dictionaries, as in the code. Each node runs in the world of \<open>Loop_State\<close>.
\<close>

subsection \<open>The workflow state\<close>

datatype validation_status = VS_not_run | VS_validated | VS_needs_more_evidence

record change_proposal =
  cp_proposal_id :: string
  cp_incident_id :: string
  cp_resource_id :: string
  cp_assessment :: string
  cp_root_cause_hypothesis :: string
  cp_confidence :: rat
  cp_evidence_refs :: "string list"
  cp_drift_findings :: "string list"
  cp_proposed_remediation :: "string list"
  cp_structured_actions :: "jdict list"
  cp_validation_status :: validation_status
  cp_human_review_rationale :: string

text \<open>
  \<open>WorkflowState\<close>; a key that a node may find missing is an option. The keys no node reads
  (\<open>related_alerts\<close>, \<open>latest_event\<close>, \<open>retry_counts\<close> and the like) are left out.
\<close>

record workflow =
  wf_incident_id :: string
  wf_case_number :: string
  wf_case_event_count :: int
  wf_fingerprint :: string
  wf_thread_id :: string
  wf_current_step :: string
  wf_updated_at :: string
  wf_normalized_alert :: jdict
  wf_resource_id :: string
  wf_case_context :: jdict
  wf_incident_history :: "history_row list"
  wf_chronic_instability :: bool
  wf_telemetry_cache :: jdict
  wf_active_specialist :: "specialist option"
  wf_routing_reason :: string
  wf_finding :: "finding option"
  wf_synthesis :: "synthesis option"
  wf_drift_findings :: "string list"
  wf_proposals :: "change_proposal list"
  wf_executed_actions :: "jdict list"
  wf_verification_results :: "jdict list"
  wf_approval_state :: string
  wf_operator_decision :: "jdict option"
  wf_final_summary :: jdict
  wf_model_name :: string
  wf_model_fallback_from :: "string list"

text \<open>
  \<open>gd_perimeter\<close>: the prompt block, the schema version and the manifest hash. \<open>gd_agent\<close> answers a prompt
  for a specialist with a synthesis, the name of its model and the models it fell back from.
  \<open>gd_announce\<close> posts the outcome of a standing grant, given whether it was executed, the workflow, the
  decision and the approval state. \<open>gd_pause\<close> and \<open>gd_resume\<close> keep and give back the state of a paused thread.
\<close>

record 'w graph_deps =
  gd_env :: "string \<Rightarrow> string option"
  gd_tool :: "'w tool_call"
  gd_agent :: "specialist \<Rightarrow> string \<Rightarrow> ('w, synthesis \<times> string \<times> string list) callback"
  gd_announce :: "bool \<Rightarrow> workflow \<Rightarrow> jdict \<Rightarrow> string \<Rightarrow> ('w, unit) callback"
  gd_supervisor_context :: string
  gd_perimeter :: "(string \<times> string \<times> string) option"
  gd_float_repr :: "rat \<Rightarrow> string"
  gd_pause :: "string \<Rightarrow> workflow \<Rightarrow> ('w, unit) callback"
  gd_resume :: "string \<Rightarrow> ('w, workflow) callback"

text \<open>\<open>{"current_step": step, "updated_at": utc_now(), ...}\<close>\<close>

definition at_step :: "string \<Rightarrow> workflow \<Rightarrow> ('w, workflow) lp" where
  "at_step step st =
     bindM (in_store utc_now) (\<lambda>now. retM (st\<lparr>wf_current_step := step, wf_updated_at := now\<rparr>))"

text \<open>\<open>state["key"]\<close>\<close>

definition require_key :: "string \<Rightarrow> 'a option \<Rightarrow> ('w, 'a) lp" where
  "require_key k v = (case v of Some x \<Rightarrow> retM x | None \<Rightarrow> raiseM (KeyError k))"

subsection \<open>The environment\<close>

definition getenv :: "'w graph_deps \<Rightarrow> string \<Rightarrow> string \<Rightarrow> string" where
  "getenv deps name otherwise = (case gd_env deps name of Some v \<Rightarrow> v | None \<Rightarrow> otherwise)"

definition env_flag :: "'w graph_deps \<Rightarrow> string \<Rightarrow> bool" where
  "env_flag deps name \<longleftrightarrow> getenv deps name ''0'' = ''1''"

text \<open>\<open>int(text)\<close>\<close>

definition py_int_of_str :: "string \<Rightarrow> exn + int" where
  "py_int_of_str s =
     (let t = py_strip s; (neg, u) = split_sign t; ds = filter (\<lambda>c. c \<noteq> CHR ''_'') u in
      if underscores_ok False u \<and> ds \<noteq> [] \<and> list_all is_digit ds
      then Inr (if neg then - digits_value ds else digits_value ds)
      else Inl (ValueError (''invalid literal for int() with base 10: '' @ repr_str s)))"

text \<open>\<open>raw.split(",")\<close>\<close>

fun split_commas :: "string \<Rightarrow> string list" where
  "split_commas [] = [[]]"
| "split_commas (c # s) =
     (if c = CHR '','' then [] # split_commas s
      else case split_commas s of p # ps \<Rightarrow> (c # p) # ps | [] \<Rightarrow> [[c]])"

definition standing_grant_supported :: "string list" where
  "standing_grant_supported = [''acknowledge_icinga'']"

definition standing_grant_classes :: "'w graph_deps \<Rightarrow> string list" where
  "standing_grant_classes deps =
     filter (\<lambda>t. t \<noteq> []) (map py_strip (split_commas (getenv deps ''NOC_STANDING_GRANT_ACTION_CLASSES'' [])))"

text \<open>The intersection of the two sets, in sorted order.\<close>

definition granted_classes :: "'w graph_deps \<Rightarrow> string list" where
  "granted_classes deps = sort (filter (\<lambda>c. c \<in> set (standing_grant_classes deps)) standing_grant_supported)"

subsection \<open>Structured actions\<close>

definition router_aliases :: "(string \<times> string) list" where
  "router_aliases =
     [(''cr1-nl1'', ''cr1-nl1''), (''cr1.nl1'', ''cr1-nl1''), (''cr1_nl1'', ''cr1-nl1''),
      (''cr1-de1'', ''cr1-de1''), (''cr1.de1'', ''cr1-de1''), (''cr1_de1'', ''cr1-de1'')]"

fun flatten_text :: "json \<Rightarrow> string" where
  "flatten_text (JDict d) = py_join '' '' (map (\<lambda>(k, v). flatten_text v) d)"
| "flatten_text (JList vs) = py_join '' '' (map flatten_text vs)"
| "flatten_text v = py_str v"

text \<open>\<open>str(uuid4())\<close>\<close>

definition uuid4_str :: "('z draws_scheme, string) comp" where
  "uuid4_str = bindM uuid4_hex (\<lambda>h. retM (py_join ''-''
     [take 8 h, take 4 (drop 8 h), take 4 (drop 12 h), take 4 (drop 16 h), drop 20 h]))"

definition new_action :: "string \<Rightarrow> jdict \<Rightarrow> ('w, jdict) lp" where
  "new_action kind inputs =
     bindM (in_store uuid4_str) (\<lambda>i. retM
       [(''action_id'', JStr (''act-'' @ i)), (''type'', JStr kind), (''inputs'', JDict inputs)])"

definition restart_hosts :: "string \<Rightarrow> string list" where
  "restart_hosts text =
     foldl (\<lambda>hosts (alias, canonical). if str_in alias text then add_new canonical hosts else hosts)
       [] router_aliases"

definition restart_text :: "synthesis \<Rightarrow> jdict \<Rightarrow> string list \<Rightarrow> string" where
  "restart_text s alert proposed =
     py_lower (py_join '' '' [sy_incident_summary s, py_join '' '' (sy_affected_objects s),
       py_join '' '' proposed, flatten_text (JDict alert)])"

definition approved_restart_actions :: "synthesis \<Rightarrow> jdict \<Rightarrow> string list \<Rightarrow> ('w, jdict list) lp" where
  "approved_restart_actions s alert proposed =
     (let text = restart_text s alert proposed in
      if \<not> str_in ''restart'' text \<or> \<not> str_in ''node_exporter'' text then retM []
      else mapM (\<lambda>host. new_action ''restart_service''
        [(''host'', JStr host), (''service'', JStr ''node_exporter'')]) (restart_hosts text))"

text \<open>The pattern of an intent to acknowledge, and \<open>search\<close>.\<close>

definition rx_ack_intent :: rx where
  "rx_ack_intent = rx_seq [Rx_WordBoundary,
     rx_alts (rx_lit ''ack'') [rx_lit ''acked'',
       Rx_Seq (rx_lit ''acknowledge'') (Rx_Opt (Rx_Class (\<lambda>c. lower_char c = CHR ''d'' \<or> lower_char c = CHR ''s''))),
       rx_seq [rx_lit ''acknowledg'', Rx_Opt (rx_lit ''e''), rx_lit ''ment'']],
     Rx_WordBoundary]"

fun rx_search :: "rx \<Rightarrow> char option \<Rightarrow> string \<Rightarrow> bool" where
  "rx_search r prev [] \<longleftrightarrow> rx_match r (prev, []) \<noteq> []"
| "rx_search r prev (c # s) \<longleftrightarrow> rx_match r (prev, c # s) \<noteq> [] \<or> rx_search r (Some c) s"

text \<open>A value that is not a dictionary has no \<open>get\<close>.\<close>

definition dict_or_empty :: "json \<Rightarrow> exn + jdict" where
  "dict_or_empty v =
     (if \<not> truthy v then Inr []
      else case v of JDict d \<Rightarrow> Inr d
        | _ \<Rightarrow> Inl (OtherError ''AttributeError'' ''object has no attribute get''))"

definition approved_icinga_ack_actions :: "jdict \<Rightarrow> string list \<Rightarrow> ('w, jdict list) lp" where
  "approved_icinga_ack_actions alert proposed =
     (if \<not> rx_search rx_ack_intent None (py_join '' '' proposed) then retM []
      else bindM (liftM (dict_or_empty (jget alert ''commonLabels''))) (\<lambda>labels.
        let host = or_json (jget labels ''host'') (jget labels ''hostname'');
            service = or_json (jget labels ''service'') (jget labels ''check_command'')
        in if \<not> truthy host then retM []
           else bindM (new_action ''acknowledge_icinga''
             [(''host'', host), (''service'', or_json service (JStr [])),
              (''comment'', JStr ''Approved NOC acknowledgement.'')]) (\<lambda>a. retM [a])))"

definition structured_actions :: "synthesis \<Rightarrow> jdict \<Rightarrow> string list \<Rightarrow> ('w, jdict list) lp" where
  "structured_actions s alert proposed =
     bindM (approved_restart_actions s alert proposed) (\<lambda>restarts.
     bindM (approved_icinga_ack_actions alert proposed) (\<lambda>acks. retM (restarts @ acks)))"

definition stored_structured_actions :: "workflow \<Rightarrow> jdict list" where
  "stored_structured_actions st = concat (map cp_structured_actions (wf_proposals st))"

subsection \<open>Validation, drift and the proposal\<close>

definition evidence_validation :: "workflow \<Rightarrow> ('w, workflow) lp" where
  "evidence_validation st =
     bindM (require_key ''specialist_finding'' (wf_finding st)) (\<lambda>f.
     bindM (require_key ''diagnostic_synthesis'' (wf_synthesis st)) (\<lambda>s.
     bindM (liftM (validated_evidence f s)) (\<lambda>(f, s).
     bindM (at_step ''evidence_validation'' st) (\<lambda>st.
       retM (st\<lparr>wf_finding := Some f, wf_synthesis := Some s\<rparr>)))))"

definition golden_state_drift_check :: "workflow \<Rightarrow> ('w, workflow) lp" where
  "golden_state_drift_check st =
     bindM (at_step ''golden_state_drift_check'' st) (\<lambda>st.
       retM (st\<lparr>wf_drift_findings := drift_findings_for (wf_resource_id st) (wf_telemetry_cache st)\<rparr>))"

definition proposed_checks :: "synthesis \<Rightarrow> string list" where
  "proposed_checks s = (case sy_remediation_proposal s of
     Some r \<Rightarrow> rm_proposed_actions r | None \<Rightarrow> sy_recommended_next_checks s)"

definition proposal_refs :: "finding \<Rightarrow> synthesis \<Rightarrow> string list" where
  "proposal_refs f s = (case sy_remediation_proposal s of
     Some r \<Rightarrow> rm_evidence_refs r | None \<Rightarrow> map ei_tool (fd_evidence f))"

definition build_proposal :: "workflow \<Rightarrow> finding \<Rightarrow> synthesis \<Rightarrow> ('w, change_proposal) lp" where
  "build_proposal st f s =
     bindM (structured_actions s (wf_normalized_alert st) (proposed_checks s)) (\<lambda>actions.
     bindM (in_store uuid4_str) (\<lambda>pid. retM \<lparr>
       cp_proposal_id = pid, cp_incident_id = wf_incident_id st, cp_resource_id = wf_resource_id st,
       cp_assessment = fd_summary f, cp_root_cause_hypothesis = fd_assessment f,
       cp_confidence = fd_confidence f, cp_evidence_refs = proposal_refs f s,
       cp_drift_findings = wf_drift_findings st, cp_proposed_remediation = proposed_checks s,
       cp_structured_actions = actions,
       cp_validation_status = (if fd_confidence f < 8 / 10 then VS_needs_more_evidence else VS_validated),
       cp_human_review_rationale = or_str (sy_human_escalation_reason s)
         ''Diagnostic tranche requires human review before any execution.''\<rparr>))"

definition proposal_build :: "workflow \<Rightarrow> ('w, workflow) lp" where
  "proposal_build st =
     bindM (require_key ''specialist_finding'' (wf_finding st)) (\<lambda>f.
     bindM (require_key ''diagnostic_synthesis'' (wf_synthesis st)) (\<lambda>s.
     bindM (liftM (check_synthesis s)) (\<lambda>s.
     bindM (build_proposal st f s) (\<lambda>p.
     bindM (at_step ''proposal_build'' st) (\<lambda>st. retM (st\<lparr>wf_proposals := [p]\<rparr>))))))"

subsection \<open>The envelope of a standing grant\<close>

text \<open>
  The matching problems among the rows: None when one of them is not a WARNING. An infinite state is an
  \<open>OverflowError\<close>, which nothing catches.
\<close>

definition names_service :: "string \<Rightarrow> jdict \<Rightarrow> bool" where
  "names_service wanted p \<longleftrightarrow>
     (let name = str_or_empty (jget p ''name'') in
      wanted = [] \<or> wanted = py_lower (py_strip (service_of_name name)) \<or> wanted = py_lower (py_strip name))"

fun count_warnings :: "string \<Rightarrow> string \<Rightarrow> json list \<Rightarrow> exn + nat option" where
  "count_warnings host wanted [] = Inr (Some 0)"
| "count_warnings host wanted (JDict p # ps) =
     (if py_strip (str_or_empty (jget p ''host'')) \<noteq> host \<or> \<not> names_service wanted p
      then count_warnings host wanted ps
      else case problem_state p of
        Inl e \<Rightarrow> Inl e
      | Inr state \<Rightarrow>
          if state = Some 1
          then (case count_warnings host wanted ps of
             Inl e \<Rightarrow> Inl e | Inr n \<Rightarrow> Inr (map_option Suc n))
          else Inr None)"
| "count_warnings host wanted (_ # ps) = count_warnings host wanted ps"

definition exactly_one_warning :: "string \<Rightarrow> json \<Rightarrow> json \<Rightarrow> exn + bool" where
  "exactly_one_warning host service answer = (case answer of
     JDict res \<Rightarrow> (case problem_rows res of Inl e \<Rightarrow> Inl e
       | Inr rows \<Rightarrow> (case count_warnings host (py_lower (py_strip (str_or_empty service))) rows of
           Inl e \<Rightarrow> Inl e | Inr n \<Rightarrow> Inr (n = Some 1)))
   | _ \<Rightarrow> Inr False)"

definition icinga_is_unique_warning :: "'w graph_deps \<Rightarrow> string \<Rightarrow> json \<Rightarrow> ('w, bool) lp" where
  "icinga_is_unique_warning deps host service =
     (if host = [] then retM False
      else bindM (except_exception
          (bindM (call_out (gd_tool deps ''icinga_list_problems''
              (JDict [(''object_type'', JStr ''service''), (''limit'', JInt 100)]))) (\<lambda>r. retM (Some r)))
          (\<lambda>e. retM None)) (\<lambda>answer. case answer of
            None \<Rightarrow> retM False | Some res \<Rightarrow> liftM (exactly_one_warning host service res)))"

text \<open>\<open>action.get("inputs") if isinstance(action.get("inputs"), dict) else {}\<close>\<close>

definition inputs_if_dict :: "jdict \<Rightarrow> jdict" where
  "inputs_if_dict action = (case jget action ''inputs'' of JDict d \<Rightarrow> d | _ \<Rightarrow> [])"

definition input_host :: "jdict \<Rightarrow> string" where
  "input_host inputs = str_or_empty (or_json (jget inputs ''host'') (jget inputs ''host_name''))"

definition input_service :: "jdict \<Rightarrow> json" where
  "input_service inputs = or_json (jget inputs ''service'') (jget inputs ''service_name'')"

primrec envelope_holds_for :: "'w graph_deps \<Rightarrow> jdict list \<Rightarrow> ('w, bool) lp" where
  "envelope_holds_for deps [] = retM True"
| "envelope_holds_for deps (action # actions) =
     (let inputs = inputs_if_dict action in
      bindM (icinga_is_unique_warning deps (input_host inputs) (input_service inputs)) (\<lambda>ok.
      if ok then envelope_holds_for deps actions else retM False))"

definition grant_envelope_holds :: "'w graph_deps \<Rightarrow> workflow \<Rightarrow> ('w, bool) lp" where
  "grant_envelope_holds deps st = envelope_holds_for deps (stored_structured_actions st)"

definition action_class :: "jdict \<Rightarrow> string" where
  "action_class action = py_str (jget action ''type'')"

text \<open>\<open>_standing_grant_decision\<close>\<close>

definition grant_covers :: "'w graph_deps \<Rightarrow> workflow \<Rightarrow> bool" where
  "grant_covers deps st \<longleftrightarrow>
     granted_classes deps \<noteq> [] \<and> env_flag deps ''NOC_ENABLE_APPROVED_EXECUTION'' \<and>
     stored_structured_actions st \<noteq> [] \<and>
     list_all (\<lambda>a. action_class a \<in> set (granted_classes deps)) (stored_structured_actions st)"

definition standing_grant_decision :: "'w graph_deps \<Rightarrow> workflow \<Rightarrow> ('w, jdict option) lp" where
  "standing_grant_decision deps st =
     (if \<not> grant_covers deps st then retM None
      else bindM (in_store utc_now) (\<lambda>now. retM (Some
        [(''decision'', JStr ''approved''), (''operator'', JStr ''standing-grant''),
         (''comment'', JStr (''standing grant covers: '' @ py_join '', '' (granted_classes deps))),
         (''decided_at'', JStr now)])))"

end
