(* ===== verification/Execution.thy ===== *)
theory Execution
  imports Remediation
begin

section \<open>Executing and verifying what was approved\<close>

text \<open>
  The nodes \<open>prepare_approval\<close>, \<open>approval_interrupt\<close>, \<open>execute_approved_remediation\<close> and \<open>verify_remediation\<close> of
  \<open>app/graph/nodes.py\<close>. An action's type is a text and its inputs are a dictionary, as \<open>_structured_actions\<close>
  writes them. The interrupt of the graph library pauses the thread the first time; when the thread is resumed
  the node runs again from its start, and the interrupt then returns the value given to resume with.
  Waiting between the attempts of a verification changes nothing the model sees.
\<close>

subsection \<open>Calling a tool\<close>

fun exn_class :: "exn \<Rightarrow> string" where
  "exn_class (ValueError m) = ''ValueError''"
| "exn_class (KeyError k) = ''KeyError''"
| "exn_class (TypeError m) = ''TypeError''"
| "exn_class (RuntimeError m) = ''RuntimeError''"
| "exn_class (OverflowError m) = ''OverflowError''"
| "exn_class (OtherError c m) = c"

text \<open>\<open>str(exc)\<close>\<close>

fun exn_str :: "exn \<Rightarrow> string" where
  "exn_str (ValueError m) = m"
| "exn_str (KeyError k) = repr_str k"
| "exn_str (TypeError m) = m"
| "exn_str (RuntimeError m) = m"
| "exn_str (OverflowError m) = m"
| "exn_str (OtherError c m) = m"

definition failed_call :: "exn \<Rightarrow> json" where
  "failed_call e = JDict [(''ok'', JBool False), (''error_type'', JStr (exn_class e)),
     (''sanitized_error'', JStr (exn_str e))]"

definition call_tool :: "'w graph_deps \<Rightarrow> string \<Rightarrow> jdict \<Rightarrow> ('w, json) lp" where
  "call_tool deps name arguments =
     except_exception (call_out (gd_tool deps name (JDict arguments))) (\<lambda>e. retM (failed_call e))"

text \<open>\<open>isinstance(v, dict) and v.get(k)\<close>, and \<open>d.get(k, default)\<close>\<close>

definition field_of :: "json \<Rightarrow> string \<Rightarrow> json" where
  "field_of v k = (case v of JDict d \<Rightarrow> jget d k | _ \<Rightarrow> JNull)"

definition get_or :: "jdict \<Rightarrow> string \<Rightarrow> json \<Rightarrow> json" where
  "get_or d k v = (case dict_get d k of Some x \<Rightarrow> x | None \<Rightarrow> v)"

subsection \<open>Authorization\<close>

definition authorization_payload :: "workflow \<Rightarrow> jdict \<Rightarrow> string \<Rightarrow> int \<Rightarrow> jdict" where
  "authorization_payload st action cls expiry =
     [(''action_id'', JStr (str_or_empty (jget action ''action_id''))),
      (''case_id'', JStr (wf_incident_id st)),
      (''operator'', JStr (py_str (or_json
         (jget (case wf_operator_decision st of Some d \<Rightarrow> d | None \<Rightarrow> []) ''operator'') (JStr ''noc-agent'')))),
      (''action_class'', JStr (or_str cls (str_or_empty (jget action ''type'')))),
      (''expiry'', JInt expiry)]"

definition signing_secret :: "'w graph_deps \<Rightarrow> string" where
  "signing_secret deps = or_str (getenv deps ''HYRULE_MCP_ACTION_SIGNING_SECRET'' [])
     (getenv deps ''NOC_APPROVAL_SIGNING_SECRET'' [])"

text \<open>An empty \<open>cls\<close> stands for the absent argument \<open>action_class\<close>.\<close>

definition action_authorization :: "'w graph_deps \<Rightarrow> workflow \<Rightarrow> jdict \<Rightarrow> string \<Rightarrow> ('w, jdict) lp" where
  "action_authorization deps st action cls =
     bindM time_time (\<lambda>now.
     bindM (liftM (py_int_of_str (getenv deps ''NOC_ACTION_AUTH_TTL_SECONDS'' ''300''))) (\<lambda>ttl.
     retM (signed_authorization (signing_secret deps)
       (authorization_payload st action cls (py_trunc now + ttl)))))"

definition authorization_fingerprint :: "jdict \<Rightarrow> string" where
  "authorization_fingerprint auth =
     (let signature = str_or_empty (jget auth ''signature'') in
      if signature = [] then [] else ''sha256:'' @ take 32 (sha256_hex signature))"

subsection \<open>One action\<close>

definition blocked :: "jdict \<Rightarrow> string \<Rightarrow> jdict" where
  "blocked action reason =
     [(''action'', JDict action), (''ok'', JBool False),
      (''result'', JDict [(''error_type'', JStr ''policy_blocked''), (''sanitized_error'', JStr reason)])]"

definition by_standing_grant :: "jdict \<Rightarrow> bool" where
  "by_standing_grant decision \<longleftrightarrow> str_or_empty (jget decision ''operator'') = ''standing-grant''"

definition ack_arguments :: "jdict \<Rightarrow> jdict \<Rightarrow> jdict \<Rightarrow> jdict" where
  "ack_arguments inputs decision auth =
     [(''host_name'', or_json (jget inputs ''host'') (jget inputs ''host_name'')),
      (''service_name'', or_json (jget inputs ''service'') (jget inputs ''service_name'')),
      (''author'', get_or decision ''operator'' (JStr ''noc-agent'')),
      (''comment'', or_json (jget inputs ''comment'')
         (get_or decision ''comment'' (JStr ''Approved by NOC operator.''))),
      (''action_authorization'', JDict auth)]"

definition grant_ttl :: "'w graph_deps \<Rightarrow> exn + int" where
  "grant_ttl deps = (case py_int_of_str (or_str (getenv deps ''NOC_STANDING_GRANT_ACK_TTL_S'' ''86400'') ''86400'') of
     Inl e \<Rightarrow> Inl e | Inr n \<Rightarrow> Inr (max 60 n))"

definition decided_at :: "jdict \<Rightarrow> ('w, json) lp" where
  "decided_at decision =
     (if truthy (jget decision ''decided_at'') then retM (jget decision ''decided_at'')
      else bindM (in_store utc_now) (\<lambda>now. retM (JStr now)))"

definition run_action :: "'w graph_deps \<Rightarrow> jdict \<Rightarrow> jdict \<Rightarrow> string \<Rightarrow> jdict \<Rightarrow> ('w, jdict) lp" where
  "run_action deps action decision tool_name arguments =
     bindM (call_tool deps tool_name arguments) (\<lambda>result.
     bindM (decided_at decision) (\<lambda>decided. retM
       [(''action'', JDict action), (''execution_mode'', JStr ''real_action''),
        (''approved_by'', get_or decision ''operator'' (JStr [])),
        (''approval_comment'', get_or decision ''comment'' (JStr [])),
        (''approved_at'', decided), (''result'', result),
        (''ok'', JBool (truthy (field_of result ''ok'')))]))"

definition execute_granted_ack :: "'w graph_deps \<Rightarrow> jdict \<Rightarrow> jdict \<Rightarrow> jdict \<Rightarrow> ('w, jdict) lp" where
  "execute_granted_ack deps action decision arguments =
     bindM (icinga_is_unique_warning deps (str_or_empty (jget arguments ''host_name''))
       (jget arguments ''service_name'')) (\<lambda>ok.
     if \<not> ok then retM (blocked action ''Standing grant requires a unique WARNING-state Icinga problem'')
     else bindM (liftM (grant_ttl deps)) (\<lambda>ttl.
       bindM time_time (\<lambda>now.
       run_action deps action decision ''icinga_acknowledge_alert''
         (arguments @ [(''expiry'', JInt (py_trunc now + ttl)), (''notify'', JBool False)]))))"

definition execute_real_action :: "'w graph_deps \<Rightarrow> workflow \<Rightarrow> jdict \<Rightarrow> jdict \<Rightarrow> ('w, jdict) lp" where
  "execute_real_action deps st action decision =
     (let standing = by_standing_grant decision; cls = jget action ''type'' in
      if standing \<and> cls \<notin> JStr ` set standing_grant_supported
      then retM (blocked action ''Action class is not covered by a standing grant'')
      else
        let inputs = inputs_if_dict action in
        bindM (action_authorization deps st action []) (\<lambda>auth.
        if cls = JStr ''restart_service'' then
          run_action deps action decision ''os_service_restart''
            (dict_set ''action_authorization'' (JDict auth) inputs)
        else if cls = JStr ''acknowledge_icinga'' then
          (let arguments = ack_arguments inputs decision auth in
           if standing then execute_granted_ack deps action decision arguments
           else run_action deps action decision ''icinga_acknowledge_alert'' arguments)
        else retM (blocked action ''Unsupported action type'')))"

definition guard_of :: "json \<Rightarrow> json" where
  "guard_of result = field_of result ''guard''"

definition prepare_noop_guard :: "'w graph_deps \<Rightarrow> workflow \<Rightarrow> jdict \<Rightarrow> jdict \<Rightarrow> ('w, jdict) lp" where
  "prepare_noop_guard deps st action decision =
     bindM (action_authorization deps st action ''noop_rollback_guard'') (\<lambda>auth.
     let inputs = inputs_if_dict action in
     bindM (call_tool deps ''prepare_commit_confirm''
       [(''host'', JStr (input_host inputs)), (''service'', input_service inputs),
        (''action_authorization'', JDict auth)]) (\<lambda>result.
     let guard_id = field_of (guard_of result) ''guard_id''; ok = (guard_id \<noteq> JNull) in
     bindM (decided_at decision) (\<lambda>decided.
     bindM (in_store utc_now) (\<lambda>now. retM
       [(''action'', JDict action), (''execution_mode'', JStr ''noop_guard''), (''guard_id'', guard_id),
        (''approval_source'', JStr ''operator_signed''),
        (''authorization_fingerprint'', JStr (authorization_fingerprint auth)),
        (''approved_by'', get_or decision ''operator'' (JStr [])), (''approved_at'', decided), (''result'', result),
        (''execution_audit'', JList [JDict [(''ts'', JStr now),
          (''event'', JStr (if ok then ''guard_prepared'' else ''guard_prepare_failed'')),
          (''operator'', get_or decision ''operator'' (JStr [])), (''guard_id'', guard_id)]]),
        (''ok'', JBool ok)]))))"

subsection \<open>Execution\<close>

definition decision_of :: "workflow \<Rightarrow> jdict" where
  "decision_of st = (case wf_operator_decision st of Some d \<Rightarrow> d | None \<Rightarrow> [])"

definition execution_state :: "bool \<Rightarrow> jdict list \<Rightarrow> jdict list \<Rightarrow> string" where
  "execution_state noop actions results =
     (if actions = [] then ''approved_no_executable_action''
      else if list_all (\<lambda>r. truthy (jget r ''ok'')) results
      then (if noop then ''noop_guards_prepared'' else ''executed'')
      else ''execution_failed'')"

definition announce_standing_grant :: "'w graph_deps \<Rightarrow> workflow \<Rightarrow> jdict \<Rightarrow> string \<Rightarrow> ('w, unit) lp" where
  "announce_standing_grant deps st decision approval_state =
     except_exception (call_out (gd_announce deps (approval_state = ''executed'') st decision approval_state))
       (\<lambda>e. retM ())"

definition execute_approved_remediation :: "'w graph_deps \<Rightarrow> workflow \<Rightarrow> ('w, workflow) lp" where
  "execute_approved_remediation deps st =
     (let decision = decision_of st in
      if jget decision ''decision'' \<noteq> JStr ''approved'' then
        bindM (at_step ''execute_approved_remediation'' st) (\<lambda>st. retM (st\<lparr>
          wf_approval_state := py_str (get_or decision ''decision'' (JStr ''acknowledged''))\<rparr>))
      else if \<not> env_flag deps ''NOC_ENABLE_APPROVED_EXECUTION'' then
        bindM (at_step ''execute_approved_remediation'' st) (\<lambda>st. retM (st\<lparr>
          wf_approval_state := ''execution_disabled''\<rparr>))
      else
        let noop = env_flag deps ''NOC_ENABLE_NOOP_ROLLBACK_GUARDS''; actions = stored_structured_actions st in
        bindM (mapM (\<lambda>a. if noop then prepare_noop_guard deps st a decision
          else execute_real_action deps st a decision) actions) (\<lambda>results.
        let state = execution_state noop actions results in
        bindM (whenM (by_standing_grant decision) (announce_standing_grant deps st decision state)) (\<lambda>_.
        bindM (at_step ''execute_approved_remediation'' st) (\<lambda>st. retM (st\<lparr>
          wf_approval_state := state,
          wf_executed_actions := wf_executed_actions st @ results\<rparr>)))))"

subsection \<open>Verification\<close>

definition prometheus_instance_for :: "string \<Rightarrow> string option" where
  "prometheus_instance_for host =
     (let canonical = (case dict_get router_aliases host of Some c \<Rightarrow> c | None \<Rightarrow> host) in
      dict_get [(''cr1-nl1'', ''[2a0c:b641:b50::a]:9100''), (''cr1-de1'', ''[2a0c:b641:b50::b]:9100'')] canonical)"

text \<open>Whether a row reads 1; a row that is no dictionary does not.\<close>

definition row_is_up :: "json \<Rightarrow> bool" where
  "row_is_up row \<longleftrightarrow> py_str (field_of row ''value'') = ''1''"

definition answer_rows :: "jdict \<Rightarrow> exn + json list" where
  "answer_rows response =
     (if truthy (jget response ''result'') then Inr [jget response ''result'']
      else case dict_or_empty (jget response ''data'') of Inl e \<Rightarrow> Inl e
        | Inr d \<Rightarrow> Inr (if truthy (jget d ''result'') then [jget d ''result''] else []))"

text \<open>Iterating a text or a dictionary gives texts, which read nothing; a number or True cannot be iterated.\<close>

definition prometheus_up :: "json \<Rightarrow> exn + bool" where
  "prometheus_up response = (case response of
     JDict d \<Rightarrow>
       if \<not> truthy (jget d ''ok'') then Inr False
       else (case answer_rows d of Inl e \<Rightarrow> Inl e
         | Inr [] \<Rightarrow> Inr False
         | Inr (rows # _) \<Rightarrow> (case rows of
             JList vs \<Rightarrow> Inr (list_ex row_is_up vs)
           | JStr _ \<Rightarrow> Inr False | JDict _ \<Rightarrow> Inr False
           | _ \<Rightarrow> Inl (TypeError ''object is not iterable'')))
   | _ \<Rightarrow> Inr False)"

primrec probe_up :: "'w graph_deps \<Rightarrow> string \<Rightarrow> int list \<Rightarrow> ('w, jdict list \<times> bool) lp" where
  "probe_up deps query [] = retM ([], False)"
| "probe_up deps query (attempt # later) =
     bindM (call_tool deps ''prometheus_query'' [(''query'', JStr query)]) (\<lambda>response.
     bindM (liftM (prometheus_up response)) (\<lambda>ok.
     let entry = [(''attempt'', JInt attempt), (''query'', JStr query), (''ok'', JBool ok),
       (''response'', response)] in
     if ok then retM ([entry], True)
     else bindM (probe_up deps query later) (\<lambda>(entries, up). retM (entry # entries, up))))"

definition up_query :: "string \<Rightarrow> string" where
  "up_query i = ''up{instance='' @ [CHR 0x22] @ i @ [CHR 0x22] @ ''}''"

definition attempts_field :: "jdict list \<Rightarrow> string \<times> json" where
  "attempts_field entries = (''attempts'', JList (map JDict entries))"

definition verify_host :: "'w graph_deps \<Rightarrow> string \<Rightarrow> ('w, jdict) lp" where
  "verify_host deps host = (case prometheus_instance_for host of
     None \<Rightarrow> retM [(''host'', JStr host), (''ok'', JBool False),
       (''error'', JStr ''No Prometheus instance mapping for host''), attempts_field []]
   | Some i \<Rightarrow>
       bindM (probe_up deps (up_query i) [1, 2, 3]) (\<lambda>(entries, up). retM
         [(''host'', JStr host), (''instance'', JStr i), (''ok'', JBool up), attempts_field entries]))"

definition finalize_noop_guard :: "'w graph_deps \<Rightarrow> workflow \<Rightarrow> jdict \<Rightarrow> ('w, jdict) lp" where
  "finalize_noop_guard deps st item =
     (let guard_id = jget item ''guard_id'';
          action = (case jget item ''action'' of JDict d \<Rightarrow> d | _ \<Rightarrow> []) in
      if \<not> truthy guard_id then
        retM [(''guard_id'', JNull), (''mode'', JStr ''noop_guard''), (''ok'', JBool False),
          (''event'', JStr ''missing_guard'')]
      else
        bindM (action_authorization deps st action ''noop_rollback_guard'') (\<lambda>auth.
        let arguments = [(''guard_id'', guard_id), (''action_authorization'', JDict auth)] in
        bindM (call_tool deps ''confirm_change'' arguments) (\<lambda>result.
        if field_of (guard_of result) ''status'' = JStr ''confirmed'' then
          retM [(''guard_id'', guard_id), (''mode'', JStr ''noop_guard''), (''ok'', JBool True),
            (''event'', JStr ''guard_confirmed''), (''result'', result)]
        else
          bindM (call_tool deps ''rollback_change'' arguments) (\<lambda>rollback. retM
            [(''guard_id'', guard_id), (''mode'', JStr ''noop_guard''), (''ok'', JBool False),
             (''event'', JStr ''guard_rolled_back''), (''result'', rollback)]))))"

definition verify_item :: "'w graph_deps \<Rightarrow> workflow \<Rightarrow> jdict \<Rightarrow> ('w, jdict) lp" where
  "verify_item deps st item =
     (if jget item ''execution_mode'' = JStr ''noop_guard'' then finalize_noop_guard deps st item
      else
        let action = (case jget item ''action'' of JDict d \<Rightarrow> d | _ \<Rightarrow> []);
            inputs = (case jget action ''inputs'' of JDict d \<Rightarrow> d | _ \<Rightarrow> action);
            host = input_host inputs in
        if jget action ''type'' = JStr ''acknowledge_icinga'' then
          retM [(''host'', JStr host), (''ok'', JBool True), (''method'', JStr ''ack_execution_result''),
            attempts_field []]
        else verify_host deps host)"

definition verify_remediation :: "'w graph_deps \<Rightarrow> workflow \<Rightarrow> ('w, workflow) lp" where
  "verify_remediation deps st =
     (let executed = filter (\<lambda>item. truthy (jget item ''ok'')) (wf_executed_actions st) in
      bindM (mapM (verify_item deps st) executed) (\<lambda>results.
      bindM (at_step ''verify_remediation'' st) (\<lambda>st. retM (st\<lparr>
        wf_approval_state :=
          (if executed = [] then wf_approval_state st
           else if list_all (\<lambda>r. truthy (jget r ''ok'')) results then ''verified''
           else ''verification_failed''),
        wf_verification_results := wf_verification_results st @ results\<rparr>))))"

subsection \<open>The approval\<close>

text \<open>The node, given what the thread is resumed with, if it is: None is the pause.\<close>

definition approval_interrupt ::
  "'w graph_deps \<Rightarrow> jdict option \<Rightarrow> workflow \<Rightarrow> ('w, workflow option) lp" where
  "approval_interrupt deps resumed st =
     bindM (standing_grant_decision deps st) (\<lambda>decision.
     bindM (case decision of None \<Rightarrow> retM False | Some _ \<Rightarrow> grant_envelope_holds deps st) (\<lambda>granted.
     if granted then
       bindM (at_step ''approval_interrupt'' st) (\<lambda>st. retM (Some (st\<lparr>
         wf_operator_decision := decision, wf_approval_state := ''approved''\<rparr>)))
     else case resumed of
       None \<Rightarrow> retM None
     | Some d \<Rightarrow>
         bindM (at_step ''approval_interrupt'' st) (\<lambda>st. retM (Some (st\<lparr>
           wf_operator_decision := Some d,
           wf_approval_state := py_str (get_or d ''decision'' (JStr ''acknowledged''))\<rparr>)))))"

definition validation_status_str :: "validation_status \<Rightarrow> string" where
  "validation_status_str v = (case v of VS_not_run \<Rightarrow> ''not_run'' | VS_validated \<Rightarrow> ''validated''
     | VS_needs_more_evidence \<Rightarrow> ''needs_more_evidence'')"

definition dump_proposal :: "(rat \<Rightarrow> string) \<Rightarrow> change_proposal \<Rightarrow> json" where
  "dump_proposal float_repr p = JDict
     [(''proposal_id'', JStr (cp_proposal_id p)), (''incident_id'', JStr (cp_incident_id p)),
      (''resource_id'', JStr (cp_resource_id p)), (''assessment'', JStr (cp_assessment p)),
      (''root_cause_hypothesis'', JStr (cp_root_cause_hypothesis p)),
      (''confidence'', JFloat (float_repr (cp_confidence p))),
      (''evidence_refs'', JList (map JStr (cp_evidence_refs p))),
      (''drift_findings'', JList (map JStr (cp_drift_findings p))),
      (''proposed_remediation'', JList (map JStr (cp_proposed_remediation p))),
      (''structured_actions'', JList (map JDict (cp_structured_actions p))),
      (''validation_status'', JStr (validation_status_str (cp_validation_status p))),
      (''human_review_rationale'', JStr (cp_human_review_rationale p))]"

definition approval_summary :: "'w graph_deps \<Rightarrow> workflow \<Rightarrow> string \<Rightarrow> string \<Rightarrow> jdict" where
  "approval_summary deps st title now =
     [(''incident_id'', JStr (wf_incident_id st)), (''case_number'', JStr (wf_case_number st)),
      (''resource_id'', JStr (wf_resource_id st)), (''title'', JStr title),
      (''status'', JStr ''waiting_approval''), (''chronic_instability'', JBool (wf_chronic_instability st)),
      (''active_specialist'', (case wf_active_specialist st of
         None \<Rightarrow> JNull | Some s \<Rightarrow> JStr (specialist_str s))),
      (''proposal_count'', JInt (int (length (wf_proposals st)))), (''updated_at'', JStr now),
      (''thread_id'', JStr (wf_thread_id st)),
      (''proposals'', JList (map (dump_proposal (gd_float_repr deps)) (wf_proposals st))),
      (''fingerprint'', JStr (wf_fingerprint st)), (''event_count'', JInt (wf_case_event_count st)),
      (''case_context'', JDict (wf_case_context st))]"

definition prepare_approval :: "'w graph_deps \<Rightarrow> workflow \<Rightarrow> ('w, workflow) lp" where
  "prepare_approval deps st =
     bindM (require_key ''diagnostic_synthesis'' (wf_synthesis st)) (\<lambda>s.
     bindM (liftM (check_synthesis s)) (\<lambda>s.
     bindM (in_store utc_now) (\<lambda>now.
     let title = sy_incident_summary s; summary = approval_summary deps st title now in
     bindM (in_store (put_summary (wf_incident_id st) summary)) (\<lambda>_.
     bindM (in_store (update_case (wf_incident_id st)
       [(''status'', JStr ''waiting_approval''), (''summary'', JDict summary),
        (''thread_id'', JStr (wf_thread_id st)), (''diagnostic_summary'', JStr title)])) (\<lambda>_.
     bindM (at_step ''prepare_approval'' st) (\<lambda>st. retM (st\<lparr>
       wf_approval_state := ''waiting_approval'', wf_final_summary := summary\<rparr>)))))))"

end
