(* ===== verification/Graph_Run.thy ===== *)
theory Graph_Run
  imports Execution
begin

section \<open>A run of the investigation graph\<close>

text \<open>
  \<open>app/graph/graph.py\<close> and \<open>app/graph_runtime.py\<close>: the order of the nodes, a run from an alert to the approval
  point or to the end, and an operator's decision. The case a run starts from is the dictionary the graph
  memory gives of it (\<^const>\<open>case_dict\<close>). The state of a paused thread is kept by the checkpointer. The
  traces of a run are advisory and left out.
\<close>

subsection \<open>The nodes before the proposal\<close>

definition correlate_and_dedupe :: "workflow \<Rightarrow> ('w, workflow) lp" where
  "correlate_and_dedupe st =
     bindM (correlate (wf_resource_id st)) (\<lambda>(history, chronic).
     bindM (at_step ''correlate_and_dedupe'' st) (\<lambda>st. retM (st\<lparr>
       wf_incident_history := history, wf_chronic_instability := chronic\<rparr>)))"

definition recall_history :: "workflow \<Rightarrow> ('w, workflow) lp" where
  "recall_history st =
     bindM (history_for (wf_resource_id st) week_seconds) (\<lambda>history.
     bindM (at_step ''recall_history'' st) (\<lambda>st. retM (st\<lparr>
       wf_incident_history := history, wf_chronic_instability := 3 < length history\<rparr>)))"

definition supervisor_node :: "workflow \<Rightarrow> ('w, workflow) lp" where
  "supervisor_node st =
     bindM (at_step ''supervisor_route'' st) (\<lambda>st.
     let r = supervisor_route (wf_normalized_alert st) in
     retM (st\<lparr>wf_active_specialist := Some (rt_specialist r), wf_routing_reason := rt_reason r\<rparr>))"

definition perimeter_block :: "'w graph_deps \<Rightarrow> string" where
  "perimeter_block deps = (case gd_perimeter deps of Some (block, _) \<Rightarrow> block | None \<Rightarrow> [])"

definition specialist_prompt :: "'w graph_deps \<Rightarrow> workflow \<Rightarrow> specialist \<Rightarrow> string" where
  "specialist_prompt deps st s =
     gd_supervisor_context deps @ newline @ newline @ perimeter_block deps @ newline @ newline @
     ''Case context (dynamic intake state, not standalone evidence):'' @ newline @
     py_str (JDict (wf_case_context st)) @ newline @ newline @
     ''When proposing remediation, separate safe/automatable follow-up from high-impact actions that need approval. '' @
     ''Mention chronic 7-day behavior when it is present in case context. '' @
     ''If no remediation proposal is safe, explain exactly what evidence is missing.'' @ newline @
     ''Active specialist: '' @ specialist_str s @ newline @
     ''Resource: '' @ wf_resource_id st @ newline @
     ''Chronic instability: '' @ py_str (JBool (wf_chronic_instability st)) @ newline @
     ''Investigate this normalized alert payload and return DiagnosticSynthesis:'' @ newline @
     py_str (JDict (wf_normalized_alert st))"

text \<open>
  The agent's answer is a validated \<open>DiagnosticSynthesis\<close>: an answer that breaks the contract ends the run with an exception.
  The tool the agent is given to link its own case to a parent (\<open>_case_link_toolset\<close>):
\<close>

definition run_specialist :: "'w graph_deps \<Rightarrow> specialist \<Rightarrow> workflow \<Rightarrow> ('w, workflow) lp" where
  "run_specialist deps s st =
     bindM (call_out (gd_agent deps s (specialist_prompt deps st s))) (\<lambda>(answer, model, fallback_from).
     bindM (liftM (check_synthesis answer)) (\<lambda>syn.
     bindM (at_step (specialist_str s @ ''_specialist'') st) (\<lambda>st. retM (st\<lparr>
       wf_active_specialist := Some s, wf_synthesis := Some syn, wf_finding := Some (finding_of s syn),
       wf_model_name := model, wf_model_fallback_from := fallback_from\<rparr>))))"

definition link_tool :: "string \<Rightarrow> string \<Rightarrow> string \<Rightarrow> string \<Rightarrow> json list \<Rightarrow> jdict st" where
  "link_tool incident_id child_case_id parent_case_id reason evidence_refs =
     (if child_case_id \<noteq> incident_id then
        retM [(''ok'', JBool False), (''error'', JStr ''child_case_id must match the active case'')]
      else link_to_parent_case child_case_id parent_case_id reason evidence_refs)"

subsection \<open>The graph\<close>

definition routed_specialist :: "string \<Rightarrow> specialist" where
  "routed_specialist node =
     (if node = ''bgp_specialist'' then Spec_bgp
      else if node = ''firewall_specialist'' then Spec_security_firewall else Spec_infrastructure)"

definition specialist_node :: "'w graph_deps \<Rightarrow> workflow \<Rightarrow> ('w, workflow) lp" where
  "specialist_node deps st =
     (let active = (case wf_active_specialist st of Some s \<Rightarrow> specialist_str s | None \<Rightarrow> []) in
      run_specialist deps (routed_specialist (route_specialist active active)) st)"

definition diagnose :: "'w graph_deps \<Rightarrow> workflow \<Rightarrow> ('w, workflow) lp" where
  "diagnose deps st =
     bindM (correlate_and_dedupe st) (\<lambda>st.
     bindM (recall_history st) (\<lambda>st.
     bindM (supervisor_node st) (\<lambda>st.
     bindM (specialist_node deps st) (\<lambda>st.
     bindM (evidence_validation st) (\<lambda>st.
     bindM (golden_state_drift_check st) (\<lambda>st.
     bindM (proposal_build st) (\<lambda>st.
     prepare_approval deps st)))))))"

datatype graph_outcome = Paused workflow | Ended workflow

primrec outcome_state :: "graph_outcome \<Rightarrow> workflow" where
  "outcome_state (Paused st) = st"
| "outcome_state (Ended st) = st"

text \<open>From the approval point on, given what the thread is resumed with.\<close>

definition approve_and_execute ::
  "'w graph_deps \<Rightarrow> jdict option \<Rightarrow> workflow \<Rightarrow> ('w, graph_outcome) lp" where
  "approve_and_execute deps resumed st =
     bindM (approval_interrupt deps resumed st) (\<lambda>r. case r of
       None \<Rightarrow> bindM (call_out (gd_pause deps (wf_thread_id st) st)) (\<lambda>_. retM (Paused st))
     | Some st \<Rightarrow>
         if wf_approval_state st = ''approved''
         then bindM (execute_approved_remediation deps st) (\<lambda>st.
              bindM (verify_remediation deps st) (\<lambda>st. retM (Ended st)))
         else retM (Ended st))"

definition invoke_graph :: "'w graph_deps \<Rightarrow> workflow \<Rightarrow> ('w, graph_outcome) lp" where
  "invoke_graph deps st = bindM (diagnose deps st) (approve_and_execute deps None)"

subsection \<open>The final decision\<close>

definition failed_states :: "string list" where
  "failed_states = [''verification_failed'', ''execution_failed'', ''approved_no_executable_action'']"

definition final_status :: "string \<Rightarrow> string" where
  "final_status approval_state =
     (if approval_state = ''verified'' then ''resolved''
      else if approval_state \<in> set failed_states then ''waiting_approval'' else ''approved'')"

text \<open>What the case is told of a decision.\<close>

definition decision_fields :: "jdict \<Rightarrow> jdict \<Rightarrow> jdict" where
  "decision_fields decision summary =
     [(''status'', JStr (if jget summary ''status'' = JStr ''waiting_approval''
        then ''waiting_approval'' else ''resolved'')),
      (''decision_status'', jget summary ''status''), (''operator_decision'', JDict decision),
      (''executed_actions'', get_or summary ''executed_actions'' (JList [])),
      (''verification_results'', get_or summary ''verification_results'' (JList []))]"

definition store_decision :: "string \<Rightarrow> jdict \<Rightarrow> jdict \<Rightarrow> ('w, jdict) lp" where
  "store_decision incident_id decision summary =
     bindM (in_store (put_summary incident_id summary)) (\<lambda>_.
     bindM (in_store (update_case incident_id (decision_fields decision summary))) (\<lambda>_. retM summary))"

definition persist_final_decision :: "string \<Rightarrow> jdict \<Rightarrow> workflow \<Rightarrow> ('w, jdict option) lp" where
  "persist_final_decision incident_id decision final =
     bindM (in_store (get_summary incident_id)) (\<lambda>found. case found of
       None \<Rightarrow> retM None
     | Some summary \<Rightarrow>
         if summary = [] then retM None
         else bindM (in_store utc_now) (\<lambda>now.
           bindM (store_decision incident_id decision (dict_update summary
             [(''status'', JStr ''approved''), (''operator_decision'', JDict decision),
              (''updated_at'', JStr now),
              (''approval_state'', JStr (wf_approval_state final)),
              (''executed_actions'', JList (map JDict (wf_executed_actions final))),
              (''verification_results'', JList (map JDict (wf_verification_results final))),
              (''status'', JStr (final_status (wf_approval_state final)))])) (\<lambda>s. retM (Some s))))"

subsection \<open>A run from an alert\<close>

definition text_field :: "jdict \<Rightarrow> string \<Rightarrow> string" where
  "text_field d k = (case jget d k of JStr s \<Rightarrow> s | _ \<Rightarrow> [])"

definition count_field :: "jdict \<Rightarrow> string \<Rightarrow> int" where
  "count_field d k = (case jget d k of JInt n \<Rightarrow> n | _ \<Rightarrow> 0)"

definition initial_state :: "jdict \<Rightarrow> jdict \<Rightarrow> string \<Rightarrow> jdict \<Rightarrow> string \<Rightarrow> workflow" where
  "initial_state alert c thread_id context now = \<lparr>
     wf_incident_id = text_field c ''incident_id'', wf_case_number = text_field c ''case_number'',
     wf_case_event_count = count_field c ''event_count'', wf_fingerprint = text_field c ''fingerprint'',
     wf_thread_id = thread_id, wf_current_step = ''start'', wf_updated_at = now,
     wf_normalized_alert = alert, wf_resource_id = resource_id_from_alert alert,
     wf_case_context = context, wf_incident_history = [], wf_chronic_instability = False,
     wf_telemetry_cache = [], wf_active_specialist = None, wf_routing_reason = [], wf_finding = None,
     wf_synthesis = None, wf_drift_findings = [], wf_proposals = [], wf_executed_actions = [],
     wf_verification_results = [], wf_approval_state = ''pending'', wf_operator_decision = None,
     wf_final_summary = [], wf_model_name = [], wf_model_fallback_from = []\<rparr>"

definition thread_of_case :: "jdict \<Rightarrow> ('w, string) lp" where
  "thread_of_case c =
     (if text_field c ''thread_id'' \<noteq> [] then retM (text_field c ''thread_id'') else in_store uuid4_str)"

text \<open>What a run leaves in the case: a standing grant's outcome, or the wait for an approval.\<close>

definition record_run :: "string \<Rightarrow> string \<Rightarrow> synthesis \<Rightarrow> workflow \<Rightarrow> ('w, unit) lp" where
  "record_run incident_id thread_id s st =
     (let decision = decision_of st in
      if jget decision ''operator'' = JStr ''standing-grant'' then
        bindM (persist_final_decision incident_id decision st) (\<lambda>_. retM ())
      else
        bindM (case_context incident_id) (\<lambda>context.
        bindM (in_store (update_case incident_id
          [(''status'', JStr ''waiting_approval''), (''thread_id'', JStr thread_id),
           (''diagnostic_summary'', JStr (sy_incident_summary s)), (''case_context'', JDict context)])) (\<lambda>_.
        retM ())))"

definition run_investigation_graph ::
  "'w graph_deps \<Rightarrow> jdict \<Rightarrow> jdict \<Rightarrow> ('w, synthesis \<times> workflow) lp" where
  "run_investigation_graph deps alert c =
     seqM (raise_if (c = []) (RuntimeError ''Investigation graph requires an explicit case''))
     (let incident_id = text_field c ''incident_id'' in
      bindM (thread_of_case c) (\<lambda>thread_id.
      bindM (case_context incident_id) (\<lambda>context.
      bindM (in_store utc_now) (\<lambda>created_at.
      bindM (in_store utc_now) (\<lambda>now.
      bindM (in_store (set_case_thread incident_id thread_id)) (\<lambda>_.
      bindM (invoke_graph deps (initial_state alert c thread_id context now)) (\<lambda>r.
      let st = outcome_state r in
      bindM (require_key ''diagnostic_synthesis'' (wf_synthesis st)) (\<lambda>s.
      bindM (liftM (check_synthesis s)) (\<lambda>s.
      bindM (record_run incident_id thread_id s st) (\<lambda>_. retM (s, st)))))))))))"

subsection \<open>An operator's decision\<close>

definition resolved_identifier :: "string \<Rightarrow> ('w, string) lp" where
  "resolved_identifier incident_id =
     bindM (in_store (resolve_case_identifier incident_id)) (\<lambda>r.
     retM (case truthy_id r of Some cid \<Rightarrow> cid | None \<Rightarrow> incident_id))"

definition resume_investigation :: "'w graph_deps \<Rightarrow> string \<Rightarrow> jdict \<Rightarrow> ('w, workflow option) lp" where
  "resume_investigation deps incident_id decision =
     bindM (resolved_identifier incident_id) (\<lambda>cid.
     bindM (in_store (get_summary cid)) (\<lambda>found.
     let thread_id = (case found of Some d \<Rightarrow> text_field d ''thread_id'' | None \<Rightarrow> []) in
     if thread_id = [] then retM None
     else bindM (call_out (gd_resume deps thread_id)) (\<lambda>st.
       bindM (approve_and_execute deps (Some decision) st) (\<lambda>r. retM (Some (outcome_state r))))))"

definition decided_status :: "json \<Rightarrow> string" where
  "decided_status d = (if d = JStr ''approved'' then ''approved''
     else if d = JStr ''rejected'' then ''rejected'' else ''finalized'')"

definition record_operator_decision :: "'w graph_deps \<Rightarrow> string \<Rightarrow> jdict \<Rightarrow> ('w, jdict option) lp" where
  "record_operator_decision deps incident_id given =
     bindM (resolved_identifier incident_id) (\<lambda>cid.
     let decision = dict_set ''incident_id'' (JStr cid) given;
         status = get_or decision ''decision'' (JStr ''acknowledged'') in
     bindM (in_store (get_summary cid)) (\<lambda>found. case found of
       None \<Rightarrow> retM None
     | Some summary \<Rightarrow>
         if summary = [] then retM None
         else
           bindM (if status = JStr ''approved'' \<and> text_field summary ''thread_id'' \<noteq> []
             then resume_investigation deps cid decision else retM None) (\<lambda>final.
           case final of
             Some st \<Rightarrow> bindM (persist_final_decision cid decision st) (\<lambda>s.
               retM (Some (case s of Some d \<Rightarrow> (if d = [] then summary else d) | None \<Rightarrow> summary)))
           | None \<Rightarrow>
               bindM (in_store utc_now) (\<lambda>now.
               bindM (store_decision cid decision (dict_update summary
                 [(''status'', JStr (decided_status status)), (''operator_decision'', JDict decision),
                  (''updated_at'', JStr now)])) (\<lambda>s. retM (Some s))))))"

end
