(* ===== verification/Graph_Memory_Spec.thy ===== *)
theory Graph_Memory_Spec
  imports Graph_Memory Service_Contract
begin

section \<open>What the graph's memory guarantees\<close>

text \<open>
  The values it writes are bounded and writing them again changes nothing; an update touches the fields the
  graph owns and no other case; a summary is read back.
\<close>

subsection \<open>Bounded values\<close>

definition clean_text :: "nat \<Rightarrow> string \<Rightarrow> bool" where
  "clean_text limit s \<longleftrightarrow> length s \<le> limit \<and> list_all (\<lambda>c. kept_char c \<and> code c \<noteq> 0) s"

fun json_within :: "nat \<Rightarrow> nat \<Rightarrow> json \<Rightarrow> bool" where
  "json_within limit 0 v \<longleftrightarrow> (case v of JStr s \<Rightarrow> clean_text limit s | _ \<Rightarrow> False)"
| "json_within limit (Suc depth) v \<longleftrightarrow> (case v of
     JStr s \<Rightarrow> clean_text limit s
   | JList vs \<Rightarrow> length vs \<le> 50 \<and> list_all (json_within limit depth) vs
   | JDict d \<Rightarrow> length d \<le> 100 \<and> distinct (dict_keys d) \<and>
       list_all (\<lambda>kv. clean_text 80 (fst kv) \<and> json_within limit depth (snd kv)) d
   | _ \<Rightarrow> True)"

lemma safe_string_clean: "clean_text limit (safe_string limit v)"
  by (auto simp: clean_text_def safe_string_def list_all_iff dest: in_set_takeD)

lemma safe_string_fixed: "clean_text limit s \<Longrightarrow> safe_string limit (JStr s) = s"
  by (simp add: clean_text_def safe_string_def list_all_iff filter_id_conv)

lemma dict_set_new: "k \<notin> set (dict_keys d) \<Longrightarrow> dict_set k v d = d @ [(k, v)]"
  by (induction d) auto

lemma dict_update_new: "distinct (dict_keys (d @ e)) \<Longrightarrow> dict_update d e = d @ e"
proof (induction e arbitrary: d)
  case Nil
  then show ?case by (simp add: dict_update_def)
next
  case (Cons kv e)
  have "dict_update d (kv # e) = dict_update (dict_set (fst kv) (snd kv) d) e"
    by (simp add: dict_update_def)
  also have "dict_set (fst kv) (snd kv) d = d @ [kv]"
    using Cons.prems by (subst dict_set_new) auto
  also have "dict_update (d @ [kv]) e = (d @ [kv]) @ e"
    using Cons.prems by (intro Cons.IH) simp
  finally show ?case by simp
qed

lemma dict_of_distinct: "distinct (dict_keys d) \<Longrightarrow> dict_of d = d"
  by (simp add: dict_of_def dict_update_new)

lemma dict_update_items:
  "set (dict_update d e) \<subseteq> set d \<union> set e \<and> length (dict_update d e) \<le> length d + length e \<and>
   (distinct (dict_keys d) \<longrightarrow> distinct (dict_keys (dict_update d e)))"
proof (induction e arbitrary: d)
  case Nil
  then show ?case by (simp add: dict_update_def)
next
  case (Cons kv e)
  have "dict_update d (kv # e) = dict_update (dict_set (fst kv) (snd kv) d) e"
    by (simp add: dict_update_def)
  moreover have "set (dict_set (fst kv) (snd kv) d) \<subseteq> insert kv (set d)"
    using set_dict_set [of "fst kv" "snd kv" d] by auto
  moreover have "length (dict_set (fst kv) (snd kv) d) \<le> Suc (length d)" by (rule length_dict_set)
  moreover have "distinct (dict_keys d) \<longrightarrow> distinct (dict_keys (dict_set (fst kv) (snd kv) d))"
    using distinct_dict_set by blast
  moreover note Cons.IH [of "dict_set (fst kv) (snd kv) d"]
  ultimately show ?case by (simp only: list.set list.size) (intro conjI impI; (blast | linarith))
qed

lemma bounded_within: "json_within limit depth (bounded_json limit depth v)"
proof (induction depth arbitrary: v)
  case 0
  then show ?case by (simp add: safe_string_clean)
next
  case (Suc depth)
  show ?case
  proof (cases v)
    case (JDict d)
    let ?e = "map (\<lambda>kv. (safe_string 80 (JStr (fst kv)), bounded_json limit depth (snd kv))) (take 100 d)"
    have "length (dict_of ?e) \<le> 100" using dict_update_items [of "[]" ?e] by (simp add: dict_of_def)
    moreover have "distinct (dict_keys (dict_of ?e))" using dict_update_items [of "[]" ?e] by (simp add: dict_of_def)
    moreover have "set (dict_of ?e) \<subseteq> set ?e" using dict_update_items [of "[]" ?e] by (simp add: dict_of_def)
    ultimately show ?thesis using JDict Suc by (auto simp: list_all_iff safe_string_clean)
  qed (use Suc in \<open>auto simp: safe_string_clean list_all_iff\<close>)
qed

lemma within_fixed: "json_within limit depth v \<Longrightarrow> bounded_json limit depth v = v"
proof (induction depth arbitrary: v)
  case 0
  then show ?case by (auto simp: safe_string_fixed split: json.splits)
next
  case (Suc depth)
  show ?case
  proof (cases v)
    case (JDict d)
    have "map (\<lambda>kv. (safe_string 80 (JStr (fst kv)), bounded_json limit depth (snd kv))) (take 100 d) = d"
      using Suc JDict by (auto simp: list_all_iff safe_string_fixed intro!: map_idI)
    with Suc.prems JDict show ?thesis by (simp add: dict_of_distinct)
  next
    case (JList vs)
    then show ?thesis using Suc by (auto simp: list_all_iff intro!: map_idI)
  qed (use Suc in \<open>auto simp: safe_string_fixed\<close>)
qed

text \<open>
  What the graph writes into a case is bounded, whatever an agent or a tool answered: every text is at most
  as long as the limit and without control characters, every list and dictionary is cut to 50 and 100 entries,
  nothing is nested deeper than the depth, and bounding a bounded value changes nothing.
\<close>

theorem graph_values_bounded:
  "json_within limit depth (bounded_json limit depth v) \<and>
   bounded_json limit depth (bounded_json limit depth v) = bounded_json limit depth v"
  using bounded_within within_fixed by blast

subsection \<open>The case behind an identifier\<close>

definition holds_case :: "store \<Rightarrow> string \<Rightarrow> atomic_case \<Rightarrow> bool" where
  "holds_case s cid c \<longleftrightarrow> dict_get (st_cases s) cid = Some (Atomic c) \<and> ac_case_id c = cid \<and>
     cid \<noteq> [] \<and> py_strip cid = cid"

lemma resolve_held: "holds_case s cid c \<Longrightarrow> resolve_case_identifier cid s = (Inr (Some cid), s)"
  by (simp add: holds_case_def resolve_case_identifier_def bindM_app get_case_def case_by_id_def
      del: map_of_eq_Some_iff)

lemma graph_case_held: "holds_case s cid c \<Longrightarrow> graph_case cid s = (Inr (Some c), s)"
  by (simp add: graph_case_def bindM_app resolve_held truthy_id_def)
    (simp add: holds_case_def get_case_def case_by_id_def del: map_of_eq_Some_iff)

lemma require_held: "holds_case s cid c \<Longrightarrow> require_graph_case cid s = (Inr c, s)"
  by (simp add: require_graph_case_def bindM_app graph_case_held)

lemma guard_held: "holds_case s cid c \<Longrightarrow> case_write_guard cid m s = m s"
  by (simp add: holds_case_def case_write_guard_def bindM_app case_by_id_def del: map_of_eq_Some_iff)

lemma append_event_stays: "append_event e s = (r, t) \<Longrightarrow> st_cases t = st_cases s \<and> (\<exists>e'. r = Inr e')"
  by (auto simp: append_event_def store_event_locked_def bindM_app seqM_app write_event_def
      split: option.splits)

text \<open>The tail of both writers: an event is logged and a value returned.\<close>

definition log_event :: "(case_event \<Rightarrow> case_event) \<Rightarrow> 'a \<Rightarrow> 'a st" where
  "log_event f x = bindM (new_event None None f) (\<lambda>e. bindM (append_event e) (\<lambda>_. retM x))"

lemma log_event_run: "log_event f x s = (r, t) \<Longrightarrow> r = Inr x \<and> st_cases t = st_cases s"
  by (auto simp: log_event_def new_event_def bindM_app new_id_app utc_now_app
      split: prod.splits sum.splits dest!: append_event_stays)

lemma upsert_atomic_run: "upsert_case (Atomic c) s =
    (Inr (Atomic c), s\<lparr>st_cases := dict_set (ac_case_id c) (Atomic c) (st_cases s)\<rparr>)"
  by (simp add: upsert_case_def seqM_app put_case_def proj_case_id_def)

subsection \<open>Updates\<close>

text \<open>The fields of a case the graph owns.\<close>

definition graph_owned :: "atomic_case \<Rightarrow> atomic_case \<Rightarrow> bool" where
  "graph_owned c c' \<longleftrightarrow> c' = c\<lparr>ac_status := ac_status c', ac_resolved_at := ac_resolved_at c',
     ac_summary := ac_summary c', ac_last_diagnosis := ac_last_diagnosis c',
     ac_updated_at := ac_updated_at c'\<rparr>"

definition status_after :: "jdict \<Rightarrow> case_status \<Rightarrow> case_status" where
  "status_after safe_fields old =
     (let status = str_or_empty (jget safe_fields ''status'')
      in if status = [] then old else graph_case_status status old)"

definition stamps_resolution :: "jdict \<Rightarrow> atomic_case \<Rightarrow> bool" where
  "stamps_resolution safe_fields c \<longleftrightarrow>
     (str_or_empty (jget safe_fields ''status'') \<noteq> [] \<and>
      terminal_case_status (status_after safe_fields (ac_status c)) \<and> ac_resolved_at c = None)"

lemma status_by_graph_simps [simp]:
  "ac_status (status_by_graph d c) = status_after d (ac_status c)"
  "ac_resolved_at (status_by_graph d c) = ac_resolved_at c" "ac_case_id (status_by_graph d c) = ac_case_id c"
  "ac_last_diagnosis (status_by_graph d c) = ac_last_diagnosis c"
  "ac_case_number (status_by_graph d c) = ac_case_number c"
  "graph_owned c (status_by_graph d c)"
  by (simp_all add: status_by_graph_def status_after_def graph_owned_def Let_def)

lemma updated_by_graph_simps [simp]:
  "ac_status (updated_by_graph d c) = ac_status c" "ac_resolved_at (updated_by_graph d c) = ac_resolved_at c"
  "ac_case_id (updated_by_graph d c) = ac_case_id c"
  "stored_summary (updated_by_graph d c) = Some (summary_payload (merged_summary d c))"
  by (simp_all add: updated_by_graph_def Let_def stored_summary_def)

lemma updated_by_graph_owned: "graph_owned c c1 \<Longrightarrow>
    graph_owned c (updated_by_graph d (c1\<lparr>ac_resolved_at := r\<rparr>)\<lparr>ac_updated_at := t\<rparr>)"
  by (cases c; cases c1) (simp add: updated_by_graph_def graph_owned_def Let_def)

definition updated_case :: "jdict \<Rightarrow> atomic_case \<Rightarrow> string option \<Rightarrow> string \<Rightarrow> atomic_case" where
  "updated_case d c r t =
     updated_by_graph d ((status_by_graph d c)\<lparr>ac_resolved_at := r\<rparr>)\<lparr>ac_updated_at := t\<rparr>"

definition fields_event :: "jdict \<Rightarrow> atomic_case \<Rightarrow> case_event \<Rightarrow> case_event" where
  "fields_event d c e = e\<lparr>
     ev_case_id := Some (ac_case_id c), ev_event_type := ''graph_case_updated'', ev_actor_type := Act_graph,
     ev_payload := [(''status'', JStr (safe_string 64 (JStr (str_or_empty (jget d ''status''))))),
       (''thread_id'', JStr (safe_string 128 (jget d ''thread_id''))),
       (''diagnostic_summary'', JStr (safe_string 500 (jget d ''diagnostic_summary'')))]\<rparr>"

lemma record_fields_eq:
  "record_fields d c = bindM (if stamps_resolution d c
      then bindM utc_now (\<lambda>now. retM (status_by_graph d c\<lparr>ac_resolved_at := Some now\<rparr>))
      else retM (status_by_graph d c)) (\<lambda>c. bindM utc_now (\<lambda>now.
      bindM (upsert_case (Atomic (updated_by_graph d c\<lparr>ac_updated_at := now\<rparr>))) (\<lambda>_.
      log_event (fields_event d c) (case_dict (updated_by_graph d c\<lparr>ac_updated_at := now\<rparr>)))))"
  by (simp add: record_fields_def Let_def stamps_resolution_def log_event_def fields_event_def [abs_def])

lemma record_fields_run:
  assumes "record_fields d c s = (r, t)"
  shows "\<exists>resolved now. r = Inr (case_dict (updated_case d c resolved now)) \<and>
    st_cases t = dict_set (ac_case_id c) (Atomic (updated_case d c resolved now)) (st_cases s) \<and>
    (if stamps_resolution d c then resolved \<noteq> None else resolved = ac_resolved_at c)"
proof (cases "stamps_resolution d c")
  case True
  let ?c1 = "status_by_graph d c\<lparr>ac_resolved_at := Some (isoformat (clock s (ticks s)))\<rparr>"
  let ?c' = "updated_case d c (Some (isoformat (clock s (ticks s)))) (isoformat (clock s (Suc (ticks s))))"
  have "log_event (fields_event d ?c1) (case_dict ?c')
      (s\<lparr>ticks := Suc (Suc (ticks s)), st_cases := dict_set (ac_case_id c) (Atomic ?c') (st_cases s)\<rparr>) = (r, t)"
    using assms True
    by (simp add: record_fields_eq bindM_assoc bindM_Inr [OF utc_now_app] bindM_Inr [OF upsert_atomic_run]
        updated_case_def)
  from log_event_run [OF this] True show ?thesis by auto
next
  case False
  have same: "(status_by_graph d c)\<lparr>ac_resolved_at := ac_resolved_at c\<rparr> = status_by_graph d c"
    by (simp add: status_by_graph_def Let_def)
  let ?c' = "updated_case d c (ac_resolved_at c) (isoformat (clock s (ticks s)))"
  have "log_event (fields_event d (status_by_graph d c)) (case_dict ?c')
      (s\<lparr>ticks := Suc (ticks s), st_cases := dict_set (ac_case_id c) (Atomic ?c') (st_cases s)\<rparr>) = (r, t)"
    using assms False
    by (simp add: record_fields_eq bindM_Inr [OF utc_now_app] bindM_Inr [OF upsert_atomic_run]
        updated_case_def same)
  from log_event_run [OF this] False show ?thesis by auto
qed

lemma update_case_run:
  assumes "holds_case s cid c" and "update_case cid given s = (r, t)"
  shows "\<exists>resolved now. let d = bounded_dict 1000 5 given; c' = updated_case d c resolved now in
    r = Inr (case_dict c') \<and> st_cases t = dict_set cid (Atomic c') (st_cases s) \<and>
    (if stamps_resolution d c then resolved \<noteq> None else resolved = ac_resolved_at c)"
proof -
  have cid: "ac_case_id c = cid" using assms(1) by (simp add: holds_case_def)
  have "record_fields (bounded_dict 1000 5 given) c s = (r, t)"
    using assms by (simp add: update_case_def bindM_app require_held cid guard_held)
  from record_fields_run [OF this] show ?thesis by (simp add: cid Let_def)
qed

text \<open>
  An update by the graph writes only its own fields: of the case it names it may change the status, the
  time of resolution, the summary, the last diagnosis and the time of the update, and of no other case
  anything. The status becomes what \<open>_case_status\<close> makes of the one given, and a case that ends has a time of resolution.
\<close>

theorem graph_update_owned:
  assumes "holds_case s cid c" and "update_case cid given s = (r, t)"
  shows "\<exists>c'. r = Inr (case_dict c') \<and> holds_case t cid c' \<and> graph_owned c c' \<and>
    ac_status c' = status_after (bounded_dict 1000 5 given) (ac_status c) \<and>
    (stamps_resolution (bounded_dict 1000 5 given) c \<longrightarrow> ac_resolved_at c' \<noteq> None) \<and>
    (\<forall>other. other \<noteq> cid \<longrightarrow> dict_get (st_cases t) other = dict_get (st_cases s) other)"
proof -
  let ?d = "bounded_dict 1000 5 given"
  from update_case_run [OF assms] obtain resolved now where
    u: "r = Inr (case_dict (updated_case ?d c resolved now))"
      "st_cases t = dict_set cid (Atomic (updated_case ?d c resolved now)) (st_cases s)"
      "if stamps_resolution ?d c then resolved \<noteq> None else resolved = ac_resolved_at c"
    by (auto simp: Let_def)
  have "holds_case t cid (updated_case ?d c resolved now)"
    using assms(1) u(2) by (simp add: holds_case_def updated_case_def del: map_of_eq_Some_iff)
  moreover have "graph_owned c (updated_case ?d c resolved now)"
    unfolding updated_case_def by (rule updated_by_graph_owned) simp
  ultimately show ?thesis using u
    by (intro exI [of _ "updated_case ?d c resolved now"])
      (auto simp: updated_case_def split: if_splits simp del: map_of_eq_Some_iff)
qed

subsection \<open>Summaries\<close>

lemma summarised_simps [simp]:
  "ac_case_id (summarised d c) = ac_case_id c" "ac_resolved_at (summarised d c) = ac_resolved_at c"
  "stored_summary (summarised d c) = Some d"
  by (simp_all add: summarised_def Let_def stored_summary_def)

lemma put_summary_run:
  assumes "holds_case s cid c" and "put_summary cid summary s = (r, t)"
  shows "\<exists>now. r = Inr () \<and>
    st_cases t = dict_set cid (Atomic (summarised (summary_payload summary) c\<lparr>ac_updated_at := now\<rparr>)) (st_cases s)"
proof -
  have cid: "ac_case_id c = cid" using assms(1) by (simp add: holds_case_def)
  have "record_summary summary c s = (r, t)"
    using assms by (simp add: put_summary_def bindM_app require_held cid guard_held)
  then obtain f where "log_event f () (s\<lparr>ticks := Suc (ticks s), st_cases := dict_set (ac_case_id c)
      (Atomic (summarised (summary_payload summary) c\<lparr>ac_updated_at := isoformat (clock s (ticks s))\<rparr>))
      (st_cases s)\<rparr>) = (r, t)"
    by (simp add: record_summary_def Let_def bindM_Inr [OF utc_now_app] bindM_Inr [OF upsert_atomic_run]
        flip: log_event_def)
  from log_event_run [OF this] show ?thesis by (auto simp: cid)
qed

lemma put_summary_held:
  assumes "holds_case s cid c" and "put_summary cid summary s = (r, t)"
  shows "\<exists>now. r = Inr () \<and> holds_case t cid (summarised (summary_payload summary) c\<lparr>ac_updated_at := now\<rparr>)"
  using put_summary_run [OF assms] assms(1) by (auto simp: holds_case_def simp del: map_of_eq_Some_iff)

lemma get_summary_held:
  "holds_case s cid c \<Longrightarrow> get_summary cid s = (Inr (map_option (bounded_dict 1000 5) (stored_summary c)), s)"
  by (simp add: get_summary_def bindM_app graph_case_held)

text \<open>Bounds only widen; a dictionary within them is stored and read as it is.\<close>

lemma clean_text_mono: "clean_text l s \<Longrightarrow> l \<le> l' \<Longrightarrow> clean_text l' s"
  by (simp add: clean_text_def)

lemma json_within_mono: "json_within l d v \<Longrightarrow> l \<le> l' \<Longrightarrow> json_within l' (d + k) v"
proof (induction l d v rule: json_within.induct)
  case (1 l v)
  then show ?case by (cases k) (auto intro: clean_text_mono split: json.splits)
next
  case (2 l d v)
  then show ?case by (cases v) (auto simp: list_all_iff intro: clean_text_mono)
qed

lemma bounded_dict_within: "json_within l d (JDict e) \<Longrightarrow> bounded_dict l d e = e"
  by (simp add: bounded_dict_def within_fixed)

lemma dict_set_same: "dict_get d k = Some v \<Longrightarrow> dict_set k v d = d"
  by (induction d) (auto split: if_splits)

definition short_text :: "string \<Rightarrow> jdict \<Rightarrow> bool" where
  "short_text k d \<longleftrightarrow> (case dict_get d k of
     None \<Rightarrow> True | Some v \<Rightarrow> (case v of JStr s \<Rightarrow> clean_text 128 s | _ \<Rightarrow> False))"

lemma clip_key_short: "short_text k d \<Longrightarrow> clip_key k 128 d = d"
  by (auto simp: short_text_def clip_key_def safe_string_fixed dict_set_same split: option.splits json.splits)

text \<open>The context of the case, which the graph puts into its summary, is not stored with it.\<close>

definition without_context :: "jdict \<Rightarrow> jdict" where
  "without_context d = filter (\<lambda>kv. fst kv \<noteq> ''case_context'') d"

definition plain_summary :: "jdict \<Rightarrow> bool" where
  "plain_summary d \<longleftrightarrow> json_within 1000 5 (JDict d) \<and>
     short_text ''incident_id'' d \<and> short_text ''thread_id'' d"

lemma plain_summary_payload:
  assumes "plain_summary (without_context d)" shows "summary_payload d = without_context d"
proof -
  have "json_within 2000 (5 + 1) (JDict (without_context d))"
    using assms json_within_mono [of 1000 5 "JDict (without_context d)" 2000 1] by (simp add: plain_summary_def)
  then show ?thesis using assms
    by (simp add: summary_payload_def bounded_dict_within plain_summary_def clip_key_short flip: without_context_def)
qed

text \<open>
  C36: A summary the graph stores in a case is the summary its readers get, but for the context of the case, which is
  dropped: where the rest keeps to the bounds of the reader, it is read back down to the last value, at once and from
  every later store as long as the diagnosis recorded in the case is not written again; and its status reaches the case only
  where it is one the graph may author (investigating, waiting for approval, recovered and pending): storing a summary
  resolves and closes no case.
\<close>

theorem summary_read_back:
  assumes "holds_case s cid c" and "put_summary cid summary s = (r, t)" and "plain_summary (without_context summary)"
  shows "fst (get_summary cid t) = Inr (Some (without_context summary)) \<and>
    (\<exists>c'. holds_case t cid c' \<and>
      (ac_status c' = ac_status c \<or> ac_status c' \<in> {CS_investigating, CS_waiting_approval, CS_recovered_pending}) \<and>
      (\<forall>u d. holds_case u cid d \<longrightarrow> ac_last_diagnosis d = ac_last_diagnosis c' \<longrightarrow>
        fst (get_summary cid u) = Inr (Some (without_context summary))))"
proof -
  let ?d = "without_context summary"
  from put_summary_held [OF assms(1,2)] obtain now where
    h: "holds_case t cid (summarised ?d c\<lparr>ac_updated_at := now\<rparr>)"
    by (auto simp: plain_summary_payload [OF assms(3)])
  let ?c = "summarised ?d c\<lparr>ac_updated_at := now\<rparr>"
  have stored: "stored_summary x = Some ?d" if "ac_last_diagnosis x = ac_last_diagnosis ?c" for x
    using that by (simp add: stored_summary_def summarised_def Let_def)
  have "bounded_dict 1000 5 ?d = ?d"
    using assms(3) by (simp add: plain_summary_def bounded_dict_within)
  with stored have read: "fst (get_summary cid u) = Inr (Some ?d)"
    if "holds_case u cid x" "ac_last_diagnosis x = ac_last_diagnosis ?c" for u x
    using that by (simp add: get_summary_held)
  moreover have "ac_status ?c = ac_status c \<or>
      ac_status ?c \<in> {CS_investigating, CS_waiting_approval, CS_recovered_pending}"
    by (auto simp: summarised_def Let_def graph_authored_status_def split: if_splits)
  ultimately show ?thesis using h by (intro conjI exI [of _ ?c]) auto
qed

subsection \<open>A case to try them on\<close>

definition open_case :: atomic_case where
  "open_case = blank_case\<lparr>ac_case_id := ''case_1'', ac_status := CS_investigating\<rparr>"

definition one_case_store :: store where
  "one_case_store = (empty_store (\<lambda>n. nat_str n) (\<lambda>n. 63000000000000000 + int n))
     \<lparr>st_cases := [(''case_1'', Atomic open_case)]\<rparr>"

lemma one_case_held: "holds_case one_case_store ''case_1'' open_case"
  by (simp add: holds_case_def one_case_store_def open_case_def py_strip_def is_space_def code_def)

definition waiting_summary :: jdict where
  "waiting_summary = [(''incident_id'', JStr ''case_1''), (''status'', JStr ''resolved''),
     (''proposals'', JList [JDict [(''confidence'', JFloat ''0.5'')]])]"

definition summary_in_context :: jdict where
  "summary_in_context = waiting_summary @ [(''case_context'', JDict [(''case_number'', JStr ''NOC-1'')])]"

theorem summary_read_back_witness:
  "fst (get_summary ''case_1'' (snd (put_summary ''case_1'' summary_in_context one_case_store))) = Inr (Some waiting_summary)"
proof -
  obtain r t where p: "put_summary ''case_1'' summary_in_context one_case_store = (r, t)" by force
  have w: "without_context summary_in_context = waiting_summary" by code_simp
  have "plain_summary (without_context summary_in_context)" by code_simp
  from summary_read_back [OF one_case_held p this] p w show ?thesis by simp
qed

theorem graph_update_owned_witness:
  "\<exists>c'. holds_case (snd (update_case ''case_1'' [(''status'', JStr ''rejected'')] one_case_store)) ''case_1'' c' \<and>
    ac_status c' = CS_resolved \<and> ac_resolved_at c' \<noteq> None"
proof -
  let ?given = "[(''status'', JStr ''rejected'')]"
  obtain r t where u: "update_case ''case_1'' ?given one_case_store = (r, t)" by force
  have "status_after (bounded_dict 1000 5 ?given) (ac_status open_case) = CS_resolved"
    "stamps_resolution (bounded_dict 1000 5 ?given) open_case" by code_simp+
  with graph_update_owned [OF one_case_held u] u show ?thesis by auto
qed

end
