(* ===== verification/Diagnosis_Spec.thy ===== *)
theory Diagnosis_Spec
  imports Graph_Run Graph_Memory_Spec Icinga_Ack
begin

section \<open>From the evidence to the proposal\<close>

text \<open>
  What the contract of a synthesis demands, and what a proposal rests on once the graph has diagnosed an alert:
  a proposal is marked validated on a direct measurement only.
\<close>

subsection \<open>The contract\<close>

lemma first_failure_Inr: "first_failure cs = Inr u \<longleftrightarrow> (\<forall>c \<in> set cs. c = Inr ())"
  by (induction cs) (auto split: sum.splits)

lemma require_that_Inr [simp]: "require_that ok m = Inr u \<longleftrightarrow> ok"
  by (simp add: require_that_def)

lemma check_refs_Inr:
  "check_refs known required owner refs = Inr u \<longleftrightarrow> (required \<longrightarrow> refs \<noteq> []) \<and> set refs \<subseteq> set known"
proof -
  have "sort (remdups (filter (\<lambda>r. r \<notin> set known) refs)) = [] \<longleftrightarrow> set refs \<subseteq> set known"
    by (metis (no_types, lifting) filter_empty_conv remdups_eq_nil_iff set_empty set_sort subsetI subset_code(1))
  then show ?thesis by (auto simp: check_refs_def Let_def)
qed

text \<open>Every reference names a piece of evidence, and what is claimed as a fact, a delta or a remedy has one.\<close>

definition grounded :: "synthesis \<Rightarrow> bool" where
  "grounded s \<longleftrightarrow>
     (\<forall>ob \<in> set (sy_observed_state s). set (so_evidence_refs ob) \<subseteq> set (evidence_ids s)) \<and>
     (\<forall>d \<in> set (sy_deltas s). sd_evidence_refs d \<noteq> [] \<and> set (sd_evidence_refs d) \<subseteq> set (evidence_ids s)) \<and>
     (\<forall>f \<in> set (sy_confirmed_facts s). cf_evidence_refs f \<noteq> [] \<and> set (cf_evidence_refs f) \<subseteq> set (evidence_ids s)) \<and>
     (\<forall>h \<in> set (sy_hypotheses s). set (hy_evidence_refs h) \<subseteq> set (evidence_ids s)) \<and>
     (\<forall>c \<in> set (sy_contradictions s). set (tc_evidence_refs c) \<subseteq> set (evidence_ids s)) \<and>
     (\<forall>r \<in> set_option (sy_remediation_proposal s).
        rm_evidence_refs r \<noteq> [] \<and> set (rm_evidence_refs r) \<subseteq> set (evidence_ids s))"

lemma reference_checks_Inr: "(\<forall>c \<in> set (reference_checks s). c = Inr ()) \<longleftrightarrow> grounded s"
  by (cases "sy_remediation_proposal s")
    (simp_all add: reference_checks_def grounded_def Let_def ball_Un check_refs_Inr conj_ac)

lemma check_synthesis_Inr:
  "check_synthesis s = Inr s' \<longleftrightarrow> s' = s \<and> 0 \<le> sy_confidence_score s \<and> sy_confidence_score s \<le> 1 \<and>
     sy_read_only s \<and> sy_executed_actions s = [] \<and>
     (\<forall>r \<in> set_option (sy_remediation_proposal s). rm_approval_required r) \<and>
     distinct (evidence_ids s) \<and> grounded s \<and>
     (sy_confidence_score s \<le> 8 / 10 \<or> (\<exists>e \<in> set (sy_evidence_chain s). de_direct_measurement e))"
proof -
  have "check_synthesis s = Inr s' \<longleftrightarrow> s' = s \<and> check_synthesis s = Inr s"
    by (auto simp: check_synthesis_def split: sum.splits)
  also have "check_synthesis s = Inr s \<longleftrightarrow> (\<exists>u. first_failure
      ([require_that (0 \<le> sy_confidence_score s) ''Input should be greater than or equal to 0'',
        require_that (sy_confidence_score s \<le> 1) ''Input should be less than or equal to 1'',
        require_that (sy_read_only s) ''DiagnosticSynthesis.read_only must be true'',
        require_that (sy_executed_actions s = []) ''DiagnosticSynthesis.executed_actions must remain empty'',
        require_that (case sy_remediation_proposal s of None \<Rightarrow> True | Some r \<Rightarrow> rm_approval_required r)
          ''remediation_proposal.approval_required must be true'',
        require_that (distinct (evidence_ids s)) ''evidence_chain evidence_id values must be unique'']
       @ reference_checks s
       @ [require_that (sy_confidence_score s \<le> 8 / 10 \<or> list_ex de_direct_measurement (sy_evidence_chain s))
          ''confidence above 0.8 requires direct-measurement evidence'']) = Inr u)"
    by (auto simp: check_synthesis_def split: sum.splits)
  finally show ?thesis
    unfolding first_failure_Inr set_append ball_Un reference_checks_Inr
    by (auto simp: list_ex_iff split: option.splits)
qed

definition measured_synthesis :: synthesis where
  "measured_synthesis = blank_synthesis\<lparr>
     sy_incident_summary := ''node_exporter down'', sy_confidence_score := 9 / 10,
     sy_evidence_chain := [blank_evidence\<lparr>de_evidence_id := ''ev1'', de_tool := ''tcpdump'',
       de_direct_measurement := True\<rparr>],
     sy_confirmed_facts := [\<lparr>cf_fact_id = ''f1'', cf_statement = ''no packets'', cf_evidence_refs = [''ev1'']\<rparr>]\<rparr>"

lemma measured_accepted: "check_synthesis measured_synthesis = Inr measured_synthesis"
  by code_simp

subsection \<open>The nodes up to the approval\<close>

lemma at_step_run: "at_step step st w = (Inr st', w') \<Longrightarrow>
    \<exists>now. st' = st\<lparr>wf_current_step := step, wf_updated_at := now\<rparr>"
  by (auto simp: at_step_def bindM_app split: prod.splits sum.splits)

definition measured :: "synthesis \<Rightarrow> bool" where
  "measured s \<longleftrightarrow> (\<exists>e \<in> set (sy_evidence_chain s). de_direct_measurement e \<or> is_direct_measurement (de_tool e))"

lemma direct_items: "list_ex ei_direct_measurement (fd_evidence (finding_of sp s)) = measured s"
  by (auto simp: finding_of_def evidence_item_of_def list_ex_iff measured_def Let_def)

lemma capped_direct: "capped_confidence True c = c"
  by (simp add: capped_confidence_def)

lemma capped_indirect: "capped_confidence False c = min c (1 / 2)"
  by (auto simp: capped_confidence_def Let_def min_def)

text \<open>What the specialist and the validation leave in the state.\<close>

definition diagnosed :: "workflow \<Rightarrow> workflow \<Rightarrow> bool" where
  "diagnosed st st' \<longleftrightarrow> wf_resource_id st' = wf_resource_id st \<and> wf_telemetry_cache st' = wf_telemetry_cache st \<and>
     wf_executed_actions st' = wf_executed_actions st \<and> wf_operator_decision st' = wf_operator_decision st \<and>
     wf_thread_id st' = wf_thread_id st"

lemma diagnosed_trans: "diagnosed a b \<Longrightarrow> diagnosed b c \<Longrightarrow> diagnosed a c"
  by (simp add: diagnosed_def)

lemma front_nodes:
  "correlate_and_dedupe st w = (Inr st', w') \<Longrightarrow> diagnosed st st'"
  "recall_history st w = (Inr st', w') \<Longrightarrow> diagnosed st st'"
  "supervisor_node st w = (Inr st', w') \<Longrightarrow> diagnosed st st'"
  by (auto simp: correlate_and_dedupe_def recall_history_def supervisor_node_def diagnosed_def Let_def
      elim!: bindM_success dest!: at_step_run split: prod.splits)

lemma specialist_run:
  assumes "specialist_node deps st w = (Inr st', w')"
  obtains sp s where "wf_synthesis st' = Some s" and "check_synthesis s = Inr s"
    and "wf_finding st' = Some (finding_of sp s)" and "diagnosed st st'"
proof -
  from assms obtain sp where "run_specialist deps sp st w = (Inr st', w')"
    by (auto simp: specialist_node_def Let_def)
  then obtain a s m where "check_synthesis a = Inr s" "wf_synthesis st' = Some s"
      "wf_finding st' = Some (finding_of sp s)" "diagnosed st st'"
    by (auto simp: run_specialist_def diagnosed_def elim!: bindM_success dest!: at_step_run split: prod.splits)
  moreover from this have "check_synthesis s = Inr s" by (metis check_synthesis_Inr)
  ultimately show ?thesis using that by blast
qed

lemma validation_run:
  assumes "evidence_validation st w = (Inr st', w')" and "wf_synthesis st = Some s"
    and "wf_finding st = Some (finding_of sp s)"
  shows "wf_finding st' = Some ((finding_of sp s)\<lparr>fd_confidence := capped_confidence (measured s) (sy_confidence_score s)\<rparr>) \<and>
    wf_synthesis st' = Some (s\<lparr>sy_confidence_score := capped_confidence (measured s) (sy_confidence_score s)\<rparr>) \<and>
    diagnosed st st'"
proof -
  have "fd_confidence (finding_of sp s) = sy_confidence_score s" by (simp add: finding_of_def)
  then show ?thesis using assms
    by (auto simp: evidence_validation_def require_key_def validated_evidence_def direct_items diagnosed_def
        check_synthesis_Inr Let_def elim!: bindM_success dest!: at_step_run split: prod.splits sum.splits)
qed

lemma drift_run:
  "golden_state_drift_check st w = (Inr st', w') \<Longrightarrow>
     wf_finding st' = wf_finding st \<and> wf_synthesis st' = wf_synthesis st \<and> diagnosed st st' \<and>
     wf_drift_findings st' = drift_findings_for (wf_resource_id st) (wf_telemetry_cache st)"
  by (auto simp: golden_state_drift_check_def diagnosed_def elim!: bindM_success dest!: at_step_run)

subsection \<open>The proposal\<close>

definition known_action :: "jdict \<Rightarrow> bool" where
  "known_action a \<longleftrightarrow> action_class a = ''restart_service'' \<or> action_class a = ''acknowledge_icinga''"

lemma new_action_run: "new_action kind inputs w = (Inr a, w') \<Longrightarrow> action_class a = kind"
  by (auto simp: new_action_def action_class_def bindM_app split: prod.splits sum.splits)

lemma mapM_results:
  assumes "\<And>x w y w'. f x w = (Inr y, w') \<Longrightarrow> Q y"
  shows "mapM f xs w = (Inr ys, w') \<Longrightarrow> list_all Q ys"
  using assms by (induction xs arbitrary: w ys) (force elim!: bindM_success)+

lemma structured_actions_known:
  assumes "structured_actions s alert proposed w = (Inr actions, w')"
  shows "list_all known_action actions"
proof -
  from assms obtain r a w1 where r: "approved_restart_actions s alert proposed w = (Inr r, w1)"
    and a: "approved_icinga_ack_actions alert proposed w1 = (Inr a, w')" and "actions = r @ a"
    by (auto simp: structured_actions_def elim!: bindM_success)
  moreover have "list_all known_action r"
    using r unfolding approved_restart_actions_def Let_def
    by (auto simp: known_action_def dest: new_action_run elim!: mapM_results [rotated] split: if_splits)
  moreover have "list_all known_action a"
    using a by (auto simp: approved_icinga_ack_actions_def Let_def known_action_def
        elim!: bindM_success dest!: new_action_run split: if_splits)
  ultimately show ?thesis by simp
qed

lemma proposal_run:
  assumes "proposal_build st w = (Inr st', w')" and "wf_synthesis st = Some s" and "wf_finding st = Some f"
  shows "\<exists>p. wf_proposals st' = [p] \<and> cp_confidence p = fd_confidence f \<and>
    cp_drift_findings p = wf_drift_findings st \<and>
    (cp_validation_status p = VS_validated \<longleftrightarrow> 8 / 10 \<le> fd_confidence f) \<and>
    list_all known_action (cp_structured_actions p) \<and>
    wf_synthesis st' = Some s \<and> wf_finding st' = Some f \<and> wf_drift_findings st' = wf_drift_findings st \<and>
    diagnosed st st'"
  using assms
  by (auto simp: proposal_build_def require_key_def check_synthesis_Inr build_proposal_def diagnosed_def
      elim!: bindM_success dest!: at_step_run structured_actions_known)

lemma prepare_run:
  assumes "prepare_approval deps st w = (Inr st', w')"
  shows "wf_proposals st' = wf_proposals st \<and> wf_synthesis st' = wf_synthesis st \<and>
    wf_finding st' = wf_finding st \<and> wf_drift_findings st' = wf_drift_findings st \<and>
    wf_approval_state st' = ''waiting_approval'' \<and> diagnosed st st'"
  using assms
  by (auto simp: prepare_approval_def Let_def diagnosed_def elim!: bindM_success dest!: at_step_run)

lemma diagnose_run:
  assumes "diagnose deps st w = (Inr st', w')"
  obtains sp s p where "check_synthesis s = Inr s"
    and "wf_synthesis st' = Some (s\<lparr>sy_confidence_score := capped_confidence (measured s) (sy_confidence_score s)\<rparr>)"
    and "wf_finding st' = Some ((finding_of sp s)\<lparr>fd_confidence := capped_confidence (measured s) (sy_confidence_score s)\<rparr>)"
    and "wf_proposals st' = [p]" and "cp_confidence p = capped_confidence (measured s) (sy_confidence_score s)"
    and "cp_drift_findings p = wf_drift_findings st'"
    and "wf_drift_findings st' = drift_findings_for (wf_resource_id st) (wf_telemetry_cache st)"
    and "cp_validation_status p = VS_validated \<longleftrightarrow> 8 / 10 \<le> cp_confidence p"
    and "list_all known_action (cp_structured_actions p)" and "diagnosed st st'"
    and "wf_approval_state st' = ''waiting_approval''"
proof -
  from assms obtain st1 w1 st2 w2 st3 w3 st4 w4 st5 w5 st6 w6 st7 w7 where
    n: "correlate_and_dedupe st w = (Inr st1, w1)" "recall_history st1 w1 = (Inr st2, w2)"
      "supervisor_node st2 w2 = (Inr st3, w3)" and sp: "specialist_node deps st3 w3 = (Inr st4, w4)"
    and ev: "evidence_validation st4 w4 = (Inr st5, w5)"
    and dr: "golden_state_drift_check st5 w5 = (Inr st6, w6)"
    and pr: "proposal_build st6 w6 = (Inr st7, w7)" and ap: "prepare_approval deps st7 w7 = (Inr st', w')"
    by (auto simp: diagnose_def elim!: bindM_success)
  from specialist_run [OF sp] obtain x s where s: "wf_synthesis st4 = Some s" "check_synthesis s = Inr s"
    "wf_finding st4 = Some (finding_of x s)" "diagnosed st3 st4" by blast
  note v = validation_run [OF ev s(1) s(3)] and d = drift_run [OF dr]
  let ?c = "capped_confidence (measured s) (sy_confidence_score s)"
  have "wf_synthesis st6 = Some (s\<lparr>sy_confidence_score := ?c\<rparr>)"
    "wf_finding st6 = Some ((finding_of x s)\<lparr>fd_confidence := ?c\<rparr>)" using v d by simp_all
  from proposal_run [OF pr this] obtain p where p: "wf_proposals st7 = [p]" "cp_confidence p = ?c"
    "cp_drift_findings p = wf_drift_findings st6" "cp_validation_status p = VS_validated \<longleftrightarrow> 8 / 10 \<le> ?c"
    "list_all known_action (cp_structured_actions p)" "wf_synthesis st7 = Some (s\<lparr>sy_confidence_score := ?c\<rparr>)"
    "wf_finding st7 = Some ((finding_of x s)\<lparr>fd_confidence := ?c\<rparr>)"
    "wf_drift_findings st7 = wf_drift_findings st6" "diagnosed st6 st7" by auto
  note a = prepare_run [OF ap]
  have to3: "diagnosed st st3" by (meson n front_nodes diagnosed_trans)
  have to5: "diagnosed st st5" using to3 s(4) v by (meson diagnosed_trans)
  then have "diagnosed st st'" using d p(9) a by (meson diagnosed_trans)
  with to5 show ?thesis using that [of s x p] s p a d by (simp add: diagnosed_def)
qed

text \<open>A diagnosis to try it on.\<close>

definition sample_deps :: "(string \<Rightarrow> string option) \<Rightarrow> (string \<Rightarrow> json \<Rightarrow> json) \<Rightarrow> call_log graph_deps" where
  "sample_deps env answers = \<lparr>
     gd_env = env, gd_tool = logging answers,
     gd_agent = (\<lambda>sp prompt x. (Inr (measured_synthesis, ''model'', []), x)),
     gd_announce = (\<lambda>executed st decision state x. (Inr (), x)),
     gd_supervisor_context = ''context'', gd_perimeter = None, gd_float_repr = (\<lambda>q. ''0.9''),
     gd_pause = (\<lambda>thread st x. (Inr (), x)),
     gd_resume = (\<lambda>thread x. (Inl (KeyError thread), x))\<rparr>"

definition sample_alert :: jdict where
  "sample_alert = [(''commonLabels'', JDict [(''host'', JStr ''mon''), (''service'', JStr ''disk'')])]"

definition sample_start :: workflow where
  "sample_start = initial_state sample_alert [(''incident_id'', JStr ''case_1'')] ''t1'' [] ''now''"

definition sample_world :: "call_log loop_world" where
  "sample_world = logged_world\<lparr>lw_store := one_case_store\<rparr>"

end
