(* ===== verification/Approval_Reached.thy ===== *)
theory Approval_Reached
  imports Diagnosis_Spec
begin

section \<open>A diagnosis reaches the approval\<close>

text \<open>
  For a case the store holds, and an agent that answers within its contract, the graph runs to the approval
  point without an exception and the case then waits for an approval.
\<close>

subsection \<open>Nodes that return\<close>

text \<open>
  The case stays in the store, whatever else is written: the agent may write to the store, too, by the tools it
  is given. \<open>calm cid m Q\<close>: where the case \<open>cid\<close> is stored, \<open>m\<close> returns a value with \<open>Q\<close> and the case still is.
\<close>

definition held :: "string \<Rightarrow> store \<Rightarrow> bool" where
  "held cid s \<longleftrightarrow> (\<exists>c. holds_case s cid c)"

lemma held_cases: "st_cases t = st_cases s \<Longrightarrow> held cid t = held cid s"
  by (simp add: held_def holds_case_def)

definition calm :: "string \<Rightarrow> ('w, 'a) lp \<Rightarrow> ('a \<Rightarrow> bool) \<Rightarrow> bool" where
  "calm cid m Q \<longleftrightarrow> (\<forall>w. held cid (lw_store w) \<longrightarrow> (\<exists>x w'. m w = (Inr x, w') \<and> held cid (lw_store w') \<and> Q x))"

lemma calmD: "calm cid m Q \<Longrightarrow> held cid (lw_store w) \<Longrightarrow> \<exists>x w'. m w = (Inr x, w') \<and> held cid (lw_store w') \<and> Q x"
  by (simp add: calm_def)

lemma calm_bind:
  fixes m :: "('w, 'a) lp"
  assumes "calm cid m Q" and "\<And>x. Q x \<Longrightarrow> calm cid (f x) R"
  shows "calm cid (bindM m f) R"
  unfolding calm_def
proof (intro allI impI)
  fix w :: "'w loop_world" assume w: "held cid (lw_store w)"
  obtain x w1 where m: "m w = (Inr x, w1)" "held cid (lw_store w1)" "Q x"
    using calmD [OF assms(1) w] by blast
  obtain y w2 where "f x w1 = (Inr y, w2)" "held cid (lw_store w2)" "R y"
    using calmD [OF assms(2) [OF m(3)] m(2)] by blast
  with m show "\<exists>x w'. bindM m f w = (Inr x, w') \<and> held cid (lw_store w') \<and> R x"
    by (simp add: bindM_app)
qed

lemma calm_ret: "Q x \<Longrightarrow> calm cid (retM x) Q"
  by (simp add: calm_def)

lemma calm_Pair [simp]: "Q x \<Longrightarrow> calm cid (Pair (Inr x)) Q"
  by (simp add: calm_def)

lemma calm_lift: "r = Inr x \<Longrightarrow> Q x \<Longrightarrow> calm cid (liftM r) Q"
  by (simp add: calm_def)

lemma liftM_Inr: "liftM (Inr x) = retM x"
  by (simp add: fun_eq_iff)

lemma calm_time: "calm cid time_time (\<lambda>_. True)"
  by (simp add: calm_def time_time_def)

lemma calm_store:
  assumes "\<And>s. \<exists>x t. m s = (Inr x, t) \<and> st_cases t = st_cases s"
  shows "calm cid (in_store m :: ('w, 'a) lp) (\<lambda>_. True)"
  unfolding calm_def
proof (intro allI impI)
  fix w :: "'w loop_world" assume w: "held cid (lw_store w)"
  obtain x t where "m (lw_store w) = (Inr x, t)" "st_cases t = st_cases (lw_store w)" using assms by blast
  with w held_cases [of t "lw_store w"]
  show "\<exists>x w'. in_store m w = (Inr x, w') \<and> held cid (lw_store w') \<and> True"
    by (simp add: in_store_def zoomM_def)
qed

lemma calm_now: "calm cid (in_store utc_now) (\<lambda>_. True)"
  by (rule calm_store) (simp add: utc_now_app)

lemma calm_uuid: "calm cid (in_store uuid4_str) (\<lambda>_. True)"
  by (rule calm_store) (simp add: uuid4_str_def uuid4_hex_def bindM_app)

lemma calm_at_step: "calm cid (at_step step st) (\<lambda>st'. \<exists>now. st' = st\<lparr>wf_current_step := step, wf_updated_at := now\<rparr>)"
  unfolding at_step_def by (rule calm_bind [OF calm_now]) (rule calm_ret, blast)

lemma history_since_returns: "\<exists>rows. history_since rid cutoff s = (Inr rows, s)"
proof -
  have "\<exists>rows. foldM (history_rows rid cutoff) cases acc s = (Inr rows, s)" for cases acc
    by (induction cases arbitrary: acc)
      (auto simp: bindM_app history_rows_def case_events_def split: case_projection.splits)
  moreover obtain cs where c: "list_cases (Some ''atomic'') None 500 s = (Inr cs, s)" by (simp add: list_cases_def)
  ultimately obtain rows where "foldM (history_rows rid cutoff) cs [] s = (Inr rows, s)" by blast
  with c show ?thesis by (simp add: history_since_def bindM_app)
qed

lemma calm_history: "calm cid (history_for rid n) (\<lambda>_. True)"
  unfolding history_for_def
  by (rule calm_bind [OF calm_time], rule calm_store) (use history_since_returns in blast)

definition same_start :: "workflow \<Rightarrow> workflow \<Rightarrow> bool" where
  "same_start st st' \<longleftrightarrow> wf_incident_id st' = wf_incident_id st \<and> wf_normalized_alert st' = wf_normalized_alert st"

lemma calm_front:
  "calm cid (correlate_and_dedupe st) (same_start st)" "calm cid (recall_history st) (same_start st)"
  "calm cid (supervisor_node st) (same_start st)" "calm cid (golden_state_drift_check st)
    (\<lambda>st'. same_start st st' \<and> wf_synthesis st' = wf_synthesis st \<and> wf_finding st' = wf_finding st)"
proof -
  show "calm cid (correlate_and_dedupe st) (same_start st)"
    unfolding correlate_and_dedupe_def correlate_def bindM_assoc
    by (rule calm_bind [OF calm_history], simp, rule calm_bind [OF calm_at_step], rule calm_ret)
      (auto simp: same_start_def)
  show "calm cid (recall_history st) (same_start st)"
    unfolding recall_history_def
    by (rule calm_bind [OF calm_history], rule calm_bind [OF calm_at_step], rule calm_ret)
      (auto simp: same_start_def)
  show "calm cid (supervisor_node st) (same_start st)"
    unfolding supervisor_node_def Let_def
    by (rule calm_bind [OF calm_at_step], rule calm_ret) (auto simp: same_start_def)
  show "calm cid (golden_state_drift_check st)
    (\<lambda>st'. same_start st st' \<and> wf_synthesis st' = wf_synthesis st \<and> wf_finding st' = wf_finding st)"
    unfolding golden_state_drift_check_def
    by (rule calm_bind [OF calm_at_step], rule calm_ret) (auto simp: same_start_def)
qed

text \<open>
  An agent that answers, and within its contract: whatever it does to the store and to the outside world through its tools,
  the case it works on stays in the store.
\<close>

definition sound_agent :: "string \<Rightarrow> 'w graph_deps \<Rightarrow> bool" where
  "sound_agent cid deps \<longleftrightarrow> (\<forall>sp prompt s x. held cid s \<longrightarrow>
     (\<exists>a m t y. gd_agent deps sp prompt (s, x) = (Inr (a, m), (t, y)) \<and> held cid t \<and> check_synthesis a = Inr a))"

text \<open>The tool that links the case to a parent is one such tool: it writes cases, and removes none.\<close>

lemma keeps_held_cases: "(\<And>s. st_cases (snd (m s)) = st_cases s) \<Longrightarrow> keeps (held cid) m"
  using held_cases unfolding keeps_def by blast

lemma held_writes [keeps_intros]: "keeps (held cid) (put_atomic c)" "keeps (held cid) (put_active_alias a)"
    "keeps (held cid) (retire_alias a now)" "keeps (held cid) uuid4_hex" "keeps (held cid) dt_now"
proof -
  show "keeps (held cid) (put_atomic c)"
    by (auto simp: keeps_def held_def holds_case_def put_atomic_def put_case_def modM_app proj_case_id_def)
qed (auto intro!: keeps_held_cases simp: put_active_alias_def retire_alias_def uuid4_hex_def dt_now_def modM_app Let_def)

lemma held_events [keeps_intros]: "keeps (held cid) (store_event_locked e)"
  unfolding store_event_locked_def by (auto intro!: keeps_intros modM_keeps simp: held_def holds_case_def write_event_def)

lemma link_tool_keeps: "keeps (held cid) (link_tool iid child parent reason refs)"
  unfolding link_tool_def link_to_parent_case_def resolve_case_identifier_def link_child_case_def
    reassign_aliases_locked_def reassign_alias_def new_alias_def new_event_def given_or_def new_id_def utc_now_def get_case_def Let_def
  by (auto intro!: keeps_intros split: option.split prod.split)

lemma calm_specialist:
  fixes deps :: "'w graph_deps"
  assumes "sound_agent cid deps"
  shows "calm cid (specialist_node deps st) (\<lambda>st'. same_start st st' \<and>
    (\<exists>sp s. check_synthesis s = Inr s \<and> wf_synthesis st' = Some s \<and> wf_finding st' = Some (finding_of sp s)))"
proof -
  have a: "calm cid (call_out (gd_agent deps sp prompt)) (\<lambda>(s, _). check_synthesis s = Inr s)" for sp prompt
    unfolding calm_def
  proof (intro allI impI)
    fix w :: "'w loop_world" assume "held cid (lw_store w)"
    then obtain a m t y where "gd_agent deps sp prompt (lw_store w, lw_outside w) = (Inr (a, m), (t, y))"
        "held cid t" "check_synthesis a = Inr a"
      using assms unfolding sound_agent_def by blast
    then show "\<exists>x w'. call_out (gd_agent deps sp prompt) w = (Inr x, w') \<and>
        held cid (lw_store w') \<and> (case x of (s, _) \<Rightarrow> check_synthesis s = Inr s)"
      by (simp add: call_out_def zoomM_def)
  qed
  show ?thesis unfolding specialist_node_def run_specialist_def Let_def
    apply (rule calm_bind [OF a])
    apply (clarsimp simp: liftM_Inr)
    apply (rule calm_bind [OF calm_at_step], rule calm_ret)
    apply (auto simp: same_start_def)
    done
qed

lemma calm_validation:
  assumes "check_synthesis s = Inr s" and "wf_synthesis st = Some s" and "wf_finding st = Some f"
  shows "calm cid (evidence_validation st) (\<lambda>st'. same_start st st' \<and> wf_finding st' \<noteq> None \<and>
    (\<exists>c. wf_synthesis st' = Some (s\<lparr>sy_confidence_score := c\<rparr>) \<and>
      c = capped_confidence (list_ex ei_direct_measurement (fd_evidence f)) (fd_confidence f)))"
  using assms unfolding evidence_validation_def require_key_def
  apply (simp add: validated_evidence_def Let_def liftM_Inr)
  apply (rule calm_bind [OF calm_at_step], rule calm_ret)
  apply (auto simp: same_start_def)
  done

lemma calm_mapM:
  assumes "\<And>x. calm cid (f x) (\<lambda>_. True)" shows "calm cid (mapM f xs) (\<lambda>_. True)"
proof (induction xs)
  case Nil
  show ?case by (simp add: calm_ret)
next
  case (Cons x xs)
  show ?case by (simp, rule calm_bind [OF assms], rule calm_bind [OF Cons], rule calm_ret) simp
qed

lemma calm_new_action: "calm cid (new_action kind inputs) (\<lambda>_. True)"
  unfolding new_action_def by (rule calm_bind [OF calm_uuid], rule calm_ret) simp

lemma calm_structured:
  assumes "dict_or_empty (jget alert ''commonLabels'') = Inr labels"
  shows "calm cid (structured_actions s alert proposed) (\<lambda>_. True)"
proof -
  have r: "calm cid (approved_restart_actions s alert proposed) (\<lambda>_. True)"
    unfolding approved_restart_actions_def Let_def
    by (simp add: calm_ret calm_mapM calm_new_action)
  have a: "calm cid (approved_icinga_ack_actions alert proposed) (\<lambda>_. True)"
    unfolding approved_icinga_ack_actions_def assms Let_def
    by (auto simp: calm_ret liftM_Inr intro!: calm_bind [OF calm_new_action])
  show ?thesis unfolding structured_actions_def
    by (rule calm_bind [OF r], rule calm_bind [OF a], rule calm_ret) simp
qed

lemma calm_proposal:
  assumes "wf_synthesis st = Some s" and "check_synthesis s = Inr s" and "wf_finding st = Some f"
    and "dict_or_empty (jget (wf_normalized_alert st) ''commonLabels'') = Inr labels"
  shows "calm cid (proposal_build st) (\<lambda>st'. wf_incident_id st' = wf_incident_id st \<and> wf_synthesis st' = Some s)"
  unfolding proposal_build_def require_key_def build_proposal_def bindM_assoc
  apply (simp add: assms(1-3) liftM_Inr bindM_assoc split del: if_split)
  apply (rule calm_bind [OF calm_structured [OF assms(4)]])
  apply (rule calm_bind [OF calm_uuid], rule calm_bind [OF calm_at_step], rule calm_ret)
  using assms(1) by auto

subsection \<open>The approval point\<close>

lemma lower_accepted:
  assumes "check_synthesis s = Inr s" and "0 \<le> c" and "c \<le> sy_confidence_score s"
  shows "check_synthesis (s\<lparr>sy_confidence_score := c\<rparr>) = Inr (s\<lparr>sy_confidence_score := c\<rparr>)"
proof -
  let ?s = "s\<lparr>sy_confidence_score := c\<rparr>"
  have g: "grounded ?s = grounded s" "evidence_ids ?s = evidence_ids s"
    by (simp_all add: grounded_def evidence_ids_def)
  have "c \<le> 8 / 10 \<or> (\<exists>e \<in> set (sy_evidence_chain s). de_direct_measurement e)" "c \<le> 1"
    using assms unfolding check_synthesis_Inr by auto
  with assms g show ?thesis unfolding check_synthesis_Inr by simp
qed

lemma capped_accepted:
  assumes "check_synthesis s = Inr s"
  shows "check_synthesis (s\<lparr>sy_confidence_score := capped_confidence b (sy_confidence_score s)\<rparr>) =
    Inr (s\<lparr>sy_confidence_score := capped_confidence b (sy_confidence_score s)\<rparr>)"
proof (rule lower_accepted [OF assms])
  show "0 \<le> capped_confidence b (sy_confidence_score s)"
    using assms unfolding check_synthesis_Inr by (simp add: capped_confidence_def Let_def)
  show "capped_confidence b (sy_confidence_score s) \<le> sy_confidence_score s"
    by (simp add: capped_confidence_def Let_def)
qed

lemma bounded_dict_Suc:
  "bounded_dict l (Suc n) kvs =
     dict_of (map (\<lambda>kv. (safe_string 80 (JStr (fst kv)), bounded_json l n (snd kv))) (take 100 kvs))"
  by (simp add: bounded_dict_def)

lemma bounded_json_text: "bounded_json l n (JStr s) = JStr (safe_string l (JStr s))"
  by (cases n) simp_all

lemma short_texts:
  "safe_string 80 (JStr ''status'') = ''status''" "safe_string 80 (JStr ''summary'') = ''summary''"
  "safe_string 80 (JStr ''thread_id'') = ''thread_id''"
  "safe_string 80 (JStr ''diagnostic_summary'') = ''diagnostic_summary''"
  "safe_string 1000 (JStr ''waiting_approval'') = ''waiting_approval''"
  by code_simp+

lemma waiting_update:
  "jget (bounded_dict 1000 5 [(''status'', JStr ''waiting_approval''), (''summary'', v), (''thread_id'', x),
     (''diagnostic_summary'', y)]) ''status'' = JStr ''waiting_approval''"
  using bounded_dict_Suc [of 1000 4]
  by (simp add: short_texts dict_of_def dict_update_def bounded_json_text)

definition waits_for_approval :: "atomic_case \<Rightarrow> bool" where
  "waits_for_approval c \<longleftrightarrow> ac_status c = CS_waiting_approval"

lemma now_read: "\<exists>now w'. in_store utc_now w = (Inr now, w') \<and> st_cases (lw_store w') = st_cases (lw_store w)"
  by (simp add: in_store_def zoomM_def utc_now_app)

lemma step_taken:
  "\<exists>now w'. at_step step st w = (Inr (st\<lparr>wf_current_step := step, wf_updated_at := now\<rparr>), w') \<and>
     st_cases (lw_store w') = st_cases (lw_store w)"
  by (auto simp: at_step_def bindM_app in_store_def zoomM_def utc_now_app)

lemma prepare_returns:
  assumes "holds_case (lw_store w) (wf_incident_id st) c" and "wf_synthesis st = Some s"
    and "check_synthesis s = Inr s"
  shows "\<exists>st' w' c'. prepare_approval deps st w = (Inr st', w') \<and>
    holds_case (lw_store w') (wf_incident_id st) c' \<and> waits_for_approval c'"
proof -
  let ?cid = "wf_incident_id st"
  obtain now w1 where n: "in_store utc_now w = (Inr now, w1)" "st_cases (lw_store w1) = st_cases (lw_store w)"
    using now_read by blast
  have h1: "holds_case (lw_store w1) ?cid c" using assms(1) n(2) by (simp add: holds_case_def)
  define summary where "summary = approval_summary deps st (sy_incident_summary s) now"
  obtain r2 s2 where p: "put_summary ?cid summary (lw_store w1) = (r2, s2)" by force
  from put_summary_held [OF h1 p] obtain c2 where r2: "r2 = Inr ()" and h2: "holds_case s2 ?cid c2" by blast
  let ?given = "[(''status'', JStr ''waiting_approval''), (''summary'', JDict summary),
    (''thread_id'', JStr (wf_thread_id st)), (''diagnostic_summary'', JStr (sy_incident_summary s))]"
  obtain r3 s3 where u: "update_case ?cid ?given s2 = (r3, s3)" by force
  from update_case_run [OF h2 u] obtain res t where c3: "r3 = Inr (case_dict (updated_case (bounded_dict 1000 5 ?given) c2 res t))"
    "st_cases s3 = dict_set ?cid (Atomic (updated_case (bounded_dict 1000 5 ?given) c2 res t)) (st_cases s2)"
    by (auto simp: Let_def)
  let ?c3 = "updated_case (bounded_dict 1000 5 ?given) c2 res t"
  have h3: "holds_case s3 ?cid ?c3" using h2 c3(2) by (simp add: holds_case_def updated_case_def del: map_of_eq_Some_iff)
  have w3: "waits_for_approval ?c3"
    by (simp add: waits_for_approval_def updated_case_def status_after_def waiting_update graph_case_status_def)
  let ?w3 = "w1\<lparr>lw_store := s3\<rparr>"
  obtain st' w' where a: "at_step ''prepare_approval'' st ?w3 = (Inr st', w')" "st_cases (lw_store w') = st_cases s3"
    using step_taken [of "''prepare_approval''" st ?w3] by force
  have i1: "in_store (put_summary ?cid summary) w1 = (r2, w1\<lparr>lw_store := s2\<rparr>)"
    by (simp add: in_store_def zoomM_def p)
  have i2: "in_store (update_case ?cid ?given) (w1\<lparr>lw_store := s2\<rparr>) = (r3, ?w3)"
    by (simp add: in_store_def zoomM_def u)
  have "prepare_approval deps st w = (Inr (st'\<lparr>wf_approval_state := ''waiting_approval'', wf_final_summary := summary\<rparr>), w')"
    using assms(2,3) n(1) i1 i2 a(1)
    by (simp add: prepare_approval_def require_key_def Let_def bindM_app r2 c3(1) summary_def)
  moreover have "holds_case (lw_store w') ?cid ?c3" using h3 a(2) by (simp add: holds_case_def)
  ultimately show ?thesis using w3 by blast
qed

lemma diagnose_returns:
  fixes w :: "'w loop_world"
  assumes "holds_case (lw_store w) (wf_incident_id st) c" and "sound_agent (wf_incident_id st) deps"
    and "dict_or_empty (jget (wf_normalized_alert st) ''commonLabels'') = Inr labels"
  shows "\<exists>st' w' c'. diagnose deps st w = (Inr st', w') \<and> wf_approval_state st' = ''waiting_approval'' \<and>
    holds_case (lw_store w') (wf_incident_id st) c' \<and> ac_status c' = CS_waiting_approval"
proof -
  let ?cid = "wf_incident_id st"
  have w: "held ?cid (lw_store w)" using assms(1) by (auto simp: held_def)
  let ?front = "bindM (correlate_and_dedupe st) (\<lambda>st. bindM (recall_history st) (\<lambda>st.
    bindM (supervisor_node st) (\<lambda>st. bindM (specialist_node deps st) (\<lambda>st.
    bindM (evidence_validation st) (\<lambda>st. bindM (golden_state_drift_check st) proposal_build)))))"
  have "calm ?cid ?front (\<lambda>st'. wf_incident_id st' = wf_incident_id st \<and>
      (\<exists>s. wf_synthesis st' = Some s \<and> check_synthesis s = Inr s))"
  proof (rule calm_bind [OF calm_front(1)], rule calm_bind [OF calm_front(2)], rule calm_bind [OF calm_front(3)],
      rule calm_bind [OF calm_specialist [OF assms(2)]], elim conjE exE)
    fix st1 st2 st3 st4 sp s
    assume st: "same_start st st1" "same_start st1 st2" "same_start st2 st3" "same_start st3 st4"
      and s: "check_synthesis s = Inr s" "wf_synthesis st4 = Some s" "wf_finding st4 = Some (finding_of sp s)"
    have conf: "fd_confidence (finding_of sp s) = sy_confidence_score s" by (simp add: finding_of_def)
    show "calm ?cid (bindM (evidence_validation st4) (\<lambda>st. bindM (golden_state_drift_check st) proposal_build))
      (\<lambda>st'. wf_incident_id st' = wf_incident_id st \<and> (\<exists>s. wf_synthesis st' = Some s \<and> check_synthesis s = Inr s))"
    proof (rule calm_bind [OF calm_validation [OF s(1,2,3)]], rule calm_bind [OF calm_front(4)], elim conjE exE)
      fix st5 st6 k
      assume 5: "same_start st4 st5" "wf_finding st5 \<noteq> None" "wf_synthesis st5 = Some (s\<lparr>sy_confidence_score := k\<rparr>)"
        "k = capped_confidence (list_ex ei_direct_measurement (fd_evidence (finding_of sp s))) (fd_confidence (finding_of sp s))"
        and 6: "same_start st5 st6" "wf_synthesis st6 = wf_synthesis st5" "wf_finding st6 = wf_finding st5"
      obtain f where f: "wf_finding st6 = Some f" using 5(2) 6(3) by auto
      have ok: "check_synthesis (s\<lparr>sy_confidence_score := k\<rparr>) = Inr (s\<lparr>sy_confidence_score := k\<rparr>)"
        unfolding 5(4) conf by (rule capped_accepted [OF s(1)])
      have a: "wf_incident_id st6 = wf_incident_id st" "wf_normalized_alert st6 = wf_normalized_alert st"
        using st 5(1) 6(1) by (simp_all add: same_start_def)
      have syn: "wf_synthesis st6 = Some (s\<lparr>sy_confidence_score := k\<rparr>)" using 5(3) 6(2) by simp
      have "calm ?cid (proposal_build st6) (\<lambda>st'. wf_incident_id st' = wf_incident_id st6 \<and>
          wf_synthesis st' = Some (s\<lparr>sy_confidence_score := k\<rparr>))"
        by (rule calm_proposal [OF syn ok f]) (use assms(3) a(2) in simp)
      then show "calm ?cid (proposal_build st6) (\<lambda>st'. wf_incident_id st' = wf_incident_id st \<and>
          (\<exists>s. wf_synthesis st' = Some s \<and> check_synthesis s = Inr s))"
        using ok a(1) unfolding calm_def by fastforce
    qed
  qed
  from calmD [OF this w] obtain st1 w1 s where 1: "?front w = (Inr st1, w1)"
    "held ?cid (lw_store w1)" "wf_incident_id st1 = wf_incident_id st"
    "wf_synthesis st1 = Some s" "check_synthesis s = Inr s" by blast
  obtain c1 where "holds_case (lw_store w1) (wf_incident_id st1) c1" using 1(2,3) by (auto simp: held_def)
  from prepare_returns [OF this 1(4,5)] obtain st' w' c' where
    p: "prepare_approval deps st1 w1 = (Inr st', w')" "holds_case (lw_store w') (wf_incident_id st) c'"
    "waits_for_approval c'" using 1(3) by metis
  have "diagnose deps st w = bindM ?front (prepare_approval deps) w"
    by (simp add: diagnose_def bindM_assoc)
  then have "diagnose deps st w = (Inr st', w')" using 1(1) p(1) by (simp add: bindM_app)
  with p prepare_run [OF p(1)] show ?thesis by (auto simp: waits_for_approval_def)
qed

text \<open>
  C26: An investigation of a stored case comes to an end: with an agent that answers within its contract and an alert
  whose common labels are labels, the graph reaches the approval point without an exception, and the case
  then waits for an approval. The agent may write to the store and to the outside world with the tools it is given, among
  them the one that links the case to a parent; it is only assumed that it answers and that the case stays stored.
\<close>

theorem diagnosis_reaches_approval:
  fixes w :: "'w loop_world"
  assumes "holds_case (lw_store w) (wf_incident_id st) c" and "sound_agent (wf_incident_id st) deps"
    and "dict_or_empty (jget (wf_normalized_alert st) ''commonLabels'') = Inr labels"
  shows "\<exists>st' w' c'. diagnose deps st w = (Inr st', w') \<and> wf_approval_state st' = ''waiting_approval'' \<and>
    holds_case (lw_store w') (wf_incident_id st) c' \<and> ac_status c' = CS_waiting_approval"
  by (rule diagnose_returns [OF assms])

lemma sample_start_held: "holds_case (lw_store sample_world) (wf_incident_id sample_start) open_case"
  using one_case_held by (simp add: sample_world_def sample_start_def initial_state_def text_field_def)

lemma sample_agent: "sound_agent cid (sample_deps env answers)"
  using measured_accepted by (simp add: sound_agent_def sample_deps_def)

text \<open>An agent that links its case to another one before it answers.\<close>

definition linking_deps :: "call_log graph_deps" where
  "linking_deps = (sample_deps (\<lambda>_. None) (\<lambda>_ _. JNull))\<lparr>gd_agent := (\<lambda>sp prompt (s, x).
     (Inr (measured_synthesis, ''model'', []), (snd (link_tool ''case_1'' ''case_1'' ''case_2'' ''same link'' [] s), x)))\<rparr>"

lemma linking_agent: "sound_agent cid linking_deps"
  using measured_accepted keepsD [OF link_tool_keeps] by (simp add: sound_agent_def linking_deps_def)

lemma sample_labels: "dict_or_empty (jget (wf_normalized_alert sample_start) ''commonLabels'') =
    Inr [(''host'', JStr ''mon''), (''service'', JStr ''disk'')]"
  by (simp add: sample_start_def initial_state_def sample_alert_def dict_or_empty_def)

theorem diagnosis_reaches_approval_witness:
  "\<exists>st' w'. diagnose linking_deps sample_start sample_world = (Inr st', w') \<and>
     wf_approval_state st' = ''waiting_approval''"
  using diagnosis_reaches_approval [OF sample_start_held linking_agent sample_labels] by blast

text \<open>
  C25: A proposal the graph presents as validated rests on a direct measurement: whatever the agent claimed, without one
  the confidence of the proposal is at most 0.5, and it is marked validated exactly if its confidence is at least 0.8;
  its actions are of the two classes the graph knows, and the thread waits for an approval.
\<close>

theorem validated_on_measurement:
  assumes "diagnose deps st w = (Inr st', w')"
  shows "\<exists>s p. wf_synthesis st' = Some s \<and> wf_proposals st' = [p] \<and> wf_approval_state st' = ''waiting_approval'' \<and>
    cp_confidence p = sy_confidence_score s \<and> 0 \<le> cp_confidence p \<and> cp_confidence p \<le> 1 \<and>
    (cp_validation_status p = VS_validated \<longleftrightarrow> 8 / 10 \<le> cp_confidence p) \<and>
    (cp_validation_status p = VS_validated \<longrightarrow> measured s) \<and> (\<not> measured s \<longrightarrow> cp_confidence p \<le> 1 / 2) \<and>
    grounded s \<and> list_all known_action (cp_structured_actions p)"
  using assms
proof (rule diagnose_run)
  fix sp s p
  let ?c = "capped_confidence (measured s) (sy_confidence_score s)"
  let ?s = "s\<lparr>sy_confidence_score := ?c\<rparr>"
  assume *: "check_synthesis s = Inr s" "wf_synthesis st' = Some ?s" "wf_proposals st' = [p]"
    "cp_confidence p = ?c" "cp_validation_status p = VS_validated \<longleftrightarrow> 8 / 10 \<le> cp_confidence p"
    "list_all known_action (cp_structured_actions p)" "wf_approval_state st' = ''waiting_approval''"
  have c: "0 \<le> ?c" "?c \<le> 1" "\<not> measured s \<Longrightarrow> ?c \<le> 1 / 2"
    using *(1) by (auto simp: check_synthesis_Inr capped_confidence_def Let_def)
  have m: "measured ?s = measured s" by (simp add: measured_def)
  have "grounded ?s" using *(1) by (simp add: check_synthesis_Inr grounded_def evidence_ids_def)
  moreover have "8 / 10 \<le> ?c \<longrightarrow> measured s" using c(3) by fastforce
  ultimately show ?thesis using * c by (intro exI [of _ ?s] exI [of _ p]) (simp add: m)
qed

theorem validated_on_measurement_witness:
  "\<exists>st' p. fst (diagnose (sample_deps (\<lambda>_. None) (\<lambda>_ _. JNull)) sample_start sample_world) = Inr st' \<and>
     wf_proposals st' = [p] \<and> cp_confidence p \<le> 1"
proof -
  obtain st' w' where d: "diagnose (sample_deps (\<lambda>_. None) (\<lambda>_ _. JNull)) sample_start sample_world = (Inr st', w')"
    using diagnose_returns [OF sample_start_held sample_agent sample_labels] by blast
  from validated_on_measurement [OF d] d show ?thesis by auto
qed

end
