(* ===== verification/Grant_Spec.thy ===== *)
theory Grant_Spec
  imports Diagnosis_Spec
begin

section \<open>What may be executed, and on whose word\<close>

text \<open>
  Without a human a thread passes the approval point only under a standing grant whose envelope holds. The calls
  an execution makes are read off a tool that logs them, with the other callbacks silent: which tools may be
  called, under which switches, and how narrow a standing grant's acknowledgement is.
\<close>

subsection \<open>The approval without a human\<close>

definition listed_one_warning :: "'w graph_deps \<Rightarrow> string \<Rightarrow> json \<Rightarrow> bool" where
  "listed_one_warning deps host service \<longleftrightarrow> host \<noteq> [] \<and> (\<exists>w w' answer.
     call_out (gd_tool deps ''icinga_list_problems'' list_args) w = (Inr answer, w') \<and>
     exactly_one_warning host service answer = Inr True)"

lemma unique_warning_True:
  assumes "icinga_is_unique_warning deps host service w = (Inr True, w')"
  shows "listed_one_warning deps host service"
proof -
  have h: "host \<noteq> []" using assms by (auto simp: icinga_is_unique_warning_def)
  obtain r w1 where c: "call_out (gd_tool deps ''icinga_list_problems'' list_args) w = (r, w1)" by force
  with assms h show ?thesis
    by (cases r)
      (auto simp: icinga_is_unique_warning_def except_exception_def catchM_def bindM_app listed_one_warning_def
        list_args_def [symmetric] split: if_splits)
qed

lemma envelope_True:
  "envelope_holds_for deps actions w = (Inr True, w') \<Longrightarrow> a \<in> set actions \<Longrightarrow>
     listed_one_warning deps (input_host (inputs_if_dict a)) (input_service (inputs_if_dict a))"
proof (induction actions arbitrary: w)
  case (Cons b actions)
  from Cons.prems(1) obtain ok w1 where
    u: "icinga_is_unique_warning deps (input_host (inputs_if_dict b)) (input_service (inputs_if_dict b)) w = (Inr ok, w1)"
    and e: "(if ok then envelope_holds_for deps actions else retM False) w1 = (Inr True, w')"
    by (auto simp: Let_def elim!: bindM_success)
  have ok: "ok" using e by (auto split: if_splits)
  show ?case
  proof (cases "a = b")
    case True
    with u ok show ?thesis by (auto dest: unique_warning_True)
  next
    case False
    with Cons ok e show ?thesis by simp
  qed
qed simp

lemma granted_classes_ack: "c \<in> set (granted_classes deps) \<Longrightarrow>
    c = ''acknowledge_icinga'' \<and> c \<in> set (standing_grant_classes deps)"
  unfolding granted_classes_def set_sort set_filter by (auto simp: standing_grant_supported_def)

text \<open>
  C23: No thread passes the approval point without a human unless an operator has granted it: the switch for
  execution is on, there is at least one action, every one is an acknowledgement, that class is in the
  configured grant, and for each action the listed problems showed exactly one problem of its host and service,
  a WARNING.
\<close>

theorem unattended_approval_granted:
  assumes "approval_interrupt deps None st w = (Inr (Some st'), w')"
  shows "env_flag deps ''NOC_ENABLE_APPROVED_EXECUTION'' \<and> stored_structured_actions st \<noteq> [] \<and>
    ''acknowledge_icinga'' \<in> set (standing_grant_classes deps) \<and>
    (\<forall>a \<in> set (stored_structured_actions st). action_class a = ''acknowledge_icinga'' \<and>
      listed_one_warning deps (input_host (inputs_if_dict a)) (input_service (inputs_if_dict a)))"
proof -
  from assms obtain d w1 w2 where d: "standing_grant_decision deps st w = (Inr (Some d), w1)"
    and e: "grant_envelope_holds deps st w1 = (Inr True, w2)"
    by (auto simp: approval_interrupt_def elim!: bindM_success split: option.splits if_splits)
  from d have g: "grant_covers deps st" by (auto simp: standing_grant_decision_def split: if_splits)
  then obtain a where a: "a \<in> set (stored_structured_actions st)"
    by (meson grant_covers_def hd_in_set)
  have "\<forall>a \<in> set (stored_structured_actions st). action_class a \<in> set (granted_classes deps)"
    using g by (simp add: grant_covers_def list_all_iff)
  moreover from this a granted_classes_ack have "''acknowledge_icinga'' \<in> set (standing_grant_classes deps)" by metis
  ultimately show ?thesis using g envelope_True [OF e [unfolded grant_envelope_holds_def]]
    by (auto simp: grant_covers_def dest: granted_classes_ack)
qed

subsection \<open>Logged runs\<close>

text \<open>The tool logs its calls and answers from a function; the other callbacks do nothing.\<close>

definition logged_deps :: "(string \<Rightarrow> json \<Rightarrow> json) \<Rightarrow> call_log graph_deps \<Rightarrow> call_log graph_deps" where
  "logged_deps answers deps = deps\<lparr>
     gd_tool := logging answers, gd_announce := (\<lambda>executed st decision state x. (Inr (), x)),
     gd_pause := (\<lambda>thread st x. (Inr (), x))\<rparr>"

text \<open>
  A run is followed from a state on: its clock and how often it had been read, the calls logged before it, and readings
  that were taken since and are still to be used. A call is allowed when \<open>Q\<close> allows it outright or for a reading of
  the clock taken during the run.
\<close>

record call_base =
  cb_clock :: "nat \<Rightarrow> rat"
  cb_from :: nat
  cb_read :: "rat set"
  cb_old :: call_log

definition base_of :: "call_log loop_world \<Rightarrow> call_base" where
  "base_of w = \<lparr>cb_clock = lw_seconds w, cb_from = lw_second_reads w, cb_read = {}, cb_old = lw_outside w\<rparr>"

definition readings :: "call_base \<Rightarrow> call_log loop_world \<Rightarrow> rat set" where
  "readings b w = cb_clock b ` {cb_from b ..< lw_second_reads w}"

definition callable :: "(rat option \<Rightarrow> string \<times> json \<Rightarrow> bool) \<Rightarrow> rat set \<Rightarrow> string \<times> json \<Rightarrow> bool" where
  "callable Q ts c \<longleftrightarrow> Q None c \<or> (\<exists>t \<in> ts. Q (Some t) c)"

definition calls_since ::
  "call_base \<Rightarrow> (rat option \<Rightarrow> string \<times> json \<Rightarrow> bool) \<Rightarrow> call_log loop_world \<Rightarrow> bool" where
  "calls_since b Q w \<longleftrightarrow> lw_seconds w = cb_clock b \<and> cb_from b \<le> lw_second_reads w \<and>
     cb_read b \<subseteq> readings b w \<and>
     (\<exists>calls. lw_outside w = cb_old b @ calls \<and> list_all (callable Q (readings b w)) calls)"

lemma calls_since_start: "calls_since (base_of w) Q w"
  by (simp add: calls_since_def base_of_def)

lemma readings_frame [simp]: "readings b (w\<lparr>lw_store := s\<rparr>) = readings b w"
  "readings b (w\<lparr>lw_outside := x\<rparr>) = readings b w"
  by (simp_all add: readings_def)

lemma calls_since_frame [simp]: "calls_since b Q (w\<lparr>lw_store := s\<rparr>) = calls_since b Q w"
  by (simp add: calls_since_def)

lemma callable_mono: "callable Q ts c \<Longrightarrow> ts \<subseteq> us \<Longrightarrow> callable Q us c"
  by (auto simp: callable_def)

lemma readings_later:
  "cb_from b \<le> lw_second_reads w \<Longrightarrow> readings b (w\<lparr>lw_second_reads := Suc (lw_second_reads w)\<rparr>) =
     insert (cb_clock b (lw_second_reads w)) (readings b w)"
  by (simp add: readings_def atLeastLessThanSuc)

lemma calls_since_read:
  assumes "calls_since b Q w"
  shows "calls_since (b\<lparr>cb_read := insert (lw_seconds w (lw_second_reads w)) (cb_read b)\<rparr>) Q
    (w\<lparr>lw_second_reads := Suc (lw_second_reads w)\<rparr>)"
proof -
  have "readings (b\<lparr>cb_read := x\<rparr>) = readings b" for x by (simp add: readings_def fun_eq_iff)
  then show ?thesis using assms
    by (auto simp: calls_since_def readings_later list_all_iff elim!: callable_mono)
qed

lemma calls_since_forget: "calls_since (b\<lparr>cb_read := insert t ts\<rparr>) Q w \<Longrightarrow> calls_since (b\<lparr>cb_read := ts\<rparr>) Q w"
  by (simp add: calls_since_def readings_def)

lemma keeps_store_calls [keeps_intros]: "keeps (calls_since b Q) (in_store m)"
  by (rule keeps_in_store) simp

lemma keeps_time_calls [keeps_intros]: "keeps (calls_since b Q) time_time"
  using calls_since_forget [OF calls_since_read, of "b"] by (intro keeps_time_time) simp

text \<open>What follows a reading may use it.\<close>

lemma keeps_with_reading:
  assumes "\<And>now. keeps (calls_since (b\<lparr>cb_read := insert now (cb_read b)\<rparr>) Q) (f now)"
  shows "keeps (calls_since b Q) (bindM time_time f)"
proof (rule keepsI)
  fix w assume "calls_since b Q w"
  from keepsD [OF assms calls_since_read [OF this]] calls_since_forget
  show "calls_since b Q (snd (bindM time_time f w))" by (force simp: bindM_app time_time_def)
qed

lemma keeps_logged_call:
  "callable Q (cb_read b) (name, args) \<Longrightarrow> keeps (calls_since b Q) (call_out (logging answers name args))"
  by (auto simp: keeps_def logged_call calls_since_def intro: callable_mono)

lemma keeps_silent_call: "keeps (calls_since b Q) (call_out (\<lambda>x. (Inr (), x)))"
  by (auto simp: keeps_def call_out_def zoomM_def calls_since_def split: prod.splits)

lemma logged_deps_simps [simp]:
  "gd_tool (logged_deps answers deps) = logging answers" "gd_env (logged_deps answers deps) = gd_env deps"
  "getenv (logged_deps answers deps) = getenv deps" "env_flag (logged_deps answers deps) = env_flag deps"
  "granted_classes (logged_deps answers deps) = granted_classes deps"
  "grant_covers (logged_deps answers deps) = grant_covers deps"
  by (auto simp: logged_deps_def getenv_def fun_eq_iff env_flag_def granted_classes_def grant_covers_def
      standing_grant_classes_def)

lemma keeps_call_tool: "callable Q (cb_read b) (name, JDict args) \<Longrightarrow> keeps (calls_since b Q) (call_tool (logged_deps answers deps) name args)"
  unfolding call_tool_def logged_deps_simps by (intro keeps_intros keeps_logged_call)

lemma keeps_at_step [keeps_intros]: "keeps (calls_since b Q) (at_step step st)"
  unfolding at_step_def by (intro keeps_intros)

lemma keeps_action_authorization [keeps_intros]: "keeps (calls_since b Q) (action_authorization deps st a cls)"
  unfolding action_authorization_def by (intro keeps_intros)

lemma keeps_decided_at [keeps_intros]: "keeps (calls_since b Q) (decided_at d)"
  unfolding decided_at_def by (intro keeps_intros)

lemma keeps_run_action:
  "callable Q (cb_read b) (name, JDict args) \<Longrightarrow> keeps (calls_since b Q) (run_action (logged_deps answers deps) a d name args)"
  unfolding run_action_def by (intro keeps_intros keeps_call_tool)

lemma keeps_unique_warning:
  "callable Q (cb_read b) (''icinga_list_problems'', list_args) \<Longrightarrow>
     keeps (calls_since b Q) (icinga_is_unique_warning (logged_deps answers deps) host service)"
  unfolding icinga_is_unique_warning_def logged_deps_simps list_args_def [symmetric]
  by (intro keeps_intros keeps_logged_call)

lemma keeps_envelope:
  "callable Q (cb_read b) (''icinga_list_problems'', list_args) \<Longrightarrow>
     keeps (calls_since b Q) (envelope_holds_for (logged_deps answers deps) actions)"
  by (induction actions) (auto simp: Let_def intro!: keeps_intros keeps_unique_warning)

lemma keeps_calls_mono:
  assumes "\<And>b. keeps (calls_since b (\<lambda>_. Q)) m" and "\<And>c. Q c \<Longrightarrow> Q' c"
  shows "keeps (calls_since b (\<lambda>_. Q')) m"
proof (rule keepsI)
  fix w assume w: "calls_since b (\<lambda>_. Q') w"
  obtain calls where old: "lw_outside w = cb_old b @ calls" "list_all Q' calls"
    using w by (auto simp: calls_since_def callable_def list_all_iff)
  have "calls_since (base_of w) (\<lambda>_. Q) (snd (m w))" by (rule keepsD [OF assms(1) calls_since_start])
  then obtain more_calls where new: "lw_seconds (snd (m w)) = lw_seconds w"
    "lw_second_reads w \<le> lw_second_reads (snd (m w))"
    "lw_outside (snd (m w)) = lw_outside w @ more_calls" "list_all Q more_calls"
    by (auto simp: calls_since_def base_of_def callable_def list_all_iff)
  have "readings b w \<subseteq> readings b (snd (m w))" using new(2) by (force simp: readings_def)
  with w old new assms(2) show "calls_since b (\<lambda>_. Q') (snd (m w))"
    by (auto simp: calls_since_def callable_def list_all_iff)
qed

subsection \<open>The acknowledgement of a standing grant\<close>

text \<open>
  An acknowledgement a standing grant allows at a time of the clock: for an action whose host and service have one listed
  problem, a WARNING, without notification, and expiring the configured time to live after it, at least a minute.
\<close>

definition narrow_ack ::
  "(string \<Rightarrow> json \<Rightarrow> json) \<Rightarrow> 'w graph_deps \<Rightarrow> rat \<Rightarrow> jdict \<Rightarrow> jdict \<Rightarrow> bool" where
  "narrow_ack answers deps now action args \<longleftrightarrow>
     action_class action = ''acknowledge_icinga'' \<and> str_or_empty (jget args ''host_name'') \<noteq> [] \<and>
     jget args ''host_name'' = or_json (jget (inputs_if_dict action) ''host'') (jget (inputs_if_dict action) ''host_name'') \<and>
     jget args ''service_name'' = input_service (inputs_if_dict action) \<and>
     exactly_one_warning (str_or_empty (jget args ''host_name'')) (jget args ''service_name'')
       (answers ''icinga_list_problems'' list_args) = Inr True \<and>
     jget args ''notify'' = JBool False \<and>
     (\<exists>ttl. grant_ttl deps = Inr ttl \<and> 60 \<le> ttl \<and> jget args ''expiry'' = JInt (py_trunc now + ttl))"

definition grant_ack ::
  "(string \<Rightarrow> json \<Rightarrow> json) \<Rightarrow> 'w graph_deps \<Rightarrow> jdict list \<Rightarrow> rat \<Rightarrow> string \<times> json \<Rightarrow> bool" where
  "grant_ack answers deps actions now call \<longleftrightarrow>
     (\<exists>action \<in> set actions. \<exists>args. call = (''icinga_acknowledge_alert'', JDict args) \<and>
       narrow_ack answers deps now action args)"

definition grant_call ::
  "(string \<Rightarrow> json \<Rightarrow> json) \<Rightarrow> 'w graph_deps \<Rightarrow> jdict list \<Rightarrow> rat option \<Rightarrow> string \<times> json \<Rightarrow> bool" where
  "grant_call answers deps actions time call \<longleftrightarrow> (case time of
     None \<Rightarrow> call = (''icinga_list_problems'', list_args)
   | Some now \<Rightarrow> grant_ack answers deps actions now call)"

lemma logged_ttl [simp]: "grant_ttl (logged_deps answers deps) = grant_ttl deps"
  by (simp add: grant_ttl_def)

lemma unique_warning_logged:
  assumes "icinga_is_unique_warning (logged_deps answers deps) host service w = (Inr True, w')"
  shows "host \<noteq> [] \<and> exactly_one_warning host service (answers ''icinga_list_problems'' list_args) = Inr True"
  using assms
  by (auto simp: icinga_is_unique_warning_def except_exception_def catchM_def bindM_app logged_call
      list_args_def [symmetric] split: if_splits)

lemma grant_ttl_min: "grant_ttl deps = Inr n \<Longrightarrow> 60 \<le> n"
  by (auto simp: grant_ttl_def split: sum.splits)

lemma keeps_bind_value:
  assumes "keeps P m" and "\<And>x w w'. m w = (Inr x, w') \<Longrightarrow> keeps P (f x)"
  shows "keeps P (bindM m f)"
proof (rule keepsI)
  fix w assume "P w"
  obtain r w' where m: "m w = (r, w')" by force
  with keepsD_eq [OF assms(1) \<open>P w\<close>] have "P w'" by blast
  with m assms(2) show "P (snd (bindM m f w))"
    by (cases r) (auto simp: bindM_app dest: keepsD)
qed

lemma keeps_granted_ack:
  assumes "action \<in> set actions" and "jget action ''type'' = JStr ''acknowledge_icinga''"
  shows "keeps (calls_since b (grant_call answers deps actions))
    (execute_granted_ack (logged_deps answers deps) action decision
       (ack_arguments (inputs_if_dict action) decision auth))"
  unfolding execute_granted_ack_def
proof (rule keeps_bind_value)
  let ?args = "ack_arguments (inputs_if_dict action) decision auth"
  show "keeps (calls_since b (grant_call answers deps actions))
      (icinga_is_unique_warning (logged_deps answers deps) (str_or_empty (jget ?args ''host_name''))
        (jget ?args ''service_name''))"
    by (rule keeps_unique_warning) (simp add: grant_call_def callable_def)
  fix ok w w'
  assume u: "icinga_is_unique_warning (logged_deps answers deps) (str_or_empty (jget ?args ''host_name''))
        (jget ?args ''service_name'') w = (Inr ok, w')"
  show "keeps (calls_since b (grant_call answers deps actions))
     (if \<not> ok then retM (blocked action ''Standing grant requires a unique WARNING-state Icinga problem'')
      else bindM (liftM (grant_ttl (logged_deps answers deps))) (\<lambda>ttl. bindM time_time (\<lambda>now.
        run_action (logged_deps answers deps) action decision ''icinga_acknowledge_alert''
          (?args @ [(''expiry'', JInt (py_trunc now + ttl)), (''notify'', JBool False)]))))"
  proof (cases ok)
    case True
    note one = unique_warning_logged [OF u [unfolded eqTrueI [OF True]]]
    have "callable (grant_call answers deps actions) (insert now ts) (''icinga_acknowledge_alert'',
        JDict (?args @ [(''expiry'', JInt (py_trunc now + ttl)), (''notify'', JBool False)]))"
      if "grant_ttl deps = Inr ttl" for now ttl ts
      unfolding callable_def grant_call_def grant_ack_def option.case
      apply (rule disjI2, rule bexI [of _ now], rule bexI [OF _ assms(1)])
      using one that grant_ttl_min [OF that] assms(2)
      by (auto simp: narrow_ack_def ack_arguments_def action_class_def input_service_def)
    then show ?thesis using True
      by (auto intro!: keeps_bind_value [OF keeps_lift] keeps_with_reading keeps_run_action)
  qed (auto intro: keeps_intros)
qed

lemma keeps_granted_action:
  assumes "action \<in> set actions" and "by_standing_grant decision"
  shows "keeps (calls_since b (grant_call answers deps actions))
    (execute_real_action (logged_deps answers deps) st action decision)"
proof (cases "jget action ''type'' = JStr ''acknowledge_icinga''")
  case True
  then show ?thesis using assms keeps_granted_ack [OF assms(1) True]
    unfolding execute_real_action_def Let_def
    by (auto intro!: keeps_intros)
next
  case False
  then show ?thesis using assms
    by (auto simp: execute_real_action_def Let_def standing_grant_supported_def intro: keeps_intros)
qed

lemma keeps_announce [keeps_intros]:
  "keeps (calls_since b Q) (announce_standing_grant (logged_deps answers deps) st d state)"
proof -
  have "gd_announce (logged_deps answers deps) b st d state = (\<lambda>x. (Inr (), x))" for b
    by (simp add: logged_deps_def)
  then show ?thesis unfolding announce_standing_grant_def by (intro keeps_intros) (simp add: keeps_silent_call)
qed

text \<open>
  C22: Executing on a standing grant, with the no-op rollback guards switched off (with them on nothing is
  acknowledged at all, as the gates below say), never does more than acknowledge single warnings: besides listing
  problems, every call is an acknowledgement for one of the stored actions, of a host and service for which the list
  shows exactly one problem, a WARNING, without notifying anybody, and its expiry is the configured time to live, at
  least 60 seconds, after a reading of the clock taken in this very execution.
\<close>

theorem standing_grant_is_narrow:
  assumes "execute_approved_remediation (logged_deps answers deps) st w = (r, w')"
    and "by_standing_grant (decision_of st)"
    and "\<not> env_flag deps ''NOC_ENABLE_NOOP_ROLLBACK_GUARDS''"
  shows "\<exists>calls. lw_outside w' = lw_outside w @ calls \<and>
    list_all (\<lambda>call. call = (''icinga_list_problems'', list_args) \<or>
      (\<exists>k. lw_second_reads w \<le> k \<and> k < lw_second_reads w' \<and>
        grant_ack answers deps (stored_structured_actions st) (lw_seconds w k) call)) calls"
proof -
  have "keeps (calls_since (base_of w) (grant_call answers deps (stored_structured_actions st)))
      (execute_approved_remediation (logged_deps answers deps) st)"
    unfolding execute_approved_remediation_def Let_def logged_deps_simps
    using assms(2,3) by (auto intro!: keeps_intros keeps_mapM_in keeps_granted_action)
  from keepsD_eq [OF this calls_since_start assms(1)] obtain calls where c: "lw_outside w' = lw_outside w @ calls"
    "list_all (callable (grant_call answers deps (stored_structured_actions st)) (readings (base_of w) w')) calls"
    by (auto simp: calls_since_def base_of_def)
  let ?ok = "\<lambda>call. call = (''icinga_list_problems'', list_args) \<or>
      (\<exists>k. lw_second_reads w \<le> k \<and> k < lw_second_reads w' \<and>
        grant_ack answers deps (stored_structured_actions st) (lw_seconds w k) call)"
  have "?ok call"
    if "callable (grant_call answers deps (stored_structured_actions st)) (readings (base_of w) w') call" for call
    using that unfolding callable_def grant_call_def readings_def base_of_def by fastforce
  with c(2) have "list_all ?ok calls" unfolding list_all_iff by blast
  with c(1) show ?thesis by blast
qed

subsection \<open>The gates of an execution\<close>

definition guard_tools :: "string list" where
  "guard_tools = [''prepare_commit_confirm'', ''confirm_change'', ''rollback_change'']"

definition action_tools :: "string list" where
  "action_tools = [''os_service_restart'', ''icinga_acknowledge_alert'', ''prometheus_query'']"

definition execution_tools :: "'w graph_deps \<Rightarrow> string list" where
  "execution_tools deps =
     (if env_flag deps ''NOC_ENABLE_NOOP_ROLLBACK_GUARDS'' then guard_tools else action_tools)"

definition decided_approved :: "jdict option \<Rightarrow> bool" where
  "decided_approved resumed \<longleftrightarrow> (\<exists>d. resumed = Some d \<and> jget d ''decision'' = JStr ''approved'')"

definition execution_permitted :: "'w graph_deps \<Rightarrow> jdict option \<Rightarrow> workflow \<Rightarrow> bool" where
  "execution_permitted deps resumed st \<longleftrightarrow> env_flag deps ''NOC_ENABLE_APPROVED_EXECUTION'' \<and>
     (grant_covers deps st \<or> decided_approved resumed)"

definition gated_call :: "'w graph_deps \<Rightarrow> bool \<Rightarrow> string \<times> json \<Rightarrow> bool" where
  "gated_call deps permitted call \<longleftrightarrow> call = (''icinga_list_problems'', list_args) \<or>
     (permitted \<and> fst call \<in> set (execution_tools deps))"

lemma gated_list [simp]: "gated_call deps p (''icinga_list_problems'', list_args)"
  by (simp add: gated_call_def)

lemma callable_gated [simp]: "callable (\<lambda>_. gated_call deps p) ts c \<longleftrightarrow> gated_call deps p c"
  by (auto simp: callable_def)

definition in_noop :: "'w graph_deps \<Rightarrow> jdict \<Rightarrow> bool" where
  "in_noop deps item \<longleftrightarrow>
     (jget item ''execution_mode'' = JStr ''noop_guard'' \<longleftrightarrow> env_flag deps ''NOC_ENABLE_NOOP_ROLLBACK_GUARDS'')"

definition execution_allowed :: "'w graph_deps \<Rightarrow> workflow \<Rightarrow> bool" where
  "execution_allowed deps st \<longleftrightarrow> env_flag deps ''NOC_ENABLE_APPROVED_EXECUTION'' \<and>
     jget (decision_of st) ''decision'' = JStr ''approved''"

lemma logged_predicates [simp]:
  "in_noop (logged_deps answers deps) = in_noop deps"
  "execution_allowed (logged_deps answers deps) = execution_allowed deps"
  by (simp_all add: in_noop_def execution_allowed_def fun_eq_iff)

lemma keeps_noop_guard:
  "env_flag deps ''NOC_ENABLE_NOOP_ROLLBACK_GUARDS'' \<Longrightarrow>
     keeps (calls_since b (\<lambda>_. gated_call deps True)) (prepare_noop_guard (logged_deps answers deps) st a d)"
  "env_flag deps ''NOC_ENABLE_NOOP_ROLLBACK_GUARDS'' \<Longrightarrow>
     keeps (calls_since b (\<lambda>_. gated_call deps True)) (finalize_noop_guard (logged_deps answers deps) st item)"
  unfolding prepare_noop_guard_def finalize_noop_guard_def Let_def
  by (auto intro!: keeps_intros keeps_call_tool simp: gated_call_def execution_tools_def guard_tools_def)

lemma keeps_real_action:
  assumes "\<not> env_flag deps ''NOC_ENABLE_NOOP_ROLLBACK_GUARDS''"
  shows "keeps (calls_since b (\<lambda>_. gated_call deps True)) (execute_real_action (logged_deps answers deps) st a d)"
  using assms unfolding execute_real_action_def execute_granted_ack_def Let_def
  by (auto intro!: keeps_intros keeps_run_action keeps_unique_warning
      simp: gated_call_def execution_tools_def action_tools_def)

lemma keeps_probe:
  "\<not> env_flag deps ''NOC_ENABLE_NOOP_ROLLBACK_GUARDS'' \<Longrightarrow>
     keeps (calls_since b (\<lambda>_. gated_call deps True)) (probe_up (logged_deps answers deps) query attempts)"
  by (induction attempts)
    (auto intro!: keeps_intros keeps_call_tool simp: Let_def gated_call_def execution_tools_def action_tools_def)

lemma keeps_verify_host:
  "\<not> env_flag deps ''NOC_ENABLE_NOOP_ROLLBACK_GUARDS'' \<Longrightarrow>
     keeps (calls_since b (\<lambda>_. gated_call deps True)) (verify_host (logged_deps answers deps) host)"
  unfolding verify_host_def
  by (auto simp del: probe_up.simps split: option.split intro!: keeps_bind keeps_probe keeps_case_prod keeps_ret)

lemma keeps_verify_item:
  assumes "in_noop deps item"
  shows "keeps (calls_since b (\<lambda>_. gated_call deps True)) (verify_item (logged_deps answers deps) st item)"
  using assms unfolding verify_item_def Let_def in_noop_def
  by (auto intro!: keeps_intros keeps_noop_guard keeps_verify_host)

lemma guard_result: "prepare_noop_guard deps st a d w = (Inr item, w') \<Longrightarrow>
    jget item ''execution_mode'' = JStr ''noop_guard''"
  by (auto simp: prepare_noop_guard_def Let_def elim!: bindM_success)

lemma run_result: "run_action deps a d name args w = (Inr item, w') \<Longrightarrow>
    jget item ''execution_mode'' = JStr ''real_action''"
  by (auto simp: run_action_def elim!: bindM_success)

lemma real_result: "execute_real_action deps st a d w = (Inr item, w') \<Longrightarrow>
    jget item ''execution_mode'' \<noteq> JStr ''noop_guard''"
  by (auto simp: execute_real_action_def execute_granted_ack_def Let_def blocked_def
      elim!: bindM_success dest!: run_result split: if_splits)

lemma keeps_execution:
  "keeps (calls_since b (\<lambda>_. gated_call deps (execution_allowed deps st)))
     (execute_approved_remediation (logged_deps answers deps) st)"
  unfolding execute_approved_remediation_def Let_def logged_deps_simps execution_allowed_def
  by (cases "env_flag deps ''NOC_ENABLE_NOOP_ROLLBACK_GUARDS''")
    (auto intro!: keeps_intros keeps_noop_guard keeps_real_action)

lemma executed_items:
  assumes "execute_approved_remediation deps st w = (Inr st', w')" and "wf_executed_actions st = []"
  shows "list_all (in_noop deps) (wf_executed_actions st') \<and>
    (\<not> execution_allowed deps st \<longrightarrow> wf_executed_actions st' = [])"
proof (cases "execution_allowed deps st")
  case True
  let ?noop = "env_flag deps ''NOC_ENABLE_NOOP_ROLLBACK_GUARDS''" and ?d = "decision_of st"
  from assms True obtain results w1 where
    m: "mapM (\<lambda>a. if ?noop then prepare_noop_guard deps st a ?d else execute_real_action deps st a ?d)
        (stored_structured_actions st) w = (Inr results, w1)" and r: "wf_executed_actions st' = results"
    by (auto simp: execute_approved_remediation_def Let_def execution_allowed_def
        elim!: bindM_success dest!: at_step_run)
  have "list_all (in_noop deps) results"
    by (rule mapM_results [OF _ m]) (auto simp: in_noop_def split: if_splits dest: guard_result real_result)
  with True r show ?thesis by simp
next
  case False
  with assms show ?thesis
    by (auto simp: execute_approved_remediation_def Let_def execution_allowed_def
        elim!: bindM_success dest!: at_step_run split: if_splits)
qed

lemma keeps_verification:
  assumes "list_all (in_noop deps) (wf_executed_actions st)" and "\<not> p \<Longrightarrow> wf_executed_actions st = []"
  shows "keeps (calls_since b (\<lambda>_. gated_call deps p)) (verify_remediation (logged_deps answers deps) st)"
proof (cases p)
  case True
  with assms(1) show ?thesis unfolding verify_remediation_def Let_def
    by (auto simp: list_all_iff intro!: keeps_intros keeps_mapM_in keeps_verify_item)
next
  case False
  with assms(2) show ?thesis unfolding verify_remediation_def Let_def by (auto intro!: keeps_intros)
qed

lemma approval_run:
  assumes "approval_interrupt deps resumed st w = (Inr (Some st'), w')"
  shows "wf_executed_actions st' = wf_executed_actions st \<and>
    (jget (decision_of st') ''decision'' = JStr ''approved'' \<longrightarrow> grant_covers deps st \<or> decided_approved resumed)"
  using assms
  by (auto simp: approval_interrupt_def standing_grant_decision_def decision_of_def decided_approved_def
      elim!: bindM_success dest!: at_step_run split: option.splits if_splits)

lemma keeps_approval:
  "keeps (calls_since b (\<lambda>_. gated_call deps p)) (approval_interrupt (logged_deps answers deps) resumed st)"
  unfolding approval_interrupt_def standing_grant_decision_def grant_envelope_holds_def
  by (auto intro!: keeps_intros keeps_envelope split: option.split)

text \<open>
  C24: Nothing is executed without leave: from the approval point to the end of the thread, whatever the
  tools answer, the graph calls nothing but the list of problems unless execution is switched on and the action
  is covered by a standing grant or was approved by an operator; and with the rollback guards switched on it
  then calls the tools of the guards only, never one that restarts a service or acknowledges a problem.
\<close>

theorem execution_gated:
  assumes "approve_and_execute (logged_deps answers deps) resumed st w = (r, w')"
    and "wf_executed_actions st = []"
  shows "\<exists>calls. lw_outside w' = lw_outside w @ calls \<and>
    list_all (gated_call deps (execution_permitted deps resumed st)) calls"
proof -
  let ?deps = "logged_deps answers deps" and ?p = "execution_permitted deps resumed st"
  let ?P = "calls_since (base_of w) (\<lambda>_. gated_call deps ?p)"
  have pause: "keeps ?P (call_out (gd_pause ?deps th s))" for th s
  proof -
    have "gd_pause ?deps th s = (\<lambda>x. (Inr (), x))" by (simp add: logged_deps_def)
    then show ?thesis by (simp add: keeps_silent_call)
  qed
  have "keeps ?P (approve_and_execute ?deps resumed st)"
    unfolding approve_and_execute_def
  proof (rule keeps_bind_value [OF keeps_approval])
    fix x u v assume a: "approval_interrupt ?deps resumed st u = (Inr x, v)"
    show "keeps ?P (case x of None \<Rightarrow> bindM (call_out (gd_pause ?deps (wf_thread_id st) st)) (\<lambda>_. retM (Paused st))
       | Some st \<Rightarrow> if wf_approval_state st = ''approved''
         then bindM (execute_approved_remediation ?deps st) (\<lambda>st. bindM (verify_remediation ?deps st) (\<lambda>st. retM (Ended st)))
         else retM (Ended st))"
    proof (cases x)
      case None
      then show ?thesis by (auto intro!: keeps_intros pause)
    next
      case (Some st1)
      note ap = approval_run [OF a [unfolded Some]]
      have e: "execution_allowed deps st1 \<Longrightarrow> ?p"
        using ap by (auto simp: execution_allowed_def execution_permitted_def)
      have "keeps ?P (bindM (execute_approved_remediation ?deps st1)
          (\<lambda>st. bindM (verify_remediation ?deps st) (\<lambda>st. retM (Ended st))))"
      proof (rule keeps_bind_value)
        show "keeps ?P (execute_approved_remediation ?deps st1)"
          by (rule keeps_calls_mono [OF keeps_execution]) (use e in \<open>auto simp: gated_call_def\<close>)
        fix st2 u v assume "execute_approved_remediation ?deps st1 u = (Inr st2, v)"
        from executed_items [OF this] ap assms(2) have i: "list_all (in_noop deps) (wf_executed_actions st2)"
          "\<not> ?p \<Longrightarrow> wf_executed_actions st2 = []"
          using e by (auto simp: in_noop_def execution_allowed_def)
        show "keeps ?P (bindM (verify_remediation ?deps st2) (\<lambda>st. retM (Ended st)))"
          by (intro keeps_intros keeps_verification i)
      qed
      with Some show ?thesis by (auto intro: keeps_ret)
    qed
  qed
  from keepsD_eq [OF this calls_since_start assms(1)] show ?thesis
    by (auto simp: calls_since_def base_of_def callable_def list_all_iff)
qed

subsection \<open>A granted acknowledgement\<close>

definition granting_env :: "string \<Rightarrow> string option" where
  "granting_env name =
     (if name = ''NOC_ENABLE_APPROVED_EXECUTION'' then Some ''1''
      else if name = ''NOC_STANDING_GRANT_ACTION_CLASSES'' then Some ''restart_service, acknowledge_icinga''
      else None)"

definition disk_problems :: "string \<Rightarrow> json \<Rightarrow> json" where
  "disk_problems name args =
     (if name = ''icinga_list_problems'' then JDict [(''problems'', JList
        [JDict [(''host'', JStr ''mon''), (''name'', JStr ''mon!disk''), (''state'', JInt 1)],
         JDict [(''host'', JStr ''mon''), (''name'', JStr ''mon!load''), (''state'', JInt 2)]])]
      else JDict [(''ok'', JBool True)])"

definition ack_action :: jdict where
  "ack_action = [(''action_id'', JStr ''act-1''), (''type'', JStr ''acknowledge_icinga''),
     (''inputs'', JDict [(''host'', JStr ''mon''), (''service'', JStr ''disk'')])]"

definition proposal_with :: "jdict list \<Rightarrow> change_proposal" where
  "proposal_with actions = \<lparr>
     cp_proposal_id = ''p1'', cp_incident_id = ''case_1'', cp_resource_id = ''mon'', cp_assessment = [],
     cp_root_cause_hypothesis = [], cp_confidence = 9 / 10, cp_evidence_refs = [], cp_drift_findings = [],
     cp_proposed_remediation = [], cp_structured_actions = actions, cp_validation_status = VS_validated,
     cp_human_review_rationale = []\<rparr>"

definition ack_state :: workflow where
  "ack_state = sample_start\<lparr>wf_proposals := [proposal_with [ack_action]]\<rparr>"

lemma ack_state_actions [simp]: "stored_structured_actions ack_state = [ack_action]"
  by (simp add: ack_state_def stored_structured_actions_def proposal_with_def)

lemma ack_state_executed [simp]: "wf_executed_actions ack_state = []"
  by (simp add: ack_state_def sample_start_def initial_state_def)

lemma sample_deps_simps [simp]:
  "gd_env (sample_deps env answers) = env" "gd_tool (sample_deps env answers) = logging answers"
  by (simp_all add: sample_deps_def)

lemma sample_covers: "grant_covers (sample_deps granting_env answers) ack_state"
  by (simp add: grant_covers_def granted_classes_def standing_grant_classes_def getenv_def env_flag_def)
    (simp add: granting_env_def ack_action_def action_class_def standing_grant_supported_def py_strip_def
      is_space_def code_def)

lemma sample_warning: "exactly_one_warning ''mon'' (JStr ''disk'') (disk_problems ''icinga_list_problems'' list_args) = Inr True"
  by code_simp

lemma ack_inputs: "input_host (inputs_if_dict ack_action) = ''mon''"
    "input_service (inputs_if_dict ack_action) = JStr ''disk''"
  by (simp_all add: ack_action_def inputs_if_dict_def input_host_def input_service_def or_json_def)

lemma sample_granted: "\<exists>st' w'. approval_interrupt (sample_deps granting_env disk_problems) None ack_state sample_world =
    (Inr (Some st'), w') \<and> lw_outside w' \<noteq> []"
  using sample_warning sample_covers [of disk_problems]
  by (simp add: approval_interrupt_def standing_grant_decision_def grant_envelope_holds_def bindM_app
      in_store_def zoomM_def utc_now_app Let_def ack_inputs icinga_is_unique_warning_def
      except_exception_def catchM_def logged_call at_step_def flip: list_args_def)

theorem unattended_approval_granted_witness:
  "listed_one_warning (sample_deps granting_env disk_problems) ''mon'' (JStr ''disk'')"
proof -
  obtain st' w' where "approval_interrupt (sample_deps granting_env disk_problems) None ack_state sample_world =
    (Inr (Some st'), w')" using sample_granted by blast
  from unattended_approval_granted [OF this] show ?thesis by (simp add: ack_inputs)
qed

definition granted_state :: workflow where
  "granted_state = ack_state\<lparr>wf_operator_decision := Some
     [(''decision'', JStr ''approved''), (''operator'', JStr ''standing-grant'')]\<rparr>"

theorem standing_grant_is_narrow_witness:
  "list_all (\<lambda>call. call = (''icinga_list_problems'', list_args) \<or>
       (\<exists>k. lw_second_reads sample_world \<le> k \<and>
         grant_ack disk_problems (sample_deps granting_env disk_problems) [ack_action] (lw_seconds sample_world k) call))
     (lw_outside (snd (execute_approved_remediation (logged_deps disk_problems (sample_deps granting_env disk_problems))
        granted_state sample_world)))"
proof -
  let ?deps = "sample_deps granting_env disk_problems"
  obtain r w' where x: "execute_approved_remediation (logged_deps disk_problems ?deps) granted_state sample_world = (r, w')"
    by force
  have "by_standing_grant (decision_of granted_state)"
    by (simp add: granted_state_def by_standing_grant_def decision_of_def)
  moreover have "\<not> env_flag ?deps ''NOC_ENABLE_NOOP_ROLLBACK_GUARDS''"
    by (simp add: env_flag_def getenv_def granting_env_def)
  moreover have "stored_structured_actions granted_state = [ack_action]"
    using ack_state_actions by (simp add: granted_state_def stored_structured_actions_def)
  moreover have "lw_outside sample_world = []" by (simp add: sample_world_def logged_world_def)
  ultimately show ?thesis using standing_grant_is_narrow [OF x] x by (auto simp: list_all_iff)
qed

theorem execution_gated_witness:
  "list_all (gated_call (sample_deps granting_env disk_problems) True)
     (lw_outside (snd (approve_and_execute (logged_deps disk_problems (sample_deps granting_env disk_problems))
        None ack_state sample_world)))"
proof -
  let ?deps = "sample_deps granting_env disk_problems"
  obtain r w' where x: "approve_and_execute (logged_deps disk_problems ?deps) None ack_state sample_world = (r, w')"
    by force
  have "env_flag ?deps ''NOC_ENABLE_APPROVED_EXECUTION''"
    by (simp add: env_flag_def getenv_def granting_env_def)
  then have "execution_permitted ?deps None ack_state"
    by (simp add: execution_permitted_def sample_covers)
  moreover have "lw_outside sample_world = []" by (simp add: sample_world_def logged_world_def)
  ultimately show ?thesis using execution_gated [OF x ack_state_executed] x by simp
qed

end
