(* ===== verification/Graph_Flaws.thy ===== *)
theory Graph_Flaws
  imports Approval_Reached Grant_Spec Reports_Spec Scanner
begin

section \<open>Where the graph does not do what it means to\<close>

text \<open>
  Four consequences of the code of the investigation graph that contradict what it is for: a failed action behind
  a verified thread, samples the verification cannot read, a check that never finds anything, and an
  acknowledgement that resolves the case it acknowledges.
\<close>

subsection \<open>A decision that is stored\<close>

lemma resolved_texts:
  "safe_string 1000 (JStr ''resolved'') = ''resolved''" "safe_string 80 (JStr ''status'') = ''status''"
  "safe_string 80 (JStr ''decision_status'') = ''decision_status''"
  "safe_string 80 (JStr ''operator_decision'') = ''operator_decision''"
  "safe_string 80 (JStr ''executed_actions'') = ''executed_actions''"
  "safe_string 80 (JStr ''verification_results'') = ''verification_results''"
  by code_simp+

lemma resolving_fields:
  "jget summary ''status'' \<noteq> JStr ''waiting_approval'' \<Longrightarrow>
     jget (bounded_dict 1000 5 (decision_fields decision summary)) ''status'' = JStr ''resolved''"
  using bounded_dict_Suc [of 1000 4]
  by (simp add: resolved_texts dict_of_def dict_update_def bounded_json_text decision_fields_def)

lemma stored_decision:
  assumes "holds_case (lw_store w) cid c" and "jget summary ''status'' \<noteq> JStr ''waiting_approval''"
  shows "\<exists>w' c'. store_decision cid decision summary w = (Inr summary, w') \<and>
    holds_case (lw_store w') cid c' \<and> ac_status c' = CS_resolved"
proof -
  obtain r2 s2 where p: "put_summary cid summary (lw_store w) = (r2, s2)" by force
  from put_summary_held [OF assms(1) p] obtain c2 where r2: "r2 = Inr ()" and h2: "holds_case s2 cid c2" by blast
  let ?given = "decision_fields decision summary"
  obtain r3 s3 where u: "update_case cid ?given s2 = (r3, s3)" by force
  from update_case_run [OF h2 u] obtain res t where c3:
    "r3 = Inr (case_dict (updated_case (bounded_dict 1000 5 ?given) c2 res t))"
    "st_cases s3 = dict_set cid (Atomic (updated_case (bounded_dict 1000 5 ?given) c2 res t)) (st_cases s2)"
    by (auto simp: Let_def)
  let ?c3 = "updated_case (bounded_dict 1000 5 ?given) c2 res t"
  have "holds_case s3 cid ?c3" using h2 c3(2) by (simp add: holds_case_def updated_case_def del: map_of_eq_Some_iff)
  moreover have "ac_status ?c3 = CS_resolved"
    using resolving_fields [OF assms(2)]
    by (simp add: updated_case_def status_after_def graph_case_status_def)
  moreover have "store_decision cid decision summary w = (Inr summary, w\<lparr>lw_store := s3\<rparr>)"
    using p u by (simp add: store_decision_def bindM_app in_store_def zoomM_def r2 c3(1))
  ultimately show ?thesis by force
qed

subsection \<open>A failed action and a verified thread\<close>

definition succeeded :: "jdict \<Rightarrow> bool" where
  "succeeded item \<longleftrightarrow> truthy (jget item ''ok'')"

definition acknowledgement_item :: "jdict \<Rightarrow> bool" where
  "acknowledgement_item item \<longleftrightarrow> jget item ''execution_mode'' \<noteq> JStr ''noop_guard'' \<and>
     (\<exists>a. jget item ''action'' = JDict a \<and> jget a ''type'' = JStr ''acknowledge_icinga'')"

lemma verify_acknowledgements:
  "list_all acknowledgement_item items \<Longrightarrow>
     \<exists>results. mapM (verify_item deps st) items w = (Inr results, w) \<and> list_all (\<lambda>r. truthy (jget r ''ok'')) results"
  by (induction items) (auto simp: acknowledgement_item_def verify_item_def Let_def bindM_app)

text \<open>
  C39: One action that succeeds hides those that failed: the verification looks at the succeeded actions only. Where
  another action of the same approval failed and the succeeded ones, of which there is one at least, are all
  acknowledgements, the thread ends as verified without a call of any tool; and when the outcome is then persisted for a
  stored case that has a summary of its investigation, the case is recorded as resolved, with the failed action among
  the executed ones of the same record.
\<close>

theorem failed_action_verified:
  fixes w :: "'w loop_world"
  assumes "failed \<in> set (wf_executed_actions st)" and "\<not> succeeded failed"
    and "acked \<in> set (wf_executed_actions st)" and "succeeded acked"
    and "list_all acknowledgement_item (filter succeeded (wf_executed_actions st))"
    and "holds_case (lw_store w) cid c" and "stored_summary c = Some summary" and "bounded_dict 1000 5 summary \<noteq> []"
  shows "\<exists>st' w1 d w2 c' acts. verify_remediation deps st w = (Inr st', w1) \<and>
    wf_approval_state st' = ''verified'' \<and> lw_outside w1 = lw_outside w \<and>
    persist_final_decision cid decision st' w1 = (Inr (Some d), w2) \<and>
    holds_case (lw_store w2) cid c' \<and> ac_status c' = CS_resolved \<and> jget d ''status'' = JStr ''resolved'' \<and>
    jget d ''executed_actions'' = JList acts \<and> JDict failed \<in> set acts"
proof -
  have f: "(\<lambda>item. truthy (jget item ''ok'')) = succeeded" by (simp add: fun_eq_iff succeeded_def)
  have n: "filter succeeded (wf_executed_actions st) \<noteq> []" using assms(3,4) by (auto simp: filter_empty_conv)
  obtain results where "mapM (verify_item deps st) (filter succeeded (wf_executed_actions st)) w = (Inr results, w)"
      "list_all succeeded results"
    using verify_acknowledgements [OF assms(5), of deps st w] by (auto simp: f)
  with n obtain st' w1 where v: "verify_remediation deps st w = (Inr st', w1)" "wf_approval_state st' = ''verified''"
      "lw_outside w1 = lw_outside w" "st_cases (lw_store w1) = st_cases (lw_store w)"
      "wf_executed_actions st' = wf_executed_actions st"
    by (auto simp: verify_remediation_def Let_def f bindM_app at_step_def in_store_def zoomM_def utc_now_app)
  let ?s = "bounded_dict 1000 5 summary"
  have h1: "holds_case (lw_store w1) cid c" using assms(6) v(4) by (simp add: holds_case_def)
  have g: "in_store (get_summary cid) w1 = (Inr (Some ?s), w1)"
    by (simp add: in_store_def zoomM_def get_summary_held [OF h1] assms(7))
  obtain now w1' where t: "in_store utc_now w1 = (Inr now, w1')" "st_cases (lw_store w1') = st_cases (lw_store w1)"
    using now_read by blast
  let ?acts = "map JDict (wf_executed_actions st')"
  let ?d = "dict_update ?s [(''status'', JStr ''approved''), (''operator_decision'', JDict decision),
    (''updated_at'', JStr now), (''approval_state'', JStr (wf_approval_state st')), (''executed_actions'', JList ?acts),
    (''verification_results'', JList (map JDict (wf_verification_results st'))),
    (''status'', JStr (final_status (wf_approval_state st')))]"
  have d: "jget ?d ''status'' = JStr ''resolved''" "jget ?d ''executed_actions'' = JList ?acts"
    by (simp_all add: v(2) final_status_def dict_update_def)
  have h2: "holds_case (lw_store w1') cid c" using h1 t(2) by (simp add: holds_case_def)
  have "jget ?d ''status'' \<noteq> JStr ''waiting_approval''" by (simp add: d(1))
  from stored_decision [OF h2 this, of decision] obtain w2 c' where
    "store_decision cid decision ?d w1' = (Inr ?d, w2)" "holds_case (lw_store w2) cid c'" "ac_status c' = CS_resolved"
    by blast
  moreover from this(1) have "persist_final_decision cid decision st' w1 = (Inr (Some ?d), w2)"
    using assms(8) by (simp add: persist_final_decision_def bindM_app g t(1))
  moreover have "JDict failed \<in> set ?acts" using assms(1) v(5) by simp
  ultimately show ?thesis using v(1-3) d by blast
qed

definition half_failed :: workflow where
  "half_failed = sample_start\<lparr>wf_executed_actions := [
     [(''ok'', JBool False), (''action'', JDict [(''type'', JStr ''restart_service'')])],
     [(''ok'', JBool True), (''execution_mode'', JStr ''executed''),
      (''action'', JDict [(''type'', JStr ''acknowledge_icinga'')])]]\<rparr>"

definition investigated_case :: atomic_case where
  "investigated_case = open_case\<lparr>ac_last_diagnosis := [(''graph_summary'', JDict waiting_summary)]\<rparr>"

definition investigated_world :: "call_log loop_world" where
  "investigated_world = logged_world\<lparr>lw_store := one_case_store\<lparr>st_cases := [(''case_1'', Atomic investigated_case)]\<rparr>\<rparr>"

lemma investigated_held: "holds_case (lw_store investigated_world) ''case_1'' investigated_case"
    "stored_summary investigated_case = Some waiting_summary" "bounded_dict 1000 5 waiting_summary \<noteq> []"
proof -
  show "holds_case (lw_store investigated_world) ''case_1'' investigated_case"
    using one_case_held by (simp add: investigated_world_def holds_case_def investigated_case_def open_case_def)
  show "stored_summary investigated_case = Some waiting_summary"
    by (simp add: stored_summary_def investigated_case_def)
  show "bounded_dict 1000 5 waiting_summary \<noteq> []" by code_simp
qed

theorem failed_action_verified_witness:
  "\<exists>st' w1 d w2 c'. verify_remediation (sample_deps (\<lambda>_. None) (\<lambda>_ _. JNull)) half_failed investigated_world = (Inr st', w1) \<and>
     persist_final_decision ''case_1'' [(''decision'', JStr ''approved'')] st' w1 = (Inr (Some d), w2) \<and>
     holds_case (lw_store w2) ''case_1'' c' \<and> ac_status c' = CS_resolved"
proof -
  have "hd (wf_executed_actions half_failed) \<in> set (wf_executed_actions half_failed)"
    "\<not> succeeded (hd (wf_executed_actions half_failed))"
    "last (wf_executed_actions half_failed) \<in> set (wf_executed_actions half_failed)"
    "succeeded (last (wf_executed_actions half_failed))"
    "list_all acknowledgement_item (filter succeeded (wf_executed_actions half_failed))"
    by (simp_all add: half_failed_def succeeded_def acknowledgement_item_def)
  from failed_action_verified [OF this investigated_held] show ?thesis by blast
qed

subsection \<open>Samples that are never read\<close>

text \<open>
  An answer in the form of the Prometheus API, whose samples are pairs of a time and a value. The scanner reads
  them (\<^const>\<open>parse_prom_vector\<close>).
\<close>

definition pair_row :: "json \<times> json \<times> string \<Rightarrow> json" where
  "pair_row r = (case r of (metric, time, v) \<Rightarrow> JDict [(''metric'', metric), (''value'', JList [time, JStr v])])"

definition api_answer :: "(json \<times> json \<times> string) list \<Rightarrow> json" where
  "api_answer rows = JDict [(''ok'', JBool True), (''data'', JDict [(''result'', JList (map pair_row rows))])]"

text \<open>
  The verification of a restart cannot read the answers of the Prometheus API: it falls back to their
  \<open>data.result\<close>, whose samples are pairs, but compares the whole pair with 1, so it never sees a host as up,
  whatever the samples say, while the scanner reads the value out of the pair.
\<close>

theorem pair_samples_never_verify:
  "prometheus_up (api_answer rows) = Inr False \<and>
   map sm_value (parse_prom_vector (api_answer rows)) = List.map_filter (\<lambda>(metric, time, v). parse_float v) rows"
proof -
  have *: "(case row_sample (pair_row r) of None \<Rightarrow> [] | Some s \<Rightarrow> [sm_value s]) =
      (case (\<lambda>(metric, time, v). parse_float v) r of None \<Rightarrow> [] | Some x \<Rightarrow> [x])" for r
    by (cases r) (auto simp: row_sample_def pair_row_def to_float_def split: option.splits)
  have "map sm_value (List.map_filter row_sample (map pair_row rows)) =
      List.map_filter (\<lambda>(metric, time, v). parse_float v) rows"
  proof (induction rows)
    case (Cons r rows)
    then show ?case using * [of r] by (auto simp: List.map_filter_simps split: option.splits)
  qed (simp add: List.map_filter_simps)
  moreover have "\<not> row_is_up (pair_row r)" for r
    by (cases r) (simp add: row_is_up_def pair_row_def field_of_def)
  then have "\<not> list_ex row_is_up (map pair_row rows)" by (simp add: list_ex_iff)
  ultimately show ?thesis
    by (simp add: api_answer_def prometheus_up_def answer_rows_def dict_or_empty_def parse_prom_vector_def
        response_rows_def Let_def)
qed

subsection \<open>A check that finds nothing\<close>

lemma approval_drift:
  "approval_interrupt deps resumed st w = (Inr (Some st'), w') \<Longrightarrow> wf_drift_findings st' = wf_drift_findings st"
  by (auto simp: approval_interrupt_def elim!: bindM_success dest!: at_step_run split: option.splits if_splits)

lemma execution_drift:
  "execute_approved_remediation deps st w = (Inr st', w') \<Longrightarrow> wf_drift_findings st' = wf_drift_findings st"
  by (auto simp: execute_approved_remediation_def Let_def elim!: bindM_success dest!: at_step_run split: if_splits)

lemma verification_drift:
  "verify_remediation deps st w = (Inr st', w') \<Longrightarrow> wf_drift_findings st' = wf_drift_findings st"
  by (auto simp: verify_remediation_def Let_def elim!: bindM_success dest!: at_step_run)

lemma outcome_drift:
  "approve_and_execute deps resumed st w = (Inr g, w') \<Longrightarrow> wf_drift_findings (outcome_state g) = wf_drift_findings st"
  by (auto simp: approve_and_execute_def elim!: bindM_success
      dest!: approval_drift execution_drift verification_drift split: option.splits if_splits)

lemma investigation_without_drift:
  assumes "run_investigation_graph deps alert c w = (Inr (s, st), w')"
  shows "wf_drift_findings st = []"
proof -
  from assms obtain thread ctx now w1 w2 g where
    "invoke_graph deps (initial_state alert c thread ctx now) w1 = (Inr g, w2)" "st = outcome_state g"
    by (auto simp: run_investigation_graph_def Let_def seqM_def elim!: bindM_success)
  then obtain st1 w3 where "diagnose deps (initial_state alert c thread ctx now) w1 = (Inr st1, w3)"
      and o: "approve_and_execute deps None st1 w3 = (Inr g, w2)"
    by (auto simp: invoke_graph_def elim!: bindM_success)
  then have "wf_drift_findings st1 = []"
    by (auto elim!: diagnose_run simp: initial_state_def drift_findings_for_def observed_jobs_def)
  with outcome_drift [OF o] \<open>st = outcome_state g\<close> show ?thesis by simp
qed

text \<open>
  The check against the golden state never finds anything: no node fills the cache of telemetry it
  reads, so whatever the network looks like a diagnosis, and the proposals it ends with, come without a finding
  of drift.
\<close>

theorem drift_check_finds_nothing:
  assumes "diagnose deps (initial_state alert c thread ctx now) w = (Inr st, w')"
  shows "wf_drift_findings st = [] \<and> (\<exists>p. wf_proposals st = [p] \<and> cp_drift_findings p = [])"
  using assms
  by (auto elim!: diagnose_run simp: initial_state_def drift_findings_for_def observed_jobs_def)

theorem drift_check_finds_nothing_witness:
  "\<exists>st. fst (diagnose (sample_deps (\<lambda>_. None) (\<lambda>_ _. JNull)) sample_start sample_world) = Inr st \<and>
     wf_drift_findings st = []"
proof -
  obtain st w' where d: "diagnose (sample_deps (\<lambda>_. None) (\<lambda>_ _. JNull)) sample_start sample_world = (Inr st, w')"
    using diagnose_returns [OF sample_start_held sample_agent sample_labels] by blast
  from drift_check_finds_nothing [OF d [unfolded sample_start_def]] d show ?thesis by simp
qed

subsection \<open>An acknowledgement that resolves\<close>

text \<open>
  The decision "acknowledged" of an operator at the control endpoint of a case: the decision is recorded with
  the graph's summary first, for the incident the last diagnosis of the case names or else for the case itself, then the
  case service acknowledges the case. (The feedback the endpoint writes after that is left out.)
\<close>

definition safe_monitor_token :: "json \<Rightarrow> nat \<Rightarrow> string" where
  "safe_monitor_token v limit =
     take limit (or_str (filter (\<lambda>c. is_alnum c \<or> c \<in> set ''_-:./'') (str_or_empty v)) ''unknown'')"

definition graph_incident_identifier :: "atomic_case \<Rightarrow> string" where
  "graph_incident_identifier c =
     safe_monitor_token (or_json (jget (ac_last_diagnosis c) ''incident_id'') (JStr (ac_case_id c))) 128"

definition approval_decision :: "string \<Rightarrow> string \<Rightarrow> string \<Rightarrow> string \<Rightarrow> string \<Rightarrow> jdict" where
  "approval_decision incident_id decision operator comment decided =
     [(''incident_id'', JStr incident_id), (''decision'', JStr decision), (''operator'', JStr operator),
      (''comment'', JStr comment), (''decided_at'', JStr decided)]"

definition record_primary_decision ::
  "'w graph_deps \<Rightarrow> atomic_case \<Rightarrow> string \<Rightarrow> string \<Rightarrow> string \<Rightarrow> ('w, jdict option) lp" where
  "record_primary_decision deps c decision operator comment =
     (let incident_id = graph_incident_identifier c in
      bindM (in_store utc_now) (\<lambda>now.
      bindM (record_operator_decision deps incident_id
        (approval_decision incident_id decision operator comment now)) (\<lambda>summary.
      if summary = None \<and> decision = ''approved''
      then raiseM (OtherError ''HTTPException'' ''No resumable investigation found for CaseService case'')
      else retM summary)))"

definition control_acknowledgement ::
  "'w graph_deps \<Rightarrow> service \<Rightarrow> atomic_case \<Rightarrow> string \<Rightarrow> string \<Rightarrow> ('w, atomic_case) lp" where
  "control_acknowledgement deps sv c operator comment =
     bindM (record_primary_decision deps c ''acknowledged'' operator comment) (\<lambda>_.
     in_store (ack sv (ac_case_id c) (safe_monitor_token (JStr operator) 120) []))"

lemma ack_run:
  assumes "atomic_by_id s cid = Some c" and "cid \<noteq> []" and "ac_case_id c = cid"
  obtains t now where "ack sv cid operator [] s = (Inr (c\<lparr>ac_acknowledged_by := operator, ac_acknowledged_at := now,
      ac_updated_at := now, ac_policy_version := policy_version sv\<rparr>), t)"
    and "atomic_by_id t cid = Some (c\<lparr>ac_acknowledged_by := operator, ac_acknowledged_at := now,
      ac_updated_at := now, ac_policy_version := policy_version sv\<rparr>)" and "now \<noteq> []"
proof -
  let ?now = "isoformat (clock s (ticks s))"
  let ?c = "c\<lparr>ac_acknowledged_by := operator, ac_acknowledged_at := ?now, ac_updated_at := ?now,
    ac_policy_version := policy_version sv\<rparr>"
  let ?s1 = "s\<lparr>ticks := Suc (ticks s)\<rparr>"
  have 1: "atomic_by_id ?s1 cid = Some c" using assms(1) by (simp add: atomic_by_id_def case_by_id_def)
  obtain r t where rt: "ack sv cid operator [] s = (r, t)" by force
  then have "r = Inr ?c" "same_but_events (?s1\<lparr>st_ack_scopes := dict_set cid (?now, ac_severity c) (st_ack_scopes ?s1),
      st_cases := dict_set cid (Atomic ?c) (st_cases s)\<rparr>) t"
    using assms(3)
    by (auto simp: ack_def serialize_id_app [OF assms(1,2)] bindM_app seqM_app require_case_app assms(1)
        utc_now_app ack_scope_app [OF 1] upsert_atomic_app dest!: emit_dest split: prod.splits sum.splits)
  with rt show thesis
    by (intro that [of ?now t]) (auto simp: atomic_by_id_def case_by_id_def dest!: same_but_eventsD(1))
qed

lemma held_atomic: "holds_case s cid c \<Longrightarrow> atomic_by_id s cid = Some c \<and> cid \<noteq> [] \<and> ac_case_id c = cid"
  by (simp add: holds_case_def atomic_by_id_def case_by_id_def del: map_of_eq_Some_iff)

lemma decision_resolves:
  assumes "holds_case (lw_store w) cid c" and "stored_summary c = Some summary"
    and "bounded_dict 1000 5 summary \<noteq> []" and "jget decision ''decision'' = JStr ''acknowledged''"
  shows "\<exists>d w' c'. record_operator_decision deps cid decision w = (Inr (Some d), w') \<and>
    holds_case (lw_store w') cid c' \<and> ac_status c' = CS_resolved"
proof -
  let ?s = "bounded_dict 1000 5 summary" and ?d = "dict_set ''incident_id'' (JStr cid) decision"
  have st: "get_or ?d ''decision'' (JStr ''acknowledged'') = JStr ''acknowledged''"
    using assms(4) by (simp add: get_or_def jget_def split: option.splits)
  have "cid \<noteq> []" using assms(1) by (simp add: holds_case_def)
  then have i: "resolved_identifier cid w = (Inr cid, w)"
    by (simp add: resolved_identifier_def bindM_app in_store_def zoomM_def resolve_held [OF assms(1)] truthy_id_def)
  have g: "in_store (get_summary cid) w = (Inr (Some ?s), w)"
    by (simp add: in_store_def zoomM_def get_summary_held [OF assms(1)] assms(2))
  obtain now w1 where n: "in_store utc_now w = (Inr now, w1)" "st_cases (lw_store w1) = st_cases (lw_store w)"
    using now_read by blast
  let ?new = "dict_update ?s [(''status'', JStr (decided_status (JStr ''acknowledged''))),
    (''operator_decision'', JDict ?d), (''updated_at'', JStr now)]"
  have h1: "holds_case (lw_store w1) cid c" using assms(1) n(2) by (simp add: holds_case_def)
  have "jget ?new ''status'' \<noteq> JStr ''waiting_approval''"
    by (simp add: decided_status_def dict_update_def)
  from stored_decision [OF h1 this] obtain w' c' where
    s: "store_decision cid ?d ?new w1 = (Inr ?new, w')" "holds_case (lw_store w') cid c'" "ac_status c' = CS_resolved"
    by blast
  have "record_operator_decision deps cid decision w = (Inr (Some ?new), w')"
    using assms(3) by (simp add: record_operator_decision_def Let_def bindM_app i g st n(1) s(1))
  with s show ?thesis by blast
qed

lemma primary_decision_resolves:
  fixes w :: "'w loop_world"
  assumes "holds_case (lw_store w) cid c" and "graph_incident_identifier c = cid"
    and "stored_summary c = Some summary" and "bounded_dict 1000 5 summary \<noteq> []"
  shows "\<exists>d w' c'. record_primary_decision deps c ''acknowledged'' operator comment w = (Inr (Some d), w') \<and>
    holds_case (lw_store w') cid c' \<and> ac_status c' = CS_resolved"
proof -
  obtain now w1 where n: "in_store utc_now w = (Inr now, w1)" "st_cases (lw_store w1) = st_cases (lw_store w)"
    using now_read by blast
  have h1: "holds_case (lw_store w1) cid c" using assms(1) n(2) by (simp add: holds_case_def)
  have "jget (approval_decision cid ''acknowledged'' operator comment now) ''decision'' = JStr ''acknowledged''"
    by (simp add: approval_decision_def)
  then obtain d w' c' where d: "record_operator_decision deps cid
      (approval_decision cid ''acknowledged'' operator comment now) w1 = (Inr (Some d), w')"
    "holds_case (lw_store w') cid c'" "ac_status c' = CS_resolved"
    using decision_resolves [OF h1 assms(3,4)] by blast
  have "record_primary_decision deps c ''acknowledged'' operator comment w = (Inr (Some d), w')"
    using n(1) d(1) by (simp add: record_primary_decision_def Let_def assms(2) bindM_app)
  with d(2,3) show ?thesis by blast
qed

text \<open>
  C38: An acknowledgement undoes itself: the decision "acknowledged" at the control endpoint of a case with a stored
  investigation of its own (its last diagnosis names no other incident, and its identifier is one the endpoint
  leaves as it is) ends without an exception, but it resolves the case it acknowledges, so the next unhealthy
  observation, however mild, removes the acknowledgement and starts a new generation of reports.
\<close>

theorem acknowledgement_voided:
  fixes w :: "'w loop_world"
  assumes "holds_case (lw_store w) cid c" and "graph_incident_identifier c = cid"
    and "stored_summary c = Some summary" and "bounded_dict 1000 5 summary \<noteq> []" and "ac_case_id copy = cid"
  shows "\<exists>c' w' r t c''. control_acknowledgement deps sv c operator comment w = (Inr c', w') \<and>
    ac_status c' = CS_resolved \<and> acknowledged c' \<and>
    update_unhealthy sv copy ob (lw_store w') = (Inr r, t) \<and> atomic_by_id t cid = Some c'' \<and>
    \<not> acknowledged c'' \<and> ac_report_generation c'' = ac_report_generation c' + 1"
proof -
  let ?op = "safe_monitor_token (JStr operator) 120"
  obtain d w1 c1 where 1: "record_primary_decision deps c ''acknowledged'' operator comment w = (Inr (Some d), w1)"
    "holds_case (lw_store w1) cid c1" "ac_status c1 = CS_resolved"
    using primary_decision_resolves [OF assms(1-4)] by blast
  note a = held_atomic [OF 1(2)]
  obtain t now where k: "ack sv cid ?op [] (lw_store w1) = (Inr (c1\<lparr>ac_acknowledged_by := ?op,
      ac_acknowledged_at := now, ac_updated_at := now, ac_policy_version := policy_version sv\<rparr>), t)"
    "atomic_by_id t cid = Some (c1\<lparr>ac_acknowledged_by := ?op, ac_acknowledged_at := now,
      ac_updated_at := now, ac_policy_version := policy_version sv\<rparr>)" "now \<noteq> []"
    using ack_run [of "lw_store w1" cid c1 sv ?op] a by blast
  let ?c = "c1\<lparr>ac_acknowledged_by := ?op, ac_acknowledged_at := now, ac_updated_at := now,
    ac_policy_version := policy_version sv\<rparr>"
  have "ac_case_id c = cid" using assms(1) by (simp add: holds_case_def)
  then have c: "control_acknowledgement deps sv c operator comment w = (Inr ?c, w1\<lparr>lw_store := t\<rparr>)"
    using 1(1) k(1) by (simp add: control_acknowledgement_def bindM_app in_store_def zoomM_def)
  obtain r t' now' where u: "update_unhealthy sv copy ob t = (Inr r, t')"
    "st_cases t' = dict_set cid (Atomic (apply_unhealthy sv ob (covered_of t ?c) now' ?c)) (st_cases t)"
    by (rule update_unhealthy_run [of copy t ?c sv ob]) (use a k(2) assms(5) in simp_all)
  let ?e = "apply_unhealthy sv ob (covered_of t ?c) now' ?c"
  have e: "atomic_by_id t' cid = Some ?e" using u(2) by (simp add: atomic_by_id_def case_by_id_def)
  have "acknowledgement_ends ?c (obs_severity ob) (covered_of t ?c)"
    using 1(3) by (simp add: acknowledgement_ends_def)
  then have "\<not> acknowledged ?e" "ac_report_generation ?e = ac_report_generation ?c + 1"
    by (simp_all add: apply_unhealthy_def Let_def acknowledged_def)
  moreover have "acknowledged ?c" using k(3) by (simp add: acknowledged_def)
  ultimately show ?thesis using c u(1) e 1(3)
    by (intro exI [of _ ?c] exI [of _ "w1\<lparr>lw_store := t\<rparr>"] exI [of _ r] exI [of _ t'] exI [of _ ?e]) simp
qed

theorem acknowledgement_voided_witness:
  "\<exists>c' w' r t c''. control_acknowledgement (sample_deps (\<lambda>_. None) (\<lambda>_ _. JNull)) quiet investigated_case ''operator''
       [] investigated_world = (Inr c', w') \<and> acknowledged c' \<and>
     update_unhealthy quiet open_case port_down (lw_store w') = (Inr r, t) \<and>
     atomic_by_id t ''case_1'' = Some c'' \<and> \<not> acknowledged c''"
proof -
  have "ac_case_id investigated_case = ''case_1''" using investigated_held(1) by (simp add: holds_case_def)
  moreover have "safe_monitor_token (JStr ''case_1'') 128 = ''case_1''" by code_simp
  ultimately have i: "graph_incident_identifier investigated_case = ''case_1''"
    by (simp add: graph_incident_identifier_def investigated_case_def or_json_def)
  have "ac_case_id open_case = ''case_1''" by (simp add: open_case_def)
  from acknowledgement_voided [OF investigated_held(1) i investigated_held(2,3) this] show ?thesis by blast
qed

end
