(* ===== verification/Handlers.thy ===== *)
theory Handlers
  imports Report_Text Remediation Service_Contract
begin

section \<open>The handlers of the outbox (app/cases/handlers.py)\<close>

text \<open>
  What the worker runs for an intent: \<open>build_report_handler\<close> sends a case report, an update of a card or a reminder
  and stamps the case; \<open>build_engineering_lhp_handoff_handler\<close> and \<open>build_handoff_handler\<close> open the GitHub issue of a
  handoff and of a case. The transports are computations of the store, so that what other tasks write while a call
  is waited for is part of them; they end with an answer or an exception, the deadlines around them with a timeout.
  A float is the rational number it denotes, and one that counts seconds prints with at most six decimals.
\<close>

subsection \<open>The transports\<close>

text \<open>The call of the notifier of a report, and of the notifier of a reminder, which has no card.\<close>

record report_card =
  rc_case_id :: string
  rc_title :: string
  rc_description :: string
  rc_fields :: "jdict list"
  rc_color :: int
  rc_level :: int
  rc_revision :: pynum
  rc_force_refresh :: bool

record reminder_card =
  rm_title :: string
  rm_description :: string
  rm_fields :: "jdict list"
  rm_color :: int
  rm_level :: int

text \<open>\<open>CardDeliveryOutcome.SUPERSEDED\<close>, \<open>False\<close>, and whatever else counts as delivered.\<close>

datatype card_answer = CA_superseded | CA_false | CA_delivered

text \<open>\<open>notifier\<close>, called by the attention sender and for reports, and \<open>reminder_notifier\<close>.\<close>

record report_transport =
  rt_validate :: "json \<Rightarrow> exn + attention_request"
  rt_attention :: "case_card \<Rightarrow> notifier_result st"
  rt_report :: "report_card \<Rightarrow> card_answer st"
  rt_reminder :: "reminder_card \<Rightarrow> card_answer st"

record issue_request =
  ir_marker :: string
  ir_title :: string
  ir_body :: string
  ir_refresh_comment :: string
  ir_labels :: "string list"

text \<open>\<open>ensure_candidate_issue_from_body\<close>: the address of the issue, or none.\<close>

type_synonym issue_client = "issue_request \<Rightarrow> string option st"

subsection \<open>Common parts\<close>

text \<open>\<open>await store.get_case(...)\<close> that must be an atomic case\<close>

definition get_atomic :: "exn \<Rightarrow> string \<Rightarrow> atomic_case st" where
  "get_atomic e cid = bindM (get_case cid) (\<lambda>p. case p of Some (Atomic c) \<Rightarrow> retM c | _ \<Rightarrow> raiseM e)"

definition skipped_because :: "string \<Rightarrow> json \<Rightarrow> outbox_handler_result" where
  "skipped_because k v = blank_result\<lparr>hx_payload_updates := [(k, v)]\<rparr>"

definition below_verbosity :: "int \<Rightarrow> outbox_handler_result" where
  "below_verbosity level = blank_result\<lparr>hx_payload_updates :=
     [(''notification_suppressed'', JStr ''verbosity''), (''notification_level'', JInt level)]\<rparr>"

definition superseded_result :: outbox_handler_result where
  "superseded_result = skipped_because ''notification_superseded'' (JBool True)"

definition no_reminder_due :: outbox_handler_result where
  "no_reminder_due = suppressed_result ''reminder_no_longer_due''"

text \<open>\<open>int(v)\<close> on a value of a payload, and \<open>Verbosity(n)\<close>\<close>

definition int_of_json :: "json \<Rightarrow> exn + int" where
  "int_of_json v = (case v of
     JInt n \<Rightarrow> Inr n
   | JBool b \<Rightarrow> Inr (if b then 1 else 0)
   | JFloat r \<Rightarrow> (case parse_float r of Some x \<Rightarrow> num_int x | None \<Rightarrow> Inl (ValueError r))
   | JStr s \<Rightarrow> py_int_of_str s
   | _ \<Rightarrow> Inl (TypeError ''int() argument must be a string, a bytes-like object or a real number''))"

definition verbosity_of :: "int \<Rightarrow> exn + int" where
  "verbosity_of n =
     (if n \<in> {10, 20, 30, 40} then Inr n else Inl (ValueError (int_str n @ '' is not a valid Verbosity'')))"

text \<open>\<open>update["key"]\<close>\<close>

definition required_item :: "jdict \<Rightarrow> string \<Rightarrow> exn + json" where
  "required_item d k = (case dict_get d k of Some v \<Rightarrow> Inr v | None \<Rightarrow> Inl (KeyError k))"

text \<open>\<open>reactive_reporting_owns_cards()\<close>\<close>

definition reactive_reporting_owns_cards :: "(string \<Rightarrow> string) \<Rightarrow> bool" where
  "reactive_reporting_owns_cards env \<longleftrightarrow>
     list_all (\<lambda>name. py_lower (py_strip (env name)) \<in> {''1'', ''true'', ''yes'', ''on''})
       [''NOC_CASESERVICE_REACTIVE_REPORT'', ''NOC_CASE_OUTBOX_ENABLED'']"

subsection \<open>Reports\<close>

text \<open>\<open>float(payload.get("card_revision") or datetime.fromisoformat(created_at).timestamp())\<close>\<close>

definition posix_time :: "pydt \<Rightarrow> rat" where
  "posix_time d = of_int (pydt_instant d - epoch) / of_int second_us"

definition report_revision :: "outbox_intent \<Rightarrow> exn + pynum" where
  "report_revision i =
     (let v = jget (ob_payload i) ''card_revision'' in
      if truthy v then
        (case float_of_json v of Some x \<Rightarrow> Inr x | None \<Rightarrow> Inl (ValueError ''could not convert to float''))
      else case fromisoformat (ob_created_at i) of
        Some d \<Rightarrow> Inr (Finite (posix_time d))
      | None \<Rightarrow> Inl (ValueError (''Invalid isoformat string: '' @ repr_str (ob_created_at i))))"

text \<open>The case a reminder goes out for; none when it is no longer due.\<close>

definition reminder_case ::
  "service \<Rightarrow> json \<Rightarrow> string \<Rightarrow> atomic_case \<Rightarrow> atomic_case option st" where
  "reminder_case sv since sig c =
     (if \<not> truthy since then retM (Some c)
      else bindM (legacy_reminder_projection c) (\<lambda>found. case found of
          None \<Rightarrow> retM None
        | Some r \<Rightarrow>
            if since \<noteq> JStr (ac_last_reported_at r) \<or> sig \<noteq> report_state_signature r then retM None
            else bindM (should_remind sv r None) (\<lambda>due. retM (if due then Some r else None))))"

text \<open>What is about to be sent: title, description, fields, color, level, and whether it carries facts to be stamped.\<close>

record draft =
  df_title :: string
  df_description :: string
  df_fields :: "jdict list"
  df_color :: int
  df_level :: int
  df_stamps_facts :: bool

definition facts_card :: "atomic_case \<Rightarrow> jdict \<Rightarrow> pynum \<Rightarrow> exn + report_card" where
  "facts_card c content revision =
     (case render_case_report c content of Inl e \<Rightarrow> Inl e
      | Inr (title, description, fs) \<Rightarrow>
          (case budget_report_embed title description fs of (title, description, fs) \<Rightarrow>
             Inr \<lparr>rc_case_id = ac_case_id c, rc_title = title, rc_description = description, rc_fields = fs,
               rc_color = severity_color (ac_severity c), rc_level = case_report_level (ac_severity c),
               rc_revision = revision, rc_force_refresh = True\<rparr>))"

definition verbosity_suppressed :: "outbox_intent \<Rightarrow> bool" where
  "verbosity_suppressed i \<longleftrightarrow> jget (ob_payload i) ''notification_suppressed'' = JStr ''verbosity''"

definition facts_delivered :: "outbox_intent option \<Rightarrow> outbox_intent option" where
  "facts_delivered found = (case found of
     Some i \<Rightarrow> if ob_status i = OS_succeeded \<and> \<not> truthy (jget (ob_payload i) ''notification_suppressed'')
       then Some i else None
   | None \<Rightarrow> None)"

text \<open>
  Before an update the facts of the case are requested, if nobody did, and shown again at the revision of the
  update. An answer ends the delivery.
\<close>

definition refresh_facts ::
  "service \<Rightarrow> report_transport \<Rightarrow> atomic_case \<Rightarrow> string \<Rightarrow> pynum \<Rightarrow> outbox_handler_result option st" where
  "refresh_facts sv tr c sig revision =
     bindM (get_outbox_by_key (''report:'' @ ac_case_id c @ '':'' @ sig)) (\<lambda>found.
     seqM (if case found of None \<Rightarrow> True | Some i \<Rightarrow> verbosity_suppressed i
           then seqM (request_report sv c sig [(''card_revision'', JFloat (rounded_str 6 revision))]) (retM ())
           else retM ())
     (case facts_delivered found of
        None \<Rightarrow> raiseM (RuntimeError ''Current case facts have not been delivered'')
      | Some i \<Rightarrow>
          bindM (liftM (facts_card c (ob_payload i) revision)) (\<lambda>card.
          bindM (rt_report tr card) (\<lambda>answer. case answer of
              CA_superseded \<Rightarrow> retM (Some superseded_result)
            | CA_false \<Rightarrow> raiseM (RuntimeError ''Current case facts refresh was not delivered'')
            | CA_delivered \<Rightarrow> seqM (mark_reported sv (ac_case_id c) sig False) (retM None)))))"

text \<open>The fields of an update: only the first ten count, and they must be dictionaries.\<close>

definition update_fields :: "json \<Rightarrow> exn + jdict list" where
  "update_fields v =
     (if \<not> truthy v then Inr []
      else case v of
        JList vs \<Rightarrow>
          (if list_all (\<lambda>x. case x of JDict _ \<Rightarrow> True | _ \<Rightarrow> False) (take 10 vs)
           then Inr (concat (map (\<lambda>x. case x of JDict d \<Rightarrow> [d] | _ \<Rightarrow> []) (take 10 vs)))
           else Inl (OtherError ''AttributeError'' ''object has no attribute get''))
      | _ \<Rightarrow> Inl (TypeError ''fields are not a list''))"

text \<open>The facts come first in the description and last among the fields.\<close>

definition with_facts :: "(string \<times> string \<times> jdict list) option \<Rightarrow> string \<Rightarrow> jdict list \<Rightarrow> string \<times> jdict list" where
  "with_facts facts description fs = (case facts of
     None \<Rightarrow> (description, fs)
   | Some (_, facts_description, facts_fields) \<Rightarrow>
       (clip 1000 facts_description @ [char_of (10 :: nat), char_of (10 :: nat)] @ clip 1000 description,
        take 10 (fs @ facts_fields)))"

definition update_content ::
  "jdict \<Rightarrow> int \<Rightarrow> (string \<times> string \<times> jdict list) option \<Rightarrow> bool \<Rightarrow> draft st" where
  "update_content update level facts stamps =
     bindM (liftM (required_item update ''title'')) (\<lambda>title.
     bindM (liftM (required_item update ''description'')) (\<lambda>description.
     bindM (bindM (liftM (required_item update ''color'')) (\<lambda>v. liftM (int_of_json v))) (\<lambda>color.
     bindM (liftM (update_fields (jget update ''fields''))) (\<lambda>fs.
     case with_facts facts (py_str description) fs of (text, fs) \<Rightarrow>
       retM \<lparr>df_title = py_str title, df_description = text, df_fields = fs, df_color = color, df_level = level,
         df_stamps_facts = stamps\<rparr>))))"

definition owns_card :: "service \<Rightarrow> outbox_intent \<Rightarrow> atomic_case \<Rightarrow> bool" where
  "owns_card sv i c \<longleftrightarrow>
     (jget (ob_payload i) ''reactive_owned_card'' = JBool True \<or> reactive_reporting_owns_cards (sv_getenv sv))
     \<and> source_watched c"

definition update_draft ::
  "service \<Rightarrow> report_transport \<Rightarrow> atomic_case \<Rightarrow> outbox_intent \<Rightarrow> jdict \<Rightarrow> pynum
    \<Rightarrow> (outbox_handler_result + draft) st" where
  "update_draft sv tr c i update revision =
     bindM (bindM (liftM (required_item update ''level'')) (\<lambda>v. bindM (liftM (int_of_json v))
       (\<lambda>n. liftM (verbosity_of n)))) (\<lambda>level.
     if level < sv_verbosity sv then retM (Inl (below_verbosity level))
     else
       let owns = owns_card sv i c; sig = report_state_signature c;
           stale = (owns \<and> (ac_last_reported_at c = [] \<or> ac_last_reported_signature c \<noteq> sig));
           quiet = (case_report_level (ac_severity c) < sv_verbosity sv)
       in bindM (if owns then bindM (liftM (render_case_report c (ob_payload i))) (\<lambda>r. retM (Some r))
                 else retM None) (\<lambda>facts.
          bindM (if stale \<and> \<not> quiet then refresh_facts sv tr c sig revision else retM None) (\<lambda>ended.
          case ended of
            Some r \<Rightarrow> retM (Inl r)
          | None \<Rightarrow> bindM (update_content update level facts (stale \<and> quiet)) (\<lambda>d. retM (Inr d)))))"

definition report_draft :: "atomic_case \<Rightarrow> outbox_intent \<Rightarrow> draft st" where
  "report_draft c i =
     bindM (liftM (render_case_report c (ob_payload i))) (\<lambda>(title, description, fs).
     retM \<lparr>df_title = title, df_description = description, df_fields = fs,
       df_color = severity_color (ac_severity c), df_level = case_report_level (ac_severity c),
       df_stamps_facts = False\<rparr>)"

definition budgeted :: "draft \<Rightarrow> draft" where
  "budgeted d = (case budget_report_embed (df_title d) (df_description d) (df_fields d) of
     (title, description, fs) \<Rightarrow> d\<lparr>df_title := title, df_description := description, df_fields := fs\<rparr>)"

definition send_draft ::
  "report_transport \<Rightarrow> atomic_case \<Rightarrow> bool \<Rightarrow> pynum \<Rightarrow> draft \<Rightarrow> card_answer st" where
  "send_draft tr c reminder revision d =
     (if reminder
      then rt_reminder tr \<lparr>rm_title = take 256 (''Unacknowledged critical incident: '' @ df_title d),
        rm_description = df_description d, rm_fields = df_fields d, rm_color = df_color d, rm_level = df_level d\<rparr>
      else rt_report tr \<lparr>rc_case_id = ac_case_id c, rc_title = df_title d, rc_description = df_description d,
        rc_fields = df_fields d, rc_color = df_color d, rc_level = df_level d, rc_revision = revision,
        rc_force_refresh = False\<rparr>)"

text \<open>After a delivered report: the stamp, or the attention receipt that stands for it.\<close>

definition report_receipt ::
  "service \<Rightarrow> string \<Rightarrow> atomic_case \<Rightarrow> string \<Rightarrow> int option \<Rightarrow> string \<Rightarrow> outbox_handler_result st" where
  "report_receipt sv public_url c sig sequence lease =
     (let again = (ac_last_reported_signature c \<noteq> [] \<and> ac_last_reported_signature c = sig);
          answer = (\<lambda>event delivery. blank_result\<lparr>hx_report_event := event, hx_attention_delivery := delivery,
            hx_attention_lease_token := lease, hx_external_id := or_str (ac_case_number c) (ac_case_id c),
            hx_external_url := case_url c public_url,
            hx_payload_updates := [(''state_signature'', JStr sig), (''case_number'', JStr (ac_case_number c))]\<rparr>)
      in case sequence of
        None \<Rightarrow> seqM (mark_reported sv (ac_case_id c) sig again) (retM (answer None None))
      | Some n \<Rightarrow>
          bindM (new_event None None (\<lambda>e. e\<lparr>ev_case_id := Some (ac_case_id c),
            ev_event_type := (if again then ''case_reasserted'' else ''case_reported''),
            ev_policy_version := policy_version sv,
            ev_payload := [(''state_signature'', JStr sig)]\<rparr>)) (\<lambda>event.
          bindM dt_now (\<lambda>now.
          bindM (liftM (new_attention_delivery \<lparr>ad_case_id = ac_case_id c,
              ad_generation = ac_report_generation c, ad_phase = Ph_firing, ad_severity = ac_severity c,
              ad_delivered_at = now, ad_sequence = n + 1\<rparr>)) (\<lambda>d.
          retM (answer (Some event) (Some d))))))"

definition card_update_of :: "outbox_intent \<Rightarrow> jdict option" where
  "card_update_of i = (case jget (ob_payload i) ''card_update'' of JDict d \<Rightarrow> Some d | _ \<Rightarrow> None)"

definition deliver_draft ::
  "service \<Rightarrow> report_transport \<Rightarrow> string \<Rightarrow> atomic_case \<Rightarrow> outbox_intent \<Rightarrow> string \<Rightarrow> pynum \<Rightarrow> int option
    \<Rightarrow> string \<Rightarrow> draft \<Rightarrow> outbox_handler_result st" where
  "deliver_draft sv tr public_url c i sig revision sequence lease d =
     (if df_level d < sv_verbosity sv then retM (below_verbosity (df_level d))
      else
        bindM (send_draft tr c (truthy (jget (ob_payload i) ''reminder_since'')) revision d) (\<lambda>answer.
        case answer of
          CA_superseded \<Rightarrow> retM superseded_result
        | CA_false \<Rightarrow> raiseM (RuntimeError ''Discord case notification was not delivered'')
        | CA_delivered \<Rightarrow>
            if card_update_of i \<noteq> None then
              seqM (if df_stamps_facts d
                    then seqM (mark_reported sv (ac_case_id c) (report_state_signature c) False) (retM ())
                    else retM ())
                (retM (skipped_because ''card_update_delivered'' (JBool True)))
            else report_receipt sv public_url c sig sequence lease))"

definition deliver_report ::
  "service \<Rightarrow> report_transport \<Rightarrow> string \<Rightarrow> int option \<Rightarrow> string \<Rightarrow> outbox_intent \<Rightarrow> outbox_handler_result st" where
  "deliver_report sv tr public_url sequence lease i =
     (if dict_get (ob_payload i) ''attention_request'' \<noteq> None then
        bindM (attention_handler (rt_validate tr) (attention_send (sv_verbosity sv) (rt_attention tr))
          (pol_report_reassert_s (sv_policy sv)) i) (\<lambda>r. case r of
            None \<Rightarrow> raiseM (RuntimeError ''attention handler omitted delivery result'')
          | Some x \<Rightarrow> retM x)
      else if \<not> opt_truthy (ob_case_id i) then raiseM (ValueError ''report intent requires case_id'')
      else
        bindM (get_atomic (KeyError (''atomic case not found for report intent: '' @ the (ob_case_id i)))
          (the (ob_case_id i))) (\<lambda>c.
        let sig = or_str (ob_state_signature i) (report_state_signature c) in
        bindM (reminder_case sv (jget (ob_payload i) ''reminder_since'') sig c) (\<lambda>found. case found of
          None \<Rightarrow> retM no_reminder_due
        | Some c \<Rightarrow>
            bindM (liftM (report_revision i)) (\<lambda>revision.
            bindM (case card_update_of i of
                Some update \<Rightarrow> update_draft sv tr c i update revision
              | None \<Rightarrow> bindM (report_draft c i) (\<lambda>d. retM (Inr d))) (\<lambda>r. case r of
              Inl ended \<Rightarrow> retM ended
            | Inr d \<Rightarrow>
                deliver_draft sv tr public_url c i sig revision sequence lease (budgeted d))))))"

text \<open>Which intents go out without an attention lease.\<close>

definition without_lease :: "service \<Rightarrow> outbox_intent \<Rightarrow> bool" where
  "without_lease sv i \<longleftrightarrow>
     dict_get (ob_payload i) ''attention_request'' \<noteq> None \<or> \<not> opt_truthy (ob_case_id i)
     \<or> \<not> truthy (jget (ob_payload i) ''reminder_since'')
       \<and> (\<not> attention_enabled (sv_getenv sv) \<or> card_update_of i \<noteq> None)"

definition handle_report ::
  "service \<Rightarrow> report_transport \<Rightarrow> string \<Rightarrow> outbox_intent \<Rightarrow> outbox_handler_result st" where
  "handle_report sv tr public_url i =
     (let deliver = deliver_report sv tr public_url None [] i in
      if without_lease sv i then deliver
      else
        bindM (get_case (the (ob_case_id i))) (\<lambda>p. case p of
          Some (Atomic c) \<Rightarrow>
            if \<not> source_watched c then deliver
            else
              bindM (get_attention (ac_case_id c)) (\<lambda>previous.
              if previous \<noteq> None \<and> \<not> truthy (jget (ob_payload i) ''reminder_since'') then deliver
              else
                let n = (case previous of Some d \<Rightarrow> ad_sequence d | None \<Rightarrow> 0) in
                bindM (claim_attention i n 120) (\<lambda>lease. case lease of
                  None \<Rightarrow> raiseM (RuntimeError ''incident notification already claimed or superseded'')
                | Some token \<Rightarrow> release_unless (ac_case_id c) token
                    (bindM (deliver_report sv tr public_url (Some n) token i)
                      (\<lambda>r. retM (r, hx_attention_delivery r \<noteq> None)))))
        | _ \<Rightarrow> deliver))"

definition report_handler :: "service \<Rightarrow> report_transport \<Rightarrow> string \<Rightarrow> outbox_handler" where
  "report_handler sv tr public_url i = bindM (handle_report sv tr public_url i) (\<lambda>r. retM (Some r))"

subsection \<open>The issue of a handoff\<close>

definition engineering_delivery :: "outbox_intent \<Rightarrow> case_handoff \<Rightarrow> atomic_case \<Rightarrow> transport_delivery st" where
  "engineering_delivery i h c =
     bindM (new_delivery [''handoff_id'', ''case_id'', ''transport'', ''status'', ''idempotency_key'', ''payload'']
       (blank_delivery\<lparr>td_handoff_id := ho_handoff_id h, td_case_id := ac_case_id c,
          td_transport := HT_github_issue, td_status := DS_in_progress,
          td_idempotency_key := ''engineering_handoff_delivery:'' @ ho_handoff_id h @ '':github_issue'',
          td_payload := [(''outbox_id'', JStr (ob_outbox_id i)),
            (''payload_hash'', JStr (lhp_payload_hash (handoff_dump h)))]\<rparr>))
       record_handoff_delivery"

definition failed_delivery :: "string \<Rightarrow> transport_delivery \<Rightarrow> transport_delivery" where
  "failed_delivery reason d =
     d\<lparr>td_status := DS_failed, td_attempts := td_attempts d + 1, td_last_error := reason\<rparr>"

definition lhp_issue_request ::
  "string \<Rightarrow> atomic_case \<Rightarrow> case_handoff \<Rightarrow> string \<Rightarrow> issue_request" where
  "lhp_issue_request public_url c h payload_hash =
     (let marker = ''noc-lhp-handoff-id:'' @ ho_handoff_id h in
      \<lparr>ir_marker = marker, ir_title = lhp_issue_title c h,
        ir_body = lhp_issue_body c h marker (''noc-case-id:'' @ ac_case_id c) payload_hash public_url,
        ir_refresh_comment = ''LHP request still active as of '' @ clip 64 (ho_updated_at h) @ '' ('' @
          case_label c @ '').'',
        ir_labels = lhp_issue_labels h\<rparr>)"

text \<open>The call under the recorded delivery; a failure is recorded before it is raised again.\<close>

definition open_lhp_issue ::
  "issue_client \<Rightarrow> string \<Rightarrow> atomic_case \<Rightarrow> case_handoff \<Rightarrow> transport_delivery \<Rightarrow> outbox_handler_result st" where
  "open_lhp_issue client public_url c h d =
     (let payload_hash = lhp_payload_hash (handoff_pointer (ho_handoff_id h) (ac_case_id c)) in
      bindM (except_exception (client (lhp_issue_request public_url c h payload_hash))
        (\<lambda>e. seqM (update_handoff_delivery (failed_delivery (exn_text e) d)) (raiseM e))) (\<lambda>url.
      if \<not> opt_truthy url then
        seqM (update_handoff_delivery (failed_delivery ''handoff client did not return an issue URL'' d))
          (raiseM (RuntimeError ''handoff client did not return an issue URL''))
      else
        let link = the url; issue_id = issue_id_from_url link in
        seqM (update_handoff_delivery (d\<lparr>td_status := DS_succeeded, td_external_id := issue_id,
            td_external_url := link, td_payload_hash := payload_hash\<rparr>))
          (retM (blank_result\<lparr>hx_external_id := issue_id, hx_external_url := link,
            hx_payload_updates := [(''handoff_id'', JStr (ho_handoff_id h)),
              (''delivery_id'', JStr (td_delivery_id d)), (''payload_hash'', JStr payload_hash)]\<rparr>))))"

definition lhp_handoff_missing :: "string \<Rightarrow> exn" where
  "lhp_handoff_missing hid = KeyError (''LHP handoff not found: '' @ hid)"

definition case_of_handoff :: "case_handoff \<Rightarrow> atomic_case st" where
  "case_of_handoff h =
     get_atomic (KeyError (''atomic case not found for LHP handoff: '' @ ho_case_id h)) (ho_case_id h)"

definition terminal_skip :: "case_handoff \<Rightarrow> (string \<times> json) list \<Rightarrow> outbox_handler_result" where
  "terminal_skip h more_updates = blank_result\<lparr>hx_payload_updates :=
     [(''handoff_id'', JStr (ho_handoff_id h))] @ more_updates
     @ [(''delivery_skipped'', JBool True), (''terminal_status'', JStr (handoff_status_str (ho_status h)))]\<rparr>"

definition deliver_engineering_handoff ::
  "issue_client \<Rightarrow> string \<Rightarrow> outbox_intent \<Rightarrow> string \<Rightarrow> outbox_handler_result st" where
  "deliver_engineering_handoff client public_url i hid =
     bindM (get_handoff hid) (\<lambda>found. case found of
       None \<Rightarrow> raiseM (lhp_handoff_missing hid)
     | Some h \<Rightarrow>
         if terminal_handoff_status (ho_status h) then retM (terminal_skip h [])
         else
           bindM (case_of_handoff h) (\<lambda>c.
           bindM (engineering_delivery i h c) (\<lambda>d.
           if td_status d = DS_succeeded \<and> td_external_url d \<noteq> [] then
             retM (blank_result\<lparr>hx_external_id := td_external_id d, hx_external_url := td_external_url d,
               hx_payload_updates := [(''handoff_id'', JStr (ho_handoff_id h)),
                 (''delivery_id'', JStr (td_delivery_id d))]\<rparr>)
           else
             bindM (get_handoff hid) (\<lambda>current. case current of
               None \<Rightarrow> raiseM (lhp_handoff_missing hid)
             | Some now \<Rightarrow>
                 if terminal_handoff_status (ho_status now) then
                   seqM (update_handoff_delivery (d\<lparr>td_status := DS_abandoned,
                       td_last_error := ''handoff_'' @ handoff_status_str (ho_status now)\<rparr>))
                     (retM (terminal_skip now [(''delivery_id'', JStr (td_delivery_id d))]))
                 else open_lhp_issue client public_url c h d))))"

text \<open>The guard of the handoff is a lock of its own, held for the whole delivery.\<close>

definition handle_engineering_handoff ::
  "issue_client \<Rightarrow> string \<Rightarrow> outbox_intent \<Rightarrow> outbox_handler_result st" where
  "handle_engineering_handoff client public_url i =
     (let hid = py_strip (str_or_empty (jget (ob_payload i) ''handoff_id'')) in
      if hid = [] then raiseM (ValueError ''engineering handoff intent requires handoff_id'')
      else deliver_engineering_handoff client public_url i hid)"

definition engineering_handoff_handler :: "issue_client \<Rightarrow> string \<Rightarrow> outbox_handler" where
  "engineering_handoff_handler client public_url i =
     bindM (handle_engineering_handoff client public_url i) (\<lambda>r. retM (Some r))"

subsection \<open>The issue of a case\<close>

definition case_issue_request :: "string \<Rightarrow> atomic_case \<Rightarrow> jdict \<Rightarrow> issue_request" where
  "case_issue_request public_url c content =
     (let marker = ''noc-case-id:'' @ ac_case_id c in
      \<lparr>ir_marker = marker, ir_title = handoff_issue_title c content,
        ir_body = handoff_issue_body c content marker public_url,
        ir_refresh_comment = ''Case still requires handoff as of '' @
          clip 64 (or_str (ac_updated_at c) (ac_opened_at c)) @ '' ('' @ case_label c @ '').'',
        ir_labels = []\<rparr>)"

definition handle_case_handoff ::
  "service \<Rightarrow> issue_client \<Rightarrow> string \<Rightarrow> outbox_intent \<Rightarrow> outbox_handler_result st" where
  "handle_case_handoff sv client public_url i =
     (if \<not> opt_truthy (ob_case_id i) then raiseM (ValueError ''handoff intent requires case_id'')
      else
        bindM (get_atomic (KeyError (''atomic case not found for handoff intent: '' @ the (ob_case_id i)))
          (the (ob_case_id i))) (\<lambda>c.
        if ac_issue_url c \<noteq> [] then
          retM (blank_result\<lparr>hx_external_id := ac_issue_id c, hx_external_url := ac_issue_url c\<rparr>)
        else
          bindM (client (case_issue_request public_url c (ob_payload i))) (\<lambda>url.
          if \<not> opt_truthy url then raiseM (RuntimeError ''handoff client did not return an issue URL'')
          else
            let link = the url; issue_id = issue_id_from_url link in
            seqM (record_handoff_result sv (ac_case_id c) link issue_id)
              (retM (blank_result\<lparr>hx_external_id := issue_id, hx_external_url := link,
                hx_payload_updates := [(''issue_url'', JStr link), (''issue_id'', JStr issue_id),
                  (''case_number'', JStr (ac_case_number c))]\<rparr>)))))"

definition case_handoff_handler :: "service \<Rightarrow> issue_client \<Rightarrow> string \<Rightarrow> outbox_handler" where
  "case_handoff_handler sv client public_url i =
     bindM (handle_case_handoff sv client public_url i) (\<lambda>r. retM (Some r))"

subsection \<open>The handlers of the worker\<close>

text \<open>
  What \<open>build_default_outbox_handlers\<close> is given. The knowledge handlers are code of other modules; they are there
  when a directory, and the loop handoff with its knowledge context, are configured. A client is there when one was
  given or a repository is configured.
\<close>

record handler_setup =
  hs_report :: report_transport
  hs_public_url :: string
  hs_knowledge_candidate :: "outbox_handler option"
  hs_knowledge_context :: "(outbox_handler \<times> outbox_handler) option"
  hs_handoff_client :: "issue_client option"
  hs_engineering_client :: "issue_client option"

definition build_default_outbox_handlers :: "service \<Rightarrow> handler_setup \<Rightarrow> (string, outbox_handler) dict" where
  "build_default_outbox_handlers sv su =
     [(''report'', report_handler sv (hs_report su) (hs_public_url su))]
     @ (case hs_knowledge_candidate su of None \<Rightarrow> [] | Some h \<Rightarrow> [(''knowledge_candidate'', h)])
     @ (case hs_knowledge_context su of None \<Rightarrow> []
        | Some (requested, proposed) \<Rightarrow>
            [(''knowledge_context_requested'', requested), (''knowledge_artifact_proposed'', proposed)])
     @ (case hs_handoff_client su of None \<Rightarrow> []
        | Some client \<Rightarrow> [(''handoff'', case_handoff_handler sv client (hs_public_url su))])
     @ (case hs_engineering_client su of None \<Rightarrow> []
        | Some client \<Rightarrow>
            [(''engineering_handoff_requested'', engineering_handoff_handler client (hs_public_url su))])"

end
