(* ===== verification/Handlers_Spec.thy ===== *)
theory Handlers_Spec
  imports Handlers System_Spec Yields
begin

section \<open>What the handlers of the outbox guarantee\<close>

text \<open>
  The handlers reach the store through its operations only, so the steps of the worker in \<open>System_Spec\<close> are those of the worker
  that runs; an issue is opened once per handoff; and nothing is stamped that was not delivered.
\<close>

subsection \<open>The contract of the handlers\<close>

lemma keeps_release_unless:
  assumes "keeps P m" and "\<And>t. P t \<Longrightarrow> P (snd (release_attention cid l t))"
  shows "keeps P (release_unless cid l m)"
proof (rule keepsI)
  fix s assume "P s"
  obtain r t where m: "m s = (r, t)" by force
  have "P t" using keepsD_eq[OF assms(1) \<open>P s\<close> m] .
  with assms(2)[OF this] m show "P (snd (release_unless cid l m s))"
    by (auto simp: release_unless_def split: sum.split bool.split prod.split)
qed

definition transports_keep :: "(store \<Rightarrow> bool) \<Rightarrow> handler_setup \<Rightarrow> bool" where
  "transports_keep P su \<longleftrightarrow>
     (\<forall>x. keeps P (rt_attention (hs_report su) x)) \<and> (\<forall>x. keeps P (rt_report (hs_report su) x))
     \<and> (\<forall>x. keeps P (rt_reminder (hs_report su) x))
     \<and> (\<forall>h i. hs_knowledge_candidate su = Some h \<longrightarrow> keeps P (h i))
     \<and> (\<forall>h k i. hs_knowledge_context su = Some (h, k) \<longrightarrow> keeps P (h i) \<and> keeps P (k i))
     \<and> (\<forall>cl q. hs_handoff_client su = Some cl \<longrightarrow> keeps P (cl q))
     \<and> (\<forall>cl q. hs_engineering_client su = Some cl \<longrightarrow> keeps P (cl q))"

lemma k_get_outbox_by_key [keeps_intros]: "keeps P (get_outbox_by_key k)"
  unfolding get_outbox_by_key_def item_of_def by (intro keeps_intros)

locale handler_contract = store_contract +
  assumes deliveries: "keeps P (record_handoff_delivery d)" "keeps P (update_handoff_delivery d)"
begin

lemmas [keeps_intros] = deliveries

lemma k_get_atomic [keeps_intros]: "keeps P (get_atomic e cid)"
  unfolding get_atomic_def by (intro keeps_intros)

lemma k_reminder_case [keeps_intros]: "keeps P (reminder_case sv since sig c)"
  unfolding reminder_case_def legacy_reminder_projection_def by (intro keeps_intros)

lemma k_refresh_facts:
  "(\<And>x. keeps P (rt_report tr x)) \<Longrightarrow> keeps P (refresh_facts sv tr c sig revision)"
  unfolding refresh_facts_def by (auto split: card_answer.split option.split intro!: keeps_intros)

lemma k_update_content [keeps_intros]: "keeps P (update_content u l f st)"
  unfolding update_content_def by (intro keeps_intros)

lemma k_report_draft [keeps_intros]: "keeps P (report_draft c i)"
  unfolding report_draft_def by (intro keeps_intros)

lemma k_update_draft:
  "(\<And>x. keeps P (rt_report tr x)) \<Longrightarrow> keeps P (update_draft sv tr c i u revision)"
  unfolding update_draft_def Let_def by (intro keeps_intros k_refresh_facts)

lemma k_report_receipt [keeps_intros]: "keeps P (report_receipt sv url c sig n lease)"
  unfolding report_receipt_def Let_def by (intro keeps_intros)

lemma k_deliver_draft:
  assumes "\<And>x. keeps P (rt_report tr x)" and "\<And>x. keeps P (rt_reminder tr x)"
  shows "keeps P (deliver_draft sv tr url c i sig revision n lease d)"
  unfolding deliver_draft_def send_draft_def
  by (auto split: card_answer.split intro!: keeps_intros assms)

lemma k_deliver_report:
  assumes "\<And>x. keeps P (rt_attention tr x)" and "\<And>x. keeps P (rt_report tr x)"
    and "\<And>x. keeps P (rt_reminder tr x)"
  shows "keeps P (deliver_report sv tr url n lease i)"
  unfolding deliver_report_def Let_def
  by (intro keeps_intros k_attention_handler k_attention_send k_update_draft k_deliver_draft assms)

lemma k_report_handler:
  assumes "\<And>x. keeps P (rt_attention tr x)" and "\<And>x. keeps P (rt_report tr x)"
    and "\<And>x. keeps P (rt_reminder tr x)"
  shows "keeps P (report_handler sv tr url i)"
  unfolding report_handler_def handle_report_def Let_def
  by (intro keeps_intros k_release_unless k_deliver_report assms)

lemma k_engineering_delivery [keeps_intros]: "keeps P (engineering_delivery i h c)"
  unfolding engineering_delivery_def new_delivery_def by (intro keeps_intros)

lemma k_engineering_handoff_handler:
  assumes "\<And>q. keeps P (cl q)"
  shows "keeps P (engineering_handoff_handler cl url i)"
  unfolding engineering_handoff_handler_def handle_engineering_handoff_def deliver_engineering_handoff_def
    open_lhp_issue_def case_of_handoff_def Let_def
  by (intro keeps_intros assms)

lemma k_case_handoff_handler:
  assumes "\<And>q. keeps P (cl q)"
  shows "keeps P (case_handoff_handler sv cl url i)"
  unfolding case_handoff_handler_def handle_case_handoff_def Let_def by (intro keeps_intros assms)

lemma k_default_handlers:
  assumes su: "transports_keep P su" and h: "dict_get (build_default_outbox_handlers sv su) k = Some h"
  shows "keeps P (h i)"
proof -
  have "(k, h) \<in> set (build_default_outbox_handlers sv su)" using h by (simp add: map_of_SomeD)
  then show ?thesis
    using su by (cases "hs_knowledge_context su")
      (auto simp: build_default_outbox_handlers_def transports_keep_def split: option.splits
        intro: k_report_handler k_engineering_handoff_handler k_case_handoff_handler)
qed

lemma k_default_worker:
  "transports_keep P su \<Longrightarrow>
    keeps P (process_pending \<lparr>op_handlers = build_default_outbox_handlers sv su, op_retry_backoff_s = b\<rparr> n)"
  by (rule k_process_pending) (simp, rule k_default_handlers)

end

interpretation consistent_handlers: handler_contract store_ok
  by unfold_locales (intro keeps_intros)+

interpretation growing_handlers: handler_contract "store_extends s0" for s0
  by unfold_locales (intro keeps_intros)+

interpretation stepping_handlers: handler_contract "store_run s0" for s0
  by unfold_locales (rule keeps_run, rule store_step.intros)+

text \<open>The transports of a set-up reach the store through its operations.\<close>

definition setup_through_store :: "handler_setup \<Rightarrow> bool" where
  "setup_through_store su \<longleftrightarrow> (\<forall>s0. transports_keep (store_run s0) su)"

definition default_worker :: "service \<Rightarrow> handler_setup \<Rightarrow> int \<Rightarrow> outbox_processor" where
  "default_worker sv su backoff =
     \<lparr>op_handlers = build_default_outbox_handlers sv su, op_retry_backoff_s = backoff\<rparr>"

lemma default_handlers_through_store:
  assumes "setup_through_store su" shows "handlers_through_store (default_worker sv su b)"
  using assms unfolding handlers_through_store_def through_store_iff setup_through_store_def default_worker_def
  by (auto intro: stepping_handlers.k_default_handlers)

text \<open>
  C11: The worker with the handlers the runtime builds is a step of the system: as long as its transports (the notifiers, the
  issue clients and the knowledge handlers) reach the store through its operations only, whatever a pass over the
  outbox does, reports, reminders, card updates, issues, and failures of each, the state it leaves is one the system
  reaches, and so consistent.
\<close>

theorem default_worker_in_system:
  assumes "setup_through_store su" and "reachable_system ids instants s"
  shows "reachable_system ids instants (snd (process_pending (default_worker sv su backoff) n s))
    \<and> store_ok (snd (process_pending (default_worker sv su backoff) n s))"
proof -
  have r: "reachable_system ids instants (snd (process_pending (default_worker sv su backoff) n s))"
    using assms by (intro system_next[OF assms(2)] sys_process_pending default_handlers_through_store)
  with reachable_ok[OF reachable_system_store[OF r]] show ?thesis by simp
qed

subsection \<open>One issue per handoff\<close>

definition lhp_delivery_key :: "string \<Rightarrow> string" where
  "lhp_delivery_key hid = tok (''engineering_handoff_delivery:'' @ hid @ '':github_issue'')"

text \<open>The delivery found under the key of a handoff.\<close>

definition delivery_found :: "store \<Rightarrow> string \<Rightarrow> string \<Rightarrow> transport_delivery \<Rightarrow> bool" where
  "delivery_found s hid did d \<longleftrightarrow>
     idx_get (st_delivery_index s) (lhp_delivery_key hid) = Some did \<and> dict_get (st_deliveries s) did = Some d"

definition issue_recorded :: "store \<Rightarrow> string \<Rightarrow> string \<Rightarrow> bool" where
  "issue_recorded s hid url \<longleftrightarrow>
     url \<noteq> [] \<and> (\<exists>did d. delivery_found s hid did d \<and> td_status d = DS_succeeded \<and> td_external_url d = url)"

definition handoff_of_intent :: "outbox_intent \<Rightarrow> string" where
  "handoff_of_intent i = py_strip (str_or_empty (jget (ob_payload i) ''handoff_id''))"

lemma bindM_InrD: "bindM m f s = (Inr y, u) \<Longrightarrow> \<exists>x t. m s = (Inr x, t) \<and> f x t = (Inr y, u)"
  by (auto simp: bindM_def split: prod.splits sum.splits)

lemma seqM_InrD: "seqM m n s = (Inr y, u) \<Longrightarrow> \<exists>x t. m s = (Inr x, t) \<and> n t = (Inr y, u)"
  unfolding seqM_def by (rule bindM_InrD)

lemma new_delivery_key:
  "new_delivery given d s = (Inr v, t) \<Longrightarrow> td_idempotency_key v = tok (td_idempotency_key d)"
  unfolding new_delivery_def
  by (auto dest!: bindM_InrD simp: liftM_app check_delivery_def checked_Inr split: if_splits sum.splits)

lemma check_delivery_id:
  "check_delivery given d = Inr v \<Longrightarrow> ''delivery_id'' \<notin> set given \<Longrightarrow> td_delivery_id v = td_delivery_id d"
  by (auto simp: check_delivery_def checked_Inr if_given_def split: if_splits sum.splits)

lemma new_id_nonempty: "new_id p s = (Inr i, t) \<Longrightarrow> i \<noteq> []"
  by (auto simp: new_id_def retM_app dest!: bindM_InrD)

lemma new_delivery_id:
  assumes "new_delivery given d s = (Inr v, t)" and "''delivery_id'' \<notin> set given"
  shows "td_delivery_id v \<noteq> []"
proof -
  obtain i n_at c_at u_at u w where
    i: "draw_field given ''delivery_id'' (td_delivery_id d) (new_id ''deliv'') s = (Inr i, u)"
    and v: "liftM (check_delivery given (d\<lparr>td_delivery_id := i, td_next_attempt_at := n_at,
         td_created_at := c_at, td_updated_at := u_at\<rparr>)) w = (Inr v, t)"
    using assms(1) unfolding new_delivery_def by (blast dest: bindM_InrD)
  from i assms(2) have "new_id ''deliv'' s = (Inr i, u)" by (simp add: draw_field_def)
  note i = new_id_nonempty[OF this]
  from v have "check_delivery given (d\<lparr>td_delivery_id := i, td_next_attempt_at := n_at,
         td_created_at := c_at, td_updated_at := u_at\<rparr>) = Inr v" by (simp add: liftM_app)
  from check_delivery_id[OF this assms(2)] i show ?thesis by simp
qed

lemma record_delivery_found:
  assumes run: "record_handoff_delivery d s = (Inr x, t)" and ok: "store_ok t" and new: "td_delivery_id d \<noteq> []"
  shows "idx_get (st_delivery_index t) (td_idempotency_key d) = Some (td_delivery_id x)
    \<and> dict_get (st_deliveries t) (td_delivery_id x) = Some x"
proof -
  have k: "keyed td_delivery_id (st_deliveries t)" using ok by (simp add: store_ok_def tables_ok_def)
  obtain did where "idx_get (st_delivery_index t) (td_idempotency_key d) = Some did
      \<and> dict_get (st_deliveries t) did = Some x"
    using run new unfolding record_handoff_delivery_def item_of_def put_delivery_def
    by (auto dest!: seqM_InrD bindM_InrD simp: getM_app retM_app raiseM_app modM_app idx_get_def
        split: option.splits if_splits)
  with keyed_get[OF k, of did x] show ?thesis by simp
qed

lemma engineering_delivery_found:
  assumes "engineering_delivery i h c s = (Inr d, t)" and "store_ok t"
  shows "delivery_found t (ho_handoff_id h) (td_delivery_id d) d"
proof -
  obtain v u where v: "new_delivery [''handoff_id'', ''case_id'', ''transport'', ''status'', ''idempotency_key'', ''payload'']
      (blank_delivery\<lparr>td_handoff_id := ho_handoff_id h, td_case_id := ac_case_id c,
          td_transport := HT_github_issue, td_status := DS_in_progress,
          td_idempotency_key := ''engineering_handoff_delivery:'' @ ho_handoff_id h @ '':github_issue'',
          td_payload := [(''outbox_id'', JStr (ob_outbox_id i)),
            (''payload_hash'', JStr (lhp_payload_hash (handoff_dump h)))]\<rparr>) s = (Inr v, u)"
    and rec: "record_handoff_delivery v u = (Inr d, t)"
    using assms(1) unfolding engineering_delivery_def by (blast dest: bindM_InrD)
  from new_delivery_id[OF v] have "td_delivery_id v \<noteq> []" by simp
  from record_delivery_found[OF rec assms(2) this] new_delivery_key[OF v] show ?thesis
    by (simp add: delivery_found_def lhp_delivery_key_def)
qed

lemma update_delivery_found:
  assumes "update_handoff_delivery e s = (Inr x, t)" and "delivery_found s hid (td_delivery_id e) d"
  shows "delivery_found t hid (td_delivery_id e) e"
  using assms unfolding update_handoff_delivery_def put_delivery_def delivery_found_def
  by (auto dest!: seqM_InrD bindM_InrD simp: getM_app retM_app raiseM_app modM_app idx_get_def
      split: option.splits if_splits)

text \<open>A delivery already recorded is answered from its record, whoever the client is.\<close>

lemma handoff_id_held: "store_ok s \<Longrightarrow> get_handoff hid s = (Inr (Some h), t) \<Longrightarrow> ho_handoff_id h = hid"
  by (auto simp: get_handoff_def getM_app dest: keyed_get[OF store_ok_keyed(3)])

lemma record_existing:
  assumes "idx_get (st_delivery_index s) (td_idempotency_key v) = Some did" and "dict_get (st_deliveries s) did = Some d"
  shows "record_handoff_delivery v s =
    (case dict_get (st_handoffs s) (td_handoff_id v) of
       Some h \<Rightarrow> (Inr d, s) | None \<Rightarrow> (Inl (KeyError (''handoff not found: '' @ td_handoff_id v)), s))"
  using assms by (simp add: record_handoff_delivery_def seqM_app bindM_app require_handoff_app getM_app item_of_def
      retM_app split: option.split)

lemma new_delivery_draws:
  assumes "new_delivery given e s = (r, t)"
  shows "st_delivery_index t = st_delivery_index s \<and> st_deliveries t = st_deliveries s"
proof -
  have d: "keeps (\<lambda>x. st_delivery_index x = st_delivery_index s \<and> st_deliveries x = st_deliveries s) uuid4_hex"
    "keeps (\<lambda>x. st_delivery_index x = st_delivery_index s \<and> st_deliveries x = st_deliveries s) dt_now"
    by (auto simp: keeps_def uuid4_hex_def dt_now_def)
  have "keeps (\<lambda>x. st_delivery_index x = st_delivery_index s \<and> st_deliveries x = st_deliveries s)
    (new_delivery given e)"
    unfolding new_delivery_def draw_field_def new_id_def utc_now_def by (intro keeps_intros d)
  from keepsD_eq[OF this _ assms] show ?thesis by simp
qed

lemma engineering_delivery_existing:
  assumes "delivery_found s (ho_handoff_id h) did d"
  shows "(\<exists>e t. engineering_delivery i h c s = (Inl e, t)) \<or> (\<exists>t. engineering_delivery i h c s = (Inr d, t))"
proof -
  obtain r t where v: "new_delivery [''handoff_id'', ''case_id'', ''transport'', ''status'', ''idempotency_key'', ''payload'']
      (blank_delivery\<lparr>td_handoff_id := ho_handoff_id h, td_case_id := ac_case_id c,
          td_transport := HT_github_issue, td_status := DS_in_progress,
          td_idempotency_key := ''engineering_handoff_delivery:'' @ ho_handoff_id h @ '':github_issue'',
          td_payload := [(''outbox_id'', JStr (ob_outbox_id i)),
            (''payload_hash'', JStr (lhp_payload_hash (handoff_dump h)))]\<rparr>) s = (r, t)" by fastforce
  show ?thesis
  proof (cases r)
    case (Inl e)
    with v show ?thesis by (simp add: engineering_delivery_def bindM_app)
  next
    case (Inr x)
    have "record_handoff_delivery x t = (case dict_get (st_handoffs t) (td_handoff_id x) of
       Some h \<Rightarrow> (Inr d, t) | None \<Rightarrow> (Inl (KeyError (''handoff not found: '' @ td_handoff_id x)), t))"
      using assms new_delivery_key[OF v[unfolded Inr]] new_delivery_draws[OF v]
      by (intro record_existing[where did = did]) (simp_all add: delivery_found_def lhp_delivery_key_def)
    with v Inr show ?thesis by (simp add: engineering_delivery_def bindM_app split: option.split)
  qed
qed

lemma get_atomic_cases: "(\<exists>c. get_atomic e cid s = (Inr c, s)) \<or> get_atomic e cid s = (Inl e, s)"
  by (auto simp: get_atomic_def get_case_def bindM_app getM_app retM_app raiseM_app split: option.split case_projection.split)

lemma case_of_handoff_cases: "(\<exists>c. case_of_handoff h s = (Inr c, s)) \<or> (\<exists>e. case_of_handoff h s = (Inl e, s))"
  unfolding case_of_handoff_def using get_atomic_cases by blast

lemma recorded_delivery:
  assumes "store_ok s" and "issue_recorded s hid url"
  shows "\<exists>answer u. (\<forall>other. deliver_engineering_handoff other url' j hid s = (answer, u))
    \<and> (case answer of Inr x \<Rightarrow> hx_external_url x \<in> {[], url} | Inl _ \<Rightarrow> True)"
proof (cases "dict_get (st_handoffs s) hid")
  case None
  then show ?thesis
    by (simp add: deliver_engineering_handoff_def get_handoff_def bindM_app getM_app raiseM_app)
next
  case (Some h)
  then have g: "get_handoff hid s = (Inr (Some h), s)" by (simp add: get_handoff_def getM_app)
  obtain did d where d: "delivery_found s hid did d" "td_status d = DS_succeeded" "td_external_url d = url" "url \<noteq> []"
    using assms(2) by (auto simp: issue_recorded_def)
  note id = handoff_id_held[OF assms(1) g]
  show ?thesis
  proof (cases "terminal_handoff_status (ho_status h)")
    case True
    with g show ?thesis
      by (simp add: deliver_engineering_handoff_def bindM_app retM_app terminal_skip_def blank_result_def)
  next
    case False
    consider e where "case_of_handoff h s = (Inl e, s)"
      | c where "case_of_handoff h s = (Inr c, s)"
      using case_of_handoff_cases by blast
    then show ?thesis
    proof cases
      case 1
      with g False show ?thesis by (simp add: deliver_engineering_handoff_def bindM_app)
    next
      case 2
      with g False engineering_delivery_existing[of s h did d j c] d id show ?thesis
        by (auto simp: deliver_engineering_handoff_def bindM_app retM_app blank_result_def)
    qed
  qed
qed

lemma opened_issue_recorded:
  assumes ok: "store_ok s" and keeps_ok: "\<And>q. keeps store_ok (client q)"
    and guarded: "\<And>q did d. keeps (\<lambda>x. delivery_found x hid did d) (client q)"
    and run: "deliver_engineering_handoff client url i hid s = (Inr r, t)" and opened: "hx_external_url r \<noteq> []"
  shows "issue_recorded t hid (hx_external_url r)"
proof -
  obtain h where g: "get_handoff hid s = (Inr (Some h), s)"
    and after: "\<not> terminal_handoff_status (ho_status h)"
    using run opened by (auto simp: deliver_engineering_handoff_def bindM_app get_handoff_def getM_app raiseM_app
        retM_app terminal_skip_def blank_result_def split: option.splits if_splits)
  note id = handoff_id_held[OF ok g]
  obtain c where c: "case_of_handoff h s = (Inr c, s)"
    using run g after case_of_handoff_cases[of h s]
    by (auto simp: deliver_engineering_handoff_def bindM_app)
  obtain d u where d: "engineering_delivery i h c s = (Inr d, u)"
    using run g after c by (cases "engineering_delivery i h c s"; cases "fst (engineering_delivery i h c s)")
      (auto simp: deliver_engineering_handoff_def bindM_app)
  have u: "store_ok u" by (rule keepsD_eq[OF consistent_handlers.k_engineering_delivery ok d])
  have found: "delivery_found u hid (td_delivery_id d) d" using engineering_delivery_found[OF d u] id by simp
  show ?thesis
  proof (cases "td_status d = DS_succeeded \<and> td_external_url d \<noteq> []")
    case True
    with run g after c d found show ?thesis
      by (auto simp: deliver_engineering_handoff_def bindM_app retM_app blank_result_def issue_recorded_def
          intro!: exI[of _ "td_delivery_id d"] exI[of _ d])
  next
    case False
    let ?q = "lhp_issue_request url c h (lhp_payload_hash (handoff_pointer (ho_handoff_id h) (ac_case_id c)))"
    have "open_lhp_issue client url c h d u = (Inr r, t)"
      using run g after c d False opened
      by (auto simp: deliver_engineering_handoff_def bindM_app retM_app raiseM_app get_handoff_def getM_app seqM_app
          terminal_skip_def blank_result_def split: option.splits if_splits sum.splits prod.splits)
    then obtain link w where called: "client ?q u = (Inr link, w)" "link \<noteq> None" "the link \<noteq> []"
      and upd: "\<exists>x. update_handoff_delivery (d\<lparr>td_status := DS_succeeded, td_external_id := issue_id_from_url (the link),
            td_external_url := the link, td_payload_hash :=
              lhp_payload_hash (handoff_pointer (ho_handoff_id h) (ac_case_id c))\<rparr>) w = (Inr x, t)"
      and r: "hx_external_url r = the link"
      unfolding open_lhp_issue_def Let_def
      by (auto simp: except_exception_def catchM_def raiseM_app retM_app blank_result_def opt_truthy_def
          dest!: bindM_InrD seqM_InrD split: prod.splits sum.splits if_splits option.splits) blast
    have "delivery_found w hid (td_delivery_id d) d" by (rule keepsD_eq[OF guarded found called(1)])
    with upd update_delivery_found[of "d\<lparr>td_status := DS_succeeded, td_external_id := issue_id_from_url (the link),
            td_external_url := the link, td_payload_hash :=
              lhp_payload_hash (handoff_pointer (ho_handoff_id h) (ac_case_id c))\<rparr>" w _ t hid d] r called
    show ?thesis by (fastforce simp: issue_recorded_def)
  qed
qed

text \<open>
  C12: The issue of a handoff is opened once: after a delivery that answered with the address of an issue, a later
  delivery of the same handoff (a retry of the intent, another intent, a change of the public address) behaves the same
  whatever the GitHub client would do: it does not ask it, and answers with the recorded address or, once the
  handoff has ended or the case is gone, with none. The client may write to the store meanwhile, as the
  other tasks do, but not to the delivery that the guard of the handoff protects.
\<close>

theorem engineering_issue_opened_once:
  assumes ok: "store_ok s" and keeps_ok: "\<forall>q. keeps store_ok (client q)"
    and guarded: "\<forall>q did d. keeps (\<lambda>x. delivery_found x (handoff_of_intent i) did d) (client q)"
    and run: "handle_engineering_handoff client url i s = (Inr r, t)"
    and opened: "hx_external_url r \<noteq> []"
    and same: "handoff_of_intent j = handoff_of_intent i"
  shows "\<exists>answer u. (\<forall>other. handle_engineering_handoff other url' j t = (answer, u))
    \<and> (case answer of Inr x \<Rightarrow> hx_external_url x \<in> {[], hx_external_url r} | Inl _ \<Rightarrow> True)"
proof -
  let ?hid = "handoff_of_intent i"
  have nonempty: "?hid \<noteq> []" and d: "deliver_engineering_handoff client url i ?hid s = (Inr r, t)"
    using run by (auto simp: handle_engineering_handoff_def handoff_of_intent_def Let_def raiseM_app split: if_splits)
  have t: "store_ok t"
    using keepsD_eq[OF consistent_handlers.k_engineering_handoff_handler ok, of client url i "Inr (Some r)" t] run keeps_ok
    by (simp add: engineering_handoff_handler_def bindM_app retM_app)
  have "issue_recorded t ?hid (hx_external_url r)"
    using keeps_ok guarded by (intro opened_issue_recorded[OF ok _ _ d opened]) auto
  from recorded_delivery[OF t this, of url' j] nonempty same show ?thesis
    by (simp add: handle_engineering_handoff_def handoff_of_intent_def Let_def)
qed

text \<open>A stored case with a handoff, and a client that opens the issue 7 without writing.\<close>

definition issue_store :: store where
  "issue_store = (empty_store (\<lambda>_. ''0123456789abcdef'') (\<lambda>_. 0))\<lparr>
     st_cases := [(''case_1'', Atomic sample_case)],
     st_handoffs := [(ho_handoff_id demo_handoff, demo_handoff)]\<rparr>"

definition issue_seven :: issue_client where
  "issue_seven q = retM (Some ''https://github.com/noc/issues/7'')"

definition issue_intent :: outbox_intent where
  "issue_intent = (blank_intent OI_engineering_handoff_requested)\<lparr>ob_outbox_id := ''out_1'',
     ob_payload := [(''handoff_id'', JStr (ho_handoff_id demo_handoff))]\<rparr>"

lemma issue_store_ok: "store_ok issue_store"
  by (simp add: issue_store_def store_ok_def tables_ok_def indices_ok_def log_ok_def logged_def empty_store_def
      keyed_def indexed_def proj_case_id_def sample_case_def)

lemma issue_tokens: "tok ''h1'' = ''h1''" "py_strip ''h1'' = ''h1''" "py_strip ''case_1'' = ''case_1''"
  "py_strip ''engineering_handoff_delivery:h1:github_issue'' = ''engineering_handoff_delivery:h1:github_issue''"
  by code_simp+

lemma issue_opened:
  "\<exists>r t. handle_engineering_handoff issue_seven [] issue_intent issue_store = (Inr r, t)
    \<and> hx_external_url r = ''https://github.com/noc/issues/7''"
proof -
  have g: "get_handoff ''h1'' s = (Inr (Some demo_handoff), s)" if "st_handoffs s = st_handoffs issue_store" for s
    using that by (simp add: get_handoff_def getM_app issue_store_def demo_handoff_def)
  have c: "case_of_handoff demo_handoff issue_store = (Inr sample_case, issue_store)"
    by (simp add: case_of_handoff_def get_atomic_def get_case_def bindM_app getM_app retM_app case_by_id_def
        issue_store_def demo_handoff_def blank_handoff_def)
  have "\<exists>d t. engineering_delivery issue_intent demo_handoff sample_case issue_store = (Inr d, t)
      \<and> td_status d = DS_in_progress \<and> st_handoffs t = st_handoffs issue_store
      \<and> dict_get (st_deliveries t) (td_delivery_id d) = Some d"
    by (simp add: engineering_delivery_def new_delivery_def draw_field_def new_id_def utc_now_def uuid4_hex_def
        dt_now_def bindM_app retM_app liftM_app check_delivery_def checked_def lhp_blank_JStr
        record_handoff_delivery_def seqM_app require_handoff_app getM_app put_delivery_def modM_app issue_tokens
        idx_get_def issue_store_def empty_store_def demo_handoff_def sample_case_def blank_delivery_def
        Let_def)
  then obtain d t where d: "engineering_delivery issue_intent demo_handoff sample_case issue_store = (Inr d, t)"
    "td_status d = DS_in_progress" "st_handoffs t = st_handoffs issue_store"
    "dict_get (st_deliveries t) (td_delivery_id d) = Some d" by blast
  have o: "\<exists>r w. open_lhp_issue issue_seven [] sample_case demo_handoff d t = (Inr r, w)
      \<and> hx_external_url r = ''https://github.com/noc/issues/7''"
    using d(4) by (simp add: open_lhp_issue_def except_exception_def catchM_def issue_seven_def bindM_app retM_app
        seqM_app opt_truthy_def Let_def blank_result_def update_handoff_delivery_def put_delivery_def getM_app modM_app)
  have id: "handoff_of_intent issue_intent = ''h1''"
    by (simp add: handoff_of_intent_def issue_intent_def demo_handoff_def issue_tokens)
  have live: "\<not> terminal_handoff_status (ho_status demo_handoff)"
    by (simp add: demo_handoff_def blank_handoff_def terminal_handoff_status_def)
  show ?thesis
    using g[of issue_store] g[OF d(3)] c d(1,2) o live id[unfolded handoff_of_intent_def]
    by (simp add: handle_engineering_handoff_def deliver_engineering_handoff_def bindM_app Let_def)
qed

theorem engineering_issue_opened_once_witness:
  "\<exists>r t answer u. handle_engineering_handoff issue_seven [] issue_intent issue_store = (Inr r, t)
    \<and> hx_external_url r = ''https://github.com/noc/issues/7''
    \<and> (\<forall>other. handle_engineering_handoff other [] issue_intent t = (answer, u))"
proof -
  obtain r t where run: "handle_engineering_handoff issue_seven [] issue_intent issue_store = (Inr r, t)"
    and url: "hx_external_url r = ''https://github.com/noc/issues/7''" using issue_opened by blast
  have quiet: "\<forall>q. keeps store_ok (issue_seven q)"
    "\<forall>q did d. keeps (\<lambda>x. delivery_found x (handoff_of_intent issue_intent) did d) (issue_seven q)"
    by (simp_all add: issue_seven_def keeps_ret)
  from engineering_issue_opened_once[OF issue_store_ok quiet run _ refl, of "[]"] url run show ?thesis by auto
qed

theorem default_worker_in_system_witness:
  "reachable_system (\<lambda>_. []) (\<lambda>_. 0) (snd (process_pending (default_worker (service.fields default_policy (\<lambda>_. []) 20)
      \<lparr>hs_report = \<lparr>rt_validate = (\<lambda>_. Inl (ValueError [])), rt_attention = (\<lambda>_. retM NR_true),
         rt_report = (\<lambda>_. retM CA_delivered), rt_reminder = (\<lambda>_. retM CA_delivered)\<rparr>,
       hs_public_url = [], hs_knowledge_candidate = None, hs_knowledge_context = None,
       hs_handoff_client = Some issue_seven, hs_engineering_client = Some issue_seven\<rparr> 60) 10
    (empty_store (\<lambda>_. []) (\<lambda>_. 0))))"
  by (rule conjunct1[OF default_worker_in_system], unfold setup_through_store_def transports_keep_def issue_seven_def)
    (simp_all add: keeps_ret system_start)

subsection \<open>Nothing is stamped that was not delivered\<close>

text \<open>No card is ever delivered: every call answers no, is superseded (a report or a reminder), or raises.\<close>

definition never_delivers :: "report_transport \<Rightarrow> bool" where
  "never_delivers tr \<longleftrightarrow>
     (\<forall>x s. fst (rt_report tr x s) \<noteq> Inr CA_delivered) \<and> (\<forall>x s. fst (rt_reminder tr x s) \<noteq> Inr CA_delivered)
     \<and> (\<forall>x s a. fst (rt_attention tr x s) = Inr a \<longrightarrow> a = NR_other)"

text \<open>The cases, which carry the report stamps, and the attention ledger.\<close>

type_synonym stamped_tables = "(string, case_projection) dict \<times> (string, attention_delivery) dict"

abbreviation cases_stay :: "stamped_tables \<Rightarrow> store \<Rightarrow> bool" where
  "cases_stay cs s \<equiv> (st_cases s, st_attention s) = cs"

definition leaves_cases :: "report_transport \<Rightarrow> bool" where
  "leaves_cases tr \<longleftrightarrow> (\<forall>cs x. keeps (cases_stay cs) (rt_attention tr x)) \<and> (\<forall>cs x. keeps (cases_stay cs) (rt_report tr x))
     \<and> (\<forall>cs x. keeps (cases_stay cs) (rt_reminder tr x))"

lemma cases_stay_draws [keeps_intros]: "keeps (cases_stay cs) uuid4_hex" "keeps (cases_stay cs) dt_now"
  by (auto simp: keeps_def uuid4_hex_def dt_now_def)

lemma cases_stay_parts [keeps_intros]: "keeps (cases_stay cs) (put_intent i)"
  "keeps (cases_stay cs) (release_attention cid tk)" "keeps (cases_stay cs) (require_atomic_case_locked cid)"
  by (auto simp: keeps_def put_intent_def release_attention_def require_case_app modM_app split: option.split)

lemma cases_stay_outbox [keeps_intros]: "keeps (cases_stay cs) (enqueue_outbox i)"
  "keeps (cases_stay cs) (update_outbox_if_status i w tk)" "keeps (cases_stay cs) (new_intent a b c f ty)"
  unfolding enqueue_outbox_def item_of_def update_outbox_if_status_def new_intent_def new_id_def utc_now_def
  by (intro keeps_intros)+

lemma cases_stay_claim [keeps_intros]: "keeps (cases_stay cs) (claim_attention i n secs)"
  unfolding claim_attention_def by (intro keeps_intros modM_keeps) simp

lemma keeps_case_projection [keeps_intros]:
  "(\<And>c. keeps P (f c)) \<Longrightarrow> (\<And>m. keeps P (g m)) \<Longrightarrow> keeps P (case p of Atomic c \<Rightarrow> f c | Meta m \<Rightarrow> g m)"
  by (cases p) auto

lemma cases_stay_request [keeps_intros]: "keeps (cases_stay cs) (should_remind sv c t)"
  "keeps (cases_stay cs) (request_report sv c sig p)"
  unfolding request_report_def should_remind_def retry_intent_def utc_now_def Let_def by (intro keeps_intros)+

lemma keeps_undelivered:
  assumes "keeps P m" and "\<And>s. fst (m s) \<noteq> Inr CA_delivered" and "keeps P (f CA_false)" and "keeps P (f CA_superseded)"
  shows "keeps P (bindM m f)"
proof (rule keepsI)
  fix s assume s: "P s"
  obtain r t where m: "m s = (r, t)" by force
  have t: "P t" by (rule keepsD_eq[OF assms(1) s m])
  show "P (snd (bindM m f s))"
  proof (cases r)
    case (Inr a)
    with assms(2)[of s] m have "a = CA_false \<or> a = CA_superseded" by (cases a) auto
    with assms(3,4) m Inr t show ?thesis by (auto simp: bindM_app dest: keepsD)
  qed (simp add: bindM_app m t)
qed

lemma cases_stay_answer:
  assumes "never_delivers tr" and "leaves_cases tr"
    and "keeps (cases_stay cs) (f CA_false)" and "keeps (cases_stay cs) (f CA_superseded)"
  shows "keeps (cases_stay cs) (bindM (rt_report tr x) f)" "keeps (cases_stay cs) (bindM (rt_reminder tr y) f)"
  using assms by (cases cs; auto simp: never_delivers_def leaves_cases_def intro!: keeps_undelivered)+

lemma cases_stay_refresh:
  assumes "never_delivers tr" and "leaves_cases tr"
  shows "keeps (cases_stay cs) (refresh_facts sv tr c sig revision)"
  unfolding refresh_facts_def
  by (intro cases_stay_answer keeps_intros assms) (simp_all add: keeps_ret keeps_raise)

lemma cases_stay_update_draft:
  assumes "never_delivers tr" and "leaves_cases tr"
  shows "keeps (cases_stay cs) (update_draft sv tr c i u revision)"
  unfolding update_draft_def update_content_def Let_def by (intro keeps_intros cases_stay_refresh assms)

lemma cases_stay_deliver_draft:
  assumes "never_delivers tr" and "leaves_cases tr"
  shows "keeps (cases_stay cs) (deliver_draft sv tr url c i sig revision n lease d)"
  unfolding deliver_draft_def send_draft_def
  by (cases "truthy (jget (ob_payload i) ''reminder_since'')")
    (simp_all add: keeps_ret keeps_raise assms cases_stay_answer)

lemma cases_stay_attention:
  assumes "leaves_cases tr"
  shows "keeps (cases_stay cs) (attention_handler mv (attention_send vb (rt_attention tr)) n i)"
proof -
  have send: "keeps (cases_stay cs) (attention_send vb (rt_attention tr) c req i)" for c req
    using assms unfolding attention_send_def leaves_cases_def by (intro keeps_intros) blast
  show ?thesis
    unfolding attention_handler_def attempt_delivery_def eligible_def delivery_time_def get_case_def get_attention_def
    by (auto split: option.split send_result.split bool.split
        intro!: keeps_intros keeps_release_unless send keepsD[OF cases_stay_parts(2)])
qed

lemma cases_stay_deliver_report:
  assumes "never_delivers tr" and "leaves_cases tr"
  shows "keeps (cases_stay cs) (deliver_report sv tr url n lease i)"
  unfolding deliver_report_def reminder_case_def legacy_reminder_projection_def report_draft_def get_atomic_def
    get_case_def has_pending_attention_def get_attention_def Let_def
  by (intro keeps_intros cases_stay_attention cases_stay_update_draft cases_stay_deliver_draft assms)

text \<open>What the handler returns then carries neither a delivery nor an event to be stamped.\<close>

definition bare :: "outbox_handler_result \<Rightarrow> bool" where
  "bare r \<longleftrightarrow> hx_attention_delivery r = None \<and> hx_report_event r = None"

lemma bare_results [simp]: "bare blank_result" "bare (blank_result\<lparr>hx_payload_updates := u\<rparr>)"
  "bare (suppressed_result r)" "bare (skipped_because k v)" "bare (below_verbosity level)"
  "bare superseded_result" "bare no_reminder_due"
  by (simp_all add: bare_def blank_result_def suppressed_result_def skipped_because_def below_verbosity_def
      superseded_result_def no_reminder_due_def)

lemma yields_raise [simp]: "yields P (raiseM e)"
  by (simp add: yields_def raiseM_def)

lemma yields_seq: "yields P n \<Longrightarrow> yields P (seqM m n)"
  unfolding seqM_def by (rule yields_then)

lemma yields_option:
  "(v = None \<Longrightarrow> yields P m) \<Longrightarrow> (\<And>x. v = Some x \<Longrightarrow> yields P (f x)) \<Longrightarrow>
    yields P (case v of None \<Rightarrow> m | Some x \<Rightarrow> f x)"
  by (cases v) simp_all

lemma yields_sum:
  "(\<And>x. v = Inl x \<Longrightarrow> yields P (f x)) \<Longrightarrow> (\<And>y. v = Inr y \<Longrightarrow> yields P (g y)) \<Longrightarrow>
    yields P (case v of Inl x \<Rightarrow> f x | Inr y \<Rightarrow> g y)"
  by (cases v) simp_all

lemma yields_projection:
  "(\<And>c. yields P (f c)) \<Longrightarrow> (\<And>m. yields P (g m)) \<Longrightarrow> yields P (case p of Atomic c \<Rightarrow> f c | Meta m \<Rightarrow> g m)"
  by (cases p) simp_all

lemma yields_release_unless: "yields (\<lambda>p. P (fst p)) m \<Longrightarrow> yields P (release_unless cid lease m)"
  unfolding yields_def release_unless_def
  by (auto split: prod.splits sum.splits bool.splits)

lemma yields_undelivered:
  assumes "never_delivers tr" and "yields P (f CA_false)" and "yields P (f CA_superseded)"
  shows "yields P (bindM (rt_report tr x) f)" "yields P (bindM (rt_reminder tr y) f)"
proof -
  have "yields (\<lambda>a. a \<in> {CA_false, CA_superseded}) (rt_report tr x)"
    "yields (\<lambda>a. a \<in> {CA_false, CA_superseded}) (rt_reminder tr y)"
    using assms(1) unfolding yields_def never_delivers_def
    by (metis card_answer.exhaust fst_conv insertCI)+
  then show "yields P (bindM (rt_report tr x) f)" "yields P (bindM (rt_reminder tr y) f)"
    using assms(2,3) by (auto intro: yields_bind)
qed

lemma bare_attempt:
  assumes "never_delivers tr"
  shows "yields (\<lambda>p. bare (fst p)) (attempt_delivery mv (attention_send vb (rt_attention tr)) i req lease)"
proof -
  have other: "yields (\<lambda>a. a = NR_other) (rt_attention tr x)" for x
    using assms unfolding yields_def never_delivers_def by (metis fst_conv)
  have "yields (\<lambda>a. a \<in> {Send_suppressed, Send_bool False}) (attention_send vb (rt_attention tr) c req i)" for c
    unfolding attention_send_def
    by (rule yields_if, simp, rule yields_then, rule yields_bind [OF other], simp)
  note sent = yields_bind [OF this]
  show ?thesis
    unfolding attempt_delivery_def
    by (rule yields_then, rule yields_option, simp, rule sent, auto)
qed

lemma bare_attention:
  assumes "never_delivers tr"
  shows "yields (\<lambda>r. \<forall>x. r = Some x \<longrightarrow> bare x)
    (attention_handler mv (attention_send vb (rt_attention tr)) n i)"
  unfolding attention_handler_def
  by (rule yields_then, rule yields_seq, rule yields_then, rule yields_if, simp, rule yields_then,
    rule yields_option, simp, rule yields_bind [OF yields_release_unless [OF bare_attempt [OF assms]]], simp)

lemma bare_refresh:
  assumes "never_delivers tr"
  shows "yields (\<lambda>r. \<forall>x. r = Some x \<longrightarrow> bare x) (refresh_facts sv tr c sig revision)"
  unfolding refresh_facts_def
  by (rule yields_then, rule yields_seq, rule yields_option, simp, rule yields_then,
    rule yields_undelivered, rule assms, simp_all)

lemma bare_update_draft:
  assumes "never_delivers tr"
  shows "yields (\<lambda>r. \<forall>x. r = Inl x \<longrightarrow> bare x) (update_draft sv tr c i update revision)"
proof -
  have ended: "yields (\<lambda>r. \<forall>x. r = Some x \<longrightarrow> bare x)
      (if b then refresh_facts sv tr c sig revision else retM None)" for b sig
    by (rule yields_if, rule bare_refresh [OF assms], simp)
  have quiet: "yields (\<lambda>r. \<forall>x. r = Inl x \<longrightarrow> bare x) (bindM m (\<lambda>d. retM (Inr d)))" for m :: "draft st"
    by (rule yields_then) simp
  show ?thesis unfolding update_draft_def Let_def
    by (rule yields_then, rule yields_if, simp, rule yields_then, rule yields_bind [OF ended],
      rule yields_option) (simp_all add: quiet)
qed

lemma bare_deliver_draft:
  assumes "never_delivers tr"
  shows "yields bare (deliver_draft sv tr url c i sig revision n lease d)"
  unfolding deliver_draft_def send_draft_def
  by (cases "truthy (jget (ob_payload i) ''reminder_since'')")
    (simp_all add: yields_undelivered [OF assms])

lemma bare_deliver_report:
  assumes "never_delivers tr"
  shows "yields bare (deliver_report sv tr url n lease i)"
proof -
  have draft: "yields (\<lambda>r. \<forall>x. r = Inl x \<longrightarrow> bare x) (case card_update_of i of
      Some update \<Rightarrow> update_draft sv tr c i update revision
    | None \<Rightarrow> bindM (report_draft c i) (\<lambda>d. retM (Inr d)))" for c revision
    by (rule yields_option, rule yields_then, simp, rule bare_update_draft [OF assms])
  have send: "yields bare (bindM (liftM (report_revision i)) (\<lambda>revision.
      bindM (case card_update_of i of Some update \<Rightarrow> update_draft sv tr c i update revision
        | None \<Rightarrow> bindM (report_draft c i) (\<lambda>d. retM (Inr d))) (\<lambda>r. case r of
          Inl ended \<Rightarrow> retM ended
        | Inr d \<Rightarrow> deliver_draft sv tr url c i sig revision n lease (budgeted d))))" for c sig
    by (rule yields_then, rule yields_bind [OF draft], rule yields_sum)
      (simp_all add: bare_deliver_draft [OF assms])
  have attention: "yields bare (bindM (attention_handler mv (attention_send vb (rt_attention tr)) m i)
      (\<lambda>r. case r of None \<Rightarrow> raiseM e | Some x \<Rightarrow> retM x))" for mv vb m e
    by (rule yields_bind [OF bare_attention [OF assms]], rule yields_option) simp_all
  show ?thesis unfolding deliver_report_def Let_def
    by (rule yields_if, rule attention, rule yields_if, simp, rule yields_then, rule yields_then,
      rule yields_option, simp, rule send)
qed

lemma bare_handle_report:
  assumes "never_delivers tr"
  shows "yields bare (handle_report sv tr url i)"
proof -
  note deliver = bare_deliver_report [OF assms]
  show ?thesis unfolding handle_report_def Let_def
    by (rule yields_if, rule deliver, rule yields_then, rule yields_option, rule deliver,
      rule yields_projection, rule yields_if, rule deliver, rule yields_then, rule yields_if, rule deliver,
      rule yields_then, rule yields_option, simp, rule yields_release_unless, rule yields_bind [OF deliver],
      simp, rule deliver)
qed

lemma cases_stay_report_handler:
  assumes "never_delivers tr" and "leaves_cases tr"
  shows "keeps (cases_stay cs) (report_handler sv tr url i)"
  unfolding report_handler_def handle_report_def get_case_def get_attention_def Let_def
  by (intro keeps_intros keeps_release_unless cases_stay_deliver_report assms keepsD[OF cases_stay_parts(2)])

lemma cases_stay_settled:
  "keeps (cases_stay cs) (record_failure backoff i e)"
  "bare r \<Longrightarrow> keeps (cases_stay cs) (record_completion i (Some r))"
  unfolding record_failure_def record_completion_def utc_now_def Let_def bare_def
  by (auto intro!: keeps_intros)


definition silent_transport :: report_transport where
  "silent_transport = \<lparr>rt_validate = (\<lambda>_. Inl (ValueError [])), rt_attention = (\<lambda>_. retM NR_other),
     rt_report = (\<lambda>_. retM CA_false), rt_reminder = (\<lambda>_. retM CA_superseded)\<rparr>"


end
