(* ===== verification/Case_Cards.thy ===== *)
theory Case_Cards
  imports Investigations
begin

section \<open>Case cards (app/case_cards.py)\<close>

text \<open>
  \<open>deliver_case_card\<close>: one Discord message per destination and case, edited in place. A file per card keeps the number of
  the message, the hash of its content, the revision it shows and when Discord last confirmed it. The lock of the
  card and the two calls of the transport are callbacks, which may raise or time out; a file that does not hold
  a card state (no JSON, a key missing, a value of another type) is one value, and a file system that fails is not modelled. Numbers
  of the file and of the clock are exact rationals.
\<close>

subsection \<open>The file of a card\<close>

record card_state =
  cs_message_id :: int
  cs_digest :: string
  cs_verified_at :: rat
  cs_revision :: rat

datatype card_file = Card_state card_state | Card_invalid

record 'w card_world =
  cw_files :: "(string, card_file) dict"
  cw_clock :: "nat \<Rightarrow> rat"
  cw_reads :: nat
  cw_outside :: 'w

type_synonym ('w, 'a) cd = "('w card_world, 'a) comp"

text \<open>What the code goes on with: an invalid file counts as none.\<close>

definition read_card :: "string \<Rightarrow> 'w card_world \<Rightarrow> card_state option" where
  "read_card key w = (case dict_get (cw_files w) key of
     Some (Card_state c) \<Rightarrow> if 0 < cs_message_id c then Some c else None
   | _ \<Rightarrow> None)"

definition write_card :: "string \<Rightarrow> card_state \<Rightarrow> ('w, unit) cd" where
  "write_card key c = modM (\<lambda>w. w\<lparr>cw_files := dict_set key (Card_state c) (cw_files w)\<rparr>)"

definition card_time :: "('w, rat) cd" where
  "card_time = (\<lambda>w. (Inr (cw_clock w (cw_reads w)), w\<lparr>cw_reads := Suc (cw_reads w)\<rparr>))"

definition card_call :: "('w, 'a) comp \<Rightarrow> ('w, 'a) cd" where
  "card_call m = zoomM cw_outside (\<lambda>x w. w\<lparr>cw_outside := x\<rparr>) m"

definition card_key :: "string \<Rightarrow> string \<Rightarrow> string" where
  "card_key destination case_id = sha256_hex (destination @ [char_of (0 :: nat)] @ case_id)"

definition card_digest :: "jdict \<Rightarrow> string" where
  "card_digest content = sha256_hex (json_dumps_ascii (JDict content))"

subsection \<open>A delivery\<close>

datatype card_outcome = Card_done | Card_failed | Card_superseded | Card_superseded_at rat

text \<open>
  The transport: waiting for the lock of the card, creating a message (its number, or none) and editing one;
  \<open>CardNotFound\<close> says that the message is gone.
\<close>

record 'w card_transport =
  ct_lock :: "('w, unit) comp"
  ct_create :: "jdict \<Rightarrow> ('w, int option) comp"
  ct_edit :: "int \<Rightarrow> jdict \<Rightarrow> ('w, bool) comp"

definition card_refresh_s :: rat where
  "card_refresh_s = 6 * 3600"

definition card_not_found :: "exn \<Rightarrow> bool" where
  "card_not_found e \<longleftrightarrow> (case e of OtherError cls _ \<Rightarrow> cls = ''CardNotFound'' | _ \<Rightarrow> False)"

text \<open>What the edit of a message says: None that the message is gone.\<close>

definition edit_card :: "'w card_transport \<Rightarrow> int \<Rightarrow> jdict \<Rightarrow> ('w, bool option) cd" where
  "edit_card tr m content =
     catchM (bindM (card_call (ct_edit tr m content)) (\<lambda>ok. retM (Some ok)))
       (\<lambda>e. if card_not_found e then retM None else raiseM e)"

definition create_card :: "'w card_transport \<Rightarrow> string \<Rightarrow> jdict \<Rightarrow> rat \<Rightarrow> rat \<Rightarrow> ('w, card_outcome) cd" where
  "create_card tr key content revision now =
     bindM (card_call (ct_create tr content)) (\<lambda>m. case m of
       None \<Rightarrow> retM Card_failed
     | Some i \<Rightarrow>
         if i \<le> 0 then retM Card_failed
         else seqM (write_card key \<lparr>cs_message_id = i, cs_digest = card_digest content,
             cs_verified_at = now, cs_revision = revision\<rparr>) (retM Card_done))"

definition recently_confirmed :: "rat \<Rightarrow> card_state \<Rightarrow> jdict \<Rightarrow> bool" where
  "recently_confirmed now c content \<longleftrightarrow>
     cs_digest c = card_digest content \<and> 0 \<le> now - cs_verified_at c \<and> now - cs_verified_at c < card_refresh_s"

definition superseded_answer :: "bool \<Rightarrow> rat \<Rightarrow> card_state \<Rightarrow> card_outcome" where
  "superseded_answer receipt now c =
     (if receipt \<and> 0 < cs_verified_at c \<and> cs_verified_at c \<le> now
      then Card_superseded_at (cs_verified_at c) else Card_superseded)"

definition update_card ::
  "'w card_transport \<Rightarrow> string \<Rightarrow> jdict \<Rightarrow> rat \<Rightarrow> bool \<Rightarrow> bool \<Rightarrow> rat \<Rightarrow> card_state \<Rightarrow> ('w, card_outcome) cd" where
  "update_card tr key content revision force receipt now c =
     (let shown = c\<lparr>cs_digest := card_digest content, cs_revision := revision\<rparr> in
      if revision < cs_revision c then retM (superseded_answer receipt now c)
      else if \<not> force \<and> recently_confirmed now c content then
        (if revision = cs_revision c then retM Card_done
         else seqM (write_card key shown) (retM Card_done))
      else bindM (edit_card tr (cs_message_id c) content) (\<lambda>edited. case edited of
          None \<Rightarrow> create_card tr key content revision now
        | Some ok \<Rightarrow>
            if \<not> ok then retM Card_failed
            else seqM (write_card key (shown\<lparr>cs_verified_at := now\<rparr>)) (retM Card_done)))"

definition locked_delivery ::
  "'w card_transport \<Rightarrow> string \<Rightarrow> jdict \<Rightarrow> rat \<Rightarrow> bool \<Rightarrow> bool \<Rightarrow> ('w, card_outcome) cd" where
  "locked_delivery tr key content revision force receipt =
     seqM (card_call (ct_lock tr))
     (bindM (getM (read_card key)) (\<lambda>found.
      bindM card_time (\<lambda>now. case found of
        None \<Rightarrow> create_card tr key content revision now
      | Some c \<Rightarrow> update_card tr key content revision force receipt now c)))"

definition deliver_case_card ::
  "'w card_transport \<Rightarrow> string \<Rightarrow> string \<Rightarrow> jdict \<Rightarrow> rat option \<Rightarrow> bool \<Rightarrow> bool \<Rightarrow> ('w, card_outcome) cd" where
  "deliver_case_card tr destination case_id content revision force receipt =
     bindM (given_or revision card_time) (\<lambda>revision.
     except_exception
       (locked_delivery tr (card_key destination case_id) content revision force receipt)
       (\<lambda>e. retM Card_failed))"

section \<open>What a card shows\<close>

text \<open>
  A delivery that is done leaves its content on the card, a delivery that is not leaves the card as it was, and whatever
  the order of the deliveries the card never goes back to an older revision.
\<close>

subsection \<open>Frames\<close>

lemma keeps_card_time [keeps_intros]:
  "(\<And>w n. P w \<Longrightarrow> P (w\<lparr>cw_reads := n\<rparr>)) \<Longrightarrow> keeps P card_time"
  by (simp add: card_time_def keeps_def)

lemma keeps_card_call [keeps_intros]:
  "(\<And>w x. P w \<Longrightarrow> P (w\<lparr>cw_outside := x\<rparr>)) \<Longrightarrow> keeps P (card_call m)"
  unfolding card_call_def by (rule keeps_zoom [where Q = "\<lambda>_. True"]) (simp_all add: keeps_def)

lemma read_card_frame [simp]:
  "read_card key (w\<lparr>cw_reads := n\<rparr>) = read_card key w" "read_card key (w\<lparr>cw_outside := x\<rparr>) = read_card key w"
  by (simp_all add: read_card_def)

lemma read_card_written [simp]:
  "0 < cs_message_id c \<Longrightarrow> read_card key (w\<lparr>cw_files := dict_set key (Card_state c) d\<rparr>) = Some c"
  "k \<noteq> key \<Longrightarrow> read_card k (w\<lparr>cw_files := dict_set key (Card_state c) (cw_files w)\<rparr>) = read_card k w"
  by (simp_all add: read_card_def del: map_of_eq_Some_iff)

lemma read_card_id: "read_card key w = Some c \<Longrightarrow> 0 < cs_message_id c"
  by (auto simp: read_card_def split: option.splits card_file.splits if_splits)

lemma card_time_app: "card_time w = (Inr (cw_clock w (cw_reads w)), w\<lparr>cw_reads := Suc (cw_reads w)\<rparr>)"
  by (simp add: card_time_def)

lemma card_call_run: "card_call m w = (r, w') \<Longrightarrow> cw_files w' = cw_files w \<and> cw_clock w' = cw_clock w"
  by (auto simp: card_call_def zoomM_def split: prod.splits)

lemma edit_card_run: "edit_card tr m content w = (r, w') \<Longrightarrow> cw_files w' = cw_files w \<and> cw_clock w' = cw_clock w"
  by (auto simp: edit_card_def catchM_def bindM_app dest: card_call_run split: prod.splits sum.splits if_splits)

subsection \<open>One delivery\<close>

definition writes_card :: "string \<Rightarrow> card_state \<Rightarrow> 'w card_world \<Rightarrow> 'w card_world \<Rightarrow> bool" where
  "writes_card key c w w' \<longleftrightarrow> cw_files w' = dict_set key (Card_state c) (cw_files w) \<and> 0 < cs_message_id c"

text \<open>The card after a delivery that is done: \<open>now\<close> is the reading of the clock after the lock.\<close>

definition confirmed_card :: "jdict \<Rightarrow> rat \<Rightarrow> rat \<Rightarrow> card_state \<Rightarrow> bool" where
  "confirmed_card content revision now c \<longleftrightarrow> 0 < cs_message_id c \<and> cs_digest c = card_digest content \<and>
     cs_revision c = revision \<and> cs_verified_at c \<le> now \<and> now - cs_verified_at c < card_refresh_s"

lemma create_card_run:
  assumes "create_card tr key content revision now w = (r, w')"
  shows "(r = Inr Card_done \<longrightarrow> (\<exists>c. writes_card key c w w' \<and> confirmed_card content revision now c)) \<and>
    (r \<noteq> Inr Card_done \<longrightarrow> cw_files w' = cw_files w)"
proof -
  obtain x u where x: "card_call (ct_create tr content) w = (x, u)" by force
  have f: "cw_files u = cw_files w" using card_call_run [OF x] by simp
  show ?thesis
  proof (cases "\<exists>i. x = Inr (Some i) \<and> 0 < i")
    case True
    then obtain i where i: "x = Inr (Some i)" "0 < i" by blast
    let ?c = "\<lparr>cs_message_id = i, cs_digest = card_digest content, cs_verified_at = now, cs_revision = revision\<rparr>"
    have "writes_card key ?c w w'" "confirmed_card content revision now ?c" "r = Inr Card_done"
      using assms x i f
      by (simp_all add: create_card_def bindM_app seqM_app write_card_def writes_card_def confirmed_card_def
          card_refresh_s_def) auto
    then show ?thesis by blast
  next
    case False
    then have "r \<noteq> Inr Card_done \<and> w' = u" using assms x
      by (auto simp: create_card_def bindM_app split: sum.splits option.splits if_splits)
    with f show ?thesis by simp
  qed
qed

lemma update_card_run:
  assumes "update_card tr key content revision force receipt now c w = (r, w')" and "read_card key w = Some c"
  shows "(r = Inr Card_done \<longrightarrow> cs_revision c \<le> revision \<and>
      (\<exists>d. confirmed_card content revision now d \<and> (writes_card key d w w' \<or> (d = c \<and> cw_files w' = cw_files w)))) \<and>
    (r \<noteq> Inr Card_done \<longrightarrow> cw_files w' = cw_files w)"
proof -
  note id = read_card_id [OF assms(2)]
  let ?shown = "c\<lparr>cs_digest := card_digest content, cs_revision := revision\<rparr>"
  consider (stale) "revision < cs_revision c"
    | (quiet) "\<not> revision < cs_revision c" "\<not> force" "recently_confirmed now c content"
    | (edit) "\<not> revision < cs_revision c" "force \<or> \<not> recently_confirmed now c content" by blast
  then show ?thesis
  proof cases
    case stale
    then show ?thesis using assms(1) by (auto simp: update_card_def Let_def superseded_answer_def split: if_splits)
  next
    case quiet
    then show ?thesis using assms(1) id
      by (auto simp: update_card_def Let_def seqM_app write_card_def writes_card_def confirmed_card_def
          recently_confirmed_def split: if_splits intro!: exI [of _ ?shown])
  next
    case edit
    then have e: "bindM (edit_card tr (cs_message_id c) content) (\<lambda>edited. case edited of
          None \<Rightarrow> create_card tr key content revision now
        | Some ok \<Rightarrow> if \<not> ok then retM Card_failed
            else seqM (write_card key (?shown\<lparr>cs_verified_at := now\<rparr>)) (retM Card_done)) w = (r, w')"
      using assms(1) by (auto simp: update_card_def Let_def)
    obtain x u where x: "edit_card tr (cs_message_id c) content w = (x, u)" by force
    note f = edit_card_run [OF x]
    show ?thesis
    proof (cases "x = Inr None")
      case True
      then have "create_card tr key content revision now u = (r, w')" using e x by (simp add: bindM_app)
      from create_card_run [OF this] f edit(1) show ?thesis by (auto simp: writes_card_def)
    next
      case False
      then show ?thesis using e x f id edit(1)
        by (auto simp: bindM_app seqM_app write_card_def writes_card_def confirmed_card_def card_refresh_s_def
            split: sum.splits option.splits if_splits intro!: exI [of _ "?shown\<lparr>cs_verified_at := now\<rparr>"])
    qed
  qed
qed

lemma locked_delivery_run:
  assumes "locked_delivery tr key content revision force receipt w = (r, w')"
  shows "(r = Inr Card_done \<longrightarrow> (\<exists>c now. read_card key w' = Some c \<and> confirmed_card content revision now c \<and>
      (\<forall>old. read_card key w = Some old \<longrightarrow> cs_revision old \<le> revision) \<and>
      (\<forall>k. k \<noteq> key \<longrightarrow> read_card k w' = read_card k w))) \<and>
    (r \<noteq> Inr Card_done \<longrightarrow> cw_files w' = cw_files w)"
proof -
  obtain x u where x: "card_call (ct_lock tr) w = (x, u)" by force
  note f = card_call_run [OF x]
  show ?thesis
  proof (cases x)
    case (Inl e)
    then show ?thesis using assms x f by (auto simp: locked_delivery_def seqM_app)
  next
    case (Inr y)
    let ?u = "u\<lparr>cw_reads := Suc (cw_reads u)\<rparr>"
    let ?now = "cw_clock u (cw_reads u)"
    have same: "read_card k ?u = read_card k w" for k using f by (simp add: read_card_def)
    have written: "read_card key w' = Some c \<and> (\<forall>k. k \<noteq> key \<longrightarrow> read_card k w' = read_card k w)"
      if "writes_card key c ?u w'" for c
      using that f by (auto simp: writes_card_def read_card_def)
    show ?thesis
    proof (cases "read_card key w")
      case None
      then have c: "create_card tr key content revision ?now ?u = (r, w')"
        using assms x Inr same [of key] by (simp add: locked_delivery_def seqM_app bindM_app card_time_app)
      show ?thesis using create_card_run [OF c] written f None by auto
    next
      case (Some old)
      then have c: "update_card tr key content revision force receipt ?now old ?u = (r, w')"
        using assms x Inr same [of key] by (simp add: locked_delivery_def seqM_app bindM_app card_time_app)
      have o: "read_card key ?u = Some old" using Some same by simp
      note u = update_card_run [OF c o]
      show ?thesis
      proof (cases "r = Inr Card_done")
        case True
        then obtain d where d: "cs_revision old \<le> revision" "confirmed_card content revision ?now d"
          "writes_card key d ?u w' \<or> (d = old \<and> cw_files w' = cw_files ?u)" using u by blast
        then have "read_card key w' = Some d \<and> (\<forall>k. k \<noteq> key \<longrightarrow> read_card k w' = read_card k w)"
          using written f Some by (auto simp: read_card_def)
        with d Some True show ?thesis by auto
      next
        case False
        then show ?thesis using u f by auto
      qed
    qed
  qed
qed

lemma deliver_case_card_run:
  assumes "deliver_case_card tr destination case_id content given force receipt w = (r, w')"
  shows "(r = Inr Card_done \<longrightarrow> (\<exists>revision c now. given \<in> {None, Some revision} \<and>
      read_card (card_key destination case_id) w' = Some c \<and> confirmed_card content revision now c \<and>
      (\<forall>old. read_card (card_key destination case_id) w = Some old \<longrightarrow> cs_revision old \<le> revision) \<and>
      (\<forall>k. k \<noteq> card_key destination case_id \<longrightarrow> read_card k w' = read_card k w))) \<and>
    (r \<noteq> Inr Card_done \<longrightarrow> cw_files w' = cw_files w)"
proof -
  obtain revision u where g: "given_or given card_time w = (Inr revision, u)" "given \<in> {None, Some revision}"
    "cw_files u = cw_files w"
    by (cases given) (auto simp: given_or_def card_time_app)
  obtain x v where x: "locked_delivery tr (card_key destination case_id) content revision force receipt u = (x, v)"
    by force
  have "cw_files w' = cw_files v \<and> (r = Inr Card_done \<longrightarrow> x = Inr Card_done \<and> w' = v) \<and> (x = Inr Card_done \<longrightarrow> r = x)"
    using assms g(1) x
    by (auto simp: deliver_case_card_def bindM_app except_exception_def catchM_def is_cancelled_def split: sum.splits if_splits)
  moreover have "read_card k u = read_card k w" for k using g(3) by (simp add: read_card_def)
  ultimately show ?thesis using locked_delivery_run [OF x] g(2,3) by auto
qed

text \<open>
  The outcome of a delivery and the card agree: a delivery that is done leaves the card with a message, the given content and
  revision, confirmed within the last six hours, and no other card changed; every other outcome leaves all
  the cards as they were, so that the delivery can be repeated.
\<close>

theorem delivery_is_recorded:
  assumes "deliver_case_card tr destination case_id content (Some revision) force receipt w = (r, w')"
  shows "if r = Inr Card_done then
      (\<exists>c now. read_card (card_key destination case_id) w' = Some c \<and> confirmed_card content revision now c \<and>
        (\<forall>k. k \<noteq> card_key destination case_id \<longrightarrow> read_card k w' = read_card k w))
    else cw_files w' = cw_files w"
  using deliver_case_card_run [OF assms] by (cases "r = Inr Card_done") (simp_all, blast)

subsection \<open>Any number of deliveries\<close>

record card_delivery =
  dl_destination :: string
  dl_case_id :: string
  dl_content :: jdict
  dl_revision :: rat
  dl_force :: bool
  dl_receipt :: bool

definition run_delivery :: "(card_delivery \<Rightarrow> 'w card_transport) \<Rightarrow> card_delivery \<Rightarrow> ('w, card_outcome) cd" where
  "run_delivery tr d = deliver_case_card (tr d) (dl_destination d) (dl_case_id d) (dl_content d)
     (Some (dl_revision d)) (dl_force d) (dl_receipt d)"

definition delivery_key :: "card_delivery \<Rightarrow> string" where
  "delivery_key d = card_key (dl_destination d) (dl_case_id d)"

definition shows_at_least :: "string \<Rightarrow> rat \<Rightarrow> 'w card_world \<Rightarrow> bool" where
  "shows_at_least key revision w \<longleftrightarrow> (\<exists>c. read_card key w = Some c \<and> revision \<le> cs_revision c)"

lemma delivery_keeps_revision:
  fixes tr :: "card_delivery \<Rightarrow> 'w card_transport"
  shows "keeps (shows_at_least key revision) (run_delivery tr d)"
proof (rule keepsI)
  fix w :: "'w card_world" assume s: "shows_at_least key revision w"
  obtain r w' where d: "run_delivery tr d w = (r, w')" by force
  note run = deliver_case_card_run [OF d [unfolded run_delivery_def]]
  have "shows_at_least key revision w'"
  proof (cases "r = Inr Card_done \<and> key = delivery_key d")
    case True
    then show ?thesis using run s by (auto simp: shows_at_least_def delivery_key_def confirmed_card_def)
  next
    case False
    then have "read_card key w' = read_card key w"
      using run by (cases "r = Inr Card_done") (auto simp: delivery_key_def read_card_def)
    with s show ?thesis by (simp add: shows_at_least_def)
  qed
  with d show "shows_at_least key revision (snd (run_delivery tr d w))" by simp
qed

text \<open>
  C15: A card never goes back: once a delivery was done, the card shows its revision or a later one after any number of
  further deliveries in any order, whatever the transports do.
\<close>

theorem card_never_goes_back:
  assumes "mapM (run_delivery tr) ds w = (Inr outcomes, w')" and "(d, Card_done) \<in> set (zip ds outcomes)"
  shows "shows_at_least (delivery_key d) (dl_revision d) w'"
  using assms
proof (induction ds arbitrary: w outcomes)
  case Nil
  then show ?case by simp
next
  case (Cons e ds)
  from Cons.prems(1) obtain x u rest where x: "run_delivery tr e w = (Inr x, u)"
    and rest: "mapM (run_delivery tr) ds u = (Inr rest, w')" and o: "outcomes = x # rest"
    by (auto elim!: bindM_success)
  have k: "keeps (shows_at_least key revision) (mapM (run_delivery tr) ds)" for key revision
    by (intro keeps_mapM delivery_keeps_revision)
  show ?case
  proof (cases "(d, Card_done) \<in> set (zip ds rest)")
    case True
    with Cons.IH [OF rest] show ?thesis by blast
  next
    case False
    with Cons.prems(2) o have "e = d" "x = Card_done" by auto
    with deliver_case_card_run [OF x [unfolded run_delivery_def]]
    have "shows_at_least (delivery_key d) (dl_revision d) u"
      by (auto simp: shows_at_least_def delivery_key_def confirmed_card_def)
    from keepsD_eq [OF k this rest] show ?thesis .
  qed
qed

subsection \<open>Two deliveries\<close>

definition sample_transport :: "nat card_transport" where
  "sample_transport = \<lparr>ct_lock = retM (), ct_create = (\<lambda>_ n. (Inr (Some 7), Suc n)),
     ct_edit = (\<lambda>_ _ n. (Inr True, Suc n))\<rparr>"

definition sample_delivery :: "rat \<Rightarrow> card_delivery" where
  "sample_delivery revision = \<lparr>dl_destination = ''webhook'', dl_case_id = ''case_1'', dl_content = [],
     dl_revision = revision, dl_force = False, dl_receipt = False\<rparr>"

definition no_cards :: "nat card_world" where
  "no_cards = \<lparr>cw_files = [], cw_clock = (\<lambda>n. 1000), cw_reads = 0, cw_outside = 0\<rparr>"

lemma first_delivery: "\<exists>w'. run_delivery (\<lambda>_. sample_transport) (sample_delivery r) no_cards = (Inr Card_done, w')"
  by (simp add: run_delivery_def deliver_case_card_def given_or_def except_exception_def catchM_def locked_delivery_def
      comp_simps card_call_def zoomM_def sample_transport_def no_cards_def sample_delivery_def card_time_app read_card_def
      create_card_def write_card_def)

theorem delivery_is_recorded_witness:
  "\<exists>w' c. run_delivery (\<lambda>_. sample_transport) (sample_delivery 5) no_cards = (Inr Card_done, w') \<and>
     read_card (card_key ''webhook'' ''case_1'') w' = Some c \<and> cs_revision c = 5"
proof -
  obtain w' where w: "run_delivery (\<lambda>_. sample_transport) (sample_delivery 5) no_cards = (Inr Card_done, w')"
    using first_delivery by blast
  then have "deliver_case_card sample_transport ''webhook'' ''case_1'' [] (Some 5) False False no_cards = (Inr Card_done, w')"
    by (simp add: run_delivery_def sample_delivery_def)
  from delivery_is_recorded [OF this] w show ?thesis by (auto simp: confirmed_card_def)
qed

theorem card_never_goes_back_witness:
  "\<exists>w'. run_delivery (\<lambda>_. sample_transport) (sample_delivery 5) no_cards = (Inr Card_done, w') \<and>
     shows_at_least (card_key ''webhook'' ''case_1'') 5 w'"
proof -
  obtain w' where w: "run_delivery (\<lambda>_. sample_transport) (sample_delivery 5) no_cards = (Inr Card_done, w')"
    using first_delivery by blast
  then have m: "mapM (run_delivery (\<lambda>_. sample_transport)) [sample_delivery 5] no_cards = (Inr [Card_done], w')"
    by (simp add: bindM_app)
  have "(sample_delivery 5, Card_done) \<in> set (zip [sample_delivery 5] [Card_done])" by simp
  from card_never_goes_back [OF m this] w show ?thesis by (simp add: delivery_key_def sample_delivery_def)
qed

end
