(* ===== verification/Retrieval.thy ===== *)
theory Retrieval
  imports Py_Float Models
begin

section \<open>Retrieval of knowledge (app/knowledge/retrieval.py, case_context.py)\<close>

text \<open>
  \<open>KnowledgeExportRetriever\<close> over a pinned export: the rows of its two tables and the manifest beside it, read from
  SQLite and JSON files, are arguments, and so is \<open>json.loads\<close> on the tags of a row. What happens with them
  (terms, scores, authority filter, ranking, sections, snippets, citations) is modelled. Scores are multiples of a half, so
  that rounding them to six places changes nothing.
\<close>

subsection \<open>Searching in text\<close>

definition starts_with :: "string \<Rightarrow> string \<Rightarrow> bool" where
  "starts_with m s \<longleftrightarrow> take (length m) s = m"

text \<open>\<open>s.find(m)\<close>\<close>

fun find_sub :: "string \<Rightarrow> string \<Rightarrow> nat option" where
  "find_sub m [] = (if m = [] then Some 0 else None)"
| "find_sub m (c # s) = (if starts_with m (c # s) then Some 0 else map_option Suc (find_sub m s))"

text \<open>\<open>s.count(m)\<close>: occurrences that do not overlap.\<close>

function count_sub :: "string \<Rightarrow> string \<Rightarrow> nat" where
  "count_sub m s =
     (if m = [] then length s + 1
      else if s = [] then 0
      else if starts_with m s then Suc (count_sub m (drop (length m) s))
      else count_sub m (tl s))"
  by pat_completeness auto
termination by (relation "measure (length \<circ> snd)") auto

declare count_sub.simps [simp del]

text \<open>\<open>s.splitlines()\<close>\<close>

definition line_break :: "char \<Rightarrow> bool" where
  "line_break c \<longleftrightarrow> code c \<in> {10, 11, 12, 13, 28, 29, 30}"

fun join_crlf :: "string \<Rightarrow> string" where
  "join_crlf (c # d # s) =
     (if code c = 13 \<and> code d = 10 then d # join_crlf s else c # join_crlf (d # s))"
| "join_crlf s = s"

fun break_lines :: "string \<Rightarrow> string \<Rightarrow> string list" where
  "break_lines line [] = (if line = [] then [] else [rev line])"
| "break_lines line (c # s) = (if line_break c then rev line # break_lines [] s else break_lines (c # line) s)"

definition splitlines :: "string \<Rightarrow> string list" where
  "splitlines s = break_lines [] (join_crlf s)"

subsection \<open>The export\<close>

record knowledge_export =
  ke_concepts :: "jdict list option"
  ke_source_refs :: "jdict list option"
  ke_export_version :: string
  ke_retrieval_version :: string
  ke_policy_version :: string
  ke_source_shas :: jdict

text \<open>The versions of an export; \<open>mtime\<close> is the modification time of the database in nanoseconds.\<close>

definition export_of_manifest ::
  "jdict list option \<Rightarrow> jdict list option \<Rightarrow> int \<Rightarrow> json option \<Rightarrow> knowledge_export" where
  "export_of_manifest concepts refs mtime manifest =
     (let data = (case manifest of Some (JDict d) \<Rightarrow> d | _ \<Rightarrow> []);
          run_id = py_str (or_json (jget data ''run_id'') (JInt mtime));
          retrieval = py_str (or_json (jget data ''retrieval_version'') (JStr ''unknown_retrieval''));
          policy = py_str (or_json (jget data ''policy_version'') (JStr ''unknown_policy''))
      in \<lparr>ke_concepts = concepts, ke_source_refs = refs,
          ke_export_version = run_id @ '':'' @ retrieval @ '':'' @ policy,
          ke_retrieval_version = retrieval, ke_policy_version = policy,
          ke_source_shas = (case jget data ''source_shas'' of JDict d \<Rightarrow> d | _ \<Rightarrow> [])\<rparr>)"

definition load_concepts :: "knowledge_export \<Rightarrow> exn + jdict list" where
  "load_concepts x = (case ke_concepts x of Some rows \<Rightarrow> Inr rows
     | None \<Rightarrow> Inl (ValueError ''knowledge export missing concepts table''))"

text \<open>The references of one concept, in the order of the table.\<close>

definition source_refs_of :: "knowledge_export \<Rightarrow> string \<Rightarrow> jdict list" where
  "source_refs_of x doc_id = (case ke_source_refs x of None \<Rightarrow> []
     | Some rows \<Rightarrow> filter (\<lambda>r. str_or_empty (jget r ''concept_id'') = doc_id) rows)"

subsection \<open>Citations and results\<close>

record knowledge_citation =
  kc_doc_id :: string
  kc_doc_path :: string
  kc_review_status :: string
  kc_authority :: string
  kc_section :: string
  kc_repo_revision :: string
  kc_export_version :: string
  kc_score :: rat

record search_result =
  sr_citation :: knowledge_citation
  sr_title :: string
  sr_description :: string
  sr_snippet :: string
  sr_tags :: "string list"

definition approved_review_statuses :: "string list" where
  "approved_review_statuses = [''approved'', ''reviewed'']"

definition authoritative_authorities :: "string list" where
  "authoritative_authorities = [''canonical'', ''advisory'', ''A0'', ''A1'', ''A2'']"

definition is_authoritative :: "string \<Rightarrow> string \<Rightarrow> bool" where
  "is_authoritative review_status authority \<longleftrightarrow>
     review_status \<in> set approved_review_statuses \<and> authority \<in> set authoritative_authorities"

definition as_trace_dict :: "knowledge_citation \<Rightarrow> jdict" where
  "as_trace_dict c =
     [(''doc_id'', JStr (kc_doc_id c)), (''doc_path'', JStr (kc_doc_path c)),
      (''review_status'', JStr (kc_review_status c)), (''authority'', JStr (kc_authority c)),
      (''section'', JStr (kc_section c)), (''repo_revision'', JStr (kc_repo_revision c)),
      (''export_version'', JStr (kc_export_version c)), (''score'', JFloat (rounded_str 6 (Finite (kc_score c)))),
      (''authoritative'', JBool (is_authoritative (kc_review_status c) (kc_authority c)))]"

definition trace_citations :: "search_result list \<Rightarrow> jdict list" where
  "trace_citations rs = map (\<lambda>r. as_trace_dict (sr_citation r)) rs"

subsection \<open>Terms and scores\<close>

definition query_terms :: "string \<Rightarrow> string list" where
  "query_terms query =
     filter (\<lambda>t. 2 \<le> length t)
       (py_split (py_lower (replace_char (CHR ''/'') '' '' (replace_char (CHR ''_'') '' '' query))))"

definition parse_tags :: "(string \<Rightarrow> json option) \<Rightarrow> json \<Rightarrow> string list" where
  "parse_tags loads v = (case v of
     JList vs \<Rightarrow> map py_str vs
   | _ \<Rightarrow> if \<not> truthy v then []
       else case loads (py_str v) of Some (JList vs) \<Rightarrow> map py_str vs | _ \<Rightarrow> [])"

definition row_text :: "jdict \<Rightarrow> string \<Rightarrow> string" where
  "row_text row k = str_or_empty (jget row k)"

definition term_score :: "(string \<Rightarrow> json option) \<Rightarrow> jdict \<Rightarrow> string \<Rightarrow> rat" where
  "term_score loads row t =
     5 * of_nat (count_sub t (py_lower (row_text row ''title'')))
     + 3 * of_nat (count_sub t (py_lower (row_text row ''description'')))
     + 2 * of_nat (count_sub t (py_lower (py_join '' '' (parse_tags loads (jget row ''tags_json'')))))
     + of_nat (count_sub t (py_lower (row_text row ''path'')))
     + of_nat (count_sub t (py_lower (row_text row ''body''))) / 2"

definition score_row :: "(string \<Rightarrow> json option) \<Rightarrow> jdict \<Rightarrow> string list \<Rightarrow> rat" where
  "score_row loads row terms = sum_list (map (term_score loads row) terms)"

definition line_hits :: "string list \<Rightarrow> string \<Rightarrow> nat" where
  "line_hits terms line = sum_list (map (\<lambda>t. count_sub t (py_lower line)) terms)"

text \<open>The heading over the line with the most hits, the first of several.\<close>

fun best_section_from :: "string list \<Rightarrow> string \<Rightarrow> string \<Rightarrow> nat \<Rightarrow> string list \<Rightarrow> string" where
  "best_section_from terms current best best_score [] = best"
| "best_section_from terms current best best_score (line # ls) =
     (let stripped = py_strip line in
      if starts_with ''#'' stripped
      then best_section_from terms (py_strip (dropWhile (\<lambda>c. c = CHR ''#'') stripped)) best best_score ls
      else if best_score < line_hits terms stripped
      then best_section_from terms current current (line_hits terms stripped) ls
      else best_section_from terms current best best_score ls)"

definition best_section :: "string \<Rightarrow> string list \<Rightarrow> string" where
  "best_section body terms = best_section_from terms [] [] 0 (splitlines body)"

definition snippet :: "string \<Rightarrow> string list \<Rightarrow> string" where
  "snippet body terms =
     (let found = concat (map (\<lambda>t. case find_sub t (py_lower body) of None \<Rightarrow> [] | Some n \<Rightarrow> [n]) terms);
          first = (case found of [] \<Rightarrow> 0 | n # ns \<Rightarrow> fold min ns n)
      in py_join '' '' (py_split (take 320 (drop (first - 80) body))))"

definition repo_revision :: "jdict list \<Rightarrow> jdict \<Rightarrow> string" where
  "repo_revision refs shas =
     (case List.find (\<lambda>r. row_text r ''commit_sha'' \<noteq> []) refs of
        Some r \<Rightarrow> row_text r ''commit_sha''
      | None \<Rightarrow> (case List.find truthy (map snd shas) of Some v \<Rightarrow> py_str v | None \<Rightarrow> []))"

subsection \<open>The search\<close>

definition rank_rows ::
  "(string \<Rightarrow> json option) \<Rightarrow> string list \<Rightarrow> bool \<Rightarrow> jdict list \<Rightarrow> (rat \<times> jdict) list" where
  "rank_rows loads terms everything rows =
     py_sort True (\<lambda>(score, row). (score, str_or_empty (jget row ''quality_score'')))
       (filter (\<lambda>(score, row). 0 < score
           \<and> (everything \<or> is_authoritative (row_text row ''review_status'') (row_text row ''authority'')))
         (map (\<lambda>row. (score_row loads row terms, row)) rows))"

definition result_of_row ::
  "(string \<Rightarrow> json option) \<Rightarrow> knowledge_export \<Rightarrow> string list \<Rightarrow> rat \<times> jdict \<Rightarrow> search_result" where
  "result_of_row loads x terms ranked = (case ranked of (score, row) \<Rightarrow>
     let doc_id = row_text row ''id''; body = row_text row ''body'' in
     \<lparr>sr_citation = \<lparr>kc_doc_id = doc_id, kc_doc_path = row_text row ''path'',
        kc_review_status = row_text row ''review_status'', kc_authority = row_text row ''authority'',
        kc_section = best_section body terms, kc_repo_revision = repo_revision (source_refs_of x doc_id) (ke_source_shas x),
        kc_export_version = ke_export_version x, kc_score = score\<rparr>,
      sr_title = row_text row ''title'', sr_description = row_text row ''description'',
      sr_snippet = snippet body terms, sr_tags = parse_tags loads (jget row ''tags_json'')\<rparr>)"

definition search ::
  "(string \<Rightarrow> json option) \<Rightarrow> knowledge_export \<Rightarrow> string \<Rightarrow> int \<Rightarrow> bool \<Rightarrow> exn + search_result list" where
  "search loads x query limit everything =
     (let terms = query_terms query in
      if terms = [] then Inr []
      else case load_concepts x of Inl e \<Rightarrow> Inl e
        | Inr rows \<Rightarrow> Inr (map (result_of_row loads x terms)
            (take (nat limit) (rank_rows loads terms everything rows))))"

subsection \<open>The context of a case\<close>

definition context_keys :: "string list" where
  "context_keys = [''fingerprint'', ''rule_id'', ''detector'', ''resource'', ''entity'', ''site'', ''customer'', ''service'',
     ''severity'', ''summary'', ''title'', ''event_type'', ''root_cause_hypothesis'']"

text \<open>The symptoms are a list in what \<open>case_to_knowledge_context\<close> builds.\<close>

definition context_query :: "jdict \<Rightarrow> string" where
  "context_query d = py_join '' ''
     (map (\<lambda>k. py_str (jget d k)) (filter (\<lambda>k. truthy (jget d k)) context_keys)
      @ (case jget d ''symptoms'' of JList vs \<Rightarrow> map py_str vs | _ \<Rightarrow> []))"

definition search_case_context ::
  "(string \<Rightarrow> json option) \<Rightarrow> knowledge_export \<Rightarrow> jdict \<Rightarrow> int \<Rightarrow> bool \<Rightarrow> exn + search_result list" where
  "search_case_context loads x d limit everything = search loads x (context_query d) limit everything"

fun meta_event_type_str :: "meta_event_type \<Rightarrow> string" where
  "meta_event_type_str ME_router_down = ''router_down''"
| "meta_event_type_str ME_link_failure = ''link_failure''"
| "meta_event_type_str ME_routing_reconvergence = ''routing_reconvergence''"
| "meta_event_type_str ME_monitoring_failure = ''monitoring_failure''"
| "meta_event_type_str ME_power_event = ''power_event''"
| "meta_event_type_str ME_unknown = ''unknown''"

definition case_to_knowledge_context :: "case_projection \<Rightarrow> jdict" where
  "case_to_knowledge_context p = (case p of
     Atomic c \<Rightarrow>
       [(''fingerprint'', JStr (ac_fingerprint c)), (''rule_id'', JStr (ac_rule_id c)),
        (''detector'', JStr (ac_detector c)), (''resource'', JStr (ac_resource_id c)), (''site'', JStr (ac_site c)),
        (''customer'', JStr (ac_customer c)), (''service'', JStr (ac_service c)),
        (''severity'', JStr (severity_str (ac_severity c))), (''summary'', JStr (ac_summary c)),
        (''title'', JStr (ac_title c)),
        (''symptoms'', JList [jget (ac_signal_snapshot c) ''summary'', jget (ac_signal_snapshot c) ''title''])]
   | Meta m \<Rightarrow>
       [(''fingerprint'', JStr (mc_event_fingerprint m)), (''event_type'', JStr (meta_event_type_str (mc_event_type m))),
        (''resource'', JStr (mc_suspected_primary_entity m)), (''site'', JStr (mc_suspected_site m)),
        (''customer'', JStr (mc_suspected_customer m)), (''service'', JStr (mc_suspected_service m)),
        (''summary'', JStr (mc_summary m)), (''title'', JStr (mc_title m)),
        (''root_cause_hypothesis'', JStr (mc_root_cause_hypothesis m)),
        (''symptoms'', JList (map JStr (mc_blast_radius_summary m # mc_affected_entities m @ mc_affected_services m)))])"

definition retrieve_case_knowledge ::
  "(string \<Rightarrow> json option) \<Rightarrow> knowledge_export \<Rightarrow> case_projection \<Rightarrow> int \<Rightarrow> bool \<Rightarrow> exn + search_result list" where
  "retrieve_case_knowledge loads x p limit everything =
     search_case_context loads x (case_to_knowledge_context p) limit everything"

section \<open>What a retrieval cites\<close>

text \<open>Terms are never empty, so every result matches one of them somewhere.\<close>

definition matches_query :: "(string \<Rightarrow> json option) \<Rightarrow> jdict list \<Rightarrow> string list \<Rightarrow> search_result \<Rightarrow> bool" where
  "matches_query loads rows terms r \<longleftrightarrow> list_ex (\<lambda>row. 0 < score_row loads row terms
     \<and> kc_score (sr_citation r) = score_row loads row terms
     \<and> kc_doc_id (sr_citation r) = row_text row ''id'') rows"

definition ranked_down :: "search_result list \<Rightarrow> bool" where
  "ranked_down rs \<longleftrightarrow> sorted (rev (map (\<lambda>r. kc_score (sr_citation r)) rs))"

lemma sorted_fst:
  fixes ps :: "('a :: linorder \<times> 'b :: linorder) list"
  shows "sorted ps \<Longrightarrow> sorted (map fst ps)"
  by (induction ps) (fastforce simp: less_eq_prod_def)+

lemma ranked_rows_sorted:
  "sorted (rev (map fst (rank_rows loads terms everything rows)))"
proof -
  let ?k = "\<lambda>(score, row). (score, str_or_empty (jget row ''quality_score''))"
  let ?xs = "filter (\<lambda>(score, row). 0 < score
      \<and> (everything \<or> is_authoritative (row_text row ''review_status'') (row_text row ''authority'')))
    (map (\<lambda>row. (score_row loads row terms, row)) rows)"
  have eq: "map fst (map ?k ys) = map fst ys" for ys :: "(rat \<times> jdict) list" by (induction ys) auto
  show ?thesis
    using sorted_fst[OF sorted_py_sort_rev[of ?k ?xs]] unfolding eq rank_rows_def rev_map .
qed

lemma sorted_rev_take: "sorted (rev xs) \<Longrightarrow> sorted (rev (take n xs))"
  by (metis append_take_drop_id rev_append sorted_append)

lemma result_citation [simp]:
  "kc_score (sr_citation (result_of_row loads x terms (score, row))) = score"
  "kc_doc_id (sr_citation (result_of_row loads x terms (score, row))) = row_text row ''id''"
  "kc_review_status (sr_citation (result_of_row loads x terms (score, row))) = row_text row ''review_status''"
  "kc_authority (sr_citation (result_of_row loads x terms (score, row))) = row_text row ''authority''"
  by (simp_all add: result_of_row_def Let_def)

lemma result_score: "kc_score (sr_citation (result_of_row loads x terms p)) = fst p"
  by (cases p) simp

lemma ranked_rows_from:
  "p \<in> set (rank_rows loads terms everything rows) \<Longrightarrow>
    0 < fst p \<and> fst p = score_row loads (snd p) terms \<and> snd p \<in> set rows
    \<and> (everything \<or> is_authoritative (row_text (snd p) ''review_status'') (row_text (snd p) ''authority''))"
  by (auto simp: rank_rows_def set_py_sort)

lemma searched_rows:
  assumes "search loads x query limit everything = Inr rs"
  shows "rs = [] \<or> (\<exists>rows. ke_concepts x = Some rows \<and>
    rs = map (result_of_row loads x (query_terms query))
      (take (nat limit) (rank_rows loads (query_terms query) everything rows)))"
  using assms by (auto simp: search_def load_concepts_def Let_def split: option.splits if_splits)

lemma searched_authoritative:
  assumes "search loads x query limit False = Inr rs" "r \<in> set rs"
  shows "is_authoritative (kc_review_status (sr_citation r)) (kc_authority (sr_citation r))"
proof -
  obtain rows where "rs = map (result_of_row loads x (query_terms query))
      (take (nat limit) (rank_rows loads (query_terms query) False rows))"
    using searched_rows[OF assms(1)] assms(2) by auto
  with assms(2) obtain p where r: "r = result_of_row loads x (query_terms query) p"
    and p: "p \<in> set (rank_rows loads (query_terms query) False rows)"
    by (metis (no_types, lifting) image_iff in_set_takeD set_map)
  show ?thesis using ranked_rows_from[OF p] by (cases p) (simp add: r)
qed

lemma searched_length: "search loads x query limit everything = Inr rs \<Longrightarrow> length rs \<le> nat limit"
  by (drule searched_rows) auto

text \<open>
  A search cites approved and authoritative knowledge only, unless it is asked for everything: every result carries a
  review status and an authority of the two lists; each comes from a row of the export that matches the terms of
  the query, with that row's score; there are no more of them than asked for, and they come with falling scores.
\<close>

theorem search_cites_authority:
  assumes "search loads x query limit False = Inr rs"
  shows "list_all (\<lambda>r. is_authoritative (kc_review_status (sr_citation r)) (kc_authority (sr_citation r))) rs
    \<and> (rs = [] \<or> (\<exists>rows. ke_concepts x = Some rows \<and> list_all (matches_query loads rows (query_terms query)) rs))
    \<and> length rs \<le> nat limit \<and> ranked_down rs"
proof (cases "rs = []")
  case True
  then show ?thesis by (simp add: ranked_down_def)
next
  case False
  then obtain rows where rows: "ke_concepts x = Some rows"
    and rs: "rs = map (result_of_row loads x (query_terms query))
      (take (nat limit) (rank_rows loads (query_terms query) False rows))"
    using searched_rows[OF assms] by auto
  have "ranked_down rs"
    using sorted_rev_take[OF ranked_rows_sorted, of "nat limit" loads "query_terms query" False rows]
    by (simp add: ranked_down_def rs comp_def result_score take_map)
  moreover have "list_all (matches_query loads rows (query_terms query)) rs"
    using ranked_rows_from[of _ loads "query_terms query" False rows]
    by (fastforce simp: rs list_all_iff list_ex_iff matches_query_def dest: in_set_takeD)
  ultimately show ?thesis
    using rows searched_authoritative[OF assms] searched_length[OF assms] by (auto simp: list_all_iff)
qed

definition sample_export :: knowledge_export where
  "sample_export = export_of_manifest (Some
     [[(''id'', JStr ''d1''), (''title'', JStr ''BGP flap''), (''review_status'', JStr ''approved''), (''authority'', JStr ''A1'')],
      [(''id'', JStr ''d2''), (''title'', JStr ''bgp bgp''), (''review_status'', JStr ''proposed''), (''authority'', JStr ''A4'')]])
     None 7 None"

lemma sample_search:
  "map_sum id (map (\<lambda>r. kc_doc_id (sr_citation r))) (search (\<lambda>_. None) sample_export ''bgp'' 5 False) = Inr [''d1'']"
  by code_simp

theorem search_cites_authority_witness:
  "\<exists>rs. search (\<lambda>_. None) sample_export ''bgp'' 5 False = Inr rs \<and> map (\<lambda>r. kc_doc_id (sr_citation r)) rs = [''d1'']
    \<and> list_all (\<lambda>r. is_authoritative (kc_review_status (sr_citation r)) (kc_authority (sr_citation r))) rs"
proof (cases "search (\<lambda>_. None) sample_export ''bgp'' 5 False")
  case (Inl e)
  with sample_search show ?thesis by simp
next
  case (Inr rs)
  with sample_search search_cites_authority[OF Inr] show ?thesis by auto
qed

text \<open>
  A case whose snapshot names no summary and no title is searched for with the word none, twice: the missing values are
  printed as \<open>None\<close> and become terms of the query.
\<close>

theorem missing_symptoms_are_searched:
  assumes "ac_signal_snapshot c = []"
  shows "jget (case_to_knowledge_context (Atomic c)) ''symptoms'' = JList [JNull, JNull]"
    "query_terms (context_query [(''symptoms'', JList [JNull, JNull])]) = [''none'', ''none'']"
  using assms by (simp_all add: case_to_knowledge_context_def jget_def) code_simp

end
