(* ===== verification/Promotion.thy ===== *)
theory Promotion
  imports Retrieval Handlers
begin

section \<open>Lesson candidates (app/knowledge/promotion.py, outbox.py)\<close>

text \<open>
  The review-gated learning event of a case: its texts are redacted, it is rendered to JSON and refused when a forbidden
  marker is left, and a handler of the outbox writes it to a file. The directory for the files is an argument.
\<close>

subsection \<open>Redaction\<close>

definition forbidden_data_classes :: "string list" where
  "forbidden_data_classes = [''credential'', ''live_trace'', ''packet_capture'', ''raw_log'', ''secret'']"

definition candidate_markers :: "string list" where
  "candidate_markers =
     [''secret_value'', ''authorization:'', ''bearer '', ''packet_capture'', ''raw_log'', ''credential'']"

definition redaction :: string where
  "redaction = ''[redacted]''"

text \<open>
  \<open>str.lower\<close>, given what it makes of a character: the lower case of a character may have more than one
  (that of U+0130 has two), and then the positions in the lowered text are not those in the text.
\<close>

definition lowered :: "(char \<Rightarrow> string) \<Rightarrow> string \<Rightarrow> string" where
  "lowered low s = concat (map low s)"

text \<open>
  The inner loop of \<open>_redact\<close>: it takes the position of the marker in the lowered text, cuts the text itself there, and
  looks again from the start after each replacement. It may not end.
\<close>

partial_function (option) redact_marker ::
  "(char \<Rightarrow> string) \<Rightarrow> string \<Rightarrow> string \<Rightarrow> string option" where
  "redact_marker low m s = (case find_sub m (lowered low s) of
     None \<Rightarrow> Some s
   | Some n \<Rightarrow> redact_marker low m (take n s @ redaction @ drop (n + length m) s))"

declare redact_marker.simps [code]

primrec redact_markers :: "(char \<Rightarrow> string) \<Rightarrow> string list \<Rightarrow> string \<Rightarrow> string option" where
  "redact_markers low [] s = Some s"
| "redact_markers low (m # ms) s = Option.bind (redact_marker low m s) (redact_markers low ms)"

definition redact_loop :: "(char \<Rightarrow> string) \<Rightarrow> string \<Rightarrow> string option" where
  "redact_loop low s = map_option (\<lambda>r. or_str (py_strip r) ''sanitized NOC learning candidate'')
     (redact_markers low candidate_markers s)"

text \<open>The characters of the model have a lower case of one character each.\<close>

definition single_lower :: "char \<Rightarrow> string" where
  "single_lower c = [lower_char c]"

definition redact :: "string \<Rightarrow> string" where
  "redact s = the (redact_loop single_lower s)"

subsection \<open>The parts of an event\<close>

datatype citation = Cited knowledge_citation | Cited_dict jdict

definition given_value :: "jdict \<Rightarrow> string \<Rightarrow> json \<Rightarrow> json" where
  "given_value d k v = (case dict_get d k of Some x \<Rightarrow> x | None \<Rightarrow> v)"

definition named_item :: "string \<Rightarrow> string \<Rightarrow> jdict" where
  "named_item k v = (if v = [] then [] else [(k, JStr v)])"

definition candidate_citation :: "citation \<Rightarrow> jdict" where
  "candidate_citation x = (case x of
     Cited c \<Rightarrow> [(''concept_id'', JStr (kc_doc_id c)), (''source_uri'', JStr (kc_doc_path c))]
   | Cited_dict d \<Rightarrow>
       named_item ''concept_id'' (str_or_empty (or_json (jget d ''concept_id'') (jget d ''doc_id'')))
       @ named_item ''source_uri'' (str_or_empty (or_json (jget d ''source_uri'') (jget d ''doc_path''))))"

definition candidate_citations :: "string \<Rightarrow> citation list \<Rightarrow> json list" where
  "candidate_citations cid xs =
     map JDict ([(''source_uri'', JStr (''noc-case:'' @ cid))] # filter (\<lambda>d. d \<noteq> []) (map candidate_citation xs))"

definition proj_id :: "case_projection \<Rightarrow> string" where
  "proj_id p = (case p of Atomic c \<Rightarrow> ac_case_id c | Meta m \<Rightarrow> mc_case_id m)"

definition proj_status :: "case_projection \<Rightarrow> case_status" where
  "proj_status p = (case p of Atomic c \<Rightarrow> ac_status c | Meta m \<Rightarrow> mc_status m)"

definition case_source :: "case_projection \<Rightarrow> jdict" where
  "case_source p =
     [(''case_id'', JStr (proj_id p)), (''case_kind'', JStr (proj_kind p)),
      (''status'', JStr (case_status_str (proj_status p)))]
     @ (case p of
          Atomic c \<Rightarrow>
            [(''case_number'', JStr (ac_case_number c)), (''fingerprint'', JStr (ac_fingerprint c)),
             (''rule_id'', JStr (ac_rule_id c)), (''detector'', JStr (ac_detector c)),
             (''resource_id'', JStr (ac_resource_id c)), (''resolution_reason'', JStr (ac_resolution_reason c))]
        | Meta m \<Rightarrow>
            [(''event_fingerprint'', JStr (mc_event_fingerprint m)),
             (''event_type'', JStr (meta_event_type_str (mc_event_type m))),
             (''child_case_ids'', JList (map JStr (mc_child_case_ids m))),
             (''resolution_reason'', JStr (mc_resolution_reason m)),
             (''correlation_quality'', JStr (mc_final_correlation_quality_label m))])"

definition case_subject :: "case_projection \<Rightarrow> string" where
  "case_subject p = ''noc_case:'' @ proj_id p"

definition case_summary :: "case_projection \<Rightarrow> string" where
  "case_summary p = (case p of
     Atomic c \<Rightarrow> or_str (ac_title c) (ac_case_id c) @ '': '' @
       or_str (ac_summary c) (or_str (ac_resolution_reason c) ''case outcome'')
   | Meta m \<Rightarrow> or_str (mc_title m) (mc_case_id m) @ '': '' @
       or_str (mc_summary m) (or_str (mc_resolution_reason m) ''case outcome''))"

definition default_lesson :: "case_projection \<Rightarrow> string" where
  "default_lesson p = (case p of
     Meta m \<Rightarrow> redact (''Review meta-case '' @ mc_case_id m @ '' for reusable storm-correlation guidance: '' @
       or_str (mc_blast_radius_summary m) (mc_summary m))
   | Atomic c \<Rightarrow> redact (''Review case '' @ ac_case_id c @ '' for reusable runbook or suppression guidance: '' @
       or_str (ac_summary c) (ac_title c)))"

definition event_timeline_item :: "case_event \<Rightarrow> json" where
  "event_timeline_item e = JDict
     [(''event_id'', JStr (ev_event_id e)), (''event_type'', JStr (ev_event_type e)),
      (''occurred_at'', JStr (ev_occurred_at e)), (''observed_at'', JStr (ev_observed_at e))]"

text \<open>\<open>json.dumps(v, sort_keys=True)\<close> with its default separators\<close>

fun json_spaced :: "json \<Rightarrow> string" where
  "json_spaced (JList vs) = ''['' @ py_join '', '' (map json_spaced vs) @ '']''"
| "json_spaced (JDict d) =
     ''{'' @ py_join '', '' (map (\<lambda>(k, v). json_str k @ '': '' @ json_spaced v) d) @ ''}''"
| "json_spaced v = json_render v"

definition json_dumps_spaced :: "json \<Rightarrow> string" where
  "json_dumps_spaced v = concat (map ascii_char (json_spaced (sort_keys v)))"

definition leaked_markers :: "jdict \<Rightarrow> string list" where
  "leaked_markers event =
     filter (\<lambda>m. str_in m (py_lower (json_dumps_spaced (JDict event)))) candidate_markers"

definition assert_no_forbidden_text :: "jdict \<Rightarrow> exn + unit" where
  "assert_no_forbidden_text event =
     (if leaked_markers event = [] then Inr ()
      else Inl (ValueError (''knowledge candidate contains forbidden text markers: '' @
        py_join '', '' (py_sort False (\<lambda>m. m) (leaked_markers event)))))"

subsection \<open>The event\<close>

record lesson_request =
  lr_case :: case_projection
  lr_events :: "case_event list"
  lr_citations :: "citation list"
  lr_lessons :: "string list"
  lr_producer :: string
  lr_data_classes :: "string list"
  lr_target :: string
  lr_event_id :: "string option"

definition lesson_request_of :: "case_projection \<Rightarrow> lesson_request" where
  "lesson_request_of p = \<lparr>lr_case = p, lr_events = [], lr_citations = [], lr_lessons = [],
     lr_producer = ''noc_shadow'', lr_data_classes = [''sanitized_case_summary''],
     lr_target = ''okf/observed/noc-agent'', lr_event_id = None\<rparr>"

definition case_metrics :: "lesson_request \<Rightarrow> jdict" where
  "case_metrics r =
     [(''case_event_count'', JInt (int (length (lr_events r)))),
      (''trace_count'', JInt (int (length (case lr_case r of Atomic c \<Rightarrow> ac_trace_ids c | Meta m \<Rightarrow> mc_trace_ids m)))),
      (''knowledge_citation_count'', JInt (int (length (lr_citations r)))), (''review_required'', JBool True)]"

definition case_metadata :: "lesson_request \<Rightarrow> jdict" where
  "case_metadata r =
     [(''case_kind'', JStr (proj_kind (lr_case r))),
      (''case_status'', JStr (case_status_str (proj_status (lr_case r)))),
      (''timeline'', JList (map event_timeline_item (drop (length (lr_events r) - 20) (lr_events r)))),
      (''schema_note'', JStr ''candidate only; human review required before OKF promotion'')]"

definition lesson_event :: "lesson_request \<Rightarrow> string \<Rightarrow> string \<Rightarrow> jdict" where
  "lesson_event r event_id event_time =
     [(''id'', JStr event_id), (''ledger_version'', JStr ''learning_ledger_v1''),
      (''event_type'', JStr ''lesson_candidate''), (''event_time'', JStr event_time),
      (''producer'', JStr (lr_producer r)), (''subject'', JStr (case_subject (lr_case r))),
      (''summary'', JStr (redact (case_summary (lr_case r)))), (''status'', JStr ''proposed''),
      (''authority_tier'', JStr ''A4''), (''source'', JDict (case_source (lr_case r))),
      (''data_classes'', JList (map JStr (lr_data_classes r))),
      (''citations'', JList (candidate_citations (proj_id (lr_case r)) (lr_citations r))),
      (''context_pack_ids'', JList []), (''policy_decision_ids'', JList []),
      (''eval_case_ids'', JList (map JStr
         (case lr_case r of Atomic c \<Rightarrow> ac_feedback_ids c | Meta m \<Rightarrow> mc_feedback_ids m))),
      (''metrics'', JDict (case_metrics r)),
      (''lessons'', JList (map JStr
         (if lr_lessons r = [] then [default_lesson (lr_case r)] else map redact (lr_lessons r)))),
      (''promotion'', JDict [(''review_required'', JBool True), (''target'', JStr (lr_target r))]),
      (''metadata'', JDict (case_metadata r))]"

definition denied_classes :: "lesson_request \<Rightarrow> string list" where
  "denied_classes r = filter (\<lambda>c. c \<in> set (lr_data_classes r)) forbidden_data_classes"

definition build_lesson_candidate_event :: "lesson_request \<Rightarrow> jdict st" where
  "build_lesson_candidate_event r =
     (if denied_classes r \<noteq> [] then
        raiseM (ValueError (''forbidden data classes for knowledge candidate: '' @ py_join '', '' (denied_classes r)))
      else
        bindM (if opt_truthy (lr_event_id r) then retM (the (lr_event_id r))
               else bindM uuid4_hex (\<lambda>h. retM (''learn_'' @ h))) (\<lambda>event_id.
        bindM utc_now (\<lambda>now.
        let event = lesson_event r event_id now in
        seqM (liftM (assert_no_forbidden_text event)) (retM event))))"

subsection \<open>The file and the handler\<close>

text \<open>
  Where candidates go: \<open>Path(output_dir)\<close> as text, whether it is a directory, and the call that writes an event to a
  path, which may fail.
\<close>

record candidate_dir =
  cd_path :: string
  cd_is_dir :: bool
  cd_write :: "string \<Rightarrow> jdict \<Rightarrow> unit st"

definition candidate_path :: "candidate_dir \<Rightarrow> string \<Rightarrow> string" where
  "candidate_path cd event_id = (if cd_is_dir cd then cd_path cd @ ''/'' @ event_id @ ''.json'' else cd_path cd)"

definition write_lesson_candidate_event :: "candidate_dir \<Rightarrow> jdict \<Rightarrow> string st" where
  "write_lesson_candidate_event cd event =
     (let path = candidate_path cd (py_str (jget event ''id'')) in
      seqM (cd_write cd path event) (retM path))"

text \<open>\<open>for item in v\<close>: characters of a text, keys of a dictionary.\<close>

definition iterate_json :: "json \<Rightarrow> exn + json list" where
  "iterate_json v = (case v of
     JList vs \<Rightarrow> Inr vs
   | JStr s \<Rightarrow> Inr (map (\<lambda>c. JStr [c]) s)
   | JDict d \<Rightarrow> Inr (map JStr (dict_keys d))
   | _ \<Rightarrow> Inl (TypeError ''object is not iterable''))"

definition case_target :: "outbox_intent \<Rightarrow> string" where
  "case_target i = (if opt_truthy (ob_case_id i) then the (ob_case_id i)
     else case ob_meta_case_id i of Some m \<Rightarrow> m | None \<Rightarrow> [])"

definition knowledge_candidate_handler :: "candidate_dir \<Rightarrow> outbox_handler" where
  "knowledge_candidate_handler cd i =
     (if case_target i = [] then
        raiseM (ValueError ''knowledge candidate intent requires case_id or meta_case_id'')
      else
        bindM (get_case (case_target i)) (\<lambda>found. case found of
          None \<Rightarrow> raiseM (KeyError (''case not found for knowledge candidate: '' @ case_target i))
        | Some p \<Rightarrow>
            bindM (case_events (case_target i) None False) (\<lambda>events.
            bindM (liftM (iterate_json (given_value (ob_payload i) ''lessons'' (JList [])))) (\<lambda>lessons.
            bindM (build_lesson_candidate_event ((lesson_request_of p)\<lparr>lr_events := events,
              lr_lessons := map py_str lessons,
              lr_target := py_str (or_json (jget (ob_payload i) ''target'') (JStr ''okf/observed/noc-agent''))\<rparr>))
              (\<lambda>event.
            bindM (write_lesson_candidate_event cd event) (\<lambda>path.
            retM (Some (blank_result\<lparr>hx_external_id := py_str (jget event ''id''), hx_external_url := path,
              hx_payload_updates := [(''learning_event_id'', jget event ''id'')]\<rparr>))))))))"

section \<open>What the redaction guarantees\<close>

text \<open>
  The loop of \<open>_redact\<close> is compared with one pass over the text, which shows that it ends, and that no marker is left in
  either case of letters, where every character of the text has a lower case of one character. Where one has two, the
  loop may run for ever.
\<close>

subsection \<open>One pass over the text\<close>

lemma find_sub_bound: "find_sub m s = Some n \<Longrightarrow> n + length m \<le> length s"
proof (induction s arbitrary: n)
  case Nil
  then show ?case by (auto split: if_splits)
next
  case (Cons c s)
  show ?case
  proof (cases "starts_with m (c # s)")
    case True
    then have "length m \<le> length (c # s)" by (metis linear starts_with_def take_all_iff)
    with Cons True show ?thesis by simp
  next
    case False
    with Cons show ?thesis by auto
  qed
qed

text \<open>Every character has a lower case of one character.\<close>

definition plain :: "(char \<Rightarrow> string) \<Rightarrow> string \<Rightarrow> bool" where
  "plain low s \<longleftrightarrow> list_all (\<lambda>c. length (low c) = 1) s"

lemma plain_simps [simp]: "plain low []" "plain low (c # s) \<longleftrightarrow> length (low c) = 1 \<and> plain low s"
  "plain low (a @ b) \<longleftrightarrow> plain low a \<and> plain low b"
  by (simp_all add: plain_def)

lemma lowered_simps [simp]: "lowered low [] = []" "lowered low (c # s) = low c @ lowered low s"
  by (simp_all add: lowered_def)

lemma lower_append: "lowered low (a @ b) = lowered low a @ lowered low b"
  by (simp add: lowered_def)

lemma length_lowered: "plain low s \<Longrightarrow> length (lowered low s) = length s"
  by (induction s) simp_all

lemma lower_take_drop:
  assumes "plain low s"
  shows "lowered low (take n s) = take n (lowered low s)" "lowered low (drop n s) = drop n (lowered low s)"
proof -
  have "lowered low (take n s) = take n (lowered low s) \<and> lowered low (drop n s) = drop n (lowered low s)"
    using assms
  proof (induction s arbitrary: n)
    case (Cons c s)
    then show ?case by (cases n) (simp_all add: take_Cons' drop_Cons')
  qed simp
  then show "lowered low (take n s) = take n (lowered low s)" "lowered low (drop n s) = drop n (lowered low s)" by simp_all
qed

lemma plain_take_drop: "plain low s \<Longrightarrow> plain low (take n s)" "plain low s \<Longrightarrow> plain low (drop n s)"
  unfolding plain_def list_all_iff by (meson in_set_takeD in_set_dropD)+

lemma lowered_single: "lowered single_lower s = py_lower s" "plain single_lower s"
  by (induction s) (simp_all add: single_lower_def py_lower_def)

text \<open>One pass from left to right: each occurrence is replaced, and the search goes on behind it.\<close>

function redact_all :: "(char \<Rightarrow> string) \<Rightarrow> string \<Rightarrow> string \<Rightarrow> string" where
  "redact_all low m s = (case find_sub m (lowered low s) of
     None \<Rightarrow> s
   | Some n \<Rightarrow> if m = [] then s else take n s @ redaction @ redact_all low m (drop (n + length m) s))"
  by pat_completeness auto

termination
proof (relation "measure (\<lambda>(low, m, s). length s)")
  fix low m s n
  assume "find_sub m (lowered low s) = Some n" "m \<noteq> []"
  from find_sub_bound[OF this(1)] this(2) have "s \<noteq> []" "0 < n + length m" by auto
  then show "((low, m, drop (n + length m) s), low, m, s) \<in> measure (\<lambda>(low, m, s). length s)" by simp
qed simp

declare redact_all.simps [simp del]

text \<open>A marker the replacement cannot be part of.\<close>

definition good_marker :: "string \<Rightarrow> bool" where
  "good_marker m \<longleftrightarrow>
     m \<noteq> [] \<and> CHR ''['' \<notin> set m \<and> CHR '']'' \<notin> set m \<and> find_sub m ''redacted'' = None"

definition unmarked :: "(char \<Rightarrow> string) \<Rightarrow> string \<Rightarrow> string \<Rightarrow> bool" where
  "unmarked low m s \<longleftrightarrow> find_sub m (lowered low s) = None"

text \<open>The case map leaves the ASCII characters to the one of ASCII, as Python's does.\<close>

definition ascii_lower :: "(char \<Rightarrow> string) \<Rightarrow> bool" where
  "ascii_lower low \<longleftrightarrow> (\<forall>c. code c < 128 \<longrightarrow> low c = [lower_char c])"

lemma ascii_lowered:
  "ascii_lower low \<Longrightarrow> list_all (\<lambda>c. code c < 128) s \<Longrightarrow> lowered low s = py_lower s \<and> plain low s"
  by (induction s) (auto simp: ascii_lower_def py_lower_def)

lemma redaction_text: "ascii_lower low \<Longrightarrow> lowered low redaction = redaction" "length redaction = 10"
    "ascii_lower low \<Longrightarrow> plain low redaction"
    "redaction @ b = CHR ''['' # (''redacted'' @ CHR '']'' # b)"
proof -
  have a: "list_all (\<lambda>c. code c < 128) redaction" "py_lower redaction = redaction" by code_simp+
  show "ascii_lower low \<Longrightarrow> lowered low redaction = redaction" "ascii_lower low \<Longrightarrow> plain low redaction"
    using ascii_lowered[OF _ a(1)] a(2) by simp_all
qed (simp_all add: redaction_def)

subsection \<open>Searching across a character that is not in the marker\<close>

lemma starts_with_cut: "c \<notin> set m \<Longrightarrow> starts_with m (a @ c # b) \<Longrightarrow> starts_with m a"
proof -
  assume c: "c \<notin> set m" and s: "starts_with m (a @ c # b)"
  show "starts_with m a"
  proof (cases "length m \<le> length a")
    case True
    with s show ?thesis by (simp add: starts_with_def)
  next
    case False
    then have "c \<in> set (take (length m) (a @ c # b))" by (simp add: take_Cons')
    with c s show ?thesis by (simp add: starts_with_def)
  qed
qed

lemma starts_with_append: "starts_with m a \<Longrightarrow> starts_with m (a @ b)"
  by (auto simp: starts_with_def) (metis append_take_drop_id length_take min.absorb2 nat_le_linear
    take_all_iff append_Nil2 diff_is_0_eq' take0 take_append)

lemma find_sub_cut:
  assumes "c \<notin> set m" "m \<noteq> []" "find_sub m a = None"
  shows "find_sub m (a @ c # b) = map_option ((+) (Suc (length a))) (find_sub m b)"
  using assms(3)
proof (induction a)
  case Nil
  have "\<not> starts_with m (c # b)" using assms(1,2) by (cases m) (auto simp: starts_with_def)
  then show ?case by (cases "find_sub m b") simp_all
next
  case (Cons x a)
  from Cons.prems have "\<not> starts_with m (x # a)" "find_sub m a = None" by (auto split: if_splits)
  moreover have "\<not> starts_with m (x # a @ c # b)"
    using starts_with_cut[of c m "x # a" b] assms(1) calculation by auto
  ultimately show ?case using Cons.IH by (cases "find_sub m b") simp_all
qed

lemma find_sub_before: "find_sub m s = Some n \<Longrightarrow> m \<noteq> [] \<Longrightarrow> find_sub m (take n s) = None"
proof (induction s arbitrary: n)
  case Nil
  then show ?case by simp
next
  case (Cons c s)
  show ?case
  proof (cases "starts_with m (c # s)")
    case True
    with Cons show ?thesis by simp
  next
    case False
    with Cons.prems obtain k where k: "n = Suc k" "find_sub m s = Some k" by auto
    have "\<not> starts_with m (c # take k s)"
      using False starts_with_append[of m "c # take k s" "drop k s"] by auto
    with k Cons show ?thesis by simp
  qed
qed

lemma find_sub_take: "find_sub m s = None \<Longrightarrow> m \<noteq> [] \<Longrightarrow> find_sub m (take n s) = None"
proof (induction s arbitrary: n)
  case (Cons c s)
  then have no: "\<not> starts_with m (c # s)" "find_sub m s = None" by (auto split: if_splits)
  show ?case
  proof (cases n)
    case (Suc k)
    have "\<not> starts_with m (c # take k s)"
      using no starts_with_append[of m "c # take k s" "drop k s"] by auto
    with Suc no Cons show ?thesis by simp
  qed (use Cons in simp)
qed simp

lemma find_sub_drop: "find_sub m s = None \<Longrightarrow> find_sub m (drop n s) = None"
  by (induction s arbitrary: n) (auto simp: drop_Cons' split: if_splits)

lemma find_sub_boxed:
  assumes "CHR ''['' \<notin> set m" "CHR '']'' \<notin> set m" "m \<noteq> []" "find_sub m a = None" "find_sub m w = None"
  shows "find_sub m (a @ CHR ''['' # (w @ CHR '']'' # b)) = map_option ((+) (length a + (length w + 2))) (find_sub m b)"
  using assms by (cases "find_sub m b") (simp_all add: find_sub_cut)

lemma find_sub_inserted:
  assumes "good_marker m" "find_sub m a = None"
  shows "find_sub m (a @ redaction @ b) = map_option ((+) (length a + 10)) (find_sub m b)"
proof -
  have w: "length ''redacted'' + 2 = 10" by simp
  have g: "m \<noteq> []" "CHR ''['' \<notin> set m" "CHR '']'' \<notin> set m" "find_sub m ''redacted'' = None"
    using assms(1) unfolding good_marker_def by iprover+
  from find_sub_boxed[OF g(2,3,1) assms(2) g(4), where b = b, unfolded w] show ?thesis
    unfolding redaction_text(4) .
qed

subsection \<open>The loop is one pass\<close>

text \<open>What the loop has behind it: nothing to find, and no marker that could begin there.\<close>

definition done_with :: "(char \<Rightarrow> string) \<Rightarrow> string \<Rightarrow> string \<Rightarrow> bool" where
  "done_with low m p \<longleftrightarrow> plain low p \<and>
     (\<forall>b. find_sub m (lowered low (p @ b)) = map_option ((+) (length p)) (find_sub m (lowered low b)))"

lemma done_with_Nil: "done_with low m []"
  by (auto simp: done_with_def option.map_id map_option_idI)

lemma done_with_step:
  assumes "good_marker m" "ascii_lower low" "plain low s" "done_with low m p" "find_sub m (lowered low s) = Some n"
  shows "done_with low m (p @ take n s @ redaction)"
proof -
  have m: "m \<noteq> []" using assms(1) by (simp add: good_marker_def)
  have p: "plain low p" and t: "plain low (take n s)"
    using assms(3,4) by (simp_all add: done_with_def plain_take_drop)
  have none: "find_sub m (lowered low p @ lowered low (take n s)) = None"
    using assms(4)[unfolded done_with_def, THEN conjunct2, rule_format, of "take n s"] find_sub_before[OF assms(5) m]
    by (simp add: lower_append lower_take_drop[OF assms(3)])
  show ?thesis
    unfolding done_with_def
    using find_sub_inserted[OF assms(1) none] p t redaction_text(1)[OF assms(2)] redaction_text(3)[OF assms(2)] length_lowered[OF p]
      length_lowered[OF t]
    by (simp add: lower_append add.assoc redaction_text(2) del: length_take)
qed

lemma redact_marker_one_pass:
  assumes "good_marker m" "ascii_lower low"
  shows "done_with low m p \<Longrightarrow> plain low s \<Longrightarrow> redact_marker low m (p @ s) = Some (p @ redact_all low m s)"
proof (induction "length s" arbitrary: p s rule: less_induct)
  case less
  have m: "m \<noteq> []" using assms(1) by (simp add: good_marker_def)
  have found: "find_sub m (lowered low (p @ s)) = map_option ((+) (length p)) (find_sub m (lowered low s))"
    using less.prems(1) by (simp add: done_with_def)
  show ?case
  proof (cases "find_sub m (lowered low s)")
    case None
    with found show ?thesis by (simp add: redact_marker.simps[of low m "p @ s"] redact_all.simps[of low m s])
  next
    case (Some n)
    let ?p = "p @ take n s @ redaction"
    let ?s = "drop (n + length m) s"
    have "length ?s < length s"
      using find_sub_bound[OF Some] m length_lowered[OF less.prems(2)] by (cases m) auto
    from less.hyps[OF this done_with_step[OF assms less.prems(2,1) Some] plain_take_drop(2)[OF less.prems(2)]]
    have "redact_marker low m (?p @ ?s) = Some (?p @ redact_all low m ?s)" .
    with found Some m show ?thesis
      by (simp add: redact_marker.simps[of low m "p @ s"] redact_all.simps[of low m s] add.assoc)
  qed
qed

lemma redact_marker_returns:
  "good_marker m \<Longrightarrow> ascii_lower low \<Longrightarrow> plain low s \<Longrightarrow> redact_marker low m s = Some (redact_all low m s)"
  using redact_marker_one_pass[of m low "[]" s] done_with_Nil by simp

subsection \<open>Nothing is left\<close>

lemma plain_redacted: "ascii_lower low \<Longrightarrow> plain low s \<Longrightarrow> plain low (redact_all low m s)"
proof (induction low m s rule: redact_all.induct)
  case (1 low m s)
  then show ?case
    by (auto simp: redact_all.simps[of low m s] redaction_text(3) plain_take_drop split: option.split)
qed

lemma unmarked_redacted:
  "good_marker m \<Longrightarrow> ascii_lower low \<Longrightarrow> plain low s \<Longrightarrow> unmarked low m (redact_all low m s)"
proof (induction low m s rule: redact_all.induct)
  case (1 low m s)
  have m: "m \<noteq> []" using 1(2) by (simp add: good_marker_def)
  show ?case
  proof (cases "find_sub m (lowered low s)")
    case None
    then show ?thesis by (simp add: unmarked_def redact_all.simps[of low m s])
  next
    case (Some n)
    have "find_sub m (lowered low (take n s)) = None"
      using find_sub_before[OF Some m] by (simp add: lower_take_drop[OF 1(4)])
    from find_sub_inserted[OF 1(2) this] 1(1)[OF Some m 1(2,3) plain_take_drop(2)[OF 1(4)]] Some m 1(3)
    show ?thesis
      by (simp add: unmarked_def redact_all.simps[of low m s] lower_append redaction_text(1))
  qed
qed

text \<open>Redacting another marker brings none back.\<close>

lemma unmarked_stays:
  "good_marker k \<Longrightarrow> ascii_lower low \<Longrightarrow> plain low s \<Longrightarrow> unmarked low k s \<Longrightarrow> unmarked low k (redact_all low m s)"
proof (induction low m s rule: redact_all.induct)
  case (1 low m s)
  have k: "k \<noteq> []" using 1(2) by (simp add: good_marker_def)
  show ?case
  proof (cases "m \<noteq> [] \<and> find_sub m (lowered low s) \<noteq> None")
    case False
    with 1(5) show ?thesis by (auto simp: redact_all.simps[of low m s] split: option.split)
  next
    case True
    then obtain n where n: "find_sub m (lowered low s) = Some n" by auto
    have "find_sub k (lowered low (take n s)) = None" and rest: "unmarked low k (drop (n + length m) s)"
      using 1(5) find_sub_take[OF _ k] find_sub_drop by (auto simp: unmarked_def lower_take_drop[OF 1(4)])
    from find_sub_inserted[OF 1(2) this(1)] 1(1)[OF n _ 1(2,3) plain_take_drop(2)[OF 1(4)] rest] True n 1(3)
    show ?thesis
      by (simp add: unmarked_def redact_all.simps[of low m s] lower_append redaction_text(1))
  qed
qed

lemma redact_markers_returns:
  assumes "ascii_lower low" and "list_all good_marker ms" "list_all good_marker ks"
    and "plain low s" "\<forall>k \<in> set ks. unmarked low k s"
  shows "redact_markers low ms s = Some (fold (redact_all low) ms s) \<and> plain low (fold (redact_all low) ms s) \<and>
    (\<forall>k \<in> set ks \<union> set ms. unmarked low k (fold (redact_all low) ms s))"
  using assms(2-5)
proof (induction ms arbitrary: s ks)
  case Nil
  then show ?case by simp
next
  case (Cons m ms)
  have "\<forall>k \<in> set (m # ks). unmarked low k (redact_all low m s)"
    using Cons.prems assms(1) unmarked_redacted unmarked_stays by (auto simp: list_all_iff)
  with Cons.IH[of "m # ks" "redact_all low m s"] Cons.prems assms(1) show ?case
    by (auto simp: redact_marker_returns plain_redacted)
qed

lemma unmarked_strip:
  assumes "m \<noteq> []" "plain low s" "unmarked low m s"
  shows "unmarked low m (py_strip s)"
proof -
  let ?d = "dropWhile is_space s"
  have p: "plain low ?d" using assms(2) by (simp add: dropWhile_eq_drop plain_take_drop)
  have "find_sub m (lowered low ?d) = None"
    using assms(3) find_sub_drop by (simp add: unmarked_def dropWhile_eq_drop lower_take_drop[OF assms(2)])
  moreover have "py_strip s = take (length ?d - length (takeWhile is_space (rev ?d))) ?d"
    by (simp add: py_strip_def dropWhile_eq_drop[of is_space "rev ?d"] rev_drop)
  ultimately show ?thesis using find_sub_take[OF _ assms(1)] by (simp add: unmarked_def lower_take_drop[OF p])
qed

lemma candidate_markers_good: "list_all good_marker candidate_markers"
  by code_simp

lemma default_text_unmarked:
  assumes "ascii_lower low"
  shows "list_all (\<lambda>m. unmarked low m ''sanitized NOC learning candidate'') candidate_markers"
proof -
  have "list_all (\<lambda>c. code c < 128) ''sanitized NOC learning candidate''"
    "list_all (\<lambda>m. find_sub m (py_lower ''sanitized NOC learning candidate'') = None) candidate_markers"
    by code_simp+
  with ascii_lowered[OF assms] show ?thesis unfolding unmarked_def by presburger
qed

text \<open>
  C16: Where every character of the text has a lower case of one character (all of ASCII and almost all of the rest
  have; U+0130 has not), \<open>_redact\<close> always returns, although its loop looks again from the start of the text after every
  replacement: what it returns is the text after one pass from left to right for each marker in turn, stripped, or the
  default when nothing remains. It is not empty, and none of the forbidden markers is left in it in any case of letters,
  however the markers overlapped and whatever replacing one put side by side.
\<close>

theorem redaction_returns_clean:
  assumes "ascii_lower low" and "plain low s"
  shows "\<exists>r. redact_loop low s = Some r \<and> r \<noteq> [] \<and>
     r = or_str (py_strip (fold (redact_all low) candidate_markers s)) ''sanitized NOC learning candidate'' \<and>
     list_all (\<lambda>m. find_sub m (lowered low r) = None) candidate_markers"
proof -
  let ?r = "fold (redact_all low) candidate_markers s"
  have r: "redact_markers low candidate_markers s = Some ?r" "plain low ?r"
    "\<forall>m \<in> set candidate_markers. unmarked low m ?r"
    using redact_markers_returns[OF assms(1) candidate_markers_good _ assms(2), of "[]"] by simp_all
  have "\<forall>m \<in> set candidate_markers. unmarked low m (py_strip ?r)"
    using r(2,3) unmarked_strip candidate_markers_good by (auto simp: list_all_iff good_marker_def)
  with default_text_unmarked[OF assms(1)]
  have "list_all (\<lambda>m. unmarked low m (or_str (py_strip ?r) ''sanitized NOC learning candidate'')) candidate_markers"
    by (simp add: or_str_def list_all_iff)
  with r(1) show ?thesis by (auto simp: redact_loop_def or_str_def unmarked_def)
qed

text \<open>The redaction the rest of the model uses.\<close>

theorem redaction_returns_clean_witness:
  "\<exists>r. redact_loop single_lower ''see Bearer bearer  x'' = Some r \<and> redact ''see Bearer bearer  x'' = r \<and>
     list_all (\<lambda>m. find_sub m (py_lower r) = None) candidate_markers"
proof -
  have "ascii_lower single_lower" by (simp add: ascii_lower_def single_lower_def)
  from redaction_returns_clean[OF this lowered_single(2), of "''see Bearer bearer  x''"] show ?thesis
    by (auto simp: redact_def lowered_single(1))
qed

subsection \<open>Where the loop does not end\<close>

lemma starts_with_outside: "c \<notin> set m \<Longrightarrow> m \<noteq> [] \<Longrightarrow> \<not> starts_with m (c # b)"
  by (cases m) (auto simp: starts_with_def)

lemma find_sub_behind:
  assumes "low x = [a, b]" and "a \<notin> set m" "b \<notin> set m" "m \<noteq> []"
  shows "find_sub m (lowered low (replicate k x) @ m @ t) = Some (2 * k)"
proof (induction k)
  case 0
  obtain c r where m: "m = c # r" using assms(4) by (cases m) simp_all
  have "starts_with m (m @ t)" by (simp add: starts_with_def)
  then show ?case by (simp add: m)
next
  case (Suc k)
  then show ?case using assms starts_with_outside by simp
qed

lemma redact_marker_stuck:
  assumes found: "\<And>t. find_sub m (lowered low (replicate k x @ m @ t)) = Some (2 * k)" and "length m \<le> k"
    and "redact_marker low m s = Some y"
  shows "s \<noteq> replicate k x @ m @ t"
proof -
  have "low' = low \<longrightarrow> m' = m \<longrightarrow> (\<forall>t. s \<noteq> replicate k x @ m @ t)"
    if "redact_marker low' m' s = Some z" for low' m' s z
  proof (rule redact_marker.raw_induct [OF _ that,
      of "\<lambda>low' m' s z. low' = low \<longrightarrow> m' = m \<longrightarrow> (\<forall>t. s \<noteq> replicate k x @ m @ t)"])
    fix go :: "(char \<Rightarrow> string) \<Rightarrow> string \<Rightarrow> string \<Rightarrow> string option" and low' m' s z
    assume ih: "\<And>low' m' s z. go low' m' s = Some z \<Longrightarrow>
        low' = low \<longrightarrow> m' = m \<longrightarrow> (\<forall>t. s \<noteq> replicate k x @ m @ t)"
      and run: "(case find_sub m' (lowered low' s) of None \<Rightarrow> Some s
        | Some n \<Rightarrow> go low' m' (take n s @ redaction @ drop (n + length m') s)) = Some z"
    show "low' = low \<longrightarrow> m' = m \<longrightarrow> (\<forall>t. s \<noteq> replicate k x @ m @ t)"
    proof (intro impI allI notI)
      fix t assume e: "low' = low" "m' = m" "s = replicate k x @ m @ t"
      let ?r = "redaction @ drop (2 * k + length m) s"
      have "go low m (take (2 * k) s @ ?r) = Some z" using run e found by simp
      from ih [OF this] have "\<forall>t. take (2 * k) s @ ?r \<noteq> replicate k x @ m @ t" by blast
      moreover have "take (2 * k) s = replicate k x @ m @ take (k - length m) t"
        using assms(2) e(3) by (simp add: mult_2 min_absorb2)
      ultimately show False by (metis append.assoc)
    qed
  qed
  with assms(3) show ?thesis by blast
qed

text \<open>
  C17: Where a character has a lower case of two characters (as U+0130 has), \<open>_redact\<close> can run for ever: given a
  text that begins with twelve or more such characters and then the marker \<open>secret_value\<close>, whatever follows, the cut it
  computes from the lowered text falls behind the marker, the marker stays, and the loop never returns. No other
  assumption is made of the case map than that it leaves ASCII to the ASCII one and that the two characters are not
  letters of the marker.
\<close>

theorem redaction_never_returns:
  assumes "ascii_lower low" and "low x = [a, b]" and "a \<notin> set ''secret_value''" "b \<notin> set ''secret_value''"
    and "12 \<le> k"
  shows "redact_loop low (replicate k x @ ''secret_value'' @ t) = None"
proof -
  have c: "list_all (\<lambda>c. code c < 128) ''secret_value''" "py_lower ''secret_value'' = ''secret_value''"
    by code_simp+
  have m: "lowered low ''secret_value'' = ''secret_value''"
    by (rule trans [OF conjunct1 [OF ascii_lowered [OF assms(1) c(1)]] c(2)])
  have "find_sub ''secret_value'' (lowered low (replicate k x @ ''secret_value'' @ t)) = Some (2 * k)" for t
    using find_sub_behind [where low = low and m = "''secret_value''" and k = k and t = "lowered low t", OF assms(2-4)]
    unfolding lower_append m by simp
  note stuck = redact_marker_stuck [OF this]
  have "redact_marker low ''secret_value'' (replicate k x @ ''secret_value'' @ t) = None"
    using stuck [of _ _ t] assms(5) by (intro notnotD [of "_ = _"] notI) force
  then show ?thesis by (simp add: redact_loop_def candidate_markers_def)
qed

text \<open>A character, outside ASCII, whose lower case is the letter i and a combining dot.\<close>

definition dotted_lower :: "char \<Rightarrow> string" where
  "dotted_lower c = (if c = CHR 0xC8 then [CHR ''i'', CHR 0xC9] else [lower_char c])"

theorem redaction_never_returns_witness:
  "redact_loop dotted_lower (replicate 12 (CHR 0xC8) @ ''secret_value'' @ ''=1'') = None"
proof -
  have "\<not> code (CHR 0xC8) < 128" by code_simp
  then have "ascii_lower dotted_lower" by (auto simp: ascii_lower_def dotted_lower_def)
  moreover have "dotted_lower (CHR 0xC8) = [CHR ''i'', CHR 0xC9]" by (simp add: dotted_lower_def)
  moreover have "CHR ''i'' \<notin> set ''secret_value''" "CHR 0xC9 \<notin> set ''secret_value''" by simp_all
  ultimately show ?thesis by (rule redaction_never_returns) simp
qed

end
