(* ===== verification/Knowledge_Handlers.thy ===== *)
theory Knowledge_Handlers
  imports Promotion Execution Disk_Handoff
begin

section \<open>Knowledge over the loop handoff (app/knowledge/lhp.py)\<close>

text \<open>
  The two handlers of the outbox that serve knowledge requests: bounded context for a case out of the pinned export, and
  artifacts and a lesson candidate after a resolution. Opening the export and writing the candidate are arguments, and
  so is a transport other than the local ones; it ends with an answer or an exception, a deadline with a timeout.
\<close>

subsection \<open>Requests and transports\<close>

record context_request =
  kq_case_id :: string
  kq_handoff_id :: string
  kq_objective_key :: string
  kq_payload :: jdict
  kq_max_artifacts :: int
  kq_max_tokens_equivalent :: int

record context_response =
  kx_context_id :: string
  kx_citations :: "jdict list"
  kx_context_refs :: "string list"
  kx_bounded_summary :: string
  kx_export_version :: string
  kx_payload :: jdict

record proposal_request =
  kp_case_id :: string
  kp_handoff_id :: string
  kp_outcome_id :: string
  kp_payload :: jdict

record knowledge_transport =
  kt_request_context :: "context_request \<Rightarrow> atomic_case \<Rightarrow> context_response st"
  kt_propose_artifacts ::
    "proposal_request \<Rightarrow> atomic_case \<Rightarrow> outcome_record option \<Rightarrow> knowledge_artifact list st"

subsection \<open>Common parts\<close>

definition safe_dict :: "json \<Rightarrow> jdict" where
  "safe_dict v = (case sanitized (or_json v (JDict [])) of JDict d \<Rightarrow> d | w \<Rightarrow> [(''value'', w)])"

definition payload_token :: "outbox_intent \<Rightarrow> string \<Rightarrow> string" where
  "payload_token i k = sanitize_lhp_token (given_value (ob_payload i) k (JStr [])) 180"

text \<open>\<open>citation.get("doc_path") or citation.get("doc_id")\<close>; a citation is a dictionary.\<close>

definition citation_doc :: "json \<Rightarrow> json" where
  "citation_doc x = (case x of JDict d \<Rightarrow> or_json (jget d ''doc_path'') (jget d ''doc_id'') | _ \<Rightarrow> JNull)"

definition knowledge_refs :: "json list \<Rightarrow> string list" where
  "knowledge_refs xs =
     map (\<lambda>doc. ''knowledge:'' @ sanitize_lhp_token doc 220) (filter truthy (map citation_doc xs))"

subsection \<open>Context\<close>

definition safe_citations :: "jdict list \<Rightarrow> jdict list" where
  "safe_citations xs = (case sanitized (JList (map JDict xs)) of
     JList vs \<Rightarrow> concat (map (\<lambda>v. case v of JDict d \<Rightarrow> [d] | _ \<Rightarrow> []) vs)
   | _ \<Rightarrow> [])"

definition context_refs :: "jdict list \<Rightarrow> string list" where
  "context_refs xs = knowledge_refs (map JDict (take 50 xs))"

definition newline_sep :: string where
  "newline_sep = [char_of (10 :: nat)]"

definition context_line :: "search_result \<Rightarrow> string" where
  "context_line r =
     (let c = sr_citation r;
          doc = sanitize_lhp_text (JStr (or_str (kc_doc_path c) (kc_doc_id c))) 240;
          title = sanitize_lhp_text (JStr (or_str (sr_title r) (kc_doc_id c))) 200;
          text = sanitize_lhp_text (JStr (sr_snippet r)) 500;
          status = sanitize_lhp_text (JStr (kc_review_status c @ ''/'' @ kc_authority c)) 80
      in ''- '' @ title @ '' ['' @ doc @ ''] '' @ status @ '': '' @ text)"

fun summary_lines :: "int \<Rightarrow> string list \<Rightarrow> search_result list \<Rightarrow> string" where
  "summary_lines budget ls [] = sanitize_lhp_text (JStr (py_join newline_sep ls)) budget"
| "summary_lines budget ls (r # rs) =
     (let more_lines = ls @ [context_line r]; rendered = py_join newline_sep more_lines in
      if budget \<le> int (length rendered) then slice_to budget rendered
      else summary_lines budget more_lines rs)"

definition char_budget :: "int \<Rightarrow> int" where
  "char_budget max_tokens = max 400 (min (max_tokens * 4) 12000)"

definition bounded_context_summary :: "search_result list \<Rightarrow> int \<Rightarrow> string" where
  "bounded_context_summary rs max_tokens =
     summary_lines (char_budget max_tokens) [''Hyrule Knowledge context (bounded, reviewable citations):''] rs"

definition context_payload :: "context_request \<Rightarrow> string list \<Rightarrow> jdict list \<Rightarrow> jdict" where
  "context_payload q refs citations =
     safe_dict (JDict
       [(''schema'', JStr ''lhp_knowledge_context.v1''), (''case_id'', JStr (kq_case_id q)),
        (''handoff_id'', JStr (kq_handoff_id q)), (''objective_key'', JStr (kq_objective_key q)),
        (''context_refs'', JList (map JStr refs)), (''citation_count'', JInt (int (length citations))),
        (''untrusted_request_payload'', JDict (kq_payload q))])"

definition context_id_of :: "string \<Rightarrow> string list \<Rightarrow> string" where
  "context_id_of cid refs =
     sanitize_lhp_token (JStr (''trace_lhp_knowledge_'' @ take 12 (lhp_payload_hash (JDict
       [(''case_id'', JStr cid), (''refs'', JList (map JStr refs))])))) 180"

definition local_context ::
  "(string \<Rightarrow> json option) \<Rightarrow> knowledge_export \<Rightarrow> context_request \<Rightarrow> atomic_case \<Rightarrow> exn + context_response" where
  "local_context loads x q c =
     (case retrieve_case_knowledge loads x (Atomic c) (max 0 (kq_max_artifacts q)) False of
        Inl e \<Rightarrow> Inl e
      | Inr results \<Rightarrow>
          let citations = safe_citations (trace_citations results); refs = context_refs citations in
          Inr \<lparr>kx_context_id = context_id_of (kq_case_id q) refs, kx_citations = citations, kx_context_refs = refs,
            kx_bounded_summary = bounded_context_summary results (kq_max_tokens_equivalent q),
            kx_export_version = ke_export_version x, kx_payload = context_payload q refs citations\<rparr>)"

text \<open>\<open>_record_context_unavailable\<close>; \<open>category\<close> is \<open>classify_exception\<close>.\<close>

definition record_context_unavailable ::
  "service \<Rightarrow> (exn \<Rightarrow> string) \<Rightarrow> atomic_case \<Rightarrow> outbox_intent \<Rightarrow> exn \<Rightarrow> case_event st" where
  "record_context_unavailable sv category c i e = emit None (\<lambda>ev. ev\<lparr>
     ev_case_id := Some (ac_case_id c), ev_event_type := ''knowledge_context_unavailable'',
     ev_actor_type := Act_system, ev_source := ''knowledge'', ev_policy_version := policy_version sv,
     ev_payload := [(''outbox_id'', JStr (ob_outbox_id i)), (''category'', JStr (category e)),
       (''error_type'', JStr (sanitize_lhp_token (JStr (exn_class e)) 80)), (''retry_later'', JBool True)]\<rparr>)"

text \<open>The settings, what opens the export anew for every request, and a transport given in its place.\<close>

record knowledge_setup =
  ks_max_artifacts :: int
  ks_max_tokens_equivalent :: int
  ks_loads :: "string \<Rightarrow> json option"
  ks_open_export :: "knowledge_export st"
  ks_category :: "exn \<Rightarrow> string"
  ks_candidates :: candidate_dir
  ks_transport :: "knowledge_transport option"

definition context_request_of :: "knowledge_setup \<Rightarrow> atomic_case \<Rightarrow> outbox_intent \<Rightarrow> context_request" where
  "context_request_of ks c i =
     \<lparr>kq_case_id = ac_case_id c, kq_handoff_id = payload_token i ''handoff_id'',
      kq_objective_key = payload_token i ''objective_key'', kq_payload = safe_dict (JDict (ob_payload i)),
      kq_max_artifacts = max 0 (min (ks_max_artifacts ks) 50),
      kq_max_tokens_equivalent = max 200 (min (ks_max_tokens_equivalent ks) 12000)\<rparr>"

definition request_context :: "knowledge_setup \<Rightarrow> context_request \<Rightarrow> atomic_case \<Rightarrow> context_response st" where
  "request_context ks q c = (case ks_transport ks of
     Some tr \<Rightarrow> kt_request_context tr q c
   | None \<Rightarrow> bindM (ks_open_export ks) (\<lambda>x. liftM (local_context (ks_loads ks) x q c)))"

definition context_trace :: "service \<Rightarrow> context_request \<Rightarrow> atomic_case \<Rightarrow> context_response \<Rightarrow> trace_record st" where
  "context_trace sv q c x =
     bindM (new_trace (Some (kx_context_id x)) None (\<lambda>t. t\<lparr>tr_case_id := Some (ac_case_id c),
         tr_policy_version := policy_version sv, tr_knowledge_export_version := kx_export_version x,
         tr_payload := [(''handoff_id'', JStr (kq_handoff_id q)), (''objective_key'', JStr (kq_objective_key q)),
           (''context_refs'', JList (map JStr (kx_context_refs x))),
           (''bounded_summary'', JStr (kx_bounded_summary x)),
           (''citation_count'', JInt (int (length (kx_citations x)))), (''untrusted_evidence'', JBool True)]\<rparr>)
         TT_knowledge_retrieval) (record_trace sv)"

definition context_result :: "context_response \<Rightarrow> outbox_handler_result" where
  "context_result x = blank_result\<lparr>hx_external_id := kx_context_id x,
     hx_payload_updates := [(''trace_id'', JStr (kx_context_id x)),
       (''context_refs'', JList (map JStr (kx_context_refs x))),
       (''citation_count'', JInt (int (length (kx_citations x)))),
       (''export_version'', JStr (kx_export_version x)), (''bounded_summary'', JStr (kx_bounded_summary x))]\<rparr>"

definition knowledge_context_handler :: "service \<Rightarrow> knowledge_setup \<Rightarrow> outbox_handler" where
  "knowledge_context_handler sv ks i =
     (if \<not> opt_truthy (ob_case_id i) then raiseM (ValueError ''knowledge context intent requires case_id'')
      else
        bindM (get_atomic (KeyError (''atomic case not found for LHP knowledge context: '' @ the (ob_case_id i)))
          (the (ob_case_id i))) (\<lambda>c.
        let q = context_request_of ks c i in
        bindM (except_exception (request_context ks q c)
          (\<lambda>e. seqM (record_context_unavailable sv (ks_category ks) c i e) (raiseM e))) (\<lambda>x.
        seqM (context_trace sv q c x)
          (seqM (record_knowledge_citations sv (ac_case_id c) (map JDict (kx_citations x)) (kx_context_id x))
            (retM (Some (context_result x)))))))"

subsection \<open>Artifacts\<close>

definition source_refs ::
  "atomic_case \<Rightarrow> string \<Rightarrow> outcome_record option \<Rightarrow> string list" where
  "source_refs c handoff_id outcome = take 50
     ([''noc-case:'' @ sanitize_lhp_token (JStr (ac_case_id c)) 180]
      @ (if handoff_id = [] then [] else [''lhp-handoff:'' @ sanitize_lhp_token (JStr handoff_id) 180])
      @ (case outcome of None \<Rightarrow> []
         | Some x \<Rightarrow> [''lhp-outcome:'' @ sanitize_lhp_token (JStr (oc_outcome_id x)) 180])
      @ knowledge_refs (take 10 (ac_knowledge_citations c)))"

definition artifact_scope :: "atomic_case \<Rightarrow> string" where
  "artifact_scope c = sanitize_lhp_text (JStr (py_join '':''
     [or_str (ac_rule_id c) (or_str (ac_detector c) ''case''),
      or_str (ac_resource_id c) (or_str (ac_fingerprint c) (ac_case_id c))])) 300"

definition artifact_given :: "string list" where
  "artifact_given = [''case_id'', ''handoff_id'', ''artifact_type'', ''scope'', ''status'', ''review_status'',
     ''summary'', ''source_refs'', ''payload'']"

definition proposed_artifact ::
  "atomic_case \<Rightarrow> string \<Rightarrow> outcome_record option \<Rightarrow> string \<times> string \<times> jdict \<Rightarrow> knowledge_artifact st" where
  "proposed_artifact c handoff_id outcome content = (case content of (artifact_type, summary, payload) \<Rightarrow>
     new_artifact artifact_given (blank_artifact\<lparr>ka_case_id := ac_case_id c, ka_handoff_id := handoff_id,
       ka_artifact_type := artifact_type, ka_scope := artifact_scope c,
       ka_status := KS_proposed, ka_review_status := KR_pending,
       ka_summary := sanitize_lhp_text (JStr summary) 1000,
       ka_source_refs := source_refs c handoff_id outcome,
       ka_payload := safe_dict (JDict (dict_update payload [(''case_status'', JStr (case_status_str (ac_status c))),
         (''review_required'', JBool True), (''untrusted_evidence'', JBool True)]))\<rparr>))"

definition root_cause_summary :: "atomic_case \<Rightarrow> outcome_record \<Rightarrow> string" where
  "root_cause_summary c x = ''Root cause candidate for '' @ ac_case_id c @ '': '' @
     or_str (ac_summary c) (or_str (ac_title c) ''case condition'') @ ''; outcome indicates '' @
     or_str (oc_action_taken x) (or_str (oc_proposed_action x) (or_str (ac_resolution_reason c)
       ''verified remediation cleared the monitored condition'')) @ ''.''"

definition remediation_summary :: "atomic_case \<Rightarrow> outcome_record \<Rightarrow> string" where
  "remediation_summary c x = ''Remediation candidate for '' @ ac_case_id c @
     '': NOC verifier accepted the outcome after '' @
     or_str (py_join '', '' (take 8 (py_sort False (\<lambda>k. k) (dict_keys (oc_validation x)))))
       ''verification objectives passed'' @ ''.''"

definition runbook_update_summary :: "atomic_case \<Rightarrow> outcome_record \<Rightarrow> string" where
  "runbook_update_summary c x = ''Review runbook guidance for '' @
     or_str (ac_rule_id c) (or_str (oc_case_type x) ''this case type'') @ '' using case '' @ ac_case_id c @
     '' as evidence; keep any resulting content human-reviewed.''"

definition memory_summary :: "atomic_case \<Rightarrow> outcome_record \<Rightarrow> string" where
  "memory_summary c x = ''Review whether fingerprint '' @
     or_str (oc_fingerprint x) (or_str (ac_fingerprint c) ''unknown'') @
     '' should become a reusable case-memory pattern after human approval.''"

definition eval_summary :: "atomic_case \<Rightarrow> string" where
  "eval_summary c = ''Create a private eval candidate that replays case '' @ ac_case_id c @
     '', expected verification evidence, and safety constraints.''"

definition guardrail_summary :: "atomic_case \<Rightarrow> string" where
  "guardrail_summary c = ''Review schema/tool/guardrail improvements from case '' @ ac_case_id c @
     ''; proposed only because outcome metadata indicated applicability.''"

definition guardrail_applicable :: "outcome_record \<Rightarrow> jdict \<Rightarrow> bool" where
  "guardrail_applicable x payload \<longleftrightarrow>
     truthy (jget payload ''guardrail_applicable'') \<or> truthy (jget (oc_safety x) ''policy_violations'')
     \<or> truthy (jget (oc_safety x) ''unauthorized_tool_calls'')
     \<or> truthy (jget (oc_learning x) ''schema_or_guardrail_improved'')"

definition proposal_for :: "outcome_record \<Rightarrow> string \<Rightarrow> jdict" where
  "proposal_for x target = [(''outcome_id'', JStr (oc_outcome_id x)), (''proposal_target'', JStr target),
     (''review_required'', JBool True)]"

definition outcome_contents :: "atomic_case \<Rightarrow> outcome_record \<Rightarrow> jdict \<Rightarrow> (string \<times> string \<times> jdict) list" where
  "outcome_contents c x payload =
     [(''root_cause_summary'', root_cause_summary c x, [(''outcome_id'', JStr (oc_outcome_id x)),
         (''case_type'', JStr (oc_case_type x)), (''fingerprint'', JStr (oc_fingerprint x))]),
      (''remediation_summary'', remediation_summary c x, [(''outcome_id'', JStr (oc_outcome_id x)),
         (''validation'', JDict (oc_validation x))]),
      (''runbook_update_proposal'', runbook_update_summary c x, proposal_for x ''runbook''),
      (''memory_proposal'', memory_summary c x, proposal_for x ''case_memory''),
      (''private_eval_proposal'', eval_summary c, proposal_for x ''private_eval'')]
     @ (if guardrail_applicable x payload
        then [(''schema_tool_guardrail_improvement_proposal'', guardrail_summary c,
               proposal_for x ''schema_tool_guardrail'')] else [])"

definition gap_content :: "jdict \<Rightarrow> string \<times> string \<times> jdict" where
  "gap_content payload = (''learning_gap_recorded'',
     ''No verified outcome record was available for post-resolution learning; human review should decide '' @
     ''whether a durable lesson is warranted.'',
     [(''reason'', given_value payload ''reason'' (JStr ''missing_outcome'')), (''review_required'', JBool True)])"

definition build_knowledge_artifact_proposals ::
  "atomic_case \<Rightarrow> outcome_record option \<Rightarrow> string \<Rightarrow> jdict \<Rightarrow> knowledge_artifact list st" where
  "build_knowledge_artifact_proposals c outcome handoff_id payload =
     (let safe_payload = safe_dict (JDict payload) in
      mapM (proposed_artifact c handoff_id outcome)
        (case outcome of None \<Rightarrow> [gap_content safe_payload] | Some x \<Rightarrow> outcome_contents c x safe_payload))"

subsection \<open>Proposing artifacts\<close>

definition select_outcome :: "string \<Rightarrow> string \<Rightarrow> outcome_record option st" where
  "select_outcome cid outcome_id =
     bindM (list_outcomes (Some cid) None False) (\<lambda>outcomes.
     retM (case (if outcome_id = [] then None else List.find (\<lambda>x. oc_outcome_id x = outcome_id) outcomes) of
         Some x \<Rightarrow> Some x
       | None \<Rightarrow> if outcomes = [] then None else Some (last outcomes)))"

definition learning_event_id :: "string \<Rightarrow> outcome_record option \<Rightarrow> string \<Rightarrow> string" where
  "learning_event_id cid outcome handoff_id = take 180 (py_join ''_''
     [''learn_lhp'', sanitize_lhp_token (JStr cid) 80,
      (case outcome of
         Some x \<Rightarrow> sanitize_lhp_token (JStr (oc_outcome_id x)) 80
       | None \<Rightarrow> if handoff_id = [] then ''gap'' else sanitize_lhp_token (JStr handoff_id) 80)])"

definition proposal_request_of :: "atomic_case \<Rightarrow> outbox_intent \<Rightarrow> proposal_request" where
  "proposal_request_of c i =
     \<lparr>kp_case_id = ac_case_id c, kp_handoff_id = payload_token i ''handoff_id'',
      kp_outcome_id = payload_token i ''outcome_id'', kp_payload = safe_dict (JDict (ob_payload i))\<rparr>"

definition propose_artifacts ::
  "knowledge_setup \<Rightarrow> proposal_request \<Rightarrow> atomic_case \<Rightarrow> outcome_record option \<Rightarrow> knowledge_artifact list st" where
  "propose_artifacts ks q c outcome = (case ks_transport ks of
     Some tr \<Rightarrow> kt_propose_artifacts tr q c outcome
   | None \<Rightarrow> build_knowledge_artifact_proposals c outcome (kp_handoff_id q) (kp_payload q))"

text \<open>The proposals, and the outcome they rest on: none when the transport proposed nothing.\<close>

definition proposed_or_gap ::
  "knowledge_setup \<Rightarrow> proposal_request \<Rightarrow> atomic_case \<Rightarrow> outcome_record option
    \<Rightarrow> (outcome_record option \<times> knowledge_artifact list) st" where
  "proposed_or_gap ks q c outcome =
     bindM (propose_artifacts ks q c outcome) (\<lambda>artifacts.
     if artifacts \<noteq> [] then retM (outcome, artifacts)
     else bindM (build_knowledge_artifact_proposals c None (kp_handoff_id q)
         [(''reason'', JStr ''no_artifacts_proposed'')]) (\<lambda>gap. retM (None, gap)))"

definition enriched_artifact :: "string \<Rightarrow> string \<Rightarrow> knowledge_artifact \<Rightarrow> knowledge_artifact" where
  "enriched_artifact event_id path k = k\<lparr>ka_payload := dict_update (ka_payload k)
     [(''learning_event_id'', JStr event_id), (''candidate_path'', JStr path),
      (''review_required'', JBool True), (''untrusted_evidence'', JBool True)]\<rparr>"

definition lesson_of_artifacts ::
  "proposal_request \<Rightarrow> atomic_case \<Rightarrow> outcome_record option \<Rightarrow> knowledge_artifact list \<Rightarrow> case_event list
    \<Rightarrow> lesson_request" where
  "lesson_of_artifacts q c outcome artifacts events =
     (lesson_request_of (Atomic c))\<lparr>lr_events := events,
        lr_citations := map (\<lambda>x. Cited_dict (case x of JDict d \<Rightarrow> d | _ \<Rightarrow> [])) (ac_knowledge_citations c),
        lr_lessons := map ka_summary artifacts, lr_producer := ''noc_lhp_knowledge_loop'',
        lr_target := py_str (or_json (jget (kp_payload q) ''target'') (JStr ''okf/observed/noc-agent'')),
        lr_event_id := Some (learning_event_id (ac_case_id c) outcome (kp_handoff_id q))\<rparr>"

text \<open>The candidate is written first, and the artifacts that point to it are stored one after the other.\<close>

definition record_proposals ::
  "service \<Rightarrow> knowledge_setup \<Rightarrow> proposal_request \<Rightarrow> atomic_case \<Rightarrow> outcome_record option
    \<Rightarrow> knowledge_artifact list \<Rightarrow> outbox_handler_result st" where
  "record_proposals sv ks q c outcome artifacts =
     bindM (case_events (ac_case_id c) None False) (\<lambda>events.
     bindM (build_lesson_candidate_event (lesson_of_artifacts q c outcome artifacts events)) (\<lambda>event.
     bindM (write_lesson_candidate_event (ks_candidates ks) event) (\<lambda>path.
     let event_id = py_str (jget event ''id'') in
     bindM (mapM (\<lambda>k. record_lhp_knowledge_artifact sv (enriched_artifact event_id path k)) artifacts) (\<lambda>stored.
     retM (blank_result\<lparr>hx_external_id := event_id, hx_external_url := path,
       hx_payload_updates := [(''learning_event_id'', jget event ''id''),
         (''artifact_ids'', JList (map (\<lambda>k. JStr (ka_artifact_id k)) stored)),
         (''artifact_count'', JInt (int (length stored))), (''review_status'', JStr ''pending'')]\<rparr>)))))"

definition knowledge_artifact_handler :: "service \<Rightarrow> knowledge_setup \<Rightarrow> outbox_handler" where
  "knowledge_artifact_handler sv ks i =
     (if \<not> opt_truthy (ob_case_id i)
      then raiseM (ValueError ''knowledge artifact proposal intent requires case_id'')
      else
        bindM (get_atomic (KeyError (''atomic case not found for LHP knowledge artifact proposal: '' @
          the (ob_case_id i))) (the (ob_case_id i))) (\<lambda>c.
        let q = proposal_request_of c i in
        bindM (select_outcome (ac_case_id c) (kp_outcome_id q)) (\<lambda>selected.
        bindM (proposed_or_gap ks q c selected) (\<lambda>(outcome, artifacts).
        bindM (record_proposals sv ks q c outcome artifacts) (\<lambda>r. retM (Some r))))))"

end
