(* ===== verification/Knowledge_Spec.thy ===== *)
theory Knowledge_Spec
  imports Knowledge_Handlers Promotion Retrieval Handlers_Spec Yields
begin

section \<open>What the knowledge handlers guarantee\<close>

text \<open>
  They reach the store through its operations, propose and never approve, and hand out bounded context whose
  citations are authoritative.
\<close>

subsection \<open>In the worker\<close>

text \<open>What the handlers call outside of the code keeps a property of the store.\<close>

definition knowledge_keeps :: "(store \<Rightarrow> bool) \<Rightarrow> knowledge_setup \<Rightarrow> bool" where
  "knowledge_keeps P ks \<longleftrightarrow> keeps P (ks_open_export ks) \<and> (\<forall>p e. keeps P (cd_write (ks_candidates ks) p e))
     \<and> (\<forall>tr. ks_transport ks = Some tr \<longrightarrow>
          (\<forall>q c. keeps P (kt_request_context tr q c)) \<and> (\<forall>q c x. keeps P (kt_propose_artifacts tr q c x)))"

definition with_knowledge :: "service \<Rightarrow> knowledge_setup \<Rightarrow> handler_setup \<Rightarrow> handler_setup" where
  "with_knowledge sv ks su = su\<lparr>hs_knowledge_candidate := Some (knowledge_candidate_handler (ks_candidates ks)),
     hs_knowledge_context := Some (knowledge_context_handler sv ks, knowledge_artifact_handler sv ks)\<rparr>"

lemma k_knowledge_reads [keeps_intros]: "keeps P (case_events cid n b)" "keeps P (list_outcomes co n b)"
  by (simp_all add: case_events_def list_outcomes_def keeps_get)

context handler_contract
begin

lemma k_lesson_event [keeps_intros]: "keeps P (build_lesson_candidate_event r)"
  unfolding build_lesson_candidate_event_def Let_def by (intro keeps_intros)

lemma k_write_candidate:
  "(\<And>p e. keeps P (cd_write cd p e)) \<Longrightarrow> keeps P (write_lesson_candidate_event cd event)"
  unfolding write_lesson_candidate_event_def Let_def by (intro keeps_intros)

lemma k_proposals [keeps_intros]: "keeps P (build_knowledge_artifact_proposals c x h p)"
  unfolding build_knowledge_artifact_proposals_def proposed_artifact_def new_artifact_def Let_def
  by (intro keeps_intros)

lemma k_select_outcome [keeps_intros]: "keeps P (select_outcome cid o')"
  unfolding select_outcome_def by (intro keeps_intros)

lemma k_knowledge_candidate_handler:
  "(\<And>p e. keeps P (cd_write cd p e)) \<Longrightarrow> keeps P (knowledge_candidate_handler cd i)"
  unfolding knowledge_candidate_handler_def by (intro keeps_intros k_write_candidate)

lemma k_context_trace [keeps_intros]: "keeps P (context_trace sv q c x)"
  unfolding context_trace_def new_trace_def given_or_def by (auto intro!: keeps_intros)

lemma k_request_context: "knowledge_keeps P ks \<Longrightarrow> keeps P (request_context ks q c)"
  unfolding request_context_def knowledge_keeps_def by (auto intro!: keeps_intros split: option.split)

lemma k_knowledge_context_handler:
  "knowledge_keeps P ks \<Longrightarrow> keeps P (knowledge_context_handler sv ks i)"
  unfolding knowledge_context_handler_def record_context_unavailable_def Let_def
  by (intro keeps_intros k_request_context)

lemma k_proposed_or_gap:
  "knowledge_keeps P ks \<Longrightarrow> keeps P (proposed_or_gap ks q c x)"
  unfolding proposed_or_gap_def propose_artifacts_def knowledge_keeps_def
  by (auto intro!: keeps_intros split: option.split)

lemma k_knowledge_artifact_handler:
  assumes "knowledge_keeps P ks" shows "keeps P (knowledge_artifact_handler sv ks i)"
  unfolding knowledge_artifact_handler_def record_proposals_def Let_def
  by (intro keeps_intros k_proposed_or_gap[OF assms] k_write_candidate)
    (use assms in \<open>simp add: knowledge_keeps_def\<close>)

lemma k_with_knowledge:
  "transports_keep P su \<Longrightarrow> knowledge_keeps P ks \<Longrightarrow> transports_keep P (with_knowledge sv ks su)"
  using k_knowledge_context_handler k_knowledge_artifact_handler k_knowledge_candidate_handler
  by (auto simp: transports_keep_def with_knowledge_def knowledge_keeps_def)

end

lemma knowledge_through_store:
  "setup_through_store su \<Longrightarrow> (\<And>s0. knowledge_keeps (store_run s0) ks)
    \<Longrightarrow> setup_through_store (with_knowledge sv ks su)"
  by (simp add: setup_through_store_def stepping_handlers.k_with_knowledge)

subsection \<open>Proposed, never approved\<close>

definition merely_proposed :: "knowledge_artifact \<Rightarrow> bool" where
  "merely_proposed k \<longleftrightarrow> ka_status k = KS_proposed \<and> ka_review_status k = KR_pending"

definition only_proposals_since :: "store \<Rightarrow> store \<Rightarrow> bool" where
  "only_proposals_since s t \<longleftrightarrow> (\<forall>i k. dict_get (st_artifacts t) i = Some k \<longrightarrow>
     dict_get (st_artifacts s) i = Some k \<or> merely_proposed k)"

lemma only_proposals_cong: "st_artifacts t = st_artifacts u \<Longrightarrow> only_proposals_since s t = only_proposals_since s u"
  by (simp add: only_proposals_since_def)

lemma proposals_draws [keeps_intros]: "keeps (only_proposals_since s) uuid4_hex"
    "keeps (only_proposals_since s) dt_now" "keeps (only_proposals_since s) (require_atomic_case_locked cid)"
  by (auto simp: keeps_def uuid4_hex_def dt_now_def require_case_app only_proposals_since_def split: option.split)

lemma proposals_events [keeps_intros]: "keeps (only_proposals_since s) (store_event_opt e)"
    "keeps (only_proposals_since s) (new_event a b f)"
  unfolding store_event_opt_def store_event_locked_def new_event_def given_or_def new_id_def utc_now_def write_event_def
  by (auto intro!: keeps_intros modM_keeps simp: only_proposals_since_def split: option.split)

lemma proposals_put:
  "merely_proposed k \<Longrightarrow> keeps (only_proposals_since s) (put_artifact k)"
  unfolding put_artifact_def by (rule modM_keeps) (auto simp: only_proposals_since_def dict_get_set split: if_splits)

lemma proposals_record:
  "merely_proposed k \<Longrightarrow> keeps (only_proposals_since s) (record_lhp_knowledge_artifact sv k)"
  unfolding record_lhp_knowledge_artifact_def record_knowledge_artifact_def item_of_def
  by (intro keeps_intros proposals_put)

lemma checked_artifact: "check_artifact g k = Inr v \<Longrightarrow> merely_proposed k \<Longrightarrow> merely_proposed v"
  by (auto simp: check_artifact_def checked_def merely_proposed_def split: if_splits sum.splits)

lemma proposed_artifact_yields: "yields merely_proposed (proposed_artifact c h x content)"
  unfolding proposed_artifact_def new_artifact_def
  by (auto split: prod.split intro!: yields_then yields_lift elim!: checked_artifact) (simp add: merely_proposed_def)

lemma proposals_yield:
  "yields (\<lambda>ks. \<forall>k \<in> set ks. merely_proposed k) (build_knowledge_artifact_proposals c x h p)"
  unfolding build_knowledge_artifact_proposals_def Let_def by (intro yields_mapM proposed_artifact_yields)

text \<open>
  The handler's own proposals, or a transport given in their place that answers with proposals only and leaves the
  artifacts of the store alone.
\<close>

definition proposes_only :: "store \<Rightarrow> knowledge_setup \<Rightarrow> bool" where
  "proposes_only s ks \<longleftrightarrow> (case ks_transport ks of None \<Rightarrow> True | Some tr \<Rightarrow>
     (\<forall>q c x. keeps (only_proposals_since s) (kt_propose_artifacts tr q c x) \<and>
       yields (\<lambda>ks. \<forall>k \<in> set ks. merely_proposed k) (kt_propose_artifacts tr q c x)))"

lemma propose_yields:
  "proposes_only s ks \<Longrightarrow> yields (\<lambda>ks. \<forall>k \<in> set ks. merely_proposed k) (propose_artifacts ks q c x)"
  by (cases "ks_transport ks") (simp_all add: proposes_only_def propose_artifacts_def proposals_yield)

lemma proposed_or_gap_yields:
  assumes "proposes_only s ks"
  shows "yields (\<lambda>(x, ks). \<forall>k \<in> set ks. merely_proposed k) (proposed_or_gap ks q c x)"
  unfolding proposed_or_gap_def
  by (rule yields_bind[OF propose_yields[OF assms] yields_if[OF _ yields_bind[OF proposals_yield]]]) simp_all

lemma proposals_stay [keeps_intros]:
  "keeps (only_proposals_since s) (build_knowledge_artifact_proposals c x h p)"
  "keeps (only_proposals_since s) (build_lesson_candidate_event r)"
  unfolding build_knowledge_artifact_proposals_def proposed_artifact_def new_artifact_def new_id_def utc_now_def
    draw_field_def build_lesson_candidate_event_def Let_def
  by (intro keeps_intros)+

lemma proposals_recorded:
  assumes "\<forall>p e. keeps (only_proposals_since s) (cd_write (ks_candidates ks) p e)" "\<forall>k \<in> set xs. merely_proposed k"
  shows "keeps (only_proposals_since s) (record_proposals sv ks q c x xs)"
proof -
  have "keeps (only_proposals_since s)
      (mapM (\<lambda>k. record_lhp_knowledge_artifact sv (enriched_artifact e p k)) xs)" for e p
    using assms(2) by (intro keeps_mapM_in proposals_record) (simp add: enriched_artifact_def merely_proposed_def)
  then show ?thesis
    unfolding record_proposals_def write_lesson_candidate_event_def Let_def
    by (intro keeps_bind k_knowledge_reads proposals_stay keeps_seq keeps_ret) (use assms(1) in auto)
qed

text \<open>
  C18: The knowledge loop proposes and never approves: whatever the case, its outcome and the payload of the intent are, after
  the handler that proposes artifacts, also when it fails halfway, every artifact of the store is one that was there or is
  proposed and pending review. The proposals are the handler's own, or those of a supplied knowledge transport, of which
  it is assumed that it answers with proposed artifacts pending review only and approves none in the store itself (the
  handler does not check what a transport returns); and writing the candidate file is assumed to approve none either.
\<close>

theorem artifacts_only_proposed:
  assumes own: "proposes_only s ks"
    and writing: "\<forall>p e. keeps (only_proposals_since s) (cd_write (ks_candidates ks) p e)"
  shows "only_proposals_since s (snd (knowledge_artifact_handler sv ks i s))"
proof -
  have "keeps (only_proposals_since s) (proposed_or_gap ks q c x)" for q c x
    using own unfolding proposed_or_gap_def propose_artifacts_def proposes_only_def
    by (cases "ks_transport ks") (auto intro!: keeps_intros)
  moreover have "keeps (only_proposals_since s) (case p of (x, xs) \<Rightarrow>
      bindM (record_proposals sv ks q c x xs) (\<lambda>r. retM (Some r)))"
    if "case p of (x, xs) \<Rightarrow> \<forall>k \<in> set xs. merely_proposed k" for q c p
    using that proposals_recorded[OF writing] by (auto intro!: keeps_bind keeps_ret)
  ultimately have "keeps (only_proposals_since s) (knowledge_artifact_handler sv ks i)"
    unfolding knowledge_artifact_handler_def get_atomic_def select_outcome_def Let_def
    by (intro keeps_if keeps_raise keeps_bind keeps_ret keeps_case_option keeps_case_projection keeps_reads
        k_knowledge_reads keeps_after[OF proposed_or_gap_yields[OF own]]) auto
  moreover have "only_proposals_since s s" by (simp add: only_proposals_since_def)
  ultimately show ?thesis by (rule keepsD)
qed

subsection \<open>Bounded context\<close>

lemma summary_bounded: "1 \<le> b \<Longrightarrow> int (length (summary_lines b ls rs)) \<le> b"
proof (induction rs arbitrary: ls)
  case Nil
  then show ?case using text_is_clean[of b "JStr (py_join newline_sep ls)"] by (simp add: clean_text_def)
next
  case (Cons r rs)
  then show ?case by (simp add: Let_def slice_to_def)
qed

lemma char_budget_range: "400 \<le> char_budget n" "char_budget n \<le> 12000"
  by (simp_all add: char_budget_def)

lemma citation_keys: "map safe_key [''doc_id'', ''doc_path'', ''review_status'', ''authority'', ''section'',
    ''repo_revision'', ''export_version'', ''score'', ''authoritative''] =
  [''doc_id'', ''doc_path'', ''review_status'', ''authority'', ''section'',
    ''repo_revision'', ''export_version'', ''score'', ''authoritative'']"
  by code_simp

definition trace_item :: "json \<Rightarrow> json" where
  "trace_item v = sanitize_lhp_payload 2000 4 v"

lemma trace_item_simps: "trace_item (JBool b) = JBool b" "trace_item (JStr t) = JStr (sanitize_lhp_text (JStr t) 2000)"
  by (simp_all add: trace_item_def numeral_eq_Suc)

definition sent_citation :: "search_result \<Rightarrow> jdict" where
  "sent_citation r = map (\<lambda>(k, v). (k, trace_item v)) (as_trace_dict (sr_citation r))"

lemma sanitized_trace_dict:
  "sanitize_lhp_payload 2000 5 (JDict (as_trace_dict (sr_citation r))) = JDict (sent_citation r)"
proof -
  have five: "(5 :: nat) = Suc 4" by simp
  show ?thesis
    using citation_keys unfolding five sanitize_lhp_payload.simps(2)
    by (simp add: as_trace_dict_def sent_citation_def MAX_MAPPING_ITEMS_def flip: trace_item_def)
qed

lemma safe_citations_of_results: "safe_citations (trace_citations rs) = map sent_citation (take 50 rs)"
proof -
  have six: "MAX_PAYLOAD_DEPTH = Suc 5" by (simp add: MAX_PAYLOAD_DEPTH_def)
  have "concat (map (\<lambda>v. case v of JDict d \<Rightarrow> [d] | _ \<Rightarrow> []) (map (\<lambda>r. JDict (sent_citation r)) ys))
      = map sent_citation ys" for ys
    by (induction ys) simp_all
  then show ?thesis
    unfolding safe_citations_def sanitized_def six trace_citations_def sanitize_lhp_payload.simps(2)
    by (simp add: MAX_COLLECTION_ITEMS_def take_map comp_def sanitized_trace_dict)
qed

lemma review_texts: "map (\<lambda>t. sanitize_lhp_text (JStr t) 2000) approved_review_statuses = approved_review_statuses"
  by code_simp

lemma sent_citation_authoritative:
  assumes "is_authoritative (kc_review_status (sr_citation r)) (kc_authority (sr_citation r))"
  shows "jget (sent_citation r) ''authoritative'' = JBool True"
    "jget (sent_citation r) ''review_status'' \<in> JStr ` set approved_review_statuses"
  using assms review_texts
  by (auto simp: sent_citation_def as_trace_dict_def jget_def trace_item_simps is_authoritative_def
      approved_review_statuses_def)

text \<open>
  C19: What a case gets as context is bounded and authoritative: the summary is never longer than the budget and so than
  12000 characters, there are at most fifty citations and no more than were asked for, no more references than
  citations, and every citation, after it was sanitized, says that it is authoritative and reviewed.
\<close>

theorem context_bounded_and_authoritative:
  assumes "local_context loads x q c = Inr r"
  shows "int (length (kx_bounded_summary r)) \<le> char_budget (kq_max_tokens_equivalent q)
    \<and> char_budget (kq_max_tokens_equivalent q) \<le> 12000
    \<and> int (length (kx_citations r)) \<le> min 50 (max 0 (kq_max_artifacts q))
    \<and> length (kx_context_refs r) \<le> length (kx_citations r)
    \<and> list_all (\<lambda>d. jget d ''authoritative'' = JBool True
        \<and> jget d ''review_status'' \<in> JStr ` set approved_review_statuses) (kx_citations r)"
proof -
  obtain rs where rs: "retrieve_case_knowledge loads x (Atomic c) (max 0 (kq_max_artifacts q)) False = Inr rs"
    and r: "kx_citations r = map sent_citation (take 50 rs)"
      "kx_bounded_summary r = bounded_context_summary rs (kq_max_tokens_equivalent q)"
      "kx_context_refs r = context_refs (kx_citations r)"
    using assms by (auto simp: local_context_def Let_def safe_citations_of_results split: sum.splits)
  have "int (length (kx_bounded_summary r)) \<le> char_budget (kq_max_tokens_equivalent q)"
    using summary_bounded char_budget_range(1)[of "kq_max_tokens_equivalent q"]
    by (simp add: r(2) bounded_context_summary_def)
  moreover have "length rs \<le> nat (max 0 (kq_max_artifacts q))"
    using rs searched_length by (simp add: retrieve_case_knowledge_def search_case_context_def)
  moreover have "length (kx_context_refs r) \<le> length (kx_citations r)"
    unfolding r(3) context_refs_def knowledge_refs_def
    by (metis length_filter_le length_map length_take min.cobounded1 min.commute le_trans)
  moreover have "is_authoritative (kc_review_status (sr_citation p)) (kc_authority (sr_citation p))"
    if "p \<in> set rs" for p
    using searched_authoritative that rs
    by (simp add: retrieve_case_knowledge_def search_case_context_def)
  ultimately show ?thesis
    using char_budget_range(2) sent_citation_authoritative
    by (auto simp: r(1) list_all_iff dest: in_set_takeD)
qed

subsection \<open>Instances\<close>

definition bgp_case :: atomic_case where
  "bgp_case = sample_case\<lparr>ac_title := ''bgp session''\<rparr>"

definition bgp_request :: context_request where
  "bgp_request = \<lparr>kq_case_id = ''case_1'', kq_handoff_id = [], kq_objective_key = [], kq_payload = [],
     kq_max_artifacts = 10, kq_max_tokens_equivalent = 3000\<rparr>"

lemma bgp_found:
  "map_sum id (map (\<lambda>r. kc_doc_id (sr_citation r)))
    (retrieve_case_knowledge (\<lambda>_. None) sample_export (Atomic bgp_case) 10 False) = Inr [''d1'']"
  by code_simp

theorem context_bounded_and_authoritative_witness:
  "\<exists>r. local_context (\<lambda>_. None) sample_export bgp_request bgp_case = Inr r \<and> length (kx_citations r) = 1
    \<and> int (length (kx_bounded_summary r)) \<le> char_budget 3000
    \<and> list_all (\<lambda>d. jget d ''authoritative'' = JBool True) (kx_citations r)"
proof -
  obtain rs where rs: "retrieve_case_knowledge (\<lambda>_. None) sample_export (Atomic bgp_case) 10 False = Inr rs"
    and one: "length rs = 1"
    using bgp_found
    by (cases "retrieve_case_knowledge (\<lambda>_. None) sample_export (Atomic bgp_case) 10 False") auto
  then obtain r where r: "local_context (\<lambda>_. None) sample_export bgp_request bgp_case = Inr r"
    and n: "length (kx_citations r) = 1"
    by (auto simp: local_context_def bgp_request_def Let_def safe_citations_of_results)
  from context_bounded_and_authoritative[OF r] r n show ?thesis
    by (auto simp: bgp_request_def list_all_iff)
qed

definition quiet_knowledge :: knowledge_setup where
  "quiet_knowledge = \<lparr>ks_max_artifacts = 10, ks_max_tokens_equivalent = 3000, ks_loads = (\<lambda>_. None),
     ks_open_export = retM sample_export, ks_category = (\<lambda>_. ''unknown''),
     ks_candidates = \<lparr>cd_path = ''/var/lib/noc-agent/knowledge-candidates'', cd_is_dir = True,
       cd_write = (\<lambda>_ _. retM ())\<rparr>, ks_transport = None\<rparr>"

theorem artifacts_only_proposed_witness:
  "proposes_only issue_store quiet_knowledge \<and> only_proposals_since issue_store
    (snd (knowledge_artifact_handler (service.fields default_policy (\<lambda>_. []) 20) quiet_knowledge
      (blank_intent OI_knowledge_artifact_proposed\<lparr>ob_case_id := Some ''case_1''\<rparr>) issue_store))"
  using artifacts_only_proposed[of issue_store quiet_knowledge "service.fields default_policy (\<lambda>_. []) 20"
      "blank_intent OI_knowledge_artifact_proposed\<lparr>ob_case_id := Some ''case_1''\<rparr>"]
  by (simp add: quiet_knowledge_def keeps_ret proposes_only_def)

subsection \<open>Two surprises\<close>

text \<open>
  A request without a handoff is handled as one for the handoff \<open>unknown\<close>: the sanitizer turns the missing identifier
  into that word, which is not empty, so every artifact refers to it and the name \<open>gap\<close> is never used.
\<close>

theorem missing_handoff_becomes_unknown:
  assumes "dict_get (ob_payload i) ''handoff_id'' = None"
  shows "kp_handoff_id (proposal_request_of c i) = ''unknown''"
    "''lhp-handoff:unknown'' \<in> set (source_refs c (kp_handoff_id (proposal_request_of c i)) x)"
    "learning_event_id cid None (kp_handoff_id (proposal_request_of c i))
      = take 180 (''learn_lhp_'' @ sanitize_lhp_token (JStr cid) 80 @ ''_unknown'')"
proof -
  have u: "sanitize_lhp_token (JStr []) 180 = ''unknown''" "sanitize_lhp_token (JStr ''unknown'') 180 = ''unknown''"
    "sanitize_lhp_token (JStr ''unknown'') 80 = ''unknown''" by code_simp+
  show id: "kp_handoff_id (proposal_request_of c i) = ''unknown''"
    using assms u by (simp add: proposal_request_of_def payload_token_def given_value_def)
  show "''lhp-handoff:unknown'' \<in> set (source_refs c (kp_handoff_id (proposal_request_of c i)) x)"
    unfolding id source_refs_def u(2) by (simp add: numeral_eq_Suc)
  show "learning_event_id cid None (kp_handoff_id (proposal_request_of c i))
      = take 180 (''learn_lhp_'' @ sanitize_lhp_token (JStr cid) 80 @ ''_unknown'')"
    unfolding id learning_event_id_def option.case u(3) by simp
qed

text \<open>
  The name of a candidate file comes from identifiers in which the sanitizer leaves slashes and dots, so it can lead out of
  the directory of the candidates.
\<close>

theorem candidate_path_leaves_directory:
  "candidate_path (ks_candidates quiet_knowledge) (learning_event_id ''case_1'' None
      (sanitize_lhp_token (JStr ''x/../../../../../etc/noc'') 180))
    = ''/var/lib/noc-agent/knowledge-candidates/learn_lhp_case_1_x/../../../../../etc/noc.json''"
  unfolding quiet_knowledge_def by code_simp

end
