(* ===== verification/Issue_Client.thy ===== *)
theory Issue_Client
  imports Promotion Hotspots
begin

section \<open>The client of GitHub issues (app/proactive/handoff.py)\<close>

text \<open>
  \<open>GitHubHandoff\<close> opens one candidate issue per marker, or comments on the one that is open, and \<open>GitHubAppAuth\<close> mints and
  keeps the token it calls GitHub with. The HTTP call is an argument: a computation over a world that answers with a
  status and a body, or raises. An address is a text or nothing, and digits are those of ASCII.
\<close>

subsection \<open>Requests\<close>

datatype http_method = Http_get | Http_post

record http_call =
  hc_method :: http_method
  hc_path :: string
  hc_params :: jdict
  hc_json :: jdict

type_synonym 'w requester = "http_call \<Rightarrow> ('w, int \<times> json) comp"

record 'w issue_tracker =
  it_repo :: string
  it_authed :: bool
  it_request :: "'w requester"

definition candidate_labels :: "string list" where
  "candidate_labels = [''loop:candidate'', ''agentic-isp'']"

subsection \<open>One issue per marker\<close>

definition search_call :: "string \<Rightarrow> string \<Rightarrow> http_call" where
  "search_call repo marker = \<lparr>hc_method = Http_get, hc_path = ''/search/issues'',
     hc_params = [(''q'', JStr (''repo:'' @ repo @ '' is:issue is:open label:loop:candidate '' @
         [CHR 0x22] @ marker @ [CHR 0x22])), (''per_page'', JInt 20)], hc_json = []\<rparr>"

definition carries_marker :: "string \<Rightarrow> json \<Rightarrow> bool" where
  "carries_marker marker item = (case item of
     JDict d \<Rightarrow> str_in marker (str_or_empty (jget d ''body'')) | _ \<Rightarrow> False)"

text \<open>The first item that carries the marker; what cannot be iterated raises.\<close>

definition found_issue :: "string \<Rightarrow> int \<times> json \<Rightarrow> exn + jdict option" where
  "found_issue marker answer = (case answer of (status, JDict body) \<Rightarrow>
       if status \<noteq> 200 then Inr None
       else (case iterate_json (given_value body ''items'' (JList [])) of
         Inl e \<Rightarrow> Inl e
       | Inr items \<Rightarrow> Inr (case List.find (carries_marker marker) items of
           Some (JDict d) \<Rightarrow> Some d | _ \<Rightarrow> None))
     | _ \<Rightarrow> Inr None)"

definition find_open_issue :: "'w issue_tracker \<Rightarrow> string \<Rightarrow> ('w, jdict option) comp" where
  "find_open_issue it marker =
     bindM (it_request it (search_call (it_repo it) marker)) (\<lambda>answer. liftM (found_issue marker answer))"

definition address_of :: "jdict \<Rightarrow> string option" where
  "address_of d = (case jget d ''html_url'' of JStr s \<Rightarrow> Some s | _ \<Rightarrow> None)"

definition create_call :: "string \<Rightarrow> string \<Rightarrow> string \<Rightarrow> string list \<Rightarrow> http_call" where
  "create_call repo title body labels = \<lparr>hc_method = Http_post, hc_path = ''/repos/'' @ repo @ ''/issues'',
     hc_params = [], hc_json = [(''title'', JStr (take 240 title)), (''body'', JStr body),
       (''labels'', JList (map JStr (if labels = [] then candidate_labels else labels)))]\<rparr>"

definition created_issue :: "int \<times> json \<Rightarrow> string option" where
  "created_issue answer = (case answer of (status, JDict body) \<Rightarrow>
       if status \<in> {200, 201} then address_of body else None
     | _ \<Rightarrow> None)"

definition create_issue_from_body ::
  "'w issue_tracker \<Rightarrow> string \<Rightarrow> string \<Rightarrow> string list \<Rightarrow> ('w, string option) comp" where
  "create_issue_from_body it title body labels =
     bindM (it_request it (create_call (it_repo it) title body labels)) (\<lambda>answer. retM (created_issue answer))"

definition comment_call :: "string \<Rightarrow> int \<Rightarrow> string \<Rightarrow> http_call" where
  "comment_call repo number comment_text = \<lparr>hc_method = Http_post,
     hc_path = ''/repos/'' @ repo @ ''/issues/'' @ int_str number @ ''/comments'', hc_params = [],
     hc_json = [(''body'', JStr comment_text)]\<rparr>"

definition refresh_issue :: "'w issue_tracker \<Rightarrow> string \<Rightarrow> jdict \<Rightarrow> ('w, string option) comp" where
  "refresh_issue it comment_text issue =
     bindM (liftM (case dict_get issue ''number'' of None \<Rightarrow> Inl (KeyError ''number'') | Some v \<Rightarrow> int_of_json v)) (\<lambda>n.
     seqM (it_request it (comment_call (it_repo it) n comment_text)) (retM (address_of issue)))"

definition open_or_refresh :: "'w issue_tracker \<Rightarrow> issue_request \<Rightarrow> ('w, string option) comp" where
  "open_or_refresh it q =
     bindM (find_open_issue it (ir_marker q)) (\<lambda>existing. case existing of
         Some issue \<Rightarrow> refresh_issue it (ir_refresh_comment q) issue
       | None \<Rightarrow> create_issue_from_body it (ir_title q) (ir_body q) (ir_labels q))"

definition ensure_candidate_issue_from_body :: "'w issue_tracker \<Rightarrow> issue_request \<Rightarrow> ('w, string option) comp" where
  "ensure_candidate_issue_from_body it q =
     (if \<not> it_authed it \<or> it_repo it = [] then retM None
      else except_exception (open_or_refresh it q) (\<lambda>e. retM None))"

subsection \<open>The issue of a hotspot\<close>

definition hotspot_marker :: "hotspot \<Rightarrow> string" where
  "hotspot_marker h = ''proactive-fingerprint:'' @ hotspot_fingerprint h"

definition evidence_bits :: "hotspot_evidence \<Rightarrow> string" where
  "evidence_bits e = ''- '' @ py_join [CHR '' '', middle_dot, CHR '' '']
     (filter (\<lambda>b. b \<noteq> []) [he_label e, he_value e, he_threshold e, he_query e, he_detail e])"

definition line_end :: string where
  "line_end = [char_of (10 :: nat)]"

definition context_lines :: "hotspot \<Rightarrow> string \<Rightarrow> string \<Rightarrow> string list" where
  "context_lines h incident_id manifest =
     [line_end @ ''## Context'',
      ''- resource: '' @ quoted (hs_resource h) @ ''  '' @ [middle_dot] @ ''  category: '' @
        quoted (hotspot_category_str (hs_category h)) @ ''  '' @ [middle_dot] @ ''  severity: '' @
        quoted (hotspot_severity_str (hs_severity h))]
     @ (if incident_id = [] then [] else [''- investigated NOC case: '' @ quoted incident_id])
     @ (if manifest = [] then [] else [''- golden-state manifest: '' @ quoted manifest])"

definition build_issue_body :: "hotspot \<Rightarrow> string \<Rightarrow> string \<Rightarrow> string" where
  "build_issue_body h incident_id manifest = py_join line_end
     ([''_Filed by the AS215932 proactive NOC loop ('' @ hs_rule_id h @ '')._'', [],
       ''## Finding'' @ line_end @ hs_summary h]
      @ (if hs_change_rationale h = [] then []
         else [line_end @ ''## Why a change may be needed'' @ line_end @ hs_change_rationale h])
      @ (if hs_evidence h = [] then [] else (line_end @ ''## Evidence'') # map evidence_bits (hs_evidence h))
      @ (if hs_recommended_checks h = [] then []
         else (line_end @ ''## Recommended checks'') # map (\<lambda>c. ''- '' @ c) (hs_recommended_checks h))
      @ context_lines h incident_id manifest
      @ [line_end @ ''> Read-only proactive finding. Promote to '' @ quoted ''loop:approved'' @
           '' to let the engineering-loop draft a PR; merge stays human-gated.'',
         line_end @ ''<!-- '' @ hotspot_marker h @ '' -->''])"

definition hotspot_issue :: "hotspot \<Rightarrow> string \<Rightarrow> string \<Rightarrow> string \<Rightarrow> issue_request" where
  "hotspot_issue h incident_id manifest now =
     \<lparr>ir_marker = hotspot_marker h, ir_title = take 240 (''[proactive] '' @ hs_title h),
      ir_body = build_issue_body h incident_id manifest,
      ir_refresh_comment = ''Still firing as of '' @ now @ '' (NOC case '' @ quoted (or_str incident_id ''n/a'') @ '').'',
      ir_labels = []\<rparr>"

text \<open>\<open>now\<close> is \<open>utc_now()\<close>.\<close>

definition ensure_candidate_issue ::
  "('w, string) comp \<Rightarrow> 'w issue_tracker \<Rightarrow> hotspot \<Rightarrow> string \<Rightarrow> string \<Rightarrow> ('w, string option) comp" where
  "ensure_candidate_issue now it h incident_id manifest =
     bindM now (\<lambda>t. ensure_candidate_issue_from_body it (hotspot_issue h incident_id manifest t))"

subsection \<open>Tokens of a GitHub App\<close>

text \<open>\<open>time.time()\<close> and the signature of the JSON web token are arguments. A request carries the token it is made with.\<close>

record 'w app_auth =
  aa_repo :: string
  aa_installation_id :: "int option"
  aa_now :: "('w, rat) comp"
  aa_jwt :: "rat \<Rightarrow> exn + string"
  aa_request :: "string \<Rightarrow> 'w requester"

record 'w auth_world =
  aw_cached_token :: string
  aw_expires_at :: rat
  aw_world :: 'w

definition in_auth :: "('w, 'a) comp \<Rightarrow> ('w auth_world, 'a) comp" where
  "in_auth m = zoomM aw_world (\<lambda>w a. a\<lparr>aw_world := w\<rparr>) m"

definition blank_call :: "http_method \<Rightarrow> string \<Rightarrow> http_call" where
  "blank_call m p = \<lparr>hc_method = m, hc_path = p, hc_params = [], hc_json = []\<rparr>"

definition resolve_installation_id :: "'w app_auth \<Rightarrow> string \<Rightarrow> ('w, int) comp" where
  "resolve_installation_id aa jwt =
     bindM (aa_request aa jwt (blank_call Http_get (''/repos/'' @ aa_repo aa @ ''/installation''))) (\<lambda>(status, body).
     let refused = RuntimeError (''could not resolve app installation for '' @ aa_repo aa @
           '' (status '' @ int_str status @ '')'') in
     case body of
       JDict d \<Rightarrow> (case dict_get d ''id'' of
           Some v \<Rightarrow> if status = 200 then liftM (int_of_json v) else raiseM refused
         | None \<Rightarrow> raiseM refused)
     | _ \<Rightarrow> raiseM refused)"

definition token_expiry :: "json \<Rightarrow> rat option" where
  "token_expiry v =
     (if \<not> truthy v then None
      else map_option posix_time (fromisoformat (replace_char (CHR ''Z'') ''+00:00'' (py_str v))))"

definition mint_token :: "'w app_auth \<Rightarrow> string \<Rightarrow> int \<Rightarrow> ('w, string \<times> rat) comp" where
  "mint_token aa jwt installation =
     bindM (aa_request aa jwt (blank_call Http_post
         (''/app/installations/'' @ int_str installation @ ''/access_tokens''))) (\<lambda>(status, body).
     let refused = RuntimeError (''could not mint installation token (status '' @ int_str status @ '')'') in
     case body of
       JDict d \<Rightarrow> (case dict_get d ''token'' of
           Some v \<Rightarrow>
             if status \<notin> {200, 201} then raiseM refused
             else (case token_expiry (jget d ''expires_at'') of
                 Some t \<Rightarrow> if t \<noteq> 0 then retM (py_str v, t)
                   else bindM (aa_now aa) (\<lambda>now. retM (py_str v, now + 3600))
               | None \<Rightarrow> bindM (aa_now aa) (\<lambda>now. retM (py_str v, now + 3600)))
         | None \<Rightarrow> raiseM refused)
     | _ \<Rightarrow> raiseM refused)"

definition fresh_token :: "'w app_auth \<Rightarrow> rat \<Rightarrow> ('w, string \<times> rat) comp" where
  "fresh_token aa now =
     bindM (liftM (aa_jwt aa now)) (\<lambda>jwt.
     bindM (case aa_installation_id aa of
         Some n \<Rightarrow> if n \<noteq> 0 then retM n else resolve_installation_id aa jwt
       | None \<Rightarrow> resolve_installation_id aa jwt) (\<lambda>installation.
     mint_token aa jwt installation))"

definition app_token :: "'w app_auth \<Rightarrow> ('w auth_world, string) comp" where
  "app_token aa =
     bindM (in_auth (aa_now aa)) (\<lambda>now.
     bindM (getM (\<lambda>a. (aw_cached_token a, aw_expires_at a))) (\<lambda>(cached, expires).
     if cached \<noteq> [] \<and> now < expires - 300 then retM cached
     else bindM (in_auth (fresh_token aa now)) (\<lambda>(tok, expires).
       seqM (modM (\<lambda>a. a\<lparr>aw_cached_token := tok, aw_expires_at := expires\<rparr>)) (retM tok))))"

subsection \<open>Which client the environment asks for\<close>

datatype client_choice = Client_app string string "int option" | Client_token string | Client_none

text \<open>\<open>read\<close> is the text of a file, none when it cannot be read; a backslash before an n stands for a line end.\<close>

fun unescape_lines :: "string \<Rightarrow> string" where
  "unescape_lines (c # d # s) =
     (if c = CHR 0x5C \<and> d = CHR ''n'' then char_of (10 :: nat) # unescape_lines s
      else c # unescape_lines (d # s))"
| "unescape_lines s = s"

definition read_app_private_key :: "(string \<Rightarrow> string) \<Rightarrow> (string \<Rightarrow> string option) \<Rightarrow> string" where
  "read_app_private_key env read =
     (let path = py_strip (env ''NOC_GITHUB_APP_PRIVATE_KEY_PATH'') in
      if path \<noteq> [] then (case read path of None \<Rightarrow> [] | Some t \<Rightarrow> py_strip t)
      else py_strip (unescape_lines (env ''NOC_GITHUB_APP_PRIVATE_KEY'')))"

definition handoff_from_env :: "(string \<Rightarrow> string) \<Rightarrow> (string \<Rightarrow> string option) \<Rightarrow> client_choice" where
  "handoff_from_env env read =
     (let app_id = py_strip (env ''NOC_GITHUB_APP_ID''); key = read_app_private_key env read;
          installation = py_strip (env ''NOC_GITHUB_APP_INSTALLATION_ID'');
          tok = py_strip (env ''NOC_GITHUB_TOKEN'')
      in if app_id \<noteq> [] \<and> key \<noteq> []
         then Client_app app_id key (if installation \<noteq> [] \<and> list_all is_digit installation
           then map_option int (parse_digits installation) else None)
         else if tok \<noteq> [] then Client_token tok else Client_none)"

section \<open>What the client guarantees\<close>

text \<open>
  The client is run against a tracker that logs its calls and may answer each by everything that happened before. Issues are
  counted in the log: calls that create one and were answered so.
\<close>

subsection \<open>A tracker with a log\<close>

type_synonym http_entry = "http_call \<times> (exn + int \<times> json)"

definition logged_request :: "(http_call \<Rightarrow> http_entry list \<Rightarrow> exn + int \<times> json) \<Rightarrow> http_entry list requester" where
  "logged_request answers c = (\<lambda>past. (answers c past, past @ [(c, answers c past)]))"

definition opens_issue :: "string \<Rightarrow> string \<Rightarrow> http_entry \<Rightarrow> bool" where
  "opens_issue repo marker e \<longleftrightarrow> (case e of (c, a) \<Rightarrow>
     hc_method c = Http_post \<and> hc_path c = ''/repos/'' @ repo @ ''/issues''
     \<and> carries_marker marker (JDict (hc_json c))
     \<and> (case a of Inr (status, JDict body) \<Rightarrow> status \<in> {200, 201} | _ \<Rightarrow> False))"

definition opened :: "string \<Rightarrow> string \<Rightarrow> http_entry list \<Rightarrow> nat" where
  "opened repo marker past = length (filter (opens_issue repo marker) past)"

text \<open>
  What the client relies on: the search is up to date, so that it is answered with an open issue that carries the marker once
  one was opened. GitHub documents what the search matches; that its index has caught up between two requests is an
  assumption.
\<close>

definition search_finds :: "(http_call \<Rightarrow> http_entry list \<Rightarrow> exn + int \<times> json) \<Rightarrow> string \<Rightarrow> string \<Rightarrow> bool" where
  "search_finds answers repo marker \<longleftrightarrow> (\<forall>past. opened repo marker past \<noteq> 0 \<longrightarrow>
     (\<exists>body items. answers (search_call repo marker) past = Inr (200, JDict body)
        \<and> dict_get body ''items'' = Some (JList items) \<and> list_ex (carries_marker marker) items))"

lemma logged_app: "logged_request answers c past = (answers c past, past @ [(c, answers c past)])"
  by (simp add: logged_request_def)

lemma opened_append: "opened repo m (past @ [e]) = opened repo m past + (if opens_issue repo m e then 1 else 0)"
  by (simp add: opened_def)

lemma not_opening:
  "\<not> opens_issue repo m (search_call r k, a)" "\<not> opens_issue repo m (comment_call repo n t, a)"
  by (simp_all add: opens_issue_def search_call_def comment_call_def)

lemma found_carrying:
  assumes "dict_get body ''items'' = Some (JList items)" "list_ex (carries_marker m) items"
  shows "\<exists>d. found_issue m (200, JDict body) = Inr (Some d)"
proof -
  obtain x where x: "List.find (carries_marker m) items = Some x" "carries_marker m x"
    using assms(2) by (cases "List.find (carries_marker m) items") (auto simp: find_None_iff find_Some_iff list_ex_iff)
  then obtain d where "x = JDict d" by (cases x) (simp_all add: carries_marker_def)
  with x assms(1) show ?thesis by (simp add: found_issue_def iterate_json_def given_value_def)
qed

subsection \<open>One open issue per marker\<close>

definition tracker :: "(http_call \<Rightarrow> http_entry list \<Rightarrow> exn + int \<times> json) \<Rightarrow> string \<Rightarrow> http_entry list issue_tracker" where
  "tracker answers repo = \<lparr>it_repo = repo, it_authed = True, it_request = logged_request answers\<rparr>"

lemma tracker_simps [simp]: "it_repo (tracker answers repo) = repo" "it_authed (tracker answers repo)"
    "it_request (tracker answers repo) = logged_request answers"
  by (simp_all add: tracker_def)

lemma ensure_log:
  "snd (ensure_candidate_issue_from_body (tracker answers repo) q past) =
    (if repo = [] then past else snd (open_or_refresh (tracker answers repo) q past))"
  by (auto simp: ensure_candidate_issue_from_body_def except_exception_def catchM_def retM_app raiseM_app
      split: sum.split prod.split)

lemma refresh_log:
  "opened repo m (snd (refresh_issue (tracker answers repo) t d past)) = opened repo m past"
  by (auto simp: refresh_issue_def bindM_app seqM_app liftM_app retM_app logged_app opened_append not_opening
      split: sum.split)

lemma create_log:
  "opened repo m (snd (create_issue_from_body (tracker answers repo) a b l past)) \<le> Suc (opened repo m past)"
  by (auto simp: create_issue_from_body_def bindM_app retM_app logged_app opened_append split: sum.split)

definition searched :: "(http_call \<Rightarrow> http_entry list \<Rightarrow> exn + int \<times> json) \<Rightarrow> string \<Rightarrow> string \<Rightarrow> http_entry list \<Rightarrow> http_entry list" where
  "searched answers repo m past = past @ [(search_call repo m, answers (search_call repo m) past)]"

lemma opened_searched [simp]: "opened repo m (searched answers r k past) = opened repo m past"
  by (simp add: searched_def opened_append not_opening)

lemma find_run:
  "find_open_issue (tracker answers repo) m past = (case answers (search_call repo m) past of
     Inl e \<Rightarrow> (Inl e, searched answers repo m past)
   | Inr a \<Rightarrow> (found_issue m a, searched answers repo m past))"
  by (simp add: find_open_issue_def bindM_app liftM_app logged_app searched_def split: sum.split)

lemma open_or_refresh_run:
  "snd (open_or_refresh (tracker answers repo) q past) = (case answers (search_call repo (ir_marker q)) past of
     Inl e \<Rightarrow> searched answers repo (ir_marker q) past
   | Inr a \<Rightarrow> (case found_issue (ir_marker q) a of
       Inl e \<Rightarrow> searched answers repo (ir_marker q) past
     | Inr (Some d) \<Rightarrow> snd (refresh_issue (tracker answers repo) (ir_refresh_comment q) d
         (searched answers repo (ir_marker q) past))
     | Inr None \<Rightarrow> snd (create_issue_from_body (tracker answers repo) (ir_title q) (ir_body q) (ir_labels q)
         (searched answers repo (ir_marker q) past))))"
  unfolding open_or_refresh_def bindM_app find_run by (simp split: sum.split option.split)

lemma open_or_refresh_log:
  "opened repo m (snd (open_or_refresh (tracker answers repo) q past)) \<le> Suc (opened repo m past)"
  using create_log[of repo m answers "ir_title q" "ir_body q" "ir_labels q" "searched answers repo (ir_marker q) past"]
  unfolding open_or_refresh_run by (simp add: refresh_log split: sum.split option.split)

lemma opened_once_more:
  assumes "search_finds answers repo (ir_marker q)" "opened repo (ir_marker q) past \<le> 1"
  shows "opened repo (ir_marker q) (snd (ensure_candidate_issue_from_body (tracker answers repo) q past)) \<le> 1"
proof (cases "opened repo (ir_marker q) past = 0")
  case True
  then show ?thesis
    using open_or_refresh_log[of repo "ir_marker q" answers q past] by (auto simp: ensure_log)
next
  case False
  then obtain body items where "answers (search_call repo (ir_marker q)) past = Inr (200, JDict body)"
    and "dict_get body ''items'' = Some (JList items)" "list_ex (carries_marker (ir_marker q)) items"
    using assms(1) unfolding search_finds_def by blast
  moreover from this(2,3) obtain d where "found_issue (ir_marker q) (200, JDict body) = Inr (Some d)"
    using found_carrying by blast
  ultimately show ?thesis
    using assms(2) by (auto simp: ensure_log open_or_refresh_run refresh_log)
qed


text \<open>A tracker that remembers what it opened.\<close>

definition remembering :: "string \<Rightarrow> string \<Rightarrow> http_call \<Rightarrow> http_entry list \<Rightarrow> exn + int \<times> json" where
  "remembering repo m c past = Inr (if hc_method c = Http_get
     then (200, JDict [(''items'', JList (map (\<lambda>e. JDict ((''number'', JInt 1) # hc_json (fst e)))
       (filter (opens_issue repo m) past)))])
     else (201, JDict [(''html_url'', JStr ''https://github.com/noc/issues/1'')]))"

lemma remembering_finds: "search_finds (remembering repo m) repo m"
proof -
  have "carries_marker m (JDict ((''number'', JInt 1) # hc_json (fst e)))" if "opens_issue repo m e" for e
    using that by (cases e) (auto simp: opens_issue_def carries_marker_def jget_def)
  then show ?thesis
    by (auto simp: search_finds_def opened_def remembering_def search_call_def list_ex_iff filter_empty_conv)
qed

definition sample_issue :: issue_request where
  "sample_issue = \<lparr>ir_marker = ''noc-case-id:case_1'', ir_title = ''Case'', ir_body = ''noc-case-id:case_1'',
     ir_refresh_comment = ''again'', ir_labels = []\<rparr>"


text \<open>
  A search that is refused (a rate limit, a missing permission) counts as one that found nothing: the client asks for
  another issue although one may be open.
\<close>

theorem refused_search_opens_another:
  assumes "repo \<noteq> []" and "answers (search_call repo (ir_marker q)) past = Inr (403, body)"
  shows "\<exists>a. snd (ensure_candidate_issue_from_body (tracker answers repo) q past)
    = searched answers repo (ir_marker q) past @ [(create_call repo (ir_title q) (ir_body q) (ir_labels q), a)]"
  using assms
  by (simp add: ensure_log open_or_refresh_run found_issue_def create_issue_from_body_def bindM_app logged_app
      split: json.split sum.split)

text \<open>The body of a hotspot's issue carries its marker, so the assumption on the search speaks about it.\<close>

lemma join_last: "\<exists>a. py_join sep (xs @ [x]) = a @ x"
proof (induction xs)
  case (Cons y ys)
  then obtain a where a: "py_join sep (ys @ [x]) = a @ x" by blast
  obtain z zs where z: "ys @ [x] = z # zs" by (cases ys) simp_all
  have "py_join sep ((y # ys) @ [x]) = (y @ sep @ a) @ x" using a by (simp add: z)
  then show ?case by blast
qed simp

lemma hotspot_body_carries_marker: "\<exists>a b. build_issue_body h i manifest = a @ hotspot_marker h @ b"
proof -
  have two: "\<exists>a. py_join sep (xs @ [y, x]) = a @ x" for sep y x :: string and xs
    using join_last[of sep "xs @ [y]" x] by simp
  have "\<exists>xs y. build_issue_body h i manifest
      = py_join line_end (xs @ [y, ((line_end @ ''<!-- '') @ hotspot_marker h) @ '' -->''])"
    unfolding build_issue_body_def append_assoc[symmetric] by (intro exI) (rule refl)
  then obtain xs y where "build_issue_body h i manifest
      = py_join line_end (xs @ [y, ((line_end @ ''<!-- '') @ hotspot_marker h) @ '' -->''])" by blast
  moreover obtain a where "py_join line_end (xs @ [y, ((line_end @ ''<!-- '') @ hotspot_marker h) @ '' -->''])
      = a @ ((line_end @ ''<!-- '') @ hotspot_marker h) @ '' -->''" using two by blast
  ultimately have "build_issue_body h i manifest = (a @ line_end @ ''<!-- '') @ hotspot_marker h @ '' -->''" by simp
  then show ?thesis by blast
qed

subsection \<open>Tokens\<close>

text \<open>A token is handed out again only while more than five minutes of it are left; otherwise a new one is minted and kept.\<close>

lemma token_fresh:
  assumes "app_token aa a = (Inr t, a')" and "aa_now aa (aw_world a) = (Inr now, w)"
  shows "t = aw_cached_token a' \<and> (now < aw_expires_at a' - 300 \<and> aw_world a' = w
    \<or> (\<exists>u. fresh_token aa now w = (Inr (t, aw_expires_at a'), u) \<and> aw_world a' = u))"
  using assms
  by (auto simp: app_token_def in_auth_def bindM_app zoomM_def getM_app modM_app seqM_app retM_app
      split: if_splits prod.splits sum.splits)

end
