(* ===== verification/Spec2Isabelle.thy ===== *)
theory Spec2Isabelle
  imports System_Spec Reports_Spec Delivery_Spec Verifier_Spec Notifications Task_Lock Loop_Spec Scan_Faults Scan_Texts Disk_Spec Icinga_Ack
    Approval_Reached Grant_Spec Graph_Flaws Handlers_Spec Report_Text Case_Cards Knowledge_Spec
    Issue_Client
begin

text \<open>
  The NOC agent, modelled and verified: its case service, its proactive loop, its investigation graph and the
  delivery of its messages.

  The program. The agent watches a network. Monitoring systems send alerts, a loop looks for trouble by itself, a graph
  of specialists investigates, and other loops (engineering, knowledge) are handed work. What the agent remembers about an
  incident, and what it has promised to do about it, lives in \<open>src/app/cases\<close>. The parts, and how they call each other:

    monitoring webhooks turn into observations (\<open>cases/notifications.py\<close>);
    \<open>CaseService\<close> (\<open>cases/service.py\<close>) turns observations, reports, investigations, operator actions and the
      messages of the Loop Handoff Protocol (LHP) into changes of cases, events, handoffs and outbox intents; it
      writes nothing but through the store;
    \<open>InMemoryCaseStore\<close> (\<open>cases/store.py\<close>) keeps the tables and makes each operation atomic under a
      task-reentrant lock;
    \<open>OutboxProcessor\<close> (\<open>cases/outbox.py\<close>) claims intents by compare-and-set and runs the handlers of \<open>cases/handlers.py\<close>,
      which send reports, updates and reminders and open GitHub issues (\<open>proactive/handoff.py\<close>); a report is a card that
      is edited in place (\<open>case_cards.py\<close>);
    the attention scheduler, handler and sender (\<open>cases/attention_*.py\<close>) deliver the notifications of watched cases
      through that outbox, under a lease per case;
    \<open>CorrelationService\<close> (\<open>cases/correlation.py\<close>) groups cases under a meta case, \<open>CaseVerifier\<close> (\<open>cases/verifier.py\<close>) checks the
      objectives of handoffs and is the one path on which a handoff becomes verified;
    \<open>ProactiveLoop\<close> (\<open>proactive/loop.py\<close>) runs cycles: it scans Prometheus by rules (\<open>scanner.py\<close>), filters by its
      suppressions (\<open>suppressions.py\<close>), asks the gate (\<open>governance.py\<close>) and the daily ledger under a run lock
      (\<open>ledger.py\<close>), investigates, reports and observes into the case service; disk hotspots become handoffs (\<open>proactive/lhp.py\<close>),
      minor ones are snoozed and acknowledged in Icinga (\<open>icinga_ack.py\<close>);
    the investigation graph (\<open>graph/graph.py\<close>, \<open>graph/nodes.py\<close>, \<open>graph_runtime.py\<close>) takes an alert to a diagnosis under the contract
      of \<open>agents/triage.py\<close>, to a proposal, an approval by an operator or a standing grant, the execution and its
      verification; it remembers through the case service (\<open>cases/graph_memory.py\<close>);
    the knowledge loop (\<open>knowledge\<close>) answers requests of cases out of a pinned export and proposes what was learnt, as artifacts of
      the store and files of lesson candidates, for humans to review.

  How code becomes definitions. A method that reads and writes state and may raise is a computation \<open>('s, 'a) comp\<close>: a function
  from the state to an exception or a value, and the state it leaves behind; a raise does not roll back. The state is the
  store (\<open>'a st\<close>), the files, clock and fields of the loop (\<open>('w, 'a) lp\<close>) or the file of a card. A \<open>dict\<close> is an
  association list in insertion order, a pydantic model a record with one field per field, a \<open>Literal\<close> a datatype, a
  validator a function from the raw record to an error or a record, and \<open>datetime.now\<close>, \<open>time.time\<close> and \<open>uuid4\<close> draw
  from supplies that are part of the state, so that every theorem holds for every clock and every source of identifiers, repeating ones
  included, unless it says otherwise. Python's integers are unbounded and are \<open>int\<close>; the overflows of \<open>datetime\<close> and
  \<open>timedelta\<close> are branches. No definition needs fuel: every loop of the modelled code runs over a list or a bounded
  depth, the matcher of the patterns has a termination proof, and the loop of the redaction (\<open>redact_marker\<close>), which searches again
  from the start, is a partial function, of which it is proved on which texts it returns and on which it never does; the loops that never end (\<open>verifier_loop\<close>, the
  polling of the workers, the loop around the cycles) are modelled by one turn.

  Idealisations. A float is the rational number it denotes, or an infinity or no number; its arithmetic is exact and its
  range unbounded (\<open>float\<close> of an integer beyond the largest double, an \<open>OverflowError\<close> that ends the rule of the scan it
  happens in, is a value here). A confidence and the revision of a card are never no number. Text is
  modelled on an alphabet of ASCII, the em dash and three other characters; only the redaction takes the lower case of a
  character as an argument, because its course depends on it. A time without an offset is UTC. Pydantic's coercion of values
  of another type is not modelled: records are built of values of their types, and the state of a workflow is typed, without
  the fields no node reads. Inode numbers are not reused. The rules of a scan run one after the other. The callbacks of
  the loop do not touch its files. Awaits between operations are sequence points; only the two locks, the run lock and the steps of
  the system are interleaved explicitly.

  The theories, from the bottom.

    \<open>Prelude\<close>: exceptions, computations, their preservation rules (\<open>keeps_intros\<close>) and unfolding rules (\<open>comp_simps\<close>), ordered
      dictionaries, Python's list idioms.
    \<open>Py_Text\<close>, \<open>Py_Json\<close>, \<open>Py_Hash\<close>, \<open>Py_Time\<close>, \<open>Py_Regex\<close>, \<open>Py_Float\<close>, \<open>Py_Url\<close>: what the code uses of the standard
      library. Proved: the calendar and the time formats round trip, the lengths of digests.
    \<open>Models\<close>, \<open>Policy\<close>, \<open>Lhp_Sanitize\<close>, \<open>Lhp\<close>, \<open>Attention\<close>: the enumerations, records, constructors and validators of the case service, the
      sanitizers and signatures, the transition table, when a case is due for a notification.
    \<open>Task_Lock\<close> (\<open>_TaskReentrantLock\<close>): the lock as a step relation between awaits; it is what lets the other
      theories take a store operation as one step.
    \<open>Store_State\<close>, \<open>Store_Cases\<close>, \<open>Store_Outbox\<close>, \<open>Store_Handoffs\<close>: the state and every operation of \<open>InMemoryCaseStore\<close>.
      \<open>Store_Invariant\<close>, \<open>Store_Growth\<close>: consistency and growth, primitive write by primitive write. \<open>Write_Once\<close>: the interfaces
      \<open>write_once\<close>, \<open>write_once_stable\<close> and \<open>claims\<close>. \<open>Store_Spec\<close>: the store as a state machine, with its reachable states
      and the interpretations of the write-once tables. \<open>Handoff_Spec\<close>: the life cycle of handoffs.
    \<open>Service\<close>, \<open>Service_Reports\<close>, \<open>Service_Lhp\<close>, \<open>Outbox\<close>, \<open>Attention_Delivery\<close>, \<open>Notifications\<close>, \<open>Correlation\<close>, \<open>Verifier\<close>,
      \<open>Graph_Memory\<close>: the components above the store. \<open>Service_Contract\<close>: the interface \<open>store_contract\<close> between them and
      the store. Inside it every operation of theirs is shown to keep whatever the store operations keep; it is
      interpreted on consistency, on growth and, in \<open>System_Spec\<close>, on being a run of store operations.
      \<open>Service_Spec\<close>, \<open>Reports_Spec\<close>, \<open>Outbox_Spec\<close>, \<open>Delivery_Spec\<close>, \<open>Verifier_Spec\<close>, \<open>Graph_Memory_Spec\<close>: what each guarantees.
      \<open>System_Spec\<close>: the components together.
    \<open>Report_Text\<close>, \<open>Handlers\<close>, \<open>Case_Cards\<close>: the texts of the handlers of the outbox and the limits of a message, the handlers, and the
      cards, which never go back. \<open>Handlers_Spec\<close> extends the interface by the records of deliveries (\<open>handler_contract\<close>) and
      shows that the worker with the real handlers is a step of the system. \<open>Issue_Client\<close>: the client of GitHub issues, which opens
      one issue per marker, and the tokens it calls with.
    \<open>Retrieval\<close>, \<open>Promotion\<close>, \<open>Knowledge_Handlers\<close>: searching an export and what is cited, lesson candidates and when their redaction
      returns and leaves no marker, and the handlers of the knowledge loop. \<open>Knowledge_Spec\<close>: these keep what the interface
      keeps, and they only propose.
    \<open>Hotspots\<close>, \<open>Loop_State\<close>, \<open>Ledger\<close>, \<open>Suppressions\<close>, \<open>Governance\<close>, \<open>Investigations\<close>, \<open>Proactive_Loop\<close>: the proactive loop up to
      its cycle; \<open>Disk_Handoff\<close>, \<open>Icinga_Ack\<close>: what it asks of others; \<open>Run_Lock\<close>: the run lock one system call at a time,
      for any number of processes. \<open>Run_Lock_Spec\<close>, \<open>Budget_Spec\<close>, \<open>Loop_Spec\<close>, \<open>Disk_Spec\<close>: what they guarantee.
    \<open>Scanner\<close> and \<open>Routing\<close>: the rules, and where an alert goes. \<open>Yields\<close>: what a computation yields. \<open>Scanner_Rules\<close>,
      \<open>Scanner_Spec\<close>, \<open>Scan_Faults\<close>, \<open>Scan_Texts\<close>: what a scan finds, that it ends whatever Prometheus answers, and what its texts let out.
    \<open>Graph_History\<close>, \<open>Diagnosis\<close>, \<open>Remediation\<close>, \<open>Execution\<close>, \<open>Graph_Run\<close>: the nodes of the graph in their order, and a run with its pause
      and the decision that resumes it. \<open>Diagnosis_Spec\<close>, \<open>Approval_Reached\<close>, \<open>Grant_Spec\<close>, \<open>Graph_Flaws\<close>: the contract of a
      synthesis, that a validated diagnosis reaches the approval, what runs without an operator, and what goes wrong.

  What the groups of properties show.

    The system. A call of any component is a sequence of store operations, so in every reachable state, however the components
    interleave, tables, indices and logs agree, history only grows, and a handoff runs its course along the
    transition table. The worker with its real handlers is one of those components.
    Cases. One case per identity; only positive evidence resolves; an acknowledgement ends with a recurrence or an escalation;
    the graph changes the fields it owns only, and reads back what it wrote.
    Side effects. Intents are claimed by one worker; the outcome of a lost claim is discarded; attention is delivered once per
    sequence number, under an exclusive lease; the issue of a handoff is opened once, and one issue per marker; what was not delivered is
    not stamped; messages keep their limits; a card never shows an older revision.
    Knowledge. A search cites reviewed and authoritative documents by falling score; the context of a case is bounded; the
    redaction returns and leaves no marker where lowering a text keeps its length; the handlers propose and never approve.
    Verification. A handoff is verified on evidence only, never by an update.
    The loop. No more investigations than the daily limit; one cycle at a time; suppressions hide what they cover and nothing
    else; a scan returns, ranked and clean; a disk request is not repeated. The run lock excludes when its files
    are written whole, and one operation is the same as its system calls in a row.
    The graph. A synthesis that is accepted keeps the contract; a confident diagnosis rests on a measurement; without an operator only
    one acknowledgement of one warning runs, and only under a grant; nothing runs without an approval and the switch.
    Untrusted input. What the sanitizers let through is bounded and clean.
    Defects. Some theorems state behaviour that is not what the code means to do. As properties: a handoff stranded when its
    objectives pass too early, an operator's acknowledgement that resolves the case and is void with the next observation,
    a failed action reported as verified and recorded as resolved, and a redaction that never returns. Beside them: an ignore list that does not compile reads as all clear
    (\<open>broken_ignore_list_reads_as_clear\<close>), two processes may hold the run lock (\<open>run_lock_race\<close>), two rules let raw label
    text out (\<open>bgp_merge_skips_scrubbing\<close>, \<open>tls_target_in_clear\<close>), samples of the Prometheus API never verify a restart
    (\<open>pair_samples_never_verify\<close>), a refused search of GitHub counts as one without hits (\<open>refused_search_opens_another\<close>), the check for drift finds nothing (\<open>drift_check_finds_nothing\<close>), a creation that is not atomic, an
    outcome that resolves another case's handoff, a cancelled cycle that forgets its stamps
    (\<open>cancellation_forgets_stamps\<close>), an empty acknowledgement that mutes everything (\<open>empty_ack_mutes_everything\<close>), an empty
    identifier that turns into a name (also \<open>missing_handoff_becomes_unknown\<close>), a search for the word none
    (\<open>missing_symptoms_are_searched\<close>), a file name that leads out of its directory (\<open>candidate_path_leaves_directory\<close>), and two
    gaps of the sanitizers.

  Parameters. Transports (the notifiers, the HTTP calls and the signature of the client of GitHub issues, which itself is an
  argument of the handlers, the calls that create and edit a card), the tools of the MCP
  server, the Prometheus query, the agents, the investigator, the checkpointer of the graph library, the rows of the knowledge export and its opening, the write of a candidate
  file, the checker of the verifier, the classification of exceptions, the validation of a stored request and the environment are arguments of the
  definitions that use them. Where a theorem assumes something of one (that it reaches the store through its
  operations, or writes nothing), the assumption is a premise, and its witness discharges it for a concrete function.

  Not modelled, and why. \<open>cases/postgres.py\<close> and \<open>db\<close> are SQL text whose meaning is that of a database outside the repository.
  \<open>cases/runtime.py\<close>, \<open>health.py\<close>, \<open>report_spool.py\<close>, \<open>replay.py\<close> and most of \<open>reporting.py\<close> wire the parts together and spool
  files. \<open>main.py\<close> (but for one response), \<open>nocctl.py\<close>, \<open>discord*.py\<close> and \<open>mail*.py\<close> are routes, commands and transports. \<open>knowledge_shadow.py\<close> compares
  retrievals for the log. \<open>agents\<close>, \<open>tools\<close>, \<open>mcp_runtime.py\<close>, \<open>model_*.py\<close>, \<open>quota.py\<close> and \<open>agent_core_trace.py\<close> are prompts, clients of language
  models and their accounting. \<open>proactive/memory.py\<close>, \<open>insights.py\<close> and \<open>investigate.py\<close> are callbacks of the loop.
  \<open>graph/checkpointing.py\<close> connects a library to its database. \<open>config.py\<close> enters as the settings its users
  read. The delivery guard of a handoff is a lock without data. Metric counters and log lines are left out.
\<close>

end
